(* ===== verification/Prelude.thy ===== *)
theory Prelude
  imports Complex_Main "HOL-Library.Char_ord"
begin

text \<open>
  Shared vocabulary of the bankserver development: programs that read and change a state and may
  throw (with a small weakest-precondition calculus), JavaScript numbers and strings as far as
  the code uses them, insertion-ordered maps (JavaScript's \<open>Map\<close>) and the list lemmas that carry
  the proofs about database tables.
\<close>

named_theorems wp_rules \<open>equations that push a weakest precondition through a program\<close>
named_theorems dom_defs \<open>definitions of the domain operations, unfolded together\<close>

section \<open>Programs that may throw\<close>

text \<open>
  A use case reads and changes a state \<open>'s\<close>, returns a value or throws. \<open>Inl e\<close> is the thrown
  error; the state after a throw is kept, since only a database transaction undoes anything.
\<close>

type_synonym ('s, 'e, 'a) prog = "'s \<Rightarrow> ('e + 'a) \<times> 's"

definition ret :: "'a \<Rightarrow> ('s, 'e, 'a) prog" where
  "ret x = (\<lambda>s. (Inr x, s))"

definition raise :: "'e \<Rightarrow> ('s, 'e, 'a) prog" where
  "raise e = (\<lambda>s. (Inl e, s))"

definition bnd :: "('s, 'e, 'a) prog \<Rightarrow> ('a \<Rightarrow> ('s, 'e, 'b) prog) \<Rightarrow> ('s, 'e, 'b) prog" where
  "bnd m k = (\<lambda>s. case m s of (Inl e, s') \<Rightarrow> (Inl e, s') | (Inr x, s') \<Rightarrow> k x s')"

abbreviation thn :: "('s, 'e, 'a) prog \<Rightarrow> ('s, 'e, 'b) prog \<Rightarrow> ('s, 'e, 'b) prog" where
  "thn m n \<equiv> bnd m (\<lambda>_. n)"

definition throwIf :: "bool \<Rightarrow> 'e \<Rightarrow> ('s, 'e, unit) prog" where
  "throwIf c e = (if c then raise e else ret ())"

definition lift :: "'e + 'a \<Rightarrow> ('s, 'e, 'a) prog" where
  "lift r = (\<lambda>s. (r, s))"

definition gets :: "('s \<Rightarrow> 'a) \<Rightarrow> ('s, 'e, 'a) prog" where
  "gets f = (\<lambda>s. (Inr (f s), s))"

definition modify :: "('s \<Rightarrow> 's) \<Rightarrow> ('s, 'e, unit) prog" where
  "modify f = (\<lambda>s. (Inr (), f s))"

text \<open>\<open>if (!x) throw e\<close>, continuing with the value that was found.\<close>

definition need :: "'a option \<Rightarrow> 'e \<Rightarrow> ('s, 'e, 'a) prog" where
  "need x e = (case x of None \<Rightarrow> raise e | Some y \<Rightarrow> ret y)"

text \<open>\<open>try { m } catch { h }\<close>, where every \<open>Inl\<close> is a thrown error.\<close>

definition catchAny :: "('s, 'e, 'a) prog \<Rightarrow> ('e \<Rightarrow> ('s, 'e, 'a) prog) \<Rightarrow> ('s, 'e, 'a) prog" where
  "catchAny m h = (\<lambda>s. case m s of (Inl e, s') \<Rightarrow> h e s' | (Inr x, s') \<Rightarrow> (Inr x, s'))"

fun forEach :: "'x list \<Rightarrow> ('x \<Rightarrow> ('s, 'e, unit) prog) \<Rightarrow> ('s, 'e, unit) prog" where
  "forEach [] f = ret ()"
| "forEach (x # xs) f = thn (f x) (forEach xs f)"

fun foldProg :: "'x list \<Rightarrow> ('acc \<Rightarrow> 'x \<Rightarrow> ('s, 'e, 'acc) prog) \<Rightarrow> 'acc \<Rightarrow> ('s, 'e, 'acc) prog" where
  "foldProg [] f a = ret a"
| "foldProg (x # xs) f a = bnd (f a x) (foldProg xs f)"

text \<open>Pure results compose the same way.\<close>

definition andThen :: "'e + 'a \<Rightarrow> ('a \<Rightarrow> 'e + 'b) \<Rightarrow> 'e + 'b" where
  "andThen r k = (case r of Inl e \<Rightarrow> Inl e | Inr x \<Rightarrow> k x)"

definition check :: "bool \<Rightarrow> 'e \<Rightarrow> 'e + unit" where
  "check c e = (if c then Inr () else Inl e)"

lemma andThen_simps [simp]:
  "andThen (Inl e) k = Inl e" "andThen (Inr x) k = k x"
  by (simp_all add: andThen_def)

lemma andThen_Inr_iff: "andThen r k = Inr y \<longleftrightarrow> (\<exists>x. r = Inr x \<and> k x = Inr y)"
  by (cases r) auto

lemma andThen_Inl_iff: "andThen r k = Inl e \<longleftrightarrow> r = Inl e \<or> (\<exists>x. r = Inr x \<and> k x = Inl e)"
  by (cases r) auto

lemma check_simps [simp]:
  "check True e = Inr ()" "check False e = Inl e"
  "check c e = Inr u \<longleftrightarrow> c" "check c e = Inl e' \<longleftrightarrow> \<not> c \<and> e' = e"
  by (auto simp: check_def)

subsection \<open>Weakest preconditions\<close>

text \<open>
  \<open>wp m Q E s\<close>: run from \<open>s\<close>, the program either returns \<open>x\<close> in a state with \<open>Q x\<close> or throws
  \<open>e\<close> in a state with \<open>E e\<close>. Programs are total, so there is no third case.
\<close>

definition wp :: "('s, 'e, 'a) prog \<Rightarrow> ('a \<Rightarrow> 's \<Rightarrow> bool) \<Rightarrow> ('e \<Rightarrow> 's \<Rightarrow> bool) \<Rightarrow> 's \<Rightarrow> bool" where
  "wp m Q E s = (case m s of (Inr x, s') \<Rightarrow> Q x s' | (Inl e, s') \<Rightarrow> E e s')"

lemma wp_ret [wp_rules]: "wp (ret x) Q E s = Q x s"
  by (simp add: wp_def ret_def)

lemma wp_raise [wp_rules]: "wp (raise e) Q E s = E e s"
  by (simp add: wp_def raise_def)

lemma wp_bnd [wp_rules]: "wp (bnd m k) Q E s = wp m (\<lambda>x. wp (k x) Q E) E s"
  by (simp add: wp_def bnd_def split: prod.splits sum.splits)

lemma wp_throwIf [wp_rules]: "wp (throwIf c e) Q E s = (if c then E e s else Q () s)"
  by (simp add: throwIf_def wp_ret wp_raise)

lemma wp_lift [wp_rules]: "wp (lift r) Q E s = (case r of Inl e \<Rightarrow> E e s | Inr x \<Rightarrow> Q x s)"
  by (simp add: wp_def lift_def split: sum.splits)

lemma wp_gets [wp_rules]: "wp (gets f) Q E s = Q (f s) s"
  by (simp add: wp_def gets_def)

lemma wp_modify [wp_rules]: "wp (modify f) Q E s = Q () (f s)"
  by (simp add: wp_def modify_def)

lemma wp_need [wp_rules]:
  "wp (need x e) Q E s = (case x of None \<Rightarrow> E e s | Some y \<Rightarrow> Q y s)"
  by (simp add: need_def wp_ret wp_raise split: option.splits)

lemma wp_catchAny [wp_rules]: "wp (catchAny m h) Q E s = wp m Q (\<lambda>e. wp (h e) Q E) s"
  by (simp add: wp_def catchAny_def split: prod.splits sum.splits)

lemma wp_if [wp_rules]: "wp (if c then m else n) Q E s = (if c then wp m Q E s else wp n Q E s)"
  by simp

lemma wp_mono:
  assumes "wp m Q E s"
    and "\<And>x s'. m s = (Inr x, s') \<Longrightarrow> Q x s' \<Longrightarrow> Q' x s'"
    and "\<And>e s'. m s = (Inl e, s') \<Longrightarrow> E e s' \<Longrightarrow> E' e s'"
  shows "wp m Q' E' s"
  using assms by (auto simp: wp_def split: prod.splits sum.splits)

lemma wp_conj: "wp m Q E s \<Longrightarrow> wp m Q' E' s \<Longrightarrow> wp m (\<lambda>x s. Q x s \<and> Q' x s) (\<lambda>e s. E e s \<and> E' e s) s"
  by (auto simp: wp_def split: prod.splits sum.splits)

lemma wp_True [simp]: "wp m (\<lambda>_ _. True) (\<lambda>_ _. True) s"
  by (auto simp: wp_def split: prod.splits sum.splits)

lemma wp_okD: "wp m Q E s \<Longrightarrow> m s = (Inr x, s') \<Longrightarrow> Q x s'"
  by (simp add: wp_def)

lemma wp_errD: "wp m Q E s \<Longrightarrow> m s = (Inl e, s') \<Longrightarrow> E e s'"
  by (simp add: wp_def)

lemma wp_sndD: "wp m (\<lambda>_. Q) (\<lambda>_. Q) s \<Longrightarrow> Q (snd (m s))"
  by (auto simp: wp_def split: prod.splits sum.splits)

lemma wp_snd: "wp m (\<lambda>_. Q) (\<lambda>_. Q) s \<longleftrightarrow> Q (snd (m s))"
  by (auto simp: wp_def split: prod.splits sum.splits)

text \<open>A predicate every outcome of a program keeps.\<close>

definition keeps :: "('s \<Rightarrow> bool) \<Rightarrow> ('s, 'e, 'a) prog \<Rightarrow> bool" where
  "keeps I m \<longleftrightarrow> (\<forall>s. I s \<longrightarrow> wp m (\<lambda>_. I) (\<lambda>_. I) s)"

lemma keepsI: "(\<And>s. I s \<Longrightarrow> wp m (\<lambda>_. I) (\<lambda>_. I) s) \<Longrightarrow> keeps I m"
  by (simp add: keeps_def)

lemma keepsD: "keeps I m \<Longrightarrow> I s \<Longrightarrow> wp m (\<lambda>_. I) (\<lambda>_. I) s"
  by (simp add: keeps_def)

lemma keeps_snd: "keeps I m \<Longrightarrow> I s \<Longrightarrow> I (snd (m s))"
  by (simp add: keeps_def wp_snd)

lemma keeps_bnd: "keeps I m \<Longrightarrow> (\<And>x. keeps I (k x)) \<Longrightarrow> keeps I (bnd m k)"
  unfolding keeps_def wp_bnd by (auto elim!: wp_mono)

lemma keeps_forEach: "(\<And>x. x \<in> set xs \<Longrightarrow> keeps I (f x)) \<Longrightarrow> keeps I (forEach xs f)"
  by (induction xs) (auto intro!: keeps_bnd, simp add: keeps_def wp_ret)

lemma keeps_foldProg: "(\<And>a x. x \<in> set xs \<Longrightarrow> keeps I (f a x)) \<Longrightarrow> keeps I (foldProg xs f a)"
  by (induction xs arbitrary: a) (auto intro!: keeps_bnd, simp add: keeps_def wp_ret)

lemma keeps_basic [simp]:
  "keeps I (ret x)" "keeps I (raise e)" "keeps I (throwIf c e)" "keeps I (lift r)"
  "keeps I (gets f)" "keeps I (need y e)"
  by (auto simp: keeps_def wp_rules split: sum.splits option.splits)

lemma keeps_catchAny: "keeps I m \<Longrightarrow> (\<And>e. keeps I (h e)) \<Longrightarrow> keeps I (catchAny m h)"
  unfolding keeps_def wp_catchAny by (auto elim!: wp_mono)

lemma keeps_if: "(c \<Longrightarrow> keeps I m) \<Longrightarrow> (\<not> c \<Longrightarrow> keeps I n) \<Longrightarrow> keeps I (if c then m else n)"
  by simp

section \<open>JavaScript numbers\<close>

text \<open>
  A value of type \<open>number\<close> that comes from a request body may be fractional, infinite or \<open>NaN\<close>; the
  code rejects those with \<open>Number.isInteger\<close>. Amounts that passed the check, and amounts read from
  integer columns, are \<open>int\<close>.
\<close>

datatype number = JNum rat | JNaN | JInf | JNegInf

fun isInteger :: "number \<Rightarrow> bool" where
  "isInteger (JNum r) = (of_int \<lfloor>r\<rfloor> = r)"
| "isInteger _ = False"

fun numLe :: "number \<Rightarrow> int \<Rightarrow> bool" where
  "numLe (JNum r) k = (r \<le> of_int k)"
| "numLe JNaN k = False"
| "numLe JInf k = False"
| "numLe JNegInf k = True"

fun numGt :: "number \<Rightarrow> int \<Rightarrow> bool" where
  "numGt (JNum r) k = (of_int k < r)"
| "numGt JNaN k = False"
| "numGt JInf k = True"
| "numGt JNegInf k = False"

fun intOf :: "number \<Rightarrow> int" where
  "intOf (JNum r) = \<lfloor>r\<rfloor>"
| "intOf _ = 0"

lemma isInteger_iff: "isInteger n \<longleftrightarrow> (\<exists>k. n = JNum (of_int k))"
proof
  assume "isInteger n"
  then show "\<exists>k. n = JNum (of_int k)" by (cases n) (auto dest: sym)
qed auto

lemma isInteger_intOf: "isInteger n \<Longrightarrow> n = JNum (of_int (intOf n))"
  by (cases n) auto

lemma numLe_of_int [simp]: "numLe (JNum (of_int k)) m \<longleftrightarrow> k \<le> m"
  by simp

lemma numGt_of_int [simp]: "numGt (JNum (of_int k)) m \<longleftrightarrow> m < k"
  by simp

lemma numLe_isInteger: "isInteger n \<Longrightarrow> numLe n m \<longleftrightarrow> intOf n \<le> m"
  by (auto simp: isInteger_iff)

lemma numGt_isInteger: "isInteger n \<Longrightarrow> numGt n m \<longleftrightarrow> m < intOf n"
  by (auto simp: isInteger_iff)

section \<open>Strings\<close>

text \<open>
  Strings are lists of \<open>char\<close>. \<open>trim\<close> removes the white space and line terminators JavaScript's
  \<open>String.prototype.trim\<close> removes, restricted to the code points a \<open>char\<close> holds.
\<close>

definition isSpace :: "char \<Rightarrow> bool" where
  "isSpace c \<longleftrightarrow> of_char c \<in> {9, 10, 11, 12, 13, 32, 160 :: nat}"

definition trimStart :: "string \<Rightarrow> string" where
  "trimStart s = dropWhile isSpace s"

definition trim :: "string \<Rightarrow> string" where
  "trim s = rev (trimStart (rev (trimStart s)))"

definition isDigit :: "char \<Rightarrow> bool" where
  "isDigit c \<longleftrightarrow> of_char c \<in> {48 .. 57 :: nat}"

definition isUpper :: "char \<Rightarrow> bool" where
  "isUpper c \<longleftrightarrow> of_char c \<in> {65 .. 90 :: nat}"

definition isLower :: "char \<Rightarrow> bool" where
  "isLower c \<longleftrightarrow> of_char c \<in> {97 .. 122 :: nat}"

definition isWordChar :: "char \<Rightarrow> bool" where
  "isWordChar c \<longleftrightarrow> isDigit c \<or> isUpper c \<or> isLower c \<or> c = CHR ''_''"

text \<open>
  A regular expression that is a fixed sequence of character classes between \<open>^\<close> and \<open>$\<close>.
\<close>

definition matchClasses :: "(char \<Rightarrow> bool) list \<Rightarrow> string \<Rightarrow> bool" where
  "matchClasses ps s = list_all2 (\<lambda>p c. p c) ps s"

lemma matchClasses_length: "matchClasses ps s \<Longrightarrow> length s = length ps"
  by (auto simp: matchClasses_def dest: list_all2_lengthD)

lemma matchClasses_replicate: "matchClasses (replicate n p) s \<longleftrightarrow> length s = n \<and> (\<forall>c \<in> set s. p c)"
  by (auto simp: matchClasses_def list_all2_conv_all_nth all_set_conv_all_nth)

lemma matchClasses_append:
  "matchClasses ps s \<Longrightarrow> matchClasses qs t \<Longrightarrow> matchClasses (ps @ qs) (s @ t)"
  by (simp add: matchClasses_def list_all2_appendI)

text \<open>\<open>toUpperCase\<close> on the letters of ASCII; other characters are kept.\<close>

definition upperChar :: "char \<Rightarrow> char" where
  "upperChar c = (if isLower c then char_of (of_char c - (32::nat)) else c)"

definition toUpperCase :: "string \<Rightarrow> string" where
  "toUpperCase s = map upperChar s"

definition digitChar :: "nat \<Rightarrow> char" where
  "digitChar d = (if d < 10 then char_of (48 + d) else char_of (87 + d))"

text \<open>\<open>Number.prototype.toString(radix)\<close> for natural numbers.\<close>

fun digitsRev :: "nat \<Rightarrow> nat \<Rightarrow> string" where
  "digitsRev b n = (if b < 2 \<or> n < b then [digitChar n] else digitChar (n mod b) # digitsRev b (n div b))"

declare digitsRev.simps [simp del]

definition showRadix :: "nat \<Rightarrow> nat \<Rightarrow> string" where
  "showRadix b n = rev (digitsRev b n)"

definition showNat :: "nat \<Rightarrow> string" where
  "showNat n = showRadix 10 n"

definition showInt :: "int \<Rightarrow> string" where
  "showInt i = (if i < 0 then CHR ''-'' # showNat (nat (- i)) else showNat (nat i))"

definition padStart :: "nat \<Rightarrow> char \<Rightarrow> string \<Rightarrow> string" where
  "padStart k c s = replicate (k - length s) c @ s"

lemma isDigit_digitChar: "d < 10 \<Longrightarrow> isDigit (digitChar d)"
  by (simp add: isDigit_def digitChar_def)

lemma digitsRev_decimal: "\<forall>c \<in> set (digitsRev 10 n). isDigit c"
proof (induction "10::nat" n rule: digitsRev.induct)
  case (1 n)
  then show ?case
    by (subst digitsRev.simps) (auto simp: isDigit_digitChar)
qed

lemma length_digitsRev: "n < 10 ^ k \<Longrightarrow> 0 < k \<Longrightarrow> length (digitsRev 10 n) \<le> k"
proof (induction k arbitrary: n)
  case 0
  then show ?case by simp
next
  case (Suc k)
  show ?case
  proof (cases "n < 10")
    case True
    then show ?thesis by (subst digitsRev.simps) simp
  next
    case False
    with Suc.prems have "n div 10 < 10 ^ k" by (simp add: less_mult_imp_div_less mult.commute)
    moreover from this False have "0 < k" by (cases k) auto
    ultimately have "length (digitsRev 10 (n div 10)) \<le> k" by (rule Suc.IH)
    with False show ?thesis by (subst digitsRev.simps) simp
  qed
qed

lemma padStart_showNat:
  assumes "n < 10 ^ k" and "0 < k"
  shows "length (padStart k (CHR ''0'') (showNat n)) = k"
    and "\<forall>c \<in> set (padStart k (CHR ''0'') (showNat n)). isDigit c"
  using length_digitsRev [OF assms] digitsRev_decimal [of n]
  by (auto simp: padStart_def showNat_def showRadix_def isDigit_def)

lemma trimStart_ends: "trimStart s = [] \<or> \<not> isSpace (hd (trimStart s))"
  unfolding trimStart_def using hd_dropWhile by blast

section \<open>Insertion-ordered maps\<close>

text \<open>
  JavaScript's \<open>Map\<close>: iteration is in insertion order, setting an existing key keeps its place.
  An association list with distinct keys.
\<close>

type_synonym ('k, 'v) jsmap = "('k \<times> 'v) list"

fun mapGet :: "('k, 'v) jsmap \<Rightarrow> 'k \<Rightarrow> 'v option" where
  "mapGet [] k = None"
| "mapGet ((k', v) # m) k = (if k' = k then Some v else mapGet m k)"

fun mapSet :: "('k, 'v) jsmap \<Rightarrow> 'k \<Rightarrow> 'v \<Rightarrow> ('k, 'v) jsmap" where
  "mapSet [] k v = [(k, v)]"
| "mapSet ((k', v') # m) k v = (if k' = k then (k, v) # m else (k', v') # mapSet m k v)"

definition mapDelete :: "('k, 'v) jsmap \<Rightarrow> 'k \<Rightarrow> ('k, 'v) jsmap" where
  "mapDelete m k = filter (\<lambda>p. fst p \<noteq> k) m"

definition mapHas :: "('k, 'v) jsmap \<Rightarrow> 'k \<Rightarrow> bool" where
  "mapHas m k \<longleftrightarrow> k \<in> fst ` set m"

abbreviation mapKeys :: "('k, 'v) jsmap \<Rightarrow> 'k list" where
  "mapKeys m \<equiv> map fst m"

lemma mapGet_set [simp]: "mapGet (mapSet m k v) k' = (if k' = k then Some v else mapGet m k')"
  by (induction m k v rule: mapSet.induct) auto

lemma mapDelete_simps [simp]:
  "mapDelete [] k = []"
  "mapDelete (p # m) k = (if fst p = k then mapDelete m k else p # mapDelete m k)"
  by (simp_all add: mapDelete_def)

lemma mapGet_delete [simp]: "mapGet (mapDelete m k) k' = (if k' = k then None else mapGet m k')"
  by (induction m) auto

lemma mapGet_filter:
  "distinct (mapKeys m) \<Longrightarrow> mapGet (filter P m) k = (case mapGet m k of None \<Rightarrow> None
     | Some v \<Rightarrow> if P (k, v) then Some v else None)"
proof (induction m k rule: mapGet.induct)
  case (2 k' v m k)
  have "mapGet (filter P m) k' = None" if "k' \<notin> fst ` set m"
    using that by (induction m) auto
  with 2 show ?case by (auto split: option.splits)
qed simp

lemma mapHas_get: "mapHas m k \<longleftrightarrow> mapGet m k \<noteq> None"
  by (induction m k rule: mapGet.induct) (auto simp: mapHas_def)

lemma mapGet_None_iff: "mapGet m k = None \<longleftrightarrow> k \<notin> fst ` set m"
  by (induction m k rule: mapGet.induct) auto

lemma mapGet_mem: "mapGet m k = Some v \<Longrightarrow> (k, v) \<in> set m"
  by (induction m k rule: mapGet.induct) (auto split: if_splits)

lemma mem_mapGet: "distinct (mapKeys m) \<Longrightarrow> (k, v) \<in> set m \<Longrightarrow> mapGet m k = Some v"
  by (induction m) (auto simp: image_iff)

lemma set_keys_mapSet [simp]: "fst ` set (mapSet m k v) = insert k (fst ` set m)"
  by (induction m k v rule: mapSet.induct) auto

lemma distinct_mapSet [simp]: "distinct (mapKeys m) \<Longrightarrow> distinct (mapKeys (mapSet m k v))"
  by (induction m k v rule: mapSet.induct) auto

lemma distinct_mapDelete [simp]: "distinct (mapKeys m) \<Longrightarrow> distinct (mapKeys (mapDelete m k))"
  by (simp add: mapDelete_def distinct_map_filter)

lemma length_mapSet: "length (mapSet m k v) = (if mapHas m k then length m else Suc (length m))"
  by (induction m k v rule: mapSet.induct) (auto simp: mapHas_def)

lemma length_mapDelete_le: "length (mapDelete m k) \<le> length m"
  by (simp add: mapDelete_def)

lemma length_mapDelete:
  assumes "mapHas m k"
  shows "length (mapDelete m k) < length m"
proof -
  from assms obtain p where "p \<in> set m" and "\<not> (fst p \<noteq> k)" by (auto simp: mapHas_def)
  then show ?thesis by (simp add: mapDelete_def length_filter_less)
qed

section \<open>Rows of a table\<close>

text \<open>
  A table is the list of its rows. \<open>updateWhere\<close> is SQL's \<open>UPDATE \<dots> WHERE\<close>, \<open>List.find\<close> is a
  \<open>SELECT \<dots> LIMIT 1\<close>.
\<close>

definition updateWhere :: "('r \<Rightarrow> bool) \<Rightarrow> ('r \<Rightarrow> 'r) \<Rightarrow> 'r list \<Rightarrow> 'r list" where
  "updateWhere P f rows = map (\<lambda>r. if P r then f r else r) rows"

lemma length_updateWhere [simp]: "length (updateWhere P f rows) = length rows"
  by (simp add: updateWhere_def)

lemma updateWhere_append [simp]: "updateWhere P f (xs @ ys) = updateWhere P f xs @ updateWhere P f ys"
  by (simp add: updateWhere_def)

lemma updateWhere_simps [simp]:
  "updateWhere P f [] = []"
  "updateWhere P f (x # xs) = (if P x then f x else x) # updateWhere P f xs"
  by (simp_all add: updateWhere_def)

lemma set_updateWhere: "set (updateWhere P f rows) = (\<lambda>r. if P r then f r else r) ` set rows"
  by (simp add: updateWhere_def)

lemma map_updateWhere:
  assumes "\<And>r. P r \<Longrightarrow> g (f r) = g r"
  shows "map g (updateWhere P f rows) = map g rows"
  using assms by (simp add: updateWhere_def)

lemma updateWhere_id: "(\<And>r. r \<in> set rows \<Longrightarrow> \<not> P r) \<Longrightarrow> updateWhere P f rows = rows"
  by (induction rows) auto

lemma find_Some_iff_mem:
  "List.find P xs = Some x \<Longrightarrow> x \<in> set xs \<and> P x"
  by (induction xs) (auto split: if_splits)

lemma find_append: "List.find P (xs @ ys) = (case List.find P xs of None \<Rightarrow> List.find P ys | Some x \<Rightarrow> Some x)"
  by (induction xs) auto

lemma find_key_distinct:
  assumes "distinct (map k rows)" and "r \<in> set rows"
  shows "List.find (\<lambda>r'. k r' = k r) rows = Some r"
  using assms by (induction rows) (auto simp: image_iff)

lemma find_updateWhere:
  assumes "\<And>r. P r \<Longrightarrow> Q (f r) \<longleftrightarrow> Q r"
  shows "List.find Q (updateWhere P f rows) = map_option (\<lambda>r. if P r then f r else r) (List.find Q rows)"
  using assms by (induction rows) auto

text \<open>
  Changing one row of a table with distinct keys changes a sum over the table by the difference in
  that row.
\<close>

lemma sum_list_update_key:
  fixes g :: "'r \<Rightarrow> int"
  assumes "distinct (map k rows)" and "r \<in> set rows"
  shows "(\<Sum>x \<leftarrow> updateWhere (\<lambda>x. k x = k r) f rows. g x) = (\<Sum>x \<leftarrow> rows. g x) - g r + g (f r)"
  using assms
proof (induction rows)
  case (Cons y ys)
  show ?case
  proof (cases "k y = k r")
    case True
    with Cons.prems have "y = r" by (auto simp: image_iff)
    moreover have "updateWhere (\<lambda>x. k x = k r) f ys = ys"
      using Cons.prems True by (intro updateWhere_id) (auto simp: image_iff)
    ultimately show ?thesis by simp
  next
    case False
    with Cons show ?thesis by auto
  qed
qed simp

lemma sum_list_filter_if: "(\<Sum>x \<leftarrow> filter P xs. g x) = (\<Sum>x \<leftarrow> xs. if P x then g x else (0::int))"
  by (induction xs) auto

lemma sum_list_nonneg_int: "(\<And>x. x \<in> set xs \<Longrightarrow> 0 \<le> (g x :: int)) \<Longrightarrow> 0 \<le> (\<Sum>x \<leftarrow> xs. g x)"
  by (induction xs) auto

end
