(* ===== verification/Errors.thy ===== *)
theory Errors
  imports Prelude
begin

text \<open>
  The error classes of every bounded context (\<open>contexts/*/domain/errors.ts\<close>,
  \<open>payments/domain/disputeErrors.ts\<close>), their messages, the HTTP errors of \<open>utils/errors.ts\<close> and the
  translation of \<open>shared/domainErrorTranslate.ts\<close>. The classes are pairwise disjoint (none extends
  another), so an \<open>instanceof\<close> chain is a case analysis on the constructor.
\<close>

section \<open>HTTP errors\<close>

record http_error =
  http_status :: int
  http_message :: string
  http_headers :: "(string \<times> string) list"
  http_details :: "(string \<times> string) list option"

definition httpError :: "int \<Rightarrow> string \<Rightarrow> http_error" where
  "httpError st msg = \<lparr>http_status = st, http_message = msg, http_headers = [], http_details = None\<rparr>"

definition badRequestError :: "string \<Rightarrow> http_error" where
  "badRequestError msg = httpError 400 msg"

definition unauthorizedError :: "string \<Rightarrow> http_error" where
  "unauthorizedError msg = httpError 401 msg"

definition forbiddenError :: "string \<Rightarrow> http_error" where
  "forbiddenError msg = httpError 403 msg"

definition notFoundError :: "string \<Rightarrow> http_error" where
  "notFoundError msg = httpError 404 msg"

definition conflictError :: "string \<Rightarrow> http_error" where
  "conflictError msg = httpError 409 msg"

definition payloadTooLargeError :: "string \<Rightarrow> http_error" where
  "payloadTooLargeError msg = httpError 413 msg"

definition tooManyRequestsError :: "string \<Rightarrow> int option \<Rightarrow> http_error" where
  "tooManyRequestsError msg retryAfterSec =
     \<lparr>http_status = 429, http_message = msg,
      http_headers = (case retryAfterSec of None \<Rightarrow> []
        | Some r \<Rightarrow> [(''Retry-After'', showInt (max r 1))]), http_details = None\<rparr>"

definition internalServerError :: "string \<Rightarrow> http_error" where
  "internalServerError msg = httpError 500 msg"

lemmas http_defs = httpError_def badRequestError_def unauthorizedError_def forbiddenError_def
  notFoundError_def conflictError_def payloadTooLargeError_def internalServerError_def

section \<open>Domain errors\<close>

text \<open>One datatype per \<open>errors.ts\<close>, one constructor per class, and \<open>err.message\<close> of each class.\<close>

datatype account_error =
    AccountNotFoundError
  | AccountNotActiveError
  | AccountInvalidStatusTransitionError string string
  | AccountCloseRequiresZeroBalanceError
  | AccountCloseBlockedError string
  | InsufficientFundsError
  | InsufficientAvailableFundsError
  | MinimumBalanceViolationError int
  | HoldExceedsBalanceError
  | FixedDepositWithdrawalBlockedError
  | CurrencyMismatchError
  | FdMinimumPrincipalError
  | FdInvalidTenureError
  | FdUnsupportedTenureError
  | NomineeNameRequiredError
  | NomineeRelationRequiredError
  | NomineeShareInvalidError

primrec accountErrorMessage :: "account_error \<Rightarrow> string" where
  "accountErrorMessage AccountNotFoundError = ''Account not found''"
| "accountErrorMessage AccountNotActiveError = ''Account is not active''"
| "accountErrorMessage (AccountInvalidStatusTransitionError f t) = ''Invalid account status transition: '' @ f @ '' -> '' @ t"
| "accountErrorMessage AccountCloseRequiresZeroBalanceError =
     ''Cannot close account with non-zero balance''"
| "accountErrorMessage (AccountCloseBlockedError r) = ''Cannot close account: '' @ r"
| "accountErrorMessage InsufficientFundsError = ''Insufficient funds''"
| "accountErrorMessage InsufficientAvailableFundsError = ''Insufficient available balance''"
| "accountErrorMessage (MinimumBalanceViolationError m) = ''Debit would breach minimum balance of '' @ showInt m @ '' paise''"
| "accountErrorMessage HoldExceedsBalanceError = ''Hold amount exceeds account balance''"
| "accountErrorMessage FixedDepositWithdrawalBlockedError =
     ''Fixed deposit principal cannot be withdrawn via transfer; use premature closure or wait for maturity''"
| "accountErrorMessage CurrencyMismatchError = ''Currency mismatch''"
| "accountErrorMessage FdMinimumPrincipalError = ''FD minimum principal not met''"
| "accountErrorMessage FdInvalidTenureError = ''Invalid FD tenure''"
| "accountErrorMessage FdUnsupportedTenureError = ''Unsupported FD tenure''"
| "accountErrorMessage NomineeNameRequiredError = ''Nominee name required''"
| "accountErrorMessage NomineeRelationRequiredError = ''Relation required''"
| "accountErrorMessage NomineeShareInvalidError = ''Share percent must be 1-100''"

datatype payment_error =
    TransferToSelfError
  | TransferAmountInvalidError
  | TransferOverLimitError int
  | CrossUserFixedDepositTransferError
  | TransferAggregateLimitError string
  | InvalidUpiVpaError

primrec paymentErrorMessage :: "payment_error \<Rightarrow> string" where
  "paymentErrorMessage TransferToSelfError = ''Cannot transfer to the same account''"
| "paymentErrorMessage TransferAmountInvalidError = ''Transfer amount must be > 0''"
| "paymentErrorMessage (TransferOverLimitError m) = ''Transfer amount exceeds per-transaction limit ('' @ showInt m @ '' minor)''"
| "paymentErrorMessage CrossUserFixedDepositTransferError =
     ''Transfers into a Fixed Deposit are only allowed between your own accounts''"
| "paymentErrorMessage (TransferAggregateLimitError m) = m"
| "paymentErrorMessage InvalidUpiVpaError = ''Invalid UPI VPA''"

datatype dispute_error =
    DisputeTransferNotFoundError
  | DisputeNotAuthorizedError
  | DisputeNotFoundError
  | DisputeAlreadyDecidedError
  | DisputeReversalBlockedError string

primrec disputeErrorMessage :: "dispute_error \<Rightarrow> string" where
  "disputeErrorMessage DisputeTransferNotFoundError = ''Transfer not found''"
| "disputeErrorMessage DisputeNotAuthorizedError =
     ''You can only dispute transfers involving your accounts''"
| "disputeErrorMessage DisputeNotFoundError = ''Dispute not found''"
| "disputeErrorMessage DisputeAlreadyDecidedError = ''Dispute already decided''"
| "disputeErrorMessage (DisputeReversalBlockedError m) = m"

datatype beneficiary_error =
    BeneficiaryNotFoundError
  | BeneficiaryAlreadyExistsError
  | BeneficiarySelfTargetError
  | BeneficiaryUnknownAccountError
  | BeneficiaryCoolingPeriodError

primrec beneficiaryErrorMessage :: "beneficiary_error \<Rightarrow> string" where
  "beneficiaryErrorMessage BeneficiaryNotFoundError = ''Beneficiary not found''"
| "beneficiaryErrorMessage BeneficiaryAlreadyExistsError = ''Beneficiary already saved''"
| "beneficiaryErrorMessage BeneficiarySelfTargetError =
     ''Cannot save your own account as a beneficiary''"
| "beneficiaryErrorMessage BeneficiaryUnknownAccountError =
     ''No account exists with that number''"
| "beneficiaryErrorMessage BeneficiaryCoolingPeriodError =
     ''Beneficiary is in cooling period; transfers not allowed yet''"

datatype bill_error =
    BillerNotFoundError
  | BillerInactiveError

primrec billErrorMessage :: "bill_error \<Rightarrow> string" where
  "billErrorMessage BillerNotFoundError = ''Biller not found''"
| "billErrorMessage BillerInactiveError = ''Biller is not active''"

datatype card_error =
    CardNotFoundError
  | CardInvalidStateError string string
  | CardLimitExceededError string
  | CardPerTxnLimitError
  | CardLimitAboveBankMaxError string
  | CardMerchantNotConfiguredError

primrec cardErrorMessage :: "card_error \<Rightarrow> string" where
  "cardErrorMessage CardNotFoundError = ''Card not found''"
| "cardErrorMessage (CardInvalidStateError f t) = ''Cannot transition card from '' @ f @ '' to '' @ t"
| "cardErrorMessage (CardLimitExceededError m) = m"
| "cardErrorMessage CardPerTxnLimitError = ''Per-transaction card limit exceeded''"
| "cardErrorMessage (CardLimitAboveBankMaxError f) = ''Card '' @ f @ '' exceeds the bank maximum for your KYC tier''"
| "cardErrorMessage CardMerchantNotConfiguredError =
     ''Card merchant settlement account is not configured''"

datatype kyc_error =
    KycAlreadyExistsError
  | KycNotFoundError
  | KycInvalidTransitionError string string
  | KycInvalidPanError
  | KycBankingAccessDeniedError string

primrec kycErrorMessage :: "kyc_error \<Rightarrow> string" where
  "kycErrorMessage KycAlreadyExistsError = ''Active or approved KYC application already exists''"
| "kycErrorMessage KycNotFoundError = ''KYC application not found''"
| "kycErrorMessage (KycInvalidTransitionError f t) = ''Invalid KYC state transition: '' @ f @ '' -> '' @ t"
| "kycErrorMessage KycInvalidPanError = ''Invalid PAN format''"
| "kycErrorMessage (KycBankingAccessDeniedError m) = m"

datatype si_error =
    StandingInstructionNotFoundError
  | StandingInstructionInvalidStateError string string

primrec siErrorMessage :: "si_error \<Rightarrow> string" where
  "siErrorMessage StandingInstructionNotFoundError = ''Standing instruction not found''"
| "siErrorMessage (StandingInstructionInvalidStateError f t) = ''Cannot transition standing instruction from '' @ f @ '' to '' @ t"

datatype identity_error =
    UsernameTakenError
  | UnknownUserError
  | UnknownCredentialError
  | WeakPasswordError string
  | AccountLockedError
  | InvalidCredentialsError
  | InvalidEmailError

primrec identityErrorMessage :: "identity_error \<Rightarrow> string" where
  "identityErrorMessage UsernameTakenError = ''Username already taken''"
| "identityErrorMessage UnknownUserError = ''Unknown user''"
| "identityErrorMessage UnknownCredentialError = ''Unknown credential''"
| "identityErrorMessage (WeakPasswordError r) = r"
| "identityErrorMessage AccountLockedError = ''Account is locked''"
| "identityErrorMessage InvalidCredentialsError = ''Invalid credentials''"
| "identityErrorMessage InvalidEmailError = ''Invalid email''"

text \<open>
  Every error a program throws. \<open>GenericError m\<close> is a plain \<open>new Error(m)\<close>; \<open>SqliteError m\<close> is what the
  database driver throws when a statement violates a constraint of \<open>db/schema.ts\<close>; \<open>HttpErr\<close> is an
  error that already carries an HTTP status. \<open>Diverged\<close> is not thrown: it stands for a run that never
  returns (the loop of \<open>ids.accountNumber()\<close> that only finds numbers in use), and nothing catches it.
\<close>

datatype error =
    Acc account_error
  | Pay payment_error
  | Dis dispute_error
  | Ben beneficiary_error
  | Bil bill_error
  | Crd card_error
  | KycE kyc_error
  | SiE si_error
  | Idn identity_error
  | GenericError string
  | SqliteError string
  | HttpErr http_error
  | Diverged

text \<open>
  \<open>try { m } catch { h }\<close> of programs that may diverge: what never returns is not caught.
\<close>

definition tryCatch :: "('s, error, 'a) prog \<Rightarrow> (error \<Rightarrow> ('s, error, 'a) prog) \<Rightarrow> ('s, error, 'a) prog" where
  "tryCatch m h = (\<lambda>s. case m s of
     (Inl e, s') \<Rightarrow> if e = Diverged then (Inl Diverged, s') else h e s'
   | (Inr x, s') \<Rightarrow> (Inr x, s'))"

lemma wp_tryCatch [wp_rules]:
  "wp (tryCatch m h) Q E s = wp m Q (\<lambda>e. if e = Diverged then E Diverged else wp (h e) Q E) s"
  by (auto simp: wp_def tryCatch_def split: prod.splits sum.splits)

lemma keeps_tryCatch: "keeps I m \<Longrightarrow> (\<And>e. keeps I (h e)) \<Longrightarrow> keeps I (tryCatch m h)"
  unfolding keeps_def wp_tryCatch by (auto elim!: wp_mono)

primrec errorMessage :: "error \<Rightarrow> string" where
  "errorMessage (Acc x) = accountErrorMessage x"
| "errorMessage (Pay x) = paymentErrorMessage x"
| "errorMessage (Dis x) = disputeErrorMessage x"
| "errorMessage (Ben x) = beneficiaryErrorMessage x"
| "errorMessage (Bil x) = billErrorMessage x"
| "errorMessage (Crd x) = cardErrorMessage x"
| "errorMessage (KycE x) = kycErrorMessage x"
| "errorMessage (SiE x) = siErrorMessage x"
| "errorMessage (Idn x) = identityErrorMessage x"
| "errorMessage (GenericError m) = m"
| "errorMessage (SqliteError m) = m"
| "errorMessage (HttpErr h) = http_message h"
| "errorMessage Diverged = []"

section \<open>Translation to HTTP errors\<close>

definition translateAccountDomainError :: "error \<Rightarrow> http_error option" where
  "translateAccountDomainError e =
    (case e of
       Acc x \<Rightarrow> (case x of
           AccountNotFoundError \<Rightarrow> Some (notFoundError (errorMessage e))
         | AccountInvalidStatusTransitionError _ _ \<Rightarrow> Some (badRequestError (errorMessage e))
         | AccountCloseRequiresZeroBalanceError \<Rightarrow> Some (conflictError (errorMessage e))
         | AccountCloseBlockedError _ \<Rightarrow> Some (conflictError (errorMessage e))
         | AccountNotActiveError \<Rightarrow> Some (conflictError (errorMessage e))
         | CurrencyMismatchError \<Rightarrow> Some (badRequestError (errorMessage e))
         | InsufficientFundsError \<Rightarrow> Some (conflictError (errorMessage e))
         | InsufficientAvailableFundsError \<Rightarrow> Some (conflictError (errorMessage e))
         | MinimumBalanceViolationError _ \<Rightarrow> Some (conflictError (errorMessage e))
         | FixedDepositWithdrawalBlockedError \<Rightarrow> Some (conflictError (errorMessage e))
         | HoldExceedsBalanceError \<Rightarrow> Some (conflictError (errorMessage e))
         | FdMinimumPrincipalError \<Rightarrow> Some (badRequestError (errorMessage e))
         | FdInvalidTenureError \<Rightarrow> Some (badRequestError (errorMessage e))
         | FdUnsupportedTenureError \<Rightarrow> Some (badRequestError (errorMessage e))
         | NomineeNameRequiredError \<Rightarrow> Some (badRequestError (errorMessage e))
         | NomineeRelationRequiredError \<Rightarrow> Some (badRequestError (errorMessage e))
         | NomineeShareInvalidError \<Rightarrow> Some (badRequestError (errorMessage e)))
     | _ \<Rightarrow> None)"

definition translateTransferDomainError :: "error \<Rightarrow> http_error option" where
  "translateTransferDomainError e =
    (case e of
       Pay x \<Rightarrow> (case x of
           TransferAmountInvalidError \<Rightarrow> Some (badRequestError (errorMessage e))
         | TransferOverLimitError _ \<Rightarrow> Some (badRequestError (errorMessage e))
         | TransferAggregateLimitError _ \<Rightarrow> Some (conflictError (errorMessage e))
         | TransferToSelfError \<Rightarrow> Some (badRequestError (errorMessage e))
         | CrossUserFixedDepositTransferError \<Rightarrow> Some (conflictError (errorMessage e))
         | InvalidUpiVpaError \<Rightarrow> Some (badRequestError (errorMessage e)))
     | _ \<Rightarrow> None)"

text \<open>
  The last test, \<open>err instanceof Error \<and> err.message === \<dots>\<close>, applies to errors of every class.
\<close>

definition translateBeneficiaryDomainError :: "error \<Rightarrow> http_error option" where
  "translateBeneficiaryDomainError e =
    (case e of
       Ben x \<Rightarrow> (case x of
           BeneficiaryAlreadyExistsError \<Rightarrow> Some (conflictError (errorMessage e))
         | BeneficiaryNotFoundError \<Rightarrow> Some (notFoundError (errorMessage e))
         | BeneficiarySelfTargetError \<Rightarrow> Some (badRequestError (errorMessage e))
         | BeneficiaryUnknownAccountError \<Rightarrow> Some (notFoundError (errorMessage e))
         | BeneficiaryCoolingPeriodError \<Rightarrow> Some (conflictError (errorMessage e)))
     | _ \<Rightarrow> (if errorMessage e = ''External beneficiary already saved''
            then Some (conflictError (errorMessage e)) else None))"

definition translateKycDomainError :: "error \<Rightarrow> http_error option" where
  "translateKycDomainError e =
    (case e of
       KycE x \<Rightarrow> (case x of
           KycAlreadyExistsError \<Rightarrow> Some (conflictError (errorMessage e))
         | KycInvalidPanError \<Rightarrow> Some (badRequestError (errorMessage e))
         | KycInvalidTransitionError _ _ \<Rightarrow> Some (conflictError (errorMessage e))
         | KycNotFoundError \<Rightarrow> Some (notFoundError (errorMessage e))
         | KycBankingAccessDeniedError _ \<Rightarrow> Some (forbiddenError (errorMessage e)))
     | _ \<Rightarrow> None)"

definition translateCardDomainError :: "error \<Rightarrow> http_error option" where
  "translateCardDomainError e =
    (case e of
       Crd x \<Rightarrow> (case x of
           CardNotFoundError \<Rightarrow> Some (notFoundError (errorMessage e))
         | CardInvalidStateError _ _ \<Rightarrow> Some (conflictError (errorMessage e))
         | CardLimitExceededError _ \<Rightarrow> Some (conflictError (errorMessage e))
         | CardPerTxnLimitError \<Rightarrow> Some (conflictError (errorMessage e))
         | CardLimitAboveBankMaxError _ \<Rightarrow> Some (badRequestError (errorMessage e))
         | CardMerchantNotConfiguredError \<Rightarrow> Some (conflictError (errorMessage e)))
     | _ \<Rightarrow> None)"

definition translateBillDomainError :: "error \<Rightarrow> http_error option" where
  "translateBillDomainError e =
    (case e of
       Bil x \<Rightarrow> (case x of
           BillerNotFoundError \<Rightarrow> Some (notFoundError (errorMessage e))
         | BillerInactiveError \<Rightarrow> Some (conflictError (errorMessage e)))
     | _ \<Rightarrow> None)"

definition translateStandingInstructionDomainError :: "error \<Rightarrow> http_error option" where
  "translateStandingInstructionDomainError e =
    (case e of
       SiE x \<Rightarrow> (case x of
           StandingInstructionNotFoundError \<Rightarrow> Some (notFoundError (errorMessage e))
         | StandingInstructionInvalidStateError _ _ \<Rightarrow> Some (conflictError (errorMessage e)))
     | _ \<Rightarrow> None)"

definition translateDisputeDomainError :: "error \<Rightarrow> http_error option" where
  "translateDisputeDomainError e =
    (case e of
       Dis x \<Rightarrow> (case x of
           DisputeTransferNotFoundError \<Rightarrow> Some (notFoundError (errorMessage e))
         | DisputeNotFoundError \<Rightarrow> Some (notFoundError (errorMessage e))
         | DisputeNotAuthorizedError \<Rightarrow> Some (forbiddenError (errorMessage e))
         | DisputeAlreadyDecidedError \<Rightarrow> Some (conflictError (errorMessage e))
         | DisputeReversalBlockedError _ \<Rightarrow> Some (conflictError (errorMessage e)))
     | _ \<Rightarrow> None)"

definition translateDisputePlainError :: "error \<Rightarrow> http_error option" where
  "translateDisputePlainError e =
    (case translateDisputeDomainError e of
       Some h \<Rightarrow> Some h
     | None \<Rightarrow>
        (if errorMessage e \<in> {''Transfer not found'', ''Dispute not found''}
         then Some (notFoundError (errorMessage e))
         else if errorMessage e \<in> {''Dispute already decided'', ''Accounts missing for reversal'',
                   ''Cannot reverse transfer without both accounts''}
         then Some (conflictError (errorMessage e))
         else None))"

fun firstMapped :: "(error \<Rightarrow> http_error option) list \<Rightarrow> error \<Rightarrow> http_error option" where
  "firstMapped [] e = None"
| "firstMapped (m # ms) e = (case m e of Some h \<Rightarrow> Some h | None \<Rightarrow> firstMapped ms e)"

definition composeDomainErrorTranslation :: "(error \<Rightarrow> http_error option) list \<Rightarrow> error \<Rightarrow> error" where
  "composeDomainErrorTranslation contextMappers err =
    (case err of
       HttpErr h \<Rightarrow> HttpErr h
     | _ \<Rightarrow> (case firstMapped (contextMappers @ [translateAccountDomainError,
                 translateTransferDomainError, translateBeneficiaryDomainError,
                 translateKycDomainError]) err of
               Some h \<Rightarrow> HttpErr h
             | None \<Rightarrow> err))"

text \<open>The status the central error handler of \<open>app.ts\<close> answers with: 500 for anything unmapped.\<close>

definition httpStatusOf :: "error \<Rightarrow> int" where
  "httpStatusOf e = (case e of HttpErr h \<Rightarrow> http_status h | _ \<Rightarrow> 500)"

section \<open>Facts\<close>

text \<open>The errors of the four contexts that every router's translation includes.\<close>

definition isCommonDomainError :: "error \<Rightarrow> bool" where
  "isCommonDomainError e \<longleftrightarrow> (case e of Acc _ \<Rightarrow> True | Pay _ \<Rightarrow> True | Ben _ \<Rightarrow> True | KycE _ \<Rightarrow> True | _ \<Rightarrow> False)"

lemmas translate_defs = translateAccountDomainError_def translateTransferDomainError_def
  translateBeneficiaryDomainError_def translateKycDomainError_def

lemma common_mapped:
  assumes "isCommonDomainError e"
  shows "\<exists>h. firstMapped [translateAccountDomainError, translateTransferDomainError,
           translateBeneficiaryDomainError, translateKycDomainError] e = Some h
         \<and> http_status h \<in> {400, 403, 404, 409} \<and> http_message h = errorMessage e"
  using assms
  by (cases e) (auto simp: http_defs isCommonDomainError_def translate_defs split: account_error.splits
      payment_error.splits beneficiary_error.splits kyc_error.splits)

end
