(* ===== verification/Money.thy ===== *)
theory Money
  imports Errors
begin

text \<open>
  The money value object of \<open>shared/money.ts\<close>: a non-negative integer number of minor units with a
  currency, and the arithmetic that keeps it so. Values above \<open>2 ^ 53\<close>, where JavaScript's numbers
  stop being exact, are out of the model's scope: minor units are \<open>int\<close>.
\<close>

type_synonym currency = string

definition INR :: currency where
  "INR = ''INR''"

record money =
  m_minor :: int
  m_currency :: currency

definition mkMoney :: "number \<Rightarrow> currency \<Rightarrow> error + money" where
  "mkMoney minor cur =
     andThen (check (isInteger minor) (GenericError ''Money.minor must be an integer'')) (\<lambda>_.
     andThen (check (0 \<le> intOf minor) (GenericError ''Money.minor must be >= 0'')) (\<lambda>_.
     Inr \<lparr>m_minor = intOf minor, m_currency = cur\<rparr>))"

definition addMoney :: "money \<Rightarrow> money \<Rightarrow> error + money" where
  "addMoney a b =
     andThen (check (m_currency a = m_currency b) (GenericError ''Currency mismatch'')) (\<lambda>_.
     mkMoney (JNum (of_int (m_minor a + m_minor b))) (m_currency a))"

definition subMoney :: "money \<Rightarrow> money \<Rightarrow> error + money" where
  "subMoney a b =
     andThen (check (m_currency a = m_currency b) (GenericError ''Currency mismatch'')) (\<lambda>_.
     andThen (check (m_minor b \<le> m_minor a) (GenericError ''Money.sub would underflow'')) (\<lambda>_.
     mkMoney (JNum (of_int (m_minor a - m_minor b))) (m_currency a)))"

definition gteMoney :: "money \<Rightarrow> money \<Rightarrow> error + bool" where
  "gteMoney a b =
     andThen (check (m_currency a = m_currency b) (GenericError ''Currency mismatch'')) (\<lambda>_.
     Inr (m_minor b \<le> m_minor a))"

definition isZeroMoney :: "money \<Rightarrow> bool" where
  "isZeroMoney a \<longleftrightarrow> m_minor a = 0"

text \<open>\<open>(minor / 100).toFixed(2)\<close>, for the integers the code formats.\<close>

definition toFixed2 :: "int \<Rightarrow> string" where
  "toFixed2 minor = (if minor < 0 then ''-'' else []) @ showNat (nat \<bar>minor\<bar> div 100) @ ''.'' @
     padStart 2 (CHR ''0'') (showNat (nat \<bar>minor\<bar> mod 100))"

definition formatMoney :: "money \<Rightarrow> string" where
  "formatMoney a = m_currency a @ '' '' @ toFixed2 (m_minor a)"

definition inrFmtMinor :: "int \<Rightarrow> string" where
  "inrFmtMinor minor = ''INR '' @ toFixed2 minor"

definition validMoney :: "money \<Rightarrow> bool" where
  "validMoney a \<longleftrightarrow> 0 \<le> m_minor a"

lemmas money_defs = mkMoney_def addMoney_def subMoney_def gteMoney_def validMoney_def

lemma mkMoney_valid: "mkMoney n c = Inr a \<Longrightarrow> validMoney a"
  by (auto simp: money_defs andThen_Inr_iff)

lemma addMoney_iff:
  "validMoney a \<Longrightarrow> validMoney b \<Longrightarrow> addMoney a b = Inr c \<longleftrightarrow>
     m_currency a = m_currency b \<and> c = \<lparr>m_minor = m_minor a + m_minor b, m_currency = m_currency a\<rparr>"
  by (auto simp: money_defs andThen_Inr_iff)

lemma subMoney_iff:
  "subMoney a b = Inr c \<longleftrightarrow> m_currency a = m_currency b \<and> m_minor b \<le> m_minor a
     \<and> c = \<lparr>m_minor = m_minor a - m_minor b, m_currency = m_currency a\<rparr>"
  by (auto simp: money_defs andThen_Inr_iff)

text \<open>
  Money forms a partial commutative group: subtraction undoes addition and is defined exactly where
  the comparison allows it.
\<close>

lemma subMoney_add:
  "validMoney a \<Longrightarrow> validMoney b \<Longrightarrow> addMoney a b = Inr c \<Longrightarrow> subMoney c b = Inr a"
  by (auto simp: addMoney_iff subMoney_iff validMoney_def)

lemma subMoney_defined:
  "(\<exists>c. subMoney a b = Inr c) \<longleftrightarrow> gteMoney a b = Inr True"
  by (auto simp: subMoney_iff gteMoney_def andThen_Inr_iff)

end
