(* ===== verification/Calendar.thy ===== *)
theory Calendar
  imports Prelude
begin

text \<open>
  JavaScript's \<open>Date\<close> as far as the code uses it: time values are integer milliseconds since the epoch,
  decomposed into the proleptic Gregorian calendar as ECMA-262 prescribes. Used by the transfer and
  card limits (start of the local day and month), by fixed deposits (\<open>setMonth\<close>) and by standing
  instructions (\<open>setUTCDate\<close>, \<open>setUTCMonth\<close>). Local time is UTC plus a constant offset \<open>tz\<close>
  in milliseconds: the development covers servers whose zone has no daylight saving.
\<close>

definition msPerDay :: int where
  "msPerDay = 86400000"

definition dayOf :: "int \<Rightarrow> int" where
  "dayOf t = t div msPerDay"

definition timeWithinDay :: "int \<Rightarrow> int" where
  "timeWithinDay t = t mod msPerDay"

definition makeDate :: "int \<Rightarrow> int \<Rightarrow> int" where
  "makeDate d ms = d * msPerDay + ms"

definition isLeap :: "int \<Rightarrow> bool" where
  "isLeap y \<longleftrightarrow> (y mod 4 = 0 \<and> y mod 100 \<noteq> 0) \<or> y mod 400 = 0"

definition dayFromYear :: "int \<Rightarrow> int" where
  "dayFromYear y = 365 * (y - 1970) + (y - 1969) div 4 - (y - 1901) div 100 + (y - 1601) div 400"

text \<open>Days of a year before its month \<open>m\<close> (0 is January).\<close>

definition monthStart :: "bool \<Rightarrow> int \<Rightarrow> int" where
  "monthStart leap m =
     (let l = (if leap then 1 else 0) in
      if m \<le> 0 then 0 else if m = 1 then 31 else if m = 2 then 59 + l else if m = 3 then 90 + l
      else if m = 4 then 120 + l else if m = 5 then 151 + l else if m = 6 then 181 + l
      else if m = 7 then 212 + l else if m = 8 then 243 + l else if m = 9 then 273 + l
      else if m = 10 then 304 + l else if m = 11 then 334 + l else 365 + l)"

text \<open>\<open>MakeDay\<close>: month and date may be out of range and carry over.\<close>

definition makeDay :: "int \<Rightarrow> int \<Rightarrow> int \<Rightarrow> int" where
  "makeDay y m d =
     (let ym = y + m div 12; mn = m mod 12 in dayFromYear ym + monthStart (isLeap ym) mn + d - 1)"

definition yearOf :: "int \<Rightarrow> int" where
  "yearOf d =
     (let y = 1970 + (400 * d) div 146097 in
      if dayFromYear (y + 1) \<le> d then y + 1 else if d < dayFromYear y then y - 1 else y)"

definition dayInYear :: "int \<Rightarrow> int" where
  "dayInYear d = d - dayFromYear (yearOf d)"

definition monthOf :: "int \<Rightarrow> int" where
  "monthOf d =
     (let n = dayInYear d; ms = monthStart (isLeap (yearOf d)) in
      if n < ms 1 then 0 else if n < ms 2 then 1 else if n < ms 3 then 2 else if n < ms 4 then 3
      else if n < ms 5 then 4 else if n < ms 6 then 5 else if n < ms 7 then 6 else if n < ms 8 then 7
      else if n < ms 9 then 8 else if n < ms 10 then 9 else if n < ms 11 then 10 else 11)"

definition dateOf :: "int \<Rightarrow> int" where
  "dateOf d = dayInYear d - monthStart (isLeap (yearOf d)) (monthOf d) + 1"

text \<open>\<open>d.setUTCDate(d.getUTCDate() + n)\<close> and \<open>d.setUTCMonth(d.getUTCMonth() + n)\<close>.\<close>

definition addUTCDays :: "int \<Rightarrow> int \<Rightarrow> int" where
  "addUTCDays t n =
     makeDate (makeDay (yearOf (dayOf t)) (monthOf (dayOf t)) (dateOf (dayOf t) + n)) (timeWithinDay t)"

definition addUTCMonths :: "int \<Rightarrow> int \<Rightarrow> int" where
  "addUTCMonths t n =
     makeDate (makeDay (yearOf (dayOf t)) (monthOf (dayOf t) + n) (dateOf (dayOf t))) (timeWithinDay t)"

text \<open>\<open>d.setMonth(d.getMonth() + n)\<close>, in local time.\<close>

definition addLocalMonths :: "int \<Rightarrow> int \<Rightarrow> int \<Rightarrow> int" where
  "addLocalMonths tz t n = addUTCMonths (t + tz) n - tz"

text \<open>
  \<open>setHours(0, 0, 0, 0)\<close>, and \<open>setDate(1)\<close> followed by it: the functions \<open>startOfDayMs\<close> and
  \<open>startOfMonthMs\<close> of \<open>services/transferLimits.ts\<close> and \<open>services/cardLimits.ts\<close>.
\<close>

definition startOfDayMs :: "int \<Rightarrow> int \<Rightarrow> int" where
  "startOfDayMs tz now = makeDate (dayOf (now + tz)) 0 - tz"

definition startOfMonthMs :: "int \<Rightarrow> int \<Rightarrow> int" where
  "startOfMonthMs tz now =
     (let d = dayOf (now + tz) in makeDate (makeDay (yearOf d) (monthOf d) 1) 0 - tz)"

section \<open>The decomposition is right\<close>

lemma dayFromYear_bounds:
  "146097 * y - 287812090 \<le> 400 * dayFromYear y"
  "400 * dayFromYear y \<le> 146097 * y - 287810090"
proof -
  define a where "a = (y - 1969) div 4"
  define b where "b = (y - 1901) div 100"
  define c where "c = (y - 1601) div 400"
  have a: "4 * a \<le> y - 1969" "y - 1972 \<le> 4 * a" unfolding a_def by linarith+
  have b: "100 * b \<le> y - 1901" "y - 2000 \<le> 100 * b" unfolding b_def by linarith+
  have c: "400 * c \<le> y - 1601" "y - 2000 \<le> 400 * c" unfolding c_def by linarith+
  have e: "dayFromYear y = 365 * y - 719050 + a - b + c"
    by (simp add: dayFromYear_def a_def b_def c_def)
  show "146097 * y - 287812090 \<le> 400 * dayFromYear y" using a b c by (simp add: e)
  show "400 * dayFromYear y \<le> 146097 * y - 287810090" using a b c by (simp add: e)
qed

lemma div_mod_step:
  fixes x n :: int
  assumes "0 < n"
  shows "(x + 1) div n = x div n + (if x mod n = n - 1 then 1 else 0)"
    and "(x + 1) mod n = (if x mod n = n - 1 then 0 else x mod n + 1)"
proof -
  have r: "0 \<le> x mod n" "x mod n < n" "x = n * (x div n) + x mod n" using assms by simp_all
  show d: "(x + 1) div n = x div n + (if x mod n = n - 1 then 1 else 0)"
  proof (cases "x mod n = n - 1")
    case True
    with r(3) have "x + 1 = n * (x div n + 1) + 0" by (simp add: algebra_simps)
    then have "(x + 1) div n = x div n + 1" by (rule int_div_pos_eq) (use assms in simp_all)
    with True show ?thesis by simp
  next
    case False
    with r have "x + 1 = n * (x div n) + (x mod n + 1)" "0 \<le> x mod n + 1" "x mod n + 1 < n" by linarith+
    then have "(x + 1) div n = x div n" by (rule int_div_pos_eq)
    with False show ?thesis by simp
  qed
  have "(x + 1) mod n = x + 1 - n * ((x + 1) div n)" by (simp add: minus_mult_div_eq_mod)
  moreover have "x mod n = x - n * (x div n)" by (simp add: minus_mult_div_eq_mod)
  ultimately show "(x + 1) mod n = (if x mod n = n - 1 then 0 else x mod n + 1)"
    unfolding d by (auto simp: distrib_left)
qed

lemma mod_step_dvd:
  fixes x n :: int
  assumes "0 < n"
  shows "x mod n = n - 1 \<longleftrightarrow> n dvd (x + 1)"
  using div_mod_step(2) [OF assms, of x] pos_mod_sign [OF assms, of x] by (auto simp: dvd_eq_mod_eq_0 split: if_splits)

text \<open>A year has 365 days, or 366 when it is a leap year.\<close>

lemma dayFromYear_Suc: "dayFromYear (y + 1) = dayFromYear y + (if isLeap y then 366 else 365)"
proof -
  have e: "y + 1 - 1969 = (y - 1969) + 1" "y + 1 - 1901 = (y - 1901) + 1" "y + 1 - 1601 = (y - 1601) + 1"
    "y + 1 - 1970 = (y - 1970) + 1"
    by simp_all
  have dv: "4 dvd (y - 1969 + 1) \<longleftrightarrow> 4 dvd y" "100 dvd (y - 1901 + 1) \<longleftrightarrow> 100 dvd y"
    "400 dvd (y - 1601 + 1) \<longleftrightarrow> 400 dvd y"
    using dvd_add_times_triv_right_iff [of 4 y "-492"] dvd_add_times_triv_right_iff [of 100 y "-19"]
      dvd_add_times_triv_right_iff [of 400 y "-4"] by simp_all
  have imp: "400 dvd y \<Longrightarrow> 100 dvd y" "100 dvd y \<Longrightarrow> 4 dvd y"
    by (rule dvd_trans [of _ 400], simp_all) (rule dvd_trans [of _ 100], simp_all)
  have "isLeap y \<longleftrightarrow> 4 dvd y \<and> \<not> 100 dvd y \<or> 400 dvd y"
    by (simp add: isLeap_def dvd_eq_mod_eq_0)
  then show ?thesis
    unfolding dayFromYear_def e div_mod_step(1) [OF zero_less_numeral] mod_step_dvd [OF zero_less_numeral] dv
    using imp by auto
qed

lemma yearOf_bounds: "dayFromYear (yearOf d) \<le> d" "d < dayFromYear (yearOf d + 1)"
proof -
  define y where "y = 1970 + (400 * d) div 146097"
  have q: "146097 * y - 287811090 \<le> 400 * d" "400 * d < 146097 * y - 287664993"
    using pos_mod_sign [of 146097 "400 * d"] pos_mod_bound [of 146097 "400 * d"]
      mult_div_mod_eq [of 146097 "400 * d"]
    by (simp_all add: y_def)
  from q have "dayFromYear (y - 1) \<le> d" using dayFromYear_bounds [of "y - 1"] by simp
  moreover from q have "d < dayFromYear (y + 2)" using dayFromYear_bounds [of "y + 2"] by simp
  ultimately show "dayFromYear (yearOf d) \<le> d" "d < dayFromYear (yearOf d + 1)"
    unfolding yearOf_def Let_def y_def [symmetric] by (simp_all add: add.commute)
qed

lemma dayInYear_bounds: "0 \<le> dayInYear d" "dayInYear d < (if isLeap (yearOf d) then 366 else 365)"
  using yearOf_bounds [of d] by (auto simp: dayInYear_def dayFromYear_Suc split: if_splits)

lemma monthOf_bounds: "0 \<le> monthOf d" "monthOf d \<le> 11"
  by (auto simp: monthOf_def Let_def)

lemma monthStart_monthOf:
  "monthStart (isLeap (yearOf d)) (monthOf d) \<le> dayInYear d"
  "dayInYear d < monthStart (isLeap (yearOf d)) (monthOf d + 1)"
proof -
  define ms where "ms = monthStart (isLeap (yearOf d))"
  have b: "ms 0 \<le> dayInYear d" "dayInYear d < ms 12"
    using dayInYear_bounds [of d] by (auto simp: ms_def monthStart_def Let_def)
  have "monthStart (isLeap (yearOf d)) = ms" by (simp add: ms_def)
  then have m: "monthOf d = (if dayInYear d < ms 1 then 0 else if dayInYear d < ms 2 then 1
      else if dayInYear d < ms 3 then 2 else if dayInYear d < ms 4 then 3
      else if dayInYear d < ms 5 then 4 else if dayInYear d < ms 6 then 5
      else if dayInYear d < ms 7 then 6 else if dayInYear d < ms 8 then 7
      else if dayInYear d < ms 9 then 8 else if dayInYear d < ms 10 then 9
      else if dayInYear d < ms 11 then 10 else 11)"
    by (simp only: monthOf_def Let_def)
  show "monthStart (isLeap (yearOf d)) (monthOf d) \<le> dayInYear d"
    "dayInYear d < monthStart (isLeap (yearOf d)) (monthOf d + 1)"
    unfolding ms_def [symmetric] m using b by simp_all
qed

lemma dateOf_ge_1: "1 \<le> dateOf d"
  using monthStart_monthOf(1) [of d] by (simp add: dateOf_def)

lemma makeDay_date: "makeDay y m (d + k) = makeDay y m d + k"
  by (simp add: makeDay_def Let_def)

text \<open>Taking a day apart and putting it together again gives the day.\<close>

lemma makeDay_parts: "makeDay (yearOf d) (monthOf d) (dateOf d) = d"
  using monthOf_bounds [of d]
  by (simp add: makeDay_def Let_def dateOf_def dayInYear_def div_pos_pos_trivial mod_pos_pos_trivial)

lemma monthStart_mono: "0 \<le> m \<Longrightarrow> m \<le> 11 \<Longrightarrow> monthStart l m + 28 \<le> monthStart l (m + 1)"
proof -
  assume "0 \<le> m" "m \<le> 11"
  then have "m = 0 \<or> m = 1 \<or> m = 2 \<or> m = 3 \<or> m = 4 \<or> m = 5 \<or> m = 6 \<or> m = 7 \<or> m = 8 \<or> m = 9
    \<or> m = 10 \<or> m = 11" by arith
  then show ?thesis by (elim disjE) (simp_all add: monthStart_def Let_def)
qed

text \<open>Each month starts at least 28 days after the one before, across year boundaries too.\<close>

lemma makeDay_month_step: "makeDay y m d + 28 \<le> makeDay y (m + 1) d"
proof (cases "m mod 12 = 11")
  case True
  then have "(m + 1) div 12 = m div 12 + 1" "(m + 1) mod 12 = 0"
    using div_mod_step [of 12 m] by simp_all
  with True show ?thesis
    using dayFromYear_Suc [of "y + m div 12"]
    by (simp add: makeDay_def Let_def monthStart_def add.assoc [symmetric])
next
  case False
  then have eq: "(m + 1) div 12 = m div 12" "(m + 1) mod 12 = m mod 12 + 1"
    using div_mod_step [of 12 m] by simp_all
  have "monthStart (isLeap (y + m div 12)) (m mod 12) + 28
        \<le> monthStart (isLeap (y + m div 12)) (m mod 12 + 1)"
    using pos_mod_bound [of 12 m] by (intro monthStart_mono) (simp, linarith)
  then show ?thesis by (simp add: makeDay_def Let_def eq)
qed

lemma makeDay_months: "makeDay y m d + 28 * int n \<le> makeDay y (m + int n) d"
proof (induction n)
  case (Suc n)
  have "makeDay y (m + int n) d + 28 \<le> makeDay y (m + int n + 1) d" by (rule makeDay_month_step)
  moreover have "m + int n + 1 = m + int (Suc n)" by simp
  ultimately show ?case using Suc by simp
qed simp

lemma makeDate_parts: "makeDate (dayOf t) (timeWithinDay t) = t"
  by (simp add: makeDate_def dayOf_def timeWithinDay_def)

lemma makeDate_diff: "makeDate (d + k) ms = makeDate d ms + k * msPerDay"
  by (simp add: makeDate_def algebra_simps)

lemma addUTCDays_eq: "addUTCDays t n = t + n * msPerDay"
  unfolding addUTCDays_def makeDay_date makeDay_parts makeDate_diff makeDate_parts by simp

lemma addUTCMonths_ge: "t + 28 * int n * msPerDay \<le> addUTCMonths t (int n)"
proof -
  have "dayOf t + 28 * int n
        \<le> makeDay (yearOf (dayOf t)) (monthOf (dayOf t) + int n) (dateOf (dayOf t))"
    using makeDay_months [of "yearOf (dayOf t)" "monthOf (dayOf t)" "dateOf (dayOf t)" n]
    by (simp add: makeDay_parts)
  then have "(dayOf t + 28 * int n) * msPerDay \<le>
      makeDay (yearOf (dayOf t)) (monthOf (dayOf t) + int n) (dateOf (dayOf t)) * msPerDay"
    by (simp add: msPerDay_def)
  then show ?thesis
    using makeDate_parts [of t] by (simp add: addUTCMonths_def makeDate_def algebra_simps)
qed

lemma startOfDay_le: "startOfDayMs tz now \<le> now"
proof -
  have "makeDate (dayOf (now + tz)) 0 \<le> now + tz"
    using makeDate_parts [of "now + tz"] pos_mod_sign [of msPerDay "now + tz"]
    by (simp add: makeDate_def timeWithinDay_def msPerDay_def)
  then show ?thesis by (simp add: startOfDayMs_def)
qed

lemma startOfMonth_le_startOfDay: "startOfMonthMs tz now \<le> startOfDayMs tz now"
proof -
  let ?d = "dayOf (now + tz)"
  have "makeDay (yearOf ?d) (monthOf ?d) 1 \<le> ?d"
    using makeDay_parts [of ?d] makeDay_date [of "yearOf ?d" "monthOf ?d" 1 "dateOf ?d - 1"]
      dateOf_ge_1 [of ?d] by simp
  then show ?thesis by (simp add: startOfMonthMs_def startOfDayMs_def Let_def makeDate_def msPerDay_def)
qed

end
