(* ===== verification/Json.thy ===== *)
theory Json
  imports Money Calendar
begin

text \<open>
  JSON-shaped values, \<open>JSON.stringify\<close>, \<open>Date.prototype.toISOString\<close> and the log-time redactor of
  \<open>utils/redact.ts\<close>. Properties whose value is \<open>undefined\<close> are left out of a \<open>JObject\<close>, as
  \<open>JSON.stringify\<close> leaves them out. A number
  that is not an integer is a \<open>JFraction\<close> of its floor and its text, or \<open>JInfinite\<close>, which \<open>JSON.parse\<close> gives for
  literals out of range.
\<close>

datatype json =
    JNull
  | JBool bool
  | JNumber int
  | JFraction int string
  | JInfinite
  | JString string
  | JDate int
  | JArray "json list"
  | JObject "(string \<times> json) list"

fun joinWith :: "string \<Rightarrow> string list \<Rightarrow> string" where
  "joinWith sep [] = []"
| "joinWith sep [x] = x"
| "joinWith sep (x # y # xs) = x @ sep @ joinWith sep (y # xs)"

text \<open>\<open>toISOString\<close>: years outside 0 to 9999 have a sign and six digits.\<close>

definition pad2 :: "int \<Rightarrow> string" where
  "pad2 n = padStart 2 (CHR ''0'') (showNat (nat n))"

definition isoYear :: "int \<Rightarrow> string" where
  "isoYear y = (if 0 \<le> y \<and> y \<le> 9999 then padStart 4 (CHR ''0'') (showNat (nat y))
     else (if y < 0 then ''-'' else ''+'') @ padStart 6 (CHR ''0'') (showNat (nat \<bar>y\<bar>)))"

definition toISOString :: "int \<Rightarrow> string" where
  "toISOString t = (let d = dayOf t; ms = timeWithinDay t in
     isoYear (yearOf d) @ ''-'' @ pad2 (monthOf d + 1) @ ''-'' @ pad2 (dateOf d) @ ''T'' @
     pad2 (ms div 3600000) @ '':'' @ pad2 (ms div 60000 mod 60) @ '':'' @ pad2 (ms div 1000 mod 60) @
     ''.'' @ padStart 3 (CHR ''0'') (showNat (nat (ms mod 1000))) @ ''Z'')"

definition hex4 :: "nat \<Rightarrow> string" where
  "hex4 n = padStart 4 (CHR ''0'') (showRadix 16 n)"

definition escapeChar :: "char \<Rightarrow> string" where
  "escapeChar c = (let n = (of_char c :: nat) in
     if n = 34 then [CHR 0x5C, CHR 0x22]
     else if n = 92 then [CHR 0x5C, CHR 0x5C]
     else if n = 8 then [CHR 0x5C, CHR ''b'']
     else if n = 12 then [CHR 0x5C, CHR ''f'']
     else if n = 10 then [CHR 0x5C, CHR ''n'']
     else if n = 13 then [CHR 0x5C, CHR ''r'']
     else if n = 9 then [CHR 0x5C, CHR ''t'']
     else if n < 32 then [CHR 0x5C, CHR ''u''] @ hex4 n
     else [c])"

text \<open>
  A string stands for a JavaScript string by its bytes in generalized UTF-8: a surrogate without its partner is
  the three bytes its code unit would have. \<open>JSON.stringify\<close> writes it as \<open>\udXXX\<close>; a text bound to SQL is
  converted to UTF-8, where it has become the replacement character U+FFFD.
\<close>

definition surrogateAt :: "char \<Rightarrow> char \<Rightarrow> char \<Rightarrow> bool" where
  "surrogateAt a b c \<longleftrightarrow> a = CHR 0xED \<and> 160 \<le> (of_char b :: nat) \<and> (of_char b :: nat) < 192
     \<and> 128 \<le> (of_char c :: nat) \<and> (of_char c :: nat) < 192"

fun escapeText :: "string \<Rightarrow> string" where
  "escapeText (a # b # c # s) =
     (if surrogateAt a b c
      then [CHR 0x5C, CHR ''u''] @ hex4 (53248 + (of_char b mod 64) * 64 + of_char c mod 64) @ escapeText s
      else escapeChar a @ escapeText (b # c # s))"
| "escapeText s = concat (map escapeChar s)"

definition REPLACEMENT :: string where
  "REPLACEMENT = [CHR 0xEF, CHR 0xBF, CHR 0xBD]"

fun storedText :: "string \<Rightarrow> string" where
  "storedText (a # b # c # s) =
     (if surrogateAt a b c then REPLACEMENT @ storedText s else a # storedText (b # c # s))"
| "storedText s = s"

definition quoteString :: "string \<Rightarrow> string" where
  "quoteString s = [CHR 0x22] @ escapeText s @ [CHR 0x22]"

fun stringify :: "json \<Rightarrow> string" where
  "stringify JNull = ''null''"
| "stringify (JBool b) = (if b then ''true'' else ''false'')"
| "stringify (JNumber n) = showInt n"
| "stringify (JFraction n t) = t"
| "stringify JInfinite = ''null''"
| "stringify (JString s) = quoteString s"
| "stringify (JDate t) = quoteString (toISOString t)"
| "stringify (JArray vs) = ''['' @ joinWith '','' (map stringify vs) @ '']''"
| "stringify (JObject kvs) =
     ''{'' @ joinWith '','' (map (\<lambda>(k, v). quoteString k @ '':'' @ stringify v) kvs) @ ''}''"

definition optField :: "string \<Rightarrow> ('a \<Rightarrow> json) \<Rightarrow> 'a option \<Rightarrow> (string \<times> json) list" where
  "optField k f x = (case x of None \<Rightarrow> [] | Some v \<Rightarrow> [(k, f v)])"

definition orNull :: "('a \<Rightarrow> json) \<Rightarrow> 'a option \<Rightarrow> json" where
  "orNull f x = (case x of None \<Rightarrow> JNull | Some v \<Rightarrow> f v)"

section \<open>Redaction\<close>

definition lowerChar :: "char \<Rightarrow> char" where
  "lowerChar c = (if isUpper c then char_of (of_char c + (32::nat)) else c)"

definition toLowerCase :: "string \<Rightarrow> string" where
  "toLowerCase s = map lowerChar s"

definition startsWith :: "string \<Rightarrow> string \<Rightarrow> bool" where
  "startsWith p s \<longleftrightarrow> take (length p) s = p"

definition endsWith :: "string \<Rightarrow> string \<Rightarrow> bool" where
  "endsWith p s \<longleftrightarrow> length p \<le> length s \<and> drop (length s - length p) s = p"

datatype redact_mode = Hide | Truncate | MaskPan | MaskEmail | MaskDob

text \<open>
  \<open>KEY_RULES\<close>: the regular expressions match a whole key without regard to case, or, for \<open>Jwk\<close>, its end.
\<close>

datatype key_pattern = Whole string | Ending string

fun patternMatches :: "key_pattern \<Rightarrow> string \<Rightarrow> bool" where
  "patternMatches (Whole p) key = (toLowerCase key = p)"
| "patternMatches (Ending p) key = endsWith p (toLowerCase key)"

definition KEY_RULES :: "(key_pattern \<times> redact_mode) list" where
  "KEY_RULES =
    [(Whole ''password'', Hide),
     (Whole ''oldpassword'', Hide), (Whole ''newpassword'', Hide), (Whole ''currentpassword'', Hide),
     (Whole ''actiontoken'', Hide),
     (Whole ''code'', Hide), (Whole ''recoverycode'', Hide), (Whole ''codehash'', Hide),
     (Whole ''otpcode'', Hide), (Whole ''otptoken'', Hide),
     (Whole ''pan'', MaskPan), (Whole ''dob'', MaskDob), (Whole ''email'', MaskEmail),
     (Whole ''docb64'', Truncate), (Whole ''response'', Truncate), (Whole ''options'', Truncate),
     (Ending ''jwk'', Truncate), (Whole ''salt'', Truncate), (Whole ''nonce'', Truncate),
     (Whole ''challenge'', Truncate), (Whole ''paramshash'', Truncate),
     (Whole ''idempotencykey'', Truncate), (Whole ''payload'', Truncate)]"

definition ruleFor :: "string \<Rightarrow> redact_mode option" where
  "ruleFor key = map_option snd (List.find (\<lambda>(p, m). patternMatches p key) KEY_RULES)"

definition bytesNote :: "string \<Rightarrow> string" where
  "bytesNote s = ''<'' @ showNat (length s) @ '' bytes>''"

definition maskPan :: "json \<Rightarrow> string" where
  "maskPan v = (case v of
      JString s \<Rightarrow> if length s < 4 then ''***'' else take 2 s @ ''***'' @ [last s]
    | _ \<Rightarrow> ''<masked>'')"

definition maskEmail :: "json \<Rightarrow> string" where
  "maskEmail v = (case v of
      JString s \<Rightarrow>
        if CHR ''@'' \<notin> set s then ''<masked>''
        else take 1 (takeWhile (\<lambda>c. c \<noteq> CHR ''@'') s) @ ''***@'' @ tl (dropWhile (\<lambda>c. c \<noteq> CHR ''@'') s)
    | _ \<Rightarrow> ''<masked>'')"

definition isoDatePattern :: "(char \<Rightarrow> bool) list" where
  "isoDatePattern = replicate 4 isDigit @ [\<lambda>c. c = CHR ''-''] @ replicate 2 isDigit @
      [\<lambda>c. c = CHR ''-''] @ replicate 2 isDigit"

definition maskDob :: "json \<Rightarrow> string" where
  "maskDob v = (case v of
      JString s \<Rightarrow> if matchClasses isoDatePattern s then take 4 s @ ''-**-**'' else s
    | _ \<Rightarrow> ''<masked>'')"

definition truncateValue :: "json \<Rightarrow> json" where
  "truncateValue v = (case v of
      JString s \<Rightarrow> if 32 < length s then JString (bytesNote s) else v
    | JDate _ \<Rightarrow> JString ''<object, omitted>''
    | JArray _ \<Rightarrow> JString ''<object, omitted>''
    | JObject _ \<Rightarrow> JString ''<object, omitted>''
    | _ \<Rightarrow> v)"

fun applyMode :: "redact_mode \<Rightarrow> json \<Rightarrow> json" where
  "applyMode Hide v = JString ''<redacted>''"
| "applyMode Truncate v = truncateValue v"
| "applyMode MaskPan v = JString (maskPan v)"
| "applyMode MaskEmail v = JString (maskEmail v)"
| "applyMode MaskDob v = JString (maskDob v)"

text \<open>
  A \<open>Date\<close> is an object without enumerable properties, so it comes out as the empty object. The first
  argument is the property key; \<open>if (key)\<close> is false for the empty key.
\<close>

fun redactPlain :: "json \<Rightarrow> json" and redactAt :: "string \<Rightarrow> json \<Rightarrow> json" where
  "redactPlain (JArray vs) = JArray (map redactPlain vs)"
| "redactPlain (JObject kvs) = JObject (map (\<lambda>(k, v). (k, redactAt k v)) kvs)"
| "redactPlain (JDate t) = JObject []"
| "redactPlain (JString s) = (if 256 < length s then JString (bytesNote s) else JString s)"
| "redactPlain JNull = JNull"
| "redactPlain (JBool b) = JBool b"
| "redactPlain (JNumber n) = JNumber n"
| "redactPlain (JFraction n t) = JFraction n t"
| "redactPlain JInfinite = JInfinite"
| "redactAt key v =
     (if key = [] then redactPlain v
      else case ruleFor key of Some mode \<Rightarrow> applyMode mode v | None \<Rightarrow> redactPlain v)"

definition redact :: "json \<Rightarrow> json" where
  "redact v = redactPlain v"

end
