(* ===== verification/AuditDomain.thy ===== *)
theory AuditDomain
  imports Json
begin

text \<open>
  The audit log's entries, action names and categories: \<open>contexts/audit/domain/auditEntry.ts\<close> and
  \<open>actions.ts\<close>. An action is the string the registry gives it.
\<close>

datatype audit_status = AuditSuccess | AuditFailure
datatype audit_role = RoleCustomer | RoleAdmin | RoleSystem | RoleAnonymous

datatype audit_category =
    CatAuth | CatMoney | CatKyc | CatAccount | CatBeneficiary | CatBill | CatSi | CatCard
  | CatAdminRead | CatAdminWrite | CatSystem

primrec auditStatusName :: "audit_status \<Rightarrow> string" where
  "auditStatusName AuditSuccess = ''success''"
| "auditStatusName AuditFailure = ''failure''"

primrec auditRoleName :: "audit_role \<Rightarrow> string" where
  "auditRoleName RoleCustomer = ''customer''"
| "auditRoleName RoleAdmin = ''admin''"
| "auditRoleName RoleSystem = ''system''"
| "auditRoleName RoleAnonymous = ''anonymous''"

primrec categoryName :: "audit_category \<Rightarrow> string" where
  "categoryName CatAuth = ''auth''"
| "categoryName CatMoney = ''money''"
| "categoryName CatKyc = ''kyc''"
| "categoryName CatAccount = ''account''"
| "categoryName CatBeneficiary = ''beneficiary''"
| "categoryName CatBill = ''bill''"
| "categoryName CatSi = ''si''"
| "categoryName CatCard = ''card''"
| "categoryName CatAdminRead = ''admin.read''"
| "categoryName CatAdminWrite = ''admin.write''"
| "categoryName CatSystem = ''system''"

record audit_entry =
  au_id :: string
  au_seq :: nat
  au_occurredAt :: int
  au_actorUserId :: "string option"
  au_actorUsername :: "string option"
  au_actorRole :: audit_role
  au_sessionId :: "string option"
  au_action :: string
  au_category :: audit_category
  au_targetType :: "string option"
  au_targetId :: "string option"
  au_status :: audit_status
  au_errorCode :: "string option"
  au_summary :: string
  au_payload :: "json option"
  au_requestId :: "string option"
  au_ip :: "string option"
  au_userAgent :: "string option"
  au_prevHash :: "string option"
  au_hash :: string

text \<open>\<open>AUDIT_ACTION_VALUES\<close>: the values of the registry, in its order.\<close>

definition AUDIT_ACTION_VALUES :: "string list" where
  "AUDIT_ACTION_VALUES =
    [''auth.login.success'',
     ''auth.login.failure'',
     ''auth.logout'',
     ''auth.signup'',
     ''auth.password.changed'',
     ''auth.passkey.enrolled'',
     ''auth.passkey.enrolled.additional'',
     ''auth.passkey.authenticated'',
     ''auth.passkey.revoked'',
     ''auth.passkey.labeled'',
     ''auth.sessions.wiped'',
     ''auth.recovery.consumed.success'',
     ''auth.recovery.consumed.failure'',
     ''auth.otp.requested'',
     ''auth.otp.verified'',
     ''auth.otp.failed'',
     ''identity.contact.changed'',
     ''transfer.executed'',
     ''transfer.rail.executed'',
     ''transfer.settled'',
     ''dispute.filed'',
     ''dispute.decided'',
     ''faucet.credited'',
     ''bill.paid'',
     ''si.ran'',
     ''si.created'',
     ''si.paused'',
     ''si.resumed'',
     ''si.cancelled'',
     ''account.opened'',
     ''account.frozen'',
     ''account.unfrozen'',
     ''account.closed'',
     ''account.fd.opened'',
     ''account.fd.premature_closed'',
     ''account.fd.matured'',
     ''kyc.submitted'',
     ''kyc.approved'',
     ''kyc.rejected'',
     ''beneficiary.added'',
     ''beneficiary.renamed'',
     ''beneficiary.removed'',
     ''card.issued'',
     ''card.frozen'',
     ''card.cancelled'',
     ''card.limits.updated'',
     ''card.spent'',
     ''admin.kyc.listed'',
     ''admin.kyc.viewed'',
     ''admin.accounts.listed'',
     ''admin.transactions.listed'',
     ''admin.users.listed'',
     ''admin.audit.listed'',
     ''admin.audit.viewed'',
     ''admin.audit.exported'',
     ''admin.audit.verified'',
     ''admin.user.locked'',
     ''admin.user.unlocked'',
     ''admin.user.role.changed'',
     ''admin.user.password.reset'',
     ''admin.faucet.issued'',
     ''admin.si.ran'',
     ''admin.recovery.code.issued'',
     ''admin.pending.created'',
     ''admin.pending.approved'']"

definition categoryOf :: "string \<Rightarrow> audit_category" where
  "categoryOf action =
     (if startsWith ''auth.'' action then CatAuth
      else if startsWith ''kyc.'' action then CatKyc
      else if startsWith ''account.'' action then CatAccount
      else if startsWith ''beneficiary.'' action then CatBeneficiary
      else if startsWith ''bill.'' action then CatBill
      else if startsWith ''si.'' action then CatSi
      else if startsWith ''card.'' action then CatCard
      else if startsWith ''transfer.'' action \<or> startsWith ''faucet.'' action \<or> startsWith ''dispute.'' action
      then CatMoney
      else if startsWith ''admin.'' action
      then (if endsWith ''.listed'' action \<or> endsWith ''.viewed'' action
               \<or> endsWith ''.exported'' action \<or> endsWith ''.verified'' action
            then CatAdminRead else CatAdminWrite)
      else CatSystem)"

section \<open>The hash of an entry\<close>

text \<open>
  \<open>canonicalize\<close> lists every field except the hash in a fixed order; \<open>sha256\<close>, the hexadecimal digest of
  Node's \<open>crypto\<close> module, is a parameter.
\<close>

definition canonicalJson :: "audit_entry \<Rightarrow> json" where
  "canonicalJson e = JObject
    [(''seq'', JNumber (int (au_seq e))),
     (''id'', JString (au_id e)),
     (''occurredAt'', JString (toISOString (au_occurredAt e))),
     (''actorUserId'', orNull JString (au_actorUserId e)),
     (''actorUsername'', orNull JString (au_actorUsername e)),
     (''actorRole'', JString (auditRoleName (au_actorRole e))),
     (''sessionId'', orNull JString (au_sessionId e)),
     (''action'', JString (au_action e)),
     (''category'', JString (categoryName (au_category e))),
     (''targetType'', orNull JString (au_targetType e)),
     (''targetId'', orNull JString (au_targetId e)),
     (''status'', JString (auditStatusName (au_status e))),
     (''errorCode'', orNull JString (au_errorCode e)),
     (''summary'', JString (au_summary e)),
     (''payload'', orNull id (au_payload e)),
     (''requestId'', orNull JString (au_requestId e)),
     (''ip'', orNull JString (au_ip e)),
     (''userAgent'', orNull JString (au_userAgent e)),
     (''prevHash'', orNull JString (au_prevHash e))]"

definition canonicalize :: "audit_entry \<Rightarrow> string" where
  "canonicalize e = stringify (canonicalJson e)"

definition hashEntry :: "(string \<Rightarrow> string) \<Rightarrow> audit_entry \<Rightarrow> string" where
  "hashEntry sha256 e = sha256 (canonicalize e)"

lemma canonicalize_hash [simp]: "canonicalize (e\<lparr>au_hash := h\<rparr>) = canonicalize e"
  by (simp add: canonicalize_def canonicalJson_def)

text \<open>The walk of \<open>GET /admin/audit/verify\<close>: the first entry at which the chain is broken, if any.\<close>

datatype verify_result = ChainOk nat | ChainBroken string nat string

fun verifyFrom :: "(string \<Rightarrow> string) \<Rightarrow> string option \<Rightarrow> nat \<Rightarrow> audit_entry list \<Rightarrow> verify_result" where
  "verifyFrom sha256 prev n [] = ChainOk n"
| "verifyFrom sha256 prev n (e # es) =
     (if au_prevHash e \<noteq> prev then ChainBroken (au_id e) (au_seq e) ''prev_hash mismatch''
      else if hashEntry sha256 (e\<lparr>au_hash := []\<rparr>) \<noteq> au_hash e
      then ChainBroken (au_id e) (au_seq e) ''hash mismatch''
      else verifyFrom sha256 (Some (au_hash e)) (Suc n) es)"

definition verifyChain :: "(string \<Rightarrow> string) \<Rightarrow> audit_entry list \<Rightarrow> verify_result" where
  "verifyChain sha256 es = verifyFrom sha256 None 0 es"

definition isChainOk :: "verify_result \<Rightarrow> bool" where
  "isChainOk r \<longleftrightarrow> (case r of ChainOk _ \<Rightarrow> True | ChainBroken _ _ _ \<Rightarrow> False)"

text \<open>The hash the next entry has to name.\<close>

fun lastHash :: "string option \<Rightarrow> audit_entry list \<Rightarrow> string option" where
  "lastHash prev [] = prev"
| "lastHash prev (e # es) = lastHash (Some (au_hash e)) es"

lemma verifyFrom_append:
  "verifyFrom sha prev n (xs @ ys) =
     (case verifyFrom sha prev n xs of
        ChainOk m \<Rightarrow> verifyFrom sha (lastHash prev xs) m ys
      | ChainBroken i s r \<Rightarrow> ChainBroken i s r)"
  by (induction xs arbitrary: prev n) (simp_all split: verify_result.split)

lemma lastHash_append [simp]: "lastHash prev (xs @ [e]) = Some (au_hash e)"
  by (induction xs arbitrary: prev) auto

lemma isChainOk_append:
  "isChainOk (verifyFrom sha prev n (xs @ ys)) \<Longrightarrow>
     \<exists>m. isChainOk (verifyFrom sha (lastHash prev xs) m ys)"
  by (cases "verifyFrom sha prev n xs") (auto simp: verifyFrom_append isChainOk_def)

lemma isChainOk_Cons:
  "isChainOk (verifyFrom sha prev n (e # es)) \<longleftrightarrow>
     au_prevHash e = prev \<and> sha (canonicalize e) = au_hash e
     \<and> isChainOk (verifyFrom sha (Some (au_hash e)) (Suc n) es)"
  by (simp add: isChainOk_def hashEntry_def)

text \<open>
  An entry cannot be altered, with its hash recomputed or not, without the walk noticing at that entry
  or at the next, unless the altered entry is a collision of the digest.
\<close>

lemma verify_tampered:
  assumes "isChainOk (verifyFrom sha prev n (xs @ e # f # ys))"
    and "isChainOk (verifyFrom sha prev n (xs @ e' # f # ys))"
  shows "sha (canonicalize e') = sha (canonicalize e) \<and> au_hash e' = au_hash e"
proof -
  have "au_prevHash f = Some (au_hash e)" "sha (canonicalize e) = au_hash e"
    using isChainOk_append [OF assms(1)] by (auto simp: isChainOk_Cons simp del: verifyFrom.simps)
  moreover have "au_prevHash f = Some (au_hash e')" "sha (canonicalize e') = au_hash e'"
    using isChainOk_append [OF assms(2)] by (auto simp: isChainOk_Cons simp del: verifyFrom.simps)
  ultimately show ?thesis by simp
qed

end
