(* ===== verification/Payment.thy ===== *)
theory Payment
  imports Money
begin

text \<open>
  The data of the payments context: transfers, ledger entries and disputes
  (\<open>payments/domain/transfer.ts\<close>, \<open>dispute.ts\<close>) and the reference strings of \<open>shared/ids.ts\<close>.
\<close>

datatype transfer_kind = KTransfer | KFaucet | KReversal
datatype transfer_status = Pending | Posted | Failed
datatype transfer_rail = Internal | Imps | Neft | Rtgs | Upi
datatype transfer_category = P2p | Self | CFaucet | CBill | CCard

primrec railName :: "transfer_rail \<Rightarrow> string" where
  "railName Internal = ''internal''"
| "railName Imps = ''imps''"
| "railName Neft = ''neft''"
| "railName Rtgs = ''rtgs''"
| "railName Upi = ''upi''"

record transfer =
  t_id :: string
  t_idempotencyKey :: "string option"
  t_fromAccountId :: "string option"
  t_toAccountId :: "string option"
  t_amount :: int
  t_currency :: currency
  t_memo :: "string option"
  t_kind :: transfer_kind
  t_status :: transfer_status
  t_rail :: transfer_rail
  t_utr :: "string option"
  t_failureReason :: "string option"
  t_postedAt :: int
  t_referenceNumber :: "string option"
  t_fee :: int
  t_category :: "transfer_category option"
  t_fromAccountNumber :: "string option"
  t_toAccountNumber :: "string option"
  t_fromUsername :: "string option"
  t_toUsername :: "string option"
  t_description :: "string option"
  t_billerId :: "string option"
  t_cardId :: "string option"

datatype entry_kind = Debit | Credit

record ledger_entry =
  l_id :: string
  l_accountId :: string
  l_transferId :: string
  l_kind :: entry_kind
  l_amount :: int
  l_runningBalance :: int
  l_postedAt :: int

text \<open>
  \<open>generateUtr\<close>: the clock reading in base 36 and a random number below a million, the argument
  \<open>rnd\<close>.
\<close>

definition generateUtr :: "int \<Rightarrow> nat \<Rightarrow> string" where
  "generateUtr now rnd =
     ''UTR'' @ toUpperCase (showRadix 36 (nat now)) @ padStart 6 (CHR ''0'') (showNat rnd)"

text \<open>The generators of \<open>shared/ids.ts\<close>, as functions of the random number they draw.\<close>

definition accountNumberOf :: "nat \<Rightarrow> string" where
  "accountNumberOf n = ''SBE-'' @ padStart 10 (CHR ''0'') (showNat n)"

definition transactionReferenceOf :: "nat \<Rightarrow> string" where
  "transactionReferenceOf n =
     (let buf = toUpperCase (padStart 8 (CHR ''0'') (showRadix 16 n))
      in ''TXN-'' @ take 4 buf @ ''-'' @ drop 4 buf)"

section \<open>Disputes\<close>

datatype dispute_status = DSubmitted | DUnderReview | DApproved | DRejected

record dispute =
  d_id :: string
  d_userId :: string
  d_transferId :: string
  d_reason :: string
  d_status :: dispute_status
  d_adminNote :: "string option"
  d_reversalTransferId :: "string option"
  d_createdAt :: int
  d_decidedAt :: "int option"
  d_decidedByUserId :: "string option"

definition createDispute :: "string \<Rightarrow> string \<Rightarrow> string \<Rightarrow> string \<Rightarrow> int \<Rightarrow> error + dispute" where
  "createDispute i userId transferId reason createdAt =
     (let reason = trim reason in
      andThen (check (reason \<noteq> []) (GenericError ''Dispute reason required'')) (\<lambda>_.
      Inr \<lparr>d_id = i, d_userId = userId, d_transferId = transferId, d_reason = reason,
           d_status = DSubmitted, d_adminNote = None, d_reversalTransferId = None,
           d_createdAt = createdAt, d_decidedAt = None, d_decidedByUserId = None\<rparr>))"

text \<open>A transfer reference is its eight hexadecimal digits between fixed separators.\<close>

lemma length_transactionReferenceOf:
  assumes "length (showRadix 16 n) \<le> 8"
  shows "length (transactionReferenceOf n) = 13"
  using assms by (simp add: transactionReferenceOf_def Let_def padStart_def toUpperCase_def)

end
