(* ===== verification/Account.thy ===== *)
theory Account
  imports Money Calendar
begin

text \<open>
  The account aggregate of \<open>contexts/accounts/domain/account.ts\<close>: its record, the rules of every
  operation on it (open, freeze, unfreeze, close, hold, release, debit, credit) and the invariant
  \<open>accountOk\<close> that each of them keeps.
\<close>

datatype account_status = Active | Frozen | Closed

datatype account_type = Savings | Current | FixedDeposit

definition ACCOUNT_TYPES :: "account_type list" where
  "ACCOUNT_TYPES = [Savings, Current, FixedDeposit]"

primrec statusName :: "account_status \<Rightarrow> string" where
  "statusName Active = ''Active''"
| "statusName Frozen = ''Frozen''"
| "statusName Closed = ''Closed''"

primrec accountTypeName :: "account_type \<Rightarrow> string" where
  "accountTypeName Savings = ''savings''"
| "accountTypeName Current = ''current''"
| "accountTypeName FixedDeposit = ''fixed_deposit''"

text \<open>\<open>isAccountType\<close>, as a parser of the strings it accepts.\<close>

definition parseAccountType :: "string \<Rightarrow> account_type option" where
  "parseAccountType v = List.find (\<lambda>t. accountTypeName t = v) ACCOUNT_TYPES"

primrec minBalanceForType :: "account_type \<Rightarrow> int" where
  "minBalanceForType Savings = 50000"
| "minBalanceForType Current = 1000000"
| "minBalanceForType FixedDeposit = 0"

record account =
  acc_id :: string
  acc_number :: string
  acc_userId :: string
  acc_type :: account_type
  acc_status :: account_status
  acc_balance :: int
  acc_hold :: int
  acc_currency :: currency
  acc_createdAt :: int
  acc_updatedAt :: int

definition availableBalanceMinor :: "account \<Rightarrow> int" where
  "availableBalanceMinor a = acc_balance a - acc_hold a"

definition openAccount :: "string \<Rightarrow> string \<Rightarrow> string \<Rightarrow> account_type option \<Rightarrow> currency option \<Rightarrow> int \<Rightarrow> account" where
  "openAccount i number userId ty cur createdAt =
     \<lparr>acc_id = i, acc_number = number, acc_userId = userId,
      acc_type = (case ty of None \<Rightarrow> Savings | Some t \<Rightarrow> t),
      acc_status = Active, acc_balance = 0, acc_hold = 0,
      acc_currency = (case cur of None \<Rightarrow> INR | Some c \<Rightarrow> c),
      acc_createdAt = createdAt, acc_updatedAt = createdAt\<rparr>"

definition assertActive :: "account \<Rightarrow> error + unit" where
  "assertActive a = check (acc_status a = Active) (Acc AccountNotActiveError)"

definition assertCurrency :: "account \<Rightarrow> currency \<Rightarrow> error + unit" where
  "assertCurrency a cur = check (acc_currency a = cur) (Acc CurrencyMismatchError)"

definition freeze :: "account \<Rightarrow> int \<Rightarrow> error + account" where
  "freeze a ts =
     (if acc_status a = Closed
      then Inl (Acc (AccountInvalidStatusTransitionError (statusName (acc_status a)) ''Frozen''))
      else if acc_status a = Frozen then Inr a
      else Inr (a\<lparr>acc_status := Frozen, acc_updatedAt := ts\<rparr>))"

definition unfreeze :: "account \<Rightarrow> int \<Rightarrow> error + account" where
  "unfreeze a ts =
     (if acc_status a = Closed
      then Inl (Acc (AccountInvalidStatusTransitionError (statusName (acc_status a)) ''Active''))
      else if acc_status a = Active then Inr a
      else Inr (a\<lparr>acc_status := Active, acc_updatedAt := ts\<rparr>))"

definition zeroFixedDepositPrincipal :: "account \<Rightarrow> int \<Rightarrow> error + account" where
  "zeroFixedDepositPrincipal a ts =
     andThen (assertActive a) (\<lambda>_.
     andThen (check (acc_type a = FixedDeposit) (GenericError ''Not a fixed deposit account'')) (\<lambda>_.
     Inr (a\<lparr>acc_balance := 0, acc_updatedAt := ts\<rparr>)))"

definition close :: "account \<Rightarrow> int \<Rightarrow> error + account" where
  "close a ts =
     (if acc_balance a \<noteq> 0 then Inl (Acc AccountCloseRequiresZeroBalanceError)
      else if acc_hold a \<noteq> 0 then Inl (Acc (AccountCloseBlockedError ''Account has active holds''))
      else if acc_status a = Closed then Inr a
      else Inr (a\<lparr>acc_status := Closed, acc_updatedAt := ts\<rparr>))"

text \<open>
  The amounts below are integers already: every caller checks \<open>Number.isInteger\<close> or passes an amount
  read from an integer column, so that half of the guard of \<open>placeHold\<close> and \<open>releaseHold\<close> cannot fail.
\<close>

definition placeHold :: "account \<Rightarrow> int \<Rightarrow> int \<Rightarrow> error + account" where
  "placeHold a amount ts =
     andThen (assertActive a) (\<lambda>_.
     andThen (check (0 < amount) (GenericError ''Hold amount must be > 0'')) (\<lambda>_.
     andThen (check (acc_hold a + amount \<le> acc_balance a) (Acc HoldExceedsBalanceError)) (\<lambda>_.
     Inr (a\<lparr>acc_hold := acc_hold a + amount, acc_updatedAt := ts\<rparr>))))"

definition releaseHold :: "account \<Rightarrow> int \<Rightarrow> int \<Rightarrow> error + account" where
  "releaseHold a amount ts =
     andThen (assertActive a) (\<lambda>_.
     andThen (check (0 < amount) (GenericError ''Hold amount must be > 0'')) (\<lambda>_.
     andThen (check (amount \<le> acc_hold a) (GenericError ''Hold release exceeds active hold'')) (\<lambda>_.
     Inr (a\<lparr>acc_hold := acc_hold a - amount, acc_updatedAt := ts\<rparr>))))"

definition debit :: "account \<Rightarrow> int \<Rightarrow> currency \<Rightarrow> int \<Rightarrow> error + account" where
  "debit a amount cur ts =
     andThen (assertActive a) (\<lambda>_.
     andThen (assertCurrency a cur) (\<lambda>_.
     andThen (check (0 < amount) (GenericError ''Amount must be > 0'')) (\<lambda>_.
     andThen (check (acc_type a \<noteq> FixedDeposit) (Acc FixedDepositWithdrawalBlockedError)) (\<lambda>_.
     andThen (check (amount \<le> availableBalanceMinor a) (Acc InsufficientAvailableFundsError)) (\<lambda>_.
     (let after = acc_balance a - amount; minBal = minBalanceForType (acc_type a) in
      if after < minBal then Inl (Acc (MinimumBalanceViolationError minBal))
      else Inr (a\<lparr>acc_balance := after, acc_updatedAt := ts\<rparr>)))))))"

definition credit :: "account \<Rightarrow> int \<Rightarrow> currency \<Rightarrow> int \<Rightarrow> error + account" where
  "credit a amount cur ts =
     andThen (assertActive a) (\<lambda>_.
     andThen (assertCurrency a cur) (\<lambda>_.
     andThen (check (0 < amount) (GenericError ''Amount must be > 0'')) (\<lambda>_.
     Inr (a\<lparr>acc_balance := acc_balance a + amount, acc_updatedAt := ts\<rparr>))))"

section \<open>What each operation does\<close>

lemmas assert_defs = assertActive_def assertCurrency_def

lemma debit_Inr_iff:
  "debit a n c t = Inr a' \<longleftrightarrow>
     acc_status a = Active \<and> acc_currency a = c \<and> 0 < n \<and> acc_type a \<noteq> FixedDeposit
     \<and> n \<le> availableBalanceMinor a \<and> minBalanceForType (acc_type a) \<le> acc_balance a - n
     \<and> a' = a\<lparr>acc_balance := acc_balance a - n, acc_updatedAt := t\<rparr>"
  by (auto simp: debit_def assert_defs andThen_Inr_iff Let_def)

lemma credit_Inr_iff:
  "credit a n c t = Inr a' \<longleftrightarrow>
     acc_status a = Active \<and> acc_currency a = c \<and> 0 < n
     \<and> a' = a\<lparr>acc_balance := acc_balance a + n, acc_updatedAt := t\<rparr>"
  by (auto simp: credit_def assert_defs andThen_Inr_iff)

lemma placeHold_Inr_iff:
  "placeHold a n t = Inr a' \<longleftrightarrow>
     acc_status a = Active \<and> 0 < n \<and> acc_hold a + n \<le> acc_balance a
     \<and> a' = a\<lparr>acc_hold := acc_hold a + n, acc_updatedAt := t\<rparr>"
  by (auto simp: placeHold_def assert_defs andThen_Inr_iff)

lemma releaseHold_Inr_iff:
  "releaseHold a n t = Inr a' \<longleftrightarrow>
     acc_status a = Active \<and> 0 < n \<and> n \<le> acc_hold a
     \<and> a' = a\<lparr>acc_hold := acc_hold a - n, acc_updatedAt := t\<rparr>"
  by (auto simp: releaseHold_def assert_defs andThen_Inr_iff)

lemma zeroFixedDepositPrincipal_Inr_iff:
  "zeroFixedDepositPrincipal a t = Inr a' \<longleftrightarrow>
     acc_status a = Active \<and> acc_type a = FixedDeposit
     \<and> a' = a\<lparr>acc_balance := 0, acc_updatedAt := t\<rparr>"
  by (auto simp: zeroFixedDepositPrincipal_def assert_defs andThen_Inr_iff)

lemma close_Inr_iff:
  "close a t = Inr a' \<longleftrightarrow> acc_balance a = 0 \<and> acc_hold a = 0
     \<and> a' = (if acc_status a = Closed then a else a\<lparr>acc_status := Closed, acc_updatedAt := t\<rparr>)"
  by (auto simp: close_def)

lemma freeze_Inr_iff:
  "freeze a t = Inr a' \<longleftrightarrow> acc_status a \<noteq> Closed
     \<and> a' = (if acc_status a = Frozen then a else a\<lparr>acc_status := Frozen, acc_updatedAt := t\<rparr>)"
  by (auto simp: freeze_def)

lemma unfreeze_Inr_iff:
  "unfreeze a t = Inr a' \<longleftrightarrow> acc_status a \<noteq> Closed
     \<and> a' = (if acc_status a = Active then a else a\<lparr>acc_status := Active, acc_updatedAt := t\<rparr>)"
  by (auto simp: unfreeze_def)

lemmas account_iffs = debit_Inr_iff credit_Inr_iff placeHold_Inr_iff releaseHold_Inr_iff
  zeroFixedDepositPrincipal_Inr_iff close_Inr_iff freeze_Inr_iff unfreeze_Inr_iff

lemma debit_Inl_common: "debit a n c t = Inl e \<Longrightarrow> 0 < n \<Longrightarrow> isCommonDomainError e"
  by (auto simp: debit_def assert_defs andThen_Inl_iff Let_def isCommonDomainError_def split: if_splits)

lemma credit_Inl_common: "credit a n c t = Inl e \<Longrightarrow> 0 < n \<Longrightarrow> isCommonDomainError e"
  by (auto simp: credit_def assert_defs andThen_Inl_iff isCommonDomainError_def)

lemma placeHold_Inl_common: "placeHold a n t = Inl e \<Longrightarrow> 0 < n \<Longrightarrow> isCommonDomainError e"
  by (auto simp: placeHold_def assert_defs andThen_Inl_iff isCommonDomainError_def)

section \<open>The account invariant\<close>

text \<open>
  Held funds are non-negative and covered by the balance; a closed account is empty. Every operation
  of the aggregate keeps this except \<open>zeroFixedDepositPrincipal\<close>, which the code always follows by
  \<open>close\<close>: the two together keep it.
\<close>

definition accountOk :: "account \<Rightarrow> bool" where
  "accountOk a \<longleftrightarrow> 0 \<le> acc_hold a \<and> acc_hold a \<le> acc_balance a
     \<and> (acc_status a = Closed \<longrightarrow> acc_balance a = 0)"

lemma accountOk_open [simp]: "accountOk (openAccount i nr u ty cur ts)"
  by (simp add: accountOk_def openAccount_def)

lemma accountOk_ops:
  assumes "accountOk a"
  shows "debit a n c t = Inr a' \<Longrightarrow> accountOk a'"
    and "credit a n c t = Inr a' \<Longrightarrow> accountOk a'"
    and "placeHold a n t = Inr a' \<Longrightarrow> accountOk a'"
    and "releaseHold a n t = Inr a' \<Longrightarrow> accountOk a'"
    and "close a t = Inr a' \<Longrightarrow> accountOk a'"
    and "freeze a t = Inr a' \<Longrightarrow> accountOk a'"
    and "unfreeze a t = Inr a' \<Longrightarrow> accountOk a'"
  using assms by (auto simp: accountOk_def account_iffs availableBalanceMinor_def split: if_splits)

lemma accountOk_zero_close:
  "zeroFixedDepositPrincipal a t = Inr e \<Longrightarrow> close e t = Inr a' \<Longrightarrow> accountOk a'"
  by (auto simp: accountOk_def account_iffs split: if_splits)

text \<open>Fields no operation of the aggregate changes.\<close>

definition sameIdentity :: "account \<Rightarrow> account \<Rightarrow> bool" where
  "sameIdentity a b \<longleftrightarrow> acc_id a = acc_id b \<and> acc_number a = acc_number b \<and> acc_userId a = acc_userId b
     \<and> acc_type a = acc_type b \<and> acc_currency a = acc_currency b \<and> acc_createdAt a = acc_createdAt b"

lemma sameIdentity_ops:
  "debit a n c t = Inr a' \<Longrightarrow> sameIdentity a' a"
  "credit a n c t = Inr a' \<Longrightarrow> sameIdentity a' a"
  "placeHold a n t = Inr a' \<Longrightarrow> sameIdentity a' a"
  "releaseHold a n t = Inr a' \<Longrightarrow> sameIdentity a' a"
  "zeroFixedDepositPrincipal a t = Inr a' \<Longrightarrow> sameIdentity a' a"
  "close a t = Inr a' \<Longrightarrow> sameIdentity a' a"
  "freeze a t = Inr a' \<Longrightarrow> sameIdentity a' a"
  "unfreeze a t = Inr a' \<Longrightarrow> sameIdentity a' a"
  by (auto simp: sameIdentity_def account_iffs split: if_splits)

end
