(* ===== verification/Kyc.thy ===== *)
theory Kyc
  imports Account
begin

text \<open>
  The KYC application of \<open>contexts/kyc/domain/kycApplication.ts\<close> and its state machine: an application
  is submitted, then approved or rejected once, and nothing leaves a decided state.
\<close>

datatype kyc_status = Submitted | Approved | Rejected

primrec kycStatusName :: "kyc_status \<Rightarrow> string" where
  "kycStatusName Submitted = ''Submitted''"
| "kycStatusName Approved = ''Approved''"
| "kycStatusName Rejected = ''Rejected''"

record kyc_application =
  k_id :: string
  k_userId :: string
  k_fullName :: string
  k_dob :: string
  k_pan :: string
  k_address :: string
  k_docB64 :: "string option"
  k_requestedAccountType :: account_type
  k_status :: kyc_status
  k_submittedAt :: int
  k_decidedAt :: "int option"
  k_decidedByUserId :: "string option"
  k_rejectReason :: "string option"

definition panOk :: "string \<Rightarrow> bool" where
  "panOk s = matchClasses (replicate 5 isUpper @ replicate 4 isDigit @ [isUpper]) s"

definition dobOk :: "string \<Rightarrow> bool" where
  "dobOk s = matchClasses (replicate 4 isDigit @ [\<lambda>c. c = CHR ''-''] @ replicate 2 isDigit @
      [\<lambda>c. c = CHR ''-''] @ replicate 2 isDigit) s"

definition submitApplication ::
  "string \<Rightarrow> string \<Rightarrow> string \<Rightarrow> string \<Rightarrow> string \<Rightarrow> string \<Rightarrow> string option \<Rightarrow> account_type option \<Rightarrow> int
     \<Rightarrow> error + kyc_application" where
  "submitApplication i userId fullName dob pan address docB64 requested submittedAt =
     andThen (check (trim fullName \<noteq> []) (GenericError ''Full name required'')) (\<lambda>_.
     andThen (check (dobOk dob) (GenericError ''Invalid DOB format'')) (\<lambda>_.
     (let pan = toUpperCase pan in
     andThen (check (panOk pan) (KycE KycInvalidPanError)) (\<lambda>_.
     andThen (check (trim address \<noteq> []) (GenericError ''Address required'')) (\<lambda>_.
     Inr \<lparr>k_id = i, k_userId = userId, k_fullName = trim fullName, k_dob = dob, k_pan = pan,
          k_address = trim address, k_docB64 = docB64,
          k_requestedAccountType = (case requested of None \<Rightarrow> Savings | Some t \<Rightarrow> t),
          k_status = Submitted, k_submittedAt = submittedAt, k_decidedAt = None,
          k_decidedByUserId = None, k_rejectReason = None\<rparr>)))))"

definition approve :: "kyc_application \<Rightarrow> string \<Rightarrow> int \<Rightarrow> error + kyc_application" where
  "approve app adminUserId ts =
     andThen (check (k_status app = Submitted)
               (KycE (KycInvalidTransitionError (kycStatusName (k_status app)) ''Approved''))) (\<lambda>_.
     Inr (app\<lparr>k_status := Approved, k_decidedAt := Some ts, k_decidedByUserId := Some adminUserId\<rparr>))"

definition reject :: "kyc_application \<Rightarrow> string \<Rightarrow> int \<Rightarrow> string \<Rightarrow> error + kyc_application" where
  "reject app adminUserId ts reason =
     andThen (check (k_status app = Submitted)
               (KycE (KycInvalidTransitionError (kycStatusName (k_status app)) ''Rejected''))) (\<lambda>_.
     andThen (check (trim reason \<noteq> []) (GenericError ''Reject reason required'')) (\<lambda>_.
     Inr (app\<lparr>k_status := Rejected, k_decidedAt := Some ts, k_decidedByUserId := Some adminUserId,
             k_rejectReason := Some (trim reason)\<rparr>)))"

lemma approve_Inr_iff:
  "approve app u ts = Inr app' \<longleftrightarrow> k_status app = Submitted \<and>
     app' = app\<lparr>k_status := Approved, k_decidedAt := Some ts, k_decidedByUserId := Some u\<rparr>"
  by (auto simp: approve_def andThen_Inr_iff)

lemma reject_Inr_iff:
  "reject app u ts r = Inr app' \<longleftrightarrow> k_status app = Submitted \<and> trim r \<noteq> [] \<and>
     app' = app\<lparr>k_status := Rejected, k_decidedAt := Some ts, k_decidedByUserId := Some u,
       k_rejectReason := Some (trim r)\<rparr>"
  by (auto simp: reject_def andThen_Inr_iff)

lemma submitApplication_Inr:
  "submitApplication i u n d p a doc ty ts = Inr app \<Longrightarrow>
     k_status app = Submitted \<and> k_id app = i \<and> k_userId app = u \<and> panOk (k_pan app) \<and> dobOk (k_dob app)
     \<and> k_fullName app \<noteq> [] \<and> k_address app \<noteq> []"
  by (auto simp: submitApplication_def andThen_Inr_iff Let_def)

end
