(* ===== verification/StandingInstruction.thy ===== *)
theory StandingInstruction
  imports Money Calendar
begin

text \<open>
  Recurring transfers: \<open>contexts/standingInstructions/domain/standingInstruction.ts\<close>.
\<close>

datatype si_frequency = Daily | Weekly | Monthly
datatype si_status = SiActive | SiPaused | SiCancelled

primrec siStatusName :: "si_status \<Rightarrow> string" where
  "siStatusName SiActive = ''active''"
| "siStatusName SiPaused = ''paused''"
| "siStatusName SiCancelled = ''cancelled''"

record standing_instruction =
  si_id :: string
  si_ownerUserId :: string
  si_fromAccountId :: string
  si_beneficiaryId :: string
  si_amount :: int
  si_currency :: currency
  si_frequency :: si_frequency
  si_nextRunAt :: int
  si_lastRunAt :: "int option"
  si_status :: si_status
  si_description :: "string option"
  si_endAt :: "int option"
  si_failureCount :: int
  si_createdAt :: int

definition createInstruction ::
  "string \<Rightarrow> string \<Rightarrow> string \<Rightarrow> string \<Rightarrow> number \<Rightarrow> currency \<Rightarrow> si_frequency \<Rightarrow> string option \<Rightarrow> int
     \<Rightarrow> int option \<Rightarrow> int \<Rightarrow> error + standing_instruction" where
  "createInstruction i owner fromAccount ben amount cur freq descr startAt endAt createdAt =
     andThen (check (\<not> (numLe amount 0 \<or> \<not> isInteger amount))
                    (GenericError ''amountMinor must be a positive integer'')) (\<lambda>_.
     Inr \<lparr>si_id = i, si_ownerUserId = owner, si_fromAccountId = fromAccount, si_beneficiaryId = ben,
          si_amount = intOf amount, si_currency = cur, si_frequency = freq, si_nextRunAt = startAt,
          si_lastRunAt = None, si_status = SiActive, si_description = descr, si_endAt = endAt,
          si_failureCount = 0, si_createdAt = createdAt\<rparr>)"

primrec advanceRun :: "int \<Rightarrow> si_frequency \<Rightarrow> int" where
  "advanceRun from Daily = addUTCDays from 1"
| "advanceRun from Weekly = addUTCDays from 7"
| "advanceRun from Monthly = addUTCMonths from 1"

text \<open>The next run is strictly later, by at least the shortest period of the frequency.\<close>

lemma advanceRun_ge:
  "from + (case f of Daily \<Rightarrow> 1 | Weekly \<Rightarrow> 7 | Monthly \<Rightarrow> 28) * msPerDay \<le> advanceRun from f"
  using addUTCMonths_ge [of "from" 1] by (cases f) (simp_all add: addUTCDays_eq)

lemma advanceRun_later: "from < advanceRun from f"
  using advanceRun_ge [of "from" f] by (cases f) (simp_all add: msPerDay_def)

end
