(* ===== verification/Events.thy ===== *)
theory Events
  imports Payment Account Kyc StandingInstruction
begin

text \<open>
  The domain events published on the bus, one datatype per context's \<open>domain/events.ts\<close> (and the
  events \<open>container.ts\<close> and the use cases define inline). Fields keep the order of the interfaces.
\<close>

datatype money_event =
  MoneyMoved (mm_transferId: string) (mm_fromAccountId: "string option")
    (mm_toAccountId: "string option") (mm_amount: int) (mm_currency: currency)
    (mm_kind: transfer_kind) (mm_postedAt: int)

datatype account_event =
    AccountOpened string string string account_type int
  | AccountFrozen string string string int
  | AccountUnfrozen string string string int
  | AccountClosed string string string int

datatype kyc_event =
    KycSubmitted string string int
  | KycApproved string string int
  | KycRejected string string string int

datatype beneficiary_event =
    BeneficiaryAdded string string string string int
  | BeneficiaryRenamed string string string string int
  | BeneficiaryRemoved string string string int

datatype bill_event =
  BillPaid string string string string int currency "string option" int

datatype card_event =
    DebitCardIssued string string string string int
  | DebitCardFrozen string string string int
  | DebitCardCancelled string string string int
  | CardSpent string string string int currency string int

datatype si_event =
    StandingInstructionCreated string string string string int currency si_frequency int int
  | StandingInstructionPaused string string int
  | StandingInstructionResumed string string int
  | StandingInstructionCancelled string string int
  | StandingInstructionRan string string int string int

datatype identity_event =
    PasswordChanged string string int
  | PasskeyRevoked string string int
  | PasskeyEnrolledAdditional string string string int
  | RecoveryCodeIssued string string string string int int
  | RecoveryCodeConsumed string string int

datatype event =
    MoneyEv money_event
  | AccountEv account_event
  | KycEv kyc_event
  | BeneficiaryEv beneficiary_event
  | BillEv bill_event
  | CardEv card_event
  | SiEv si_event
  | IdentityEv identity_event

definition isKycApproved :: "event \<Rightarrow> bool" where
  "isKycApproved e \<longleftrightarrow> (case e of KycEv k \<Rightarrow> (case k of KycApproved _ _ _ \<Rightarrow> True | _ \<Rightarrow> False) | _ \<Rightarrow> False)"

end
