(* ===== verification/FixedDeposit.thy ===== *)
theory FixedDeposit
  imports Account
begin

text \<open>
  Fixed deposits and nominees: \<open>accounts/domain/fixedDeposit.ts\<close> and \<open>accounts/domain/nominee.ts\<close>. The
  interest formulas are integer division; JavaScript computes them in floating point, which gives the
  same result while the product of principal, rate and months stays below \<open>2 ^ 53\<close>.
\<close>

record fd_rate =
  r_minMonths :: int
  r_maxMonths :: int
  r_rateBps :: int

definition FD_RATE_BPS :: "fd_rate list" where
  "FD_RATE_BPS =
     [\<lparr>r_minMonths = 7, r_maxMonths = 12, r_rateBps = 650\<rparr>,
      \<lparr>r_minMonths = 13, r_maxMonths = 24, r_rateBps = 700\<rparr>,
      \<lparr>r_minMonths = 25, r_maxMonths = 36, r_rateBps = 750\<rparr>,
      \<lparr>r_minMonths = 37, r_maxMonths = 60, r_rateBps = 775\<rparr>,
      \<lparr>r_minMonths = 61, r_maxMonths = 120, r_rateBps = 800\<rparr>]"

definition FD_MIN_PRINCIPAL_MINOR :: int where
  "FD_MIN_PRINCIPAL_MINOR = 1000000"

definition FD_MIN_TENURE_MONTHS :: int where
  "FD_MIN_TENURE_MONTHS = 7"

definition FD_MAX_TENURE_MONTHS :: int where
  "FD_MAX_TENURE_MONTHS = 120"

definition FD_PREMATURE_PENALTY_BPS :: int where
  "FD_PREMATURE_PENALTY_BPS = 100"

lemmas fd_consts = FD_MIN_PRINCIPAL_MINOR_def FD_MIN_TENURE_MONTHS_def FD_MAX_TENURE_MONTHS_def
  FD_PREMATURE_PENALTY_BPS_def

datatype fd_status = FdActive | FdMatured | FdPrematureClosed

record fixed_deposit =
  fd_id :: string
  fd_accountId :: string
  fd_userId :: string
  fd_payoutAccountId :: string
  fd_principal :: int
  fd_tenureMonths :: int
  fd_rateBps :: int
  fd_openedAt :: int
  fd_maturityAt :: int
  fd_autoRenew :: bool
  fd_status :: fd_status
  fd_closedAt :: "int option"
  fd_interestPaid :: int

definition rateBpsForTenure :: "int \<Rightarrow> error + int" where
  "rateBpsForTenure months =
     (case List.find (\<lambda>t. r_minMonths t \<le> months \<and> months \<le> r_maxMonths t) FD_RATE_BPS of
        None \<Rightarrow> Inl (Acc FdUnsupportedTenureError)
      | Some tier \<Rightarrow> Inr (r_rateBps tier))"

definition accruedInterestMinor :: "fixed_deposit \<Rightarrow> int \<Rightarrow> int" where
  "accruedInterestMinor fd asOf =
     (let ms = asOf - fd_openedAt fd;
          monthsElapsed = max 0 (ms div (30 * 24 * 60 * 60 * 1000));
          months = min monthsElapsed (fd_tenureMonths fd)
      in (fd_principal fd * fd_rateBps fd * months) div (12 * 10000))"

definition prematureInterestMinor :: "fixed_deposit \<Rightarrow> int \<Rightarrow> int" where
  "prematureInterestMinor fd asOf =
     (let gross = accruedInterestMinor fd asOf;
          penalty = (gross * FD_PREMATURE_PENALTY_BPS) div 10000
      in max 0 (gross - penalty))"

definition maturityInterestMinor :: "fixed_deposit \<Rightarrow> int" where
  "maturityInterestMinor fd = (fd_principal fd * fd_rateBps fd * fd_tenureMonths fd) div (12 * 10000)"

definition openFdDomain ::
  "int \<Rightarrow> string \<Rightarrow> string \<Rightarrow> string \<Rightarrow> string \<Rightarrow> int \<Rightarrow> int \<Rightarrow> bool \<Rightarrow> int \<Rightarrow> error + fixed_deposit" where
  "openFdDomain tz i accountId userId payoutAccountId princ tenure autoRenew openedAt =
     andThen (check (FD_MIN_PRINCIPAL_MINOR \<le> princ) (Acc FdMinimumPrincipalError)) (\<lambda>_.
     andThen (check (FD_MIN_TENURE_MONTHS \<le> tenure \<and> tenure \<le> FD_MAX_TENURE_MONTHS)
                    (Acc FdInvalidTenureError)) (\<lambda>_.
     andThen (rateBpsForTenure tenure) (\<lambda>rate.
     Inr \<lparr>fd_id = i, fd_accountId = accountId, fd_userId = userId,
          fd_payoutAccountId = payoutAccountId, fd_principal = princ, fd_tenureMonths = tenure,
          fd_rateBps = rate, fd_openedAt = openedAt,
          fd_maturityAt = addLocalMonths tz openedAt tenure, fd_autoRenew = autoRenew,
          fd_status = FdActive, fd_closedAt = None, fd_interestPaid = 0\<rparr>)))"

definition markMatured :: "fixed_deposit \<Rightarrow> int \<Rightarrow> error + fixed_deposit" where
  "markMatured fd ts =
     andThen (check (fd_status fd = FdActive) (GenericError ''FD not active'')) (\<lambda>_.
     Inr (fd\<lparr>fd_status := FdMatured, fd_closedAt := Some ts\<rparr>))"

definition markPrematureClosed :: "fixed_deposit \<Rightarrow> int \<Rightarrow> int \<Rightarrow> error + fixed_deposit" where
  "markPrematureClosed fd interestPaid ts =
     andThen (check (fd_status fd = FdActive) (GenericError ''FD not active'')) (\<lambda>_.
     Inr (fd\<lparr>fd_status := FdPrematureClosed, fd_closedAt := Some ts, fd_interestPaid := interestPaid\<rparr>))"

section \<open>Nominees\<close>

record nominee =
  n_id :: string
  n_accountId :: string
  n_userId :: string
  n_fullName :: string
  n_relation :: string
  n_sharePercent :: int
  n_createdAt :: int

definition createNominee ::
  "string \<Rightarrow> string \<Rightarrow> string \<Rightarrow> string \<Rightarrow> string \<Rightarrow> int option \<Rightarrow> int \<Rightarrow> error + nominee" where
  "createNominee i accountId userId fullName relation sharePercent createdAt =
     (let fullName = trim fullName; relation = trim relation;
          share = (case sharePercent of None \<Rightarrow> 100 | Some p \<Rightarrow> p) in
      andThen (check (fullName \<noteq> []) (Acc NomineeNameRequiredError)) (\<lambda>_.
      andThen (check (relation \<noteq> []) (Acc NomineeRelationRequiredError)) (\<lambda>_.
      andThen (check (\<not> (share < 1 \<or> 100 < share)) (Acc NomineeShareInvalidError)) (\<lambda>_.
      Inr \<lparr>n_id = i, n_accountId = accountId, n_userId = userId, n_fullName = fullName,
           n_relation = relation, n_sharePercent = share, n_createdAt = createdAt\<rparr>))))"

section \<open>Facts\<close>

text \<open>Every tenure the domain admits has a rate, so the rate lookup never fails after the guard.\<close>

lemma rateBpsForTenure_total:
  "FD_MIN_TENURE_MONTHS \<le> m \<Longrightarrow> m \<le> FD_MAX_TENURE_MONTHS \<Longrightarrow>
     \<exists>r. rateBpsForTenure m = Inr r \<and> 650 \<le> r \<and> r \<le> 800"
  by (auto simp: rateBpsForTenure_def FD_RATE_BPS_def fd_consts)

lemma rateBpsForTenure_iff:
  "(\<exists>r. rateBpsForTenure m = Inr r) \<longleftrightarrow> 7 \<le> m \<and> m \<le> 120"
  by (auto simp: rateBpsForTenure_def FD_RATE_BPS_def split: if_splits)

lemma rateBpsForTenure_mono:
  "rateBpsForTenure m = Inr r \<Longrightarrow> rateBpsForTenure m' = Inr r' \<Longrightarrow> m \<le> m' \<Longrightarrow> r \<le> r'"
  by (auto simp: rateBpsForTenure_def FD_RATE_BPS_def split: if_splits)

text \<open>The terms a deposit is opened with.\<close>

definition fdOk :: "fixed_deposit \<Rightarrow> bool" where
  "fdOk fd \<longleftrightarrow> FD_MIN_PRINCIPAL_MINOR \<le> fd_principal fd \<and> FD_MIN_TENURE_MONTHS \<le> fd_tenureMonths fd
     \<and> fd_tenureMonths fd \<le> FD_MAX_TENURE_MONTHS \<and> 650 \<le> fd_rateBps fd \<and> fd_rateBps fd \<le> 800"

lemma openFdDomain_Inr:
  "openFdDomain tz i a u p pr te ar ts = Inr fd \<longleftrightarrow>
     FD_MIN_PRINCIPAL_MINOR \<le> pr \<and> FD_MIN_TENURE_MONTHS \<le> te \<and> te \<le> FD_MAX_TENURE_MONTHS \<and>
     (\<exists>r. rateBpsForTenure te = Inr r \<and>
     fd = \<lparr>fd_id = i, fd_accountId = a, fd_userId = u, fd_payoutAccountId = p, fd_principal = pr,
       fd_tenureMonths = te, fd_rateBps = r, fd_openedAt = ts,
       fd_maturityAt = addLocalMonths tz ts te, fd_autoRenew = ar, fd_status = FdActive,
       fd_closedAt = None, fd_interestPaid = 0\<rparr>)"
  by (auto simp: openFdDomain_def andThen_Inr_iff)

lemma fdOk_openFdDomain: "openFdDomain tz i a u p pr te ar ts = Inr fd \<Longrightarrow> fdOk fd"
  using rateBpsForTenure_total [of te] by (auto simp: openFdDomain_Inr fdOk_def)

text \<open>A deposit matures at least 28 days per month of tenure after it was opened.\<close>

lemma maturity_after_open:
  assumes "openFdDomain tz i a u p pr te ar ts = Inr fd"
  shows "fd_openedAt fd + 28 * fd_tenureMonths fd * msPerDay \<le> fd_maturityAt fd"
proof -
  from assms have "0 \<le> te" by (auto simp: openFdDomain_Inr fd_consts)
  then have "int (nat te) = te" by simp
  with addUTCMonths_ge [of "ts + tz" "nat te"] assms show ?thesis
    by (auto simp: openFdDomain_Inr addLocalMonths_def)
qed

lemma accrued_mono:
  assumes "fdOk fd" and "t \<le> t'"
  shows "accruedInterestMinor fd t \<le> accruedInterestMinor fd t'"
proof -
  have pr: "0 \<le> fd_principal fd * fd_rateBps fd" using assms(1) by (simp add: fdOk_def fd_consts)
  have "(t - fd_openedAt fd) div (30 * 24 * 60 * 60 * 1000) \<le> (t' - fd_openedAt fd) div (30 * 24 * 60 * 60 * 1000)"
    using assms(2) by (intro zdiv_mono1) simp_all
  then have "min (max 0 ((t - fd_openedAt fd) div (30 * 24 * 60 * 60 * 1000))) (fd_tenureMonths fd)
    \<le> min (max 0 ((t' - fd_openedAt fd) div (30 * 24 * 60 * 60 * 1000))) (fd_tenureMonths fd)"
    by linarith
  then show ?thesis
    unfolding accruedInterestMinor_def Let_def
    by (intro zdiv_mono1 mult_left_mono pr) simp_all
qed

lemma accrued_nonneg: "fdOk fd \<Longrightarrow> 0 \<le> accruedInterestMinor fd t"
  unfolding accruedInterestMinor_def Let_def
  by (auto simp: fdOk_def fd_consts intro!: pos_imp_zdiv_nonneg_iff [THEN iffD2] mult_nonneg_nonneg)

lemma accrued_le_maturity:
  assumes "fdOk fd"
  shows "accruedInterestMinor fd t \<le> maturityInterestMinor fd"
proof -
  have pr: "0 \<le> fd_principal fd * fd_rateBps fd" using assms by (simp add: fdOk_def fd_consts)
  show ?thesis
    unfolding accruedInterestMinor_def maturityInterestMinor_def Let_def
    by (intro zdiv_mono1 mult_left_mono pr) simp_all
qed

lemma premature_le_accrued: "fdOk fd \<Longrightarrow> prematureInterestMinor fd t \<le> accruedInterestMinor fd t"
  using accrued_nonneg [of fd t]
  by (simp add: prematureInterestMinor_def Let_def fd_consts pos_imp_zdiv_nonneg_iff)

lemma premature_nonneg [simp]: "0 \<le> prematureInterestMinor fd t"
  by (simp add: prematureInterestMinor_def Let_def)

end
