(* ===== verification/Beneficiary.thy ===== *)
theory Beneficiary
  imports Money
begin

text \<open>
  Saved payees: \<open>contexts/beneficiaries/domain/beneficiary.ts\<close> and \<open>externalBeneficiary.ts\<close>, with the
  cooling period a payee serves before transfers to it are allowed.
\<close>

datatype beneficiary_status = BenPending | BenActive

definition BENEFICIARY_COOLING_MS :: int where
  "BENEFICIARY_COOLING_MS = 24 * 60 * 60 * 1000"

record beneficiary =
  b_id :: string
  b_ownerUserId :: string
  b_nickname :: string
  b_accountNumber :: string
  b_username :: "string option"
  b_status :: beneficiary_status
  b_activatedAt :: "int option"
  b_createdAt :: int
  b_lastUsedAt :: "int option"

definition isValidAccountNumber :: "string \<Rightarrow> bool" where
  "isValidAccountNumber v =
     matchClasses (map (\<lambda>c d. d = c) ''SBE-'' @ replicate 10 isDigit) v"

definition isTransferAllowed :: "beneficiary \<Rightarrow> int \<Rightarrow> bool" where
  "isTransferAllowed b now \<longleftrightarrow>
     (if b_status b = BenActive then True
      else case b_activatedAt b of None \<Rightarrow> False | Some t \<Rightarrow> t \<le> now)"

definition createBeneficiary ::
  "string \<Rightarrow> string \<Rightarrow> string \<Rightarrow> string \<Rightarrow> string option \<Rightarrow> beneficiary_status option \<Rightarrow> int option \<Rightarrow> int
     \<Rightarrow> error + beneficiary" where
  "createBeneficiary i owner nickname accountNumber username st activatedAt createdAt =
     (let nickname = trim nickname in
      andThen (check (nickname \<noteq> []) (GenericError ''Nickname required'')) (\<lambda>_.
      andThen (check (\<not> 64 < length nickname) (GenericError ''Nickname too long'')) (\<lambda>_.
      andThen (check (isValidAccountNumber accountNumber) (GenericError ''Invalid account number'')) (\<lambda>_.
      Inr \<lparr>b_id = i, b_ownerUserId = owner, b_nickname = nickname, b_accountNumber = accountNumber,
           b_username = username, b_status = (case st of None \<Rightarrow> BenPending | Some s \<Rightarrow> s),
           b_activatedAt = activatedAt, b_createdAt = createdAt, b_lastUsedAt = None\<rparr>))))"

definition activateBeneficiary :: "beneficiary \<Rightarrow> int \<Rightarrow> beneficiary" where
  "activateBeneficiary b ts = b\<lparr>b_status := BenActive,
     b_activatedAt := Some (case b_activatedAt b of None \<Rightarrow> ts | Some t \<Rightarrow> t)\<rparr>"

definition renameBeneficiaryNickname :: "beneficiary \<Rightarrow> string \<Rightarrow> error + beneficiary" where
  "renameBeneficiaryNickname b nickname =
     (let trimmed = trim nickname in
      andThen (check (trimmed \<noteq> []) (GenericError ''Nickname required'')) (\<lambda>_.
      andThen (check (\<not> 64 < length trimmed) (GenericError ''Nickname too long'')) (\<lambda>_.
      Inr (b\<lparr>b_nickname := trimmed\<rparr>))))"

section \<open>External payees\<close>

datatype preferred_rail = PrefImps | PrefNeft | PrefRtgs | PrefUpi

record external_beneficiary =
  x_id :: string
  x_ownerUserId :: string
  x_nickname :: string
  x_accountNumber :: string
  x_ifsc :: string
  x_bankName :: string
  x_beneficiaryName :: string
  x_vpa :: "string option"
  x_preferredRail :: "preferred_rail option"
  x_status :: beneficiary_status
  x_activatedAt :: "int option"
  x_createdAt :: int
  x_lastUsedAt :: "int option"

definition isValidIfsc :: "string \<Rightarrow> bool" where
  "isValidIfsc v = matchClasses (replicate 4 isUpper @ [\<lambda>c. c = CHR ''0''] @
      replicate 6 (\<lambda>c. isUpper c \<or> isDigit c)) v"

definition createExternalBeneficiary ::
  "string \<Rightarrow> string \<Rightarrow> string \<Rightarrow> string \<Rightarrow> string \<Rightarrow> string \<Rightarrow> string \<Rightarrow> string option \<Rightarrow> preferred_rail option
     \<Rightarrow> beneficiary_status option \<Rightarrow> int option \<Rightarrow> int \<Rightarrow> error + external_beneficiary" where
  "createExternalBeneficiary i owner nickname accountNumber ifsc bankName name vpa rail st activatedAt createdAt =
     (let ifsc = toUpperCase ifsc; accountNumber = trim accountNumber; nickname = trim nickname in
      andThen (check (isValidIfsc ifsc) (GenericError ''Invalid IFSC'')) (\<lambda>_.
      andThen (check (9 \<le> length accountNumber \<and> length accountNumber \<le> 18
                      \<and> list_all isDigit accountNumber) (GenericError ''Invalid account number'')) (\<lambda>_.
      andThen (check (nickname \<noteq> []) (GenericError ''Nickname required'')) (\<lambda>_.
      Inr \<lparr>x_id = i, x_ownerUserId = owner, x_nickname = nickname, x_accountNumber = accountNumber,
           x_ifsc = ifsc, x_bankName = trim bankName, x_beneficiaryName = trim name,
           x_vpa = map_option trim vpa, x_preferredRail = rail,
           x_status = (case st of None \<Rightarrow> BenPending | Some s \<Rightarrow> s), x_activatedAt = activatedAt,
           x_createdAt = createdAt, x_lastUsedAt = None\<rparr>))))"

section \<open>Facts\<close>

lemma createBeneficiary_Inr:
  "createBeneficiary i ow n a un st act ts = Inr b \<Longrightarrow>
     b_id b = i \<and> b_ownerUserId b = ow \<and> b_accountNumber b = a \<and> isValidAccountNumber a
     \<and> b_nickname b = trim n \<and> trim n \<noteq> [] \<and> length (trim n) \<le> 64
     \<and> b_status b = (case st of None \<Rightarrow> BenPending | Some s \<Rightarrow> s) \<and> b_activatedAt b = act \<and> b_createdAt b = ts"
  by (auto simp: createBeneficiary_def andThen_Inr_iff Let_def)

text \<open>The digits after the prefix, padded to ten, form a valid account number.\<close>

lemma isValidAccountNumber_format:
  assumes "n < 10 ^ 10"
  shows "isValidAccountNumber (''SBE-'' @ padStart 10 (CHR ''0'') (showNat n))"
  unfolding isValidAccountNumber_def
  by (intro matchClasses_append)
     (use padStart_showNat [OF assms] in \<open>simp_all add: matchClasses_replicate, simp add: matchClasses_def\<close>)

end
