(* ===== verification/Card.thy ===== *)
theory Card
  imports Money
begin

text \<open>Debit cards: \<open>contexts/cards/domain/card.ts\<close>.\<close>

datatype card_network = Visa | Mastercard | Rupay
datatype card_status = CardActive | CardFrozen | CardCancelled

primrec cardStatusName :: "card_status \<Rightarrow> string" where
  "cardStatusName CardActive = ''active''"
| "cardStatusName CardFrozen = ''frozen''"
| "cardStatusName CardCancelled = ''cancelled''"

record debit_card =
  c_id :: string
  c_accountId :: string
  c_maskedNumber :: string
  c_network :: card_network
  c_status :: card_status
  c_issuedAt :: int
  c_frozenAt :: "int option"
  c_cancelledAt :: "int option"
  c_perTxnLimit :: int
  c_dailyLimit :: int
  c_monthlyLimit :: int

primrec networkPrefix :: "card_network \<Rightarrow> string" where
  "networkPrefix Visa = ''4242''"
| "networkPrefix Mastercard = ''5454''"
| "networkPrefix Rupay = ''6080''"

text \<open>The last four digits are drawn below 10000.\<close>

definition generateMaskedNumber :: "card_network \<Rightarrow> nat \<Rightarrow> string" where
  "generateMaskedNumber network rnd =
     networkPrefix network @ ''-XXXX-XXXX-'' @ padStart 4 (CHR ''0'') (showNat rnd)"

definition createCard ::
  "string \<Rightarrow> string \<Rightarrow> card_network \<Rightarrow> int \<Rightarrow> string \<Rightarrow> int \<Rightarrow> int \<Rightarrow> int \<Rightarrow> debit_card" where
  "createCard i accountId network issuedAt masked perTxn daily monthly =
     \<lparr>c_id = i, c_accountId = accountId, c_maskedNumber = masked, c_network = network,
      c_status = CardActive, c_issuedAt = issuedAt, c_frozenAt = None, c_cancelledAt = None,
      c_perTxnLimit = perTxn, c_dailyLimit = daily, c_monthlyLimit = monthly\<rparr>"

end
