(* ===== verification/Bill.thy ===== *)
theory Bill
  imports Money
begin

text \<open>Billers and saved bill accounts: \<open>contexts/bills/domain\<close>.\<close>

datatype biller_category = Electricity | Gas | Water | Internet | Mobile | OtherBiller

record biller =
  bl_id :: string
  bl_name :: string
  bl_category :: biller_category
  bl_accountNumber :: string
  bl_active :: bool
  bl_createdAt :: int

record saved_bill_account =
  sb_id :: string
  sb_userId :: string
  sb_billerId :: string
  sb_customerRef :: string
  sb_nickname :: string
  sb_createdAt :: int

definition createSavedBillAccount ::
  "string \<Rightarrow> string \<Rightarrow> string \<Rightarrow> string \<Rightarrow> string \<Rightarrow> int \<Rightarrow> error + saved_bill_account" where
  "createSavedBillAccount i userId billerId customerRef nickname createdAt =
     (let customerRef = trim customerRef; nickname = trim nickname in
      andThen (check (customerRef \<noteq> []) (GenericError ''customerRef required'')) (\<lambda>_.
      andThen (check (nickname \<noteq> []) (GenericError ''nickname required'')) (\<lambda>_.
      Inr \<lparr>sb_id = i, sb_userId = userId, sb_billerId = billerId, sb_customerRef = customerRef,
           sb_nickname = nickname, sb_createdAt = createdAt\<rparr>)))"

end
