(* ===== verification/Notification.thy ===== *)
theory Notification
  imports Money
begin

text \<open>Notifications: \<open>contexts/notifications/domain/notification.ts\<close>.\<close>

datatype notification_kind =
    NKycApproved | NKycRejected | NTransferSent | NTransferReceived | NStandingExecuted
  | NPasswordChanged | NPasskeyRevoked | NCardFrozen | NCardIssued | NCardSpent
  | NDisputeFiled | NDisputeDecided | NStandingFailed

record notification =
  nt_id :: string
  nt_userId :: string
  nt_kind :: notification_kind
  nt_title :: string
  nt_body :: string
  nt_readAt :: "int option"
  nt_relatedEntityType :: "string option"
  nt_relatedEntityId :: "string option"
  nt_createdAt :: int

definition createNotification ::
  "string \<Rightarrow> string \<Rightarrow> notification_kind \<Rightarrow> string \<Rightarrow> string \<Rightarrow> string option \<Rightarrow> string option \<Rightarrow> int
     \<Rightarrow> notification" where
  "createNotification i userId kind title body entityType entityId createdAt =
     \<lparr>nt_id = i, nt_userId = userId, nt_kind = kind, nt_title = title, nt_body = body,
      nt_readAt = None, nt_relatedEntityType = entityType, nt_relatedEntityId = entityId,
      nt_createdAt = createdAt\<rparr>"

end
