(* ===== verification/User.thy ===== *)
theory User
  imports Errors
begin

text \<open>Users, roles, tiers and the lockout test of \<open>contexts/identity/domain/user.ts\<close>.\<close>

datatype role = Customer | Admin

datatype user_status = UserActive | UserLocked

datatype kyc_tier = TierNone | TierBasic | TierFull

record user =
  u_id :: string
  u_username :: string
  u_email :: string
  u_passwordHash :: string
  u_role :: role
  u_accountStatus :: user_status
  u_failedAttempts :: int
  u_lockedUntil :: "int option"
  u_passkeyEnrolled :: bool
  u_kycTier :: kyc_tier
  u_mobile :: "string option"
  u_createdAt :: int

definition createUser ::
  "string \<Rightarrow> string \<Rightarrow> string \<Rightarrow> string \<Rightarrow> role option \<Rightarrow> bool option \<Rightarrow> int \<Rightarrow> error + user" where
  "createUser i username email passwordHash rl passkeyEnrolled createdAt =
     andThen (check (\<not> (length username < 1 \<or> 64 < length username))
                    (GenericError ''Username must be 1-64 chars'')) (\<lambda>_.
     Inr \<lparr>u_id = i, u_username = username, u_email = email, u_passwordHash = passwordHash,
          u_role = (case rl of None \<Rightarrow> Customer | Some r \<Rightarrow> r), u_accountStatus = UserActive,
          u_failedAttempts = 0, u_lockedUntil = None,
          u_passkeyEnrolled = (case passkeyEnrolled of None \<Rightarrow> False | Some b \<Rightarrow> b),
          u_kycTier = TierNone, u_mobile = None, u_createdAt = createdAt\<rparr>)"

definition isLocked :: "user \<Rightarrow> int \<Rightarrow> bool" where
  "isLocked u now \<longleftrightarrow> u_accountStatus u = UserLocked
     \<or> (case u_lockedUntil u of None \<Rightarrow> False | Some t \<Rightarrow> now < t)"

section \<open>Passkeys and recovery codes\<close>

datatype device_type = SingleDevice | MultiDevice

record credential =
  cr_id :: string
  cr_userId :: string
  cr_publicKey :: "nat list"
  cr_counter :: int
  cr_transports :: "string list option"
  cr_deviceType :: device_type
  cr_backedUp :: bool
  cr_createdAt :: int
  cr_lastUsedAt :: "int option"
  cr_label :: "string option"

datatype recovery_purpose = PasskeyAdd

record recovery_code =
  rc_id :: string
  rc_userId :: string
  rc_codeHash :: string
  rc_issuedAt :: int
  rc_issuedByAdminId :: "string option"
  rc_expiresAt :: int
  rc_consumedAt :: "int option"
  rc_purpose :: recovery_purpose

definition isExpiredCode :: "recovery_code \<Rightarrow> int \<Rightarrow> bool" where
  "isExpiredCode c now \<longleftrightarrow> rc_expiresAt c < now"

definition isConsumedCode :: "recovery_code \<Rightarrow> bool" where
  "isConsumedCode c \<longleftrightarrow> rc_consumedAt c \<noteq> None"

end
