(* ===== verification/Store.thy ===== *)
theory Store
  imports AuditDomain Events FixedDeposit Kyc Beneficiary Payment Card Bill StandingInstruction Notification User
begin

text \<open>
  The database of \<open>db/schema.ts\<close>, the world a use case runs in, SQL transactions, and the repositories
  (\<open>contexts/*/infrastructure\<close>) as queries on the tables and statements that change them. A table is
  the list of its rows in insertion order. \<open>INSERT\<close> fails with \<open>SqliteError\<close> when it would violate a
  primary key, a unique index or a foreign key that the schema declares.
\<close>

datatype pending_status = PaPending | PaApproved | PaRejected | PaExecuted

record pending_action =
  pa_id :: string
  pa_action :: string
  pa_requestedBy :: string
  pa_approvedBy :: "string option"
  pa_payload :: string
  pa_status :: pending_status
  pa_createdAt :: int
  pa_decidedAt :: "int option"

record db =
  db_users :: "user list"
  db_kyc :: "kyc_application list"
  db_accounts :: "account list"
  db_fds :: "fixed_deposit list"
  db_nominees :: "nominee list"
  db_beneficiaries :: "beneficiary list"
  db_external :: "external_beneficiary list"
  db_billers :: "biller list"
  db_savedBills :: "saved_bill_account list"
  db_sis :: "standing_instruction list"
  db_notifications :: "notification list"
  db_cards :: "debit_card list"
  db_transfers :: "transfer list"
  db_ledger :: "ledger_entry list"
  db_disputes :: "dispute list"
  db_pending :: "pending_action list"
  db_audit :: "audit_entry list"
  db_credentials :: "credential list"
  db_recovery :: "recovery_code list"

text \<open>
  Everything a use case reads besides the database comes from a source that is a parameter of the run:
  the successive readings of the clock, the successive UUIDs and the successive random numbers, each
  with the number of draws made so far. \<open>w_events\<close> records what was published on the bus.
\<close>

record world =
  w_db :: db
  w_clock :: "nat \<Rightarrow> int"
  w_clockN :: nat
  w_uuid :: "nat \<Rightarrow> string"
  w_uuidN :: nat
  w_rnd :: "nat \<Rightarrow> nat"
  w_rndN :: nat
  w_tz :: int
  w_events :: "event list"

type_synonym 'a op = "(world, error, 'a) prog"

definition dbGet :: "(db \<Rightarrow> 'a) \<Rightarrow> 'a op" where
  "dbGet f = gets (\<lambda>w. f (w_db w))"

definition dbMod :: "(db \<Rightarrow> db) \<Rightarrow> unit op" where
  "dbMod f = modify (\<lambda>w. w\<lparr>w_db := f (w_db w)\<rparr>)"

text \<open>\<open>deps.clock.now()\<close>, \<open>deps.ids.uuid()\<close> and the other generators of \<open>shared/ids.ts\<close>.\<close>

definition clockNow :: "int op" where
  "clockNow = (\<lambda>w. (Inr (w_clock w (w_clockN w)), w\<lparr>w_clockN := Suc (w_clockN w)\<rparr>))"

definition uuid :: "string op" where
  "uuid = (\<lambda>w. (Inr (w_uuid w (w_uuidN w)), w\<lparr>w_uuidN := Suc (w_uuidN w)\<rparr>))"

definition draw :: "nat \<Rightarrow> nat op" where
  "draw bound = (\<lambda>w. (Inr (w_rnd w (w_rndN w) mod bound), w\<lparr>w_rndN := Suc (w_rndN w)\<rparr>))"

definition accountNumber :: "string op" where
  "accountNumber = bnd (draw 10000000000) (\<lambda>n. ret (accountNumberOf n))"

definition transactionReference :: "string op" where
  "transactionReference = bnd (draw 4294967296) (\<lambda>n. ret (transactionReferenceOf n))"

definition utr :: "int \<Rightarrow> string op" where
  "utr now = bnd (draw 1000000) (\<lambda>n. ret (generateUtr now n))"

text \<open>\<open>db.transaction\<close>: an error rolls the database back, and nothing else.\<close>

definition transaction :: "'a op \<Rightarrow> 'a op" where
  "transaction m = (\<lambda>w. case m w of
      (Inl e, w') \<Rightarrow> (Inl e, w'\<lparr>w_db := w_db w\<rparr>)
    | (Inr x, w') \<Rightarrow> (Inr x, w'))"

text \<open>JavaScript's truth of an optional string: absent and empty are false.\<close>

definition truthy :: "string option \<Rightarrow> bool" where
  "truthy s \<longleftrightarrow> (case s of None \<Rightarrow> False | Some t \<Rightarrow> t \<noteq> [])"

section \<open>Queries\<close>

definition findUserById :: "db \<Rightarrow> string \<Rightarrow> user option" where
  "findUserById d i = List.find (\<lambda>r. u_id r = i) (db_users d)"

definition findUserByUsername :: "db \<Rightarrow> string \<Rightarrow> user option" where
  "findUserByUsername d n = List.find (\<lambda>r. u_username r = n) (db_users d)"

definition findKycById :: "db \<Rightarrow> string \<Rightarrow> kyc_application option" where
  "findKycById d i = List.find (\<lambda>r. k_id r = i) (db_kyc d)"

definition listKycByUserId :: "db \<Rightarrow> string \<Rightarrow> kyc_application list" where
  "listKycByUserId d u = sort_key (\<lambda>r. - k_submittedAt r) (filter (\<lambda>r. k_userId r = u) (db_kyc d))"

definition findActiveKycByUserId :: "db \<Rightarrow> string \<Rightarrow> kyc_application option" where
  "findActiveKycByUserId d u =
     (case sort_key (\<lambda>r. - k_submittedAt r)
             (filter (\<lambda>r. k_userId r = u \<and> k_status r \<in> {Submitted, Approved}) (db_kyc d)) of
        [] \<Rightarrow> None | r # _ \<Rightarrow> Some r)"

definition findAccountById :: "db \<Rightarrow> string \<Rightarrow> account option" where
  "findAccountById d i = List.find (\<lambda>r. acc_id r = i) (db_accounts d)"

definition findAccountByNumber :: "db \<Rightarrow> string \<Rightarrow> account option" where
  "findAccountByNumber d n = List.find (\<lambda>r. acc_number r = n) (db_accounts d)"

definition listAccountsByUserId :: "db \<Rightarrow> string \<Rightarrow> account list" where
  "listAccountsByUserId d u = filter (\<lambda>r. acc_userId r = u) (db_accounts d)"

definition findFdById :: "db \<Rightarrow> string \<Rightarrow> fixed_deposit option" where
  "findFdById d i = List.find (\<lambda>r. fd_id r = i) (db_fds d)"

definition findFdByAccountId :: "db \<Rightarrow> string \<Rightarrow> fixed_deposit option" where
  "findFdByAccountId d a = List.find (\<lambda>r. fd_accountId r = a) (db_fds d)"

definition listActiveFdsByUserId :: "db \<Rightarrow> string \<Rightarrow> fixed_deposit list" where
  "listActiveFdsByUserId d u = filter (\<lambda>r. fd_userId r = u \<and> fd_status r = FdActive) (db_fds d)"

definition listFdsDueForMaturity :: "db \<Rightarrow> int \<Rightarrow> fixed_deposit list" where
  "listFdsDueForMaturity d now = filter (\<lambda>r. fd_status r = FdActive \<and> fd_maturityAt r \<le> now) (db_fds d)"

definition findNomineeById :: "db \<Rightarrow> string \<Rightarrow> nominee option" where
  "findNomineeById d i = List.find (\<lambda>r. n_id r = i) (db_nominees d)"

definition listNomineesByAccountId :: "db \<Rightarrow> string \<Rightarrow> nominee list" where
  "listNomineesByAccountId d a = filter (\<lambda>r. n_accountId r = a) (db_nominees d)"

definition findBeneficiaryById :: "db \<Rightarrow> string \<Rightarrow> beneficiary option" where
  "findBeneficiaryById d i = List.find (\<lambda>r. b_id r = i) (db_beneficiaries d)"

definition findBeneficiaryByOwnerAndAccount :: "db \<Rightarrow> string \<Rightarrow> string \<Rightarrow> beneficiary option" where
  "findBeneficiaryByOwnerAndAccount d owner nr =
     List.find (\<lambda>r. b_ownerUserId r = owner \<and> b_accountNumber r = nr) (db_beneficiaries d)"

definition findBillerById :: "db \<Rightarrow> string \<Rightarrow> biller option" where
  "findBillerById d i = List.find (\<lambda>r. bl_id r = i) (db_billers d)"

definition listSisByOwner :: "db \<Rightarrow> string \<Rightarrow> standing_instruction list" where
  "listSisByOwner d owner = sort_key si_nextRunAt (filter (\<lambda>r. si_ownerUserId r = owner) (db_sis d))"

definition findCardById :: "db \<Rightarrow> string \<Rightarrow> debit_card option" where
  "findCardById d i = List.find (\<lambda>r. c_id r = i) (db_cards d)"

definition listCardsByAccount :: "db \<Rightarrow> string \<Rightarrow> debit_card list" where
  "listCardsByAccount d a = sort_key (\<lambda>r. - c_issuedAt r) (filter (\<lambda>r. c_accountId r = a) (db_cards d))"

definition findTransferById :: "db \<Rightarrow> string \<Rightarrow> transfer option" where
  "findTransferById d i = List.find (\<lambda>r. t_id r = i) (db_transfers d)"

definition findTransferByKey :: "db \<Rightarrow> string \<Rightarrow> transfer option" where
  "findTransferByKey d k = List.find (\<lambda>r. t_idempotencyKey r = Some k) (db_transfers d)"

definition listPendingByRail :: "db \<Rightarrow> transfer_rail \<Rightarrow> transfer list" where
  "listPendingByRail d rail = sort_key (\<lambda>r. - t_postedAt r)
     (filter (\<lambda>r. t_status r = Pending \<and> t_rail r = rail) (db_transfers d))"

definition listTransfers :: "db \<Rightarrow> nat \<Rightarrow> transfer list" where
  "listTransfers d limit = take limit (sort_key (\<lambda>r. - t_postedAt r) (db_transfers d))"

definition listLedgerByAccountInRange :: "db \<Rightarrow> string \<Rightarrow> int \<Rightarrow> int \<Rightarrow> ledger_entry list" where
  "listLedgerByAccountInRange d a fromMs toMs = sort_key l_postedAt
     (filter (\<lambda>r. l_accountId r = a \<and> fromMs \<le> l_postedAt r \<and> l_postedAt r < toMs) (db_ledger d))"

definition listLedgerByAccount :: "db \<Rightarrow> string \<Rightarrow> nat \<Rightarrow> ledger_entry list" where
  "listLedgerByAccount d a limit = take limit (sort_key (\<lambda>r. - l_postedAt r)
     (filter (\<lambda>r. l_accountId r = a) (db_ledger d)))"

definition listLedgerByTransfer :: "db \<Rightarrow> string \<Rightarrow> ledger_entry list" where
  "listLedgerByTransfer d t = sort_key l_postedAt (filter (\<lambda>r. l_transferId r = t) (db_ledger d))"

definition findDisputeById :: "db \<Rightarrow> string \<Rightarrow> dispute option" where
  "findDisputeById d i = List.find (\<lambda>r. d_id r = i) (db_disputes d)"

definition listDisputesByUserId :: "db \<Rightarrow> string \<Rightarrow> dispute list" where
  "listDisputesByUserId d u = sort_key (\<lambda>r. - d_createdAt r) (filter (\<lambda>r. d_userId r = u) (db_disputes d))"

definition findPendingActionById :: "db \<Rightarrow> string \<Rightarrow> pending_action option" where
  "findPendingActionById d i = List.find (\<lambda>r. pa_id r = i) (db_pending d)"

lemmas query_defs = findUserById_def findUserByUsername_def findKycById_def findAccountById_def
  findAccountByNumber_def findFdById_def findFdByAccountId_def findNomineeById_def
  findBeneficiaryById_def findBeneficiaryByOwnerAndAccount_def findBillerById_def findCardById_def
  findTransferById_def findTransferByKey_def findDisputeById_def findPendingActionById_def

section \<open>Statements\<close>

definition insertInto :: "bool \<Rightarrow> bool \<Rightarrow> (db \<Rightarrow> db) \<Rightarrow> unit op" where
  "insertInto unique foreign f =
     thn (throwIf (\<not> unique) (SqliteError ''UNIQUE constraint failed''))
    (thn (throwIf (\<not> foreign) (SqliteError ''FOREIGN KEY constraint failed''))
         (dbMod f))"

definition userExists :: "db \<Rightarrow> string \<Rightarrow> bool" where
  "userExists d u \<longleftrightarrow> findUserById d u \<noteq> None"

definition accountExists :: "db \<Rightarrow> string \<Rightarrow> bool" where
  "accountExists d a \<longleftrightarrow> findAccountById d a \<noteq> None"

definition insertUser :: "user \<Rightarrow> unit op" where
  "insertUser u = bnd (gets w_db) (\<lambda>d.
     insertInto (findUserById d (u_id u) = None \<and> findUserByUsername d (u_username u) = None) True
       (\<lambda>d. d\<lparr>db_users := db_users d @ [u]\<rparr>))"

definition updateUserWhere :: "string \<Rightarrow> (user \<Rightarrow> user) \<Rightarrow> unit op" where
  "updateUserWhere i f = dbMod (\<lambda>d. d\<lparr>db_users := updateWhere (\<lambda>r. u_id r = i) f (db_users d)\<rparr>)"

definition insertKyc :: "kyc_application \<Rightarrow> unit op" where
  "insertKyc k = bnd (gets w_db) (\<lambda>d.
     insertInto (findKycById d (k_id k) = None) (userExists d (k_userId k))
       (\<lambda>d. d\<lparr>db_kyc := db_kyc d @ [k]\<rparr>))"

definition updateKyc :: "kyc_application \<Rightarrow> unit op" where
  "updateKyc k = dbMod (\<lambda>d. d\<lparr>db_kyc := updateWhere (\<lambda>r. k_id r = k_id k)
     (\<lambda>r. r\<lparr>k_status := k_status k, k_decidedAt := k_decidedAt k,
            k_decidedByUserId := k_decidedByUserId k, k_rejectReason := k_rejectReason k\<rparr>) (db_kyc d)\<rparr>)"

definition accountInsertRow :: "account \<Rightarrow> db \<Rightarrow> db" where
  "accountInsertRow a d = d\<lparr>db_accounts := db_accounts d @ [a]\<rparr>"

definition insertAccount :: "account \<Rightarrow> unit op" where
  "insertAccount a = bnd (gets w_db) (\<lambda>d.
     insertInto (findAccountById d (acc_id a) = None \<and> findAccountByNumber d (acc_number a) = None)
       (userExists d (acc_userId a)) (accountInsertRow a))"

definition accountSet :: "account \<Rightarrow> account \<Rightarrow> account" where
  "accountSet a r = r\<lparr>acc_status := acc_status a, acc_balance := acc_balance a, acc_hold := acc_hold a,
     acc_currency := acc_currency a, acc_updatedAt := acc_updatedAt a\<rparr>"

definition accountUpdateRow :: "account \<Rightarrow> db \<Rightarrow> db" where
  "accountUpdateRow a d =
     d\<lparr>db_accounts := updateWhere (\<lambda>r. acc_id r = acc_id a) (accountSet a) (db_accounts d)\<rparr>"

definition updateAccount :: "account \<Rightarrow> unit op" where
  "updateAccount a = dbMod (accountUpdateRow a)"

definition fdInsertRow :: "fixed_deposit \<Rightarrow> db \<Rightarrow> db" where
  "fdInsertRow fd d = d\<lparr>db_fds := db_fds d @ [fd]\<rparr>"

definition insertFd :: "fixed_deposit \<Rightarrow> unit op" where
  "insertFd fd = bnd (gets w_db) (\<lambda>d.
     insertInto (findFdById d (fd_id fd) = None \<and> findFdByAccountId d (fd_accountId fd) = None)
       (accountExists d (fd_accountId fd) \<and> userExists d (fd_userId fd)
          \<and> accountExists d (fd_payoutAccountId fd))
       (fdInsertRow fd))"

definition fdSet :: "fixed_deposit \<Rightarrow> fixed_deposit \<Rightarrow> fixed_deposit" where
  "fdSet fd r = r\<lparr>fd_status := fd_status fd, fd_closedAt := fd_closedAt fd,
     fd_interestPaid := fd_interestPaid fd\<rparr>"

definition fdUpdateRow :: "fixed_deposit \<Rightarrow> db \<Rightarrow> db" where
  "fdUpdateRow fd d = d\<lparr>db_fds := updateWhere (\<lambda>r. fd_id r = fd_id fd) (fdSet fd) (db_fds d)\<rparr>"

definition updateFd :: "fixed_deposit \<Rightarrow> unit op" where
  "updateFd fd = dbMod (fdUpdateRow fd)"

definition insertNominee :: "nominee \<Rightarrow> unit op" where
  "insertNominee n = bnd (gets w_db) (\<lambda>d.
     insertInto (findNomineeById d (n_id n) = None)
       (accountExists d (n_accountId n) \<and> userExists d (n_userId n))
       (\<lambda>d. d\<lparr>db_nominees := db_nominees d @ [n]\<rparr>))"

definition deleteNominee :: "string \<Rightarrow> unit op" where
  "deleteNominee i = dbMod (\<lambda>d. d\<lparr>db_nominees := filter (\<lambda>r. n_id r \<noteq> i) (db_nominees d)\<rparr>)"

definition insertNotification :: "notification \<Rightarrow> unit op" where
  "insertNotification n = bnd (gets w_db) (\<lambda>d.
     insertInto (nt_id n \<notin> nt_id ` set (db_notifications d)) (userExists d (nt_userId n))
       (\<lambda>d. d\<lparr>db_notifications := db_notifications d @ [n]\<rparr>))"

definition transferInsertRow :: "transfer \<Rightarrow> db \<Rightarrow> db" where
  "transferInsertRow t d = d\<lparr>db_transfers := db_transfers d @ [t]\<rparr>"

definition insertTransfer :: "transfer \<Rightarrow> unit op" where
  "insertTransfer t = bnd (gets w_db) (\<lambda>d.
     insertInto (findTransferById d (t_id t) = None
         \<and> (case t_idempotencyKey t of None \<Rightarrow> True | Some k \<Rightarrow> findTransferByKey d k = None)
         \<and> (case t_referenceNumber t of None \<Rightarrow> True
             | Some r \<Rightarrow> Some r \<notin> t_referenceNumber ` set (db_transfers d)))
       ((case t_fromAccountId t of None \<Rightarrow> True | Some a \<Rightarrow> accountExists d a)
         \<and> (case t_toAccountId t of None \<Rightarrow> True | Some a \<Rightarrow> accountExists d a)
         \<and> (case t_cardId t of None \<Rightarrow> True | Some c \<Rightarrow> findCardById d c \<noteq> None))
       (transferInsertRow t))"

definition transferSet :: "transfer \<Rightarrow> transfer \<Rightarrow> transfer" where
  "transferSet t r = r\<lparr>t_status := t_status t, t_utr := t_utr t, t_failureReason := t_failureReason t,
     t_postedAt := t_postedAt t, t_description := t_description t\<rparr>"

definition transferUpdateRow :: "transfer \<Rightarrow> db \<Rightarrow> db" where
  "transferUpdateRow t d =
     d\<lparr>db_transfers := updateWhere (\<lambda>r. t_id r = t_id t) (transferSet t) (db_transfers d)\<rparr>"

definition updateTransfer :: "transfer \<Rightarrow> unit op" where
  "updateTransfer t = dbMod (transferUpdateRow t)"

definition settleRow ::
  "string \<Rightarrow> transfer_status \<Rightarrow> string option \<Rightarrow> int \<Rightarrow> string option \<Rightarrow> db \<Rightarrow> db" where
  "settleRow i st ut postedAt failureReason d =
     d\<lparr>db_transfers := updateWhere (\<lambda>r. t_id r = i \<and> t_status r = Pending)
        (\<lambda>r. r\<lparr>t_status := st, t_utr := ut, t_postedAt := postedAt, t_failureReason := failureReason\<rparr>)
        (db_transfers d)\<rparr>"

definition settlePending ::
  "string \<Rightarrow> transfer_status \<Rightarrow> string option \<Rightarrow> int \<Rightarrow> string option \<Rightarrow> unit op" where
  "settlePending i st ut postedAt failureReason = dbMod (settleRow i st ut postedAt failureReason)"

definition ledgerInsertRow :: "ledger_entry \<Rightarrow> db \<Rightarrow> db" where
  "ledgerInsertRow l d = d\<lparr>db_ledger := db_ledger d @ [l]\<rparr>"

definition insertLedger :: "ledger_entry \<Rightarrow> unit op" where
  "insertLedger l = bnd (gets w_db) (\<lambda>d.
     insertInto (l_id l \<notin> l_id ` set (db_ledger d))
       (accountExists d (l_accountId l) \<and> findTransferById d (l_transferId l) \<noteq> None)
       (ledgerInsertRow l))"

definition insertDispute :: "dispute \<Rightarrow> unit op" where
  "insertDispute p = bnd (gets w_db) (\<lambda>d.
     insertInto (findDisputeById d (d_id p) = None)
       (userExists d (d_userId p) \<and> findTransferById d (d_transferId p) \<noteq> None)
       (\<lambda>d. d\<lparr>db_disputes := db_disputes d @ [p]\<rparr>))"

definition updateDispute :: "dispute \<Rightarrow> unit op" where
  "updateDispute p = bnd (gets w_db) (\<lambda>d.
     thn (throwIf (\<not> ((case d_reversalTransferId p of None \<Rightarrow> True
                        | Some t \<Rightarrow> findTransferById d t \<noteq> None)
                   \<and> (case d_decidedByUserId p of None \<Rightarrow> True | Some u \<Rightarrow> userExists d u)))
            (SqliteError ''FOREIGN KEY constraint failed''))
         (dbMod (\<lambda>d. d\<lparr>db_disputes := updateWhere (\<lambda>r. d_id r = d_id p)
     (\<lambda>r. r\<lparr>d_status := d_status p, d_adminNote := d_adminNote p,
            d_reversalTransferId := d_reversalTransferId p, d_decidedAt := d_decidedAt p,
            d_decidedByUserId := d_decidedByUserId p\<rparr>) (db_disputes d)\<rparr>)))"

end
