(* ===== verification/Repos.thy ===== *)
theory Repos
  imports Store
begin

text \<open>
  The repositories of the remaining contexts (beneficiaries, bills, cards, standing instructions,
  notifications, pending admin actions, and the updates of users), in the style of \<^theory_text>\<open>Store\<close>.
\<close>

section \<open>Users\<close>

definition setRole :: "string \<Rightarrow> role \<Rightarrow> unit op" where
  "setRole i r = updateUserWhere i (\<lambda>u. u\<lparr>u_role := r\<rparr>)"

definition setAccountStatus :: "string \<Rightarrow> user_status \<Rightarrow> unit op" where
  "setAccountStatus i st =
     (if st = UserActive
      then updateUserWhere i (\<lambda>u. u\<lparr>u_accountStatus := UserActive, u_failedAttempts := 0, u_lockedUntil := None\<rparr>)
      else updateUserWhere i (\<lambda>u. u\<lparr>u_accountStatus := st\<rparr>))"

definition setPasswordRow :: "string \<Rightarrow> string \<Rightarrow> unit op" where
  "setPasswordRow i h =
     updateUserWhere i (\<lambda>u. u\<lparr>u_passwordHash := h, u_failedAttempts := 0, u_lockedUntil := None\<rparr>)"

definition markPasskeyEnrolled :: "string \<Rightarrow> unit op" where
  "markPasskeyEnrolled i = updateUserWhere i (\<lambda>u. u\<lparr>u_passkeyEnrolled := True\<rparr>)"

definition recordFailedAttempt :: "string \<Rightarrow> int option \<Rightarrow> unit op" where
  "recordFailedAttempt i lockedUntil =
     updateUserWhere i (\<lambda>u. u\<lparr>u_failedAttempts := u_failedAttempts u + 1, u_lockedUntil := lockedUntil\<rparr>)"

definition resetFailedAttempts :: "string \<Rightarrow> unit op" where
  "resetFailedAttempts i = updateUserWhere i (\<lambda>u. u\<lparr>u_failedAttempts := 0, u_lockedUntil := None\<rparr>)"

definition setKycTierRow :: "string \<Rightarrow> kyc_tier \<Rightarrow> unit op" where
  "setKycTierRow i tier = updateUserWhere i (\<lambda>u. u\<lparr>u_kycTier := tier\<rparr>)"

definition setEmail :: "string \<Rightarrow> string \<Rightarrow> unit op" where
  "setEmail i email = updateUserWhere i (\<lambda>u. u\<lparr>u_email := email\<rparr>)"

definition setMobile :: "string \<Rightarrow> string option \<Rightarrow> unit op" where
  "setMobile i mobile = updateUserWhere i (\<lambda>u. u\<lparr>u_mobile := mobile\<rparr>)"

lemmas user_stmts = setRole_def setAccountStatus_def setPasswordRow_def markPasskeyEnrolled_def
  recordFailedAttempt_def resetFailedAttempts_def setKycTierRow_def setEmail_def setMobile_def

section \<open>Passkeys and recovery codes\<close>

definition findCredentialById :: "db \<Rightarrow> string \<Rightarrow> credential option" where
  "findCredentialById d i = List.find (\<lambda>r. cr_id r = i) (db_credentials d)"

definition listCredentialsByUserId :: "db \<Rightarrow> string \<Rightarrow> credential list" where
  "listCredentialsByUserId d u = filter (\<lambda>r. cr_userId r = u) (db_credentials d)"

definition countCredentials :: "db \<Rightarrow> string \<Rightarrow> nat" where
  "countCredentials d u = length (listCredentialsByUserId d u)"

definition insertCredential :: "credential \<Rightarrow> unit op" where
  "insertCredential c = bnd (gets w_db) (\<lambda>d.
     insertInto (findCredentialById d (cr_id c) = None) (userExists d (cr_userId c))
       (\<lambda>d. d\<lparr>db_credentials := db_credentials d @ [c]\<rparr>))"

definition updateCredentialWhere :: "string \<Rightarrow> (credential \<Rightarrow> credential) \<Rightarrow> unit op" where
  "updateCredentialWhere i f =
     dbMod (\<lambda>d. d\<lparr>db_credentials := updateWhere (\<lambda>r. cr_id r = i) f (db_credentials d)\<rparr>)"

definition updateCounter :: "string \<Rightarrow> int \<Rightarrow> unit op" where
  "updateCounter i n = updateCredentialWhere i (\<lambda>c. c\<lparr>cr_counter := n\<rparr>)"

definition updateUsage :: "string \<Rightarrow> int \<Rightarrow> int \<Rightarrow> unit op" where
  "updateUsage i t n = updateCredentialWhere i (\<lambda>c. c\<lparr>cr_counter := n, cr_lastUsedAt := Some t\<rparr>)"

definition setLabel :: "string \<Rightarrow> string option \<Rightarrow> unit op" where
  "setLabel i l = updateCredentialWhere i (\<lambda>c. c\<lparr>cr_label := l\<rparr>)"

definition deleteCredential :: "string \<Rightarrow> unit op" where
  "deleteCredential i = dbMod (\<lambda>d. d\<lparr>db_credentials := filter (\<lambda>r. cr_id r \<noteq> i) (db_credentials d)\<rparr>)"

definition insertRecoveryCode :: "recovery_code \<Rightarrow> unit op" where
  "insertRecoveryCode c = bnd (gets w_db) (\<lambda>d.
     insertInto (rc_id c \<notin> rc_id ` set (db_recovery d))
       (userExists d (rc_userId c) \<and> (case rc_issuedByAdminId c of None \<Rightarrow> True | Some a \<Rightarrow> userExists d a))
       (\<lambda>d. d\<lparr>db_recovery := db_recovery d @ [c]\<rparr>))"

definition listActiveRecoveryCodes :: "db \<Rightarrow> string \<Rightarrow> int \<Rightarrow> recovery_code list" where
  "listActiveRecoveryCodes d u now = sort_key (\<lambda>c. - rc_issuedAt c)
     (filter (\<lambda>c. rc_userId c = u \<and> rc_consumedAt c = None \<and> now < rc_expiresAt c) (db_recovery d))"

definition findRecoveryCodeById :: "db \<Rightarrow> string \<Rightarrow> recovery_code option" where
  "findRecoveryCodeById d i = List.find (\<lambda>c. rc_id c = i) (db_recovery d)"

definition markConsumed :: "string \<Rightarrow> int \<Rightarrow> unit op" where
  "markConsumed i t = dbMod (\<lambda>d. d\<lparr>db_recovery := updateWhere (\<lambda>c. rc_id c = i) (\<lambda>c. c\<lparr>rc_consumedAt := Some t\<rparr>)
     (db_recovery d)\<rparr>)"

section \<open>Beneficiaries\<close>

definition insertBeneficiary :: "beneficiary \<Rightarrow> unit op" where
  "insertBeneficiary b = bnd (gets w_db) (\<lambda>d.
     insertInto (findBeneficiaryById d (b_id b) = None
         \<and> findBeneficiaryByOwnerAndAccount d (b_ownerUserId b) (b_accountNumber b) = None)
       (userExists d (b_ownerUserId b))
       (\<lambda>d. d\<lparr>db_beneficiaries := db_beneficiaries d @ [b]\<rparr>))"

definition updateBeneficiary :: "beneficiary \<Rightarrow> unit op" where
  "updateBeneficiary b = dbMod (\<lambda>d. d\<lparr>db_beneficiaries := updateWhere (\<lambda>r. b_id r = b_id b)
     (\<lambda>r. r\<lparr>b_nickname := b_nickname b, b_status := b_status b, b_activatedAt := b_activatedAt b,
            b_lastUsedAt := b_lastUsedAt b\<rparr>) (db_beneficiaries d)\<rparr>)"

text \<open>Standing instructions to a deleted beneficiary are deleted with it (\<open>ON DELETE CASCADE\<close>).\<close>

definition deleteBeneficiary :: "string \<Rightarrow> unit op" where
  "deleteBeneficiary i = dbMod (\<lambda>d. d\<lparr>db_beneficiaries := filter (\<lambda>r. b_id r \<noteq> i) (db_beneficiaries d),
     db_sis := filter (\<lambda>r. si_beneficiaryId r \<noteq> i) (db_sis d)\<rparr>)"

definition touchBeneficiary :: "string \<Rightarrow> int \<Rightarrow> unit op" where
  "touchBeneficiary i ts = dbMod (\<lambda>d. d\<lparr>db_beneficiaries := updateWhere (\<lambda>r. b_id r = i)
     (\<lambda>r. r\<lparr>b_lastUsedAt := Some ts\<rparr>) (db_beneficiaries d)\<rparr>)"

definition maybeActivate :: "beneficiary \<Rightarrow> int \<Rightarrow> beneficiary" where
  "maybeActivate b now =
     (if b_status b = BenActive then b
      else case b_activatedAt b of None \<Rightarrow> b
           | Some t \<Rightarrow> if t \<le> now then activateBeneficiary b now else b)"

text \<open>
  \<open>ORDER BY last_used_at DESC, created_at DESC\<close>; SQLite sorts \<open>NULL\<close> below every value, so rows never
  used come last.
\<close>

definition benOrder :: "beneficiary list \<Rightarrow> beneficiary list" where
  "benOrder bs = (let byCreated = sort_key (\<lambda>r. - b_createdAt r) bs in
     sort_key (\<lambda>r. - (case b_lastUsedAt r of None \<Rightarrow> 0 | Some t \<Rightarrow> t))
        (filter (\<lambda>r. b_lastUsedAt r \<noteq> None) byCreated)
     @ filter (\<lambda>r. b_lastUsedAt r = None) byCreated)"

definition listBeneficiariesByOwner :: "string \<Rightarrow> beneficiary list op" where
  "listBeneficiariesByOwner owner =
     bnd (dbGet (\<lambda>d. benOrder (filter (\<lambda>r. b_ownerUserId r = owner) (db_beneficiaries d)))) (\<lambda>rows.
     bnd clockNow (\<lambda>now.
     thn (forEach rows (\<lambda>b. if b_status (maybeActivate b now) \<noteq> b_status b
            then dbMod (\<lambda>d. d\<lparr>db_beneficiaries := updateWhere (\<lambda>r. b_id r = b_id b)
                   (\<lambda>r. r\<lparr>b_status := BenActive\<rparr>) (db_beneficiaries d)\<rparr>)
            else ret ()))
     (ret (map (\<lambda>b. maybeActivate b now) rows))))"

definition isDueBeneficiary :: "int \<Rightarrow> beneficiary \<Rightarrow> bool" where
  "isDueBeneficiary now r \<longleftrightarrow> b_status r = BenPending
     \<and> (case b_activatedAt r of None \<Rightarrow> False | Some t \<Rightarrow> t \<le> now)"

definition activateDueBeneficiaries :: "int \<Rightarrow> nat op" where
  "activateDueBeneficiaries now =
     bnd (dbGet (\<lambda>d. filter (isDueBeneficiary now) (db_beneficiaries d))) (\<lambda>rows.
     thn (forEach rows (\<lambda>b. dbMod (\<lambda>d. d\<lparr>db_beneficiaries := updateWhere (\<lambda>r. b_id r = b_id b)
            (\<lambda>r. r\<lparr>b_status := BenActive\<rparr>) (db_beneficiaries d)\<rparr>)))
     (ret (length rows)))"

definition findExternalByOwnerAccountIfsc :: "db \<Rightarrow> string \<Rightarrow> string \<Rightarrow> string \<Rightarrow> external_beneficiary option" where
  "findExternalByOwnerAccountIfsc d owner nr ifsc =
     List.find (\<lambda>r. x_ownerUserId r = owner \<and> x_accountNumber r = nr \<and> x_ifsc r = ifsc) (db_external d)"

definition listExternalByOwner :: "db \<Rightarrow> string \<Rightarrow> external_beneficiary list" where
  "listExternalByOwner d owner =
     sort_key (\<lambda>r. - x_createdAt r) (filter (\<lambda>r. x_ownerUserId r = owner) (db_external d))"

definition insertExternalBeneficiary :: "external_beneficiary \<Rightarrow> unit op" where
  "insertExternalBeneficiary x = bnd (gets w_db) (\<lambda>d.
     insertInto (x_id x \<notin> x_id ` set (db_external d)
         \<and> findExternalByOwnerAccountIfsc d (x_ownerUserId x) (x_accountNumber x) (x_ifsc x) = None)
       (userExists d (x_ownerUserId x))
       (\<lambda>d. d\<lparr>db_external := db_external d @ [x]\<rparr>))"

section \<open>Bills\<close>

text \<open>
  \<open>ORDER BY name\<close>: text is compared byte by byte, as the lexicographic order on characters.
\<close>

definition nameLe :: "string \<Rightarrow> string \<Rightarrow> bool" where
  "nameLe s t \<longleftrightarrow> s = t \<or> (s, t) \<in> lexord {(c, c'). (of_char c :: nat) < of_char c'}"

fun insertByName :: "biller \<Rightarrow> biller list \<Rightarrow> biller list" where
  "insertByName b [] = [b]"
| "insertByName b (x # xs) = (if nameLe (bl_name b) (bl_name x) then b # x # xs else x # insertByName b xs)"

definition listAllBillers :: "db \<Rightarrow> biller list" where
  "listAllBillers d = foldr insertByName (db_billers d) []"

definition listActiveBillers :: "db \<Rightarrow> biller list" where
  "listActiveBillers d = foldr insertByName (filter bl_active (db_billers d)) []"

definition findBillerByAccountNumber :: "db \<Rightarrow> string \<Rightarrow> biller option" where
  "findBillerByAccountNumber d nr = List.find (\<lambda>r. bl_accountNumber r = nr) (db_billers d)"

definition insertBiller :: "biller \<Rightarrow> unit op" where
  "insertBiller b = bnd (gets w_db) (\<lambda>d.
     insertInto (findBillerById d (bl_id b) = None \<and> findBillerByAccountNumber d (bl_accountNumber b) = None)
       True (\<lambda>d. d\<lparr>db_billers := db_billers d @ [b]\<rparr>))"

definition setBillerActive :: "string \<Rightarrow> bool \<Rightarrow> unit op" where
  "setBillerActive i active = dbMod (\<lambda>d. d\<lparr>db_billers := updateWhere (\<lambda>r. bl_id r = i)
     (\<lambda>r. r\<lparr>bl_active := active\<rparr>) (db_billers d)\<rparr>)"

definition findSavedBillById :: "db \<Rightarrow> string \<Rightarrow> saved_bill_account option" where
  "findSavedBillById d i = List.find (\<lambda>r. sb_id r = i) (db_savedBills d)"

definition listSavedBillsByUserId :: "db \<Rightarrow> string \<Rightarrow> saved_bill_account list" where
  "listSavedBillsByUserId d u = sort_key (\<lambda>r. - sb_createdAt r) (filter (\<lambda>r. sb_userId r = u) (db_savedBills d))"

definition insertSavedBill :: "saved_bill_account \<Rightarrow> unit op" where
  "insertSavedBill s = bnd (gets w_db) (\<lambda>d.
     insertInto (findSavedBillById d (sb_id s) = None
         \<and> (\<forall>r \<in> set (db_savedBills d). \<not> (sb_userId r = sb_userId s \<and> sb_billerId r = sb_billerId s
              \<and> sb_customerRef r = sb_customerRef s)))
       (userExists d (sb_userId s) \<and> findBillerById d (sb_billerId s) \<noteq> None)
       (\<lambda>d. d\<lparr>db_savedBills := db_savedBills d @ [s]\<rparr>))"

definition deleteSavedBill :: "string \<Rightarrow> unit op" where
  "deleteSavedBill i = dbMod (\<lambda>d. d\<lparr>db_savedBills := filter (\<lambda>r. sb_id r \<noteq> i) (db_savedBills d)\<rparr>)"

section \<open>Cards\<close>

definition cardInsertRow :: "debit_card \<Rightarrow> db \<Rightarrow> db" where
  "cardInsertRow c d = d\<lparr>db_cards := db_cards d @ [c]\<rparr>"

definition insertCard :: "debit_card \<Rightarrow> unit op" where
  "insertCard c = bnd (gets w_db) (\<lambda>d.
     insertInto (findCardById d (c_id c) = None) (accountExists d (c_accountId c))
       (cardInsertRow c))"

definition cardSet :: "debit_card \<Rightarrow> debit_card \<Rightarrow> debit_card" where
  "cardSet c r = r\<lparr>c_status := c_status c, c_frozenAt := c_frozenAt c, c_cancelledAt := c_cancelledAt c,
     c_perTxnLimit := c_perTxnLimit c, c_dailyLimit := c_dailyLimit c, c_monthlyLimit := c_monthlyLimit c\<rparr>"

definition cardUpdateRow :: "debit_card \<Rightarrow> db \<Rightarrow> db" where
  "cardUpdateRow c d = d\<lparr>db_cards := updateWhere (\<lambda>r. c_id r = c_id c) (cardSet c) (db_cards d)\<rparr>"

definition updateCard :: "debit_card \<Rightarrow> unit op" where
  "updateCard c = dbMod (cardUpdateRow c)"

section \<open>Standing instructions\<close>

definition findSiById :: "db \<Rightarrow> string \<Rightarrow> standing_instruction option" where
  "findSiById d i = List.find (\<lambda>r. si_id r = i) (db_sis d)"

definition listDueSis :: "db \<Rightarrow> int \<Rightarrow> standing_instruction list" where
  "listDueSis d now =
     sort_key si_nextRunAt (filter (\<lambda>r. si_status r = SiActive \<and> si_nextRunAt r \<le> now) (db_sis d))"

definition siInsertRow :: "standing_instruction \<Rightarrow> db \<Rightarrow> db" where
  "siInsertRow s d = d\<lparr>db_sis := db_sis d @ [s]\<rparr>"

definition insertSi :: "standing_instruction \<Rightarrow> unit op" where
  "insertSi s = bnd (gets w_db) (\<lambda>d.
     insertInto (findSiById d (si_id s) = None)
       (userExists d (si_ownerUserId s) \<and> accountExists d (si_fromAccountId s)
          \<and> findBeneficiaryById d (si_beneficiaryId s) \<noteq> None)
       (siInsertRow s))"

definition siSet :: "standing_instruction \<Rightarrow> standing_instruction \<Rightarrow> standing_instruction" where
  "siSet s r = r\<lparr>si_nextRunAt := si_nextRunAt s, si_lastRunAt := si_lastRunAt s, si_status := si_status s,
     si_failureCount := si_failureCount s\<rparr>"

definition siUpdateRow :: "standing_instruction \<Rightarrow> db \<Rightarrow> db" where
  "siUpdateRow s d = d\<lparr>db_sis := updateWhere (\<lambda>r. si_id r = si_id s) (siSet s) (db_sis d)\<rparr>"

definition updateSi :: "standing_instruction \<Rightarrow> unit op" where
  "updateSi s = dbMod (siUpdateRow s)"

definition setSiStatus :: "string \<Rightarrow> si_status \<Rightarrow> unit op" where
  "setSiStatus i st = dbMod (\<lambda>d. d\<lparr>db_sis := updateWhere (\<lambda>r. si_id r = i)
     (\<lambda>r. r\<lparr>si_status := st\<rparr>) (db_sis d)\<rparr>)"

section \<open>Notifications\<close>

definition findNotificationById :: "db \<Rightarrow> string \<Rightarrow> notification option" where
  "findNotificationById d i = List.find (\<lambda>r. nt_id r = i) (db_notifications d)"

definition listNotificationsByUser :: "db \<Rightarrow> string \<Rightarrow> bool \<Rightarrow> nat option \<Rightarrow> notification list" where
  "listNotificationsByUser d u unreadOnly limit =
     take (case limit of None \<Rightarrow> 100 | Some n \<Rightarrow> n) (sort_key (\<lambda>r. - nt_createdAt r)
       (filter (\<lambda>r. nt_userId r = u \<and> (unreadOnly \<longrightarrow> nt_readAt r = None)) (db_notifications d)))"

definition countUnread :: "db \<Rightarrow> string \<Rightarrow> nat" where
  "countUnread d u = length (filter (\<lambda>r. nt_userId r = u \<and> nt_readAt r = None) (db_notifications d))"

definition markRead :: "string \<Rightarrow> int \<Rightarrow> unit op" where
  "markRead i ts = dbMod (\<lambda>d. d\<lparr>db_notifications := updateWhere (\<lambda>r. nt_id r = i)
     (\<lambda>r. r\<lparr>nt_readAt := Some ts\<rparr>) (db_notifications d)\<rparr>)"

definition markAllRead :: "string \<Rightarrow> int \<Rightarrow> unit op" where
  "markAllRead u ts = dbMod (\<lambda>d. d\<lparr>db_notifications :=
     updateWhere (\<lambda>r. nt_userId r = u \<and> nt_readAt r = None) (\<lambda>r. r\<lparr>nt_readAt := Some ts\<rparr>) (db_notifications d)\<rparr>)"

section \<open>What statements do\<close>

lemma wp_dbGet [wp_rules]: "wp (dbGet f) Q E w = Q (f (w_db w)) w"
  by (simp add: dbGet_def wp_gets)

lemma wp_dbMod [wp_rules]: "wp (dbMod f) Q E w = Q () (w\<lparr>w_db := f (w_db w)\<rparr>)"
  by (simp add: dbMod_def wp_modify)

lemma wp_clockNow [wp_rules]:
  "wp clockNow Q E w = Q (w_clock w (w_clockN w)) (w\<lparr>w_clockN := Suc (w_clockN w)\<rparr>)"
  by (simp add: clockNow_def wp_def)

lemma wp_uuid [wp_rules]:
  "wp uuid Q E w = Q (w_uuid w (w_uuidN w)) (w\<lparr>w_uuidN := Suc (w_uuidN w)\<rparr>)"
  by (simp add: uuid_def wp_def)

lemma wp_draw [wp_rules]:
  "wp (draw b) Q E w = Q (w_rnd w (w_rndN w) mod b) (w\<lparr>w_rndN := Suc (w_rndN w)\<rparr>)"
  by (simp add: draw_def wp_def)

lemma wp_transaction [wp_rules]:
  "wp (transaction m) Q E w = wp m Q (\<lambda>e w'. E e (w'\<lparr>w_db := w_db w\<rparr>)) w"
  by (simp add: transaction_def wp_def split: prod.splits sum.splits)

lemma wp_insertInto [wp_rules]:
  "wp (insertInto u f g) Q E w =
     (if \<not> u then E (SqliteError ''UNIQUE constraint failed'') w
      else if \<not> f then E (SqliteError ''FOREIGN KEY constraint failed'') w
      else Q () (w\<lparr>w_db := g (w_db w)\<rparr>))"
  by (simp add: insertInto_def wp_rules)

lemmas gen_defs = accountNumber_def transactionReference_def utr_def

text \<open>An error of a transaction leaves the database as it was.\<close>

lemma transaction_rollback: "transaction m w = (Inl e, w') \<Longrightarrow> w_db w' = w_db w"
  by (auto simp: transaction_def split: prod.splits sum.splits)

section \<open>What a program leaves alone\<close>

text \<open>\<open>leaves v m\<close>: no run of \<open>m\<close>, failing or not, changes the part \<open>v\<close> of the database.\<close>

named_theorems leaves_rules \<open>programs that leave a part of the database alone\<close>

definition leaves :: "(db \<Rightarrow> 'v) \<Rightarrow> 'a op \<Rightarrow> bool" where
  "leaves v m \<longleftrightarrow> (\<forall>w. v (w_db (snd (m w))) = v (w_db w))"

lemma leavesI_wp:
  "(\<And>w. wp m (\<lambda>_ w'. v (w_db w') = v (w_db w)) (\<lambda>_ w'. v (w_db w') = v (w_db w)) w) \<Longrightarrow> leaves v m"
  by (simp add: leaves_def wp_snd)

lemma leaves_wp:
  assumes "leaves v m"
    and "\<And>x w'. v (w_db w') = v (w_db w) \<Longrightarrow> Q x w'"
    and "\<And>e w'. v (w_db w') = v (w_db w) \<Longrightarrow> E e w'"
  shows "wp m Q E w"
  using assms by (auto simp: leaves_def wp_def split: prod.splits sum.splits) (metis snd_conv)+

lemma leaves_bnd [leaves_rules]: "leaves v m \<Longrightarrow> (\<And>x. leaves v (k x)) \<Longrightarrow> leaves v (bnd m k)"
  by (rule leavesI_wp) (auto simp: wp_bnd intro!: leaves_wp)

lemma leaves_basic [leaves_rules, simp]:
  "leaves v (ret x)" "leaves v (raise e)" "leaves v (throwIf c e)" "leaves v (lift r)"
  "leaves v (gets f)" "leaves v (need y e)" "leaves v (dbGet g)" "leaves v clockNow" "leaves v uuid"
  "leaves v (draw n)"
  by (rule leavesI_wp, simp add: wp_rules split: sum.splits option.splits)+

lemma leaves_dbMod [leaves_rules]: "(\<And>d. v (f d) = v d) \<Longrightarrow> leaves v (dbMod f)"
  by (rule leavesI_wp) (simp add: wp_rules)

lemma leaves_insertInto [leaves_rules]: "(\<And>d. v (f d) = v d) \<Longrightarrow> leaves v (insertInto a b f)"
  by (rule leavesI_wp) (simp add: wp_rules)

lemma leaves_tryCatch [leaves_rules]: "leaves v m \<Longrightarrow> (\<And>e. leaves v (h e)) \<Longrightarrow> leaves v (tryCatch m h)"
  by (rule leavesI_wp) (simp add: wp_tryCatch, erule leaves_wp, simp, simp, blast intro: leaves_wp trans)

lemma leaves_transaction [leaves_rules]: "leaves v m \<Longrightarrow> leaves v (transaction m)"
  by (rule leavesI_wp) (auto simp: wp_transaction intro!: leaves_wp)

lemma leaves_forEach [leaves_rules]: "(\<And>x. x \<in> set xs \<Longrightarrow> leaves v (f x)) \<Longrightarrow> leaves v (forEach xs f)"
  by (induction xs) (auto intro: leaves_rules)

lemma leaves_foldProg [leaves_rules]:
  "(\<And>a x. x \<in> set xs \<Longrightarrow> leaves v (f a x)) \<Longrightarrow> leaves v (foldProg xs f a)"
  by (induction xs arbitrary: a) (auto intro: leaves_rules)

lemma leaves_case_option [leaves_rules]:
  "leaves v m \<Longrightarrow> (\<And>x. leaves v (f x)) \<Longrightarrow> leaves v (case y of None \<Rightarrow> m | Some x \<Rightarrow> f x)"
  by (cases y) auto

lemma leaves_if [leaves_rules]: "leaves v m \<Longrightarrow> leaves v n \<Longrightarrow> leaves v (if c then m else n)"
  by simp

text \<open>Everything but the notifications and the audit log: what a publication may not change.\<close>

definition bankView :: "db \<Rightarrow> db" where
  "bankView d = d\<lparr>db_notifications := [], db_audit := []\<rparr>"

lemma bankView_simps [simp]:
  "bankView (d\<lparr>db_notifications := ns\<rparr>) = bankView d"
  "bankView (d\<lparr>db_audit := as\<rparr>) = bankView d"
  by (simp_all add: bankView_def)

lemma bankView_sel:
  "db_users (bankView d) = db_users d"
  "db_kyc (bankView d) = db_kyc d"
  "db_accounts (bankView d) = db_accounts d"
  "db_fds (bankView d) = db_fds d"
  "db_nominees (bankView d) = db_nominees d"
  "db_beneficiaries (bankView d) = db_beneficiaries d"
  "db_external (bankView d) = db_external d"
  "db_billers (bankView d) = db_billers d"
  "db_savedBills (bankView d) = db_savedBills d"
  "db_sis (bankView d) = db_sis d"
  "db_cards (bankView d) = db_cards d"
  "db_transfers (bankView d) = db_transfers d"
  "db_ledger (bankView d) = db_ledger d"
  "db_disputes (bankView d) = db_disputes d"
  "db_pending (bankView d) = db_pending d"
  "db_credentials (bankView d) = db_credentials d"
  "db_recovery (bankView d) = db_recovery d"
  by (simp_all add: bankView_def)

lemma bankViewD:
  assumes "bankView d' = bankView d"
  shows "db_users d' = db_users d" "db_kyc d' = db_kyc d" "db_accounts d' = db_accounts d"
    "db_fds d' = db_fds d" "db_nominees d' = db_nominees d" "db_beneficiaries d' = db_beneficiaries d"
    "db_external d' = db_external d" "db_billers d' = db_billers d" "db_savedBills d' = db_savedBills d"
    "db_sis d' = db_sis d" "db_cards d' = db_cards d" "db_transfers d' = db_transfers d"
    "db_ledger d' = db_ledger d" "db_disputes d' = db_disputes d" "db_pending d' = db_pending d"
    "db_credentials d' = db_credentials d" "db_recovery d' = db_recovery d"
  by (metis assms bankView_sel)+

end
