(* ===== verification/AccountOps.thy ===== *)
theory AccountOps
  imports Repos
begin

text \<open>
  The use cases of the accounts context (\<open>contexts/accounts/application\<close>): opening accounts, freezing,
  closing, fixed deposits and nominees. The bus of \<open>deps\<close> is the parameter \<open>bus\<close>.
\<close>

type_synonym bus = "event list \<Rightarrow> unit op"

section \<open>A number that is not in use\<close>

text \<open>
  The retry loop of every use case that opens an account. \<open>freshDraw used gen k\<close> is the index of the
  first draw from the \<open>k\<close>-th on whose number is not in use; it is \<open>None\<close> when the loop never ends.
\<close>

partial_function (option) freshDraw :: "(string \<Rightarrow> bool) \<Rightarrow> (nat \<Rightarrow> string) \<Rightarrow> nat \<Rightarrow> nat option" where
  "freshDraw used gen k = (if used (gen k) then freshDraw used gen (Suc k) else Some k)"

declare freshDraw.simps [code]

definition numberInUse :: "db \<Rightarrow> string \<Rightarrow> bool" where
  "numberInUse d n \<longleftrightarrow> findAccountByNumber d n \<noteq> None"

definition accountNumberAt :: "(nat \<Rightarrow> nat) \<Rightarrow> nat \<Rightarrow> string" where
  "accountNumberAt rnd k = accountNumberOf (rnd k mod 10000000000)"

definition freshAccountNumber :: "string op" where
  "freshAccountNumber = (\<lambda>w.
     case freshDraw (numberInUse (w_db w)) (accountNumberAt (w_rnd w)) (w_rndN w) of
       None \<Rightarrow> (Inl Diverged, w)
     | Some k \<Rightarrow> (Inr (accountNumberAt (w_rnd w) k), w\<lparr>w_rndN := Suc k\<rparr>))"

section \<open>Opening accounts\<close>

definition publishOpened :: "bus \<Rightarrow> account \<Rightarrow> unit op" where
  "publishOpened bus a =
     bus [AccountEv (AccountOpened (acc_id a) (acc_number a) (acc_userId a) (acc_type a) (acc_createdAt a))]"

definition openAdditionalAccount :: "bus \<Rightarrow> string \<Rightarrow> account_type \<Rightarrow> account op" where
  "openAdditionalAccount bus userId ty =
     bnd freshAccountNumber (\<lambda>nr.
     bnd uuid (\<lambda>i.
     bnd clockNow (\<lambda>now.
     (let a = openAccount i nr userId (Some ty) None now in
      thn (insertAccount a) (thn (publishOpened bus a) (ret a))))))"

definition createAccountForUser :: "bus \<Rightarrow> string \<Rightarrow> account_type \<Rightarrow> account op" where
  "createAccountForUser bus userId ty =
     bnd (dbGet (\<lambda>d. List.find (\<lambda>a. acc_type a = ty) (listAccountsByUserId d userId))) (\<lambda>sameType.
     case sameType of
       Some a \<Rightarrow> ret a
     | None \<Rightarrow>
        bnd freshAccountNumber (\<lambda>nr.
        bnd uuid (\<lambda>i.
        bnd clockNow (\<lambda>now.
        (let a = openAccount i nr userId (Some ty) None now in
         thn (insertAccount a) (thn (publishOpened bus a) (ret a)))))))"

section \<open>Freezing and closing\<close>

definition freezeAccount :: "bus \<Rightarrow> string \<Rightarrow> account op" where
  "freezeAccount bus accountId =
     bnd (dbGet (\<lambda>d. findAccountById d accountId)) (\<lambda>x.
     bnd (need x (Acc AccountNotFoundError)) (\<lambda>a.
     bnd clockNow (\<lambda>now.
     bnd (lift (freeze a now)) (\<lambda>a'.
     thn (updateAccount a')
    (thn (bus [AccountEv (AccountFrozen (acc_id a') (acc_number a') (acc_userId a') (acc_updatedAt a'))])
         (ret a'))))))"

definition unfreezeAccount :: "bus \<Rightarrow> string \<Rightarrow> account op" where
  "unfreezeAccount bus accountId =
     bnd (dbGet (\<lambda>d. findAccountById d accountId)) (\<lambda>x.
     bnd (need x (Acc AccountNotFoundError)) (\<lambda>a.
     bnd clockNow (\<lambda>now.
     bnd (lift (unfreeze a now)) (\<lambda>a'.
     thn (updateAccount a')
    (thn (bus [AccountEv (AccountUnfrozen (acc_id a') (acc_number a') (acc_userId a') (acc_updatedAt a'))])
         (ret a'))))))"

text \<open>\<open>if (!account || account.userId !== userId) throw new AccountNotFoundError()\<close>.\<close>

definition ownAccount :: "string \<Rightarrow> string \<Rightarrow> account op" where
  "ownAccount userId accountId =
     bnd (dbGet (\<lambda>d. findAccountById d accountId)) (\<lambda>x.
     bnd (need x (Acc AccountNotFoundError)) (\<lambda>a.
     thn (throwIf (acc_userId a \<noteq> userId) (Acc AccountNotFoundError)) (ret a)))"

text \<open>What keeps an account from being closed, in the order the code tests it.\<close>

definition closeBlocked :: "db \<Rightarrow> string \<Rightarrow> account \<Rightarrow> string option" where
  "closeBlocked d userId a =
     (if acc_type a = FixedDeposit
      then Some ''Close the fixed deposit via maturity or premature closure''
      else if (case findFdByAccountId d (acc_id a) of None \<Rightarrow> False | Some fd \<Rightarrow> fd_status fd = FdActive)
      then Some ''Account is linked to an active fixed deposit''
      else if \<exists>c \<in> set (listCardsByAccount d (acc_id a)). c_status c = CardActive
      then Some ''Account has active debit cards''
      else if \<exists>si \<in> set (listSisByOwner d userId). si_status si = SiActive \<and> si_fromAccountId si = acc_id a
      then Some ''Account has active standing instructions''
      else if \<exists>fd \<in> set (listActiveFdsByUserId d userId). fd_payoutAccountId fd = acc_id a
      then Some ''Account is payout account for active fixed deposits''
      else None)"

definition closeAccount :: "bus \<Rightarrow> string \<Rightarrow> string \<Rightarrow> account op" where
  "closeAccount bus userId accountId =
     bnd (ownAccount userId accountId) (\<lambda>a.
     bnd (dbGet (\<lambda>d. closeBlocked d userId a)) (\<lambda>blocked.
     thn (case blocked of None \<Rightarrow> ret () | Some reason \<Rightarrow> raise (Acc (AccountCloseBlockedError reason)))
    (bnd clockNow (\<lambda>now.
     bnd (lift (close a now)) (\<lambda>closed.
     thn (updateAccount closed)
    (thn (bus [AccountEv (AccountClosed (acc_id closed) (acc_number closed) (acc_userId closed) now)])
         (ret closed)))))))"

section \<open>Fixed deposits\<close>

definition openFixedDeposit ::
  "string \<Rightarrow> string \<Rightarrow> int \<Rightarrow> int \<Rightarrow> bool \<Rightarrow> fixed_deposit op" where
  "openFixedDeposit userId payoutAccountId princ tenure autoRenew = transaction (
     bnd clockNow (\<lambda>now.
     bnd (ownAccount userId payoutAccountId) (\<lambda>payout.
     bnd (lift (debit payout princ INR now)) (\<lambda>debited.
     bnd freshAccountNumber (\<lambda>nr.
     bnd uuid (\<lambda>i.
     bnd (lift (credit (openAccount i nr userId (Some FixedDeposit) None now) princ INR now)) (\<lambda>funded.
     bnd uuid (\<lambda>fdId.
     bnd (gets w_tz) (\<lambda>tz.
     bnd (lift (openFdDomain tz fdId (acc_id funded) userId (acc_id payout) princ tenure autoRenew now)) (\<lambda>fd.
     thn (updateAccount debited)
    (thn (insertAccount funded)
    (thn (insertFd fd)
         (ret fd)))))))))))))"

text \<open>
  The body of the maturity run for one deposit. The transaction returns normally, without a change, when
  the deposit is no longer active; the loop counts that as matured too.
\<close>

definition matureOne :: "int \<Rightarrow> fixed_deposit \<Rightarrow> unit op" where
  "matureOne now fd = transaction (
     bnd (dbGet (\<lambda>d. findFdById d (fd_id fd))) (\<lambda>cur.
     case cur of None \<Rightarrow> ret () | Some current \<Rightarrow>
     if fd_status current \<noteq> FdActive then ret () else
     bnd (dbGet (\<lambda>d. findAccountById d (fd_accountId current))) (\<lambda>fa.
     bnd (dbGet (\<lambda>d. findAccountById d (fd_payoutAccountId current))) (\<lambda>pa.
     bnd (need fa (GenericError ''FD accounts missing'')) (\<lambda>fdAccount.
     bnd (need pa (GenericError ''FD accounts missing'')) (\<lambda>payout.
     (let interest = maturityInterestMinor current;
          totalPayout = fd_principal current + interest in
      bnd (lift (zeroFixedDepositPrincipal fdAccount now)) (\<lambda>emptied.
      bnd (lift (close emptied now)) (\<lambda>closedFd.
      bnd (lift (credit payout totalPayout INR now)) (\<lambda>credited.
      bnd (lift (markMatured (current\<lparr>fd_interestPaid := interest\<rparr>) now)) (\<lambda>updatedFd.
      thn (updateAccount closedFd) (thn (updateAccount credited) (updateFd updatedFd)))))))))))))"

definition matureFixedDeposits :: "int option \<Rightarrow> (nat \<times> nat) op" where
  "matureFixedDeposits givenNow =
     bnd (case givenNow of None \<Rightarrow> clockNow | Some t \<Rightarrow> ret t) (\<lambda>now.
     bnd (dbGet (\<lambda>d. listFdsDueForMaturity d now)) (\<lambda>due.
     foldProg due (\<lambda>(matured, failed) fd.
       tryCatch (thn (matureOne now fd) (ret (matured + 1, failed)))
                (\<lambda>_. ret (matured, failed + 1))) (0, 0)))"

definition prematureCloseFixedDeposit :: "string \<Rightarrow> string \<Rightarrow> fixed_deposit op" where
  "prematureCloseFixedDeposit userId fdId = transaction (
     bnd clockNow (\<lambda>now.
     bnd (dbGet (\<lambda>d. findFdById d fdId)) (\<lambda>x.
     bnd (need x (Acc AccountNotFoundError)) (\<lambda>fd.
     thn (throwIf (fd_userId fd \<noteq> userId) (Acc AccountNotFoundError))
    (thn (throwIf (fd_status fd \<noteq> FdActive) (GenericError ''Fixed deposit is not active''))
    (bnd (dbGet (\<lambda>d. findAccountById d (fd_accountId fd))) (\<lambda>fa.
     bnd (dbGet (\<lambda>d. findAccountById d (fd_payoutAccountId fd))) (\<lambda>pa.
     bnd (need fa (Acc AccountNotFoundError)) (\<lambda>fdAccount.
     bnd (need pa (Acc AccountNotFoundError)) (\<lambda>payout.
     (let interest = prematureInterestMinor fd now;
          totalPayout = fd_principal fd + interest in
      bnd (lift (zeroFixedDepositPrincipal fdAccount now)) (\<lambda>emptied.
      bnd (lift (close emptied now)) (\<lambda>closedFd.
      bnd (lift (credit payout totalPayout INR now)) (\<lambda>credited.
      bnd (lift (markPrematureClosed fd interest now)) (\<lambda>updated.
      thn (updateAccount closedFd) (thn (updateAccount credited) (thn (updateFd updated)
          (ret updated))))))))))))))))))"

section \<open>Nominees\<close>

definition addNominee :: "string \<Rightarrow> string \<Rightarrow> string \<Rightarrow> string \<Rightarrow> int option \<Rightarrow> nominee op" where
  "addNominee userId accountId fullName relation share =
     bnd (ownAccount userId accountId) (\<lambda>a.
     bnd uuid (\<lambda>i.
     bnd clockNow (\<lambda>now.
     bnd (lift (createNominee i (acc_id a) userId fullName relation share now)) (\<lambda>n.
     thn (insertNominee n) (ret n)))))"

definition listNominees :: "string \<Rightarrow> string \<Rightarrow> nominee list op" where
  "listNominees userId accountId =
     bnd (ownAccount userId accountId) (\<lambda>a. dbGet (\<lambda>d. listNomineesByAccountId d (acc_id a)))"

definition removeNominee :: "string \<Rightarrow> string \<Rightarrow> unit op" where
  "removeNominee userId nomineeId =
     bnd (dbGet (\<lambda>d. findNomineeById d nomineeId)) (\<lambda>x.
     bnd (need x (Acc AccountNotFoundError)) (\<lambda>n.
     thn (throwIf (n_userId n \<noteq> userId) (Acc AccountNotFoundError))
         (deleteNominee (n_id n))))"

section \<open>The retry loop\<close>

lemma freshDraw_sound:
  assumes "freshDraw used gen k = Some n"
  shows "k \<le> n \<and> \<not> used (gen n) \<and> (\<forall>j. k \<le> j \<and> j < n \<longrightarrow> used (gen j))"
proof (rule freshDraw.raw_induct [OF _ assms])
  fix f used gen k n 
  assume IH: "\<And>used gen k n. f used gen k = Some n \<Longrightarrow> k \<le> n \<and> \<not> used (gen n) \<and> (\<forall>j. k \<le> j \<and> j < n \<longrightarrow> used (gen j))"
   and h: "(if used (gen k) then f used gen (Suc k) else Some k) = Some n"
  show "k \<le> n \<and> \<not> used (gen n) \<and> (\<forall>j. k \<le> j \<and> j < n \<longrightarrow> used (gen j))"
  proof (cases "used (gen k)")
    case True
    with h have "f used gen (Suc k) = Some n" by simp
    then have "Suc k \<le> n \<and> \<not> used (gen n) \<and> (\<forall>j. Suc k \<le> j \<and> j < n \<longrightarrow> used (gen j))" by (rule IH)
    with True show ?thesis by (metis Suc_leI le_neq_implies_less Suc_leD)
  next
    case False
    with h show ?thesis by auto
  qed
qed

lemma freshDraw_total:
  assumes "\<not> used (gen (k + n))"
  shows "\<exists>m. freshDraw used gen k = Some m"
  using assms
proof (induction n arbitrary: k)
  case (Suc n)
  then have "\<exists>m. freshDraw used gen (Suc k) = Some m" by simp
  then show ?case by (subst freshDraw.simps) simp
qed (subst freshDraw.simps, simp)

text \<open>Reading a number back from its decimal digits, leading zeros included.\<close>

definition digitVal :: "char \<Rightarrow> nat" where
  "digitVal c = of_char c - 48"

definition readNat :: "string \<Rightarrow> nat" where
  "readNat s = foldl (\<lambda>a c. 10 * a + digitVal c) 0 s"

lemma digitVal_digitChar: "d < 10 \<Longrightarrow> digitVal (digitChar d) = d"
  by (simp add: digitVal_def digitChar_def)

lemma readNat_showNat: "readNat (showNat n) = n"
proof -
  have "foldr (\<lambda>c a. 10 * a + digitVal c) (digitsRev 10 n) 0 = n"
  proof (induction "10::nat" n rule: digitsRev.induct)
    case (1 n)
    then show ?case by (subst digitsRev.simps) (auto simp: digitVal_digitChar)
  qed
  then show ?thesis by (simp add: readNat_def showNat_def showRadix_def foldl_conv_foldr)
qed

lemma readNat_padStart: "readNat (padStart k (CHR ''0'') s) = readNat s"
proof -
  have "foldl (\<lambda>a c. 10 * a + digitVal c) 0 (replicate j (CHR ''0'')) = 0" for j
    by (induction j) (simp_all add: digitVal_def)
  then show ?thesis by (simp add: readNat_def padStart_def)
qed

lemma accountNumberOf_inj: "accountNumberOf m = accountNumberOf n \<Longrightarrow> m = n"
  by (metis accountNumberOf_def append_same_eq readNat_padStart readNat_showNat same_append_eq)

lemma accountNumberOf_valid: "n < 10000000000 \<Longrightarrow> isValidAccountNumber (accountNumberOf n)"
  using isValidAccountNumber_format [of n] by (simp add: accountNumberOf_def)

text \<open>
  With fewer accounts than there are numbers, some number is free, and a source that keeps drawing
  every number eventually draws it.
\<close>

lemma exists_free_number:
  assumes "length (db_accounts d) < 10000000000"
  shows "\<exists>n < 10000000000. \<not> numberInUse d (accountNumberOf n)"
proof (rule ccontr)
  assume "\<not> ?thesis"
  then have "accountNumberOf ` {..< 10000000000} \<subseteq> acc_number ` set (db_accounts d)"
    by (auto simp: numberInUse_def findAccountByNumber_def find_None_iff image_iff) metis
  moreover have "inj_on accountNumberOf {..< 10000000000}"
    by (rule inj_onI) (rule accountNumberOf_inj)
  ultimately have "card {..< 10000000000 :: nat} \<le> card (acc_number ` set (db_accounts d))"
    by (metis List.finite_set card_image card_mono finite_imageI)
  also have "\<dots> \<le> length (db_accounts d)"
    by (rule le_trans [OF card_image_le card_length]) simp
  finally show False using assms by simp
qed

definition drawsEverything :: "(nat \<Rightarrow> nat) \<Rightarrow> bool" where
  "drawsEverything rnd \<longleftrightarrow> (\<forall>k. \<forall>n < 10000000000. \<exists>j. rnd (k + j) mod 10000000000 = n)"

lemma freshDraw_terminates:
  assumes "length (db_accounts d) < 10000000000" and "drawsEverything rnd"
  shows "\<exists>m. freshDraw (numberInUse d) (accountNumberAt rnd) k = Some m"
proof -
  obtain n where n: "n < 10000000000" "\<not> numberInUse d (accountNumberOf n)"
    using exists_free_number [OF assms(1)] by blast
  with assms(2) obtain j where "rnd (k + j) mod 10000000000 = n"
    unfolding drawsEverything_def by blast
  with n(2) show ?thesis
    by (intro freshDraw_total [where n = j]) (simp add: accountNumberAt_def)
qed

lemma wp_freshAccountNumber [wp_rules]:
  "wp freshAccountNumber Q E w =
     (case freshDraw (numberInUse (w_db w)) (accountNumberAt (w_rnd w)) (w_rndN w) of
        None \<Rightarrow> E Diverged w
      | Some k \<Rightarrow> Q (accountNumberAt (w_rnd w) k) (w\<lparr>w_rndN := Suc k\<rparr>))"
  by (simp add: freshAccountNumber_def wp_def split: option.splits)

lemma wp_ownAccount [wp_rules]:
  "wp (ownAccount u i) Q E w =
     (case findAccountById (w_db w) i of
        None \<Rightarrow> E (Acc AccountNotFoundError) w
      | Some a \<Rightarrow> if acc_userId a \<noteq> u then E (Acc AccountNotFoundError) w else Q a w)"
  by (simp add: ownAccount_def wp_rules split: option.splits)

end
