(* ===== verification/KycOps.thy ===== *)
theory KycOps
  imports AccountOps
begin

text \<open>
  Banking access, KYC submission and decision (\<open>contexts/kyc/application\<close>), and the KYC tier of
  \<open>contexts/identity/application/kycTier.ts\<close>.
\<close>

record banking_access =
  ba_kycApproved :: bool
  ba_activeAccountCount :: nat
  ba_allowed :: bool

definition getBankingAccess :: "db \<Rightarrow> string \<Rightarrow> banking_access" where
  "getBankingAccess d userId =
     (let kycApproved = (\<exists>a \<in> set (listKycByUserId d userId). k_status a = Approved);
          activeAccountCount = length (filter (\<lambda>a. acc_status a = Active) (listAccountsByUserId d userId))
      in \<lparr>ba_kycApproved = kycApproved, ba_activeAccountCount = activeAccountCount,
          ba_allowed = (kycApproved \<and> 0 < activeAccountCount)\<rparr>)"

definition bankingAccessError :: "db \<Rightarrow> string \<Rightarrow> error + unit" where
  "bankingAccessError d userId =
     (let access = getBankingAccess d userId in
      if ba_allowed access then Inr ()
      else if \<not> ba_kycApproved access
      then Inl (KycE (KycBankingAccessDeniedError ''KYC must be approved before using banking features''))
      else Inl (KycE (KycBankingAccessDeniedError
                        ''An active account is required before using banking features'')))"

definition assertBankingAccess :: "string \<Rightarrow> unit op" where
  "assertBankingAccess userId = bnd (dbGet (\<lambda>d. bankingAccessError d userId)) lift"

definition setKycTier :: "string \<Rightarrow> kyc_tier \<Rightarrow> unit op" where
  "setKycTier userId tier = setKycTierRow userId tier"

definition getKycTier :: "db \<Rightarrow> string \<Rightarrow> kyc_tier" where
  "getKycTier d userId = (case findUserById d userId of None \<Rightarrow> TierNone | Some u \<Rightarrow> u_kycTier u)"

definition listKycByStatus :: "db \<Rightarrow> kyc_status \<Rightarrow> nat \<Rightarrow> kyc_application list" where
  "listKycByStatus d st limit =
     take limit (sort_key (\<lambda>r. - k_submittedAt r) (filter (\<lambda>r. k_status r = st) (db_kyc d)))"

record submit_kyc_input =
  sk_userId :: string
  sk_fullName :: string
  sk_dob :: string
  sk_pan :: string
  sk_address :: string
  sk_docB64 :: "string option"
  sk_requested :: "account_type option"

definition submitKyc :: "bus \<Rightarrow> submit_kyc_input \<Rightarrow> kyc_application op" where
  "submitKyc bus inp =
     bnd (dbGet (\<lambda>d. List.find (\<lambda>a. k_status a = Submitted \<or> k_status a = Approved)
                       (listKycByUserId d (sk_userId inp)))) (\<lambda>blocking.
     thn (throwIf (blocking \<noteq> None) (KycE KycAlreadyExistsError))
    (bnd uuid (\<lambda>i.
     bnd clockNow (\<lambda>now.
     bnd (lift (submitApplication i (sk_userId inp) (sk_fullName inp) (sk_dob inp) (sk_pan inp)
                 (sk_address inp) (sk_docB64 inp) (sk_requested inp) now)) (\<lambda>app.
     thn (insertKyc app)
    (thn (bus [KycEv (KycSubmitted (k_userId app) (k_id app) (k_submittedAt app))])
         (ret app)))))))"

definition approveKyc :: "bus \<Rightarrow> string \<Rightarrow> string \<Rightarrow> kyc_application op" where
  "approveKyc bus applicationId adminUserId =
     bnd (dbGet (\<lambda>d. findKycById d applicationId)) (\<lambda>x.
     bnd (need x (KycE KycNotFoundError)) (\<lambda>current.
     bnd clockNow (\<lambda>now.
     bnd (lift (approve current adminUserId now)) (\<lambda>app.
     thn (updateKyc app)
    (thn (setKycTier (k_userId app) TierFull)
    (thn (bus [KycEv (KycApproved (k_userId app) (k_id app) now)])
         (ret app)))))))"

definition rejectKyc :: "bus \<Rightarrow> string \<Rightarrow> string \<Rightarrow> string \<Rightarrow> kyc_application op" where
  "rejectKyc bus applicationId adminUserId reason =
     bnd (dbGet (\<lambda>d. findKycById d applicationId)) (\<lambda>x.
     bnd (need x (KycE KycNotFoundError)) (\<lambda>current.
     bnd clockNow (\<lambda>now.
     bnd (lift (reject current adminUserId now reason)) (\<lambda>app.
     thn (updateKyc app)
    (thn (bus [KycEv (KycRejected (k_userId app) (k_id app)
                        (case k_rejectReason app of None \<Rightarrow> [] | Some r \<Rightarrow> r) now)])
         (ret app))))))"

lemma wp_assertBankingAccess [wp_rules]:
  "wp (assertBankingAccess u) Q E w =
     (case bankingAccessError (w_db w) u of Inl e \<Rightarrow> E e w | Inr x \<Rightarrow> Q () w)"
  by (simp add: assertBankingAccess_def wp_rules split: sum.splits)

lemma bankingAccess_iff:
  "bankingAccessError d u = Inr x \<longleftrightarrow>
     (\<exists>k \<in> set (db_kyc d). k_userId k = u \<and> k_status k = Approved)
     \<and> (\<exists>a \<in> set (db_accounts d). acc_userId a = u \<and> acc_status a = Active)"
  by (auto simp: bankingAccessError_def getBankingAccess_def listKycByUserId_def listAccountsByUserId_def
      Let_def filter_empty_conv)

end
