(* ===== verification/AuditLog.thy ===== *)
theory AuditLog
  imports Repos "HOL-Library.Multiset"
begin

text \<open>
  The audit context: the log's repository, \<open>recordAudit\<close> and the translation of bus events into audit
  rows (\<open>fromBusEvent\<close>), with the invariant that the log is a verifiable hash chain.
\<close>

section \<open>Repository\<close>

definition findLatestAudit :: "db \<Rightarrow> (string \<times> nat) option" where
  "findLatestAudit d = (case sort_key (\<lambda>e. - int (au_seq e)) (db_audit d) of
      [] \<Rightarrow> None | e # _ \<Rightarrow> Some (au_hash e, au_seq e))"

definition listAllChronological :: "db \<Rightarrow> audit_entry list" where
  "listAllChronological d = sort_key au_seq (db_audit d)"

definition findAuditById :: "db \<Rightarrow> string \<Rightarrow> audit_entry option" where
  "findAuditById d i = List.find (\<lambda>e. au_id e = i) (db_audit d)"

text \<open>
  The row as SQLite gives it back: every text went through UTF-8. The payload is bound as JSON text, which has
  lone surrogates escaped, and comes back as it was.
\<close>

definition storedEntry :: "audit_entry \<Rightarrow> audit_entry" where
  "storedEntry e = e\<lparr>au_id := storedText (au_id e), au_actorUserId := map_option storedText (au_actorUserId e),
     au_actorUsername := map_option storedText (au_actorUsername e), au_sessionId := map_option storedText (au_sessionId e),
     au_action := storedText (au_action e), au_targetType := map_option storedText (au_targetType e),
     au_targetId := map_option storedText (au_targetId e), au_errorCode := map_option storedText (au_errorCode e),
     au_summary := storedText (au_summary e), au_requestId := map_option storedText (au_requestId e),
     au_ip := map_option storedText (au_ip e), au_userAgent := map_option storedText (au_userAgent e),
     au_prevHash := map_option storedText (au_prevHash e), au_hash := storedText (au_hash e)\<rparr>"

definition insertAudit :: "audit_entry \<Rightarrow> unit op" where
  "insertAudit entry = bnd (gets w_db) (\<lambda>d. let e = storedEntry entry in
     insertInto (au_id e \<notin> au_id ` set (db_audit d) \<and> au_seq e \<notin> au_seq ` set (db_audit d))
       (case au_actorUserId e of None \<Rightarrow> True | Some u \<Rightarrow> userExists d u)
       (\<lambda>d. d\<lparr>db_audit := db_audit d @ [e]\<rparr>))"

record audit_filter =
  af_actorUserId :: "string option"
  af_actorUsername :: "string option"
  af_action :: "string option"
  af_category :: "audit_category option"
  af_status :: "audit_status option"
  af_targetType :: "string option"
  af_targetId :: "string option"
  af_from :: "int option"
  af_to :: "int option"
  af_limit :: nat
  af_offset :: nat

fun isInfixOf :: "string \<Rightarrow> string \<Rightarrow> bool" where
  "isInfixOf p [] = (p = [])"
| "isInfixOf p (c # s) = (startsWith p (c # s) \<or> isInfixOf p s)"

text \<open>
  \<open>buildWhere\<close>: an absent (or empty) field of the filter is no condition. \<open>LIKE '%p%'\<close> ignores the case
  of ASCII letters; the wildcards \<open>%\<close> and \<open>_\<close> inside the name are not modelled.
\<close>

definition strCond :: "string option \<Rightarrow> string option \<Rightarrow> bool" where
  "strCond want have \<longleftrightarrow> (truthy want \<longrightarrow> have = want)"

definition auditWhere :: "audit_filter \<Rightarrow> audit_entry \<Rightarrow> bool" where
  "auditWhere f e \<longleftrightarrow>
     strCond (af_actorUserId f) (au_actorUserId e)
   \<and> (truthy (af_actorUsername f) \<longrightarrow> (case au_actorUsername e of None \<Rightarrow> False
        | Some n \<Rightarrow> isInfixOf (toLowerCase (the (af_actorUsername f))) (toLowerCase n)))
   \<and> strCond (af_action f) (Some (au_action e))
   \<and> (case af_category f of None \<Rightarrow> True | Some c \<Rightarrow> au_category e = c)
   \<and> (case af_status f of None \<Rightarrow> True | Some s \<Rightarrow> au_status e = s)
   \<and> strCond (af_targetType f) (au_targetType e)
   \<and> strCond (af_targetId f) (au_targetId e)
   \<and> (case af_from f of None \<Rightarrow> True | Some t \<Rightarrow> t \<le> au_occurredAt e)
   \<and> (case af_to f of None \<Rightarrow> True | Some t \<Rightarrow> au_occurredAt e \<le> t)"

record audit_page =
  ap_entries :: "audit_entry list"
  ap_total :: nat
  ap_hasMore :: bool

definition auditList :: "audit_filter \<Rightarrow> db \<Rightarrow> audit_page" where
  "auditList f d =
     (let all = filter (auditWhere f) (sort_key (\<lambda>e. - int (au_seq e)) (db_audit d));
          rows = take (af_limit f + 1) (drop (af_offset f) all);
          hasMore = af_limit f < length rows
      in \<lparr>ap_entries = (if hasMore then take (af_limit f) rows else rows),
          ap_total = length all, ap_hasMore = hasMore\<rparr>)"

text \<open>\<open>listAudit\<close>: the page size is clamped to \<open>MAX_PAGE\<close>, the offset to zero.\<close>

definition MAX_PAGE :: int where
  "MAX_PAGE = 200"

definition listAudit :: "audit_filter \<Rightarrow> int option \<Rightarrow> int option \<Rightarrow> db \<Rightarrow> audit_page" where
  "listAudit f limit offset d =
     (let limit = max 1 (min (case limit of None \<Rightarrow> 50 | Some l \<Rightarrow> l) MAX_PAGE);
          offset = max 0 (case offset of None \<Rightarrow> 0 | Some k \<Rightarrow> k)
      in auditList (f\<lparr>af_limit := nat limit, af_offset := nat offset\<rparr>) d)"

section \<open>Recording\<close>

record audit_input =
  ai_action :: string
  ai_category :: "audit_category option"
  ai_actorUserId :: "string option"
  ai_actorUsername :: "string option"
  ai_actorRole :: "audit_role option"
  ai_sessionId :: "string option"
  ai_target :: "(string \<times> string) option"
  ai_status :: audit_status
  ai_errorCode :: "string option"
  ai_summary :: string
  ai_payload :: "json option"
  ai_requestId :: "string option"
  ai_ip :: "string option"
  ai_userAgent :: "string option"
  ai_occurredAt :: "int option"

definition auditDraft ::
  "(string \<times> nat) option \<Rightarrow> audit_input \<Rightarrow> int \<Rightarrow> string \<Rightarrow> audit_entry" where
  "auditDraft prev inp occurredAt i =
     \<lparr>au_id = i, au_seq = (case prev of None \<Rightarrow> 0 | Some (h, s) \<Rightarrow> s) + 1,
      au_occurredAt = occurredAt, au_actorUserId = ai_actorUserId inp,
      au_actorUsername = ai_actorUsername inp,
      au_actorRole = (case ai_actorRole inp of None \<Rightarrow> RoleAnonymous | Some r \<Rightarrow> r),
      au_sessionId = ai_sessionId inp, au_action = ai_action inp,
      au_category = (case ai_category inp of None \<Rightarrow> categoryOf (ai_action inp) | Some c \<Rightarrow> c),
      au_targetType = map_option fst (ai_target inp), au_targetId = map_option snd (ai_target inp),
      au_status = ai_status inp, au_errorCode = ai_errorCode inp, au_summary = ai_summary inp,
      au_payload = map_option redact (ai_payload inp), au_requestId = ai_requestId inp,
      au_ip = ai_ip inp, au_userAgent = ai_userAgent inp, au_prevHash = map_option fst prev,
      au_hash = []\<rparr>"

definition recordAudit :: "(string \<Rightarrow> string) \<Rightarrow> audit_input \<Rightarrow> audit_entry op" where
  "recordAudit sha256 inp =
     bnd (dbGet findLatestAudit) (\<lambda>prev.
     bnd (case ai_occurredAt inp of None \<Rightarrow> clockNow | Some t \<Rightarrow> ret t) (\<lambda>occurredAt.
     bnd uuid (\<lambda>i.
     (let draft = auditDraft prev inp occurredAt i;
          entry = draft\<lparr>au_hash := hashEntry sha256 draft\<rparr> in
      thn (insertAudit entry) (ret entry)))))"

section \<open>From bus events\<close>

primrec transferKindName :: "transfer_kind \<Rightarrow> string" where
  "transferKindName KTransfer = ''transfer''"
| "transferKindName KFaucet = ''faucet''"
| "transferKindName KReversal = ''reversal''"

primrec frequencyName :: "si_frequency \<Rightarrow> string" where
  "frequencyName Daily = ''daily''"
| "frequencyName Weekly = ''weekly''"
| "frequencyName Monthly = ''monthly''"

text \<open>The properties of an event object, in the order its publisher writes them.\<close>

definition moneyFields :: "money_event \<Rightarrow> (string \<times> json) list" where
  "moneyFields e = (case e of MoneyMoved t f to n cur k at' \<Rightarrow>
     [(''type'', JString ''MoneyMoved''), (''transferId'', JString t)]
     @ optField ''fromAccountId'' JString f @ optField ''toAccountId'' JString to @
     [(''amountMinor'', JNumber n), (''currency'', JString cur),
      (''kind'', JString (transferKindName k)), (''postedAt'', JDate at')])"

primrec accountFields :: "account_event \<Rightarrow> (string \<times> json) list" where
  "accountFields (AccountOpened i n u ty ts) =
     [(''type'', JString ''AccountOpened''), (''accountId'', JString i), (''accountNumber'', JString n),
      (''userId'', JString u), (''accountType'', JString (accountTypeName ty)), (''openedAt'', JDate ts)]"
| "accountFields (AccountFrozen i n u ts) =
     [(''type'', JString ''AccountFrozen''), (''accountId'', JString i), (''accountNumber'', JString n),
      (''userId'', JString u), (''frozenAt'', JDate ts)]"
| "accountFields (AccountUnfrozen i n u ts) =
     [(''type'', JString ''AccountUnfrozen''), (''accountId'', JString i), (''accountNumber'', JString n),
      (''userId'', JString u), (''unfrozenAt'', JDate ts)]"
| "accountFields (AccountClosed i n u ts) =
     [(''type'', JString ''AccountClosed''), (''accountId'', JString i), (''accountNumber'', JString n),
      (''userId'', JString u), (''closedAt'', JDate ts)]"

primrec kycFields :: "kyc_event \<Rightarrow> (string \<times> json) list" where
  "kycFields (KycSubmitted u a ts) =
     [(''type'', JString ''KycSubmitted''), (''userId'', JString u), (''applicationId'', JString a),
      (''submittedAt'', JDate ts)]"
| "kycFields (KycApproved u a ts) =
     [(''type'', JString ''KycApproved''), (''userId'', JString u), (''applicationId'', JString a),
      (''decidedAt'', JDate ts)]"
| "kycFields (KycRejected u a r ts) =
     [(''type'', JString ''KycRejected''), (''userId'', JString u), (''applicationId'', JString a),
      (''reason'', JString r), (''decidedAt'', JDate ts)]"

primrec beneficiaryFields :: "beneficiary_event \<Rightarrow> (string \<times> json) list" where
  "beneficiaryFields (BeneficiaryAdded b u n nick ts) =
     [(''type'', JString ''BeneficiaryAdded''), (''beneficiaryId'', JString b), (''ownerUserId'', JString u),
      (''accountNumber'', JString n), (''nickname'', JString nick), (''addedAt'', JDate ts)]"
| "beneficiaryFields (BeneficiaryRenamed b u old new ts) =
     [(''type'', JString ''BeneficiaryRenamed''), (''beneficiaryId'', JString b), (''ownerUserId'', JString u),
      (''oldNickname'', JString old), (''newNickname'', JString new), (''renamedAt'', JDate ts)]"
| "beneficiaryFields (BeneficiaryRemoved b u n ts) =
     [(''type'', JString ''BeneficiaryRemoved''), (''beneficiaryId'', JString b), (''ownerUserId'', JString u),
      (''accountNumber'', JString n), (''removedAt'', JDate ts)]"

definition billFields :: "bill_event \<Rightarrow> (string \<times> json) list" where
  "billFields e = (case e of BillPaid t b f u n cur ref ts \<Rightarrow>
     [(''type'', JString ''BillPaid''), (''transferId'', JString t), (''billerId'', JString b),
      (''fromAccountId'', JString f), (''fromUserId'', JString u), (''amountMinor'', JNumber n),
      (''currency'', JString cur)] @ optField ''customerRef'' JString ref @ [(''paidAt'', JDate ts)])"

primrec cardFields :: "card_event \<Rightarrow> (string \<times> json) list" where
  "cardFields (DebitCardIssued c u a m ts) =
     [(''type'', JString ''DebitCardIssued''), (''cardId'', JString c), (''ownerUserId'', JString u),
      (''accountId'', JString a), (''maskedNumber'', JString m), (''issuedAt'', JDate ts)]"
| "cardFields (DebitCardFrozen c u m ts) =
     [(''type'', JString ''DebitCardFrozen''), (''cardId'', JString c), (''ownerUserId'', JString u),
      (''maskedNumber'', JString m), (''frozenAt'', JDate ts)]"
| "cardFields (DebitCardCancelled c u m ts) =
     [(''type'', JString ''DebitCardCancelled''), (''cardId'', JString c), (''ownerUserId'', JString u),
      (''maskedNumber'', JString m), (''cancelledAt'', JDate ts)]"
| "cardFields (CardSpent c u t n cur m ts) =
     [(''type'', JString ''CardSpent''), (''cardId'', JString c), (''ownerUserId'', JString u),
      (''transferId'', JString t), (''amountMinor'', JNumber n), (''currency'', JString cur),
      (''merchantName'', JString m), (''spentAt'', JDate ts)]"

primrec siFields :: "si_event \<Rightarrow> (string \<times> json) list" where
  "siFields (StandingInstructionCreated s u f b n cur fr nx ts) =
     [(''type'', JString ''StandingInstructionCreated''), (''siId'', JString s), (''ownerUserId'', JString u),
      (''fromAccountId'', JString f), (''beneficiaryId'', JString b), (''amountMinor'', JNumber n),
      (''currency'', JString cur), (''frequency'', JString (frequencyName fr)), (''nextRunAt'', JDate nx),
      (''createdAt'', JDate ts)]"
| "siFields (StandingInstructionPaused s u ts) =
     [(''type'', JString ''StandingInstructionPaused''), (''siId'', JString s), (''ownerUserId'', JString u),
      (''pausedAt'', JDate ts)]"
| "siFields (StandingInstructionResumed s u ts) =
     [(''type'', JString ''StandingInstructionResumed''), (''siId'', JString s), (''ownerUserId'', JString u),
      (''resumedAt'', JDate ts)]"
| "siFields (StandingInstructionCancelled s u ts) =
     [(''type'', JString ''StandingInstructionCancelled''), (''siId'', JString s), (''ownerUserId'', JString u),
      (''cancelledAt'', JDate ts)]"
| "siFields (StandingInstructionRan s u n b ts) =
     [(''type'', JString ''StandingInstructionRan''), (''siId'', JString s), (''ownerUserId'', JString u),
      (''amountMinor'', JNumber n), (''beneficiaryAccountNumber'', JString b), (''ranAt'', JDate ts)]"

primrec identityFields :: "identity_event \<Rightarrow> (string \<times> json) list" where
  "identityFields (PasswordChanged u n ts) =
     [(''type'', JString ''PasswordChanged''), (''userId'', JString u), (''username'', JString n),
      (''changedAt'', JDate ts)]"
| "identityFields (PasskeyRevoked u c ts) =
     [(''type'', JString ''PasskeyRevoked''), (''userId'', JString u), (''credentialId'', JString c),
      (''revokedAt'', JDate ts)]"
| "identityFields (PasskeyEnrolledAdditional u n c ts) =
     [(''type'', JString ''PasskeyEnrolledAdditional''), (''userId'', JString u), (''username'', JString n),
      (''credentialId'', JString c), (''enrolledAt'', JDate ts)]"
| "identityFields (RecoveryCodeIssued u n r admin ex ts) =
     [(''type'', JString ''RecoveryCodeIssued''), (''userId'', JString u), (''username'', JString n),
      (''recoveryId'', JString r), (''issuedByAdminId'', JString admin), (''purpose'', JString ''passkey-add''),
      (''expiresAt'', JDate ex), (''issuedAt'', JDate ts)]"
| "identityFields (RecoveryCodeConsumed u r ts) =
     [(''type'', JString ''RecoveryCodeConsumed''), (''userId'', JString u), (''recoveryId'', JString r),
      (''purpose'', JString ''passkey-add''), (''consumedAt'', JDate ts)]"

primrec eventFields :: "event \<Rightarrow> (string \<times> json) list" where
  "eventFields (MoneyEv e) = moneyFields e"
| "eventFields (AccountEv e) = accountFields e"
| "eventFields (KycEv e) = kycFields e"
| "eventFields (BeneficiaryEv e) = beneficiaryFields e"
| "eventFields (BillEv e) = billFields e"
| "eventFields (CardEv e) = cardFields e"
| "eventFields (SiEv e) = siFields e"
| "eventFields (IdentityEv e) = identityFields e"

text \<open>\<open>ACTION_BY_EVENT\<close>, keyed by the event's type.\<close>

definition ACTION_BY_EVENT :: "(string \<times> string) list" where
  "ACTION_BY_EVENT =
    [(''KycSubmitted'', ''kyc.submitted''),
     (''KycApproved'', ''kyc.approved''),
     (''KycRejected'', ''kyc.rejected''),
     (''MoneyMoved'', ''transfer.executed''),
     (''BillPaid'', ''bill.paid''),
     (''AccountOpened'', ''account.opened''),
     (''AccountFrozen'', ''account.frozen''),
     (''AccountUnfrozen'', ''account.unfrozen''),
     (''AccountClosed'', ''account.closed''),
     (''BeneficiaryAdded'', ''beneficiary.added''),
     (''BeneficiaryRenamed'', ''beneficiary.renamed''),
     (''BeneficiaryRemoved'', ''beneficiary.removed''),
     (''StandingInstructionCreated'', ''si.created''),
     (''StandingInstructionPaused'', ''si.paused''),
     (''StandingInstructionResumed'', ''si.resumed''),
     (''StandingInstructionCancelled'', ''si.cancelled''),
     (''StandingInstructionRan'', ''si.ran''),
     (''DebitCardIssued'', ''card.issued''),
     (''DebitCardFrozen'', ''card.frozen''),
     (''DebitCardCancelled'', ''card.cancelled''),
     (''PasswordChanged'', ''auth.password.changed''),
     (''PasskeyRevoked'', ''auth.passkey.revoked''),
     (''PasskeyEnrolledAdditional'', ''auth.passkey.enrolled.additional''),
     (''RecoveryCodeIssued'', ''admin.recovery.code.issued''),
     (''RecoveryCodeConsumed'', ''auth.recovery.consumed.success'')]"

definition eventType :: "event \<Rightarrow> string" where
  "eventType ev = (case mapGet (eventFields ev) ''type'' of Some (JString s) \<Rightarrow> s | _ \<Rightarrow> [])"

fun pickString :: "(string \<times> json) list \<Rightarrow> string list \<Rightarrow> string option" where
  "pickString fs [] = None"
| "pickString fs (k # ks) = (case mapGet fs k of Some (JString s) \<Rightarrow> Some s | _ \<Rightarrow> pickString fs ks)"

fun pickDate :: "(string \<times> json) list \<Rightarrow> string list \<Rightarrow> int option" where
  "pickDate fs [] = None"
| "pickDate fs (k # ks) = (case mapGet fs k of Some (JDate t) \<Rightarrow> Some t | _ \<Rightarrow> pickDate fs ks)"

text \<open>The type of the target and the properties its id is taken from; an empty id is no target.\<close>

definition TARGET_BY_EVENT :: "(string list \<times> string \<times> string list) list" where
  "TARGET_BY_EVENT =
    [([''KycSubmitted'', ''KycApproved'', ''KycRejected''], ''kyc_application'', [''applicationId'']),
     ([''MoneyMoved''], ''transfer'', [''transferId'']),
     ([''BillPaid''], ''transfer'', [''transferId'', ''billerId'']),
     ([''AccountOpened'', ''AccountFrozen'', ''AccountUnfrozen'', ''AccountClosed''], ''account'', [''accountId'']),
     ([''BeneficiaryAdded'', ''BeneficiaryRenamed'', ''BeneficiaryRemoved''], ''beneficiary'', [''beneficiaryId'']),
     ([''StandingInstructionCreated'', ''StandingInstructionPaused'', ''StandingInstructionResumed'',
       ''StandingInstructionCancelled'', ''StandingInstructionRan''], ''standing_instruction'', [''siId'']),
     ([''DebitCardIssued'', ''DebitCardFrozen'', ''DebitCardCancelled''], ''debit_card'', [''cardId'']),
     ([''PasswordChanged'', ''PasskeyRevoked'', ''PasskeyEnrolledAdditional'', ''RecoveryCodeIssued'',
       ''RecoveryCodeConsumed''], ''user'', [''userId''])]"

definition pickTarget :: "string \<Rightarrow> (string \<times> json) list \<Rightarrow> (string \<times> string) option" where
  "pickTarget ty fs =
     (case List.find (\<lambda>(tys, kind, keys). ty \<in> set tys) TARGET_BY_EVENT of
        None \<Rightarrow> None
      | Some (tys, kind, keys) \<Rightarrow>
          (case pickString fs keys of None \<Rightarrow> None
           | Some i \<Rightarrow> if i = [] then None else Some (kind, i)))"

definition summaryFor :: "string \<Rightarrow> (string \<times> json) list \<Rightarrow> string" where
  "summaryFor ty fs =
     (if ty = ''MoneyMoved'' then
        (case mapGet fs ''amountMinor'' of
           Some (JNumber n) \<Rightarrow> ''Transfer of '' @ showInt n @ '' minor units posted''
         | _ \<Rightarrow> ''Transfer posted'')
      else if ty = ''BillPaid'' then ''Bill payment posted''
      else if ty = ''KycSubmitted'' then ''KYC application submitted''
      else if ty = ''KycApproved'' then ''KYC application approved''
      else if ty = ''KycRejected'' then ''KYC application rejected'' @
        (case mapGet fs ''reason'' of Some (JString r) \<Rightarrow> '': '' @ r | _ \<Rightarrow> [])
      else if ty = ''AccountOpened'' then ''Account opened''
      else if ty = ''AccountFrozen'' then ''Account frozen''
      else if ty = ''AccountUnfrozen'' then ''Account unfrozen''
      else if ty = ''AccountClosed'' then ''Account closed''
      else if ty = ''BeneficiaryAdded'' then ''Beneficiary added''
      else if ty = ''BeneficiaryRenamed'' then ''Beneficiary renamed''
      else if ty = ''BeneficiaryRemoved'' then ''Beneficiary removed''
      else if ty = ''StandingInstructionCreated'' then ''Standing instruction created''
      else if ty = ''StandingInstructionPaused'' then ''Standing instruction paused''
      else if ty = ''StandingInstructionResumed'' then ''Standing instruction resumed''
      else if ty = ''StandingInstructionCancelled'' then ''Standing instruction cancelled''
      else if ty = ''StandingInstructionRan'' then ''Standing instruction executed''
      else if ty = ''DebitCardIssued'' then ''Debit card issued''
      else if ty = ''DebitCardFrozen'' then ''Debit card frozen''
      else if ty = ''DebitCardCancelled'' then ''Debit card cancelled''
      else if ty = ''PasswordChanged'' then ''Password changed''
      else if ty = ''PasskeyRevoked'' then ''Passkey revoked''
      else if ty = ''PasskeyEnrolledAdditional'' then ''Additional passkey enrolled''
      else if ty = ''RecoveryCodeIssued'' then
        (case mapGet fs ''username'' of
           Some (JString n) \<Rightarrow> ''Recovery code issued for '' @ n | _ \<Rightarrow> ''Recovery code issued'')
      else if ty = ''RecoveryCodeConsumed'' then ''Recovery code consumed''
      else ty)"

text \<open>\<open>fromBusEvent\<close> with the default, empty actor options, as \<open>container.ts\<close> calls it.\<close>

definition fromBusEvent :: "event \<Rightarrow> audit_input option" where
  "fromBusEvent ev =
     (case mapGet ACTION_BY_EVENT (eventType ev) of
        None \<Rightarrow> None
      | Some action \<Rightarrow>
         (let fs = eventFields ev; userId = pickString fs [''userId'', ''ownerUserId'', ''actorUserId''] in
          Some \<lparr>ai_action = action, ai_category = None, ai_actorUserId = userId, ai_actorUsername = None,
                ai_actorRole = Some (if truthy userId then RoleCustomer else RoleSystem),
                ai_sessionId = None, ai_target = pickTarget (eventType ev) fs, ai_status = AuditSuccess,
                ai_errorCode = None, ai_summary = summaryFor (eventType ev) fs,
                ai_payload = Some (JObject fs), ai_requestId = None, ai_ip = None, ai_userAgent = None,
                ai_occurredAt = pickDate fs [''postedAt'', ''decidedAt'', ''ranAt'', ''occurredAt'']\<rparr>))"

text \<open>The wildcard subscriber of \<open>container.ts\<close>.\<close>

definition auditSubscriber :: "(string \<Rightarrow> string) \<Rightarrow> event \<Rightarrow> unit op" where
  "auditSubscriber sha256 ev =
     (case fromBusEvent ev of None \<Rightarrow> ret () | Some inp \<Rightarrow> thn (recordAudit sha256 inp) (ret ()))"

section \<open>The chain invariant\<close>

text \<open>What storing does to a text leaves a replacement character, and is done once.\<close>

lemma isInfixOf_append: "isInfixOf p s \<Longrightarrow> isInfixOf p (t @ s)"
  by (induction t) auto

lemma isInfixOf_here: "isInfixOf p (p @ s)"
  by (cases "p @ s") (auto simp: startsWith_def dest: arg_cong [where f = "take (length p)"])

lemma storedText_marks: "storedText t = t \<or> isInfixOf REPLACEMENT (storedText t)"
proof (induction t rule: storedText.induct)
  case (1 a b c s)
  then show ?case
    using isInfixOf_here [of REPLACEMENT "storedText s"] isInfixOf_append [of REPLACEMENT _ "[a]"] by auto
qed simp_all

text \<open>A byte string with no lone surrogate in it is stored as it is.\<close>

fun surrogateFree :: "string \<Rightarrow> bool" where
  "surrogateFree (a # b # c # s) \<longleftrightarrow> \<not> surrogateAt a b c \<and> surrogateFree (b # c # s)"
| "surrogateFree s \<longleftrightarrow> True"

lemma storedText_free: "surrogateFree t \<Longrightarrow> storedText t = t"
  by (induction t rule: storedText.induct) auto

lemma storedText_shape:
  "storedText (c # s) = c # storedText s \<or> (\<exists>r. storedText (c # s) = REPLACEMENT @ r)"
  by (cases "c # s" rule: storedText.cases) auto

lemma surrogateFree_cons:
  "surrogateFree t \<Longrightarrow> (\<And>b c r. t = b # c # r \<Longrightarrow> \<not> surrogateAt a b c) \<Longrightarrow> surrogateFree (a # t)"
  by (cases t rule: surrogateFree.cases) auto

lemma not_surrogate_marks [simp]:
  "\<not> surrogateAt a (CHR 0xEF) c" "\<not> surrogateAt a b (CHR 0xEF)" "\<not> surrogateAt (CHR 0xEF) b c"
  "\<not> surrogateAt (CHR 0xBF) b c" "\<not> surrogateAt (CHR 0xBD) b c"
  by (simp_all add: surrogateAt_def)

lemma surrogateFree_REPLACEMENT: "surrogateFree r \<Longrightarrow> surrogateFree (REPLACEMENT @ r)"
  unfolding REPLACEMENT_def by (auto intro!: surrogateFree_cons)

lemma stored_surrogateFree: "surrogateFree (storedText t)"
proof (induction t rule: storedText.induct)
  case (1 a b c s)
  show ?case
  proof (cases "surrogateAt a b c")
    case True
    with 1 show ?thesis by (simp add: surrogateFree_REPLACEMENT)
  next
    case False
    have "\<not> surrogateAt a b' c'" if "storedText (b # c # s) = b' # c' # r" for b' c' r
      using that False storedText_shape [of b "c # s"] storedText_shape [of c s] by (auto simp: REPLACEMENT_def)
    with False 1 show ?thesis by (auto intro!: surrogateFree_cons)
  qed
qed simp_all

lemma storedText_idem: "storedText (storedText t) = storedText t"
  by (rule storedText_free [OF stored_surrogateFree])

definition entryTexts :: "audit_entry \<Rightarrow> string list" where
  "entryTexts e = [au_id e, au_action e, au_summary e, au_hash e] @ concat (map (\<lambda>x. case x of None \<Rightarrow> [] | Some t \<Rightarrow> [t])
     [au_actorUserId e, au_actorUsername e, au_sessionId e, au_targetType e, au_targetId e, au_errorCode e,
      au_requestId e, au_ip e, au_userAgent e, au_prevHash e])"

text \<open>An entry one of whose texts holds a replacement character.\<close>

definition mended :: "audit_entry \<Rightarrow> bool" where
  "mended e = list_ex (isInfixOf REPLACEMENT) (entryTexts e)"

lemma stored_option:
  "map_option storedText x = x \<or> (\<exists>t. map_option storedText x = Some t \<and> isInfixOf REPLACEMENT t)"
  using storedText_marks by (cases x) auto

lemma storedEntry_marks: "storedEntry e = e \<or> mended (storedEntry e)"
proof (cases "mended (storedEntry e)")
  case False
  have plain: "storedText t = t" if "\<not> isInfixOf REPLACEMENT (storedText t)" for t
    using that storedText_marks by blast
  have opt: "map_option storedText x = x"
    if "\<not> list_ex (isInfixOf REPLACEMENT) (case map_option storedText x of None \<Rightarrow> [] | Some t \<Rightarrow> [t])" for x
    using that stored_option [of x] by auto
  from False have "\<not> list_ex (isInfixOf REPLACEMENT) (entryTexts (storedEntry e))" by (simp add: mended_def)
  then have "storedEntry e = e"
    by (cases e) (simp add: entryTexts_def storedEntry_def del: case_map_option,
      elim conjE, intro conjI; (rule plain opt, assumption))
  then show ?thesis ..
qed simp

text \<open>Every entry names the digest of the one before it and, unless it was mended, carries its own.\<close>

fun linkedFrom :: "(string \<Rightarrow> string) \<Rightarrow> string option \<Rightarrow> audit_entry list \<Rightarrow> bool" where
  "linkedFrom sha prev [] = True"
| "linkedFrom sha prev (e # es) =
     (au_prevHash e = prev \<and> (sha (canonicalize e) = au_hash e \<or> mended e) \<and> linkedFrom sha (Some (au_hash e)) es)"

lemma linkedFrom_append: "linkedFrom sha prev (es @ fs) \<longleftrightarrow> linkedFrom sha prev es \<and> linkedFrom sha (lastHash prev es) fs"
  by (induction es arbitrary: prev) auto

lemma linked_breaks:
  "linkedFrom sha prev es \<Longrightarrow> verifyFrom sha prev n es = ChainBroken i q r \<Longrightarrow>
     r = ''hash mismatch'' \<and> (\<exists>e \<in> set es. au_id e = i \<and> au_seq e = q \<and> mended e)"
  by (induction es arbitrary: prev n) (auto simp: hashEntry_def split: if_splits)

definition auditOk :: "(string \<Rightarrow> string) \<Rightarrow> db \<Rightarrow> bool" where
  "auditOk sha d \<longleftrightarrow> sorted_wrt (<) (map au_seq (db_audit d)) \<and> (\<forall>e \<in> set (db_audit d). storedText (au_hash e) = au_hash e)
     \<and> linkedFrom sha None (db_audit d)"

lemma sorted_wrt_sort_key: "sorted_wrt (<) (map f xs) \<Longrightarrow> sort_key f xs = (xs :: 'a list)"
  for f :: "'a \<Rightarrow> nat"
  by (rule sort_key_id_if_sorted) (simp add: sorted_map sorted_wrt_map, erule sorted_wrt_mono_rel [rotated], simp)

lemma auditOk_chronological: "auditOk sha d \<Longrightarrow> listAllChronological d = db_audit d"
  by (simp add: auditOk_def listAllChronological_def sorted_wrt_sort_key)

lemma sort_key_neg_last:
  assumes "sorted_wrt (<) (map f (xs :: 'a list))" and "xs \<noteq> []"
  shows "\<exists>ys. sort_key (\<lambda>e. - int (f e)) xs = last xs # ys"
proof -
  have "sort_key (\<lambda>e. - int (f e)) xs = rev xs"
  proof (rule sort_key_inj_key_eq)
    show "mset xs = mset (rev xs)" by simp
    show "inj_on (\<lambda>e. - int (f e)) (set xs)"
      using assms(1) by (auto intro!: inj_onI simp: strict_sorted_iff distinct_map dest: inj_onD)
    show "sorted (map (\<lambda>e. - int (f e)) (rev xs))"
      using assms(1) by (auto simp: sorted_wrt_map rev_map [symmetric] sorted_wrt_rev elim!: sorted_wrt_mono_rel [rotated])
  qed
  with assms(2) show ?thesis by (cases xs rule: rev_cases) auto
qed

lemma findLatestAudit_eq:
  assumes "auditOk sha d"
  shows "findLatestAudit d = (if db_audit d = [] then None
           else Some (au_hash (last (db_audit d)), au_seq (last (db_audit d))))"
proof (cases "db_audit d = []")
  case False
  with assms sort_key_neg_last [of au_seq "db_audit d"] show ?thesis
    by (auto simp: findLatestAudit_def auditOk_def)
qed (simp add: findLatestAudit_def)

lemma lastHash_eq: "lastHash None es = (if es = [] then None else Some (au_hash (last es)))"
  by (cases es rule: rev_cases) auto

lemma auditOk_append:
  assumes "auditOk sha d"
  shows "auditOk sha (d\<lparr>db_audit := db_audit d @ [e]\<rparr>) \<longleftrightarrow>
    (\<forall>e' \<in> set (db_audit d). au_seq e' < au_seq e) \<and> storedText (au_hash e) = au_hash e
    \<and> au_prevHash e = lastHash None (db_audit d) \<and> (sha (canonicalize e) = au_hash e \<or> mended e)"
  using assms by (auto simp: auditOk_def sorted_wrt_append linkedFrom_append)

lemma auditDraft_simps [simp]:
  "au_seq (auditDraft prev inp t i) = (case prev of None \<Rightarrow> 0 | Some (h, s) \<Rightarrow> s) + 1"
  "au_prevHash (auditDraft prev inp t i) = map_option fst prev"
  "au_id (auditDraft prev inp t i) = i"
  "au_actorUserId (auditDraft prev inp t i) = ai_actorUserId inp"
  by (simp_all add: auditDraft_def)

text \<open>
  A new entry extends the chain; nothing else of the database changes, and a failed insertion leaves it
  alone.
\<close>

lemma storedEntry_links:
  assumes "sha (canonicalize e) = au_hash e"
  shows "sha (canonicalize (storedEntry e)) = au_hash (storedEntry e) \<or> mended (storedEntry e)"
  using storedEntry_marks [of e] assms by auto

lemma recordAudit_extends:
  assumes "auditOk sha (w_db w)"
  shows "wp (recordAudit sha inp)
     (\<lambda>e w'. w_db w' = (w_db w)\<lparr>db_audit := db_audit (w_db w) @ [storedEntry e]\<rparr> \<and> auditOk sha (w_db w')
        \<and> w_events w' = w_events w)
     (\<lambda>_ w'. w_db w' = w_db w \<and> w_events w' = w_events w) w"
proof -
  have lt: "au_seq e < Suc (au_seq (last (db_audit (w_db w))))" if "e \<in> set (db_audit (w_db w))" for e
    using that assms by (cases "db_audit (w_db w)" rule: rev_cases) (auto simp: auditOk_def sorted_wrt_append)
  have last: "storedText (au_hash (last (db_audit (w_db w)))) = au_hash (last (db_audit (w_db w)))" if "db_audit (w_db w) \<noteq> []"
    using that assms by (auto simp: auditOk_def)
  let ?prev = "findLatestAudit (w_db w)"
  have grown: "auditOk sha ((w_db w)\<lparr>db_audit := db_audit (w_db w) @ [storedEntry e]\<rparr>)"
    if e: "e = (auditDraft ?prev inp t i)\<lparr>au_hash := hashEntry sha (auditDraft ?prev inp t i)\<rparr>" for e t i
  proof -
    have "sha (canonicalize e) = au_hash e" by (simp add: e hashEntry_def)
    from storedEntry_links [where sha = sha, OF this] show ?thesis
      unfolding auditOk_append [OF assms]
      using findLatestAudit_eq [OF assms] lt last
      by (auto simp: storedEntry_def e lastHash_eq storedText_idem)
  qed
  show ?thesis
    by (cases "ai_occurredAt inp") (simp_all add: recordAudit_def insertAudit_def wp_rules Let_def grown)
qed

lemma recordAudit_frame:
  "wp (recordAudit sha inp)
     (\<lambda>e w'. w_db w' = (w_db w)\<lparr>db_audit := db_audit (w_db w) @ [storedEntry e]\<rparr> \<and> w_events w' = w_events w)
     (\<lambda>_ w'. w_db w' = w_db w \<and> w_events w' = w_events w) w"
  by (cases "ai_occurredAt inp") (simp_all add: recordAudit_def insertAudit_def wp_rules Let_def)

end
