(* ===== verification/Container.thy ===== *)
theory Container
  imports KycOps AuditLog
begin

text \<open>
  The event bus of \<open>shared/eventBus.ts\<close>, notifications (\<open>contexts/notifications/application\<close>) and the
  subscribers \<open>container.ts\<close> registers.
\<close>

section \<open>The bus\<close>

text \<open>
  \<open>InProcessEventBus\<close>: the handlers of the event's type, in order, and then the wildcard subscribers,
  whose errors are swallowed. An error of a handler stops the publication.
\<close>

definition noteEvent :: "event \<Rightarrow> unit op" where
  "noteEvent e = modify (\<lambda>w. w\<lparr>w_events := w_events w @ [e]\<rparr>)"

definition busPublish ::
  "(event \<Rightarrow> (event \<Rightarrow> unit op) list) \<Rightarrow> (event \<Rightarrow> unit op) list \<Rightarrow> bus" where
  "busPublish handlers wildcards evs =
     forEach evs (\<lambda>e.
       thn (noteEvent e)
      (thn (forEach (handlers e) (\<lambda>h. h e))
           (forEach wildcards (\<lambda>w. tryCatch (w e) (\<lambda>_. ret ())))))"

section \<open>Notifications\<close>

definition emitNotification ::
  "string \<Rightarrow> notification_kind \<Rightarrow> string \<Rightarrow> string \<Rightarrow> string option \<Rightarrow> string option \<Rightarrow> notification op" where
  "emitNotification userId kind title body entityType entityId =
     bnd uuid (\<lambda>i.
     bnd clockNow (\<lambda>now.
     (let n = createNotification i userId kind title body entityType entityId now in
      thn (insertNotification n) (ret n))))"

abbreviation notify ::
  "string \<Rightarrow> notification_kind \<Rightarrow> string \<Rightarrow> string \<Rightarrow> string option \<Rightarrow> string option \<Rightarrow> unit op" where
  "notify u k t b et ei \<equiv> thn (emitNotification u k t b et ei) (ret ())"

section \<open>Subscribers\<close>

definition spacedTypeName :: "account_type \<Rightarrow> string" where
  "spacedTypeName ty = (let s = accountTypeName ty in
     if CHR ''_'' \<in> set s
     then takeWhile (\<lambda>c. c \<noteq> CHR ''_'') s @ '' '' @ tl (dropWhile (\<lambda>c. c \<noteq> CHR ''_'') s) else s)"

definition onKycApproved :: "bus \<Rightarrow> string \<Rightarrow> string \<Rightarrow> unit op" where
  "onKycApproved bus userId applicationId =
     bnd (dbGet (\<lambda>d. case findKycById d applicationId of
                        None \<Rightarrow> Savings | Some k \<Rightarrow> k_requestedAccountType k)) (\<lambda>requestedType.
     thn (createAccountForUser bus userId requestedType)
         (notify userId NKycApproved ''KYC approved''
            (''Your KYC has been approved and a '' @ spacedTypeName requestedType @ '' account is ready.'')
            (Some ''kyc'') (Some applicationId)))"

definition onKycRejected :: "string \<Rightarrow> string \<Rightarrow> string \<Rightarrow> unit op" where
  "onKycRejected userId applicationId reason =
     notify userId NKycRejected ''KYC rejected''
       (''Reason: '' @ reason @ ''. You can re-apply with corrected details.'')
       (Some ''kyc'') (Some applicationId)"

text \<open>\<open>t.description ?? ""\<close> and then \<open>description || fallback\<close>.\<close>

definition orText :: "string option \<Rightarrow> string \<Rightarrow> string" where
  "orText s fallback = (case s of None \<Rightarrow> fallback | Some t \<Rightarrow> if t = [] then fallback else t)"

definition notifyHolder ::
  "string option \<Rightarrow> notification_kind \<Rightarrow> string \<Rightarrow> string \<Rightarrow> string \<Rightarrow> unit op" where
  "notifyHolder accountId kind title body transferId =
     (case accountId of
        None \<Rightarrow> ret ()
      | Some a \<Rightarrow> if a = [] then ret () else
          bnd (dbGet (\<lambda>d. findAccountById d a)) (\<lambda>x.
          case x of None \<Rightarrow> ret ()
          | Some acc \<Rightarrow> notify (acc_userId acc) kind title body (Some ''transfer'') (Some transferId)))"

definition onMoneyMoved :: "string \<Rightarrow> int \<Rightarrow> unit op" where
  "onMoneyMoved transferId amountMinor =
     bnd (dbGet (\<lambda>d. findTransferById d transferId)) (\<lambda>x.
     case x of None \<Rightarrow> ret ()
     | Some t \<Rightarrow>
        (let amount = inrFmtMinor amountMinor in
         thn (notifyHolder (t_fromAccountId t) NTransferSent (amount @ '' sent'')
                (orText (t_description t) (''Sent '' @ amount)) (t_id t))
             (notifyHolder (t_toAccountId t) NTransferReceived (amount @ '' received'')
                (orText (t_description t) (''Received '' @ amount)) (t_id t))))"

definition lastChars :: "nat \<Rightarrow> string \<Rightarrow> string" where
  "lastChars n s = drop (length s - n) s"

primrec cardHandler :: "card_event \<Rightarrow> unit op list" where
  "cardHandler (DebitCardIssued c u a m ts) =
     [notify u NCardIssued ''Debit card issued'' (''Your card '' @ m @ '' is active.'') (Some ''card'') (Some c)]"
| "cardHandler (DebitCardFrozen c u m ts) =
     [notify u NCardFrozen ''Debit card frozen'' (''Card '' @ m @ '' is now frozen.'') (Some ''card'') (Some c)]"
| "cardHandler (DebitCardCancelled c u m ts) = []"
| "cardHandler (CardSpent c u t n cur m ts) =
     [notify u NCardSpent ''Card payment'' (inrFmtMinor n @ '' at '' @ m @ ''.'') (Some ''card'') (Some c)]"

primrec kycHandler :: "bus \<Rightarrow> kyc_event \<Rightarrow> unit op list" where
  "kycHandler bus (KycSubmitted u a ts) = []"
| "kycHandler bus (KycApproved u a ts) = [onKycApproved bus u a]"
| "kycHandler bus (KycRejected u a r ts) = [onKycRejected u a r]"

primrec siHandler :: "si_event \<Rightarrow> unit op list" where
  "siHandler (StandingInstructionCreated s u f b n cur fr nx ts) = []"
| "siHandler (StandingInstructionPaused s u ts) = []"
| "siHandler (StandingInstructionResumed s u ts) = []"
| "siHandler (StandingInstructionCancelled s u ts) = []"
| "siHandler (StandingInstructionRan s u n b ts) =
     [notify u NStandingExecuted ''Standing instruction ran'' (inrFmtMinor n @ '' sent to '' @ b @ ''.'')
        (Some ''standing_instruction'') (Some s)]"

primrec identityHandler :: "identity_event \<Rightarrow> unit op list" where
  "identityHandler (PasswordChanged u n ts) =
     [notify u NPasswordChanged ''Password changed''
        ''Your sign-in password was changed. If this wasn't you, contact an admin.'' None None]"
| "identityHandler (PasskeyRevoked u c ts) =
     [notify u NPasskeyRevoked ''Passkey revoked''
        (''A passkey ending in '' @ lastChars 6 c @ '' was revoked from your account.'') None None]"
| "identityHandler (PasskeyEnrolledAdditional u n c ts) = []"
| "identityHandler (RecoveryCodeIssued u n r admin ex ts) = []"
| "identityHandler (RecoveryCodeConsumed u r ts) = []"

primrec containerHandlers :: "bus \<Rightarrow> event \<Rightarrow> unit op list" where
  "containerHandlers bus (MoneyEv e) = [onMoneyMoved (mm_transferId e) (mm_amount e)]"
| "containerHandlers bus (AccountEv e) = []"
| "containerHandlers bus (KycEv e) = kycHandler bus e"
| "containerHandlers bus (BeneficiaryEv e) = []"
| "containerHandlers bus (BillEv e) = []"
| "containerHandlers bus (CardEv e) = cardHandler e"
| "containerHandlers bus (SiEv e) = siHandler e"
| "containerHandlers bus (IdentityEv e) = identityHandler e"

text \<open>
  The bus the subscriber of \<open>KycApproved\<close> publishes on is the container's own. It publishes only
  \<open>AccountOpened\<close> there, which has no subscriber of its own, so the inner bus needs none;
  \<open>containerPublish_fix\<close> below shows that this loses nothing.
\<close>

definition innerPublish :: "(string \<Rightarrow> string) \<Rightarrow> bus" where
  "innerPublish sha256 = busPublish (\<lambda>_. []) [auditSubscriber sha256]"

definition containerPublish :: "(string \<Rightarrow> string) \<Rightarrow> bus" where
  "containerPublish sha256 =
     busPublish (\<lambda>e. map (\<lambda>h _. h) (containerHandlers (innerPublish sha256) e)) [auditSubscriber sha256]"

section \<open>The interface use cases rely on\<close>

text \<open>
  A use case may publish any event but \<open>KycApproved\<close> (whose subscriber opens an account) and find the
  bank's tables as it left them.
\<close>

locale event_bus =
  fixes publish :: bus
  assumes quiet: "\<forall>e \<in> set evs. \<not> isKycApproved e \<Longrightarrow> leaves bankView (publish evs)"
begin

lemma quiet1 [leaves_rules]: "\<not> isKycApproved e \<Longrightarrow> leaves bankView (publish [e])"
  by (rule quiet) simp

lemma wp_publish:
  assumes "\<forall>e \<in> set evs. \<not> isKycApproved e"
    and "\<And>x w'. bankView (w_db w') = bankView (w_db w) \<Longrightarrow> Q x w'"
    and "\<And>e w'. bankView (w_db w') = bankView (w_db w) \<Longrightarrow> E e w'"
  shows "wp (publish evs) Q E w"
  by (rule leaves_wp [OF quiet [OF assms(1)]]) (use assms(2,3) in auto)

end

lemma leaves_noteEvent [leaves_rules]: "leaves v (noteEvent e)"
  by (rule leavesI_wp) (simp add: noteEvent_def wp_rules)

lemma leaves_busPublish:
  assumes "\<And>e h. e \<in> set evs \<Longrightarrow> h \<in> set (handlers e) \<Longrightarrow> leaves v (h e)"
    and "\<And>e h. h \<in> set wildcards \<Longrightarrow> leaves v (h e)"
  shows "leaves v (busPublish handlers wildcards evs)"
  unfolding busPublish_def using assms by (auto intro!: leaves_rules)

lemma leaves_emitNotification [leaves_rules]: "leaves bankView (emitNotification u k t b et ei)"
  unfolding emitNotification_def insertNotification_def Let_def by (intro leaves_rules) simp_all

lemma leaves_auditSubscriber [leaves_rules]: "leaves bankView (auditSubscriber sha e)"
  unfolding auditSubscriber_def recordAudit_def insertAudit_def Let_def by (intro leaves_rules) simp_all

lemma leaves_notifyHolder [leaves_rules]: "leaves bankView (notifyHolder a k t b i)"
  unfolding notifyHolder_def by (intro leaves_rules)

lemma leaves_onMoneyMoved [leaves_rules]: "leaves bankView (onMoneyMoved t n)"
  unfolding onMoneyMoved_def Let_def by (intro leaves_rules)

lemma leaves_containerHandlers:
  assumes "\<not> isKycApproved e" and "h \<in> set (containerHandlers bus e)"
  shows "leaves bankView h"
proof (cases e)
  case (KycEv k)
  with assms show ?thesis
    by (cases k) (auto simp: isKycApproved_def onKycRejected_def intro!: leaves_rules)
next
  case (CardEv c)
  with assms show ?thesis by (cases c) (auto intro!: leaves_rules)
next
  case (SiEv c)
  with assms show ?thesis by (cases c) (auto intro!: leaves_rules)
next
  case (IdentityEv c)
  with assms show ?thesis by (cases c) (auto intro!: leaves_rules)
qed (use assms in \<open>auto intro!: leaves_rules\<close>)

interpretation container_bus: event_bus "containerPublish sha256" for sha256
  by unfold_locales
    (auto simp: containerPublish_def intro!: leaves_busPublish intro: leaves_containerHandlers leaves_rules)

interpretation inner_bus: event_bus "innerPublish sha256" for sha256
  by unfold_locales (auto simp: innerPublish_def intro!: leaves_busPublish leaves_rules)

text \<open>The two levels of the container's bus are the whole bus.\<close>

lemma publishOpened_inner: "publishOpened (containerPublish sha) a = publishOpened (innerPublish sha) a"
  by (simp add: publishOpened_def containerPublish_def innerPublish_def busPublish_def)

lemma containerHandlers_inner:
  "containerHandlers (containerPublish sha) e = containerHandlers (innerPublish sha) e"
proof (cases e)
  case (KycEv k)
  then show ?thesis
    by (cases k) (simp_all add: onKycApproved_def createAccountForUser_def publishOpened_inner cong: option.case_cong)
qed simp_all

lemma containerPublish_fix:
  "containerPublish sha =
     busPublish (\<lambda>e. map (\<lambda>h _. h) (containerHandlers (containerPublish sha) e)) [auditSubscriber sha]"
  by (simp add: containerHandlers_inner) (simp add: containerPublish_def)

end
