(* ===== verification/Tables.thy ===== *)
theory Tables
  imports Repos
begin

text \<open>
  The contract of a repository (\<open>application/ports.ts\<close>): what a lookup by id returns after an insertion
  and after an update, and how a sum over the rows changes. The contract is stated once as a locale and
  discharged for the tables the use cases update.
\<close>

locale repo =
  fixes find_row :: "db \<Rightarrow> string \<Rightarrow> 'r option"
    and ins_row :: "'r \<Rightarrow> db \<Rightarrow> db"
    and upd_row :: "'r \<Rightarrow> db \<Rightarrow> db"
    and row_id :: "'r \<Rightarrow> string"
    and merge :: "'r \<Rightarrow> 'r \<Rightarrow> 'r"
  assumes find_ins: "find_row d (row_id r) = None \<Longrightarrow>
      find_row (ins_row r d) i = (if i = row_id r then Some r else find_row d i)"
    and find_upd: "find_row (upd_row r d) i =
      (if i = row_id r then map_option (merge r) (find_row d i) else find_row d i)"
    and find_id: "find_row d i = Some r \<Longrightarrow> row_id r = i"
    and merge_id: "row_id (merge r s) = row_id s"
begin

lemma read_your_write: "find_row d (row_id r) = Some s \<Longrightarrow> find_row (upd_row r d) (row_id r) = Some (merge r s)"
  by (simp add: find_upd)

lemma upd_other: "i \<noteq> row_id r \<Longrightarrow> find_row (upd_row r d) i = find_row d i"
  by (simp add: find_upd)

lemma upd_exists: "find_row (upd_row r d) i = None \<longleftrightarrow> find_row d i = None"
  by (simp add: find_upd)

lemma upd_commute:
  "row_id r \<noteq> row_id s \<Longrightarrow> find_row (upd_row r (upd_row s d)) i = find_row (upd_row s (upd_row r d)) i"
  by (simp add: find_upd)

end

text \<open>A repository whose rows carry an amount, with the sum of the amounts.\<close>

locale summed_repo = repo find_row ins_row upd_row row_id merge
  for find_row :: "db \<Rightarrow> string \<Rightarrow> 'r option" and ins_row upd_row row_id merge +
  fixes wellkeyed :: "db \<Rightarrow> bool"
    and amount :: "'r \<Rightarrow> int"
    and total :: "db \<Rightarrow> int"
  assumes total_ins: "total (ins_row r d) = total d + amount r"
    and total_upd: "wellkeyed d \<Longrightarrow> find_row d (row_id r) = Some s \<Longrightarrow>
      total (upd_row r d) = total d - amount s + amount (merge r s)"
    and wellkeyed_upd: "wellkeyed d \<Longrightarrow> wellkeyed (upd_row r d)"
begin

text \<open>Two updates of different rows change the total by both differences.\<close>

lemma total_upd2:
  assumes "wellkeyed d" and "find_row d (row_id r) = Some a" and "find_row d (row_id s) = Some b"
    and "row_id r \<noteq> row_id s"
  shows "total (upd_row s (upd_row r d)) =
    total d - amount a + amount (merge r a) - amount b + amount (merge s b)"
  using assms by (simp add: total_upd wellkeyed_upd find_upd)

text \<open>Two updates of the same row: the later one counts, from what the first one left.\<close>

lemma total_upd_same:
  assumes "wellkeyed d" and "find_row d (row_id r) = Some a" and "row_id r = row_id s"
  shows "total (upd_row s (upd_row r d)) = total d - amount a + amount (merge s (merge r a))"
  using assms by (simp add: total_upd wellkeyed_upd find_upd)

end

section \<open>The tables\<close>

definition totalBalance :: "db \<Rightarrow> int" where
  "totalBalance d = (\<Sum>a \<leftarrow> db_accounts d. acc_balance a)"

definition accountIdsUnique :: "db \<Rightarrow> bool" where
  "accountIdsUnique d \<longleftrightarrow> distinct (map acc_id (db_accounts d))"

lemma find_ins_key:
  assumes "List.find (\<lambda>r. k r = k x) rows = None"
  shows "List.find (\<lambda>r. k r = i) (rows @ [x]) = (if i = k x then Some x else List.find (\<lambda>r. k r = i) rows)"
  using assms by (auto simp: find_append split: option.splits)

lemma find_upd_key:
  assumes "\<And>r. k (m r) = k r"
  shows "List.find (\<lambda>r. k r = i) (updateWhere (\<lambda>r. k r = k x) m rows) =
    (if i = k x then map_option m (List.find (\<lambda>r. k r = i) rows) else List.find (\<lambda>r. k r = i) rows)"
proof -
  have "List.find (\<lambda>r. k r = i) (updateWhere (\<lambda>r. k r = k x) m rows) =
      map_option (\<lambda>r. if k r = k x then m r else r) (List.find (\<lambda>r. k r = i) rows)"
    by (rule find_updateWhere) (simp add: assms)
  then show ?thesis
    by (cases "List.find (\<lambda>r. k r = i) rows") (auto dest: find_Some_iff_mem)
qed

interpretation accounts: summed_repo findAccountById accountInsertRow accountUpdateRow acc_id accountSet
  accountIdsUnique acc_balance totalBalance
proof unfold_locales
  fix d r s i
  show "findAccountById d (acc_id r) = None \<Longrightarrow>
      findAccountById (accountInsertRow r d) i = (if i = acc_id r then Some r else findAccountById d i)"
    by (simp add: findAccountById_def accountInsertRow_def find_ins_key)
  show "findAccountById (accountUpdateRow r d) i =
      (if i = acc_id r then map_option (accountSet r) (findAccountById d i) else findAccountById d i)"
    by (simp add: findAccountById_def accountUpdateRow_def find_upd_key accountSet_def)
  show "findAccountById d i = Some r \<Longrightarrow> acc_id r = i"
    by (auto simp: findAccountById_def dest: find_Some_iff_mem)
  show "acc_id (accountSet r s) = acc_id s" by (simp add: accountSet_def)
  show "totalBalance (accountInsertRow r d) = totalBalance d + acc_balance r"
    by (simp add: totalBalance_def accountInsertRow_def)
  show "totalBalance (accountUpdateRow r d) = totalBalance d - acc_balance s + acc_balance (accountSet r s)"
    if "accountIdsUnique d" "findAccountById d (acc_id r) = Some s"
  proof -
    from that(2) have s: "s \<in> set (db_accounts d)" "acc_id s = acc_id r"
      by (auto simp: findAccountById_def dest: find_Some_iff_mem)
    show ?thesis
      using sum_list_update_key [of acc_id "db_accounts d" s acc_balance "accountSet r"] that(1) s
      by (simp add: totalBalance_def accountUpdateRow_def accountIdsUnique_def)
  qed
  show "accountIdsUnique d \<Longrightarrow> accountIdsUnique (accountUpdateRow r d)"
    by (simp add: accountIdsUnique_def accountUpdateRow_def map_updateWhere accountSet_def)
qed

interpretation transfers: repo findTransferById transferInsertRow transferUpdateRow t_id transferSet
  by unfold_locales
    (auto simp: findTransferById_def transferInsertRow_def transferUpdateRow_def find_ins_key find_upd_key
      transferSet_def dest: find_Some_iff_mem)

interpretation fds: repo findFdById fdInsertRow fdUpdateRow fd_id fdSet
  by unfold_locales
    (auto simp: findFdById_def fdInsertRow_def fdUpdateRow_def find_ins_key find_upd_key fdSet_def
      dest: find_Some_iff_mem)

interpretation cards: repo findCardById cardInsertRow cardUpdateRow c_id cardSet
  by unfold_locales
    (auto simp: findCardById_def cardInsertRow_def cardUpdateRow_def find_ins_key find_upd_key cardSet_def
      dest: find_Some_iff_mem)

interpretation sis: repo findSiById siInsertRow siUpdateRow si_id siSet
  by unfold_locales
    (auto simp: findSiById_def siInsertRow_def siUpdateRow_def find_ins_key find_upd_key siSet_def
      dest: find_Some_iff_mem)

end
