(* ===== verification/TransferLimits.thy ===== *)
theory TransferLimits
  imports Repos
begin

text \<open>
  The daily and monthly caps of \<open>services/transferLimits.ts\<close> and \<open>services/cardLimits.ts\<close>. A tier's
  multiplier (0.25, 1 or 2) is kept in quarters.
\<close>

section \<open>Transfers\<close>

definition DEFAULT_DAILY_LIMIT_MINOR :: int where
  "DEFAULT_DAILY_LIMIT_MINOR = 10000000"

definition DEFAULT_MONTHLY_LIMIT_MINOR :: int where
  "DEFAULT_MONTHLY_LIMIT_MINOR = 100000000"

definition PER_TRANSACTION_MAX_MINOR :: int where
  "PER_TRANSACTION_MAX_MINOR = 100000000"

primrec tierQuarters :: "kyc_tier \<Rightarrow> int" where
  "tierQuarters TierNone = 1"
| "tierQuarters TierBasic = 4"
| "tierQuarters TierFull = 8"

definition dailyLimitForTier :: "kyc_tier \<Rightarrow> int" where
  "dailyLimitForTier tier = (DEFAULT_DAILY_LIMIT_MINOR * tierQuarters tier) div 4"

definition monthlyLimitForTier :: "kyc_tier \<Rightarrow> int" where
  "monthlyLimitForTier tier = (DEFAULT_MONTHLY_LIMIT_MINOR * tierQuarters tier) div 4"

record limit_check =
  lc_allowed :: bool
  lc_dailyUsed :: int
  lc_dailyLimit :: int
  lc_monthlyUsed :: int
  lc_monthlyLimit :: int
  lc_reason :: "string option"

text \<open>The rows one account's query selects, and the sums of the loop over accounts and rows.\<close>

definition outboundRows :: "db \<Rightarrow> int \<Rightarrow> string \<Rightarrow> transfer list" where
  "outboundRows d since a =
     filter (\<lambda>t. t_fromAccountId t = Some a \<and> t_status t = Posted \<and> since \<le> t_postedAt t) (db_transfers d)"

fun sumUsed :: "int \<Rightarrow> transfer list \<Rightarrow> int \<times> int \<Rightarrow> int \<times> int" where
  "sumUsed dStart [] (daily, monthly) = (daily, monthly)"
| "sumUsed dStart (t # ts) (daily, monthly) =
     sumUsed dStart ts
       (if dStart \<le> t_postedAt t then daily + t_amount t else daily, monthly + t_amount t)"

fun sumAccounts :: "db \<Rightarrow> int \<Rightarrow> int \<Rightarrow> string list \<Rightarrow> int \<times> int \<Rightarrow> int \<times> int" where
  "sumAccounts d dStart mStart [] acc = acc"
| "sumAccounts d dStart mStart (a # as) acc =
     sumAccounts d dStart mStart as (sumUsed dStart (outboundRows d mStart a) acc)"

definition checkAggregateLimits ::
  "int \<Rightarrow> db \<Rightarrow> string list \<Rightarrow> int \<Rightarrow> kyc_tier \<Rightarrow> int \<Rightarrow> limit_check" where
  "checkAggregateLimits tz d accountIds amount tier now =
     (let dailyLimit = dailyLimitForTier tier; monthlyLimit = monthlyLimitForTier tier in
      if tier = TierNone
      then \<lparr>lc_allowed = False, lc_dailyUsed = 0, lc_dailyLimit = dailyLimit, lc_monthlyUsed = 0,
            lc_monthlyLimit = monthlyLimit, lc_reason = Some ''KYC verification required before transfers''\<rparr>
      else
        (let dStart = startOfDayMs tz now; mStart = startOfMonthMs tz now;
             (dailyUsed, monthlyUsed) = sumAccounts d dStart mStart accountIds (0, 0);
             result = \<lparr>lc_allowed = False, lc_dailyUsed = dailyUsed, lc_dailyLimit = dailyLimit,
               lc_monthlyUsed = monthlyUsed, lc_monthlyLimit = monthlyLimit, lc_reason = None\<rparr>
         in if dailyLimit < dailyUsed + amount
            then result\<lparr>lc_reason := Some ''Daily transfer limit exceeded''\<rparr>
            else if monthlyLimit < monthlyUsed + amount
            then result\<lparr>lc_reason := Some ''Monthly transfer limit exceeded''\<rparr>
            else result\<lparr>lc_allowed := True\<rparr>))"

record limit_preview =
  lp_dailyUsed :: int
  lp_dailyLimit :: int
  lp_monthlyUsed :: int
  lp_monthlyLimit :: int
  lp_perTransactionMax :: int

definition previewLimits :: "int \<Rightarrow> db \<Rightarrow> string list \<Rightarrow> kyc_tier \<Rightarrow> int \<Rightarrow> limit_preview" where
  "previewLimits tz d accountIds tier now =
     (let c = checkAggregateLimits tz d accountIds 0 tier now in
      \<lparr>lp_dailyUsed = lc_dailyUsed c, lp_dailyLimit = lc_dailyLimit c, lp_monthlyUsed = lc_monthlyUsed c,
       lp_monthlyLimit = lc_monthlyLimit c, lp_perTransactionMax = PER_TRANSACTION_MAX_MINOR\<rparr>)"

section \<open>Cards\<close>

record card_limits =
  cl_perTxn :: int
  cl_daily :: int
  cl_monthly :: int

record card_limit_check =
  cc_allowed :: bool
  cc_dailyUsed :: int
  cc_dailyLimit :: int
  cc_monthlyUsed :: int
  cc_monthlyLimit :: int
  cc_perTxnLimit :: int
  cc_reason :: "string option"

definition PER_TXN_BANK_MAX_BASE :: int where
  "PER_TXN_BANK_MAX_BASE = 100000000"

definition bankMaxForTier :: "kyc_tier \<Rightarrow> card_limits" where
  "bankMaxForTier tier =
     \<lparr>cl_perTxn = (PER_TXN_BANK_MAX_BASE * tierQuarters tier) div 4,
      cl_daily = dailyLimitForTier tier, cl_monthly = monthlyLimitForTier tier\<rparr>"

definition defaultLimitsForTier :: "kyc_tier \<Rightarrow> card_limits" where
  "defaultLimitsForTier tier =
     (let m = bankMaxForTier tier in
      \<lparr>cl_perTxn = min 1000000 (cl_perTxn m), cl_daily = min 2500000 (cl_daily m),
       cl_monthly = min 25000000 (cl_monthly m)\<rparr>)"

text \<open>The name of the offending field, or \<open>None\<close> for \<open>{ ok: true }\<close>.\<close>

definition validateLimitsAgainstBankMax :: "card_limits \<Rightarrow> kyc_tier \<Rightarrow> string option" where
  "validateLimitsAgainstBankMax l tier =
     (let m = bankMaxForTier tier in
      if cl_perTxn m < cl_perTxn l then Some ''perTxnLimitMinor''
      else if cl_daily m < cl_daily l then Some ''dailyLimitMinor''
      else if cl_monthly m < cl_monthly l then Some ''monthlyLimitMinor''
      else if cl_monthly l < cl_daily l then Some ''dailyLimitMinor''
      else if cl_daily l < cl_perTxn l then Some ''perTxnLimitMinor''
      else None)"

definition cardRows :: "db \<Rightarrow> int \<Rightarrow> string \<Rightarrow> transfer list" where
  "cardRows d since c =
     filter (\<lambda>t. t_cardId t = Some c \<and> t_category t = Some CCard \<and> t_status t = Posted
                \<and> since \<le> t_postedAt t) (db_transfers d)"

definition checkCardLimits :: "int \<Rightarrow> db \<Rightarrow> string \<Rightarrow> int \<Rightarrow> card_limits \<Rightarrow> int \<Rightarrow> card_limit_check" where
  "checkCardLimits tz d cardId amount l now =
     (let base = \<lparr>cc_allowed = False, cc_dailyUsed = 0, cc_dailyLimit = cl_daily l, cc_monthlyUsed = 0,
            cc_monthlyLimit = cl_monthly l, cc_perTxnLimit = cl_perTxn l, cc_reason = None\<rparr> in
      if cl_perTxn l < amount
      then base\<lparr>cc_reason := Some ''Per-transaction card limit exceeded''\<rparr>
      else
        (let (dailyUsed, monthlyUsed) =
               sumUsed (startOfDayMs tz now) (cardRows d (startOfMonthMs tz now) cardId) (0, 0);
             used = base\<lparr>cc_dailyUsed := dailyUsed, cc_monthlyUsed := monthlyUsed\<rparr>
         in if cl_daily l < dailyUsed + amount
            then used\<lparr>cc_reason := Some ''Daily card limit exceeded''\<rparr>
            else if cl_monthly l < monthlyUsed + amount
            then used\<lparr>cc_reason := Some ''Monthly card limit exceeded''\<rparr>
            else used\<lparr>cc_allowed := True\<rparr>))"

definition previewCardLimits :: "int \<Rightarrow> db \<Rightarrow> string \<Rightarrow> card_limits \<Rightarrow> int \<Rightarrow> card_limit_check" where
  "previewCardLimits tz d cardId l now = checkCardLimits tz d cardId 0 l now"

section \<open>What is summed\<close>

lemma sumUsed_eq:
  "sumUsed ds ts (a, b) =
     (a + (\<Sum>t \<leftarrow> filter (\<lambda>t. ds \<le> t_postedAt t) ts. t_amount t), b + (\<Sum>t \<leftarrow> ts. t_amount t))"
  by (induction ts arbitrary: a b) auto

text \<open>What accounts sent, posted since a time; for an account of the table it is one sum.\<close>

definition sentSince :: "db \<Rightarrow> string set \<Rightarrow> int \<Rightarrow> int" where
  "sentSince d as since =
     (\<Sum>t \<leftarrow> filter (\<lambda>t. (\<exists>a \<in> as. t_fromAccountId t = Some a) \<and> t_status t = Posted
                      \<and> since \<le> t_postedAt t) (db_transfers d). t_amount t)"

lemma sum_filter_disjoint:
  fixes f :: "'a \<Rightarrow> int"
  assumes "\<And>x. \<not> (P x \<and> Q x)"
  shows "(\<Sum>x \<leftarrow> filter (\<lambda>x. P x \<or> Q x) xs. f x) = (\<Sum>x \<leftarrow> filter P xs. f x) + (\<Sum>x \<leftarrow> filter Q xs. f x)"
  using assms by (induction xs) auto

lemma sentSince_insert:
  assumes "a \<notin> as"
  shows "sentSince d (insert a as) since = (\<Sum>t \<leftarrow> outboundRows d since a. t_amount t) + sentSince d as since"
proof -
  have "filter (\<lambda>t. (\<exists>x \<in> insert a as. t_fromAccountId t = Some x) \<and> t_status t = Posted \<and> since \<le> t_postedAt t)
      (db_transfers d)
    = filter (\<lambda>t. (t_fromAccountId t = Some a \<and> t_status t = Posted \<and> since \<le> t_postedAt t) \<or>
        ((\<exists>x \<in> as. t_fromAccountId t = Some x) \<and> t_status t = Posted \<and> since \<le> t_postedAt t)) (db_transfers d)"
    by (rule filter_cong) auto
  then show ?thesis
    unfolding sentSince_def outboundRows_def using assms by (subst sum_filter_disjoint [symmetric]) auto
qed

lemma outboundRows_later:
  "since \<le> later \<Longrightarrow> filter (\<lambda>t. later \<le> t_postedAt t) (outboundRows d since a) = outboundRows d later a"
  by (auto simp: outboundRows_def intro!: filter_cong)

lemma sumAccounts_eq:
  assumes "distinct as" and "ms \<le> ds"
  shows "sumAccounts d ds ms as (x, y) = (x + sentSince d (set as) ds, y + sentSince d (set as) ms)"
  using assms(1)
proof (induction as arbitrary: x y)
  case Nil
  then show ?case by (simp add: sentSince_def)
next
  case (Cons a as)
  then show ?case
    by (simp add: sumUsed_eq sentSince_insert outboundRows_later [OF assms(2)])
qed

text \<open>
  An allowed transfer keeps what the accounts sent, the transfer included, within both caps of the tier.
\<close>

lemma checkAggregateLimits_allowed:
  assumes "distinct as"
  shows "lc_allowed (checkAggregateLimits tz d as n tier now) \<longleftrightarrow>
     tier \<noteq> TierNone
     \<and> sentSince d (set as) (startOfDayMs tz now) + n \<le> dailyLimitForTier tier
     \<and> sentSince d (set as) (startOfMonthMs tz now) + n \<le> monthlyLimitForTier tier"
  by (auto simp: checkAggregateLimits_def Let_def sumAccounts_eq [OF assms startOfMonth_le_startOfDay])

definition spentSince :: "db \<Rightarrow> string \<Rightarrow> int \<Rightarrow> int" where
  "spentSince d c since = (\<Sum>t \<leftarrow> cardRows d since c. t_amount t)"

lemma cardRows_later:
  "since \<le> later \<Longrightarrow> filter (\<lambda>t. later \<le> t_postedAt t) (cardRows d since c) = cardRows d later c"
  by (auto simp: cardRows_def intro!: filter_cong)

lemma checkCardLimits_allowed:
  "cc_allowed (checkCardLimits tz d c n l now) \<longleftrightarrow>
     n \<le> cl_perTxn l
     \<and> spentSince d c (startOfDayMs tz now) + n \<le> cl_daily l
     \<and> spentSince d c (startOfMonthMs tz now) + n \<le> cl_monthly l"
  by (auto simp: checkCardLimits_def Let_def sumUsed_eq cardRows_later [OF startOfMonth_le_startOfDay]
      spentSince_def)

text \<open>The limits a card is issued with pass the validation that a change of limits has to pass.\<close>

lemma defaultLimits_valid: "validateLimitsAgainstBankMax (defaultLimitsForTier tier) tier = None"
  by (cases tier) (simp_all add: validateLimitsAgainstBankMax_def defaultLimitsForTier_def bankMaxForTier_def
      Let_def dailyLimitForTier_def monthlyLimitForTier_def PER_TXN_BANK_MAX_BASE_def
      DEFAULT_DAILY_LIMIT_MINOR_def DEFAULT_MONTHLY_LIMIT_MINOR_def)

end
