(* ===== verification/Ledger.thy ===== *)
theory Ledger
  imports Tables Container
begin

text \<open>
  Posting money: the two account updates and two ledger entries every payment use case writes inside its
  SQL transaction, and the invariants of the books (unique keys, sound accounts, entries that refer to
  rows that exist, two equal legs per posted transfer, balances that follow the ledger).
\<close>

section \<open>Writing the legs\<close>

definition entryOf :: "string \<Rightarrow> account \<Rightarrow> string \<Rightarrow> entry_kind \<Rightarrow> int \<Rightarrow> int \<Rightarrow> ledger_entry" where
  "entryOf i a tid k n now =
     \<lparr>l_id = i, l_accountId = acc_id a, l_transferId = tid, l_kind = k, l_amount = n,
      l_runningBalance = acc_balance a, l_postedAt = now\<rparr>"

definition insertEntry :: "account \<Rightarrow> string \<Rightarrow> entry_kind \<Rightarrow> int \<Rightarrow> int \<Rightarrow> unit op" where
  "insertEntry a tid k n now = bnd uuid (\<lambda>i. insertLedger (entryOf i a tid k n now))"

definition postLegs :: "string \<Rightarrow> int \<Rightarrow> int \<Rightarrow> account \<Rightarrow> account \<Rightarrow> unit op" where
  "postLegs tid n now debited credited =
     thn (updateAccount debited)
    (thn (updateAccount credited)
    (thn (insertEntry debited tid Debit n now)
         (insertEntry credited tid Credit n now)))"

text \<open>The database after the legs.\<close>

definition legsDb :: "ledger_entry \<Rightarrow> ledger_entry \<Rightarrow> account \<Rightarrow> account \<Rightarrow> db \<Rightarrow> db" where
  "legsDb e1 e2 debited credited d =
     ledgerInsertRow e2 (ledgerInsertRow e1 (accountUpdateRow credited (accountUpdateRow debited d)))"

lemma wp_updateAccount [wp_rules]:
  "wp (updateAccount a) Q E w = Q () (w\<lparr>w_db := accountUpdateRow a (w_db w)\<rparr>)"
  by (simp add: updateAccount_def wp_rules)

lemma table_simps [simp]:
  "db_accounts (ledgerInsertRow l d) = db_accounts d"
  "db_transfers (ledgerInsertRow l d) = db_transfers d"
  "db_ledger (ledgerInsertRow l d) = db_ledger d @ [l]"
  "db_transfers (accountUpdateRow a d) = db_transfers d"
  "db_ledger (accountUpdateRow a d) = db_ledger d"
  "db_accounts (transferInsertRow t d) = db_accounts d"
  "db_transfers (transferInsertRow t d) = db_transfers d @ [t]"
  "db_ledger (transferInsertRow t d) = db_ledger d"
  "db_accounts (transferUpdateRow t d) = db_accounts d"
  "db_ledger (transferUpdateRow t d) = db_ledger d"
  "findAccountById (ledgerInsertRow l d) = findAccountById d"
  "findAccountById (transferInsertRow t d) = findAccountById d"
  "findAccountById (transferUpdateRow t d) = findAccountById d"
  "findTransferById (ledgerInsertRow l d) = findTransferById d"
  "findTransferById (accountUpdateRow a d) = findTransferById d"
  by (simp_all add: ledgerInsertRow_def accountUpdateRow_def transferInsertRow_def transferUpdateRow_def
      findAccountById_def findTransferById_def fun_eq_iff)

lemma legsDb_simps [simp]:
  "db_transfers (legsDb e1 e2 a b d) = db_transfers d"
  "db_ledger (legsDb e1 e2 a b d) = db_ledger d @ [e1, e2]"
  "findTransferById (legsDb e1 e2 a b d) = findTransferById d"
  by (simp_all add: legsDb_def)

lemma accountExists_update [simp]: "accountExists (accountUpdateRow a d) i = accountExists d i"
  by (simp add: accountExists_def accounts.upd_exists)

lemma accountExists_ledger [simp]: "accountExists (ledgerInsertRow l d) i = accountExists d i"
  by (simp add: accountExists_def)

text \<open>
  Posting succeeds with fresh identifiers and writes exactly the legs; what it throws comes from the
  database.
\<close>

lemma wp_postLegs:
  assumes "\<And>i1 i2. i1 \<notin> l_id ` set (db_ledger (w_db w)) \<Longrightarrow> i2 \<notin> l_id ` set (db_ledger (w_db w)) \<Longrightarrow> i1 \<noteq> i2 \<Longrightarrow>
      accountExists (w_db w) (acc_id a) \<Longrightarrow> accountExists (w_db w) (acc_id b) \<Longrightarrow>
      findTransferById (w_db w) tid \<noteq> None \<Longrightarrow>
      Q () (w\<lparr>w_uuidN := Suc (Suc (w_uuidN w)),
              w_db := legsDb (entryOf i1 a tid Debit n now) (entryOf i2 b tid Credit n now) a b (w_db w)\<rparr>)"
    and "\<And>m w'. w_events w' = w_events w \<Longrightarrow> E (SqliteError m) w'"
  shows "wp (postLegs tid n now a b) Q E w"
  using assms(1) [of "w_uuid w (w_uuidN w)" "w_uuid w (Suc (w_uuidN w))"]
  by (auto simp: postLegs_def insertEntry_def insertLedger_def wp_rules entryOf_def legsDb_def assms(2))

section \<open>Invariants of the books\<close>

definition accountsOk :: "db \<Rightarrow> bool" where
  "accountsOk d \<longleftrightarrow> distinct (map acc_id (db_accounts d)) \<and> distinct (map acc_number (db_accounts d))
     \<and> (\<forall>a \<in> set (db_accounts d). accountOk a)"

definition keysUnique :: "transfer list \<Rightarrow> bool" where
  "keysUnique ts \<longleftrightarrow> (\<forall>t \<in> set ts. \<forall>t' \<in> set ts.
     t_idempotencyKey t \<noteq> None \<and> t_idempotencyKey t = t_idempotencyKey t' \<longrightarrow> t = t')"

definition entriesFor :: "db \<Rightarrow> string \<Rightarrow> ledger_entry list" where
  "entriesFor d tid = filter (\<lambda>l. l_transferId l = tid) (db_ledger d)"

text \<open>
  The entries a transfer must have: none while it is pending or failed, a single credit for a faucet
  deposit, a debit and a credit of its amount on its two accounts otherwise.
\<close>

definition legsOf :: "transfer \<Rightarrow> (entry_kind \<times> int \<times> string option) list" where
  "legsOf t =
     (if t_status t \<noteq> Posted then []
      else if t_kind t = KFaucet then [(Credit, t_amount t, t_toAccountId t)]
      else [(Debit, t_amount t, t_fromAccountId t), (Credit, t_amount t, t_toAccountId t)])"

definition entryLeg :: "ledger_entry \<Rightarrow> entry_kind \<times> int \<times> string option" where
  "entryLeg l = (l_kind l, l_amount l, Some (l_accountId l))"

definition doubleEntry :: "db \<Rightarrow> bool" where
  "doubleEntry d \<longleftrightarrow> (\<forall>t \<in> set (db_transfers d). map entryLeg (entriesFor d (t_id t)) = legsOf t)"

definition booksOk :: "db \<Rightarrow> bool" where
  "booksOk d \<longleftrightarrow> accountsOk d \<and> distinct (map t_id (db_transfers d)) \<and> keysUnique (db_transfers d)
     \<and> (\<forall>l \<in> set (db_ledger d). findTransferById d (l_transferId l) \<noteq> None) \<and> doubleEntry d
     \<and> (\<forall>t \<in> set (db_transfers d). t_status t = Pending \<longrightarrow> t_kind t \<noteq> KFaucet)"

definition signed :: "ledger_entry \<Rightarrow> int" where
  "signed l = (case l_kind l of Debit \<Rightarrow> - l_amount l | Credit \<Rightarrow> l_amount l)"

definition ledgerNet :: "db \<Rightarrow> string \<Rightarrow> int" where
  "ledgerNet d i = (\<Sum>l \<leftarrow> filter (\<lambda>l. l_accountId l = i) (db_ledger d). signed l)"

definition balanceOf :: "db \<Rightarrow> string \<Rightarrow> int" where
  "balanceOf d i = (case findAccountById d i of None \<Rightarrow> 0 | Some a \<Rightarrow> acc_balance a)"

text \<open>
  How far an account's balance is from what its ledger entries add up to. Payments leave it as it is.
\<close>

definition drift :: "db \<Rightarrow> string \<Rightarrow> int" where
  "drift d i = balanceOf d i - ledgerNet d i"

subsection \<open>Accounts\<close>

lemma accountsOk_unique: "accountsOk d \<Longrightarrow> accountIdsUnique d"
  by (simp add: accountsOk_def accountIdsUnique_def)

lemma accountOk_set [simp]: "accountOk (accountSet a r) = accountOk a"
  by (simp add: accountOk_def accountSet_def)

lemma accountsOk_update:
  assumes "accountsOk d" and "accountOk a"
  shows "accountsOk (accountUpdateRow a d)"
  using assms by (auto simp: accountsOk_def accountUpdateRow_def map_updateWhere accountSet_def [of a] set_updateWhere
      accountOk_def)

lemma accountsOk_insert:
  assumes "accountsOk d" and "accountOk a" and "findAccountById d (acc_id a) = None"
    and "findAccountByNumber d (acc_number a) = None"
  shows "accountsOk (accountInsertRow a d)"
  using assms by (auto simp: accountsOk_def accountInsertRow_def findAccountById_def findAccountByNumber_def
      find_None_iff)

lemma accountsOk_find: "accountsOk d \<Longrightarrow> findAccountById d i = Some a \<Longrightarrow> accountOk a"
  by (auto simp: accountsOk_def findAccountById_def dest: find_Some_iff_mem)

lemma findByNumber_find:
  assumes "accountsOk d" and "findAccountByNumber d n = Some a"
  shows "findAccountById d (acc_id a) = Some a"
  using assms find_key_distinct [of acc_id "db_accounts d" a]
  by (auto simp: accountsOk_def findAccountByNumber_def findAccountById_def dest: find_Some_iff_mem)

lemma accountsOk_other_tables:
  "db_accounts d' = db_accounts d \<Longrightarrow> accountsOk d' = accountsOk d"
  by (simp add: accountsOk_def)

subsection \<open>The legs\<close>

lemma totalBalance_cong: "db_accounts d' = db_accounts d \<Longrightarrow> totalBalance d' = totalBalance d"
  by (simp add: totalBalance_def)

lemma totalBalance_ledger [simp]:
  "totalBalance (ledgerInsertRow l d) = totalBalance d"
  "totalBalance (transferInsertRow t d) = totalBalance d"
  "totalBalance (transferUpdateRow t d) = totalBalance d"
  by (simp_all add: totalBalance_def)

lemma accountIdsUnique_tables [simp]:
  "accountIdsUnique (ledgerInsertRow l d) = accountIdsUnique d"
  "accountIdsUnique (transferInsertRow t d) = accountIdsUnique d"
  by (simp_all add: accountIdsUnique_def)

lemma accountsOk_tables [simp]:
  "accountsOk (ledgerInsertRow l d) = accountsOk d"
  "accountsOk (transferInsertRow t d) = accountsOk d"
  "accountsOk (transferUpdateRow t d) = accountsOk d"
  by (simp_all add: accountsOk_def)

lemma accountsOk_legs:
  "accountsOk d \<Longrightarrow> accountOk a \<Longrightarrow> accountOk b \<Longrightarrow> accountsOk (legsDb e1 e2 a b d)"
  by (simp add: legsDb_def accountsOk_update)

lemma debit_facts:
  assumes "debit a n c ts = Inr a'"
  shows "acc_id a' = acc_id a" "acc_balance a' = acc_balance a - n" "acc_hold a' = acc_hold a" "0 < n"
    "acc_status a' = Active"
  using assms by (auto simp: debit_Inr_iff)

lemma credit_facts:
  assumes "credit a n c ts = Inr a'"
  shows "acc_id a' = acc_id a" "acc_balance a' = acc_balance a + n" "acc_hold a' = acc_hold a" "0 < n"
    "acc_status a' = Active"
  using assms by (auto simp: credit_Inr_iff)

text \<open>Between two accounts a posting conserves the total of the balances.\<close>

lemma totalBalance_legs:
  assumes "accountsOk d" and "findAccountById d (acc_id a) = Some ra" and "findAccountById d (acc_id b) = Some rb"
    and "acc_id a \<noteq> acc_id b"
  shows "totalBalance (legsDb e1 e2 a b d) =
    totalBalance d - acc_balance ra + acc_balance a - acc_balance rb + acc_balance b"
  using assms accounts.total_upd2 [OF accountsOk_unique [OF assms(1)] assms(2,3)]
  by (simp add: legsDb_def accountSet_def)

text \<open>From an account to itself the second update wins: the total grows by the amount.\<close>

lemma totalBalance_legs_self:
  assumes "accountsOk d" and "findAccountById d (acc_id a) = Some ra" and "acc_id a = acc_id b"
  shows "totalBalance (legsDb e1 e2 a b d) = totalBalance d - acc_balance ra + acc_balance b"
  using assms accounts.total_upd_same [OF accountsOk_unique [OF assms(1)] assms(2,3)]
  by (simp add: legsDb_def accountSet_def)

lemma find_legs:
  "findAccountById (legsDb e1 e2 a b d) i =
     (let r = findAccountById d i;
          r = (if i = acc_id a then map_option (accountSet a) r else r)
      in if i = acc_id b then map_option (accountSet b) r else r)"
  by (simp add: legsDb_def accounts.find_upd Let_def)

lemma balanceOf_legs:
  assumes "findAccountById d (acc_id a) = Some ra" and "findAccountById d (acc_id b) = Some rb"
    and "acc_id a \<noteq> acc_id b"
  shows "balanceOf (legsDb e1 e2 a b d) i =
    (if i = acc_id a then acc_balance a else if i = acc_id b then acc_balance b else balanceOf d i)"
  using assms by (auto simp: balanceOf_def find_legs Let_def accountSet_def)

lemma ledgerNet_legs:
  "ledgerNet (legsDb e1 e2 a b d) i =
     ledgerNet d i + (if l_accountId e1 = i then signed e1 else 0) + (if l_accountId e2 = i then signed e2 else 0)"
  by (simp add: ledgerNet_def)

lemma drift_legs:
  assumes "findAccountById d (acc_id a) = Some ra" and "findAccountById d (acc_id b) = Some rb"
    and "acc_id a \<noteq> acc_id b" and "acc_balance a = acc_balance ra - n" and "acc_balance b = acc_balance rb + n"
  shows "drift (legsDb (entryOf i1 a tid Debit n now) (entryOf i2 b tid Credit n now) a b d) i = drift d i"
  using assms by (auto simp: drift_def balanceOf_legs ledgerNet_legs entryOf_def signed_def)
    (auto simp: balanceOf_def)

lemma drift_cong [simp]:
  "drift (transferInsertRow t d) i = drift d i"
  "drift (transferUpdateRow t d) i = drift d i"
  by (simp_all add: drift_def balanceOf_def ledgerNet_def)

subsection \<open>Postings keep the books\<close>

lemma find_transferInsert:
  "findTransferById d (t_id t) = None \<Longrightarrow>
     findTransferById (transferInsertRow t d) i = (if i = t_id t then Some t else findTransferById d i)"
  by (rule transfers.find_ins)

lemma no_entries_yet:
  assumes "booksOk d" and "findTransferById d tid = None"
  shows "entriesFor d tid = []"
  using assms by (auto simp: booksOk_def entriesFor_def filter_empty_conv)

lemma transfer_mem_id:
  assumes "findTransferById d i = None" and "t \<in> set (db_transfers d)"
  shows "t_id t \<noteq> i"
  using assms by (auto simp: findTransferById_def find_None_iff)

lemma transfer_id_notin: "findTransferById d i = None \<Longrightarrow> i \<notin> t_id ` set (db_transfers d)"
  by (auto simp: findTransferById_def find_None_iff)

text \<open>The conditions under which the statement that inserts a transfer succeeds.\<close>

definition newTransfer :: "db \<Rightarrow> transfer \<Rightarrow> bool" where
  "newTransfer d t \<longleftrightarrow> findTransferById d (t_id t) = None
     \<and> (case t_idempotencyKey t of None \<Rightarrow> True | Some k \<Rightarrow> findTransferByKey d k = None)"

lemma keysUnique_insert:
  assumes "keysUnique (db_transfers d)" and "newTransfer d t"
  shows "keysUnique (db_transfers d @ [t])"
proof -
  have "t_idempotencyKey x \<noteq> t_idempotencyKey t" if "x \<in> set (db_transfers d)" "t_idempotencyKey t \<noteq> None" for x
    using assms(2) that by (auto simp: newTransfer_def findTransferByKey_def find_None_iff split: option.splits)
  with assms(1) show ?thesis unfolding keysUnique_def by (metis Un_iff empty_iff insert_iff list.set set_append)
qed

lemma booksOk_insert:
  assumes "booksOk d" and "newTransfer d t" and "legsOf t = []" and "t_kind t \<noteq> KFaucet"
  shows "booksOk (transferInsertRow t d)"
proof -
  have f: "findTransferById d (t_id t) = None" using assms(2) by (simp add: newTransfer_def)
  have "map entryLeg (entriesFor (transferInsertRow t d) (t_id x)) = legsOf x"
    if "x \<in> set (db_transfers d @ [t])" for x
    using that assms no_entries_yet [OF assms(1) f]
    by (auto simp: entriesFor_def booksOk_def doubleEntry_def)
  moreover have "distinct (map t_id (db_transfers d @ [t]))"
    using assms(1) transfer_id_notin [OF f] by (simp add: booksOk_def)
  ultimately show ?thesis using assms(1,4) keysUnique_insert [OF _ assms(2)]
    by (auto simp: booksOk_def doubleEntry_def find_transferInsert [OF f])
qed

lemma booksOk_post:
  assumes "booksOk d" and "newTransfer d t" and "accountOk a" and "accountOk b"
    and "legsOf t = [entryLeg e1, entryLeg e2]" and "l_transferId e1 = t_id t" and "l_transferId e2 = t_id t"
  shows "booksOk (legsDb e1 e2 a b (transferInsertRow t d))"
proof -
  have f: "findTransferById d (t_id t) = None" using assms(2) by (simp add: newTransfer_def)
  have new: "map entryLeg (entriesFor (legsDb e1 e2 a b (transferInsertRow t d)) (t_id t)) = legsOf t"
    using assms(5-7) no_entries_yet [OF assms(1) f] by (simp add: entriesFor_def)
  have old: "map entryLeg (entriesFor (legsDb e1 e2 a b (transferInsertRow t d)) (t_id x)) = legsOf x"
    if "x \<in> set (db_transfers d)" for x
    using that assms(1,6,7) transfer_mem_id [OF f that] by (simp add: entriesFor_def booksOk_def doubleEntry_def)
  have "distinct (map t_id (db_transfers d @ [t]))"
    using assms(1) transfer_id_notin [OF f] by (simp add: booksOk_def)
  moreover have "accountsOk (legsDb e1 e2 a b (transferInsertRow t d))"
    using assms(1,3,4) by (simp add: booksOk_def accountsOk_legs)
  moreover have "t_status t = Posted" using assms(5) by (auto simp: legsOf_def split: if_splits)
  ultimately show ?thesis
    using assms(1,6,7) keysUnique_insert [OF _ assms(2)] new old
    by (simp add: booksOk_def doubleEntry_def find_transferInsert [OF f])
qed

section \<open>Posting a transfer\<close>

text \<open>
  The common end of the use cases that move money: insert the transfer, update both accounts, write both
  entries. \<open>postedTransfer d d' t from to\<close> is its specification: \<open>d'\<close> is \<open>d\<close> with \<open>t\<close> posted between
  the accounts \<open>from\<close> and \<open>to\<close> under the rules of \<open>debit\<close> and \<open>credit\<close>.
\<close>

definition postTransfer :: "transfer \<Rightarrow> account \<Rightarrow> account \<Rightarrow> unit op" where
  "postTransfer t debited credited =
     thn (insertTransfer t) (postLegs (t_id t) (t_amount t) (t_postedAt t) debited credited)"

definition postedTransfer :: "db \<Rightarrow> db \<Rightarrow> transfer \<Rightarrow> account \<Rightarrow> account \<Rightarrow> bool" where
  "postedTransfer d d' t from to \<longleftrightarrow>
     findAccountById d (acc_id from) = Some from \<and> findAccountById d (acc_id to) = Some to
     \<and> newTransfer d t \<and> t_status t = Posted \<and> t_kind t \<noteq> KFaucet
     \<and> t_fromAccountId t = Some (acc_id from) \<and> t_toAccountId t = Some (acc_id to)
     \<and> (\<exists>i1 i2 a b.
          i1 \<notin> l_id ` set (db_ledger d) \<and> i2 \<notin> l_id ` set (db_ledger d) \<and> i1 \<noteq> i2
        \<and> debit from (t_amount t) (t_currency t) (t_postedAt t) = Inr a
        \<and> credit to (t_amount t) (t_currency t) (t_postedAt t) = Inr b
        \<and> d' = legsDb (entryOf i1 a (t_id t) Debit (t_amount t) (t_postedAt t))
                (entryOf i2 b (t_id t) Credit (t_amount t) (t_postedAt t)) a b (transferInsertRow t d))"

lemma wp_insertTransfer:
  assumes "newTransfer (w_db w) t \<Longrightarrow> Q () (w\<lparr>w_db := transferInsertRow t (w_db w)\<rparr>)"
    and "\<And>m. E (SqliteError m) w"
  shows "wp (insertTransfer t) Q E w"
  using assms by (simp add: insertTransfer_def wp_rules newTransfer_def)

lemma wp_postTransfer:
  assumes "findAccountById (w_db w) (acc_id from) = Some from"
    and "findAccountById (w_db w) (acc_id to) = Some to"
    and "debit from (t_amount t) (t_currency t) (t_postedAt t) = Inr a"
    and "credit to (t_amount t) (t_currency t) (t_postedAt t) = Inr b"
    and "t_status t = Posted" and "t_kind t \<noteq> KFaucet"
    and "t_fromAccountId t = Some (acc_id from)" and "t_toAccountId t = Some (acc_id to)"
    and "\<And>w'. postedTransfer (w_db w) (w_db w') t from to \<Longrightarrow> w_events w' = w_events w \<Longrightarrow> Q () w'"
    and "\<And>m w'. w_events w' = w_events w \<Longrightarrow> E (SqliteError m) w'"
  shows "wp (postTransfer t a b) Q E w"
  unfolding postTransfer_def wp_bnd
proof (rule wp_insertTransfer)
  assume new: "newTransfer (w_db w) t"
  show "wp (postLegs (t_id t) (t_amount t) (t_postedAt t) a b) Q E (w\<lparr>w_db := transferInsertRow t (w_db w)\<rparr>)"
  proof (rule wp_postLegs, goal_cases)
    case (1 i1 i2)
    show ?case
      by (rule assms(9)) (use 1 assms(1-8) new in \<open>auto simp: postedTransfer_def\<close>)
  qed (simp add: assms(10))
qed (simp add: assms(10))

lemma postedTransfer_books:
  assumes "postedTransfer d d' t from to" and "booksOk d"
  shows "booksOk d'"
proof -
  obtain i1 i2 a b where p: "newTransfer d t" "t_status t = Posted" "t_kind t \<noteq> KFaucet"
    "t_fromAccountId t = Some (acc_id from)" "t_toAccountId t = Some (acc_id to)"
    "findAccountById d (acc_id from) = Some from" "findAccountById d (acc_id to) = Some to"
    "debit from (t_amount t) (t_currency t) (t_postedAt t) = Inr a"
    "credit to (t_amount t) (t_currency t) (t_postedAt t) = Inr b"
    and d': "d' = legsDb (entryOf i1 a (t_id t) Debit (t_amount t) (t_postedAt t))
                (entryOf i2 b (t_id t) Credit (t_amount t) (t_postedAt t)) a b (transferInsertRow t d)"
    using assms(1) unfolding postedTransfer_def by blast
  have acc: "accountsOk d" using assms(2) by (simp add: booksOk_def)
  have "accountOk a" "accountOk b"
    using accountOk_ops(1) [OF accountsOk_find [OF acc p(6)] p(8)]
      accountOk_ops(2) [OF accountsOk_find [OF acc p(7)] p(9)] by simp_all
  then show ?thesis
    unfolding d' using assms(2) p(1-5) debit_facts(1) [OF p(8)] credit_facts(1) [OF p(9)]
    by (intro booksOk_post) (simp_all add: legsOf_def entryLeg_def entryOf_def)
qed

lemma postedTransfer_total:
  assumes "postedTransfer d d' t from to" and "accountsOk d"
  shows "totalBalance d' = totalBalance d + (if acc_id from = acc_id to then t_amount t else 0)"
proof -
  obtain i1 i2 a b where p: "findAccountById d (acc_id from) = Some from" "findAccountById d (acc_id to) = Some to"
    "debit from (t_amount t) (t_currency t) (t_postedAt t) = Inr a"
    "credit to (t_amount t) (t_currency t) (t_postedAt t) = Inr b"
    and d': "d' = legsDb (entryOf i1 a (t_id t) Debit (t_amount t) (t_postedAt t))
                (entryOf i2 b (t_id t) Credit (t_amount t) (t_postedAt t)) a b (transferInsertRow t d)"
    using assms(1) unfolding postedTransfer_def by blast
  note f = debit_facts(1,2) [OF p(3)] credit_facts(1,2) [OF p(4)]
  show ?thesis
  proof (cases "acc_id from = acc_id to")
    case True
    have "totalBalance d' = totalBalance d - acc_balance from + acc_balance b"
      unfolding d' using totalBalance_legs_self [of "transferInsertRow t d" a "from" b] p(1) f(1,3) True assms(2)
      by simp
    moreover have "to = from" using p(1,2) True by (metis option.inject)
    ultimately show ?thesis using f(4) by simp
  next
    case False
    show ?thesis
      unfolding d' by (subst totalBalance_legs [where ra = "from" and rb = to]) (use False assms(2) p f in simp_all)
  qed
qed

lemma postedTransfer_drift:
  assumes "postedTransfer d d' t from to" and "acc_id from \<noteq> acc_id to"
  shows "drift d' i = drift d i"
proof -
  obtain i1 i2 a b where p: "findAccountById d (acc_id from) = Some from" "findAccountById d (acc_id to) = Some to"
    "debit from (t_amount t) (t_currency t) (t_postedAt t) = Inr a"
    "credit to (t_amount t) (t_currency t) (t_postedAt t) = Inr b"
    and d': "d' = legsDb (entryOf i1 a (t_id t) Debit (t_amount t) (t_postedAt t))
                (entryOf i2 b (t_id t) Credit (t_amount t) (t_postedAt t)) a b (transferInsertRow t d)"
    using assms(1) unfolding postedTransfer_def by blast
  note f = debit_facts(1,2) [OF p(3)] credit_facts(1,2) [OF p(4)]
  have "drift d' i = drift (transferInsertRow t d) i"
    unfolding d' using assms(2) p f by (intro drift_legs) simp_all
  then show ?thesis by simp
qed

text \<open>What happens to the two accounts, and to no other.\<close>

lemma postedTransfer_balances:
  assumes "postedTransfer d d' t from to" and "acc_id from \<noteq> acc_id to"
  shows "balanceOf d' i = balanceOf d i
    - (if i = acc_id from then t_amount t else 0) + (if i = acc_id to then t_amount t else 0)"
proof -
  obtain i1 i2 a b where p: "findAccountById d (acc_id from) = Some from" "findAccountById d (acc_id to) = Some to"
    "debit from (t_amount t) (t_currency t) (t_postedAt t) = Inr a"
    "credit to (t_amount t) (t_currency t) (t_postedAt t) = Inr b"
    and d': "d' = legsDb (entryOf i1 a (t_id t) Debit (t_amount t) (t_postedAt t))
                (entryOf i2 b (t_id t) Credit (t_amount t) (t_postedAt t)) a b (transferInsertRow t d)"
    using assms(1) unfolding postedTransfer_def by blast
  note f = debit_facts(1,2) [OF p(3)] credit_facts(1,2) [OF p(4)]
  show ?thesis
    unfolding d'
    by (subst balanceOf_legs [where ra = "from" and rb = to])
      (use assms(2) p f in \<open>auto simp: balanceOf_def\<close>)
qed

section \<open>A deposit from outside\<close>

definition depositedTransfer :: "db \<Rightarrow> db \<Rightarrow> transfer \<Rightarrow> account \<Rightarrow> bool" where
  "depositedTransfer d d' t to \<longleftrightarrow>
     findAccountById d (acc_id to) = Some to \<and> newTransfer d t \<and> t_status t = Posted \<and> t_kind t = KFaucet
     \<and> t_toAccountId t = Some (acc_id to)
     \<and> (\<exists>i b. credit to (t_amount t) (t_currency t) (t_postedAt t) = Inr b
          \<and> d' = ledgerInsertRow (entryOf i b (t_id t) Credit (t_amount t) (t_postedAt t))
                  (accountUpdateRow b (transferInsertRow t d)))"

lemma depositedTransfer_books:
  assumes "depositedTransfer d d' t to" and "booksOk d"
  shows "booksOk d'" "totalBalance d' = totalBalance d + t_amount t" "drift d' i = drift d i"
proof -
  obtain j b where p: "findAccountById d (acc_id to) = Some to" "newTransfer d t" "t_status t = Posted"
    "t_kind t = KFaucet" "t_toAccountId t = Some (acc_id to)"
    "credit to (t_amount t) (t_currency t) (t_postedAt t) = Inr b"
    and d': "d' = ledgerInsertRow (entryOf j b (t_id t) Credit (t_amount t) (t_postedAt t))
                  (accountUpdateRow b (transferInsertRow t d))"
    using assms(1) unfolding depositedTransfer_def by blast
  have acc: "accountsOk d" using assms(2) by (simp add: booksOk_def)
  have f: "findTransferById d (t_id t) = None" using p(2) by (simp add: newTransfer_def)
  note b = credit_facts(1,2) [OF p(6)] accountOk_ops(2) [OF accountsOk_find [OF acc p(1)] p(6)]
  have "map entryLeg (entriesFor d' (t_id t)) = legsOf t"
    using p(3-5) b no_entries_yet [OF assms(2) f]
    by (simp add: entriesFor_def d' entryOf_def legsOf_def entryLeg_def)
  moreover have "map entryLeg (entriesFor d' (t_id x)) = legsOf x" if "x \<in> set (db_transfers d)" for x
    using that assms(2) transfer_mem_id [OF f that]
    by (simp add: entriesFor_def booksOk_def doubleEntry_def d' entryOf_def)
  moreover have "distinct (map t_id (db_transfers d @ [t]))"
    using assms(2) transfer_id_notin [OF f] by (simp add: booksOk_def)
  moreover have "\<forall>l \<in> set (db_ledger d'). findTransferById d' (l_transferId l) \<noteq> None"
    using assms(2) by (auto simp: d' entryOf_def booksOk_def find_transferInsert [OF f])
  moreover have "accountsOk d'" using acc b by (simp add: d' accountsOk_update)
  ultimately show "booksOk d'"
    using keysUnique_insert [OF _ p(2)] assms(2) p(3) by (simp add: booksOk_def doubleEntry_def d')
  show "totalBalance d' = totalBalance d + t_amount t"
    using accounts.total_upd [of "transferInsertRow t d" b to] accountsOk_unique [OF acc] p(1) b
    by (simp add: d' accountSet_def)
  show "drift d' i = drift d i"
    using p(1) b by (auto simp: drift_def d' balanceOf_def ledgerNet_def accounts.find_upd entryOf_def
        signed_def accountSet_def)
qed

section \<open>Settling a pending transfer\<close>

definition settledTransfer :: "db \<Rightarrow> db \<Rightarrow> transfer \<Rightarrow> int \<Rightarrow> account \<Rightarrow> account \<Rightarrow> bool" where
  "settledTransfer d d' t now from to \<longleftrightarrow>
     findTransferById d (t_id t) = Some t \<and> t_status t = Pending
     \<and> findAccountById d (acc_id from) = Some from \<and> findAccountById d (acc_id to) = Some to
     \<and> t_fromAccountId t = Some (acc_id from) \<and> t_toAccountId t = Some (acc_id to)
     \<and> (\<exists>i1 i2 r a b. releaseHold from (t_amount t) now = Inr r
        \<and> debit r (t_amount t) (t_currency t) now = Inr a \<and> credit to (t_amount t) (t_currency t) now = Inr b
        \<and> d' = legsDb (entryOf i1 a (t_id t) Debit (t_amount t) now) (entryOf i2 b (t_id t) Credit (t_amount t) now)
                a b (settleRow (t_id t) Posted (t_utr t) now None d))"

lemma settleRow_simps [simp]:
  "db_accounts (settleRow i st u ts fr d) = db_accounts d"
  "db_ledger (settleRow i st u ts fr d) = db_ledger d"
  "findAccountById (settleRow i st u ts fr d) = findAccountById d"
  "totalBalance (settleRow i st u ts fr d) = totalBalance d"
  "accountsOk (settleRow i st u ts fr d) = accountsOk d"
  "drift (settleRow i st u ts fr d) j = drift d j"
  by (simp_all add: settleRow_def findAccountById_def fun_eq_iff totalBalance_def accountsOk_def drift_def
      balanceOf_def ledgerNet_def)

lemma find_settleRow:
  "findTransferById (settleRow i st u ts fr d) j = map_option
     (\<lambda>r. if t_id r = i \<and> t_status r = Pending
          then r\<lparr>t_status := st, t_utr := u, t_postedAt := ts, t_failureReason := fr\<rparr> else r) (findTransferById d j)"
  unfolding findTransferById_def settleRow_def by (simp, rule find_updateWhere) simp

text \<open>Changing rows without touching their keys keeps the keys unique.\<close>

lemma keysUnique_updateWhere:
  assumes "keysUnique ts" and "\<And>t. t_idempotencyKey (f t) = t_idempotencyKey t"
  shows "keysUnique (updateWhere P f ts)"
proof -
  have "x = y" if xy: "x \<in> set (updateWhere P f ts)" "y \<in> set (updateWhere P f ts)"
    and k: "t_idempotencyKey x \<noteq> None" "t_idempotencyKey x = t_idempotencyKey y" for x y
  proof -
    obtain x0 y0 where 0: "x0 \<in> set ts" "y0 \<in> set ts" "x = (if P x0 then f x0 else x0)"
      "y = (if P y0 then f y0 else y0)"
      using xy unfolding set_updateWhere by blast
    then have "t_idempotencyKey x0 = t_idempotencyKey x" "t_idempotencyKey y0 = t_idempotencyKey y"
      by (auto simp: assms(2))
    with 0 k assms(1) have "x0 = y0" unfolding keysUnique_def by metis
    with 0 show ?thesis by simp
  qed
  then show ?thesis unfolding keysUnique_def by blast
qed

lemma releaseHold_facts:
  assumes "releaseHold a n ts = Inr r"
  shows "acc_id r = acc_id a" "acc_balance r = acc_balance a" "acc_hold r = acc_hold a - n" "0 < n"
  using assms by (auto simp: releaseHold_Inr_iff)

lemma settledTransfer_elim:
  assumes "settledTransfer d d' t now from to"
  obtains i1 i2 a b where
    "findTransferById d (t_id t) = Some t" "t_status t = Pending"
    "findAccountById d (acc_id from) = Some from" "findAccountById d (acc_id to) = Some to"
    "t_fromAccountId t = Some (acc_id from)" "t_toAccountId t = Some (acc_id to)"
    "acc_id a = acc_id from" "acc_balance a = acc_balance from - t_amount t" "acc_hold a = acc_hold from - t_amount t"
    "acc_id b = acc_id to" "acc_balance b = acc_balance to + t_amount t" "acc_hold b = acc_hold to"
    "0 < t_amount t" "accountOk from \<Longrightarrow> accountOk a" "accountOk to \<Longrightarrow> accountOk b"
    "d' = legsDb (entryOf i1 a (t_id t) Debit (t_amount t) now) (entryOf i2 b (t_id t) Credit (t_amount t) now)
                a b (settleRow (t_id t) Posted (t_utr t) now None d)"
proof -
  obtain i1 i2 r a b where s: "findTransferById d (t_id t) = Some t" "t_status t = Pending"
    "findAccountById d (acc_id from) = Some from" "findAccountById d (acc_id to) = Some to"
    "t_fromAccountId t = Some (acc_id from)" "t_toAccountId t = Some (acc_id to)"
    and p: "releaseHold from (t_amount t) now = Inr r"
    "debit r (t_amount t) (t_currency t) now = Inr a" "credit to (t_amount t) (t_currency t) now = Inr b"
    and d': "d' = legsDb (entryOf i1 a (t_id t) Debit (t_amount t) now) (entryOf i2 b (t_id t) Credit (t_amount t) now)
                a b (settleRow (t_id t) Posted (t_utr t) now None d)"
    using assms unfolding settledTransfer_def by blast
  note f = releaseHold_facts [OF p(1)] debit_facts [OF p(2)] credit_facts [OF p(3)]
  have "accountOk a" if "accountOk from"
    using accountOk_ops(1) [OF accountOk_ops(4) [OF that p(1)] p(2)] .
  moreover have "accountOk b" if "accountOk to" using accountOk_ops(2) [OF that p(3)] .
  ultimately show thesis using that [OF s _ _ _ _ _ _ _ _ _ d'] f by simp
qed

lemma settledTransfer_books:
  assumes "settledTransfer d d' t now from to" and "booksOk d"
  shows "booksOk d'"
  using assms(1)
proof (rule settledTransfer_elim)
  fix i1 i2 a b
  assume s: "findTransferById d (t_id t) = Some t" "t_status t = Pending"
    "findAccountById d (acc_id from) = Some from" "findAccountById d (acc_id to) = Some to"
    and ft: "t_fromAccountId t = Some (acc_id from)" "t_toAccountId t = Some (acc_id to)"
    "acc_id a = acc_id from" "acc_id b = acc_id to"
    and ok: "accountOk from \<Longrightarrow> accountOk a" "accountOk to \<Longrightarrow> accountOk b"
    and d': "d' = legsDb (entryOf i1 a (t_id t) Debit (t_amount t) now) (entryOf i2 b (t_id t) Credit (t_amount t) now)
                a b (settleRow (t_id t) Posted (t_utr t) now None d)"
  have acc: "accountsOk d" using assms(2) by (simp add: booksOk_def)
  have tmem: "t \<in> set (db_transfers d)" using s(1) by (auto simp: findTransferById_def dest: find_Some_iff_mem)
  have dist: "distinct (map t_id (db_transfers d))" using assms(2) by (simp add: booksOk_def)
  have kind: "t_kind t \<noteq> KFaucet" using assms(2) tmem s(2) by (simp add: booksOk_def)
  have none: "entriesFor d (t_id t) = []"
    using assms(2) tmem s(2) by (auto simp: booksOk_def doubleEntry_def legsOf_def)
  have "map entryLeg (entriesFor d' (t_id x)) = legsOf x" if x: "x \<in> set (db_transfers d')" for x
  proof -
    from x obtain y where y: "y \<in> set (db_transfers d)"
      and xy: "x = (if t_id y = t_id t \<and> t_status y = Pending
         then y\<lparr>t_status := Posted, t_utr := t_utr t, t_postedAt := now, t_failureReason := None\<rparr> else y)"
      unfolding d' by (auto simp: settleRow_def set_updateWhere)
    show ?thesis
    proof (cases "t_id y = t_id t")
      case True
      with y tmem dist have "y = t" by (metis distinct_map inj_onD)
      with xy s(2) ft none kind show ?thesis
        by (simp add: d' entriesFor_def entryOf_def legsOf_def entryLeg_def)
    next
      case False
      with xy y assms(2) show ?thesis
        by (simp add: d' entriesFor_def entryOf_def booksOk_def doubleEntry_def)
    qed
  qed
  moreover have "accountsOk d'" unfolding d'
    using acc ok accountsOk_find [OF acc s(3)] accountsOk_find [OF acc s(4)] by (simp add: accountsOk_legs)
  moreover have "keysUnique (db_transfers d')"
    using assms(2) by (auto simp: d' settleRow_def booksOk_def intro!: keysUnique_updateWhere)
  moreover have "distinct (map t_id (db_transfers d'))"
    using dist by (simp add: d' settleRow_def map_updateWhere)
  moreover have "\<forall>l \<in> set (db_ledger d'). findTransferById d' (l_transferId l) \<noteq> None"
    using assms(2) s(1) by (auto simp: d' find_settleRow booksOk_def entryOf_def)
  moreover have "\<forall>x \<in> set (db_transfers d'). t_status x = Pending \<longrightarrow> t_kind x \<noteq> KFaucet"
    using assms(2) by (auto simp: d' settleRow_def set_updateWhere booksOk_def)
  ultimately show "booksOk d'" by (simp add: booksOk_def doubleEntry_def)
qed

text \<open>
  Settling conserves the total and the reconciliation when the two accounts differ. When they do not,
  the credit is computed from the account as it was before the debit and overwrites it.
\<close>

lemma settledTransfer_total:
  assumes "settledTransfer d d' t now from to" and "accountsOk d"
  shows "totalBalance d' = totalBalance d + (if acc_id from = acc_id to then t_amount t else 0)"
  using assms(1)
proof (rule settledTransfer_elim)
  fix i1 i2 a b
  assume p: "findAccountById d (acc_id from) = Some from" "findAccountById d (acc_id to) = Some to"
    and f: "acc_id a = acc_id from" "acc_balance a = acc_balance from - t_amount t"
      "acc_id b = acc_id to" "acc_balance b = acc_balance to + t_amount t"
    and d': "d' = legsDb (entryOf i1 a (t_id t) Debit (t_amount t) now) (entryOf i2 b (t_id t) Credit (t_amount t) now)
                a b (settleRow (t_id t) Posted (t_utr t) now None d)"
  let ?s = "settleRow (t_id t) Posted (t_utr t) now None d"
  show ?thesis
  proof (cases "acc_id from = acc_id to")
    case True
    have "totalBalance d' = totalBalance d - acc_balance from + acc_balance b"
      unfolding d' using totalBalance_legs_self [of ?s a "from" b] p(1) f(1,3) True assms(2) by simp
    moreover have "to = from" using p True by (metis option.inject)
    ultimately show ?thesis using f(4) by simp
  next
    case False
    show ?thesis
      unfolding d' by (subst totalBalance_legs [where ra = "from" and rb = to]) (use False assms(2) p f in simp_all)
  qed
qed

lemma settledTransfer_drift:
  assumes "settledTransfer d d' t now from to" and "acc_id from \<noteq> acc_id to"
  shows "drift d' i = drift d i"
  using assms(1)
proof (rule settledTransfer_elim)
  fix i1 i2 a b
  assume p: "findAccountById d (acc_id from) = Some from" "findAccountById d (acc_id to) = Some to"
    and f: "acc_id a = acc_id from" "acc_balance a = acc_balance from - t_amount t"
      "acc_id b = acc_id to" "acc_balance b = acc_balance to + t_amount t"
    and d': "d' = legsDb (entryOf i1 a (t_id t) Debit (t_amount t) now) (entryOf i2 b (t_id t) Credit (t_amount t) now)
                a b (settleRow (t_id t) Posted (t_utr t) now None d)"
  have "drift d' i = drift (settleRow (t_id t) Posted (t_utr t) now None d) i"
    unfolding d' using assms(2) p f by (intro drift_legs) simp_all
  then show ?thesis by simp
qed

section \<open>Holds\<close>

text \<open>What an account has on hold, against what its pending transfers will take.\<close>

definition holdOf :: "db \<Rightarrow> string \<Rightarrow> int" where
  "holdOf d i = (case findAccountById d i of None \<Rightarrow> 0 | Some a \<Rightarrow> acc_hold a)"

definition isPendingFrom :: "string \<Rightarrow> transfer \<Rightarrow> bool" where
  "isPendingFrom i t \<longleftrightarrow> t_status t = Pending \<and> t_fromAccountId t = Some i"

definition pendingSum :: "db \<Rightarrow> string \<Rightarrow> int" where
  "pendingSum d i = (\<Sum>t \<leftarrow> db_transfers d. if isPendingFrom i t then t_amount t else 0)"

definition heldGap :: "db \<Rightarrow> string \<Rightarrow> int" where
  "heldGap d i = holdOf d i - pendingSum d i"

lemma holdOf_legs:
  assumes "findAccountById d (acc_id a) = Some ra" and "findAccountById d (acc_id b) = Some rb"
    and "acc_id a \<noteq> acc_id b"
  shows "holdOf (legsDb e1 e2 a b d) i =
    (if i = acc_id a then acc_hold a else if i = acc_id b then acc_hold b else holdOf d i)"
  using assms by (auto simp: holdOf_def find_legs Let_def accountSet_def)

lemma pendingSum_simps [simp]:
  "pendingSum (legsDb e1 e2 a b d) i = pendingSum d i"
  "pendingSum (transferInsertRow t d) i = pendingSum d i + (if isPendingFrom i t then t_amount t else 0)"
  "pendingSum (accountUpdateRow a d) i = pendingSum d i"
  by (simp_all add: pendingSum_def)

lemma holdOf_transfers [simp]:
  "holdOf (transferInsertRow t d) i = holdOf d i" "holdOf (settleRow j st u ts fr d) i = holdOf d i"
  by (simp_all add: holdOf_def)

lemma pendingSum_settle:
  assumes "distinct (map t_id (db_transfers d))" and "findTransferById d (t_id t) = Some t" and "t_status t = Pending"
  shows "pendingSum (settleRow (t_id t) Posted u now fr d) i =
    pendingSum d i - (if t_fromAccountId t = Some i then t_amount t else 0)"
proof -
  have mem: "t \<in> set (db_transfers d)" using assms(2) by (auto simp: findTransferById_def dest: find_Some_iff_mem)
  let ?f = "\<lambda>r. r\<lparr>t_status := Posted, t_utr := u, t_postedAt := now, t_failureReason := fr\<rparr>"
  have "updateWhere (\<lambda>r. t_id r = t_id t \<and> t_status r = Pending) ?f (db_transfers d)
      = updateWhere (\<lambda>r. t_id r = t_id t) ?f (db_transfers d)"
    unfolding updateWhere_def
  proof (rule map_cong [OF refl])
    fix r assume "r \<in> set (db_transfers d)"
    with assms(1,3) mem show "(if t_id r = t_id t \<and> t_status r = Pending then ?f r else r) = (if t_id r = t_id t then ?f r else r)"
      by (auto simp: distinct_map dest: inj_onD)
  qed
  then show ?thesis
    using sum_list_update_key [OF assms(1) mem, of "\<lambda>t. if isPendingFrom i t then t_amount t else 0" ?f] assms(3)
    by (simp add: pendingSum_def settleRow_def isPendingFrom_def)
qed

lemma postedTransfer_held:
  assumes "postedTransfer d d' t from to" and "acc_id from \<noteq> acc_id to"
  shows "heldGap d' i = heldGap d i"
proof -
  obtain i1 i2 a b where p: "findAccountById d (acc_id from) = Some from" "findAccountById d (acc_id to) = Some to"
    "t_status t = Posted" "debit from (t_amount t) (t_currency t) (t_postedAt t) = Inr a"
    "credit to (t_amount t) (t_currency t) (t_postedAt t) = Inr b"
    and d': "d' = legsDb (entryOf i1 a (t_id t) Debit (t_amount t) (t_postedAt t))
                (entryOf i2 b (t_id t) Credit (t_amount t) (t_postedAt t)) a b (transferInsertRow t d)"
    using assms(1) unfolding postedTransfer_def by blast
  note f = debit_facts(1,3) [OF p(4)] credit_facts(1,3) [OF p(5)]
  have "holdOf d' i = holdOf d i" unfolding d'
    by (subst holdOf_legs [where ra = "from" and rb = to]) (use assms(2) p(1,2) f in \<open>auto simp: holdOf_def\<close>)
  then show ?thesis using p(3) by (simp add: heldGap_def d' isPendingFrom_def)
qed

lemma settledTransfer_held:
  assumes "settledTransfer d d' t now from to" and "acc_id from \<noteq> acc_id to" and "booksOk d"
  shows "heldGap d' i = heldGap d i"
  using assms(1)
proof (rule settledTransfer_elim)
  fix i1 i2 a b
  assume s: "findTransferById d (t_id t) = Some t" "t_status t = Pending" "t_fromAccountId t = Some (acc_id from)"
    and p: "findAccountById d (acc_id from) = Some from" "findAccountById d (acc_id to) = Some to"
    and f: "acc_id a = acc_id from" "acc_hold a = acc_hold from - t_amount t"
      "acc_id b = acc_id to" "acc_hold b = acc_hold to"
    and d': "d' = legsDb (entryOf i1 a (t_id t) Debit (t_amount t) now) (entryOf i2 b (t_id t) Credit (t_amount t) now)
                a b (settleRow (t_id t) Posted (t_utr t) now None d)"
  have "holdOf d' i = holdOf d i - (if i = acc_id from then t_amount t else 0)" unfolding d'
    by (subst holdOf_legs [where ra = "from" and rb = to]) (use assms(2) p f in \<open>auto simp: holdOf_def\<close>)
  moreover have "pendingSum d' i = pendingSum d i - (if i = acc_id from then t_amount t else 0)"
    using assms(3) s by (auto simp: d' pendingSum_settle booksOk_def)
  ultimately show ?thesis by (simp add: heldGap_def)
qed

section \<open>Placing a hold\<close>

definition heldTransfer :: "db \<Rightarrow> db \<Rightarrow> transfer \<Rightarrow> account \<Rightarrow> bool" where
  "heldTransfer d d' t from \<longleftrightarrow>
     findAccountById d (acc_id from) = Some from \<and> newTransfer d t \<and> t_status t = Pending \<and> t_kind t = KTransfer
     \<and> t_fromAccountId t = Some (acc_id from)
     \<and> (\<exists>h. placeHold from (t_amount t) (t_postedAt t) = Inr h
          \<and> d' = accountUpdateRow h (transferInsertRow t d))"

lemma heldTransfer_books:
  assumes "heldTransfer d d' t from" and "booksOk d"
  shows "booksOk d'" "totalBalance d' = totalBalance d" "drift d' i = drift d i" "heldGap d' i = heldGap d i"
    "holdOf d' (acc_id from) = holdOf d (acc_id from) + t_amount t" "0 < t_amount t"
proof -
  obtain h where p: "findAccountById d (acc_id from) = Some from" "newTransfer d t" "t_status t = Pending"
    "t_kind t = KTransfer" "t_fromAccountId t = Some (acc_id from)"
    "placeHold from (t_amount t) (t_postedAt t) = Inr h"
    and d': "d' = accountUpdateRow h (transferInsertRow t d)"
    using assms(1) unfolding heldTransfer_def by blast
  have h: "acc_id h = acc_id from" "acc_balance h = acc_balance from" "acc_hold h = acc_hold from + t_amount t"
    "0 < t_amount t"
    using p(6) by (auto simp: placeHold_Inr_iff)
  have acc: "accountsOk d" using assms(2) by (simp add: booksOk_def)
  have "accountOk h" by (rule accountOk_ops(3) [OF accountsOk_find [OF acc p(1)] p(6)])
  moreover have ins: "booksOk (transferInsertRow t d)"
    by (rule booksOk_insert [OF assms(2) p(2)]) (simp_all add: legsOf_def p)
  ultimately show "booksOk d'"
    by (simp add: booksOk_def d' accountsOk_update doubleEntry_def entriesFor_def)
  show "totalBalance d' = totalBalance d"
    using accounts.total_upd [of "transferInsertRow t d" h "from"] accountsOk_unique [OF acc] p(1) h
    by (simp add: d' accountSet_def)
  show "drift d' i = drift d i"
    using p(1) h by (auto simp: drift_def d' balanceOf_def ledgerNet_def accounts.find_upd accountSet_def)
  show hold: "holdOf d' (acc_id from) = holdOf d (acc_id from) + t_amount t"
    using p(1) h by (simp add: d' holdOf_def accounts.find_upd accountSet_def)
  show "heldGap d' i = heldGap d i"
    using hold h p by (cases "i = acc_id from")
      (auto simp: heldGap_def d' holdOf_def accounts.find_upd isPendingFrom_def accountSet_def)
  show "0 < t_amount t" by (rule h(4))
qed

text \<open>Writing back a transfer whose status has not changed.\<close>

lemma booksOk_updateTransfer:
  assumes "booksOk d" and "\<And>r. r \<in> set (db_transfers d) \<Longrightarrow> t_id r = t_id t \<Longrightarrow> t_status r = t_status t"
  shows "booksOk (transferUpdateRow t d)"
proof -
  have "map entryLeg (entriesFor (transferUpdateRow t d) (t_id x)) = legsOf x"
    if x: "x \<in> set (db_transfers (transferUpdateRow t d))" for x
  proof -
    from x obtain y where y: "y \<in> set (db_transfers d)" "x = (if t_id y = t_id t then transferSet t y else y)"
      by (auto simp: transferUpdateRow_def set_updateWhere)
    then have "legsOf x = legsOf y" "t_id x = t_id y"
      using assms(2) [OF y(1)] by (auto simp: legsOf_def transferSet_def)
    with y(1) assms(1) show ?thesis by (simp add: entriesFor_def booksOk_def doubleEntry_def)
  qed
  moreover have "\<forall>x \<in> set (db_transfers (transferUpdateRow t d)). t_status x = Pending \<longrightarrow> t_kind x \<noteq> KFaucet"
    using assms by (auto simp: transferUpdateRow_def set_updateWhere booksOk_def transferSet_def)
  moreover have "keysUnique (db_transfers (transferUpdateRow t d))"
    using assms(1) by (auto simp: transferUpdateRow_def booksOk_def transferSet_def intro!: keysUnique_updateWhere)
  moreover have "distinct (map t_id (db_transfers (transferUpdateRow t d)))"
    using assms(1) by (simp add: transferUpdateRow_def booksOk_def map_updateWhere transferSet_def)
  moreover have "\<forall>l \<in> set (db_ledger d). findTransferById (transferUpdateRow t d) (l_transferId l) \<noteq> None"
    using assms(1) transfers.upd_exists [of t d] by (simp add: booksOk_def)
  ultimately show ?thesis using assms(1) by (simp add: booksOk_def doubleEntry_def)
qed

text \<open>What a publication cannot change.\<close>

lemma booksOk_view:
  assumes "bankView d' = bankView d"
  shows "booksOk d' = booksOk d" "totalBalance d' = totalBalance d" "drift d' i = drift d i"
    "accountsOk d' = accountsOk d" "balanceOf d' i = balanceOf d i" "heldGap d' i = heldGap d i"
  using bankViewD [OF assms]
  by (simp_all add: booksOk_def accountsOk_def doubleEntry_def entriesFor_def findTransferById_def
      totalBalance_def drift_def balanceOf_def findAccountById_def ledgerNet_def
      heldGap_def holdOf_def pendingSum_def)

text \<open>All of these are functions of three tables.\<close>

definition moneyTables :: "db \<Rightarrow> account list \<times> transfer list \<times> ledger_entry list" where
  "moneyTables d = (db_accounts d, db_transfers d, db_ledger d)"

lemma moneyTables_bankView: "bankView d' = bankView d \<Longrightarrow> moneyTables d' = moneyTables d"
  using bankViewD [of d' d] by (simp add: moneyTables_def)

lemma moneyTables_cong:
  assumes "moneyTables d' = moneyTables d"
  shows "booksOk d' = booksOk d" "totalBalance d' = totalBalance d" "drift d' i = drift d i"
    "accountsOk d' = accountsOk d" "balanceOf d' i = balanceOf d i" "heldGap d' i = heldGap d i"
    "findTransferById d' j = findTransferById d j" "findAccountById d' i = findAccountById d i"
  using assms
  by (simp_all add: moneyTables_def booksOk_def accountsOk_def doubleEntry_def entriesFor_def findTransferById_def
      totalBalance_def drift_def balanceOf_def findAccountById_def ledgerNet_def
      heldGap_def holdOf_def pendingSum_def)

end
