(* ===== verification/Transfers.thy ===== *)
theory Transfers
  imports Ledger TransferLimits
begin

text \<open>
  \<open>executeTransfer\<close> and \<open>faucetDeposit\<close> (\<open>contexts/payments/application\<close>): validation, banking access,
  idempotency, the beneficiary's cooling period, the aggregate limits and the posting.
\<close>

record transfer_input =
  ti_fromAccountId :: string
  ti_toAccountNumber :: string
  ti_amount :: number
  ti_currency :: currency
  ti_memo :: "string option"
  ti_idempotencyKey :: "string option"
  ti_beneficiaryId :: "string option"
  ti_ownerUserId :: "string option"
  ti_kycTier :: "kyc_tier option"
  ti_rail :: "transfer_rail option"

text \<open>\<open>if (input.idempotencyKey) prior = transferRepo.findByIdempotencyKey(\<dots>)\<close>.\<close>

definition priorTransfer :: "db \<Rightarrow> string option \<Rightarrow> transfer option" where
  "priorTransfer d key = (case key of None \<Rightarrow> None | Some k \<Rightarrow> if k = [] then None else findTransferByKey d k)"

definition beneficiaryAllows :: "db \<Rightarrow> transfer_input \<Rightarrow> int \<Rightarrow> bool" where
  "beneficiaryAllows d inp now \<longleftrightarrow>
     (if truthy (ti_beneficiaryId inp) \<and> truthy (ti_ownerUserId inp)
      then (case findBeneficiaryById d (the (ti_beneficiaryId inp)) of
              None \<Rightarrow> False
            | Some b \<Rightarrow> Some (b_ownerUserId b) = ti_ownerUserId inp \<and> isTransferAllowed b now)
      else True)"

definition myAccountIds :: "db \<Rightarrow> string \<Rightarrow> string list" where
  "myAccountIds d userId = map acc_id (listAccountsByUserId d userId)"

definition limitError :: "int \<Rightarrow> db \<Rightarrow> transfer_input \<Rightarrow> int \<Rightarrow> error option" where
  "limitError tz d inp now =
     (case ti_kycTier inp of
        None \<Rightarrow> None
      | Some tier \<Rightarrow>
         (if truthy (ti_ownerUserId inp)
          then (let c = checkAggregateLimits tz d (myAccountIds d (the (ti_ownerUserId inp)))
                          (intOf (ti_amount inp)) tier now in
                if lc_allowed c then None
                else Some (Pay (TransferAggregateLimitError
                  (case lc_reason c of None \<Rightarrow> ''Transfer limit exceeded'' | Some r \<Rightarrow> r))))
          else None))"

definition usernameOf :: "db \<Rightarrow> string \<Rightarrow> string option" where
  "usernameOf d userId = map_option u_username (findUserById d userId)"

definition transferRow ::
  "db \<Rightarrow> transfer_input \<Rightarrow> account \<Rightarrow> account \<Rightarrow> int \<Rightarrow> string \<Rightarrow> string \<Rightarrow> transfer" where
  "transferRow d inp from to now tid ref =
     (let selfTransfer = acc_userId from = acc_userId to;
          toUsername = usernameOf d (acc_userId to)
      in \<lparr>t_id = tid, t_idempotencyKey = ti_idempotencyKey inp, t_fromAccountId = Some (acc_id from),
          t_toAccountId = Some (acc_id to), t_amount = intOf (ti_amount inp), t_currency = ti_currency inp,
          t_memo = ti_memo inp, t_kind = KTransfer, t_status = Posted,
          t_rail = (case ti_rail inp of None \<Rightarrow> Internal | Some r \<Rightarrow> r), t_utr = None,
          t_failureReason = None, t_postedAt = now, t_referenceNumber = Some ref, t_fee = 0,
          t_category = Some (if selfTransfer then Self else P2p),
          t_fromAccountNumber = Some (acc_number from), t_toAccountNumber = Some (acc_number to),
          t_fromUsername = usernameOf d (acc_userId from), t_toUsername = toUsername,
          t_description = Some (if selfTransfer then ''Self transfer to '' @ acc_number to
             else ''Sent to '' @ (case toUsername of None \<Rightarrow> acc_number to | Some n \<Rightarrow> n)),
          t_billerId = None, t_cardId = None\<rparr>)"

definition moneyMoved :: "transfer \<Rightarrow> event" where
  "moneyMoved t = MoneyEv (MoneyMoved (t_id t) (t_fromAccountId t) (t_toAccountId t) (t_amount t)
     (t_currency t) (t_kind t) (t_postedAt t))"

definition transferTx :: "transfer_input \<Rightarrow> (transfer \<times> event list) op" where
  "transferTx inp =
     bnd (dbGet (\<lambda>d. priorTransfer d (ti_idempotencyKey inp))) (\<lambda>prior.
     case prior of Some t \<Rightarrow> ret (t, []) | None \<Rightarrow>
     bnd (dbGet (\<lambda>d. findAccountById d (ti_fromAccountId inp))) (\<lambda>x.
     bnd (need x (Acc AccountNotFoundError)) (\<lambda>from.
     bnd (dbGet (\<lambda>d. findAccountByNumber d (ti_toAccountNumber inp))) (\<lambda>y.
     bnd (need y (Acc AccountNotFoundError)) (\<lambda>to.
     thn (throwIf (acc_id from = acc_id to) (Pay TransferToSelfError))
    (thn (throwIf (acc_type to = FixedDeposit \<and> acc_userId from \<noteq> acc_userId to)
                  (Pay CrossUserFixedDepositTransferError))
    (bnd clockNow (\<lambda>now.
     bnd (dbGet (\<lambda>d. beneficiaryAllows d inp now)) (\<lambda>allows.
     thn (throwIf (\<not> allows) (Ben BeneficiaryCoolingPeriodError))
    (bnd (gets w_tz) (\<lambda>tz.
     bnd (dbGet (\<lambda>d. limitError tz d inp now)) (\<lambda>overLimit.
     thn (case overLimit of None \<Rightarrow> ret () | Some e \<Rightarrow> raise e)
    (bnd (lift (debit from (intOf (ti_amount inp)) (ti_currency inp) now)) (\<lambda>debited.
     bnd (lift (credit to (intOf (ti_amount inp)) (ti_currency inp) now)) (\<lambda>credited.
     bnd uuid (\<lambda>tid.
     bnd transactionReference (\<lambda>ref.
     bnd (dbGet (\<lambda>d. transferRow d inp from to now tid ref)) (\<lambda>t.
     thn (postTransfer t debited credited)
         (ret (t, [moneyMoved t]))))))))))))))))))))"

text \<open>\<open>if (events.length > 0) deps.bus.publish(events)\<close>.\<close>

definition publishAll :: "bus \<Rightarrow> event list \<Rightarrow> unit op" where
  "publishAll bus evs = (if evs = [] then ret () else bus evs)"

definition executeTransfer :: "bus \<Rightarrow> transfer_input \<Rightarrow> transfer op" where
  "executeTransfer bus inp =
     thn (throwIf (numLe (ti_amount inp) 0 \<or> \<not> isInteger (ti_amount inp)) (Pay TransferAmountInvalidError))
    (thn (throwIf (numGt (ti_amount inp) PER_TRANSACTION_MAX_MINOR)
                  (Pay (TransferOverLimitError PER_TRANSACTION_MAX_MINOR)))
    (thn (if truthy (ti_ownerUserId inp) then assertBankingAccess (the (ti_ownerUserId inp)) else ret ())
    (thn (throwIf (ti_kycTier inp = Some TierNone)
                  (Pay (TransferAggregateLimitError ''KYC verification required before transfers'')))
    (bnd (transaction (transferTx inp)) (\<lambda>(t, evs).
     thn (publishAll bus evs) (ret t))))))"

section \<open>The faucet\<close>

definition FAUCET_MAX_MINOR :: int where
  "FAUCET_MAX_MINOR = 10000000"

record faucet_input =
  fi_toAccountId :: string
  fi_amount :: number
  fi_currency :: currency
  fi_memo :: "string option"
  fi_idempotencyKey :: "string option"

definition faucetRow :: "db \<Rightarrow> faucet_input \<Rightarrow> account \<Rightarrow> int \<Rightarrow> string \<Rightarrow> string \<Rightarrow> transfer" where
  "faucetRow d inp to now tid ref =
     \<lparr>t_id = tid, t_idempotencyKey = fi_idempotencyKey inp, t_fromAccountId = None,
      t_toAccountId = Some (acc_id to), t_amount = intOf (fi_amount inp), t_currency = fi_currency inp,
      t_memo = Some (case fi_memo inp of None \<Rightarrow> ''Faucet deposit'' | Some m \<Rightarrow> m),
      t_kind = KFaucet, t_status = Posted, t_rail = Internal, t_utr = None, t_failureReason = None,
      t_postedAt = now, t_referenceNumber = Some ref, t_fee = 0, t_category = Some CFaucet,
      t_fromAccountNumber = None, t_toAccountNumber = Some (acc_number to),
      t_fromUsername = Some ''Sentinel Bank (faucet)'', t_toUsername = usernameOf d (acc_userId to),
      t_description = Some (case fi_memo inp of None \<Rightarrow> ''Faucet deposit'' | Some m \<Rightarrow> m),
      t_billerId = None, t_cardId = None\<rparr>"

definition faucetTx :: "faucet_input \<Rightarrow> (transfer \<times> event list) op" where
  "faucetTx inp =
     bnd (dbGet (\<lambda>d. priorTransfer d (fi_idempotencyKey inp))) (\<lambda>prior.
     case prior of Some t \<Rightarrow> ret (t, []) | None \<Rightarrow>
     bnd (dbGet (\<lambda>d. findAccountById d (fi_toAccountId inp))) (\<lambda>x.
     bnd (need x (Acc AccountNotFoundError)) (\<lambda>to.
     bnd clockNow (\<lambda>now.
     bnd (lift (credit to (intOf (fi_amount inp)) (fi_currency inp) now)) (\<lambda>credited.
     bnd uuid (\<lambda>tid.
     bnd transactionReference (\<lambda>ref.
     bnd (dbGet (\<lambda>d. faucetRow d inp to now tid ref)) (\<lambda>t.
     thn (insertTransfer t)
    (thn (updateAccount credited)
    (thn (insertEntry credited (t_id t) Credit (t_amount t) now)
         (ret (t, [moneyMoved t]))))))))))))"

definition faucetDeposit :: "bus \<Rightarrow> faucet_input \<Rightarrow> transfer op" where
  "faucetDeposit bus inp =
     thn (throwIf (numLe (fi_amount inp) 0 \<or> \<not> isInteger (fi_amount inp)) (Pay TransferAmountInvalidError))
    (thn (throwIf (numGt (fi_amount inp) FAUCET_MAX_MINOR) (Pay (TransferOverLimitError FAUCET_MAX_MINOR)))
    (bnd (transaction (faucetTx inp)) (\<lambda>(t, evs).
     thn (publishAll bus evs) (ret t))))"

section \<open>What a transfer does\<close>

definition isDbError :: "error \<Rightarrow> bool" where
  "isDbError e \<longleftrightarrow> (case e of SqliteError _ \<Rightarrow> True | _ \<Rightarrow> False)"

lemma isDbError_simps [simp]:
  "isDbError (SqliteError m)" "\<not> isDbError (Acc x)" "\<not> isDbError (Pay p)"
  by (simp_all add: isDbError_def)

lemma isCommon_simps [simp]:
  "isCommonDomainError (Acc x)" "isCommonDomainError (Pay p)" "isCommonDomainError (Ben b)"
  "isCommonDomainError (KycE k)" "\<not> isCommonDomainError (SqliteError m)"
  by (simp_all add: isCommonDomainError_def)

text \<open>
  The specification of the transaction: \<open>t\<close> was posted between two different accounts, from the one the
  caller named to the one with the given number, at the time of the reading of the clock, when the
  beneficiary and the limits allowed it.
\<close>

definition executed :: "int \<Rightarrow> db \<Rightarrow> int \<Rightarrow> transfer_input \<Rightarrow> transfer \<Rightarrow> db \<Rightarrow> bool" where
  "executed tz d now inp t d' \<longleftrightarrow> (\<exists>from to.
     postedTransfer d d' t from to
     \<and> acc_id from = ti_fromAccountId inp \<and> findAccountByNumber d (ti_toAccountNumber inp) = Some to
     \<and> acc_id from \<noteq> acc_id to \<and> (acc_type to = FixedDeposit \<longrightarrow> acc_userId from = acc_userId to)
     \<and> t_amount t = intOf (ti_amount inp) \<and> t_currency t = ti_currency inp
     \<and> t_idempotencyKey t = ti_idempotencyKey inp \<and> t_postedAt t = now \<and> t_kind t = KTransfer
     \<and> beneficiaryAllows d inp now \<and> limitError tz d inp now = None)"

lemma transferRow_simps [simp]:
  "t_id (transferRow d inp a b now tid ref) = tid"
  "t_idempotencyKey (transferRow d inp a b now tid ref) = ti_idempotencyKey inp"
  "t_fromAccountId (transferRow d inp a b now tid ref) = Some (acc_id a)"
  "t_toAccountId (transferRow d inp a b now tid ref) = Some (acc_id b)"
  "t_amount (transferRow d inp a b now tid ref) = intOf (ti_amount inp)"
  "t_currency (transferRow d inp a b now tid ref) = ti_currency inp"
  "t_kind (transferRow d inp a b now tid ref) = KTransfer"
  "t_status (transferRow d inp a b now tid ref) = Posted"
  "t_postedAt (transferRow d inp a b now tid ref) = now"
  by (simp_all add: transferRow_def Let_def)

lemma limitError_common: "limitError tz d inp now = Some e \<Longrightarrow> isCommonDomainError e"
  by (auto simp: limitError_def Let_def split: option.splits if_splits)

lemma findAccountById_id: "findAccountById d i = Some a \<Longrightarrow> acc_id a = i"
  by (rule accounts.find_id)

lemma find_self: "findAccountById d i = Some a \<Longrightarrow> findAccountById d (acc_id a) = Some a"
  using findAccountById_id by fastforce

lemma transferTx_spec:
  assumes "accountsOk (w_db w)" and "0 < intOf (ti_amount inp)"
  shows "wp (transferTx inp)
     (\<lambda>(t, evs) w'. w_events w' = w_events w \<and>
        (case priorTransfer (w_db w) (ti_idempotencyKey inp) of
           Some t0 \<Rightarrow> t = t0 \<and> evs = [] \<and> w_db w' = w_db w
         | None \<Rightarrow> evs = [moneyMoved t] \<and>
             executed (w_tz w) (w_db w) (w_clock w (w_clockN w)) inp t (w_db w')))
     (\<lambda>e w'. w_events w' = w_events w \<and> (isCommonDomainError e \<or> isDbError e)) w"
proof (cases "priorTransfer (w_db w) (ti_idempotencyKey inp)")
  case (Some t0)
  then show ?thesis by (simp add: transferTx_def wp_rules)
next
  case None
  then show ?thesis
    using assms
    apply (simp add: transferTx_def wp_rules gen_defs split: option.splits sum.splits)
    apply (intro allI impI conjI)
    subgoal by (blast dest: debit_Inl_common)
    subgoal by (blast dest: credit_Inl_common)
    subgoal for src dst a b
      by (rule wp_postTransfer [of _ src dst])
        (auto simp: wp_rules executed_def findByNumber_find dest: findAccountById_id intro: find_self)
    subgoal by (blast dest: limitError_common)
    done
qed

text \<open>
  The outcome of the use case: the earlier transfer with the same idempotency key and no change, or a
  new posted transfer; afterwards the subscribers may have added notifications and audit rows.
\<close>

definition transferOutcome :: "world \<Rightarrow> transfer_input \<Rightarrow> transfer \<Rightarrow> db \<Rightarrow> bool" where
  "transferOutcome w inp t d' \<longleftrightarrow>
     (case priorTransfer (w_db w) (ti_idempotencyKey inp) of
        Some t0 \<Rightarrow> t = t0 \<and> bankView d' = bankView (w_db w)
      | None \<Rightarrow> \<exists>d1. executed (w_tz w) (w_db w) (w_clock w (w_clockN w)) inp t d1
                    \<and> bankView d' = bankView d1)"

lemma transferOutcomeI:
  "priorTransfer (w_db w) (ti_idempotencyKey inp) = None \<Longrightarrow>
   executed (w_tz w) (w_db w) (w_clock w (w_clockN w)) inp t d1 \<Longrightarrow> bankView d' = bankView d1 \<Longrightarrow>
     transferOutcome w inp t d'"
  "priorTransfer (w_db w) (ti_idempotencyKey inp) = Some t \<Longrightarrow> bankView d' = bankView (w_db w) \<Longrightarrow>
     transferOutcome w inp t d'"
  by (auto simp: transferOutcome_def)

section \<open>What a faucet deposit does\<close>

definition deposited :: "db \<Rightarrow> int \<Rightarrow> faucet_input \<Rightarrow> transfer \<Rightarrow> db \<Rightarrow> bool" where
  "deposited d now inp t d' \<longleftrightarrow> (\<exists>to. depositedTransfer d d' t to \<and> acc_id to = fi_toAccountId inp
     \<and> t_amount t = intOf (fi_amount inp) \<and> t_idempotencyKey t = fi_idempotencyKey inp \<and> t_postedAt t = now)"

definition faucetOutcome :: "world \<Rightarrow> faucet_input \<Rightarrow> transfer \<Rightarrow> db \<Rightarrow> bool" where
  "faucetOutcome w inp t d' \<longleftrightarrow>
     (case priorTransfer (w_db w) (fi_idempotencyKey inp) of
        Some t0 \<Rightarrow> t = t0 \<and> bankView d' = bankView (w_db w)
      | None \<Rightarrow> \<exists>d1. deposited (w_db w) (w_clock w (w_clockN w)) inp t d1 \<and> bankView d' = bankView d1)"

lemma faucetOutcomeI:
  "priorTransfer (w_db w) (fi_idempotencyKey inp) = None \<Longrightarrow>
   deposited (w_db w) (w_clock w (w_clockN w)) inp t d1 \<Longrightarrow> bankView d' = bankView d1 \<Longrightarrow> faucetOutcome w inp t d'"
  "priorTransfer (w_db w) (fi_idempotencyKey inp) = Some t \<Longrightarrow> bankView d' = bankView (w_db w) \<Longrightarrow>
     faucetOutcome w inp t d'"
  by (auto simp: faucetOutcome_def)

lemma wp_insertEntry:
  assumes "\<And>i. Q () (w\<lparr>w_uuidN := Suc (w_uuidN w), w_db := ledgerInsertRow (entryOf i a tid k n now) (w_db w)\<rparr>)"
    and "\<And>m w'. E (SqliteError m) w'"
  shows "wp (insertEntry a tid k n now) Q E w"
  using assms by (simp add: insertEntry_def insertLedger_def wp_rules)

lemma faucetRow_simps [simp]:
  "t_id (faucetRow d inp a now tid ref) = tid"
  "t_idempotencyKey (faucetRow d inp a now tid ref) = fi_idempotencyKey inp"
  "t_toAccountId (faucetRow d inp a now tid ref) = Some (acc_id a)"
  "t_amount (faucetRow d inp a now tid ref) = intOf (fi_amount inp)"
  "t_currency (faucetRow d inp a now tid ref) = fi_currency inp"
  "t_kind (faucetRow d inp a now tid ref) = KFaucet"
  "t_status (faucetRow d inp a now tid ref) = Posted"
  "t_postedAt (faucetRow d inp a now tid ref) = now"
  by (simp_all add: faucetRow_def)

lemma depositedI:
  assumes "findAccountById d (fi_toAccountId inp) = Some to" and "newTransfer d t" and "t_status t = Posted"
    and "t_kind t = KFaucet" and "t_toAccountId t = Some (acc_id to)"
    and "credit to (t_amount t) (t_currency t) (t_postedAt t) = Inr b"
    and "t_amount t = intOf (fi_amount inp)" and "t_idempotencyKey t = fi_idempotencyKey inp"
    and "t_postedAt t = now"
  shows "deposited d now inp t (ledgerInsertRow (entryOf i b (t_id t) Credit (t_amount t) (t_postedAt t))
           (accountUpdateRow b (transferInsertRow t d)))"
  unfolding deposited_def depositedTransfer_def
  by (intro exI [of _ to] conjI exI [of _ i] exI [of _ b])
    (use assms findAccountById_id [OF assms(1)] in simp_all)

lemma faucetTx_spec:
  assumes "0 < intOf (fi_amount inp)"
  shows "wp (faucetTx inp)
     (\<lambda>(t, evs) w'. (case priorTransfer (w_db w) (fi_idempotencyKey inp) of
           Some t0 \<Rightarrow> t = t0 \<and> evs = [] \<and> w_db w' = w_db w
         | None \<Rightarrow> evs = [moneyMoved t] \<and> deposited (w_db w) (w_clock w (w_clockN w)) inp t (w_db w')))
     (\<lambda>e w'. isCommonDomainError e \<or> isDbError e) w"
proof (cases "priorTransfer (w_db w) (fi_idempotencyKey inp)")
  case (Some t0)
  then show ?thesis by (simp add: faucetTx_def wp_rules)
next
  case None
  then show ?thesis
    using assms
    apply (simp add: faucetTx_def wp_rules gen_defs split: option.splits sum.splits)
    apply (intro allI impI conjI)
    subgoal by (blast dest: credit_Inl_common)
    subgoal for dst b
      by (rule wp_insertTransfer)
        (use depositedI in \<open>fastforce simp: wp_rules intro!: wp_insertEntry\<close>)+
    done
qed

lemma moneyMoved_quiet [simp]: "\<not> isKycApproved (moneyMoved t)"
  by (simp add: moneyMoved_def isKycApproved_def)

context event_bus begin

lemma wp_publishAll:
  assumes "\<forall>e \<in> set evs. \<not> isKycApproved e"
    and "\<And>w'. bankView (w_db w') = bankView (w_db w) \<Longrightarrow> Q () w'"
    and "\<And>e w'. bankView (w_db w') = bankView (w_db w) \<Longrightarrow> E e w'"
  shows "wp (publishAll publish evs) Q E w"
  by (cases "evs = []") (auto simp: publishAll_def wp_rules intro!: assms(2,3) wp_publish [OF assms(1)])

lemma executeTransfer_wp:
  assumes "accountsOk (w_db w)"
  shows "wp (executeTransfer publish inp)
     (\<lambda>t w'. transferOutcome w inp t (w_db w'))
     (\<lambda>e w'. w_db w' = w_db w \<and> (isCommonDomainError e \<or> isDbError e)
         \<or> (\<exists>t. transferOutcome w inp t (w_db w'))) w"
proof (cases "numLe (ti_amount inp) 0 \<or> \<not> isInteger (ti_amount inp)")
  case True
  then show ?thesis by (simp add: executeTransfer_def wp_rules)
next
  case False
  then have amount: "0 < intOf (ti_amount inp)" by (auto simp: numLe_isInteger)
  have "wp (transaction (transferTx inp))
     (\<lambda>(t, evs). wp (thn (publishAll publish evs) (ret t))
        (\<lambda>t w'. transferOutcome w inp t (w_db w'))
        (\<lambda>e w'. w_db w' = w_db w \<and> (isCommonDomainError e \<or> isDbError e)
           \<or> (\<exists>t. transferOutcome w inp t (w_db w'))))
     (\<lambda>e w'. w_db w' = w_db w \<and> (isCommonDomainError e \<or> isDbError e)
         \<or> (\<exists>t. transferOutcome w inp t (w_db w'))) w"
    unfolding wp_transaction
    by (rule wp_mono [OF transferTx_spec [OF assms amount]])
      (auto simp: wp_rules split: option.splits intro!: wp_publishAll; metis transferOutcomeI)+
  with False show ?thesis
    by (auto simp: executeTransfer_def wp_rules case_prod_unfold bankingAccessError_def Let_def
        split: sum.splits if_splits)
qed

lemma faucetDeposit_wp:
  "wp (faucetDeposit publish inp)
     (\<lambda>t w'. faucetOutcome w inp t (w_db w'))
     (\<lambda>e w'. w_db w' = w_db w \<and> (isCommonDomainError e \<or> isDbError e)
         \<or> (\<exists>t. faucetOutcome w inp t (w_db w'))) w"
proof (cases "numLe (fi_amount inp) 0 \<or> \<not> isInteger (fi_amount inp)")
  case True
  then show ?thesis by (simp add: faucetDeposit_def wp_rules)
next
  case False
  then have amount: "0 < intOf (fi_amount inp)" by (auto simp: numLe_isInteger)
  have "wp (transaction (faucetTx inp))
     (\<lambda>(t, evs). wp (thn (publishAll publish evs) (ret t))
        (\<lambda>t w'. faucetOutcome w inp t (w_db w'))
        (\<lambda>e w'. w_db w' = w_db w \<and> (isCommonDomainError e \<or> isDbError e)
           \<or> (\<exists>t. faucetOutcome w inp t (w_db w'))))
     (\<lambda>e w'. w_db w' = w_db w \<and> (isCommonDomainError e \<or> isDbError e)
         \<or> (\<exists>t. faucetOutcome w inp t (w_db w'))) w"
    unfolding wp_transaction
    by (rule wp_mono [OF faucetTx_spec [OF amount]])
      (auto simp: wp_rules split: option.splits intro!: wp_publishAll; metis faucetOutcomeI)+
  with False show ?thesis
    by (auto simp: faucetDeposit_def wp_rules case_prod_unfold split: if_splits)
qed

end

end
