(* ===== verification/Rails.thy ===== *)
theory Rails
  imports Transfers
begin

text \<open>
  Interbank rails: \<open>executeRailTransfer\<close> (IMPS and UPI settle at once, NEFT and RTGS place a hold and wait)
  and the batch \<open>settlePendingTransfers\<close>.
\<close>

record rail_input =
  ri_fromAccountId :: string
  ri_toAccountNumber :: string
  ri_amount :: number
  ri_currency :: currency
  ri_rail :: transfer_rail
  ri_memo :: "string option"
  ri_idempotencyKey :: "string option"
  ri_ownerUserId :: string
  ri_kycTier :: kyc_tier
  ri_vpa :: "string option"
  ri_ifsc :: "string option"

text \<open>\<open>/^[\w.-]+@[\w.-]+$/\<close>; neither part can hold an \<open>@\<close>.\<close>

definition vpaChar :: "char \<Rightarrow> bool" where
  "vpaChar c \<longleftrightarrow> isWordChar c \<or> c = CHR ''.'' \<or> c = CHR ''-''"

definition vpaOk :: "string \<Rightarrow> bool" where
  "vpaOk v = (let a = takeWhile vpaChar v; r = dropWhile vpaChar v in
     a \<noteq> [] \<and> r \<noteq> [] \<and> hd r = CHR ''@'' \<and> tl r \<noteq> [] \<and> list_all vpaChar (tl r))"

definition invalidVpa :: "string option \<Rightarrow> bool" where
  "invalidVpa vpa \<longleftrightarrow> (case vpa of None \<Rightarrow> True | Some v \<Rightarrow> trim v = [] \<or> \<not> vpaOk (trim v))"

text \<open>A template literal prints an absent value as \<open>undefined\<close>.\<close>

definition showVpa :: "string option \<Rightarrow> string" where
  "showVpa vpa = (case vpa of None \<Rightarrow> ''undefined'' | Some v \<Rightarrow> v)"

definition railToTransfer :: "rail_input \<Rightarrow> transfer_rail \<Rightarrow> string option \<Rightarrow> transfer_input" where
  "railToTransfer inp rail memo =
     \<lparr>ti_fromAccountId = ri_fromAccountId inp, ti_toAccountNumber = ri_toAccountNumber inp,
      ti_amount = ri_amount inp, ti_currency = ri_currency inp, ti_memo = memo,
      ti_idempotencyKey = ri_idempotencyKey inp, ti_beneficiaryId = None,
      ti_ownerUserId = Some (ri_ownerUserId inp), ti_kycTier = Some (ri_kycTier inp),
      ti_rail = Some rail\<rparr>"

definition pendingRow ::
  "db \<Rightarrow> rail_input \<Rightarrow> account \<Rightarrow> account \<Rightarrow> int \<Rightarrow> string \<Rightarrow> string \<Rightarrow> string \<Rightarrow> transfer" where
  "pendingRow d inp from to now tid utr' ref =
     \<lparr>t_id = tid, t_idempotencyKey = ri_idempotencyKey inp, t_fromAccountId = Some (acc_id from),
      t_toAccountId = Some (acc_id to), t_amount = intOf (ri_amount inp), t_currency = ri_currency inp,
      t_memo = ri_memo inp, t_kind = KTransfer, t_status = Pending, t_rail = ri_rail inp, t_utr = Some utr',
      t_failureReason = None, t_postedAt = now, t_referenceNumber = Some ref, t_fee = 0,
      t_category = Some (if acc_userId from = acc_userId to then Self else P2p),
      t_fromAccountNumber = Some (acc_number from), t_toAccountNumber = Some (acc_number to),
      t_fromUsername = usernameOf d (acc_userId from), t_toUsername = usernameOf d (acc_userId to),
      t_description = Some (toUpperCase (railName (ri_rail inp)) @ '' transfer pending settlement'' @
        (if truthy (ri_ifsc inp) then '' (IFSC '' @ the (ri_ifsc inp) @ '')'' else [])),
      t_billerId = None, t_cardId = None\<rparr>"

definition createPendingRailTransfer :: "rail_input \<Rightarrow> transfer op" where
  "createPendingRailTransfer inp = transaction (
     bnd (dbGet (\<lambda>d. priorTransfer d (ri_idempotencyKey inp))) (\<lambda>prior.
     case prior of Some t \<Rightarrow> ret t | None \<Rightarrow>
     bnd (dbGet (\<lambda>d. findAccountById d (ri_fromAccountId inp))) (\<lambda>x.
     bnd (need x (Acc AccountNotFoundError)) (\<lambda>from.
     bnd (dbGet (\<lambda>d. findAccountByNumber d (ri_toAccountNumber inp))) (\<lambda>y.
     bnd (need y (Acc AccountNotFoundError)) (\<lambda>to.
     bnd clockNow (\<lambda>now.
     bnd (lift (placeHold from (intOf (ri_amount inp)) now)) (\<lambda>held.
     bnd uuid (\<lambda>tid.
     bnd (utr now) (\<lambda>utr'.
     bnd transactionReference (\<lambda>ref.
     bnd (dbGet (\<lambda>d. pendingRow d inp from to now tid utr' ref)) (\<lambda>t.
     thn (insertTransfer t)
    (thn (updateAccount held)
         (ret t))))))))))))))"

text \<open>The UTR is written in a transaction of its own, after the transfer.\<close>

definition stampUtr :: "transfer \<Rightarrow> string option \<Rightarrow> transfer op" where
  "stampUtr t description =
     bnd clockNow (\<lambda>now.
     bnd (utr now) (\<lambda>u.
     (let updated = t\<lparr>t_utr := Some u,
            t_description := (case description of None \<Rightarrow> t_description t | Some s \<Rightarrow> Some s)\<rparr> in
      thn (transaction (updateTransfer updated)) (ret updated))))"

definition executeRailTransfer :: "bus \<Rightarrow> rail_input \<Rightarrow> transfer op" where
  "executeRailTransfer bus inp =
     thn (throwIf (numLe (ri_amount inp) 0 \<or> \<not> isInteger (ri_amount inp)) (Pay TransferAmountInvalidError))
    (thn (assertBankingAccess (ri_ownerUserId inp))
    (thn (throwIf (ri_kycTier inp = TierNone)
                  (Pay (TransferAggregateLimitError ''KYC verification required before transfers'')))
    (thn (throwIf (ri_rail inp = Upi \<and> invalidVpa (ri_vpa inp)) (Pay InvalidUpiVpaError))
    (if ri_rail inp = Imps then
       bnd (executeTransfer bus (railToTransfer inp Imps (ri_memo inp))) (\<lambda>t. stampUtr t None)
     else if ri_rail inp = Neft \<or> ri_rail inp = Rtgs then createPendingRailTransfer inp
     else
       bnd (executeTransfer bus (railToTransfer inp Upi
              (Some (case ri_memo inp of None \<Rightarrow> ''UPI '' @ showVpa (ri_vpa inp) | Some m \<Rightarrow> m)))) (\<lambda>t.
       stampUtr t (Some (''UPI to '' @ showVpa (ri_vpa inp))))))))"

section \<open>Settlement\<close>

text \<open>
  One pending transfer. \<open>None\<close>: it was no longer pending, nothing was done (the loop still counts it as
  settled).
\<close>

definition settleOne :: "transfer \<Rightarrow> event option op" where
  "settleOne t = transaction (
     bnd clockNow (\<lambda>now.
     bnd (dbGet (\<lambda>d. findTransferById d (t_id t))) (\<lambda>cur.
     case cur of None \<Rightarrow> ret None | Some current \<Rightarrow>
     if t_status current \<noteq> Pending then ret None else
     bnd (dbGet (\<lambda>d. if truthy (t_fromAccountId current)
                      then findAccountById d (the (t_fromAccountId current)) else None)) (\<lambda>x.
     bnd (dbGet (\<lambda>d. if truthy (t_toAccountId current)
                      then findAccountById d (the (t_toAccountId current)) else None)) (\<lambda>y.
     bnd (need x (GenericError ''Accounts missing for pending transfer'')) (\<lambda>from.
     bnd (need y (GenericError ''Accounts missing for pending transfer'')) (\<lambda>to.
     bnd (lift (releaseHold from (t_amount current) now)) (\<lambda>released.
     bnd (lift (debit released (t_amount current) (t_currency current) now)) (\<lambda>debited.
     bnd (lift (credit to (t_amount current) (t_currency current) now)) (\<lambda>credited.
     thn (settlePending (t_id current) Posted (t_utr current) now None)
    (thn (postLegs (t_id current) (t_amount current) now debited credited)
         (ret (Some (MoneyEv (MoneyMoved (t_id current) (Some (acc_id debited)) (Some (acc_id credited))
                 (t_amount current) (t_currency current) KTransfer now)))))))))))))))"

definition settleStep :: "nat \<times> nat \<times> event list \<Rightarrow> transfer \<Rightarrow> (nat \<times> nat \<times> event list) op" where
  "settleStep acc t = (case acc of (settled, failed, evs) \<Rightarrow>
     tryCatch (bnd (settleOne t) (\<lambda>ev. ret (settled + 1, failed, evs @ (case ev of None \<Rightarrow> [] | Some e \<Rightarrow> [e]))))
              (\<lambda>_. ret (settled, failed + 1, evs)))"

definition settlePendingTransfers :: "bus \<Rightarrow> transfer_rail \<Rightarrow> (nat \<times> nat) op" where
  "settlePendingTransfers bus rail =
     bnd (dbGet (\<lambda>d. listPendingByRail d rail)) (\<lambda>pending.
     bnd (foldProg pending settleStep (0, 0, [])) (\<lambda>(settled, failed, evs).
     thn (publishAll bus evs) (ret (settled, failed))))"

section \<open>What the rails do\<close>

lemma pendingRow_simps [simp]:
  "t_id (pendingRow d inp a b now tid u ref) = tid"
  "t_idempotencyKey (pendingRow d inp a b now tid u ref) = ri_idempotencyKey inp"
  "t_fromAccountId (pendingRow d inp a b now tid u ref) = Some (acc_id a)"
  "t_toAccountId (pendingRow d inp a b now tid u ref) = Some (acc_id b)"
  "t_amount (pendingRow d inp a b now tid u ref) = intOf (ri_amount inp)"
  "t_kind (pendingRow d inp a b now tid u ref) = KTransfer"
  "t_status (pendingRow d inp a b now tid u ref) = Pending"
  "t_postedAt (pendingRow d inp a b now tid u ref) = now"
  by (simp_all add: pendingRow_def)

lemma heldTransferI:
  "findAccountById d i = Some from \<Longrightarrow> newTransfer d t \<Longrightarrow> t_status t = Pending \<Longrightarrow> t_kind t = KTransfer \<Longrightarrow>
   t_fromAccountId t = Some (acc_id from) \<Longrightarrow> placeHold from (t_amount t) (t_postedAt t) = Inr h \<Longrightarrow>
     heldTransfer d (accountUpdateRow h (transferInsertRow t d)) t from"
  unfolding heldTransfer_def by (auto intro: find_self)

lemma createPending_spec:
  assumes "0 < intOf (ri_amount inp)"
  shows "wp (createPendingRailTransfer inp)
     (\<lambda>t w'. case priorTransfer (w_db w) (ri_idempotencyKey inp) of
           Some t0 \<Rightarrow> t = t0 \<and> w_db w' = w_db w
         | None \<Rightarrow> \<exists>from. heldTransfer (w_db w) (w_db w') t from \<and> acc_id from = ri_fromAccountId inp
                     \<and> t_amount t = intOf (ri_amount inp))
     (\<lambda>e w'. w_db w' = w_db w \<and> (isCommonDomainError e \<or> isDbError e)) w"
proof (cases "priorTransfer (w_db w) (ri_idempotencyKey inp)")
  case (Some t0)
  then show ?thesis by (simp add: createPendingRailTransfer_def wp_rules)
next
  case None
  then show ?thesis
    using assms
    apply (simp add: createPendingRailTransfer_def wp_rules gen_defs split: option.splits sum.splits)
    apply (intro allI impI conjI)
    subgoal by (blast dest: placeHold_Inl_common)
    subgoal for src dst held
      by (rule wp_insertTransfer)
        (auto simp: wp_rules dest: findAccountById_id intro!: exI [of _ src] heldTransferI)
    done
qed

lemma truthyE:
  assumes "truthy x"
  obtains s where "x = Some s" "s \<noteq> []"
  using assms by (auto simp: truthy_def split: option.splits)

lemma settledTransferI:
  assumes "findTransferById d tid = Some cur" and "t_status cur = Pending"
    and "truthy (t_fromAccountId cur)" and "findAccountById d (the (t_fromAccountId cur)) = Some from"
    and "truthy (t_toAccountId cur)" and "findAccountById d (the (t_toAccountId cur)) = Some to"
    and "releaseHold from (t_amount cur) now = Inr r" and "debit r (t_amount cur) (t_currency cur) now = Inr a"
    and "credit to (t_amount cur) (t_currency cur) now = Inr b"
  shows "settledTransfer d (legsDb (entryOf i1 a (t_id cur) Debit (t_amount cur) now)
           (entryOf i2 b (t_id cur) Credit (t_amount cur) now) a b
           (settleRow (t_id cur) Posted (t_utr cur) now None d)) cur now from to"
  unfolding settledTransfer_def
  by (intro conjI exI [of _ i1] exI [of _ i2] exI [of _ r] exI [of _ a] exI [of _ b])
    (use assms transfers.find_id [OF assms(1)] findAccountById_id [OF assms(4)] findAccountById_id [OF assms(6)]
      in \<open>auto elim!: truthyE\<close>)

text \<open>Settling one transfer: nothing, or the posting of the pending transfer.\<close>

lemma settleOne_spec:
  "wp (settleOne t)
     (\<lambda>ev w'. ev = None \<and> w_db w' = w_db w
        \<or> (\<exists>now from to cur. settledTransfer (w_db w) (w_db w') cur now from to \<and> t_id cur = t_id t))
     (\<lambda>e w'. w_db w' = w_db w) w"
proof (cases "findTransferById (w_db w) (t_id t)")
  case None
  then show ?thesis by (simp add: settleOne_def wp_rules)
next
  case (Some cur)
  note id = transfers.find_id [OF Some]
  show ?thesis
    apply (simp add: settleOne_def wp_rules settlePending_def Some id split: option.splits sum.splits)
    apply (intro allI impI conjI)
    subgoal for src dst r a b
      by (rule wp_postLegs)
        (simp_all add: wp_rules split: if_splits, metis settledTransferI [OF Some, unfolded id] id)
    done
qed

section \<open>The batch\<close>

definition noSelfPending :: "db \<Rightarrow> bool" where
  "noSelfPending d \<longleftrightarrow> (\<forall>t \<in> set (db_transfers d). t_status t = Pending \<longrightarrow> t_fromAccountId t \<noteq> t_toAccountId t)"

text \<open>What the batch keeps, relative to the database \<open>d0\<close> it started from.\<close>

definition settleInv :: "db \<Rightarrow> db \<Rightarrow> bool" where
  "settleInv d0 d \<longleftrightarrow> booksOk d \<and> noSelfPending d \<and> totalBalance d = totalBalance d0
     \<and> (\<forall>i. drift d i = drift d0 i \<and> heldGap d i = heldGap d0 i)"

lemma settleInv_refl: "booksOk d \<Longrightarrow> noSelfPending d \<Longrightarrow> settleInv d d"
  by (simp add: settleInv_def)

lemma settleInv_view:
  assumes "bankView d' = bankView d" and "settleInv d0 d"
  shows "settleInv d0 d'"
  using assms(2) booksOk_view [OF assms(1)] bankViewD [OF assms(1)]
  by (simp add: settleInv_def noSelfPending_def)

lemma settledTransfer_inv:
  assumes "settledTransfer d d' t now from to" and "settleInv d0 d"
  shows "settleInv d0 d'"
proof -
  have b: "booksOk d" and n: "noSelfPending d" using assms(2) by (auto simp: settleInv_def)
  have acc: "accountsOk d" using b by (simp add: booksOk_def)
  have t: "t \<in> set (db_transfers d)" "t_status t = Pending" "t_fromAccountId t = Some (acc_id from)"
    "t_toAccountId t = Some (acc_id to)"
    using assms(1) by (auto simp: settledTransfer_def findTransferById_def dest: find_Some_iff_mem)
  with n have ne: "acc_id from \<noteq> acc_id to" by (auto simp: noSelfPending_def)
  have "noSelfPending d'" using assms(1)
    by (rule settledTransfer_elim) (use n in \<open>auto simp: noSelfPending_def settleRow_def set_updateWhere\<close>)
  with settledTransfer_books [OF assms(1) b] settledTransfer_total [OF assms(1) acc]
    settledTransfer_drift [OF assms(1) ne] settledTransfer_held [OF assms(1) ne b] ne assms(2)
  show ?thesis by (simp add: settleInv_def)
qed

lemma settleStep_keeps: "keeps (\<lambda>w. settleInv d0 (w_db w)) (settleStep acc t)"
proof (rule keepsI)
  fix w :: world assume inv: "settleInv d0 (w_db w)"
  obtain s f evs where acc: "acc = (s, f, evs)" by (cases acc) auto
  show "wp (settleStep acc t) (\<lambda>_ w. settleInv d0 (w_db w)) (\<lambda>_ w. settleInv d0 (w_db w)) w"
    unfolding settleStep_def acc prod.case wp_tryCatch wp_bnd wp_ret
    by (rule wp_mono [OF settleOne_spec]) (use inv in \<open>auto dest: settledTransfer_inv\<close>)
qed

text \<open>The events of the batch are all \<open>MoneyMoved\<close>.\<close>

lemma settleOne_event: "wp (settleOne t) (\<lambda>ev _. \<forall>e. ev = Some e \<longrightarrow> \<not> isKycApproved e) (\<lambda>_ _. True) w"
  by (auto simp: settleOne_def wp_rules settlePending_def postLegs_def insertEntry_def insertLedger_def
      isKycApproved_def split: option.splits sum.splits)

definition quietAcc :: "nat \<times> nat \<times> event list \<Rightarrow> bool" where
  "quietAcc acc \<longleftrightarrow> (\<forall>e \<in> set (snd (snd acc)). \<not> isKycApproved e)"

lemma settleStep_quiet:
  assumes "quietAcc acc"
  shows "wp (settleStep acc t) (\<lambda>acc' _. quietAcc acc') (\<lambda>_ _. True) w"
proof -
  obtain s f evs where acc: "acc = (s, f, evs)" by (cases acc) auto
  show ?thesis
    unfolding settleStep_def acc prod.case wp_tryCatch wp_bnd wp_ret
    by (rule wp_mono [OF settleOne_event]) (use assms in \<open>auto simp: acc quietAcc_def split: option.splits\<close>)
qed

lemma settleLoop_spec:
  assumes "settleInv d0 (w_db w)" and "quietAcc acc"
  shows "wp (foldProg ts settleStep acc) (\<lambda>acc' w'. settleInv d0 (w_db w') \<and> quietAcc acc')
     (\<lambda>_ w'. settleInv d0 (w_db w')) w"
  using assms
proof (induction ts arbitrary: acc w)
  case Nil
  then show ?case by (simp add: wp_ret)
next
  case (Cons t ts)
  have "wp (settleStep acc t) (\<lambda>acc' w'. settleInv d0 (w_db w') \<and> quietAcc acc')
     (\<lambda>_ w'. settleInv d0 (w_db w') \<and> True) w"
    by (rule wp_conj) (use keepsD [OF settleStep_keeps Cons.prems(1)] settleStep_quiet [OF Cons.prems(2)] in auto)
  then show ?case
    by (simp add: wp_bnd, elim wp_mono) (use Cons.IH in auto)
qed

context event_bus begin

lemma settlePendingTransfers_wp:
  assumes "booksOk (w_db w)" and "noSelfPending (w_db w)"
  shows "wp (settlePendingTransfers publish rail) (\<lambda>_ w'. settleInv (w_db w) (w_db w'))
     (\<lambda>_ w'. settleInv (w_db w) (w_db w')) w"
  unfolding settlePendingTransfers_def wp_bnd wp_dbGet
  by (rule wp_mono [OF settleLoop_spec [OF settleInv_refl [OF assms]]])
    (auto simp: quietAcc_def wp_rules intro!: wp_publishAll; metis settleInv_view)+

end

section \<open>Rail transfers keep the books\<close>

definition sameMoney :: "db \<Rightarrow> db \<Rightarrow> bool" where
  "sameMoney d0 d \<longleftrightarrow> booksOk d \<and> totalBalance d = totalBalance d0
     \<and> (\<forall>i. drift d i = drift d0 i \<and> heldGap d i = heldGap d0 i)"

lemma sameMoney_refl: "booksOk d \<Longrightarrow> sameMoney d d"
  by (simp add: sameMoney_def)

lemma sameMoney_view:
  assumes "bankView d' = bankView d"
  shows "sameMoney d0 d' = sameMoney d0 d"
  using booksOk_view [OF assms] by (simp add: sameMoney_def)

lemma sameMoney_tables:
  assumes "moneyTables d' = moneyTables d"
  shows "sameMoney d0 d' = sameMoney d0 d"
  using moneyTables_cong [OF assms] by (simp add: sameMoney_def)

lemma sameMoney_posted:
  assumes "postedTransfer d d' t from to" and "acc_id from \<noteq> acc_id to" and "sameMoney d0 d"
  shows "sameMoney d0 d'"
proof -
  have b: "booksOk d" "accountsOk d" using assms(3) by (auto simp: sameMoney_def booksOk_def)
  show ?thesis
    using postedTransfer_books [OF assms(1) b(1)] postedTransfer_total [OF assms(1) b(2)]
      postedTransfer_drift [OF assms(1,2)] postedTransfer_held [OF assms(1,2)] assms(2,3)
    by (simp add: sameMoney_def)
qed

lemma sameMoney_held: "heldTransfer d d' t from \<Longrightarrow> sameMoney d0 d \<Longrightarrow> sameMoney d0 d'"
  using heldTransfer_books [of d d' t "from"] by (simp add: sameMoney_def)

lemma transferOutcome_new:
  assumes "transferOutcome w inp t d'" and "priorTransfer (w_db w) (ti_idempotencyKey inp) = None"
  obtains d1 "from" to where "postedTransfer (w_db w) d1 t from to" "acc_id from \<noteq> acc_id to"
    "bankView d' = bankView d1"
  using assms(1) unfolding transferOutcome_def executed_def assms(2) option.case by blast

lemma transferOutcome_old:
  assumes "transferOutcome w inp t d'" and "priorTransfer (w_db w) (ti_idempotencyKey inp) = Some t0"
  shows "t = t0 \<and> bankView d' = bankView (w_db w)"
  using assms(1) unfolding transferOutcome_def assms(2) option.case .

lemma transferOutcome_money:
  assumes "transferOutcome w inp t d'" and "sameMoney d0 (w_db w)"
  shows "sameMoney d0 d'"
proof (cases "priorTransfer (w_db w) (ti_idempotencyKey inp)")
  case (Some t0)
  with transferOutcome_old [OF assms(1)] have "bankView d' = bankView (w_db w)" by blast
  from sameMoney_view [OF this] assms(2) show ?thesis by blast
next
  case None
  from transferOutcome_new [OF assms(1) None] obtain d1 "from" to
    where "postedTransfer (w_db w) d1 t from to" "acc_id from \<noteq> acc_id to" and v: "bankView d' = bankView d1" .
  then have "sameMoney d0 d1" using assms(2) by (blast intro: sameMoney_posted)
  with sameMoney_view [OF v] show ?thesis by blast
qed

text \<open>The transfer the use case returned is in the table.\<close>

lemma find_byKey:
  assumes "booksOk d" and "priorTransfer d k = Some t"
  shows "findTransferById d (t_id t) = Some t"
  using assms find_key_distinct [of t_id "db_transfers d" t]
  by (auto simp: priorTransfer_def findTransferByKey_def findTransferById_def booksOk_def
      split: option.splits if_splits dest: find_Some_iff_mem)

lemma transferOutcome_find:
  assumes "transferOutcome w inp t d'" and "booksOk (w_db w)"
  shows "findTransferById d' (t_id t) = Some t"
proof (cases "priorTransfer (w_db w) (ti_idempotencyKey inp)")
  case (Some t0)
  have "t = t0" and v: "bankView d' = bankView (w_db w)"
    using transferOutcome_old [OF assms(1) Some] by blast+
  note bankViewD(12) [OF v]
  with \<open>t = t0\<close> find_byKey [OF assms(2) Some] show ?thesis by (simp add: findTransferById_def)
next
  case None
  from transferOutcome_new [OF assms(1) None] obtain d1 "from" to
    where "postedTransfer (w_db w) d1 t from to" "acc_id from \<noteq> acc_id to" and v: "bankView d' = bankView d1" .
  then have "findTransferById d1 (t_id t) = Some t"
    by (auto simp: postedTransfer_def newTransfer_def find_transferInsert)
  with bankViewD(12) [OF v] show ?thesis by (simp add: findTransferById_def)
qed

lemma stampUtr_money:
  assumes "sameMoney d0 (w_db w)" and "findTransferById (w_db w) (t_id t) = Some t"
  shows "wp (stampUtr t s) (\<lambda>_ w'. sameMoney d0 (w_db w')) (\<lambda>_ w'. sameMoney d0 (w_db w')) w"
proof -
  have d: "distinct (map t_id (db_transfers (w_db w)))" "t \<in> set (db_transfers (w_db w))"
    using assms by (auto simp: sameMoney_def booksOk_def findTransferById_def dest: find_Some_iff_mem)
  have same: "r = t" if "r \<in> set (db_transfers (w_db w))" "t_id r = t_id t" for r
    using d that by (metis distinct_map inj_onD)
  have "sameMoney d0 (transferUpdateRow (t\<lparr>t_utr := u, t_description := x\<rparr>) (w_db w))" for u x
  proof -
    have "booksOk (transferUpdateRow (t\<lparr>t_utr := u, t_description := x\<rparr>) (w_db w))"
      by (rule booksOk_updateTransfer) (use assms(1) same in \<open>auto simp: sameMoney_def\<close>)
    moreover have "pendingSum (transferUpdateRow (t\<lparr>t_utr := u, t_description := x\<rparr>) (w_db w)) i = pendingSum (w_db w) i"
      for i
      unfolding pendingSum_def transferUpdateRow_def updateWhere_def
      by (simp add: comp_def, rule arg_cong [where f = sum_list], rule map_cong [OF refl])
        (auto simp: isPendingFrom_def transferSet_def dest: same)
    ultimately show ?thesis using assms(1) by (simp add: sameMoney_def heldGap_def holdOf_def)
  qed
  then show ?thesis
    by (simp add: stampUtr_def wp_rules gen_defs updateTransfer_def Let_def)
qed

context event_bus begin

lemma executeRailTransfer_wp:
  assumes "booksOk (w_db w)"
  shows "wp (executeRailTransfer publish inp) (\<lambda>_ w'. sameMoney (w_db w) (w_db w'))
     (\<lambda>_ w'. sameMoney (w_db w) (w_db w')) w"
proof (cases "numLe (ri_amount inp) 0 \<or> \<not> isInteger (ri_amount inp)")
  case True
  then show ?thesis by (simp add: executeRailTransfer_def wp_rules sameMoney_refl assms)
next
  case False
  then have amount: "0 < intOf (ri_amount inp)" by (auto simp: numLe_isInteger)
  have acc: "accountsOk (w_db w)" using assms by (simp add: booksOk_def)
  note refl = sameMoney_refl [OF assms]
  have instant: "wp (executeTransfer publish (railToTransfer inp r m))
      (\<lambda>t. wp (stampUtr t s) (\<lambda>_ w'. sameMoney (w_db w) (w_db w')) (\<lambda>_ w'. sameMoney (w_db w) (w_db w')))
      (\<lambda>_ w'. sameMoney (w_db w) (w_db w')) w" for r m s
    by (rule wp_mono [OF executeTransfer_wp [OF acc]])
      (auto intro: stampUtr_money transferOutcome_money [OF _ refl] transferOutcome_find [OF _ assms] simp: refl)
  have pending: "wp (createPendingRailTransfer inp) (\<lambda>_ w'. sameMoney (w_db w) (w_db w'))
      (\<lambda>_ w'. sameMoney (w_db w) (w_db w')) w"
    by (rule wp_mono [OF createPending_spec [OF amount]])
      (auto simp: refl intro: sameMoney_held [OF _ refl] split: option.splits)
  show ?thesis
    using False by (auto simp: executeRailTransfer_def wp_rules refl instant pending split: sum.splits)
qed

end

end
