(* ===== verification/Examples.thy ===== *)
theory Examples
  imports Container Tables TransferLimits Rails
begin

text \<open>
  Concrete databases and runs, on which the hypotheses of the properties are discharged: a small bank
  with two customers, and a world whose clock, identifiers and random numbers are simple sequences.
\<close>

definition exAccount :: "string \<Rightarrow> string \<Rightarrow> string \<Rightarrow> account_type \<Rightarrow> int \<Rightarrow> int \<Rightarrow> account" where
  "exAccount i nr u ty bal hold =
     \<lparr>acc_id = i, acc_number = nr, acc_userId = u, acc_type = ty, acc_status = Active,
      acc_balance = bal, acc_hold = hold, acc_currency = INR, acc_createdAt = 0, acc_updatedAt = 0\<rparr>"

definition exUser :: "string \<Rightarrow> string \<Rightarrow> user" where
  "exUser i name =
     \<lparr>u_id = i, u_username = name, u_email = name @ ''@x.in'', u_passwordHash = ''h'', u_role = Customer,
      u_accountStatus = UserActive, u_failedAttempts = 0, u_lockedUntil = None, u_passkeyEnrolled = False,
      u_kycTier = TierFull, u_mobile = None, u_createdAt = 0\<rparr>"

definition exKyc :: "string \<Rightarrow> string \<Rightarrow> kyc_status \<Rightarrow> kyc_application" where
  "exKyc i u st =
     \<lparr>k_id = i, k_userId = u, k_fullName = ''A'', k_dob = ''1990-01-01'', k_pan = ''ABCDE1234F'',
      k_address = ''X'', k_docB64 = None, k_requestedAccountType = Savings, k_status = st,
      k_submittedAt = 0, k_decidedAt = None, k_decidedByUserId = None, k_rejectReason = None\<rparr>"

definition exPending :: transfer where
  "exPending =
     \<lparr>t_id = ''p1'', t_idempotencyKey = None, t_fromAccountId = Some ''a1'', t_toAccountId = Some ''b1'',
      t_amount = 50000, t_currency = INR, t_memo = None, t_kind = KTransfer, t_status = Pending,
      t_rail = Neft, t_utr = None, t_failureReason = None, t_postedAt = 0, t_referenceNumber = None,
      t_fee = 0, t_category = Some P2p, t_fromAccountNumber = None, t_toAccountNumber = None,
      t_fromUsername = None, t_toUsername = None, t_description = None, t_billerId = None, t_cardId = None\<rparr>"

definition exDb :: db where
  "exDb =
     \<lparr>db_users = [exUser ''ua'' ''alice'', exUser ''ub'' ''bob''],
      db_kyc = [exKyc ''ka'' ''ua'' Approved, exKyc ''kb'' ''ub'' Approved],
      db_accounts = [exAccount ''a1'' ''SBE-0000000001'' ''ua'' Savings 5000000 50000,
                     exAccount ''b1'' ''SBE-0000000002'' ''ub'' Savings 200000 0],
      db_fds = [], db_nominees = [], db_beneficiaries = [], db_external = [], db_billers = [],
      db_savedBills = [], db_sis = [], db_notifications = [], db_cards = [], db_transfers = [exPending],
      db_ledger = [], db_disputes = [], db_pending = [], db_audit = [],
      db_credentials = [], db_recovery = []\<rparr>"

definition exWorld :: "db \<Rightarrow> world" where
  "exWorld d =
     \<lparr>w_db = d, w_clock = (\<lambda>n. 1735700000000 + int n), w_clockN = 0, w_uuid = (\<lambda>n. ''u'' @ showNat n),
      w_uuidN = 0, w_rnd = (\<lambda>n. n * 7919), w_rndN = 0, w_tz = 19800000, w_events = []\<rparr>"

definition exTransfer :: "int \<Rightarrow> transfer_input" where
  "exTransfer n =
     \<lparr>ti_fromAccountId = ''a1'', ti_toAccountNumber = ''SBE-0000000002'', ti_amount = JNum (of_int n),
      ti_currency = INR, ti_memo = None, ti_idempotencyKey = Some ''k1'', ti_beneficiaryId = None,
      ti_ownerUserId = Some ''ua'', ti_kycTier = Some TierFull, ti_rail = None\<rparr>"

lemma exWorld_simps [simp]:
  "w_db (exWorld d) = d" "w_clock (exWorld d) (w_clockN (exWorld d)) = 1735700000000"
  "w_tz (exWorld d) = 19800000" "w_uuidN (exWorld d) = 0" "w_rndN (exWorld d) = 0"
  by (simp_all add: exWorld_def)

lemma exTransfer_simps [simp]:
  "ti_fromAccountId (exTransfer n) = ''a1''" "ti_amount (exTransfer n) = JNum (of_int n)"
  "ti_ownerUserId (exTransfer n) = Some ''ua''" "ti_kycTier (exTransfer n) = Some TierFull"
  "ti_idempotencyKey (exTransfer n) = Some ''k1''"
  by (simp_all add: exTransfer_def)

lemma exDb_key [simp]: "findTransferByKey exDb k = None"
  by (simp add: findTransferByKey_def exDb_def exPending_def)

lemma exDb_prior [simp]: "priorTransfer exDb k = None"
  by (simp add: priorTransfer_def split: option.splits)

lemma showNat_inj [simp]: "showNat m = showNat n \<longleftrightarrow> m = n"
  by (metis readNat_showNat)

lemma exDb_books: "booksOk exDb"
  by (simp add: booksOk_def accountsOk_def exDb_def exAccount_def accountOk_def keysUnique_def doubleEntry_def
      entriesFor_def legsOf_def exPending_def)

text \<open>The same bank after a transfer under the key \<open>k1\<close>.\<close>

definition exPosted :: transfer where
  "exPosted = exPending\<lparr>t_id := ''p2'', t_idempotencyKey := Some ''k1'', t_status := Posted, t_rail := Internal,
     t_amount := 700\<rparr>"

definition exDbPosted :: db where
  "exDbPosted = exDb\<lparr>db_transfers := [exPending, exPosted],
     db_ledger := [\<lparr>l_id = ''l1'', l_accountId = ''a1'', l_transferId = ''p2'', l_kind = Debit, l_amount = 700,
                    l_runningBalance = 5000000, l_postedAt = 0\<rparr>,
                   \<lparr>l_id = ''l2'', l_accountId = ''b1'', l_transferId = ''p2'', l_kind = Credit, l_amount = 700,
                    l_runningBalance = 200000, l_postedAt = 0\<rparr>]\<rparr>"

lemma exDbPosted_prior [simp]: "priorTransfer exDbPosted (Some ''k1'') = Some exPosted"
  by (simp add: priorTransfer_def findTransferByKey_def exDbPosted_def exPosted_def exPending_def)

lemma exDbPosted_books: "booksOk exDbPosted"
  by (simp add: booksOk_def accountsOk_def exDbPosted_def exDb_def exAccount_def accountOk_def keysUnique_def
      doubleEntry_def entriesFor_def legsOf_def exPending_def exPosted_def entryLeg_def findTransferById_def)

lemma exDbPosted_accounts: "accountsOk exDbPosted"
  using exDbPosted_books by (simp add: booksOk_def)

lemma exDb_accounts: "accountsOk exDb"
  using exDb_books by (simp add: booksOk_def)

lemma exDb_find [simp]:
  "findAccountById exDb ''a1'' = Some (exAccount ''a1'' ''SBE-0000000001'' ''ua'' Savings 5000000 50000)"
  "findAccountById exDb ''b1'' = Some (exAccount ''b1'' ''SBE-0000000002'' ''ub'' Savings 200000 0)"
  "findAccountByNumber exDb ''SBE-0000000002'' = Some (exAccount ''b1'' ''SBE-0000000002'' ''ub'' Savings 200000 0)"
  by (simp_all add: findAccountById_def findAccountByNumber_def exDb_def exAccount_def)

lemma exDb_noSelf: "noSelfPending exDb"
  by (simp add: noSelfPending_def exDb_def exPending_def)

definition exRail :: rail_input where
  "exRail = \<lparr>ri_fromAccountId = ''a1'', ri_toAccountNumber = ''SBE-0000000002'', ri_amount = JNum 20000,
     ri_currency = INR, ri_rail = Rtgs, ri_memo = None, ri_idempotencyKey = None, ri_ownerUserId = ''ua'',
     ri_kycTier = TierFull, ri_vpa = None, ri_ifsc = Some ''SBIN0000001''\<rparr>"

text \<open>A pending transfer from an account to itself.\<close>

definition exSelf :: transfer where
  "exSelf = exPending\<lparr>t_id := ''p3'', t_toAccountId := Some ''a1''\<rparr>"

definition exDbSelf :: db where
  "exDbSelf = exDb\<lparr>db_transfers := [exSelf]\<rparr>"

lemma exDbSelf_accounts: "accountsOk exDbSelf"
  by (simp add: accountsOk_def exDbSelf_def exDb_def exAccount_def accountOk_def)

lemma exDbSelf_find: "findTransferById exDbSelf ''p3'' = Some exSelf"
  by (simp add: findTransferById_def exDbSelf_def exSelf_def)

lemma exDbSelf_total: "totalBalance exDbSelf = 5200000"
  by (simp add: totalBalance_def exDbSelf_def exDb_def exAccount_def)

lemma exDbSelf_runs: "wp (settleOne exSelf) (\<lambda>_ _. True) (\<lambda>_ _. False) (exWorld exDbSelf)"
  by (simp add: settleOne_def wp_rules exSelf_def exPending_def exDbSelf_def exDb_def exWorld_def
      findTransferById_def findAccountById_def truthy_def exAccount_def releaseHold_def debit_def credit_def
      assert_defs andThen_def check_def availableBalanceMinor_def minBalanceForType_def Let_def settlePending_def
      settleRow_def postLegs_def insertEntry_def insertLedger_def entryOf_def accountUpdateRow_def updateWhere_def
      accountSet_def accountExists_def ledgerInsertRow_def)

end
