(* ===== verification/PaymentFacts.thy ===== *)
theory PaymentFacts
  imports Examples
begin

text \<open>
  What the payment use cases promise, put together from the specifications of \<open>Ledger\<close>, \<open>Transfers\<close> and
  \<open>Rails\<close> for the bus the container builds.
\<close>

section \<open>Where the money goes\<close>

text \<open>A posted transfer moves its amount from one account to another, and no other balance changes.\<close>

definition movedMoney :: "db \<Rightarrow> db \<Rightarrow> string \<Rightarrow> string \<Rightarrow> int \<Rightarrow> bool" where
  "movedMoney d d' src dst n \<longleftrightarrow> src \<noteq> dst
     \<and> (\<forall>i. balanceOf d' i = balanceOf d i - (if i = src then n else 0) + (if i = dst then n else 0))"

lemma movedMoney_view: "bankView d'' = bankView d' \<Longrightarrow> movedMoney d d' s t n \<Longrightarrow> movedMoney d d'' s t n"
  using booksOk_view(5) [of d'' d'] by (simp add: movedMoney_def)

lemma movedMoney_posted:
  "postedTransfer d d' t from to \<Longrightarrow> acc_id from \<noteq> acc_id to \<Longrightarrow>
     movedMoney d d' (acc_id from) (acc_id to) (t_amount t)"
  using postedTransfer_balances by (simp add: movedMoney_def)

text \<open>A posted transfer is a new row, and the table holds it afterwards.\<close>

lemma posted_found:
  assumes "postedTransfer d d1 t from to" and "bankView d' = bankView d1"
  shows "findTransferById d (t_id t) = None" and "findTransferById d' (t_id t) = Some t"
  using assms(1) bankViewD(12) [OF assms(2)]
  by (auto simp: postedTransfer_def newTransfer_def findTransferById_def find_append)

text \<open>What a new transfer did, in terms of the request.\<close>

definition transferEffect :: "db \<Rightarrow> db \<Rightarrow> transfer_input \<Rightarrow> transfer \<Rightarrow> bool" where
  "transferEffect d d' inp t \<longleftrightarrow>
     (\<exists>to. findAccountByNumber d (ti_toAccountNumber inp) = Some to
        \<and> movedMoney d d' (ti_fromAccountId inp) (acc_id to) (intOf (ti_amount inp)))
     \<and> findTransferById d (t_id t) = None \<and> findTransferById d' (t_id t) = Some t
     \<and> t_status t = Posted \<and> t_amount t = intOf (ti_amount inp)
     \<and> t_idempotencyKey t = ti_idempotencyKey inp"

lemma transferOutcome_effect:
  assumes "transferOutcome w inp t d'" and "booksOk (w_db w)"
    and "priorTransfer (w_db w) (ti_idempotencyKey inp) = None"
  shows "transferEffect (w_db w) d' inp t"
proof -
  obtain d1 "from" to where p: "postedTransfer (w_db w) d1 t from to" "acc_id from = ti_fromAccountId inp"
    "findAccountByNumber (w_db w) (ti_toAccountNumber inp) = Some to" "acc_id from \<noteq> acc_id to"
    "t_amount t = intOf (ti_amount inp)" "t_idempotencyKey t = ti_idempotencyKey inp"
    and v: "bankView d' = bankView d1"
    using assms(1) unfolding transferOutcome_def executed_def assms(3) option.case by blast
  have "movedMoney (w_db w) d' (acc_id from) (acc_id to) (t_amount t)"
    by (rule movedMoney_view [OF v]) (rule movedMoney_posted [OF p(1,4)])
  moreover have "findTransferById (w_db w) (t_id t) = None" "t_status t = Posted"
    using p(1) by (auto simp: postedTransfer_def newTransfer_def)
  ultimately show ?thesis
    using p transferOutcome_find [OF assms(1,2)] by (auto simp: transferEffect_def)
qed

section \<open>The caps after a transfer\<close>

lemma sentSince_view: "bankView d' = bankView d \<Longrightarrow> sentSince d' as since = sentSince d as since"
  using bankViewD(12) [of d' d] by (simp add: sentSince_def)

lemma sentSince_posted:
  assumes "postedTransfer d d' t from to" and "0 \<le> t_amount t"
  shows "sentSince d' as since \<le> sentSince d as since + t_amount t"
  using assms by (auto simp: postedTransfer_def sentSince_def)

definition withinCaps :: "int \<Rightarrow> db \<Rightarrow> string \<Rightarrow> kyc_tier \<Rightarrow> int \<Rightarrow> db \<Rightarrow> bool" where
  "withinCaps tz d u tier now d' \<longleftrightarrow>
     sentSince d' (set (myAccountIds d u)) (startOfDayMs tz now) \<le> dailyLimitForTier tier
   \<and> sentSince d' (set (myAccountIds d u)) (startOfMonthMs tz now) \<le> monthlyLimitForTier tier"

lemma withinCaps_outcome:
  assumes "transferOutcome w inp t d'" and "accountsOk (w_db w)"
    and "priorTransfer (w_db w) (ti_idempotencyKey inp) = None" and "0 < intOf (ti_amount inp)"
    and "ti_ownerUserId inp = Some u" and "u \<noteq> []" and "ti_kycTier inp = Some tier"
  shows "withinCaps (w_tz w) (w_db w) u tier (w_clock w (w_clockN w)) d'"
proof -
  obtain d1 "from" to where p: "postedTransfer (w_db w) d1 t from to" "t_amount t = intOf (ti_amount inp)"
    and l: "limitError (w_tz w) (w_db w) inp (w_clock w (w_clockN w)) = None"
    and v: "bankView d' = bankView d1"
    using assms(1) unfolding transferOutcome_def executed_def assms(3) option.case by blast
  have "distinct (myAccountIds (w_db w) u)"
    using assms(2) by (auto simp: myAccountIds_def listAccountsByUserId_def accountsOk_def distinct_map_filter)
  from checkAggregateLimits_allowed [OF this] l assms(5-7)
  have "sentSince (w_db w) (set (myAccountIds (w_db w) u)) (startOfDayMs (w_tz w) (w_clock w (w_clockN w)))
      + intOf (ti_amount inp) \<le> dailyLimitForTier tier"
    "sentSince (w_db w) (set (myAccountIds (w_db w) u)) (startOfMonthMs (w_tz w) (w_clock w (w_clockN w)))
      + intOf (ti_amount inp) \<le> monthlyLimitForTier tier"
    by (auto simp: limitError_def truthy_def Let_def split: if_splits)
  with sentSince_posted [OF p(1)] p(2) assms(4) show ?thesis
    unfolding withinCaps_def sentSince_view [OF v] by (smt (verit, best))
qed

section \<open>A valid transfer is made\<close>

text \<open>The identifiers and the reference the world hands out next are not in use.\<close>

definition freshDraws :: "world \<Rightarrow> bool" where
  "freshDraws w \<longleftrightarrow> findTransferById (w_db w) (w_uuid w (w_uuidN w)) = None
     \<and> w_uuid w (Suc (w_uuidN w)) \<notin> l_id ` set (db_ledger (w_db w))
     \<and> w_uuid w (Suc (Suc (w_uuidN w))) \<notin> l_id ` set (db_ledger (w_db w))
     \<and> w_uuid w (Suc (w_uuidN w)) \<noteq> w_uuid w (Suc (Suc (w_uuidN w)))
     \<and> Some (transactionReferenceOf (w_rnd w (w_rndN w) mod 4294967296))
         \<notin> t_referenceNumber ` set (db_transfers (w_db w))"

text \<open>The guards of the use case, at the time its clock shows.\<close>

definition validRequest :: "world \<Rightarrow> transfer_input \<Rightarrow> account \<Rightarrow> account \<Rightarrow> bool" where
  "validRequest w inp from to \<longleftrightarrow>
     (let d = w_db w; now = w_clock w (w_clockN w); n = intOf (ti_amount inp) in
      isInteger (ti_amount inp) \<and> 0 < n \<and> n \<le> PER_TRANSACTION_MAX_MINOR
      \<and> (truthy (ti_ownerUserId inp) \<longrightarrow> bankingAccessError d (the (ti_ownerUserId inp)) = Inr ())
      \<and> ti_kycTier inp \<noteq> Some TierNone
      \<and> findAccountById d (ti_fromAccountId inp) = Some from
      \<and> findAccountByNumber d (ti_toAccountNumber inp) = Some to
      \<and> acc_id from \<noteq> acc_id to \<and> (acc_type to = FixedDeposit \<longrightarrow> acc_userId from = acc_userId to)
      \<and> beneficiaryAllows d inp now \<and> limitError (w_tz w) d inp now = None
      \<and> acc_status from = Active \<and> acc_currency from = ti_currency inp \<and> acc_type from \<noteq> FixedDeposit
      \<and> n \<le> availableBalanceMinor from \<and> minBalanceForType (acc_type from) \<le> acc_balance from - n
      \<and> acc_status to = Active \<and> acc_currency to = ti_currency inp)"

lemma postTransfer_succeeds:
  assumes "findTransferById (w_db w) (t_id t) = None"
    and "case t_idempotencyKey t of None \<Rightarrow> True | Some k \<Rightarrow> findTransferByKey (w_db w) k = None"
    and "t_referenceNumber t \<notin> t_referenceNumber ` set (db_transfers (w_db w))" and "t_cardId t = None"
    and "t_fromAccountId t = Some (acc_id a)" and "t_toAccountId t = Some (acc_id b)"
    and "accountExists (w_db w) (acc_id a)" and "accountExists (w_db w) (acc_id b)"
    and "w_uuid w (w_uuidN w) \<notin> l_id ` set (db_ledger (w_db w))"
    and "w_uuid w (Suc (w_uuidN w)) \<notin> l_id ` set (db_ledger (w_db w))"
    and "w_uuid w (w_uuidN w) \<noteq> w_uuid w (Suc (w_uuidN w))"
  shows "wp (postTransfer t a b) (\<lambda>_ _. True) (\<lambda>_ _. False) w"
proof -
  have "accountExists (transferInsertRow t (w_db w)) i = accountExists (w_db w) i" for i
    by (simp add: accountExists_def)
  with assms show ?thesis
    by (cases "t_referenceNumber t")
      (simp_all add: postTransfer_def insertTransfer_def postLegs_def insertEntry_def insertLedger_def wp_rules
        entryOf_def find_transferInsert)
qed

lemma transferTx_succeeds:
  assumes "validRequest w inp from to" and "accountsOk (w_db w)" and "freshDraws w"
    and "\<forall>k. ti_idempotencyKey inp = Some k \<longrightarrow> findTransferByKey (w_db w) k = None"
  shows "wp (transferTx inp) (\<lambda>_ _. True) (\<lambda>_ _. False) w"
proof -
  have v: "debit from (intOf (ti_amount inp)) (ti_currency inp) now = Inr (from\<lparr>acc_balance := acc_balance from - intOf (ti_amount inp), acc_updatedAt := now\<rparr>)"
    "credit to (intOf (ti_amount inp)) (ti_currency inp) now = Inr (to\<lparr>acc_balance := acc_balance to + intOf (ti_amount inp), acc_updatedAt := now\<rparr>)"
    for now
    using assms(1) by (simp_all add: validRequest_def Let_def debit_Inr_iff credit_Inr_iff)
  have ids: "findAccountById (w_db w) (ti_fromAccountId inp) = Some from" "findAccountById (w_db w) (acc_id from) = Some from"
    "findAccountById (w_db w) (acc_id to) = Some to"
    using assms(1) findByNumber_find [OF assms(2)] by (auto simp: validRequest_def Let_def intro: find_self)
  have prior: "priorTransfer (w_db w) (ti_idempotencyKey inp) = None"
    using assms(4) by (auto simp: priorTransfer_def split: option.splits)
  have row: "t_referenceNumber (transferRow d inp x y t i r) = Some r" "t_cardId (transferRow d inp x y t i r) = None"
    for d x y t i r by (simp_all add: transferRow_def Let_def)
  show ?thesis
    using assms(1)
    apply (simp add: transferTx_def wp_rules validRequest_def Let_def prior v ids gen_defs)
    apply (rule wp_mono [OF postTransfer_succeeds])
    using assms(3,4) ids by (simp_all add: freshDraws_def row accountExists_def wp_ret split: option.split)
qed

context event_bus begin

lemma executeTransfer_done:
  assumes "validRequest w inp from to" and "accountsOk (w_db w)" and "freshDraws w"
    and "\<forall>k. ti_idempotencyKey inp = Some k \<longrightarrow> findTransferByKey (w_db w) k = None"
  shows "wp (executeTransfer publish inp)
     (\<lambda>t w'. transferOutcome w inp t (w_db w')) (\<lambda>e w'. \<exists>t. transferOutcome w inp t (w_db w')) w"
proof -
  have n: "isInteger (ti_amount inp)" "0 < intOf (ti_amount inp)" "intOf (ti_amount inp) \<le> PER_TRANSACTION_MAX_MINOR"
    using assms(1) by (simp_all add: validRequest_def Let_def)
  have tx: "wp (transferTx inp)
     (\<lambda>(t, evs) w'. (case priorTransfer (w_db w) (ti_idempotencyKey inp) of
           Some t0 \<Rightarrow> t = t0 \<and> evs = [] \<and> w_db w' = w_db w
         | None \<Rightarrow> evs = [moneyMoved t] \<and> executed (w_tz w) (w_db w) (w_clock w (w_clockN w)) inp t (w_db w')))
     (\<lambda>_ _. False) w"
    by (rule wp_mono [OF wp_conj [OF transferTx_spec [OF assms(2) n(2)] transferTx_succeeds [OF assms]]]) auto
  have prior: "priorTransfer (w_db w) (ti_idempotencyKey inp) = None"
    using assms(4) by (auto simp: priorTransfer_def split: option.splits)
  have "wp (transaction (transferTx inp))
     (\<lambda>(t, evs). wp (thn (publishAll publish evs) (ret t))
        (\<lambda>t w'. transferOutcome w inp t (w_db w')) (\<lambda>e w'. \<exists>t. transferOutcome w inp t (w_db w')))
     (\<lambda>e w'. \<exists>t. transferOutcome w inp t (w_db w')) w"
    unfolding wp_transaction
    by (rule wp_mono [OF tx])
      (auto simp: wp_rules prior intro!: wp_publishAll; metis transferOutcomeI(1) prior)+
  with assms(1) n show ?thesis
    by (auto simp: executeTransfer_def wp_rules validRequest_def Let_def case_prod_unfold numLe_isInteger numGt_isInteger)
qed

end

section \<open>The faucet\<close>

lemma faucetOutcome_books:
  assumes "faucetOutcome w inp t d'" and "booksOk (w_db w)"
  shows "booksOk d' \<and> drift d' i = drift (w_db w) i \<and> totalBalance d' = totalBalance (w_db w)
            + (if priorTransfer (w_db w) (fi_idempotencyKey inp) = None then intOf (fi_amount inp) else 0)"
proof (cases "priorTransfer (w_db w) (fi_idempotencyKey inp)")
  case None
  with assms(1) obtain d1 to where p: "depositedTransfer (w_db w) d1 t to" "t_amount t = intOf (fi_amount inp)"
    and v: "bankView d' = bankView d1"
    unfolding faucetOutcome_def deposited_def None option.case by blast
  then show ?thesis
    using depositedTransfer_books [OF p(1) assms(2)] booksOk_view [OF v] None by simp
next
  case (Some t0)
  with assms(1) have v: "bankView d' = bankView (w_db w)" unfolding faucetOutcome_def by simp
  then show ?thesis using booksOk_view [OF v] Some assms(2) by simp
qed

section \<open>Settling\<close>

lemma settleOne_pending:
  assumes "findTransferById (w_db w) (t_id t) = Some t" and "t_status t = Pending"
  shows "wp (settleOne t) (\<lambda>ev _. ev \<noteq> None) (\<lambda>_ _. True) w"
  using assms
  by (auto simp: settleOne_def wp_rules settlePending_def postLegs_def insertEntry_def insertLedger_def
      split: option.splits sum.splits)

lemma settleOne_settles:
  assumes "findTransferById (w_db w) (t_id t) = Some t" and "t_status t = Pending"
  shows "wp (settleOne t) (\<lambda>_ w'. \<exists>now from to. settledTransfer (w_db w) (w_db w') t now from to)
     (\<lambda>_ w'. w_db w' = w_db w) w"
proof -
  have "cur = t" if "settledTransfer (w_db w) d cur now from to" "t_id cur = t_id t" for d cur now "from" to
    using that assms(1) by (auto simp: settledTransfer_def)
  then show ?thesis
    by (intro wp_mono [OF wp_conj [OF settleOne_spec settleOne_pending [OF assms]]]) blast+
qed

end
