(* ===== verification/BillOps.thy ===== *)
theory BillOps
  imports PaymentFacts
begin

text \<open>
  Bills: \<open>payBill\<close> and the saved bill accounts (\<open>contexts/bills/application\<close>).
\<close>

definition PER_BILL_MAX_MINOR :: int where
  "PER_BILL_MAX_MINOR = 50000000"

record bill_input =
  bi_fromAccountId :: string
  bi_billerId :: string
  bi_amount :: number
  bi_currency :: currency
  bi_customerRef :: "string option"
  bi_idempotencyKey :: "string option"
  bi_ownerUserId :: string

definition billRow :: "db \<Rightarrow> bill_input \<Rightarrow> biller \<Rightarrow> account \<Rightarrow> account \<Rightarrow> int \<Rightarrow> string \<Rightarrow> string \<Rightarrow> transfer" where
  "billRow d inp bl from to now tid ref =
     \<lparr>t_id = tid, t_idempotencyKey = bi_idempotencyKey inp, t_fromAccountId = Some (acc_id from),
      t_toAccountId = Some (acc_id to), t_amount = intOf (bi_amount inp), t_currency = bi_currency inp,
      t_memo = bi_customerRef inp, t_kind = KTransfer, t_status = Posted, t_rail = Internal, t_utr = None,
      t_failureReason = None, t_postedAt = now, t_referenceNumber = Some ref, t_fee = 0,
      t_category = Some CBill, t_fromAccountNumber = Some (acc_number from),
      t_toAccountNumber = Some (acc_number to), t_fromUsername = usernameOf d (acc_userId from),
      t_toUsername = Some (bl_name bl),
      t_description = Some (bl_name bl @ '' bill payment'' @
        (if truthy (bi_customerRef inp) then '' ('' @ the (bi_customerRef inp) @ '')'' else [])),
      t_billerId = Some (bl_id bl), t_cardId = None\<rparr>"

definition billPaid :: "bill_input \<Rightarrow> account \<Rightarrow> transfer \<Rightarrow> event" where
  "billPaid inp from t = BillEv (BillPaid (t_id t) (bi_billerId inp) (acc_id from) (acc_userId from)
     (t_amount t) (t_currency t) (bi_customerRef inp) (t_postedAt t))"

definition payBillTx :: "bill_input \<Rightarrow> (transfer \<times> event list) op" where
  "payBillTx inp =
     bnd (dbGet (\<lambda>d. priorTransfer d (bi_idempotencyKey inp))) (\<lambda>prior.
     case prior of Some t \<Rightarrow> ret (t, []) | None \<Rightarrow>
     bnd (dbGet (\<lambda>d. findBillerById d (bi_billerId inp))) (\<lambda>b.
     bnd (need b (Bil BillerNotFoundError)) (\<lambda>biller.
     thn (throwIf (\<not> bl_active biller) (Bil BillerInactiveError))
    (bnd (dbGet (\<lambda>d. findAccountById d (bi_fromAccountId inp))) (\<lambda>x.
     bnd (need x (Acc AccountNotFoundError)) (\<lambda>from.
     bnd (dbGet (\<lambda>d. findAccountByNumber d (bl_accountNumber biller))) (\<lambda>y.
     bnd (need y (Acc AccountNotFoundError)) (\<lambda>to.
     bnd clockNow (\<lambda>now.
     bnd (lift (debit from (intOf (bi_amount inp)) (bi_currency inp) now)) (\<lambda>debited.
     bnd (lift (credit to (intOf (bi_amount inp)) (bi_currency inp) now)) (\<lambda>credited.
     bnd uuid (\<lambda>tid.
     bnd transactionReference (\<lambda>ref.
     bnd (dbGet (\<lambda>d. billRow d inp biller from to now tid ref)) (\<lambda>t.
     thn (postTransfer t debited credited)
         (ret (t, [moneyMoved t, billPaid inp from t]))))))))))))))))"

definition payBill :: "bus \<Rightarrow> bill_input \<Rightarrow> transfer op" where
  "payBill bus inp =
     thn (throwIf (numLe (bi_amount inp) 0 \<or> \<not> isInteger (bi_amount inp)) (Pay TransferAmountInvalidError))
    (thn (throwIf (numGt (bi_amount inp) PER_BILL_MAX_MINOR) (Pay (TransferOverLimitError PER_BILL_MAX_MINOR)))
    (thn (assertBankingAccess (bi_ownerUserId inp))
    (bnd (transaction (payBillTx inp)) (\<lambda>(t, evs).
     thn (publishAll bus evs) (ret t)))))"

section \<open>Saved bill accounts\<close>

definition saveBillAccount :: "string \<Rightarrow> string \<Rightarrow> string \<Rightarrow> string \<Rightarrow> saved_bill_account op" where
  "saveBillAccount userId billerId customerRef nickname =
     bnd (dbGet (\<lambda>d. findBillerById d billerId)) (\<lambda>b.
     thn (throwIf (case b of None \<Rightarrow> True | Some x \<Rightarrow> \<not> bl_active x) (Bil BillerNotFoundError))
    (bnd uuid (\<lambda>i.
     bnd clockNow (\<lambda>now.
     bnd (lift (createSavedBillAccount i userId billerId customerRef nickname now)) (\<lambda>row.
     thn (insertSavedBill row) (ret row))))))"

definition removeSavedBillAccount :: "string \<Rightarrow> string \<Rightarrow> unit op" where
  "removeSavedBillAccount userId i =
     bnd (dbGet (\<lambda>d. findSavedBillById d i)) (\<lambda>x.
     thn (throwIf (case x of None \<Rightarrow> True | Some r \<Rightarrow> sb_userId r \<noteq> userId) (Bil BillerNotFoundError))
         (deleteSavedBill i))"

section \<open>What a bill payment does\<close>

lemma billRow_simps [simp]:
  "t_id (billRow d inp bl a b now tid ref) = tid"
  "t_idempotencyKey (billRow d inp bl a b now tid ref) = bi_idempotencyKey inp"
  "t_fromAccountId (billRow d inp bl a b now tid ref) = Some (acc_id a)"
  "t_toAccountId (billRow d inp bl a b now tid ref) = Some (acc_id b)"
  "t_amount (billRow d inp bl a b now tid ref) = intOf (bi_amount inp)"
  "t_currency (billRow d inp bl a b now tid ref) = bi_currency inp"
  "t_kind (billRow d inp bl a b now tid ref) = KTransfer"
  "t_status (billRow d inp bl a b now tid ref) = Posted"
  "t_postedAt (billRow d inp bl a b now tid ref) = now"
  "t_billerId (billRow d inp bl a b now tid ref) = Some (bl_id bl)"
  by (simp_all add: billRow_def)

text \<open>
  The account of an active biller received the amount. Nothing makes it differ from the account that
  paid.
\<close>

definition billPaidFrom :: "db \<Rightarrow> bill_input \<Rightarrow> transfer \<Rightarrow> db \<Rightarrow> bool" where
  "billPaidFrom d inp t d' \<longleftrightarrow> (\<exists>bl from to. findBillerById d (bi_billerId inp) = Some bl \<and> bl_active bl
     \<and> findAccountByNumber d (bl_accountNumber bl) = Some to \<and> acc_id from = bi_fromAccountId inp
     \<and> postedTransfer d d' t from to \<and> t_amount t = intOf (bi_amount inp) \<and> t_billerId t = Some (bl_id bl))"

lemma billPaid_quiet [simp]: "\<not> isKycApproved (billPaid inp a t)"
  by (simp add: billPaid_def isKycApproved_def)

lemma payBillTx_spec:
  assumes "accountsOk (w_db w)" and "0 < intOf (bi_amount inp)"
  shows "wp (payBillTx inp)
     (\<lambda>(t, evs) w'. (\<forall>e \<in> set evs. \<not> isKycApproved e) \<and>
        (case priorTransfer (w_db w) (bi_idempotencyKey inp) of
           Some t0 \<Rightarrow> t = t0 \<and> w_db w' = w_db w
         | None \<Rightarrow> billPaidFrom (w_db w) inp t (w_db w')))
     (\<lambda>_ _. True) w"
proof (cases "priorTransfer (w_db w) (bi_idempotencyKey inp)")
  case (Some t0)
  then show ?thesis by (simp add: payBillTx_def wp_rules)
next
  case None
  then show ?thesis
    using assms
    apply (simp add: payBillTx_def wp_rules gen_defs split: option.splits sum.splits)
    apply (intro allI impI conjI)
    subgoal for bl src dst a b
      by (rule wp_postTransfer [of _ src dst])
        (auto simp: wp_rules billPaidFrom_def findByNumber_find
          dest: findAccountById_id intro: find_self)
    done
qed

definition billOutcome :: "world \<Rightarrow> bill_input \<Rightarrow> transfer \<Rightarrow> db \<Rightarrow> bool" where
  "billOutcome w inp t d' \<longleftrightarrow>
     (case priorTransfer (w_db w) (bi_idempotencyKey inp) of
        Some t0 \<Rightarrow> t = t0 \<and> bankView d' = bankView (w_db w)
      | None \<Rightarrow> \<exists>d1. billPaidFrom (w_db w) inp t d1 \<and> bankView d' = bankView d1)"

lemma billOutcomeI:
  "case priorTransfer (w_db w) (bi_idempotencyKey inp) of
     Some t0 \<Rightarrow> t = t0 \<and> d1 = w_db w | None \<Rightarrow> billPaidFrom (w_db w) inp t d1 \<Longrightarrow>
   bankView d' = bankView d1 \<Longrightarrow> billOutcome w inp t d'"
  by (auto simp: billOutcome_def split: option.splits)

context event_bus begin

lemma payBill_wp:
  assumes "accountsOk (w_db w)"
  shows "wp (payBill publish inp)
     (\<lambda>t w'. 0 < intOf (bi_amount inp) \<and> billOutcome w inp t (w_db w'))
     (\<lambda>e w'. w_db w' = w_db w \<or> (0 < intOf (bi_amount inp) \<and> (\<exists>t. billOutcome w inp t (w_db w')))) w"
proof (cases "numLe (bi_amount inp) 0 \<or> \<not> isInteger (bi_amount inp)")
  case True
  then show ?thesis by (simp add: payBill_def wp_rules)
next
  case False
  then have amount: "0 < intOf (bi_amount inp)" by (auto simp: numLe_isInteger)
  have "wp (transaction (payBillTx inp))
     (\<lambda>(t, evs). wp (thn (publishAll publish evs) (ret t))
        (\<lambda>t w'. billOutcome w inp t (w_db w')) (\<lambda>e w'. w_db w' = w_db w \<or> (\<exists>t. billOutcome w inp t (w_db w'))))
     (\<lambda>e w'. w_db w' = w_db w \<or> (\<exists>t. billOutcome w inp t (w_db w'))) w"
    unfolding wp_transaction
  proof (rule wp_mono [OF payBillTx_spec [OF assms amount]])
    fix x and s :: world
    assume x: "(case x of (t, evs) \<Rightarrow> \<lambda>w'. (\<forall>e \<in> set evs. \<not> isKycApproved e) \<and>
        (case priorTransfer (w_db w) (bi_idempotencyKey inp) of
           Some t0 \<Rightarrow> t = t0 \<and> w_db w' = w_db w | None \<Rightarrow> billPaidFrom (w_db w) inp t (w_db w'))) s"
    then have "billOutcome w inp (fst x) d'" if "bankView d' = bankView (w_db s)" for d'
      by (intro billOutcomeI [OF _ that]) (auto simp: case_prod_unfold)
    with x show "(case x of (t, evs) \<Rightarrow> wp (thn (publishAll publish evs) (ret t))
        (\<lambda>t w'. billOutcome w inp t (w_db w')) (\<lambda>e w'. w_db w' = w_db w \<or> (\<exists>t. billOutcome w inp t (w_db w')))) s"
      by (auto simp: case_prod_unfold wp_rules intro!: wp_publishAll)
  qed simp
  with False amount show ?thesis
    by (auto simp: payBill_def wp_rules case_prod_unfold split: sum.splits)
qed

end

text \<open>The effect on the books; the total is conserved unless the biller's account paid itself.\<close>

lemma billPaidFrom_money:
  assumes "billPaidFrom d inp t d'" and "booksOk d"
  shows "booksOk d' \<and> totalBalance d' = totalBalance d
     + (if t_fromAccountId t = t_toAccountId t then intOf (bi_amount inp) else 0)"
proof -
  obtain "from" to where p: "postedTransfer d d' t from to" "t_amount t = intOf (bi_amount inp)"
    using assms(1) unfolding billPaidFrom_def by blast
  then have "t_fromAccountId t = Some (acc_id from)" "t_toAccountId t = Some (acc_id to)"
    by (simp_all add: postedTransfer_def)
  moreover have "accountsOk d" using assms(2) by (simp add: booksOk_def)
  ultimately show ?thesis
    using p(2) postedTransfer_books [OF p(1) assms(2)] postedTransfer_total [OF p(1)] by simp
qed

lemma saveBillAccount_wp:
  "wp (saveBillAccount u b ref nick)
     (\<lambda>r w'. sb_userId r = u \<and> sb_billerId r = b \<and> sb_customerRef r \<noteq> [] \<and> sb_nickname r \<noteq> []
        \<and> (\<exists>x. findBillerById (w_db w) b = Some x \<and> bl_active x)
        \<and> w_db w' = (w_db w)\<lparr>db_savedBills := db_savedBills (w_db w) @ [r]\<rparr>)
     (\<lambda>_ w'. w_db w' = w_db w) w"
  by (auto simp: saveBillAccount_def wp_rules insertSavedBill_def createSavedBillAccount_def andThen_Inr_iff Let_def
      split: option.splits sum.splits)

lemma removeSavedBillAccount_wp:
  "wp (removeSavedBillAccount u i)
     (\<lambda>_ w'. (\<exists>r. findSavedBillById (w_db w) i = Some r \<and> sb_userId r = u) \<and> findSavedBillById (w_db w') i = None)
     (\<lambda>e w'. w_db w' = w_db w \<and> e = Bil BillerNotFoundError) w"
  by (auto simp: removeSavedBillAccount_def wp_rules deleteSavedBill_def findSavedBillById_def find_None_iff
      split: option.splits)

section \<open>Properties\<close>

text \<open>
  The effect of a new payment: the amount went from the account named in the request to the account whose number
  the active biller has, no other balance changed, and the payment is recorded under the biller. When the biller
  pays itself nothing is taken away, and the total grows.
\<close>

definition billEffect :: "db \<Rightarrow> bill_input \<Rightarrow> transfer \<Rightarrow> db \<Rightarrow> bool" where
  "billEffect d inp t d' \<longleftrightarrow>
     (\<exists>bl to. findBillerById d (bi_billerId inp) = Some bl \<and> bl_active bl \<and> t_billerId t = Some (bl_id bl)
        \<and> findAccountByNumber d (bl_accountNumber bl) = Some to \<and> t_toAccountId t = Some (acc_id to)
        \<and> (bi_fromAccountId inp \<noteq> acc_id to \<longrightarrow> movedMoney d d' (bi_fromAccountId inp) (acc_id to) (intOf (bi_amount inp))))
     \<and> t_fromAccountId t = Some (bi_fromAccountId inp) \<and> 0 < t_amount t \<and> t_amount t = intOf (bi_amount inp)
     \<and> findTransferById d (t_id t) = None \<and> findTransferById d' (t_id t) = Some t
     \<and> booksOk d'
     \<and> totalBalance d' = totalBalance d + (if t_fromAccountId t = t_toAccountId t then t_amount t else 0)"

lemma billOutcome_effect:
  assumes "billOutcome w inp t d'" and "booksOk (w_db w)" and "priorTransfer (w_db w) (bi_idempotencyKey inp) = None"
    and "0 < intOf (bi_amount inp)"
  shows "billEffect (w_db w) inp t d'"
proof -
  obtain d1 where p: "billPaidFrom (w_db w) inp t d1" and v: "bankView d' = bankView d1"
    using assms(1) unfolding billOutcome_def assms(3) option.case by blast
  then obtain bl "from" to where b: "findBillerById (w_db w) (bi_billerId inp) = Some bl" "bl_active bl"
    "findAccountByNumber (w_db w) (bl_accountNumber bl) = Some to" "acc_id from = bi_fromAccountId inp"
    "t_amount t = intOf (bi_amount inp)" "t_billerId t = Some (bl_id bl)"
    and q: "postedTransfer (w_db w) d1 t from to"
    unfolding billPaidFrom_def by blast
  have "movedMoney (w_db w) d' (acc_id from) (acc_id to) (t_amount t)" if "acc_id from \<noteq> acc_id to"
    by (rule movedMoney_view [OF v movedMoney_posted [OF q that]])
  moreover have "t_fromAccountId t = Some (acc_id from)" "t_toAccountId t = Some (acc_id to)"
    using q by (simp_all add: postedTransfer_def)
  ultimately show ?thesis
    using b billPaidFrom_money [OF p assms(2)] assms(4) booksOk_view(1,2) [OF v] posted_found [OF q v]
    by (auto simp: billEffect_def)
qed

text \<open>
  C19: A bill payment with a new idempotency key that returns has moved its amount from the account named in the
  request to the account whose number the active biller has, every other balance as it was, and is recorded under
  that biller; the books stay balanced, and the total of all balances is what it was, unless a biller pays its own
  bill: then nothing is taken away. One that throws has done nothing or all of this.
\<close>

theorem payBill_effect:
  assumes "booksOk (w_db w)" and "priorTransfer (w_db w) (bi_idempotencyKey inp) = None"
  shows "wp (payBill (containerPublish sha) inp) (\<lambda>t w'. billEffect (w_db w) inp t (w_db w'))
     (\<lambda>e w'. w_db w' = w_db w \<or> (\<exists>t. billEffect (w_db w) inp t (w_db w'))) w"
proof -
  have "accountsOk (w_db w)" using assms(1) by (simp add: booksOk_def)
  from wp_mono [OF container_bus.payBill_wp [OF this]] show ?thesis
    using billOutcome_effect [OF _ assms] by (metis (mono_tags, lifting))
qed

definition exBill :: bill_input where
  "exBill = \<lparr>bi_fromAccountId = ''a1'', bi_billerId = ''bl1'', bi_amount = JNum 900, bi_currency = INR,
     bi_customerRef = None, bi_idempotencyKey = Some ''k9'', bi_ownerUserId = ''ua''\<rparr>"

theorem payBill_effect_witness:
  "wp (payBill (containerPublish rev) exBill) (\<lambda>t w'. billEffect exDb exBill t (w_db w'))
     (\<lambda>e w'. w_db w' = exDb \<or> (\<exists>t. billEffect exDb exBill t (w_db w'))) (exWorld exDb)"
  using payBill_effect [of "exWorld exDb" exBill rev] by (simp add: exDb_books)

end
