(* ===== verification/CardOps.thy ===== *)
theory CardOps
  imports PaymentFacts
begin

text \<open>
  Debit cards: issue, limits, freezing and cancelling (\<open>contexts/cards/application/manageCards.ts\<close>) and
  \<open>simulateCardSpend\<close>.
\<close>

section \<open>Managing cards\<close>

definition maskedNumber :: "card_network \<Rightarrow> string op" where
  "maskedNumber network = bnd (draw 10000) (\<lambda>n. ret (generateMaskedNumber network n))"

definition issueCard :: "string \<Rightarrow> string \<Rightarrow> card_network option \<Rightarrow> debit_card op" where
  "issueCard ownerUserId accountId network =
     bnd (dbGet (\<lambda>d. findAccountById d accountId)) (\<lambda>x.
     thn (throwIf (case x of None \<Rightarrow> True | Some a \<Rightarrow> acc_userId a \<noteq> ownerUserId) (Acc AccountNotFoundError))
    (bnd (dbGet (\<lambda>d. getKycTier d ownerUserId)) (\<lambda>tier.
     (let l = defaultLimitsForTier tier; net = (case network of None \<Rightarrow> Visa | Some n \<Rightarrow> n) in
      bnd uuid (\<lambda>i.
      bnd clockNow (\<lambda>now.
      bnd (maskedNumber net) (\<lambda>masked.
      (let c = createCard i accountId net now masked (cl_perTxn l) (cl_daily l) (cl_monthly l) in
       thn (insertCard c) (ret c)))))))))"

definition mustOwn :: "string \<Rightarrow> string \<Rightarrow> debit_card op" where
  "mustOwn ownerUserId cardId =
     bnd (dbGet (\<lambda>d. findCardById d cardId)) (\<lambda>x.
     bnd (need x (Crd CardNotFoundError)) (\<lambda>c.
     bnd (dbGet (\<lambda>d. findAccountById d (c_accountId c))) (\<lambda>y.
     thn (throwIf (case y of None \<Rightarrow> True | Some a \<Rightarrow> acc_userId a \<noteq> ownerUserId) (Crd CardNotFoundError))
         (ret c))))"

definition positiveInteger :: "number \<Rightarrow> bool" where
  "positiveInteger n \<longleftrightarrow> isInteger n \<and> \<not> numLe n 0"

definition setCardLimits :: "string \<Rightarrow> string \<Rightarrow> number \<Rightarrow> number \<Rightarrow> number \<Rightarrow> debit_card op" where
  "setCardLimits ownerUserId cardId perTxn daily monthly =
     bnd (mustOwn ownerUserId cardId) (\<lambda>c.
     thn (throwIf (c_status c = CardCancelled)
                  (Crd (CardInvalidStateError (cardStatusName (c_status c)) ''limits update'')))
    (thn (throwIf (\<not> positiveInteger perTxn \<or> \<not> positiveInteger daily \<or> \<not> positiveInteger monthly)
                  (Crd (CardLimitAboveBankMaxError ''limits'')))
    (bnd (dbGet (\<lambda>d. getKycTier d ownerUserId)) (\<lambda>tier.
     (let l = \<lparr>cl_perTxn = intOf perTxn, cl_daily = intOf daily, cl_monthly = intOf monthly\<rparr> in
      case validateLimitsAgainstBankMax l tier of
        Some field \<Rightarrow> raise (Crd (CardLimitAboveBankMaxError field))
      | None \<Rightarrow>
         (let c' = c\<lparr>c_perTxnLimit := cl_perTxn l, c_dailyLimit := cl_daily l, c_monthlyLimit := cl_monthly l\<rparr> in
          thn (updateCard c') (ret c')))))))"

definition freezeCard :: "string \<Rightarrow> string \<Rightarrow> debit_card op" where
  "freezeCard ownerUserId cardId =
     bnd (mustOwn ownerUserId cardId) (\<lambda>c.
     thn (throwIf (c_status c = CardCancelled) (Crd (CardInvalidStateError (cardStatusName (c_status c)) ''frozen'')))
    (if c_status c = CardFrozen then ret c else
     bnd clockNow (\<lambda>now.
     (let c' = c\<lparr>c_status := CardFrozen, c_frozenAt := Some now\<rparr> in thn (updateCard c') (ret c')))))"

definition unfreezeCard :: "string \<Rightarrow> string \<Rightarrow> debit_card op" where
  "unfreezeCard ownerUserId cardId =
     bnd (mustOwn ownerUserId cardId) (\<lambda>c.
     thn (throwIf (c_status c = CardCancelled) (Crd (CardInvalidStateError (cardStatusName (c_status c)) ''active'')))
    (if c_status c = CardActive then ret c else
     (let c' = c\<lparr>c_status := CardActive, c_frozenAt := None\<rparr> in thn (updateCard c') (ret c'))))"

definition cancelCard :: "string \<Rightarrow> string \<Rightarrow> debit_card op" where
  "cancelCard ownerUserId cardId =
     bnd (mustOwn ownerUserId cardId) (\<lambda>c.
     if c_status c = CardCancelled then ret c else
     bnd clockNow (\<lambda>now.
     (let c' = c\<lparr>c_status := CardCancelled, c_cancelledAt := Some now\<rparr> in thn (updateCard c') (ret c'))))"

section \<open>Spending\<close>

definition CARD_MERCHANT_BILLER_NAME :: string where
  "CARD_MERCHANT_BILLER_NAME = ''Card Merchant Settlement''"

record spend_input =
  ci_ownerUserId :: string
  ci_cardId :: string
  ci_amount :: number
  ci_currency :: currency
  ci_merchantName :: "string option"
  ci_idempotencyKey :: "string option"

text \<open>\<open>input.merchantName?.trim() || "Card merchant"\<close>.\<close>

definition merchantLabel :: "string option \<Rightarrow> string" where
  "merchantLabel m = (case m of None \<Rightarrow> ''Card merchant''
     | Some s \<Rightarrow> if trim s = [] then ''Card merchant'' else trim s)"

definition spendRow :: "db \<Rightarrow> spend_input \<Rightarrow> account \<Rightarrow> account \<Rightarrow> int \<Rightarrow> string \<Rightarrow> string \<Rightarrow> transfer" where
  "spendRow d inp from to now tid ref =
     \<lparr>t_id = tid, t_idempotencyKey = ci_idempotencyKey inp, t_fromAccountId = Some (acc_id from),
      t_toAccountId = Some (acc_id to), t_amount = intOf (ci_amount inp), t_currency = ci_currency inp,
      t_memo = ci_merchantName inp, t_kind = KTransfer, t_status = Posted, t_rail = Internal, t_utr = None,
      t_failureReason = None, t_postedAt = now, t_referenceNumber = Some ref, t_fee = 0,
      t_category = Some CCard, t_fromAccountNumber = Some (acc_number from),
      t_toAccountNumber = Some (acc_number to), t_fromUsername = usernameOf d (acc_userId from),
      t_toUsername = Some (merchantLabel (ci_merchantName inp)),
      t_description = Some (''Card payment to '' @ merchantLabel (ci_merchantName inp)),
      t_billerId = None, t_cardId = Some (ci_cardId inp)\<rparr>"

text \<open>The limit check and the errors it becomes.\<close>

definition cardLimitError :: "int \<Rightarrow> db \<Rightarrow> debit_card \<Rightarrow> int \<Rightarrow> int \<Rightarrow> error option" where
  "cardLimitError tz d c n now =
     (let r = checkCardLimits tz d (c_id c) n
                \<lparr>cl_perTxn = c_perTxnLimit c, cl_daily = c_dailyLimit c, cl_monthly = c_monthlyLimit c\<rparr> now in
      if cc_allowed r then None
      else if cc_reason r = Some ''Per-transaction card limit exceeded'' then Some (Crd CardPerTxnLimitError)
      else Some (Crd (CardLimitExceededError
              (case cc_reason r of None \<Rightarrow> ''Card limit exceeded'' | Some s \<Rightarrow> s))))"

definition spendTx :: "spend_input \<Rightarrow> account \<Rightarrow> account \<Rightarrow> int \<Rightarrow> (transfer \<times> event list) op" where
  "spendTx inp from to now =
     bnd (dbGet (\<lambda>d. priorTransfer d (ci_idempotencyKey inp))) (\<lambda>prior.
     case prior of Some t \<Rightarrow> ret (t, []) | None \<Rightarrow>
     bnd (dbGet (\<lambda>d. findAccountById d (acc_id from))) (\<lambda>x.
     bnd (dbGet (\<lambda>d. findAccountByNumber d (acc_number to))) (\<lambda>y.
     bnd (need x (Acc AccountNotFoundError)) (\<lambda>fromAcc.
     bnd (need y (Acc AccountNotFoundError)) (\<lambda>toAcc.
     bnd (lift (debit fromAcc (intOf (ci_amount inp)) (ci_currency inp) now)) (\<lambda>debited.
     bnd (lift (credit toAcc (intOf (ci_amount inp)) (ci_currency inp) now)) (\<lambda>credited.
     bnd uuid (\<lambda>tid.
     bnd transactionReference (\<lambda>ref.
     bnd (dbGet (\<lambda>d. spendRow d inp fromAcc toAcc now tid ref)) (\<lambda>t.
     thn (postTransfer t debited credited)
         (ret (t, [moneyMoved t]))))))))))))"

definition cardSpent :: "spend_input \<Rightarrow> string \<Rightarrow> int \<Rightarrow> event" where
  "cardSpent inp tid now = CardEv (CardSpent (ci_cardId inp) (ci_ownerUserId inp) tid (intOf (ci_amount inp))
     (ci_currency inp) (merchantLabel (ci_merchantName inp)) now)"

definition simulateCardSpend :: "bus \<Rightarrow> spend_input \<Rightarrow> transfer op" where
  "simulateCardSpend bus inp =
     thn (throwIf (numLe (ci_amount inp) 0 \<or> \<not> isInteger (ci_amount inp)) (Pay TransferAmountInvalidError))
    (thn (assertBankingAccess (ci_ownerUserId inp))
    (bnd (dbGet (\<lambda>d. findCardById d (ci_cardId inp))) (\<lambda>x.
     bnd (need x (Crd CardNotFoundError)) (\<lambda>card.
     bnd (dbGet (\<lambda>d. findAccountById d (c_accountId card))) (\<lambda>y.
     thn (throwIf (case y of None \<Rightarrow> True | Some a \<Rightarrow> acc_userId a \<noteq> ci_ownerUserId inp) (Crd CardNotFoundError))
    (thn (throwIf (c_status card \<noteq> CardActive) (Crd (CardInvalidStateError (cardStatusName (c_status card)) ''spend'')))
    (bnd (dbGet (\<lambda>d. List.find (\<lambda>b. bl_name b = CARD_MERCHANT_BILLER_NAME) (listAllBillers d))) (\<lambda>z.
     thn (throwIf (case z of None \<Rightarrow> True | Some m \<Rightarrow> \<not> bl_active m) (Crd CardMerchantNotConfiguredError))
    (bnd (dbGet (\<lambda>d. findAccountByNumber d (bl_accountNumber (the z)))) (\<lambda>v.
     bnd (need v (Crd CardMerchantNotConfiguredError)) (\<lambda>to.
     bnd clockNow (\<lambda>now.
     bnd (gets w_tz) (\<lambda>tz.
     bnd (dbGet (\<lambda>d. cardLimitError tz d card (intOf (ci_amount inp)) now)) (\<lambda>overLimit.
     thn (case overLimit of None \<Rightarrow> ret () | Some e \<Rightarrow> raise e)
    (bnd (transaction (spendTx inp (the y) to now)) (\<lambda>(t, evs).
     thn (publishAll bus (if evs = [] then [] else evs @ [cardSpent inp (t_id t) now]))
         (ret t)))))))))))))))))"

section \<open>What the card operations do\<close>

definition ownsCard :: "db \<Rightarrow> string \<Rightarrow> debit_card \<Rightarrow> bool" where
  "ownsCard d u c \<longleftrightarrow> (case findAccountById d (c_accountId c) of None \<Rightarrow> False | Some a \<Rightarrow> acc_userId a = u)"

lemma wp_mustOwn [wp_rules]:
  "wp (mustOwn u i) Q E w =
     (case findCardById (w_db w) i of
        None \<Rightarrow> E (Crd CardNotFoundError) w
      | Some c \<Rightarrow> if ownsCard (w_db w) u c then Q c w else E (Crd CardNotFoundError) w)"
  by (auto simp: mustOwn_def wp_rules ownsCard_def split: option.splits)

text \<open>
  An operation on one card: it is owned, its status moves from one of \<open>before\<close> to \<open>after\<close>, its limits stay,
  and no other row of the database changes.
\<close>

definition cardMoved :: "db \<Rightarrow> db \<Rightarrow> string \<Rightarrow> string \<Rightarrow> card_status set \<Rightarrow> card_status \<Rightarrow> bool" where
  "cardMoved d d' u i before after \<longleftrightarrow> (\<exists>c c'. findCardById d i = Some c \<and> ownsCard d u c \<and> c_status c \<in> before
     \<and> findCardById d' i = Some c' \<and> c_status c' = after
     \<and> c_perTxnLimit c' = c_perTxnLimit c \<and> c_dailyLimit c' = c_dailyLimit c \<and> c_monthlyLimit c' = c_monthlyLimit c
     \<and> d'\<lparr>db_cards := []\<rparr> = d\<lparr>db_cards := []\<rparr> \<and> (\<forall>j. j \<noteq> i \<longrightarrow> findCardById d' j = findCardById d j))"

lemma cardMoved_same:
  "findCardById d i = Some c \<Longrightarrow> ownsCard d u c \<Longrightarrow> c_status c = st \<Longrightarrow> st \<in> B \<Longrightarrow> cardMoved d d u i B st"
  by (auto simp: cardMoved_def)

lemma cardMoved_update:
  assumes "findCardById d i = Some c" and "ownsCard d u c" and "c_status c \<in> B" and "c_id c' = c_id c"
    and "c_perTxnLimit c' = c_perTxnLimit c" and "c_dailyLimit c' = c_dailyLimit c"
    and "c_monthlyLimit c' = c_monthlyLimit c"
  shows "cardMoved d (cardUpdateRow c' d) u i B (c_status c')"
proof -
  have "i = c_id c'" using cards.find_id [OF assms(1)] assms(4) by simp
  with cards.read_your_write [of d c' c] assms cards.upd_other [of _ c' d] show ?thesis
    by (auto simp: cardMoved_def cardSet_def cardUpdateRow_def)
qed

lemma freezeCard_wp:
  "wp (freezeCard u i) (\<lambda>_ w'. cardMoved (w_db w) (w_db w') u i (- {CardCancelled}) CardFrozen)
     (\<lambda>_ w'. w_db w' = w_db w) w"
  by (auto simp: freezeCard_def wp_rules updateCard_def Let_def split: option.splits card_status.splits
      intro: cardMoved_same cardMoved_update [where c' = "_\<lparr>c_status := CardFrozen, c_frozenAt := _\<rparr>", simplified])

lemma unfreezeCard_wp:
  "wp (unfreezeCard u i) (\<lambda>_ w'. cardMoved (w_db w) (w_db w') u i (- {CardCancelled}) CardActive)
     (\<lambda>_ w'. w_db w' = w_db w) w"
  by (auto simp: unfreezeCard_def wp_rules updateCard_def Let_def split: option.splits card_status.splits
      intro: cardMoved_same cardMoved_update [where c' = "_\<lparr>c_status := CardActive, c_frozenAt := _\<rparr>", simplified])

lemma cancelCard_wp:
  "wp (cancelCard u i) (\<lambda>_ w'. cardMoved (w_db w) (w_db w') u i UNIV CardCancelled)
     (\<lambda>_ w'. w_db w' = w_db w) w"
  by (auto simp: cancelCard_def wp_rules updateCard_def Let_def split: option.splits card_status.splits
      intro: cardMoved_same cardMoved_update [where c' = "_\<lparr>c_status := CardCancelled, c_cancelledAt := _\<rparr>", simplified])

text \<open>The limits of every card are ordered, whatever its owner sets them to.\<close>

definition cardLimitsOrdered :: "db \<Rightarrow> bool" where
  "cardLimitsOrdered d \<longleftrightarrow> (\<forall>c \<in> set (db_cards d). 0 < c_perTxnLimit c \<and> c_perTxnLimit c \<le> c_dailyLimit c
     \<and> c_dailyLimit c \<le> c_monthlyLimit c)"

lemma set_cardUpdate: "x \<in> set (db_cards (cardUpdateRow c d)) \<Longrightarrow>
   x \<in> set (db_cards d) \<or> (\<exists>r \<in> set (db_cards d). c_id r = c_id c \<and> x = cardSet c r)"
  by (auto simp: cardUpdateRow_def set_updateWhere)

lemma validLimits_ordered:
  "validateLimitsAgainstBankMax l tier = None \<Longrightarrow> cl_perTxn l \<le> cl_daily l \<and> cl_daily l \<le> cl_monthly l"
  by (auto simp: validateLimitsAgainstBankMax_def Let_def split: if_splits)

lemma setCardLimits_wp:
  "wp (setCardLimits u i p dl m)
     (\<lambda>c' w'. positiveInteger p \<and> positiveInteger dl \<and> positiveInteger m
        \<and> validateLimitsAgainstBankMax \<lparr>cl_perTxn = intOf p, cl_daily = intOf dl, cl_monthly = intOf m\<rparr>
            (getKycTier (w_db w) u) = None
        \<and> (\<exists>c. findCardById (w_db w) i = Some c \<and> ownsCard (w_db w) u c \<and> c_status c \<noteq> CardCancelled
             \<and> c' = c\<lparr>c_perTxnLimit := intOf p, c_dailyLimit := intOf dl, c_monthlyLimit := intOf m\<rparr>)
        \<and> w_db w' = cardUpdateRow c' (w_db w))
     (\<lambda>_ w'. w_db w' = w_db w) w"
  by (auto simp: setCardLimits_def wp_rules updateCard_def Let_def split: option.splits)

lemma setCardLimits_ordered:
  assumes "cardLimitsOrdered (w_db w)"
  shows "wp (setCardLimits u i p dl m) (\<lambda>_ w'. cardLimitsOrdered (w_db w')) (\<lambda>_ w'. cardLimitsOrdered (w_db w')) w"
proof (rule wp_mono [OF setCardLimits_wp])
  fix c' and s :: world
  assume "positiveInteger p \<and> positiveInteger dl \<and> positiveInteger m
        \<and> validateLimitsAgainstBankMax \<lparr>cl_perTxn = intOf p, cl_daily = intOf dl, cl_monthly = intOf m\<rparr>
            (getKycTier (w_db w) u) = None
        \<and> (\<exists>c. findCardById (w_db w) i = Some c \<and> ownsCard (w_db w) u c \<and> c_status c \<noteq> CardCancelled
             \<and> c' = c\<lparr>c_perTxnLimit := intOf p, c_dailyLimit := intOf dl, c_monthlyLimit := intOf m\<rparr>)
        \<and> w_db s = cardUpdateRow c' (w_db w)"
  then have "0 < c_perTxnLimit c'" "c_perTxnLimit c' \<le> c_dailyLimit c'" "c_dailyLimit c' \<le> c_monthlyLimit c'"
    and s: "w_db s = cardUpdateRow c' (w_db w)"
    by (auto dest!: validLimits_ordered simp: positiveInteger_def numLe_isInteger)
  with assms show "cardLimitsOrdered (w_db s)"
    unfolding s by (auto simp: cardLimitsOrdered_def cardSet_def dest!: set_cardUpdate)
qed (use assms in simp)

lemma issueCard_wp:
  "wp (issueCard u a net)
     (\<lambda>c w'. (\<exists>x. findAccountById (w_db w) a = Some x \<and> acc_userId x = u) \<and> c_accountId c = a \<and> c_status c = CardActive
        \<and> findCardById (w_db w) (c_id c) = None
        \<and> \<lparr>cl_perTxn = c_perTxnLimit c, cl_daily = c_dailyLimit c, cl_monthly = c_monthlyLimit c\<rparr>
            = defaultLimitsForTier (getKycTier (w_db w) u)
        \<and> w_db w' = cardInsertRow c (w_db w))
     (\<lambda>_ w'. w_db w' = w_db w) w"
  by (auto simp: issueCard_def wp_rules insertCard_def maskedNumber_def createCard_def Let_def split: option.splits)

section \<open>What a card payment does\<close>

lemma spendRow_simps [simp]:
  "t_id (spendRow d inp a b now tid ref) = tid"
  "t_idempotencyKey (spendRow d inp a b now tid ref) = ci_idempotencyKey inp"
  "t_fromAccountId (spendRow d inp a b now tid ref) = Some (acc_id a)"
  "t_toAccountId (spendRow d inp a b now tid ref) = Some (acc_id b)"
  "t_amount (spendRow d inp a b now tid ref) = intOf (ci_amount inp)"
  "t_currency (spendRow d inp a b now tid ref) = ci_currency inp"
  "t_kind (spendRow d inp a b now tid ref) = KTransfer"
  "t_status (spendRow d inp a b now tid ref) = Posted"
  "t_postedAt (spendRow d inp a b now tid ref) = now"
  "t_cardId (spendRow d inp a b now tid ref) = Some (ci_cardId inp)"
  "t_category (spendRow d inp a b now tid ref) = Some CCard"
  by (simp_all add: spendRow_def)

text \<open>The account that card payments go to.\<close>

definition settlementAccount :: "db \<Rightarrow> account \<Rightarrow> bool" where
  "settlementAccount d to \<longleftrightarrow> (\<exists>m. List.find (\<lambda>b. bl_name b = CARD_MERCHANT_BILLER_NAME) (listAllBillers d) = Some m
     \<and> bl_active m \<and> findAccountByNumber d (bl_accountNumber m) = Some to)"

text \<open>A payment with an active card of the user, within the limits of the card, from the account of the card.\<close>

definition spentWith :: "int \<Rightarrow> db \<Rightarrow> int \<Rightarrow> spend_input \<Rightarrow> transfer \<Rightarrow> db \<Rightarrow> bool" where
  "spentWith tz d now inp t d' \<longleftrightarrow> (\<exists>c from to. findCardById d (ci_cardId inp) = Some c \<and> c_status c = CardActive
     \<and> ownsCard d (ci_ownerUserId inp) c \<and> cardLimitError tz d c (intOf (ci_amount inp)) now = None
     \<and> settlementAccount d to
     \<and> acc_id from = c_accountId c \<and> postedTransfer d d' t from to \<and> t_amount t = intOf (ci_amount inp)
     \<and> t_cardId t = Some (ci_cardId inp) \<and> t_category t = Some CCard \<and> t_postedAt t = now)"

lemma spendTx_spec:
  assumes "accountsOk (w_db w)" and "findAccountById (w_db w) (acc_id from) = Some from"
    and "findAccountByNumber (w_db w) nr = Some to"
  shows "wp (spendTx inp from to now)
     (\<lambda>(t, evs) w'. (\<forall>e \<in> set evs. \<not> isKycApproved e) \<and>
        (case priorTransfer (w_db w) (ci_idempotencyKey inp) of
           Some t0 \<Rightarrow> t = t0 \<and> w_db w' = w_db w
         | None \<Rightarrow> postedTransfer (w_db w) (w_db w') t from to \<and> t_amount t = intOf (ci_amount inp)
              \<and> t_cardId t = Some (ci_cardId inp) \<and> t_category t = Some CCard \<and> t_postedAt t = now))
     (\<lambda>_ _. True) w"
proof (cases "priorTransfer (w_db w) (ci_idempotencyKey inp)")
  case (Some t0)
  then show ?thesis by (simp add: spendTx_def wp_rules)
next
  case None
  have to: "findAccountById (w_db w) (acc_id to) = Some to" "findAccountByNumber (w_db w) (acc_number to) = Some to"
    using findByNumber_find [OF assms(1,3)] assms(3)
    by (auto simp: findAccountByNumber_def dest: find_Some_iff_mem)
  show ?thesis
    using None assms(2) to
    apply (simp add: spendTx_def wp_rules gen_defs split: option.splits sum.splits)
    apply (intro allI impI conjI)
    subgoal for a b
      by (rule wp_postTransfer [of _ "from" to]) (auto simp: wp_rules)
    done
qed

definition spendOutcome :: "world \<Rightarrow> spend_input \<Rightarrow> transfer \<Rightarrow> db \<Rightarrow> bool" where
  "spendOutcome w inp t d' \<longleftrightarrow>
     (case priorTransfer (w_db w) (ci_idempotencyKey inp) of
        Some t0 \<Rightarrow> t = t0 \<and> bankView d' = bankView (w_db w)
      | None \<Rightarrow> \<exists>d1. spentWith (w_tz w) (w_db w) (w_clock w (w_clockN w)) inp t d1 \<and> bankView d' = bankView d1)"

lemma cardSpent_quiet [simp]: "\<not> isKycApproved (cardSpent inp i now)"
  by (simp add: cardSpent_def isKycApproved_def)

context event_bus begin

lemma simulateCardSpend_wp:
  assumes "accountsOk (w_db w)"
  shows "wp (simulateCardSpend publish inp)
     (\<lambda>t w'. 0 < intOf (ci_amount inp) \<and> spendOutcome w inp t (w_db w'))
     (\<lambda>e w'. w_db w' = w_db w \<or> (0 < intOf (ci_amount inp) \<and> (\<exists>t. spendOutcome w inp t (w_db w')))) w"
  (is "wp _ ?Q ?E w")
proof (cases "numLe (ci_amount inp) 0 \<or> \<not> isInteger (ci_amount inp)")
  case True
  then show ?thesis by (simp add: simulateCardSpend_def wp_rules)
next
  case False
  then have amount: "0 < intOf (ci_amount inp)" by (auto simp: numLe_isInteger)
  let ?w = "w\<lparr>w_clockN := Suc (w_clockN w)\<rparr>"
  have run: "wp (transaction (spendTx inp from to (w_clock w (w_clockN w))))
     (\<lambda>x. wp (case x of (t, evs) \<Rightarrow>
        thn (publishAll publish (if evs = [] then [] else evs @ [cardSpent inp (t_id t) now])) (ret t)) ?Q ?E)
     ?E ?w"
    if c: "findCardById (w_db w) (ci_cardId inp) = Some c" "c_status c = CardActive"
      "findAccountById (w_db w) (c_accountId c) = Some from" "acc_userId from = ci_ownerUserId inp"
      "findAccountByNumber (w_db w) nr = Some to" "settlementAccount (w_db w) to"
      "cardLimitError (w_tz w) (w_db w) c (intOf (ci_amount inp)) (w_clock w (w_clockN w)) = None"
    for c "from" to nr now
    unfolding wp_transaction
  proof (rule wp_mono [OF spendTx_spec])
    fix x and s :: world
    assume x: "(case x of (t, evs) \<Rightarrow> \<lambda>w'. (\<forall>e \<in> set evs. \<not> isKycApproved e) \<and>
        (case priorTransfer (w_db ?w) (ci_idempotencyKey inp) of
           Some t0 \<Rightarrow> t = t0 \<and> w_db w' = w_db ?w
         | None \<Rightarrow> postedTransfer (w_db ?w) (w_db w') t from to \<and> t_amount t = intOf (ci_amount inp)
              \<and> t_cardId t = Some (ci_cardId inp) \<and> t_category t = Some CCard
              \<and> t_postedAt t = w_clock w (w_clockN w))) s"
    have "ownsCard (w_db w) (ci_ownerUserId inp) c" "acc_id from = c_accountId c"
      using c findAccountById_id [OF c(3)] by (simp_all add: ownsCard_def)
    with x c have "spendOutcome w inp (fst x) d'" if "bankView d' = bankView (w_db s)" for d'
      using that by (auto simp: spendOutcome_def spentWith_def case_prod_unfold split: option.splits)
    with x amount show "wp (case x of (t, evs) \<Rightarrow>
        thn (publishAll publish (if evs = [] then [] else evs @ [cardSpent inp (t_id t) now])) (ret t)) ?Q ?E s"
      by (auto simp: case_prod_unfold wp_rules intro!: wp_publishAll)
  qed (use assms c findAccountById_id [OF c(3)] in simp_all)
  show ?thesis
    using False amount run
    by (auto simp: simulateCardSpend_def wp_rules settlementAccount_def split: option.splits sum.splits)
qed

end

section \<open>The limits after a payment\<close>

lemma spentSince_view: "bankView d' = bankView d \<Longrightarrow> spentSince d' c since = spentSince d c since"
  using bankViewD(12) [of d' d] by (simp add: spentSince_def cardRows_def)

lemma spentSince_posted:
  assumes "postedTransfer d d' t from to" and "t_cardId t = Some c" "t_category t = Some CCard"
  shows "spentSince d' c since = spentSince d c since + (if since \<le> t_postedAt t then t_amount t else 0)"
  using assms by (auto simp: postedTransfer_def spentSince_def cardRows_def)

definition withinCardLimits :: "int \<Rightarrow> int \<Rightarrow> debit_card \<Rightarrow> int \<Rightarrow> db \<Rightarrow> bool" where
  "withinCardLimits tz now c n d' \<longleftrightarrow> n \<le> c_perTxnLimit c
     \<and> spentSince d' (c_id c) (startOfDayMs tz now) \<le> c_dailyLimit c
     \<and> spentSince d' (c_id c) (startOfMonthMs tz now) \<le> c_monthlyLimit c"

lemma cardLimitError_None:
  "cardLimitError tz d c n now = None \<longleftrightarrow> n \<le> c_perTxnLimit c
     \<and> spentSince d (c_id c) (startOfDayMs tz now) + n \<le> c_dailyLimit c
     \<and> spentSince d (c_id c) (startOfMonthMs tz now) + n \<le> c_monthlyLimit c"
  by (simp add: cardLimitError_def Let_def checkCardLimits_allowed)

text \<open>
  A new payment is with an active card of the user, from the card's account to that of the merchants, recorded
  under the card so that it counts against the limits from now on, and keeps the card's limits.
\<close>

definition spendEffect :: "world \<Rightarrow> spend_input \<Rightarrow> transfer \<Rightarrow> db \<Rightarrow> bool" where
  "spendEffect w inp t d' \<longleftrightarrow> (let d = w_db w; now = w_clock w (w_clockN w); tz = w_tz w in
     \<exists>c to. findCardById d (ci_cardId inp) = Some c \<and> c_status c = CardActive
     \<and> ownsCard d (ci_ownerUserId inp) c \<and> t_amount t = intOf (ci_amount inp) \<and> 0 < t_amount t
     \<and> t_fromAccountId t = Some (c_accountId c) \<and> settlementAccount d to \<and> t_toAccountId t = Some (acc_id to)
     \<and> (c_accountId c \<noteq> acc_id to \<longrightarrow> movedMoney d d' (c_accountId c) (acc_id to) (t_amount t))
     \<and> t_cardId t = Some (ci_cardId inp) \<and> t_category t = Some CCard
     \<and> findTransferById d (t_id t) = None \<and> findTransferById d' (t_id t) = Some t
     \<and> spentSince d' (c_id c) (startOfDayMs tz now) = spentSince d (c_id c) (startOfDayMs tz now) + t_amount t
     \<and> spentSince d' (c_id c) (startOfMonthMs tz now) = spentSince d (c_id c) (startOfMonthMs tz now) + t_amount t
     \<and> withinCardLimits tz now c (t_amount t) d')"

lemma spendOutcome_effect:
  assumes "spendOutcome w inp t d'" and "priorTransfer (w_db w) (ci_idempotencyKey inp) = None"
    and "0 < intOf (ci_amount inp)"
  shows "spendEffect w inp t d'"
proof -
  let ?now = "w_clock w (w_clockN w)"
  obtain d1 c "from" to where c: "findCardById (w_db w) (ci_cardId inp) = Some c" "c_status c = CardActive"
    "ownsCard (w_db w) (ci_ownerUserId inp) c" "cardLimitError (w_tz w) (w_db w) c (intOf (ci_amount inp)) ?now = None"
    "acc_id from = c_accountId c" "t_amount t = intOf (ci_amount inp)"
    "t_cardId t = Some (ci_cardId inp)" "t_category t = Some CCard" "t_postedAt t = ?now" "settlementAccount (w_db w) to"
    and p: "postedTransfer (w_db w) d1 t from to" and v: "bankView d' = bankView d1"
    using assms(1) unfolding spendOutcome_def spentWith_def assms(2) option.case by blast
  have "c_id c = ci_cardId inp" by (rule cards.find_id [OF c(1)])
  then have spent: "spentSince d' (c_id c) since
      = spentSince (w_db w) (c_id c) since + (if since \<le> ?now then t_amount t else 0)" for since
    unfolding spentSince_view [OF v] using spentSince_posted [OF p] c(7-9) by simp
  have "startOfMonthMs (w_tz w) ?now \<le> ?now"
    by (rule order_trans [OF startOfMonth_le_startOfDay startOfDay_le])
  then have added: "spentSince d' (c_id c) (startOfDayMs (w_tz w) ?now)
      = spentSince (w_db w) (c_id c) (startOfDayMs (w_tz w) ?now) + t_amount t"
    "spentSince d' (c_id c) (startOfMonthMs (w_tz w) ?now)
      = spentSince (w_db w) (c_id c) (startOfMonthMs (w_tz w) ?now) + t_amount t"
    using startOfDay_le by (simp_all add: spent)
  have within: "withinCardLimits (w_tz w) ?now c (t_amount t) d'"
    using c(4,6) added by (simp add: withinCardLimits_def cardLimitError_None)
  have "movedMoney (w_db w) d' (acc_id from) (acc_id to) (t_amount t)" if "acc_id from \<noteq> acc_id to"
    by (rule movedMoney_view [OF v movedMoney_posted [OF p that]])
  moreover have "t_fromAccountId t = Some (acc_id from)" "t_toAccountId t = Some (acc_id to)"
    using p by (simp_all add: postedTransfer_def)
  ultimately show ?thesis
    unfolding spendEffect_def Let_def
    using c assms(3) posted_found [OF p v] within added by (intro exI [of _ c] exI [of _ to]) simp
qed

section \<open>The limits of the cards\<close>

lemma defaultLimits_ordered:
  "0 < cl_perTxn (defaultLimitsForTier tier) \<and> cl_perTxn (defaultLimitsForTier tier) \<le> cl_daily (defaultLimitsForTier tier)
     \<and> cl_daily (defaultLimitsForTier tier) \<le> cl_monthly (defaultLimitsForTier tier)"
  by (cases tier) (simp_all add: defaultLimitsForTier_def bankMaxForTier_def Let_def dailyLimitForTier_def
      monthlyLimitForTier_def PER_TXN_BANK_MAX_BASE_def DEFAULT_DAILY_LIMIT_MINOR_def DEFAULT_MONTHLY_LIMIT_MINOR_def)

lemma issueCard_ordered:
  assumes "cardLimitsOrdered (w_db w)"
  shows "wp (issueCard u a net) (\<lambda>_ w'. cardLimitsOrdered (w_db w')) (\<lambda>_ w'. cardLimitsOrdered (w_db w')) w"
proof (rule wp_mono [OF issueCard_wp])
  fix c and s :: world
  assume c: "(\<exists>x. findAccountById (w_db w) a = Some x \<and> acc_userId x = u) \<and> c_accountId c = a \<and> c_status c = CardActive
        \<and> findCardById (w_db w) (c_id c) = None
        \<and> \<lparr>cl_perTxn = c_perTxnLimit c, cl_daily = c_dailyLimit c, cl_monthly = c_monthlyLimit c\<rparr>
            = defaultLimitsForTier (getKycTier (w_db w) u)
        \<and> w_db s = cardInsertRow c (w_db w)"
  then have l: "defaultLimitsForTier (getKycTier (w_db w) u)
      = \<lparr>cl_perTxn = c_perTxnLimit c, cl_daily = c_dailyLimit c, cl_monthly = c_monthlyLimit c\<rparr>" by simp
  from c assms defaultLimits_ordered [of "getKycTier (w_db w) u"] show "cardLimitsOrdered (w_db s)"
    by (auto simp: l cardLimitsOrdered_def cardInsertRow_def)
qed (use assms in simp)

lemma cardUpdate_ordered:
  assumes "cardLimitsOrdered d" and "findCardById d i = Some c" and "c_id c' = c_id c"
    and "c_perTxnLimit c' = c_perTxnLimit c" "c_dailyLimit c' = c_dailyLimit c" "c_monthlyLimit c' = c_monthlyLimit c"
  shows "cardLimitsOrdered (cardUpdateRow c' d)"
proof -
  have "c \<in> set (db_cards d)" using assms(2) by (auto simp: findCardById_def dest: find_Some_iff_mem)
  with assms show ?thesis by (auto simp: cardLimitsOrdered_def cardSet_def dest!: set_cardUpdate)
qed

lemma freeze_ordered:
  assumes "cardLimitsOrdered (w_db w)"
  shows "wp (freezeCard u i) (\<lambda>_ w'. cardLimitsOrdered (w_db w')) (\<lambda>_ w'. cardLimitsOrdered (w_db w')) w"
    "wp (unfreezeCard u i) (\<lambda>_ w'. cardLimitsOrdered (w_db w')) (\<lambda>_ w'. cardLimitsOrdered (w_db w')) w"
    "wp (cancelCard u i) (\<lambda>_ w'. cardLimitsOrdered (w_db w')) (\<lambda>_ w'. cardLimitsOrdered (w_db w')) w"
  using assms
  by (auto simp: freezeCard_def unfreezeCard_def cancelCard_def wp_rules updateCard_def Let_def split: option.splits
      intro!: cardUpdate_ordered)

section \<open>Properties\<close>

text \<open>
  C18: A card payment with a new idempotency key is made only with an active card of the user, moves the amount
  from the account of the card to the merchants' settlement account, and is recorded under the card: what was
  posted with the card since the start of the day and of the month grows by the amount, and stays, this payment
  included, within the daily and the monthly limit, as the amount does within the limit per payment. One that
  throws has done nothing or all of this.
\<close>

theorem cardSpend_within_limits:
  assumes "accountsOk (w_db w)" and "priorTransfer (w_db w) (ci_idempotencyKey inp) = None"
  shows "wp (simulateCardSpend (containerPublish sha) inp) (\<lambda>t w'. spendEffect w inp t (w_db w'))
     (\<lambda>e w'. w_db w' = w_db w \<or> (\<exists>t. spendEffect w inp t (w_db w'))) w"
  by (rule wp_mono [OF container_bus.simulateCardSpend_wp [OF assms(1)]])
    (use spendOutcome_effect [OF _ assms(2)] in blast)+

definition exSpend :: spend_input where
  "exSpend = \<lparr>ci_ownerUserId = ''ua'', ci_cardId = ''c1'', ci_amount = JNum 900, ci_currency = INR,
     ci_merchantName = None, ci_idempotencyKey = Some ''k9''\<rparr>"

theorem cardSpend_within_limits_witness:
  "wp (simulateCardSpend (containerPublish rev) exSpend) (\<lambda>t w'. spendEffect (exWorld exDb) exSpend t (w_db w'))
     (\<lambda>e w'. w_db w' = exDb \<or> (\<exists>t. spendEffect (exWorld exDb) exSpend t (w_db w'))) (exWorld exDb)"
  using cardSpend_within_limits [of "exWorld exDb" exSpend rev] by (simp add: exDb_accounts)

text \<open>
  The limits of every card are positive and ordered (payment, day, month), whatever the operations on
  cards do: issuing one, setting its limits, freezing, unfreezing and cancelling it.
\<close>

theorem card_limits_ordered:
  assumes "cardLimitsOrdered (w_db w)"
  shows "cardLimitsOrdered (w_db (snd (issueCard u a net w))) \<and> cardLimitsOrdered (w_db (snd (setCardLimits u i p dl m w)))
    \<and> cardLimitsOrdered (w_db (snd (freezeCard u i w))) \<and> cardLimitsOrdered (w_db (snd (unfreezeCard u i w)))
    \<and> cardLimitsOrdered (w_db (snd (cancelCard u i w)))"
  using issueCard_ordered [OF assms] setCardLimits_ordered [OF assms] freeze_ordered [OF assms]
  by (intro conjI) (rule wp_sndD, blast)+

theorem card_limits_ordered_witness:
  "cardLimitsOrdered (w_db (snd (setCardLimits ''ua'' ''c1'' (JNum 5) JNaN JInf (exWorld exDb))))"
  using card_limits_ordered [where w = "exWorld exDb" and u = "''ua''" and i = "''c1''" and p = "JNum 5" and dl = JNaN and m = JInf]
  by (simp add: cardLimitsOrdered_def exDb_def)

end
