(* ===== verification/Disputes.thy ===== *)
theory Disputes
  imports PaymentFacts
begin

text \<open>
  Disputes (\<open>contexts/payments/application/disputes.ts\<close>): a party to a transfer files one, an
  administrator rejects it or approves it, and approval posts a reversal.
\<close>

section \<open>The use cases\<close>

definition ownsTransfer :: "db \<Rightarrow> string \<Rightarrow> transfer \<Rightarrow> bool" where
  "ownsTransfer d userId t \<longleftrightarrow>
     (truthy (t_fromAccountId t) \<and> (case findAccountById d (the (t_fromAccountId t)) of
         None \<Rightarrow> False | Some a \<Rightarrow> acc_userId a = userId))
   \<or> (truthy (t_toAccountId t) \<and> (case findAccountById d (the (t_toAccountId t)) of
         None \<Rightarrow> False | Some a \<Rightarrow> acc_userId a = userId))"

definition fileDispute :: "string \<Rightarrow> string \<Rightarrow> string \<Rightarrow> dispute op" where
  "fileDispute userId transferId reason =
     bnd (dbGet (\<lambda>d. findTransferById d transferId)) (\<lambda>x.
     bnd (need x (Dis DisputeTransferNotFoundError)) (\<lambda>t.
     bnd (dbGet (\<lambda>d. ownsTransfer d userId t)) (\<lambda>authorized.
     thn (throwIf (\<not> authorized) (Dis DisputeNotAuthorizedError))
    (bnd uuid (\<lambda>i.
     bnd clockNow (\<lambda>now.
     bnd (lift (createDispute i userId transferId reason now)) (\<lambda>p.
     thn (insertDispute p) (ret p))))))))"

definition reversalRow :: "db \<Rightarrow> transfer \<Rightarrow> account \<Rightarrow> account \<Rightarrow> int \<Rightarrow> string \<Rightarrow> string \<Rightarrow> string \<Rightarrow> transfer" where
  "reversalRow d original from to now tid utr' ref =
     \<lparr>t_id = tid, t_idempotencyKey = None, t_fromAccountId = Some (acc_id from), t_toAccountId = Some (acc_id to),
      t_amount = t_amount original, t_currency = t_currency original,
      t_memo = Some (''Reversal for '' @ (case t_referenceNumber original of None \<Rightarrow> t_id original | Some r \<Rightarrow> r)),
      t_kind = KReversal, t_status = Posted, t_rail = Internal, t_utr = Some utr', t_failureReason = None,
      t_postedAt = now, t_referenceNumber = Some ref, t_fee = 0, t_category = t_category original,
      t_fromAccountNumber = Some (acc_number from), t_toAccountNumber = Some (acc_number to),
      t_fromUsername = usernameOf d (acc_userId from), t_toUsername = usernameOf d (acc_userId to),
      t_description = Some (''Dispute reversal for transfer '' @ t_id original),
      t_billerId = None, t_cardId = None\<rparr>"

definition reversalTx :: "dispute \<Rightarrow> int \<Rightarrow> (string \<times> event list) op" where
  "reversalTx p now =
     bnd (dbGet (\<lambda>d. findTransferById d (d_transferId p))) (\<lambda>x.
     thn (throwIf (case x of None \<Rightarrow> True | Some t \<Rightarrow> \<not> truthy (t_fromAccountId t) \<or> \<not> truthy (t_toAccountId t))
            (Dis (DisputeReversalBlockedError ''Cannot reverse transfer without both accounts'')))
    (let original = the x in
     bnd (dbGet (\<lambda>d. findAccountById d (the (t_toAccountId original)))) (\<lambda>y.
     bnd (dbGet (\<lambda>d. findAccountById d (the (t_fromAccountId original)))) (\<lambda>z.
     bnd (need y (Dis (DisputeReversalBlockedError ''Accounts missing for reversal''))) (\<lambda>from.
     bnd (need z (Dis (DisputeReversalBlockedError ''Accounts missing for reversal''))) (\<lambda>to.
     bnd (lift (debit from (t_amount original) (t_currency original) now)) (\<lambda>debited.
     bnd (lift (credit to (t_amount original) (t_currency original) now)) (\<lambda>credited.
     bnd uuid (\<lambda>tid.
     bnd (utr now) (\<lambda>u.
     bnd transactionReference (\<lambda>ref.
     bnd (dbGet (\<lambda>d. reversalRow d original from to now tid u ref)) (\<lambda>t.
     thn (postTransfer t debited credited)
         (ret (t_id t, [moneyMoved t]))))))))))))))"

definition decideDispute :: "bus \<Rightarrow> string \<Rightarrow> string \<Rightarrow> bool \<Rightarrow> string option \<Rightarrow> dispute op" where
  "decideDispute bus disputeId adminUserId approved adminNote =
     bnd (dbGet (\<lambda>d. findDisputeById d disputeId)) (\<lambda>x.
     bnd (need x (Dis DisputeNotFoundError)) (\<lambda>p.
     thn (throwIf (d_status p \<noteq> DSubmitted \<and> d_status p \<noteq> DUnderReview) (Dis DisputeAlreadyDecidedError))
    (bnd clockNow (\<lambda>now.
     if \<not> approved then
       (let rejected = p\<lparr>d_status := DRejected, d_adminNote := adminNote, d_decidedAt := Some now,
                         d_decidedByUserId := Some adminUserId\<rparr> in
        thn (updateDispute rejected) (ret rejected))
     else
       bnd (transaction (reversalTx p now)) (\<lambda>(reversalId, evs).
       (let decided = p\<lparr>d_status := DApproved, d_adminNote := adminNote,
                        d_reversalTransferId := Some reversalId, d_decidedAt := Some now,
                        d_decidedByUserId := Some adminUserId\<rparr> in
        thn (updateDispute decided)
       (thn (publishAll bus evs)
            (ret decided))))))))"

section \<open>What a reversal does\<close>

lemma reversalRow_simps [simp]:
  "t_id (reversalRow d o' a b now tid u ref) = tid"
  "t_idempotencyKey (reversalRow d o' a b now tid u ref) = None"
  "t_fromAccountId (reversalRow d o' a b now tid u ref) = Some (acc_id a)"
  "t_toAccountId (reversalRow d o' a b now tid u ref) = Some (acc_id b)"
  "t_amount (reversalRow d o' a b now tid u ref) = t_amount o'"
  "t_currency (reversalRow d o' a b now tid u ref) = t_currency o'"
  "t_kind (reversalRow d o' a b now tid u ref) = KReversal"
  "t_status (reversalRow d o' a b now tid u ref) = Posted"
  "t_postedAt (reversalRow d o' a b now tid u ref) = now"
  by (simp_all add: reversalRow_def)

text \<open>\<open>t\<close> is the reversal of \<open>o\<close>: posted, of the same amount, between the same accounts, swapped.\<close>

definition reversed :: "db \<Rightarrow> db \<Rightarrow> transfer \<Rightarrow> transfer \<Rightarrow> bool" where
  "reversed d d' orig t \<longleftrightarrow> (\<exists>from to. postedTransfer d d' t from to \<and> t_kind t = KReversal
     \<and> t_amount t = t_amount orig \<and> t_fromAccountId t = t_toAccountId orig \<and> t_toAccountId t = t_fromAccountId orig)"

lemma reversedI:
  "postedTransfer d d' t from to \<Longrightarrow> t_kind t = KReversal \<Longrightarrow> t_amount t = t_amount orig \<Longrightarrow>
   t_fromAccountId t = t_toAccountId orig \<Longrightarrow> t_toAccountId t = t_fromAccountId orig \<Longrightarrow> reversed d d' orig t"
  by (auto simp: reversed_def)

lemma reversalRow_reversed:
  assumes "postedTransfer d d' (reversalRow d orig src dst now tid u ref) src dst"
    and "t_toAccountId orig = Some (acc_id src)" and "t_fromAccountId orig = Some (acc_id dst)"
  shows "\<exists>t. t_id t = tid \<and> moneyMoved (reversalRow d orig src dst now tid u ref) = moneyMoved t \<and> reversed d d' orig t"
  by (rule exI [of _ "reversalRow d orig src dst now tid u ref"]) (use assms in \<open>simp add: reversedI\<close>)

lemma reversalTx_spec:
  "wp (reversalTx p now)
     (\<lambda>(i, evs) w'. \<exists>orig t. findTransferById (w_db w) (d_transferId p) = Some orig \<and> t_id t = i
        \<and> evs = [moneyMoved t] \<and> reversed (w_db w) (w_db w') orig t)
     (\<lambda>_ _. True) w"
  apply (simp add: reversalTx_def wp_rules gen_defs Let_def split: option.splits sum.splits)
  apply (intro allI impI conjI)
  subgoal for orig src dst a b
    by (rule wp_postTransfer [of _ src dst])
      (auto simp: wp_rules dest: findAccountById_id intro: find_self intro!: reversalRow_reversed elim!: truthyE)
  done

text \<open>A decided dispute, and what the decision did to the books.\<close>

lemma moneyTables_disputes [simp]: "moneyTables (d\<lparr>db_disputes := p\<rparr>) = moneyTables d"
  by (simp add: moneyTables_def)

definition disputeUpdateRow :: "dispute \<Rightarrow> db \<Rightarrow> db" where
  "disputeUpdateRow p d = d\<lparr>db_disputes := updateWhere (\<lambda>r. d_id r = d_id p)
     (\<lambda>r. r\<lparr>d_status := d_status p, d_adminNote := d_adminNote p, d_reversalTransferId := d_reversalTransferId p,
            d_decidedAt := d_decidedAt p, d_decidedByUserId := d_decidedByUserId p\<rparr>) (db_disputes d)\<rparr>"

lemma moneyTables_disputeUpdate [simp]: "moneyTables (disputeUpdateRow p d) = moneyTables d"
  by (simp add: disputeUpdateRow_def)

lemma find_disputeUpdate:
  "findDisputeById d (d_id p) = Some r \<Longrightarrow> findDisputeById (disputeUpdateRow p d) (d_id p) =
     Some (r\<lparr>d_status := d_status p, d_adminNote := d_adminNote p, d_reversalTransferId := d_reversalTransferId p,
            d_decidedAt := d_decidedAt p, d_decidedByUserId := d_decidedByUserId p\<rparr>)"
  using find_Some_iff_mem [of "\<lambda>r. d_id r = d_id p" "db_disputes d" r]
  by (simp add: findDisputeById_def disputeUpdateRow_def find_updateWhere)

lemma wp_updateDispute:
  assumes "Q () (w\<lparr>w_db := disputeUpdateRow p (w_db w)\<rparr>)" and "\<And>m. E (SqliteError m) w"
  shows "wp (updateDispute p) Q E w"
  using assms by (simp add: updateDispute_def disputeUpdateRow_def wp_rules)

lemma reversed_money:
  assumes "reversed d d' orig t" and "t_fromAccountId orig \<noteq> t_toAccountId orig" and "sameMoney d0 d"
  shows "sameMoney d0 d'"
proof -
  obtain "from" to where p: "postedTransfer d d' t from to" "t_fromAccountId t = t_toAccountId orig"
    "t_toAccountId t = t_fromAccountId orig"
    using assms(1) unfolding reversed_def by blast
  then have "t_fromAccountId t = Some (acc_id from)" "t_toAccountId t = Some (acc_id to)"
    by (simp_all add: postedTransfer_def)
  with p assms(2) have "acc_id from \<noteq> acc_id to" by auto
  then show ?thesis by (rule sameMoney_posted [OF p(1) _ assms(3)])
qed

text \<open>The tables of \<open>d'\<close> are those of \<open>d\<close> after the reversal of the transfer \<open>p\<close> disputes.\<close>

definition disputeReversed :: "db \<Rightarrow> dispute \<Rightarrow> string \<Rightarrow> db \<Rightarrow> bool" where
  "disputeReversed d p tid d' \<longleftrightarrow> (\<exists>orig t d1. findTransferById d (d_transferId p) = Some orig
     \<and> reversed d d1 orig t \<and> t_id t = tid \<and> moneyTables d' = moneyTables d1)"

lemma disputeReversed_tables: "disputeReversed d p tid d1 \<Longrightarrow> moneyTables d' = moneyTables d1 \<Longrightarrow> disputeReversed d p tid d'"
  by (auto simp: disputeReversed_def)

definition decidedAs :: "db \<Rightarrow> dispute \<Rightarrow> bool \<Rightarrow> dispute \<Rightarrow> db \<Rightarrow> bool" where
  "decidedAs d p approved p' d' \<longleftrightarrow> d_id p' = d_id p \<and> findDisputeById d' (d_id p) = Some p'
     \<and> (if approved then d_status p' = DApproved
          \<and> (\<exists>tid. d_reversalTransferId p' = Some tid \<and> disputeReversed d p tid d')
        else d_status p' = DRejected \<and> moneyTables d' = moneyTables d)"

lemma disputeReversed_money:
  assumes "disputeReversed d p tid d'" and "booksOk d"
    and "\<And>t. findTransferById d (d_transferId p) = Some t \<Longrightarrow> t_fromAccountId t \<noteq> t_toAccountId t"
  shows "sameMoney d d'"
proof -
  obtain orig t d1 where "findTransferById d (d_transferId p) = Some orig" "reversed d d1 orig t"
    and v: "moneyTables d' = moneyTables d1"
    using assms(1) unfolding disputeReversed_def by blast
  with assms(3) show ?thesis
    unfolding sameMoney_tables [OF v] by (blast intro: reversed_money sameMoney_refl [OF assms(2)])
qed

lemma reversed_disputes: "reversed d d' orig t \<Longrightarrow> db_disputes d' = db_disputes d"
  by (auto simp: reversed_def postedTransfer_def legsDb_def ledgerInsertRow_def accountUpdateRow_def transferInsertRow_def)

lemma reversalTx_reverses:
  "wp (reversalTx p now)
     (\<lambda>(i, evs) w'. disputeReversed (w_db w) p i (w_db w') \<and> db_disputes (w_db w') = db_disputes (w_db w)
        \<and> (\<forall>e \<in> set evs. \<not> isKycApproved e))
     (\<lambda>_ _. True) (w\<lparr>w_clockN := n\<rparr>)"
  by (rule wp_mono [OF reversalTx_spec])
    (auto simp: disputeReversed_def moneyMoved_def isKycApproved_def dest: reversed_disputes)

lemma findDispute_id: "findDisputeById d i = Some p \<Longrightarrow> d_id p = i"
  using find_Some_iff_mem by (fastforce simp: findDisputeById_def)

lemma findDispute_keep: "findDisputeById d i = Some p \<Longrightarrow> db_disputes d' = db_disputes d \<Longrightarrow> findDisputeById d' i = Some p"
  by (simp add: findDisputeById_def)

text \<open>What a decision that throws leaves: nothing done, or the whole reversal.\<close>

definition decisionThrown :: "db \<Rightarrow> string \<Rightarrow> bool \<Rightarrow> db \<Rightarrow> bool" where
  "decisionThrown d i approved d' \<longleftrightarrow>
     (moneyTables d' = moneyTables d \<and> db_disputes d' = db_disputes d)
   \<or> (\<exists>p tid. findDisputeById d i = Some p \<and> approved \<and> disputeReversed d p tid d'
        \<and> (db_disputes d' = db_disputes d
           \<or> (\<exists>p'. findDisputeById d' i = Some p' \<and> d_status p' = DApproved \<and> d_reversalTransferId p' = Some tid)))"

context event_bus begin

lemma decideDispute_wp:
  "wp (decideDispute publish i admin approved note)
     (\<lambda>p' w'. \<exists>p. findDisputeById (w_db w) i = Some p \<and> (d_status p = DSubmitted \<or> d_status p = DUnderReview)
        \<and> decidedAs (w_db w) p approved p' (w_db w'))
     (\<lambda>_ w'. decisionThrown (w_db w) i approved (w_db w')) w"
  (is "wp _ ?Q ?E w")
proof (cases "findDisputeById (w_db w) i")
  case None
  then show ?thesis by (simp add: decideDispute_def wp_rules decisionThrown_def)
next
  case (Some p)
  let ?w = "w\<lparr>w_clockN := Suc (w_clockN w)\<rparr>"
  have i: "d_id p = i" using findDispute_id [OF Some] .
  have rejected: "wp (updateDispute q) (\<lambda>_. wp (ret q) ?Q ?E) ?E ?w"
    if "q = p\<lparr>d_status := DRejected, d_adminNote := note, d_decidedAt := x, d_decidedByUserId := Some admin\<rparr>"
      "\<not> approved" "d_status p = DSubmitted \<or> d_status p = DUnderReview" for q x
    by (rule wp_updateDispute)
      (use that find_disputeUpdate [of "w_db w" q p] in \<open>simp_all add: wp_rules decidedAs_def Some i decisionThrown_def\<close>)
  have decided: "wp (updateDispute q) (\<lambda>_. wp (thn (publishAll publish evs) (ret q)) ?Q ?E) ?E s"
    if q: "q = p\<lparr>d_status := DApproved, d_adminNote := note, d_reversalTransferId := Some tid,
        d_decidedAt := x, d_decidedByUserId := Some admin\<rparr>" "approved"
      "d_status p = DSubmitted \<or> d_status p = DUnderReview"
      and s: "disputeReversed (w_db w) p tid (w_db s)" "db_disputes (w_db s) = db_disputes (w_db w)"
        "\<forall>e \<in> set evs. \<not> isKycApproved e" for q evs x and s :: world and tid
  proof (rule wp_updateDispute)
    have row: "findDisputeById (disputeUpdateRow q (w_db s)) i = Some q"
      using find_disputeUpdate [of "w_db s" q p] findDispute_keep [OF Some s(2)] q(1) i by simp
    have r: "disputeReversed (w_db w) p tid (w_db w')" "findDisputeById (w_db w') i = Some q"
      if v: "bankView (w_db w') = bankView (disputeUpdateRow q (w_db s))" for w' :: world
      by (rule disputeReversed_tables [OF s(1)], simp add: moneyTables_bankView [OF v])
        (rule findDispute_keep [OF row bankViewD(14) [OF v]])
    show "wp (thn (publishAll publish evs) (ret q)) ?Q ?E (s\<lparr>w_db := disputeUpdateRow q (w_db s)\<rparr>)"
      unfolding wp_bnd using s(3) q Some i r
      by (intro wp_publishAll) (auto simp: wp_ret decidedAs_def decisionThrown_def)
  qed (use s q Some in \<open>auto simp: decisionThrown_def\<close>)
  have approved: "wp (transaction (reversalTx p now))
      (\<lambda>(r, evs). wp (thn (updateDispute (q r)) (thn (publishAll publish evs) (ret (q r)))) ?Q ?E) ?E ?w"
    if "\<And>r. q r = p\<lparr>d_status := DApproved, d_adminNote := note, d_reversalTransferId := Some r,
        d_decidedAt := x, d_decidedByUserId := Some admin\<rparr>" "approved"
      "d_status p = DSubmitted \<or> d_status p = DUnderReview" for now q x
    unfolding wp_transaction
  proof (rule wp_mono [OF reversalTx_reverses])
    fix z and s :: world
    assume z: "(case z of (i, evs) \<Rightarrow> \<lambda>w'. disputeReversed (w_db w) p i (w_db w')
      \<and> db_disputes (w_db w') = db_disputes (w_db w) \<and> (\<forall>e \<in> set evs. \<not> isKycApproved e)) s"
    show "(case z of (r, evs) \<Rightarrow> wp (thn (updateDispute (q r)) (thn (publishAll publish evs) (ret (q r)))) ?Q ?E) s"
      unfolding case_prod_unfold wp_bnd [of "updateDispute _"]
      by (rule decided [OF that(1)]) (use that z in \<open>auto simp: case_prod_unfold\<close>)
  qed (simp add: decisionThrown_def)
  have E: "?E e ?w" "?E e w" for e by (simp_all add: decisionThrown_def)
  show ?thesis
    using approved [of "\<lambda>r. p\<lparr>d_status := DApproved, d_adminNote := note, d_reversalTransferId := Some r,
        d_decidedAt := Some (w_clock w (w_clockN w)), d_decidedByUserId := Some admin\<rparr>"] rejected E
    by (auto simp: decideDispute_def wp_rules Some Let_def case_prod_unfold)
qed

end

lemma decideDispute_final:
  assumes "findDisputeById (w_db w) i = Some p" and "d_status p = DApproved \<or> d_status p = DRejected"
  shows "decideDispute bus i admin approved note w = (Inl (Dis DisputeAlreadyDecidedError), w)"
  using assms by (auto simp: decideDispute_def dbGet_def gets_def bnd_def need_def ret_def throwIf_def raise_def)

text \<open>Who may file a dispute.\<close>

lemma fileDispute_wp:
  "wp (fileDispute u tid reason)
     (\<lambda>p w'. \<exists>t. findTransferById (w_db w) tid = Some t \<and> ownsTransfer (w_db w) u t \<and> d_status p = DSubmitted
        \<and> d_userId p = u \<and> d_transferId p = tid \<and> d_reason p \<noteq> [] \<and> findDisputeById (w_db w) (d_id p) = None
        \<and> w_db w' = (w_db w)\<lparr>db_disputes := db_disputes (w_db w) @ [p]\<rparr>)
     (\<lambda>_ w'. w_db w' = w_db w) w"
  by (auto simp: fileDispute_def wp_rules insertDispute_def createDispute_def andThen_Inr_iff Let_def
      split: option.splits sum.splits)

section \<open>Properties\<close>

text \<open>
  C17: A decision is taken once, on an open dispute: what it returns is the row the table holds afterwards,
  approved or rejected, and deciding that dispute again is refused. A rejection leaves accounts, transfers and
  ledger as they are; an approval posts one reversal, named in the row: a transfer of the disputed amount back from
  the receiver to the sender. A decision that throws has done nothing, or the whole reversal (the row then
  approved, or still open when it could not be written).
\<close>

theorem decideDispute_outcome:
  "wp (decideDispute (containerPublish sha) i admin approved note)
     (\<lambda>p' w'. (\<exists>p. findDisputeById (w_db w) i = Some p \<and> (d_status p = DSubmitted \<or> d_status p = DUnderReview)
          \<and> decidedAs (w_db w) p approved p' (w_db w'))
        \<and> findDisputeById (w_db w') i = Some p'
        \<and> (\<forall>admin' approved' note'. decideDispute (containerPublish sha) i admin' approved' note' w'
             = (Inl (Dis DisputeAlreadyDecidedError), w')))
     (\<lambda>_ w'. decisionThrown (w_db w) i approved (w_db w')) w"
proof (rule wp_mono [OF container_bus.decideDispute_wp])
  fix p' and w' :: world
  assume d: "\<exists>p. findDisputeById (w_db w) i = Some p \<and> (d_status p = DSubmitted \<or> d_status p = DUnderReview)
    \<and> decidedAs (w_db w) p approved p' (w_db w')"
  then have row: "findDisputeById (w_db w') i = Some p'" and "d_status p' = DApproved \<or> d_status p' = DRejected"
    by (auto simp: decidedAs_def dest: findDispute_id split: if_splits)
  from d row decideDispute_final [OF this]
  show "(\<exists>p. findDisputeById (w_db w) i = Some p \<and> (d_status p = DSubmitted \<or> d_status p = DUnderReview)
        \<and> decidedAs (w_db w) p approved p' (w_db w'))
      \<and> findDisputeById (w_db w') i = Some p'
      \<and> (\<forall>admin' approved' note'. decideDispute (containerPublish sha) i admin' approved' note' w'
             = (Inl (Dis DisputeAlreadyDecidedError), w'))" by blast
qed

text \<open>
  Deciding disputes keeps the books, if the disputed transfer was between two different accounts.
\<close>

theorem decideDispute_keeps_books:
  assumes "booksOk (w_db w)"
    and "\<forall>p t. findDisputeById (w_db w) i = Some p \<and> findTransferById (w_db w) (d_transferId p) = Some t
           \<longrightarrow> t_fromAccountId t \<noteq> t_toAccountId t"
  shows "sameMoney (w_db w) (w_db (snd (decideDispute (containerPublish sha) i admin approved note w)))"
proof -
  have same: "sameMoney (w_db w) d" if "moneyTables d = moneyTables (w_db w)" for d
    unfolding sameMoney_tables [OF that] by (rule sameMoney_refl [OF assms(1)])
  have rev: "sameMoney (w_db w) d" if "findDisputeById (w_db w) i = Some p" "disputeReversed (w_db w) p tid d" for p tid d
    by (rule disputeReversed_money [OF that(2) assms(1)]) (use assms(2) that(1) in blast)
  show ?thesis
    by (rule wp_sndD, rule wp_mono [OF container_bus.decideDispute_wp])
      (use same rev in \<open>auto simp: decidedAs_def decisionThrown_def split: if_splits\<close>)
qed

definition exDispute :: dispute where
  "exDispute = \<lparr>d_id = ''d1'', d_userId = ''ua'', d_transferId = ''p2'', d_reason = ''wrong'', d_status = DSubmitted,
     d_adminNote = None, d_reversalTransferId = None, d_createdAt = 0, d_decidedAt = None, d_decidedByUserId = None\<rparr>"

theorem decideDispute_keeps_books_witness:
  "sameMoney (exDbPosted\<lparr>db_disputes := [exDispute]\<rparr>)
     (w_db (snd (decideDispute (containerPublish rev) ''d1'' ''adm'' True None (exWorld (exDbPosted\<lparr>db_disputes := [exDispute]\<rparr>)))))"
proof -
  have "booksOk (exDbPosted\<lparr>db_disputes := [exDispute]\<rparr>)"
    using moneyTables_cong(1) [OF moneyTables_disputes, of "[exDispute]" exDbPosted] exDbPosted_books by simp
  then show ?thesis
    using decideDispute_keeps_books [of "exWorld (exDbPosted\<lparr>db_disputes := [exDispute]\<rparr>)" "''d1''" rev "''adm''" True None]
    by (simp add: findDisputeById_def exDispute_def findTransferById_def exDbPosted_def exPosted_def exPending_def)
qed

end
