(* ===== verification/SiOps.thy ===== *)
theory SiOps
  imports PaymentFacts Examples
begin

text \<open>
  Standing instructions: creating, pausing, resuming and cancelling them
  (\<open>contexts/standingInstructions/application/manageInstructions.ts\<close>) and the tick that runs the due ones
  (\<open>runDueInstructions.ts\<close>).
\<close>

section \<open>Managing instructions\<close>

record create_si_input =
  cs_ownerUserId :: string
  cs_fromAccountId :: string
  cs_beneficiaryId :: string
  cs_amount :: number
  cs_currency :: currency
  cs_frequency :: si_frequency
  cs_description :: "string option"
  cs_startAt :: "int option"
  cs_endAt :: "int option"

definition createStandingInstruction :: "bus \<Rightarrow> create_si_input \<Rightarrow> standing_instruction op" where
  "createStandingInstruction bus inp =
     thn (assertBankingAccess (cs_ownerUserId inp))
    (bnd (dbGet (\<lambda>d. findAccountById d (cs_fromAccountId inp))) (\<lambda>x.
     bnd (need x (Acc AccountNotFoundError)) (\<lambda>from.
     thn (throwIf (acc_userId from \<noteq> cs_ownerUserId inp) (Acc AccountNotFoundError))
    (bnd (dbGet (\<lambda>d. findBeneficiaryById d (cs_beneficiaryId inp))) (\<lambda>y.
     thn (throwIf (case y of None \<Rightarrow> True | Some b \<Rightarrow> b_ownerUserId b \<noteq> cs_ownerUserId inp) (Ben BeneficiaryNotFoundError))
    (bnd clockNow (\<lambda>now.
     (let startAt = (case cs_startAt inp of None \<Rightarrow> advanceRun now (cs_frequency inp) | Some t \<Rightarrow> t) in
      bnd uuid (\<lambda>i.
      bnd (lift (createInstruction i (cs_ownerUserId inp) (cs_fromAccountId inp) (cs_beneficiaryId inp)
                   (cs_amount inp) (cs_currency inp) (cs_frequency inp) (cs_description inp) startAt
                   (cs_endAt inp) now)) (\<lambda>si.
      thn (insertSi si)
     (thn (bus [SiEv (StandingInstructionCreated (si_id si) (si_ownerUserId si) (si_fromAccountId si)
                  (si_beneficiaryId si) (si_amount si) (si_currency si) (si_frequency si) (si_nextRunAt si)
                  (si_createdAt si))])
          (ret si))))))))))))"

definition ownSi :: "string \<Rightarrow> string \<Rightarrow> standing_instruction op" where
  "ownSi ownerUserId i =
     bnd (dbGet (\<lambda>d. findSiById d i)) (\<lambda>x.
     bnd (need x (SiE StandingInstructionNotFoundError)) (\<lambda>si.
     thn (throwIf (si_ownerUserId si \<noteq> ownerUserId) (SiE StandingInstructionNotFoundError)) (ret si)))"

definition pauseStandingInstruction :: "bus \<Rightarrow> string \<Rightarrow> string \<Rightarrow> unit op" where
  "pauseStandingInstruction bus ownerUserId i =
     bnd (ownSi ownerUserId i) (\<lambda>si.
     thn (throwIf (si_status si \<noteq> SiActive) (SiE (StandingInstructionInvalidStateError (siStatusName (si_status si)) ''paused'')))
    (thn (setSiStatus (si_id si) SiPaused)
    (bnd clockNow (\<lambda>now. bus [SiEv (StandingInstructionPaused (si_id si) (si_ownerUserId si) now)]))))"

definition resumeStandingInstruction :: "bus \<Rightarrow> string \<Rightarrow> string \<Rightarrow> unit op" where
  "resumeStandingInstruction bus ownerUserId i =
     bnd (ownSi ownerUserId i) (\<lambda>si.
     thn (throwIf (si_status si \<noteq> SiPaused) (SiE (StandingInstructionInvalidStateError (siStatusName (si_status si)) ''active'')))
    (thn (setSiStatus (si_id si) SiActive)
    (bnd clockNow (\<lambda>now. bus [SiEv (StandingInstructionResumed (si_id si) (si_ownerUserId si) now)]))))"

definition cancelStandingInstruction :: "bus \<Rightarrow> string \<Rightarrow> string \<Rightarrow> unit op" where
  "cancelStandingInstruction bus ownerUserId i =
     bnd (ownSi ownerUserId i) (\<lambda>si.
     thn (throwIf (si_status si = SiCancelled) (SiE (StandingInstructionInvalidStateError (siStatusName (si_status si)) ''cancelled'')))
    (thn (setSiStatus (si_id si) SiCancelled)
    (bnd clockNow (\<lambda>now. bus [SiEv (StandingInstructionCancelled (si_id si) (si_ownerUserId si) now)]))))"

section \<open>The tick\<close>

definition MAX_SI_FAILURES :: int where
  "MAX_SI_FAILURES = 3"

record run_result =
  rr_totalDue :: nat
  rr_succeeded :: nat
  rr_failed :: nat
  rr_failures :: "(string \<times> string) list"

text \<open>The idempotency key of a run names the instruction and the time it was planned for.\<close>

definition siKey :: "standing_instruction \<Rightarrow> string" where
  "siKey si = ''si:'' @ si_id si @ '':'' @ showInt (si_nextRunAt si)"

definition siTransfer :: "standing_instruction \<Rightarrow> beneficiary \<Rightarrow> transfer_input" where
  "siTransfer si b =
     \<lparr>ti_fromAccountId = si_fromAccountId si, ti_toAccountNumber = b_accountNumber b,
      ti_amount = JNum (of_int (si_amount si)), ti_currency = si_currency si,
      ti_memo = Some (case si_description si of None \<Rightarrow> ''Standing instruction '' @ take 8 (si_id si) | Some s \<Rightarrow> s),
      ti_idempotencyKey = Some (siKey si), ti_beneficiaryId = None, ti_ownerUserId = None,
      ti_kycTier = None, ti_rail = None\<rparr>"

definition siSucceeded :: "int \<Rightarrow> standing_instruction \<Rightarrow> standing_instruction" where
  "siSucceeded now si = si\<lparr>si_nextRunAt := advanceRun (si_nextRunAt si) (si_frequency si),
     si_lastRunAt := Some now, si_status := SiActive, si_failureCount := 0\<rparr>"

definition siFailed :: "standing_instruction \<Rightarrow> standing_instruction" where
  "siFailed si = (let failures = si_failureCount si + 1 in
     si\<lparr>si_failureCount := failures,
        si_status := (if MAX_SI_FAILURES \<le> failures then SiPaused else si_status si)\<rparr>)"

text \<open>The body of the \<open>try\<close>.\<close>

definition runOne :: "bus \<Rightarrow> int \<Rightarrow> standing_instruction \<Rightarrow> beneficiary \<Rightarrow> unit op" where
  "runOne bus now si b =
     bnd (executeTransfer bus (siTransfer si b)) (\<lambda>t.
     thn (updateSi (siSucceeded now si))
         (bus [SiEv (StandingInstructionRan (si_id si) (si_ownerUserId si) (si_amount si) (b_accountNumber b) now)]))"

definition noteFailure :: "bool \<Rightarrow> standing_instruction \<Rightarrow> string \<Rightarrow> unit op" where
  "noteFailure notifications si message =
     (if \<not> notifications then ret () else
      let failures = si_failureCount si + 1; paused = MAX_SI_FAILURES \<le> failures in
      notify (si_ownerUserId si) NStandingFailed
        (if paused then ''Standing instruction paused'' else ''Standing transfer failed'')
        (if paused then ''Recurring transfer paused after '' @ showInt failures @ '' failures: '' @ message
         else ''Recurring transfer failed: '' @ message)
        (Some ''standing_instruction'') (Some (si_id si)))"

definition runStep :: "bus \<Rightarrow> bool \<Rightarrow> int \<Rightarrow> run_result \<Rightarrow> standing_instruction \<Rightarrow> run_result op" where
  "runStep bus notifications now r si =
     (if (case si_endAt si of None \<Rightarrow> False | Some e \<Rightarrow> e \<le> now)
      then thn (updateSi (si\<lparr>si_status := SiCancelled\<rparr>)) (ret r) else
      bnd (dbGet (\<lambda>d. findBeneficiaryById d (si_beneficiaryId si))) (\<lambda>x.
      case x of
        None \<Rightarrow> ret (r\<lparr>rr_failed := rr_failed r + 1,
                       rr_failures := rr_failures r @ [(si_id si, ''Beneficiary missing'')]\<rparr>)
      | Some b \<Rightarrow>
         bnd (tryCatch (thn (runOne bus now si b) (ret None)) (\<lambda>e. ret (Some e))) (\<lambda>err.
         case err of
           None \<Rightarrow> ret (r\<lparr>rr_succeeded := rr_succeeded r + 1\<rparr>)
         | Some e \<Rightarrow>
            thn (updateSi (siFailed si))
           (thn (noteFailure notifications si (errorMessage e))
                (ret (r\<lparr>rr_failed := rr_failed r + 1,
                        rr_failures := rr_failures r @ [(si_id si, errorMessage e)]\<rparr>))))))"

definition runDueInstructions :: "bus \<Rightarrow> bool \<Rightarrow> run_result op" where
  "runDueInstructions bus notifications =
     bnd clockNow (\<lambda>now.
     bnd (dbGet (\<lambda>d. listDueSis d now)) (\<lambda>due.
     foldProg due (runStep bus notifications now)
       \<lparr>rr_totalDue = length due, rr_succeeded = 0, rr_failed = 0, rr_failures = []\<rparr>))"

section \<open>What the tick does to the books\<close>

lemma moneyTables_si [simp]: "moneyTables (siUpdateRow s d) = moneyTables d"
  by (simp add: moneyTables_def siUpdateRow_def)

lemma leaves_money: "leaves bankView m \<Longrightarrow> leaves moneyTables m"
  unfolding leaves_def using moneyTables_bankView by blast

lemma keeps_sameMoney: "leaves moneyTables m \<Longrightarrow> keeps (\<lambda>w. sameMoney d0 (w_db w)) m"
proof (rule keepsI)
  fix w :: world assume l: "leaves moneyTables m" and s: "sameMoney d0 (w_db w)"
  have "sameMoney d0 (w_db w')" if "moneyTables (w_db w') = moneyTables (w_db w)" for w' :: world
    unfolding sameMoney_tables [OF that] by (rule s)
  then show "wp m (\<lambda>_ w. sameMoney d0 (w_db w)) (\<lambda>_ w. sameMoney d0 (w_db w)) w"
    by (intro leaves_wp [OF l])
qed

lemma leaves_updateSi: "leaves moneyTables (updateSi s)"
  unfolding updateSi_def by (rule leaves_dbMod) simp

lemma leaves_noteFailure: "leaves bankView (noteFailure n si m)"
  unfolding noteFailure_def Let_def by (intro leaves_rules)

context event_bus begin

lemma keeps_executeTransfer: "keeps (\<lambda>w. sameMoney d0 (w_db w)) (executeTransfer publish inp)"
proof (rule keepsI)
  fix w :: world assume s: "sameMoney d0 (w_db w)"
  then have "accountsOk (w_db w)" by (simp add: sameMoney_def booksOk_def)
  from wp_mono [OF executeTransfer_wp [OF this]]
  show "wp (executeTransfer publish inp) (\<lambda>_ w. sameMoney d0 (w_db w)) (\<lambda>_ w. sameMoney d0 (w_db w)) w"
    using transferOutcome_money [OF _ s] s by (metis (mono_tags, lifting))
qed

lemma keeps_runOne: "keeps (\<lambda>w. sameMoney d0 (w_db w)) (runOne publish now si b)"
  unfolding runOne_def
  by (intro keeps_bnd keeps_executeTransfer keeps_sameMoney leaves_updateSi leaves_money quiet)
    (simp add: isKycApproved_def)

lemma keeps_runStep: "keeps (\<lambda>w. sameMoney d0 (w_db w)) (runStep publish n now r si)"
proof -
  have "keeps (\<lambda>w. sameMoney d0 (w_db w)) (dbGet f)" for f :: "db \<Rightarrow> 'x"
    by (rule keeps_sameMoney) simp
  moreover have "keeps (\<lambda>w. sameMoney d0 (w_db w)) (noteFailure n si m)" for m
    by (rule keeps_sameMoney [OF leaves_money [OF leaves_noteFailure]])
  ultimately show ?thesis
    unfolding runStep_def
    by (auto intro!: keeps_if keeps_bnd keeps_tryCatch keeps_runOne keeps_sameMoney [OF leaves_updateSi]
        split: option.split)
qed

lemma runDueInstructions_keeps: "keeps (\<lambda>w. sameMoney d0 (w_db w)) (runDueInstructions publish n)"
  unfolding runDueInstructions_def
  by (intro keeps_bnd keeps_foldProg keeps_runStep keeps_sameMoney leaves_basic)

end

section \<open>What a run does to its instruction\<close>

lemma postedTransfer_sis: "postedTransfer d d' t from to \<Longrightarrow> db_sis d' = db_sis d"
  by (auto simp: postedTransfer_def legsDb_def ledgerInsertRow_def accountUpdateRow_def transferInsertRow_def)

lemma transferOutcome_sis:
  assumes "transferOutcome w inp t d'"
  shows "db_sis d' = db_sis (w_db w)"
proof (cases "priorTransfer (w_db w) (ti_idempotencyKey inp)")
  case (Some t0)
  with transferOutcome_old [OF assms] show ?thesis by (blast dest: bankViewD(10))
next
  case None
  from transferOutcome_new [OF assms None] obtain d1 "from" to
    where "postedTransfer (w_db w) d1 t from to" "bankView d' = bankView d1" .
  then show ?thesis using bankViewD(10) postedTransfer_sis by metis
qed

lemma findSi_cong: "db_sis d' = db_sis d \<Longrightarrow> findSiById d' i = findSiById d i"
  by (simp add: findSiById_def)

lemma findSi_keep: "findSiById d i = Some r \<Longrightarrow> db_sis d' = db_sis d \<Longrightarrow> findSiById d' i = Some r"
  by (simp add: findSiById_def)

text \<open>Writing back a changed copy of a row: the copy's run times, status and failure count.\<close>

lemma findSi_update:
  assumes "findSiById d (si_id s) = Some r"
  shows "findSiById (siUpdateRow s d) (si_id s) = Some (siSet s r)"
  using sis.read_your_write [OF assms] .

lemma siSet_own [simp]:
  "siSet (siSucceeded now si) si = siSucceeded now si"
  "siSet (siFailed si) si = siFailed si"
  "siSet (siFailed si) (siSucceeded now si) = siFailed si"
  "siSet (si\<lparr>si_status := st\<rparr>) si = si\<lparr>si_status := st\<rparr>"
  "si_id (siSucceeded now si) = si_id si" "si_id (siFailed si) = si_id si"
  by (simp_all add: siSet_def siSucceeded_def siFailed_def Let_def)

definition siEnded :: "int \<Rightarrow> standing_instruction \<Rightarrow> bool" where
  "siEnded now si \<longleftrightarrow> (case si_endAt si of None \<Rightarrow> False | Some e \<Rightarrow> e \<le> now)"

text \<open>
  The transfer of the run: from the account of the instruction to the account of its payee, under the key of the
  run, posted now or, when the key was recorded before, the one posted then.
\<close>

definition siPosted :: "world \<Rightarrow> standing_instruction \<Rightarrow> db \<Rightarrow> bool" where
  "siPosted w si d' \<longleftrightarrow> (\<exists>b inp t d1. findBeneficiaryById (w_db w) (si_beneficiaryId si) = Some b
     \<and> ti_fromAccountId inp = si_fromAccountId si \<and> ti_toAccountNumber inp = b_accountNumber b
     \<and> ti_amount inp = JNum (of_int (si_amount si)) \<and> ti_currency inp = si_currency si
     \<and> ti_idempotencyKey inp = Some (siKey si)
     \<and> transferOutcome w inp t d1 \<and> moneyTables d' = moneyTables d1
     \<and> findTransferByKey d' (siKey si) = Some t)"

text \<open>The row after a run that was made, and after one that failed.\<close>

definition advancedRow :: "int \<Rightarrow> standing_instruction \<Rightarrow> standing_instruction" where
  "advancedRow now si = si\<lparr>si_nextRunAt := advanceRun (si_nextRunAt si) (si_frequency si), si_lastRunAt := Some now,
     si_status := SiActive, si_failureCount := 0\<rparr>"

definition failedRow :: "standing_instruction \<Rightarrow> standing_instruction" where
  "failedRow si = si\<lparr>si_failureCount := si_failureCount si + 1,
     si_status := (if 3 \<le> si_failureCount si + 1 then SiPaused else si_status si)\<rparr>"

lemma rows_after: "siSucceeded now si = advancedRow now si" "siFailed si = failedRow si"
  by (simp_all add: siSucceeded_def advancedRow_def siFailed_def failedRow_def MAX_SI_FAILURES_def Let_def)

text \<open>How a step may leave the row of its instruction and the money, with the outcome it counts.\<close>

definition siStepped ::
  "int \<Rightarrow> world \<Rightarrow> standing_instruction \<Rightarrow> run_result \<Rightarrow> run_result \<Rightarrow> standing_instruction \<Rightarrow> db \<Rightarrow> bool" where
  "siStepped now w si r r' row d' \<longleftrightarrow>
     (if siEnded now si
      then row = si\<lparr>si_status := SiCancelled\<rparr> \<and> r' = r \<and> moneyTables d' = moneyTables (w_db w)
      else if findBeneficiaryById (w_db w) (si_beneficiaryId si) = None
      then row = si \<and> rr_succeeded r' = rr_succeeded r \<and> rr_failed r' = rr_failed r + 1
         \<and> moneyTables d' = moneyTables (w_db w)
      else (row = advancedRow now si \<and> rr_succeeded r' = rr_succeeded r + 1 \<and> rr_failed r' = rr_failed r
           \<and> siPosted w si d')
         \<or> (row = failedRow si \<and> rr_succeeded r' = rr_succeeded r \<and> rr_failed r' = rr_failed r + 1
           \<and> (moneyTables d' = moneyTables (w_db w) \<or> siPosted w si d')))"

lemma siKey_some [simp]: "siKey si \<noteq> []"
  by (simp add: siKey_def)

lemma findKey_cong: "moneyTables d' = moneyTables d \<Longrightarrow> findTransferByKey d' k = findTransferByKey d k"
  by (simp add: moneyTables_def findTransferByKey_def)

lemma executed_key:
  assumes "executed tz d now inp t d'" and "ti_idempotencyKey inp = Some k"
  shows "findTransferByKey d' k = Some t"
  using assms
  by (auto simp: executed_def postedTransfer_def newTransfer_def findTransferByKey_def legsDb_def ledgerInsertRow_def
      accountUpdateRow_def transferInsertRow_def find_append)

lemma siPostedI:
  assumes "findBeneficiaryById (w_db w) (si_beneficiaryId si) = Some b"
    and "transferOutcome w (siTransfer si b) t d1" and "moneyTables d' = moneyTables d1"
  shows "siPosted w si d'"
proof -
  have key: "ti_idempotencyKey (siTransfer si b) = Some (siKey si)" by (simp add: siTransfer_def)
  have "findTransferByKey d1 (siKey si) = Some t"
  proof (cases "priorTransfer (w_db w) (Some (siKey si))")
    case None
    with assms(2) obtain d2 where "executed (w_tz w) (w_db w) (w_clock w (w_clockN w)) (siTransfer si b) t d2"
      and v: "bankView d1 = bankView d2"
      unfolding transferOutcome_def key by auto
    then show ?thesis using executed_key [OF _ key] findKey_cong [OF moneyTables_bankView [OF v]] by simp
  next
    case (Some t0)
    with transferOutcome_old [OF assms(2)] have v: "bankView d1 = bankView (w_db w)" and "t = t0" by (simp_all add: key)
    with Some findKey_cong [OF moneyTables_bankView [OF v]] show ?thesis by (simp add: priorTransfer_def)
  qed
  then have "findTransferByKey d' (siKey si) = Some t" using findKey_cong [OF assms(3)] by simp
  with assms show ?thesis
    unfolding siPosted_def by (intro exI [of _ b] exI [of _ "siTransfer si b"] exI [of _ t] exI [of _ d1])
      (simp add: siTransfer_def)
qed

text \<open>What the body of the \<open>try\<close> may leave when it throws.\<close>

definition siThrown :: "int \<Rightarrow> world \<Rightarrow> standing_instruction \<Rightarrow> db \<Rightarrow> bool" where
  "siThrown now w si d' \<longleftrightarrow> findSiById d' (si_id si) \<in> {Some si, Some (siSucceeded now si)}
     \<and> (moneyTables d' = moneyTables (w_db w) \<or> siPosted w si d')"

lemma wp_sis:
  assumes "leaves bankView m"
    and "\<And>x w'. db_sis (w_db w') = db_sis (w_db w) \<Longrightarrow> moneyTables (w_db w') = moneyTables (w_db w) \<Longrightarrow> Q x w'"
    and "\<And>e w'. db_sis (w_db w') = db_sis (w_db w) \<Longrightarrow> moneyTables (w_db w') = moneyTables (w_db w) \<Longrightarrow> E e w'"
  shows "wp m Q E w"
  by (rule leaves_wp [OF assms(1)]; rule assms(2,3); (rule bankViewD(10) moneyTables_bankView, assumption))

lemma wp_updateSi [wp_rules]: "wp (updateSi s) Q E w = Q () (w\<lparr>w_db := siUpdateRow s (w_db w)\<rparr>)"
  by (simp add: updateSi_def wp_rules)

context event_bus begin

lemma executeTransfer_sis:
  assumes "accountsOk (w_db w)"
  shows "wp (executeTransfer publish inp)
     (\<lambda>t w'. db_sis (w_db w') = db_sis (w_db w) \<and> transferOutcome w inp t (w_db w'))
     (\<lambda>_ w'. db_sis (w_db w') = db_sis (w_db w)
        \<and> (moneyTables (w_db w') = moneyTables (w_db w) \<or> (\<exists>t. transferOutcome w inp t (w_db w')))) w"
  by (rule wp_mono [OF executeTransfer_wp [OF assms]]) (auto dest: transferOutcome_sis)

lemma runOne_row:
  assumes "accountsOk (w_db w)" and "findSiById (w_db w) (si_id si) = Some si"
    and "findBeneficiaryById (w_db w) (si_beneficiaryId si) = Some b"
  shows "wp (runOne publish now si b)
     (\<lambda>_ w'. findSiById (w_db w') (si_id si) = Some (siSucceeded now si) \<and> siPosted w si (w_db w'))
     (\<lambda>_ w'. siThrown now w si (w_db w')) w"
  unfolding runOne_def wp_bnd
proof (rule wp_mono [OF executeTransfer_sis [OF assms(1)]])
  fix t and s :: world
  assume s: "db_sis (w_db s) = db_sis (w_db w) \<and> transferOutcome w (siTransfer si b) t (w_db s)"
  let ?d = "siUpdateRow (siSucceeded now si) (w_db s)"
  have row: "findSiById ?d (si_id si) = Some (siSucceeded now si)"
    using s assms(2) findSi_update [of "w_db s" "siSucceeded now si" si] by (simp add: findSiById_def)
  have posted: "siPosted w si d'" if "moneyTables d' = moneyTables ?d" for d'
    using siPostedI [OF assms(3) conjunct2 [OF s]] that by simp
  show "wp (updateSi (siSucceeded now si)) (\<lambda>x. wp (publish [SiEv (StandingInstructionRan (si_id si)
        (si_ownerUserId si) (si_amount si) (b_accountNumber b) now)])
      (\<lambda>_ w'. findSiById (w_db w') (si_id si) = Some (siSucceeded now si) \<and> siPosted w si (w_db w'))
      (\<lambda>_ w'. siThrown now w si (w_db w'))) (\<lambda>_ w'. siThrown now w si (w_db w')) s"
    unfolding wp_updateSi
    by (rule wp_sis [OF quiet1]) (use row posted in \<open>auto simp: isKycApproved_def siThrown_def dest: findSi_keep\<close>)
next
  show "siThrown now w si (w_db s)" if "db_sis (w_db s) = db_sis (w_db w)
      \<and> (moneyTables (w_db s) = moneyTables (w_db w) \<or> (\<exists>t. transferOutcome w (siTransfer si b) t (w_db s)))"
    for e and s :: world
    using that findSi_keep [OF assms(2)] siPostedI [OF assms(3)] by (auto simp: siThrown_def)
qed

lemma runStep_failing:
  assumes "siThrown now w si (w_db s)" and "\<not> siEnded now si"
    and "findBeneficiaryById (w_db w) (si_beneficiaryId si) = Some b"
  shows "wp (thn (updateSi (siFailed si)) (thn (noteFailure n si (errorMessage e))
       (ret (r\<lparr>rr_failed := rr_failed r + 1, rr_failures := rr_failures r @ [(si_id si, errorMessage e)]\<rparr>))))
     (\<lambda>r' w'. \<exists>row. findSiById (w_db w') (si_id si) = Some row \<and> siStepped now w si r r' row (w_db w'))
     (\<lambda>e w'. e = Diverged \<or> findSiById (w_db w') (si_id si) = Some (failedRow si)) s"
proof -
  let ?d = "siUpdateRow (siFailed si) (w_db s)"
  have row: "findSiById ?d (si_id si) = Some (siFailed si)"
    using assms(1) findSi_update [of "w_db s" "siFailed si"] by (auto simp: siThrown_def)
  have money: "moneyTables d' = moneyTables (w_db w) \<or> siPosted w si d'" if "moneyTables d' = moneyTables ?d" for d'
    using assms(1) that findKey_cong [of d' "w_db s"] by (auto simp: siThrown_def siPosted_def)
  show ?thesis
    unfolding wp_bnd wp_updateSi rows_after [symmetric]
    by (rule wp_sis [OF leaves_noteFailure])
      (use row money assms(2,3) in \<open>auto simp: wp_rules siStepped_def rows_after [symmetric] dest: findSi_keep\<close>)
qed

lemma runStep_row:
  assumes "accountsOk (w_db w)" and "findSiById (w_db w) (si_id si) = Some si"
  shows "wp (runStep publish n now r si)
     (\<lambda>r' w'. \<exists>row. findSiById (w_db w') (si_id si) = Some row \<and> siStepped now w si r r' row (w_db w'))
     (\<lambda>e w'. e = Diverged \<or> findSiById (w_db w') (si_id si) = Some (failedRow si)) w"
proof (cases "siEnded now si \<or> findBeneficiaryById (w_db w) (si_beneficiaryId si) = None")
  case True
  then show ?thesis
    using assms(2) findSi_update [of "w_db w" "si\<lparr>si_status := SiCancelled\<rparr>" si]
    by (auto simp: runStep_def wp_rules siStepped_def rows_after [symmetric] siEnded_def split: option.splits)
next
  case False
  then obtain b where b: "\<not> siEnded now si" "findBeneficiaryById (w_db w) (si_beneficiaryId si) = Some b" by auto
  have case_end: "(case si_endAt si of None \<Rightarrow> False | Some e \<Rightarrow> e \<le> now) = False"
    using b(1) by (simp add: siEnded_def)
  show ?thesis
    unfolding runStep_def case_end if_False
    apply (simp add: wp_rules b(2))
    apply (rule wp_mono [OF runOne_row [OF assms b(2)]])
     apply (use b in \<open>simp add: wp_rules siStepped_def rows_after [symmetric]\<close>)
    apply (use runStep_failing [OF _ b] in \<open>simp add: wp_rules\<close>)
    done
qed

lemma runOne_replay:
  assumes "accountsOk (w_db w)" and "priorTransfer (w_db w) (Some (siKey si)) = Some t0"
  shows "wp (runOne publish now si b) (\<lambda>_ w'. moneyTables (w_db w') = moneyTables (w_db w))
     (\<lambda>_ w'. moneyTables (w_db w') = moneyTables (w_db w)) w"
  unfolding runOne_def wp_bnd
proof (rule wp_mono [OF executeTransfer_wp [OF assms(1)]])
  have key: "priorTransfer (w_db w) (ti_idempotencyKey (siTransfer si b)) = Some t0"
    using assms(2) by (simp add: siTransfer_def)
  note same = moneyTables_bankView [OF conjunct2 [OF transferOutcome_old [OF _ key]]]
  show "moneyTables (w_db s) = moneyTables (w_db w)"
    if "w_db s = w_db w \<and> (isCommonDomainError e \<or> isDbError e)
         \<or> (\<exists>t. transferOutcome w (siTransfer si b) t (w_db s))" for e and s :: world
    using that same by auto
  show "wp (updateSi (siSucceeded now si)) (\<lambda>x. wp (publish [SiEv (StandingInstructionRan (si_id si)
        (si_ownerUserId si) (si_amount si) (b_accountNumber b) now)])
      (\<lambda>_ w'. moneyTables (w_db w') = moneyTables (w_db w)) (\<lambda>_ w'. moneyTables (w_db w') = moneyTables (w_db w)))
      (\<lambda>_ w'. moneyTables (w_db w') = moneyTables (w_db w)) s"
    if "transferOutcome w (siTransfer si b) t (w_db s)" for t and s :: world
    unfolding wp_updateSi
    by (rule leaves_wp [OF leaves_money [OF quiet1]]) (use same [OF that] in \<open>simp_all add: isKycApproved_def\<close>)
qed

lemma runStep_replay:
  assumes "accountsOk (w_db w)" and "priorTransfer (w_db w) (Some (siKey si)) = Some t0"
  shows "wp (runStep publish n now r si) (\<lambda>_ w'. moneyTables (w_db w') = moneyTables (w_db w))
     (\<lambda>_ w'. moneyTables (w_db w') = moneyTables (w_db w)) w"
proof -
  let ?I = "\<lambda>w'. moneyTables (w_db w') = moneyTables (w_db w)"
  have fail: "wp (thn (updateSi (siFailed si)) (thn (noteFailure n si m) (ret x))) (\<lambda>_. ?I) (\<lambda>_. ?I) s"
    if "?I s" for m s and x :: run_result
    unfolding wp_bnd wp_updateSi wp_ret
    by (rule leaves_wp [OF leaves_money [OF leaves_noteFailure]]) (use that in simp_all)
  show ?thesis
  proof (cases "siEnded now si \<or> findBeneficiaryById (w_db w) (si_beneficiaryId si) = None")
    case True
    then show ?thesis by (auto simp: runStep_def wp_rules siEnded_def split: option.splits)
  next
    case False
    then obtain b where b: "(case si_endAt si of None \<Rightarrow> False | Some e \<Rightarrow> e \<le> now) = False"
      "findBeneficiaryById (w_db w) (si_beneficiaryId si) = Some b"
      by (auto simp: siEnded_def)
    show ?thesis
      unfolding runStep_def b(1) if_False
      apply (simp add: wp_rules b(2))
      apply (rule wp_mono [OF runOne_replay [OF assms]])
       apply (simp add: wp_rules)
      apply (use fail in \<open>simp add: wp_rules\<close>)
      done
  qed
qed

end

section \<open>Counting\<close>

lemma runStep_counts:
  "wp (runStep bus n now r si)
     (\<lambda>r' _. rr_totalDue r' = rr_totalDue r
        \<and> rr_succeeded r' + rr_failed r' = rr_succeeded r + rr_failed r + (if siEnded now si then 0 else 1)
        \<and> length (rr_failures r') + rr_failed r = rr_failed r' + length (rr_failures r))
     (\<lambda>_ _. True) w"
proof (cases "siEnded now si \<or> findBeneficiaryById (w_db w) (si_beneficiaryId si) = None")
  case True
  then show ?thesis by (auto simp: runStep_def wp_rules siEnded_def split: option.splits)
next
  case False
  then obtain b where b: "(case si_endAt si of None \<Rightarrow> False | Some e \<Rightarrow> e \<le> now) = False" "\<not> siEnded now si"
    "findBeneficiaryById (w_db w) (si_beneficiaryId si) = Some b"
    by (auto simp: siEnded_def)
  show ?thesis
    unfolding runStep_def b(1) if_False
    apply (simp add: wp_rules b(2,3))
    apply (rule wp_mono [OF wp_True])
    by (simp_all add: wp_rules wp_mono [OF wp_True])
qed

lemma foldSteps_counts:
  "wp (foldProg due (runStep bus n now) r)
     (\<lambda>r' _. rr_totalDue r' = rr_totalDue r
        \<and> rr_succeeded r' + rr_failed r' + length (filter (siEnded now) due) = rr_succeeded r + rr_failed r + length due
        \<and> length (rr_failures r') + rr_failed r = rr_failed r' + length (rr_failures r))
     (\<lambda>_ _. True) w"
proof (induction due arbitrary: r w)
  case (Cons si due)
  show ?case
    unfolding foldProg.simps wp_bnd
  proof (rule wp_mono [OF runStep_counts])
    fix r1 :: run_result and s :: world
    assume "rr_totalDue r1 = rr_totalDue r
        \<and> rr_succeeded r1 + rr_failed r1 = rr_succeeded r + rr_failed r + (if siEnded now si then 0 else 1)
        \<and> length (rr_failures r1) + rr_failed r = rr_failed r1 + length (rr_failures r)"
    then show "wp (foldProg due (runStep bus n now) r1)
       (\<lambda>r' _. rr_totalDue r' = rr_totalDue r
          \<and> rr_succeeded r' + rr_failed r' + length (filter (siEnded now) (si # due))
              = rr_succeeded r + rr_failed r + length (si # due)
          \<and> length (rr_failures r') + rr_failed r = rr_failed r' + length (rr_failures r))
       (\<lambda>_ _. True) s"
      by (intro wp_mono [OF Cons.IH]) auto
  qed simp
qed (simp add: wp_ret)

lemma showNat_digits: "\<forall>c \<in> set (showNat k). isDigit c"
  using digitsRev_decimal [of k] by (simp add: showNat_def showRadix_def)

lemma showNat_not_minus: "showNat k \<noteq> CHR ''-'' # s"
  using showNat_digits [of k] by (auto simp: isDigit_def)

lemma showInt_inj: "showInt a = showInt b \<longleftrightarrow> a = b"
  using showNat_not_minus not_sym [OF showNat_not_minus] by (auto simp: showInt_def split: if_splits)

text \<open>The keys of two runs of one instruction differ when the planned times do.\<close>

lemma siKey_inj: "si_id a = si_id b \<Longrightarrow> siKey a = siKey b \<longleftrightarrow> si_nextRunAt a = si_nextRunAt b"
  by (simp add: siKey_def showInt_inj)

lemma siKey_fresh: "siKey (siSucceeded now si) \<noteq> siKey si"
  using advanceRun_later [of "si_nextRunAt si" "si_frequency si"]
  by (subst siKey_inj) (simp_all add: siSucceeded_def)

section \<open>Properties\<close>

text \<open>
  C20: Running the due instructions keeps the books, whatever happens to the single transfers: the
  account, key and double-entry invariants, the total of all balances and the reconciliation with ledger
  and holds.
\<close>

theorem runDueInstructions_keeps_books:
  assumes "booksOk (w_db w)"
  shows "sameMoney (w_db w) (w_db (snd (runDueInstructions (containerPublish sha) n w)))"
  by (rule keeps_snd [OF container_bus.runDueInstructions_keeps]) (rule sameMoney_refl [OF assms])

theorem runDueInstructions_keeps_books_witness:
  "sameMoney exDb (w_db (snd (runDueInstructions (containerPublish rev) True (exWorld exDb))))"
  using runDueInstructions_keeps_books [of "exWorld exDb" rev True] by (simp add: exDb_books)

text \<open>
  C21: One step of the tick leaves the row of its instruction in one of five ways, and the counters of the result
  record which: cancelled when its end has passed and as it was when the payee is gone, no money moving; advanced
  to the next run with the failure count reset only when the transfer of the run to the payee's account is
  recorded under the key of the run (made by this step, or found made before under that key); or with one more
  failure, paused from the third on, when anything threw, the money then being as before or that of the recorded
  transfer. (The pausing is what the code does; its documentation comment says that there is none.)
\<close>

theorem runStep_records:
  assumes "accountsOk (w_db w)" and "findSiById (w_db w) (si_id si) = Some si"
  shows "wp (runStep (containerPublish sha) n now r si)
     (\<lambda>r' w'. \<exists>row. findSiById (w_db w') (si_id si) = Some row \<and> siStepped now w si r r' row (w_db w'))
     (\<lambda>e w'. e = Diverged \<or> findSiById (w_db w') (si_id si) = Some (failedRow si)) w"
  by (rule container_bus.runStep_row [OF assms])

definition exSi :: standing_instruction where
  "exSi = \<lparr>si_id = ''s1'', si_ownerUserId = ''ua'', si_fromAccountId = ''a1'', si_beneficiaryId = ''b9'',
     si_amount = 700, si_currency = INR, si_frequency = Daily, si_nextRunAt = 5, si_lastRunAt = None,
     si_status = SiActive, si_description = None, si_endAt = None, si_failureCount = 2, si_createdAt = 0\<rparr>"

theorem runStep_records_witness:
  "wp (runStep (containerPublish rev) True 9 \<lparr>rr_totalDue = 1, rr_succeeded = 0, rr_failed = 0, rr_failures = []\<rparr> exSi)
     (\<lambda>r' w'. \<exists>row. findSiById (w_db w') ''s1'' = Some row \<and> siStepped 9 (exWorld (exDb\<lparr>db_sis := [exSi]\<rparr>)) exSi
        \<lparr>rr_totalDue = 1, rr_succeeded = 0, rr_failed = 0, rr_failures = []\<rparr> r' row (w_db w'))
     (\<lambda>e w'. e = Diverged \<or> findSiById (w_db w') ''s1'' = Some (failedRow exSi)) (exWorld (exDb\<lparr>db_sis := [exSi]\<rparr>))"
  using runStep_records [of "exWorld (exDb\<lparr>db_sis := [exSi]\<rparr>)" exSi rev True 9
      "\<lparr>rr_totalDue = 1, rr_succeeded = 0, rr_failed = 0, rr_failures = []\<rparr>"] exDb_accounts
  by (simp add: accountsOk_def findSiById_def exSi_def)

text \<open>
  C22: A run is posted at most once: when a transfer with the key of the planned run is already recorded, a
  step leaves accounts, transfers and ledger exactly as they are; and the key of the run after a
  success is a different one.
\<close>

theorem runStep_no_double_post:
  assumes "accountsOk (w_db w)" and "priorTransfer (w_db w) (Some (siKey si)) = Some t0"
  shows "moneyTables (w_db (snd (runStep (containerPublish sha) n now r si w))) = moneyTables (w_db w)
     \<and> siKey (siSucceeded now si) \<noteq> siKey si"
  using wp_sndD [OF container_bus.runStep_replay [OF assms]] siKey_fresh by blast

theorem runStep_no_double_post_witness:
  "moneyTables (w_db (snd (runStep (containerPublish rev) True 9
      \<lparr>rr_totalDue = 1, rr_succeeded = 0, rr_failed = 0, rr_failures = []\<rparr> exSi
      (exWorld (exDb\<lparr>db_transfers := [exPosted\<lparr>t_idempotencyKey := Some ''si:s1:5''\<rparr>]\<rparr>)))))
    = moneyTables (exDb\<lparr>db_transfers := [exPosted\<lparr>t_idempotencyKey := Some ''si:s1:5''\<rparr>]\<rparr>)
   \<and> siKey (siSucceeded 9 exSi) \<noteq> siKey exSi"
proof -
  have k: "siKey exSi = ''si:s1:5''" by code_simp
  show ?thesis
    using runStep_no_double_post [of "exWorld (exDb\<lparr>db_transfers := [exPosted\<lparr>t_idempotencyKey := Some ''si:s1:5''\<rparr>]\<rparr>)"
        exSi "exPosted\<lparr>t_idempotencyKey := Some ''si:s1:5''\<rparr>" rev True 9
        "\<lparr>rr_totalDue = 1, rr_succeeded = 0, rr_failed = 0, rr_failures = []\<rparr>"] exDb_accounts
    by (simp add: accountsOk_def k priorTransfer_def findTransferByKey_def)
qed

text \<open>
  C20: Every due instruction is accounted for: when the tick returns, the instructions that succeeded, that
  failed and that had ended add up to the instructions due, and there is one failure record for each
  that failed.
\<close>

theorem runDueInstructions_counts:
  "wp (runDueInstructions bus n)
     (\<lambda>r _. let now = w_clock w (w_clockN w); due = listDueSis (w_db w) now in
        rr_totalDue r = length due
        \<and> rr_succeeded r + rr_failed r + length (filter (siEnded now) due) = length due
        \<and> length (rr_failures r) = rr_failed r)
     (\<lambda>_ _. True) w"
  by (simp add: runDueInstructions_def wp_rules Let_def) (rule wp_mono [OF foldSteps_counts], auto)

end
