(* ===== verification/BeneficiaryOps.thy ===== *)
theory BeneficiaryOps
  imports Examples
begin

text \<open>
  Saved payees: \<open>contexts/beneficiaries/application/manageBeneficiary.ts\<close> and \<open>externalBeneficiary.ts\<close>,
  the invariant of the two tables, and the cooling period a new payee serves.
\<close>

section \<open>Internal payees\<close>

definition publishBen :: "bus option \<Rightarrow> beneficiary_event \<Rightarrow> unit op" where
  "publishBen bus e = (case bus of None \<Rightarrow> ret () | Some publish \<Rightarrow> publish [BeneficiaryEv e])"

definition addBeneficiary :: "bus option \<Rightarrow> string \<Rightarrow> string \<Rightarrow> string \<Rightarrow> beneficiary op" where
  "addBeneficiary bus ownerUserId nickname nr =
     bnd (dbGet (\<lambda>d. findAccountByNumber d nr)) (\<lambda>x.
     bnd (need x (Ben BeneficiaryUnknownAccountError)) (\<lambda>target.
     thn (throwIf (acc_userId target = ownerUserId) (Ben BeneficiarySelfTargetError))
    (bnd (dbGet (\<lambda>d. findBeneficiaryByOwnerAndAccount d ownerUserId nr)) (\<lambda>existing.
     thn (throwIf (existing \<noteq> None) (Ben BeneficiaryAlreadyExistsError))
    (bnd (dbGet (\<lambda>d. findUserById d (acc_userId target))) (\<lambda>counterparty.
     bnd clockNow (\<lambda>now.
     bnd uuid (\<lambda>i.
     bnd (lift (createBeneficiary i ownerUserId nickname nr (map_option u_username counterparty)
                  (Some BenPending) (Some (now + BENEFICIARY_COOLING_MS)) now)) (\<lambda>b.
     thn (insertBeneficiary b)
    (thn (publishBen bus (BeneficiaryAdded (b_id b) (b_ownerUserId b) (b_accountNumber b) (b_nickname b)
            (b_createdAt b)))
         (ret b)))))))))))"

definition renameBeneficiary :: "bus option \<Rightarrow> string \<Rightarrow> string \<Rightarrow> string \<Rightarrow> beneficiary op" where
  "renameBeneficiary bus ownerUserId i nickname =
     bnd (dbGet (\<lambda>d. findBeneficiaryById d i)) (\<lambda>x.
     bnd (need x (Ben BeneficiaryNotFoundError)) (\<lambda>b.
     thn (throwIf (b_ownerUserId b \<noteq> ownerUserId) (Ben BeneficiaryNotFoundError))
    (bnd (lift (renameBeneficiaryNickname b nickname)) (\<lambda>updated.
     thn (updateBeneficiary updated)
    (thn (case bus of None \<Rightarrow> ret ()
          | Some publish \<Rightarrow> bnd clockNow (\<lambda>now. publish [BeneficiaryEv
              (BeneficiaryRenamed (b_id updated) (b_ownerUserId updated) (b_nickname b) (b_nickname updated) now)]))
         (ret updated))))))"

definition removeBeneficiary :: "bus option \<Rightarrow> string \<Rightarrow> string \<Rightarrow> unit op" where
  "removeBeneficiary bus ownerUserId i =
     bnd (dbGet (\<lambda>d. findBeneficiaryById d i)) (\<lambda>x.
     bnd (need x (Ben BeneficiaryNotFoundError)) (\<lambda>b.
     thn (throwIf (b_ownerUserId b \<noteq> ownerUserId) (Ben BeneficiaryNotFoundError))
    (thn (deleteBeneficiary (b_id b))
         (case bus of None \<Rightarrow> ret ()
          | Some publish \<Rightarrow> bnd clockNow (\<lambda>now. publish [BeneficiaryEv
              (BeneficiaryRemoved (b_id b) (b_ownerUserId b) (b_accountNumber b) now)])))))"

definition touchBeneficiaryByAccount :: "string \<Rightarrow> string \<Rightarrow> unit op" where
  "touchBeneficiaryByAccount ownerUserId nr =
     bnd (dbGet (\<lambda>d. findBeneficiaryByOwnerAndAccount d ownerUserId nr)) (\<lambda>x.
     case x of None \<Rightarrow> ret () | Some b \<Rightarrow> bnd clockNow (\<lambda>now. touchBeneficiary (b_id b) now))"

section \<open>External payees\<close>

record external_input =
  xi_ownerUserId :: string
  xi_nickname :: string
  xi_accountNumber :: string
  xi_ifsc :: string
  xi_bankName :: string
  xi_beneficiaryName :: string
  xi_vpa :: "string option"
  xi_preferredRail :: "preferred_rail option"

definition addExternalBeneficiary :: "external_input \<Rightarrow> external_beneficiary op" where
  "addExternalBeneficiary inp =
     bnd (dbGet (\<lambda>d. findExternalByOwnerAccountIfsc d (xi_ownerUserId inp) (xi_accountNumber inp)
                       (toUpperCase (xi_ifsc inp)))) (\<lambda>existing.
     thn (throwIf (existing \<noteq> None) (GenericError ''External beneficiary already saved''))
    (bnd clockNow (\<lambda>now.
     bnd uuid (\<lambda>i.
     bnd (lift (createExternalBeneficiary i (xi_ownerUserId inp) (xi_nickname inp) (xi_accountNumber inp)
                  (xi_ifsc inp) (xi_bankName inp) (xi_beneficiaryName inp) (xi_vpa inp) (xi_preferredRail inp)
                  (Some BenPending) (Some (now + BENEFICIARY_COOLING_MS)) now)) (\<lambda>b.
     thn (insertExternalBeneficiary b) (ret b))))))"

definition listExternalBeneficiaries :: "string \<Rightarrow> external_beneficiary list op" where
  "listExternalBeneficiaries owner = dbGet (\<lambda>d. listExternalByOwner d owner)"

section \<open>Well-formed payee tables\<close>

definition benKey :: "beneficiary \<Rightarrow> string \<times> string" where
  "benKey b = (b_ownerUserId b, b_accountNumber b)"

definition beneficiaryOk :: "beneficiary \<Rightarrow> bool" where
  "beneficiaryOk b \<longleftrightarrow> isValidAccountNumber (b_accountNumber b) \<and> b_nickname b \<noteq> []
     \<and> length (b_nickname b) \<le> 64"

definition beneficiariesOk :: "beneficiary list \<Rightarrow> bool" where
  "beneficiariesOk bs \<longleftrightarrow> distinct (map b_id bs) \<and> distinct (map benKey bs) \<and> (\<forall>b \<in> set bs. beneficiaryOk b)"

definition externalKey :: "external_beneficiary \<Rightarrow> string \<times> string \<times> string" where
  "externalKey x = (x_ownerUserId x, x_accountNumber x, x_ifsc x)"

definition externalOk :: "external_beneficiary \<Rightarrow> bool" where
  "externalOk x \<longleftrightarrow> isValidIfsc (x_ifsc x) \<and> 9 \<le> length (x_accountNumber x) \<and> length (x_accountNumber x) \<le> 18
     \<and> list_all isDigit (x_accountNumber x) \<and> x_nickname x \<noteq> []"

definition externalsOk :: "external_beneficiary list \<Rightarrow> bool" where
  "externalsOk xs \<longleftrightarrow> distinct (map x_id xs) \<and> distinct (map externalKey xs) \<and> (\<forall>x \<in> set xs. externalOk x)"

definition payeesOk :: "db \<Rightarrow> bool" where
  "payeesOk d \<longleftrightarrow> beneficiariesOk (db_beneficiaries d) \<and> externalsOk (db_external d)"

lemma beneficiariesOk_append:
  assumes "beneficiariesOk bs" and "beneficiaryOk b"
    and "List.find (\<lambda>r. b_id r = b_id b) bs = None"
    and "List.find (\<lambda>r. b_ownerUserId r = b_ownerUserId b \<and> b_accountNumber r = b_accountNumber b) bs = None"
  shows "beneficiariesOk (bs @ [b])"
  using assms by (auto simp: beneficiariesOk_def benKey_def find_None_iff)

lemma beneficiariesOk_update:
  assumes "beneficiariesOk bs"
    and "\<And>r. r \<in> set bs \<Longrightarrow> P r \<Longrightarrow> b_id (f r) = b_id r \<and> benKey (f r) = benKey r \<and> beneficiaryOk (f r)"
  shows "beneficiariesOk (updateWhere P f bs)"
proof -
  have "map b_id (updateWhere P f bs) = map b_id bs" "map benKey (updateWhere P f bs) = map benKey bs"
    using assms(2) by (auto simp: updateWhere_def)
  then show ?thesis using assms by (auto simp: beneficiariesOk_def set_updateWhere)
qed

lemma beneficiariesOk_filter: "beneficiariesOk bs \<Longrightarrow> beneficiariesOk (filter P bs)"
  by (auto simp: beneficiariesOk_def distinct_map_filter)

lemma externalsOk_append:
  assumes "externalsOk xs" and "externalOk x" and "x_id x \<notin> x_id ` set xs"
    and "List.find (\<lambda>r. x_ownerUserId r = x_ownerUserId x \<and> x_accountNumber r = x_accountNumber x
            \<and> x_ifsc r = x_ifsc x) xs = None"
  shows "externalsOk (xs @ [x])"
  using assms by (auto simp: externalsOk_def externalKey_def find_None_iff)

lemma payeesOk_view: "bankView d' = bankView d \<Longrightarrow> payeesOk d' = payeesOk d"
  unfolding payeesOk_def using bankViewD(6,7) by metis

lemma createBeneficiary_ok: "createBeneficiary i ow n a un st act ts = Inr b \<Longrightarrow> beneficiaryOk b"
  by (drule createBeneficiary_Inr) (simp add: beneficiaryOk_def)

lemma createExternal_ok: "createExternalBeneficiary i ow n a f bn nm v r st act ts = Inr x \<Longrightarrow> externalOk x"
  by (auto simp: createExternalBeneficiary_def andThen_Inr_iff Let_def externalOk_def)

lemma rename_facts:
  "renameBeneficiaryNickname b n = Inr b' \<Longrightarrow>
     b' = b\<lparr>b_nickname := trim n\<rparr> \<and> trim n \<noteq> [] \<and> length (trim n) \<le> 64"
  by (auto simp: renameBeneficiaryNickname_def andThen_Inr_iff Let_def)

section \<open>What the operations do\<close>

text \<open>A payee was added: pending, and not payable before the cooling period is over.\<close>

definition benAdded :: "db \<Rightarrow> string \<Rightarrow> string \<Rightarrow> int \<Rightarrow> beneficiary \<Rightarrow> db \<Rightarrow> bool" where
  "benAdded d owner nr now b d' \<longleftrightarrow>
     (\<exists>a. findAccountByNumber d nr = Some a \<and> acc_userId a \<noteq> owner)
     \<and> findBeneficiaryByOwnerAndAccount d owner nr = None \<and> findBeneficiaryById d (b_id b) = None
     \<and> b_ownerUserId b = owner \<and> b_accountNumber b = nr \<and> b_status b = BenPending
     \<and> b_activatedAt b = Some (now + BENEFICIARY_COOLING_MS) \<and> beneficiaryOk b
     \<and> d' = d\<lparr>db_beneficiaries := db_beneficiaries d @ [b]\<rparr>"

lemma benAdded_ok: "benAdded d owner nr now b d' \<Longrightarrow> payeesOk d \<Longrightarrow> payeesOk d'"
  by (auto simp: benAdded_def payeesOk_def findBeneficiaryById_def findBeneficiaryByOwnerAndAccount_def
      intro!: beneficiariesOk_append)

lemma benAddedI:
  assumes "createBeneficiary i owner nick nr un (Some BenPending) (Some (now + BENEFICIARY_COOLING_MS)) now = Inr b"
    and "findAccountByNumber d nr = Some a" and "acc_userId a \<noteq> owner"
    and "findBeneficiaryByOwnerAndAccount d owner nr = None" and "findBeneficiaryById d (b_id b) = None"
  shows "benAdded d owner nr now b (d\<lparr>db_beneficiaries := db_beneficiaries d @ [b]\<rparr>)"
  using assms(2-) createBeneficiary_Inr [OF assms(1)] createBeneficiary_ok [OF assms(1)]
  by (simp add: benAdded_def)

lemma ben_quiet [simp]: "\<not> isKycApproved (BeneficiaryEv e)"
  by (simp add: isKycApproved_def)

text \<open>Up to notifications and audit rows, which subscribers of the event may add.\<close>

definition benAddedAs :: "world \<Rightarrow> string \<Rightarrow> string \<Rightarrow> beneficiary \<Rightarrow> world \<Rightarrow> bool" where
  "benAddedAs w owner nr b w' \<longleftrightarrow>
     (\<exists>d. benAdded (w_db w) owner nr (w_clock w (w_clockN w)) b d \<and> bankView (w_db w') = bankView d)"

lemma benAddedAs_ok: "benAddedAs w owner nr b w' \<Longrightarrow> payeesOk (w_db w) \<Longrightarrow> payeesOk (w_db w')"
  unfolding benAddedAs_def by (metis benAdded_ok payeesOk_view)

lemma payeesOk_delete: "payeesOk d \<Longrightarrow> payeesOk (d\<lparr>db_beneficiaries := filter P (db_beneficiaries d), db_sis := s\<rparr>)"
  by (simp add: payeesOk_def beneficiariesOk_filter)

lemma payeesOk_bens: "payeesOk d \<Longrightarrow> beneficiariesOk bs \<Longrightarrow> payeesOk (d\<lparr>db_beneficiaries := bs\<rparr>)"
  by (simp add: payeesOk_def)

lemma payeesOk_rename:
  assumes "payeesOk d" and "renameBeneficiaryNickname b n = Inr b'"
  shows "payeesOk (d\<lparr>db_beneficiaries := updateWhere (\<lambda>r. b_id r = b_id b')
     (\<lambda>r. r\<lparr>b_nickname := b_nickname b', b_status := b_status b', b_activatedAt := b_activatedAt b',
            b_lastUsedAt := b_lastUsedAt b'\<rparr>) (db_beneficiaries d)\<rparr>)"
proof (rule payeesOk_bens [OF assms(1) beneficiariesOk_update])
  show "beneficiariesOk (db_beneficiaries d)" using assms(1) by (simp add: payeesOk_def)
qed (use assms rename_facts [OF assms(2)] in \<open>auto simp: payeesOk_def benKey_def beneficiaryOk_def beneficiariesOk_def\<close>)

lemma payeesOk_touch:
  assumes "payeesOk d"
  shows "payeesOk (d\<lparr>db_beneficiaries := updateWhere P (\<lambda>r. r\<lparr>b_lastUsedAt := t\<rparr>) (db_beneficiaries d)\<rparr>)"
  using assms
  by (intro payeesOk_bens beneficiariesOk_update)
    (auto simp: payeesOk_def benKey_def beneficiaryOk_def beneficiariesOk_def)

lemma payeesOk_quiet: "bankView d' = bankView d \<Longrightarrow> payeesOk d \<Longrightarrow> payeesOk d'"
  using payeesOk_view by blast

lemma keeps_touchByAccount: "keeps (\<lambda>w. payeesOk (w_db w)) (touchBeneficiaryByAccount owner nr)"
  by (rule keepsI)
    (simp add: touchBeneficiaryByAccount_def touchBeneficiary_def wp_rules payeesOk_touch split: option.splits)

lemma keeps_addExternal: "keeps (\<lambda>w. payeesOk (w_db w)) (addExternalBeneficiary inp)"
proof (rule keepsI)
  fix w :: world assume p: "payeesOk (w_db w)"
  have "payeesOk (w_db w\<lparr>db_external := db_external (w_db w) @ [x]\<rparr>)"
    if "createExternalBeneficiary i ow n a f bn nm v r st act ts = Inr x" "x_id x \<notin> x_id ` set (db_external (w_db w))"
      "findExternalByOwnerAccountIfsc (w_db w) (x_ownerUserId x) (x_accountNumber x) (x_ifsc x) = None"
    for i ow n a f bn nm v r st act ts x
    using p that createExternal_ok [OF that(1)]
    by (auto simp: payeesOk_def findExternalByOwnerAccountIfsc_def intro!: externalsOk_append)
  with p show "wp (addExternalBeneficiary inp) (\<lambda>_ w. payeesOk (w_db w)) (\<lambda>_ w. payeesOk (w_db w)) w"
    by (auto simp: addExternalBeneficiary_def wp_rules insertExternalBeneficiary_def split: sum.splits)
qed

text \<open>A payee of the caller.\<close>

definition ownPayee :: "db \<Rightarrow> string \<Rightarrow> string \<Rightarrow> bool" where
  "ownPayee d owner i \<longleftrightarrow> (\<exists>b. findBeneficiaryById d i = Some b \<and> b_ownerUserId b = owner)"

lemma findBeneficiary_quiet:
  "bankView d' = bankView d \<Longrightarrow> findBeneficiaryById d i = x \<Longrightarrow> findBeneficiaryById d' i = x"
  using bankViewD(6) [of d' d] by (simp add: findBeneficiaryById_def)

lemma find_deleted:
  assumes "findBeneficiaryById d i = Some b"
  shows "b_id b = i"
    and "findBeneficiaryById (d\<lparr>db_beneficiaries := filter (\<lambda>r. b_id r \<noteq> i) (db_beneficiaries d), db_sis := s\<rparr>) i = None"
  using assms by (auto simp: findBeneficiaryById_def find_None_iff dest: find_Some_iff_mem)

context event_bus begin

lemma addBeneficiary_wp:
  "wp (addBeneficiary (Some publish) owner nick nr) (benAddedAs w owner nr)
     (\<lambda>e w'. w_db w' = w_db w \<or> (\<exists>b. benAddedAs w owner nr b w')) w"
  apply (simp add: addBeneficiary_def wp_rules insertBeneficiary_def publishBen_def split: option.splits sum.splits)
  apply (intro allI impI conjI)
  subgoal for a b
    using benAddedI [of "w_uuid w (w_uuidN w)" owner nick nr _ "w_clock w (w_clockN w)" b "w_db w" a]
    by (intro wp_publish) (auto simp: benAddedAs_def wp_rules dest: createBeneficiary_Inr)
  done

lemma renameBeneficiary_wp:
  assumes "payeesOk (w_db w)"
  shows "wp (renameBeneficiary (Some publish) owner i nick)
     (\<lambda>b w'. payeesOk (w_db w') \<and> ownPayee (w_db w) owner i) (\<lambda>e w'. payeesOk (w_db w')) w"
  apply (simp add: renameBeneficiary_def wp_rules updateBeneficiary_def assms split: option.splits sum.splits)
  apply (intro allI impI)
  subgoal for b b'
    using payeesOk_rename [OF assms, of b nick b']
    by (intro wp_publish) (auto simp: wp_rules ownPayee_def elim: payeesOk_quiet)
  done

lemma removeBeneficiary_wp:
  assumes "payeesOk (w_db w)"
  shows "wp (removeBeneficiary (Some publish) owner i)
     (\<lambda>_ w'. payeesOk (w_db w') \<and> ownPayee (w_db w) owner i \<and> findBeneficiaryById (w_db w') i = None)
     (\<lambda>e w'. payeesOk (w_db w')) w"
  apply (simp add: removeBeneficiary_def wp_rules deleteBeneficiary_def assms split: option.splits)
  apply (intro allI impI)
  subgoal for b
    using payeesOk_delete [OF assms] find_deleted [of "w_db w" i b]
    by (intro wp_publish) (auto simp: wp_rules ownPayee_def elim: payeesOk_quiet findBeneficiary_quiet)
  done

end

text \<open>Whatever the bus, the payee that is returned is pending and owned by the caller.\<close>

lemma addBeneficiary_row:
  assumes "addBeneficiary bus owner nick nr w = (Inr b, w1)"
  shows "b_ownerUserId b = owner" "b_status b = BenPending"
    "b_activatedAt b = Some (w_clock w (w_clockN w) + BENEFICIARY_COOLING_MS)"
proof -
  have "wp (addBeneficiary bus owner nick nr) (\<lambda>b w'. b_ownerUserId b = owner \<and> b_status b = BenPending
      \<and> b_activatedAt b = Some (w_clock w (w_clockN w) + BENEFICIARY_COOLING_MS)) (\<lambda>_ _. True) w"
    by (auto simp: addBeneficiary_def wp_rules insertBeneficiary_def publishBen_def split: option.splits sum.splits
        dest!: createBeneficiary_Inr intro!: wp_mono [OF wp_True]) (auto simp: ret_def)
  from wp_okD [OF this assms] show "b_ownerUserId b = owner" "b_status b = BenPending"
    "b_activatedAt b = Some (w_clock w (w_clockN w) + BENEFICIARY_COOLING_MS)" by auto
qed

section \<open>Properties\<close>

text \<open>
  C24: Adding, renaming, removing and stamping payees keeps the payee tables well formed: ids and
  (owner, account) pairs are unique, account numbers and nicknames are valid, and the same for external
  payees with their IFSC.
\<close>

theorem payees_well_formed:
  assumes "payeesOk (w_db w)"
  shows "payeesOk (w_db (snd (addBeneficiary (Some (containerPublish sha)) owner nick nr w)))
    \<and> payeesOk (w_db (snd (renameBeneficiary (Some (containerPublish sha)) owner i nick w)))
    \<and> payeesOk (w_db (snd (removeBeneficiary (Some (containerPublish sha)) owner i w)))
    \<and> payeesOk (w_db (snd (touchBeneficiaryByAccount owner nr w)))
    \<and> payeesOk (w_db (snd (addExternalBeneficiary inp w)))"
proof (intro conjI)
  have "wp (addBeneficiary (Some (containerPublish sha)) owner nick nr)
      (\<lambda>_ w'. payeesOk (w_db w')) (\<lambda>_ w'. payeesOk (w_db w')) w"
    using benAddedAs_ok [OF _ assms] assms
    by (intro wp_mono [OF container_bus.addBeneficiary_wp]) (metis+)
  then show "payeesOk (w_db (snd (addBeneficiary (Some (containerPublish sha)) owner nick nr w)))"
    by (rule wp_sndD)
  show "payeesOk (w_db (snd (renameBeneficiary (Some (containerPublish sha)) owner i nick w)))"
    by (rule wp_sndD, rule wp_mono [OF container_bus.renameBeneficiary_wp [OF assms]]) auto
  show "payeesOk (w_db (snd (removeBeneficiary (Some (containerPublish sha)) owner i w)))"
    by (rule wp_sndD, rule wp_mono [OF container_bus.removeBeneficiary_wp [OF assms]]) auto
  show "payeesOk (w_db (snd (touchBeneficiaryByAccount owner nr w)))"
    by (rule keeps_snd [OF keeps_touchByAccount assms])
  show "payeesOk (w_db (snd (addExternalBeneficiary inp w)))"
    by (rule keeps_snd [OF keeps_addExternal assms])
qed

theorem payees_well_formed_witness:
  "payeesOk (w_db (snd (addBeneficiary (Some (containerPublish rev)) ''ua'' ''Bob'' ''SBE-0000000002'' (exWorld exDb))))"
  using payees_well_formed [of "exWorld exDb" rev "''ua''" "''Bob''" "''SBE-0000000002''"]
  by (simp add: payeesOk_def beneficiariesOk_def externalsOk_def exDb_def)

text \<open>The payee's row is gone, or it still has the status and the activation time it was added with.\<close>

definition stillCooling :: "beneficiary \<Rightarrow> db \<Rightarrow> bool" where
  "stillCooling b d \<longleftrightarrow> (case findBeneficiaryById d (b_id b) of
     None \<Rightarrow> True | Some r \<Rightarrow> b_status r = b_status b \<and> b_activatedAt r = b_activatedAt b)"

text \<open>
  C23: A payee just added serves its cooling period. As long as its row is gone or keeps the status and the
  activation time it was added with, for 24 hours a transfer of its owner that names it posts nothing: it returns
  only when its idempotency key is one of an earlier transfer, and then that transfer, no table of the bank
  changing; else it throws and writes nothing.
\<close>

theorem payee_cools:
  assumes "addBeneficiary bus owner nick nr w = (Inr b, w1)"
    and "stillCooling b (w_db v)" and "accountsOk (w_db v)"
    and "ti_beneficiaryId inp = Some (b_id b)" and "ti_ownerUserId inp = Some owner" and "b_id b \<noteq> []" and "owner \<noteq> []"
    and "w_clock v (w_clockN v) < w_clock w (w_clockN w) + 24 * 60 * 60 * 1000"
  shows "wp (executeTransfer (containerPublish sha) inp)
     (\<lambda>t v'. priorTransfer (w_db v) (ti_idempotencyKey inp) = Some t \<and> bankView (w_db v') = bankView (w_db v))
     (\<lambda>_ v'. w_db v' = w_db v
        \<or> (\<exists>t. priorTransfer (w_db v) (ti_idempotencyKey inp) = Some t \<and> bankView (w_db v') = bankView (w_db v))) v"
proof -
  note b = addBeneficiary_row [OF assms(1)]
  have "\<not> beneficiaryAllows (w_db v) inp (w_clock v (w_clockN v))"
    using assms(2,4-8) b
    by (auto simp: beneficiaryAllows_def truthy_def isTransferAllowed_def stillCooling_def
        BENEFICIARY_COOLING_MS_def split: option.splits)
  then have "priorTransfer (w_db v) (ti_idempotencyKey inp) = Some t \<and> bankView d' = bankView (w_db v)"
    if "transferOutcome v inp t d'" for t d'
    using that by (auto simp: transferOutcome_def executed_def split: option.splits)
  then show ?thesis
    by (intro wp_mono [OF container_bus.executeTransfer_wp [OF assms(3)]]) blast+
qed

text \<open>The example: Alice saves Bob as a payee.\<close>

definition exPayee :: beneficiary where
  "exPayee = \<lparr>b_id = ''u0'', b_ownerUserId = ''ua'', b_nickname = ''Bob'', b_accountNumber = ''SBE-0000000002'',
     b_username = Some ''bob'', b_status = BenPending, b_activatedAt = Some (1735700000000 + 86400000),
     b_createdAt = 1735700000000, b_lastUsedAt = None\<rparr>"

lemma exPayee_added:
  "addBeneficiary None ''ua'' ''Bob'' ''SBE-0000000002'' (exWorld exDb) =
     (Inr exPayee, (exWorld (exDb\<lparr>db_beneficiaries := [exPayee]\<rparr>))\<lparr>w_clockN := 1, w_uuidN := 1\<rparr>)"
proof -
  have nr: "isValidAccountNumber ''SBE-0000000002''"
    by (simp add: isValidAccountNumber_def matchClasses_def isDigit_def numeral_eq_Suc)
  have n0: "showNat 0 = ''0''" by code_simp
  have t: "trim ''Bob'' = ''Bob''"
    by (simp add: trim_def trimStart_def isSpace_def)
  show ?thesis
    by (simp add: addBeneficiary_def bnd_def dbGet_def gets_def need_def ret_def throwIf_def clockNow_def uuid_def lift_def
        createBeneficiary_def andThen_def check_def Let_def nr t insertBeneficiary_def insertInto_def dbMod_def modify_def
        publishBen_def exWorld_def exDb_def exUser_def exAccount_def findAccountByNumber_def findUserById_def
        findBeneficiaryByOwnerAndAccount_def findBeneficiaryById_def userExists_def exPayee_def
        BENEFICIARY_COOLING_MS_def n0)
qed

theorem payee_cools_witness:
  "wp (executeTransfer (containerPublish rev) (exTransfer 100000\<lparr>ti_beneficiaryId := Some ''u0''\<rparr>))
     (\<lambda>_ _. False) (\<lambda>_ v'. w_db v' = exDb\<lparr>db_beneficiaries := [exPayee]\<rparr>)
     (exWorld (exDb\<lparr>db_beneficiaries := [exPayee]\<rparr>))"
proof -
  have "accountsOk (exDb\<lparr>db_beneficiaries := [exPayee]\<rparr>)"
    using exDb_accounts by (simp add: accountsOk_def)
  then show ?thesis
    using payee_cools [OF exPayee_added, of "exWorld (exDb\<lparr>db_beneficiaries := [exPayee]\<rparr>)"
        "exTransfer 100000\<lparr>ti_beneficiaryId := Some ''u0''\<rparr>" rev]
    by (simp add: stillCooling_def findBeneficiaryById_def exPayee_def BENEFICIARY_COOLING_MS_def priorTransfer_def
        findTransferByKey_def exDb_def exPending_def exTransfer_def truthy_def)
qed

end
