(* ===== verification/OneShot.thy ===== *)
theory OneShot
  imports Prelude
begin

text \<open>
  The interface of everything the server accepts at most once: action and OTP tokens,
  pending handshakes, one-time codes and login states. A store is presented with a token and accepts or
  refuses it; other operations may change the store in between.
\<close>

text \<open>
  \<open>uses present other t s n s'\<close>: a history of presentations (of any tokens) and of other operations leads
  from \<open>s\<close> to \<open>s'\<close>, and \<open>t\<close> was accepted \<open>n\<close> times on the way.
\<close>

inductive uses :: "('t \<Rightarrow> 's \<Rightarrow> bool \<times> 's) \<Rightarrow> ('t \<Rightarrow> 's \<Rightarrow> 's \<Rightarrow> bool) \<Rightarrow> 't \<Rightarrow> 's \<Rightarrow> nat \<Rightarrow> 's \<Rightarrow> bool"
  for present other t where
  none: "uses present other t s 0 s"
| shown: "present u s = (ok, s1) \<Longrightarrow> uses present other t s1 n s' \<Longrightarrow>
    uses present other t s ((if ok \<and> u = t then 1 else 0) + n) s'"
| between: "other t s s1 \<Longrightarrow> uses present other t s1 n s' \<Longrightarrow> uses present other t s n s'"

inductive_cases uses_zeroE: "uses present other t s 0 s'"

lemma uses_shown_ok: "present t s = (True, s1) \<Longrightarrow> uses present other t s1 n s' \<Longrightarrow> uses present other t s (Suc n) s'"
  using uses.shown [of present t s True s1 other t n s'] by simp

lemma uses_shown_no: "present u s = (False, s1) \<Longrightarrow> uses present other t s1 n s' \<Longrightarrow> uses present other t s n s'"
  using uses.shown [of present u s False s1 other t n s'] by simp

locale one_shot =
  fixes present :: "'t \<Rightarrow> 's \<Rightarrow> bool \<times> 's"
    and other :: "'t \<Rightarrow> 's \<Rightarrow> 's \<Rightarrow> bool"
    and spent :: "'t \<Rightarrow> 's \<Rightarrow> bool"
    and good :: "'s \<Rightarrow> bool"
  assumes accepted_spends: "good s \<Longrightarrow> present t s = (True, s') \<Longrightarrow> spent t s'"
    and spent_refused: "good s \<Longrightarrow> spent t s \<Longrightarrow> \<not> fst (present t s)"
    and spent_present: "good s \<Longrightarrow> spent t s \<Longrightarrow> spent t (snd (present u s))"
    and spent_other: "good s \<Longrightarrow> spent t s \<Longrightarrow> other t s s' \<Longrightarrow> spent t s'"
    and good_present: "good s \<Longrightarrow> good (snd (present u s))"
    and good_other: "good s \<Longrightarrow> other t s s' \<Longrightarrow> good s'"
begin

lemma spent_never_again: "uses present other t s n s' \<Longrightarrow> good s \<Longrightarrow> spent t s \<Longrightarrow> n = 0"
proof (induction rule: uses.induct)
  case (shown u s ok s1 n s')
  from shown.hyps(1) shown.prems have "good s1" "spent t s1" "\<not> (ok \<and> u = t)"
    using good_present [of s u] spent_present [of s t u] spent_refused [of s t] by auto
  with shown.IH show ?case by simp
qed (blast intro: spent_other good_other)+

theorem at_most_once: "uses present other t s n s' \<Longrightarrow> good s \<Longrightarrow> n \<le> 1"
proof (induction rule: uses.induct)
  case (shown u s ok s1 n s')
  from shown.hyps(1) shown.prems have g: "good s1" using good_present [of s u] by simp
  show ?case
  proof (cases "ok \<and> u = t")
    case True
    with shown.hyps(1) shown.prems have "spent t s1" by (auto intro: accepted_spends)
    with spent_never_again [OF shown.hyps(2) g] show ?thesis by simp
  next
    case False
    with shown.IH [OF g] show ?thesis by auto
  qed
qed (blast intro: good_other)+

end

section \<open>Maps with a bounded number of entries\<close>

text \<open>
  The loop of \<open>evictOldest\<close> in the session and handshake stores: the key of the first entry whose time is
  strictly smaller than that of every entry before it (starting from \<open>Infinity\<close>); an empty key is not
  deleted (\<open>if (oldestKey)\<close>).
\<close>

fun oldestFrom :: "('v \<Rightarrow> int) \<Rightarrow> (string \<times> int) option \<Rightarrow> (string, 'v) jsmap \<Rightarrow> (string \<times> int) option" where
  "oldestFrom f acc [] = acc"
| "oldestFrom f acc ((i, e) # s) =
     oldestFrom f (case acc of None \<Rightarrow> Some (i, f e)
                   | Some (j, t) \<Rightarrow> if f e < t then Some (i, f e) else Some (j, t)) s"

definition evictOldestBy :: "('v \<Rightarrow> int) \<Rightarrow> (string, 'v) jsmap \<Rightarrow> (string, 'v) jsmap" where
  "evictOldestBy f s = (case oldestFrom f None s of None \<Rightarrow> s
     | Some (i, t) \<Rightarrow> if i = [] then s else mapDelete s i)"

lemma oldestFrom_mem: "oldestFrom f acc s = Some (i, t) \<Longrightarrow> (i, t) \<in> set_option acc \<or> i \<in> fst ` set s"
  by (induction f acc s rule: oldestFrom.induct) (auto split: option.splits if_splits)

lemma oldestFrom_some: "acc \<noteq> None \<or> s \<noteq> [] \<Longrightarrow> oldestFrom f acc s \<noteq> None"
  by (induction f acc s rule: oldestFrom.induct) (auto split: option.splits)

lemma evictOldestBy_shrinks:
  assumes "[] \<notin> fst ` set s" and "s \<noteq> []"
  shows "length (evictOldestBy f s) < length s"
proof -
  obtain i t where i: "oldestFrom f None s = Some (i, t)"
    using oldestFrom_some [of None s f] assms(2) by auto
  from oldestFrom_mem [OF i] have "mapHas s i" by (simp add: mapHas_def)
  moreover from this assms(1) have "i \<noteq> []" by (metis mapHas_def)
  ultimately show ?thesis using i length_mapDelete by (simp add: evictOldestBy_def)
qed

lemma evictOldestBy_filter: "\<exists>P. evictOldestBy f s = filter P s"
  by (auto simp: evictOldestBy_def mapDelete_def split: option.splits prod.splits intro: exI [of _ "\<lambda>_. True"])

lemma set_mapSet: "p \<in> set (mapSet m k v) \<Longrightarrow> p \<in> set m \<or> p = (k, v)"
  by (induction m k v rule: mapSet.induct) (auto split: if_splits)

lemma mapGet_filter_some: "distinct (mapKeys m) \<Longrightarrow> mapGet (filter P m) k = Some v \<Longrightarrow> mapGet m k = Some v"
  by (auto simp: mapGet_filter split: option.splits if_splits)

end
