(* ===== verification/SessionStore.thy ===== *)
theory SessionStore
  imports OneShot
begin

text \<open>
  The encrypted-session store of \<open>crypto/sessionStore.ts\<close>: session keys with idle and hard expiry, the
  nonces seen by each session, and the user bound to it. Every operation takes the reading of
  \<open>Date.now()\<close> it makes. Zeroing the key of a deleted session is not visible in the store and is left
  out.
\<close>

section \<open>The store\<close>

definition SESSION_IDLE_TTL_MS :: int where
  "SESSION_IDLE_TTL_MS = 15 * 60 * 1000"

definition SESSION_HARD_TTL_MS :: int where
  "SESSION_HARD_TTL_MS = 60 * 60 * 1000"

definition NONCE_WINDOW_MS :: int where
  "NONCE_WINDOW_MS = 60 * 1000"

definition MAX_SESSIONS :: nat where
  "MAX_SESSIONS = 10000"

definition MAX_NONCES_PER_SESSION :: nat where
  "MAX_NONCES_PER_SESSION = 10000"

lemmas session_consts = SESSION_IDLE_TTL_MS_def SESSION_HARD_TTL_MS_def NONCE_WINDOW_MS_def

record session_entry =
  se_key :: "nat list"
  se_createdAt :: int
  se_lastUsedAt :: int
  se_seenNonces :: "(string, int) jsmap"
  se_userId :: "string option"

type_synonym sessions = "(string, session_entry) jsmap"

definition isExpired :: "session_entry \<Rightarrow> int \<Rightarrow> bool" where
  "isExpired e now \<longleftrightarrow> SESSION_IDLE_TTL_MS < now - se_lastUsedAt e \<or> SESSION_HARD_TTL_MS < now - se_createdAt e"

definition deleteSession :: "string \<Rightarrow> sessions \<Rightarrow> sessions" where
  "deleteSession sid s = mapDelete s sid"

definition evictOldest :: "sessions \<Rightarrow> sessions" where
  "evictOldest s = evictOldestBy se_lastUsedAt s"

section \<open>Operations\<close>

text \<open>\<open>Inl\<close> is a thrown error with its message.\<close>

definition setSessionKey :: "int \<Rightarrow> string \<Rightarrow> nat list \<Rightarrow> sessions \<Rightarrow> (string + unit) \<times> sessions" where
  "setSessionKey now sid key s =
     (if mapHas s sid then (Inl ''Session already bound'', s) else
      let s = (if MAX_SESSIONS \<le> length s then evictOldest s else s) in
      (Inr (), mapSet s sid \<lparr>se_key = key, se_createdAt = now, se_lastUsedAt = now, se_seenNonces = [], se_userId = None\<rparr>))"

definition hasSession :: "int \<Rightarrow> string \<Rightarrow> sessions \<Rightarrow> bool \<times> sessions" where
  "hasSession now sid s = (case mapGet s sid of None \<Rightarrow> (False, s)
     | Some e \<Rightarrow> if isExpired e now then (False, deleteSession sid s) else (True, s))"

definition getSessionKey :: "int \<Rightarrow> string \<Rightarrow> sessions \<Rightarrow> nat list option \<times> sessions" where
  "getSessionKey now sid s = (case mapGet s sid of None \<Rightarrow> (None, s)
     | Some e \<Rightarrow> if isExpired e now then (None, deleteSession sid s)
                else (Some (se_key e), mapSet s sid (e\<lparr>se_lastUsedAt := now\<rparr>)))"

definition recordNonce :: "int \<Rightarrow> string \<Rightarrow> string \<Rightarrow> int \<Rightarrow> sessions \<Rightarrow> bool \<times> sessions" where
  "recordNonce now sid nonce timestamp s = (case mapGet s sid of None \<Rightarrow> (False, s)
     | Some e \<Rightarrow>
        (let live = filter (\<lambda>p. \<not> NONCE_WINDOW_MS < now - snd p) (se_seenNonces e);
             pruned = mapSet s sid (e\<lparr>se_seenNonces := live\<rparr>) in
         if mapHas live nonce then (False, pruned)
         else if MAX_NONCES_PER_SESSION \<le> length live then (False, pruned)
         else (True, mapSet s sid (e\<lparr>se_seenNonces := mapSet live nonce timestamp\<rparr>))))"

definition bindUser :: "int \<Rightarrow> string \<Rightarrow> string \<Rightarrow> sessions \<Rightarrow> (string + unit) \<times> sessions" where
  "bindUser now sid userId s = (case mapGet s sid of None \<Rightarrow> (Inl ''Unknown session'', s)
     | Some e \<Rightarrow>
        if isExpired e now then (Inl ''Unknown session'', deleteSession sid s)
        else if (case se_userId e of None \<Rightarrow> False | Some u \<Rightarrow> u \<noteq> [] \<and> u \<noteq> userId)
        then (Inl ''Session already bound to a different user'', s)
        else (Inr (), mapSet s sid (e\<lparr>se_userId := Some userId\<rparr>)))"

definition getBoundUser :: "int \<Rightarrow> string \<Rightarrow> sessions \<Rightarrow> string option \<times> sessions" where
  "getBoundUser now sid s = (case mapGet s sid of None \<Rightarrow> (None, s)
     | Some e \<Rightarrow> if isExpired e now then (None, deleteSession sid s) else (se_userId e, s))"

record user_session_info =
  us_sessionId :: string
  us_createdAt :: int
  us_lastUsedAt :: int

definition listSessionsByUser :: "int \<Rightarrow> string \<Rightarrow> sessions \<Rightarrow> user_session_info list" where
  "listSessionsByUser now userId s =
     map (\<lambda>(i, e). \<lparr>us_sessionId = i, us_createdAt = se_createdAt e, us_lastUsedAt = se_lastUsedAt e\<rparr>)
       (filter (\<lambda>(i, e). se_userId e = Some userId \<and> \<not> isExpired e now) s)"

definition isOtherOf :: "string \<Rightarrow> string option \<Rightarrow> string \<times> session_entry \<Rightarrow> bool" where
  "isOtherOf userId except p \<longleftrightarrow> se_userId (snd p) = Some userId \<and> Some (fst p) \<noteq> except"

definition deleteSessionsByUser :: "string \<Rightarrow> string option \<Rightarrow> sessions \<Rightarrow> nat \<times> sessions" where
  "deleteSessionsByUser userId except s =
     (length (filter (isOtherOf userId except) s), filter (\<lambda>p. \<not> isOtherOf userId except p) s)"

text \<open>The timer that drops expired sessions every minute.\<close>

definition sweepSessions :: "int \<Rightarrow> sessions \<Rightarrow> sessions" where
  "sweepSessions now s = filter (\<lambda>p. \<not> isExpired (snd p) now) s"

section \<open>Invariants\<close>

text \<open>
  One entry per session, at most \<open>MAX_SESSIONS\<close> of them, each with at most
  \<open>MAX_NONCES_PER_SESSION\<close> nonces; no session was used before it was created.
\<close>

definition entryOk :: "session_entry \<Rightarrow> bool" where
  "entryOk e \<longleftrightarrow> se_createdAt e \<le> se_lastUsedAt e \<and> distinct (mapKeys (se_seenNonces e))
     \<and> length (se_seenNonces e) \<le> MAX_NONCES_PER_SESSION"

definition sessionsOk :: "sessions \<Rightarrow> bool" where
  "sessionsOk s \<longleftrightarrow> distinct (mapKeys s) \<and> [] \<notin> fst ` set s \<and> length s \<le> MAX_SESSIONS \<and> (\<forall>p \<in> set s. entryOk (snd p))"

lemma sessionsOk_filter: "sessionsOk s \<Longrightarrow> sessionsOk (filter P s)"
  by (auto simp: sessionsOk_def distinct_map_filter intro: le_trans [OF length_filter_le])

lemma sessionsOk_delete: "sessionsOk s \<Longrightarrow> sessionsOk (deleteSession sid s)"
  by (simp add: deleteSession_def mapDelete_def sessionsOk_filter)

lemma sessionsOk_mapSet:
  assumes "sessionsOk s" and "mapGet s sid = Some e" and "entryOk e'"
  shows "sessionsOk (mapSet s sid e')"
proof -
  have "mapHas s sid" using assms(2) by (simp add: mapHas_get)
  then have "insert sid (fst ` set s) = fst ` set s" by (auto simp: mapHas_def)
  with assms \<open>mapHas s sid\<close> show ?thesis
    by (auto simp: sessionsOk_def length_mapSet dest!: set_mapSet)
qed

lemma evictOldest_shrinks: "sessionsOk s \<Longrightarrow> s \<noteq> [] \<Longrightarrow> length (evictOldest s) < length s"
  unfolding evictOldest_def sessionsOk_def by (intro evictOldestBy_shrinks) auto

lemma sessionsOk_evict: "sessionsOk s \<Longrightarrow> sessionsOk (evictOldest s)"
  unfolding evictOldest_def using evictOldestBy_filter sessionsOk_filter by metis

lemma evictOldest_subset: "set (evictOldest s) \<subseteq> set s"
  unfolding evictOldest_def using evictOldestBy_filter by (metis filter_is_subset)

lemma sessionsOk_get: "sessionsOk s \<Longrightarrow> mapGet s sid = Some e \<Longrightarrow> entryOk e"
  unfolding sessionsOk_def using mapGet_mem by fastforce

lemma setSessionKey_ok:
  assumes "sessionsOk s" and "sid \<noteq> []"
  shows "sessionsOk (snd (setSessionKey now sid key s))"
proof -
  let ?s = "if MAX_SESSIONS \<le> length s then evictOldest s else s"
  have "sessionsOk ?s" using assms(1) sessionsOk_evict by simp
  moreover have "length ?s < MAX_SESSIONS"
    using evictOldest_shrinks [OF assms(1)] assms(1)
    by (cases "s = []") (auto simp: sessionsOk_def MAX_SESSIONS_def)
  moreover have "set ?s \<subseteq> set s" using evictOldest_subset by auto
  ultimately show ?thesis
    using assms by (auto simp: setSessionKey_def Let_def sessionsOk_def length_mapSet entryOk_def
        MAX_SESSIONS_def MAX_NONCES_PER_SESSION_def dest!: set_mapSet)
qed

lemma entryOk_simps [simp]:
  "entryOk e \<Longrightarrow> entryOk (e\<lparr>se_userId := u\<rparr>)"
  "entryOk e \<Longrightarrow> se_createdAt e \<le> now \<Longrightarrow> entryOk (e\<lparr>se_lastUsedAt := now\<rparr>)"
  by (simp_all add: entryOk_def)

text \<open>The clock of the store is not behind the creation of any session.\<close>

definition clockAfter :: "int \<Rightarrow> sessions \<Rightarrow> bool" where
  "clockAfter now s \<longleftrightarrow> (\<forall>p \<in> set s. se_createdAt (snd p) \<le> now)"

lemma clockAfter_get: "clockAfter now s \<Longrightarrow> mapGet s sid = Some e \<Longrightarrow> se_createdAt e \<le> now"
  unfolding clockAfter_def using mapGet_mem by fastforce

lemma getSessionKey_ok: "sessionsOk s \<Longrightarrow> clockAfter now s \<Longrightarrow> sessionsOk (snd (getSessionKey now sid s))"
  by (auto simp: getSessionKey_def sessionsOk_delete clockAfter_get split: option.splits
      intro!: sessionsOk_mapSet dest: sessionsOk_get)

lemma nonces_ok:
  assumes "entryOk e" and "length (filter P (se_seenNonces e)) < MAX_NONCES_PER_SESSION"
  shows "entryOk (e\<lparr>se_seenNonces := mapSet (filter P (se_seenNonces e)) n t\<rparr>)"
  using assms by (auto simp: entryOk_def distinct_map_filter length_mapSet)

lemma pruned_ok: "entryOk e \<Longrightarrow> entryOk (e\<lparr>se_seenNonces := filter P (se_seenNonces e)\<rparr>)"
  by (auto simp: entryOk_def distinct_map_filter intro: le_trans [OF length_filter_le])

lemma recordNonce_ok: "sessionsOk s \<Longrightarrow> sessionsOk (snd (recordNonce now sid n t s))"
  by (auto simp: recordNonce_def Let_def split: option.splits
      intro!: sessionsOk_mapSet pruned_ok nonces_ok dest: sessionsOk_get)

lemma bindUser_ok: "sessionsOk s \<Longrightarrow> sessionsOk (snd (bindUser now sid u s))"
  by (auto simp: bindUser_def sessionsOk_delete split: option.splits intro!: sessionsOk_mapSet dest: sessionsOk_get)

lemma others_ok:
  "sessionsOk s \<Longrightarrow> sessionsOk (snd (hasSession now sid s))"
  "sessionsOk s \<Longrightarrow> sessionsOk (snd (getBoundUser now sid s))"
  "sessionsOk s \<Longrightarrow> sessionsOk (snd (deleteSessionsByUser u x s))"
  "sessionsOk s \<Longrightarrow> sessionsOk (sweepSessions now s)"
  by (auto simp: hasSession_def getBoundUser_def deleteSessionsByUser_def sweepSessions_def sessionsOk_filter
      sessionsOk_delete split: option.splits)

definition storeOk :: "int \<times> sessions \<Rightarrow> bool" where
  "storeOk x \<longleftrightarrow> sessionsOk (snd x) \<and> clockAfter (fst x) (snd x)"

lemma clockAfter_filter: "clockAfter now s \<Longrightarrow> clockAfter now (filter P s)"
  by (simp add: clockAfter_def)

lemma clockAfter_delete: "clockAfter now s \<Longrightarrow> clockAfter now (deleteSession sid s)"
  by (simp add: deleteSession_def mapDelete_def clockAfter_filter)

lemma clockAfter_mapSet: "clockAfter now s \<Longrightarrow> se_createdAt e \<le> now \<Longrightarrow> clockAfter now (mapSet s sid e)"
  by (auto simp: clockAfter_def dest!: set_mapSet)

lemma clockAfter_mono: "clockAfter now s \<Longrightarrow> now \<le> now' \<Longrightarrow> clockAfter now' s"
  by (fastforce simp: clockAfter_def)

lemma clockAfter_ops:
  assumes "clockAfter now s"
  shows "clockAfter now (snd (setSessionKey now sid key s))" "clockAfter now (snd (hasSession now sid s))"
    "clockAfter now (snd (getSessionKey now sid s))" "clockAfter now (snd (recordNonce now sid n t s))"
    "clockAfter now (snd (bindUser now sid u s))" "clockAfter now (snd (getBoundUser now sid s))"
    "clockAfter now (snd (deleteSessionsByUser u x s))" "clockAfter now (sweepSessions now s)"
proof -
  have "clockAfter now (evictOldest s)" using assms evictOldest_subset by (auto simp: clockAfter_def)
  with assms show "clockAfter now (snd (setSessionKey now sid key s))"
    by (auto simp: setSessionKey_def Let_def intro!: clockAfter_mapSet)
qed (use assms in \<open>auto simp: hasSession_def getSessionKey_def recordNonce_def bindUser_def getBoundUser_def Let_def
    deleteSessionsByUser_def sweepSessions_def clockAfter_get split: option.splits
    intro!: clockAfter_mapSet clockAfter_delete clockAfter_filter\<close>)

lemmas sessionsOk_ops = setSessionKey_ok others_ok getSessionKey_ok recordNonce_ok bindUser_ok sessionsOk_delete

section \<open>Steps of the store\<close>

text \<open>
  What may happen to the store between two requests of the session \<open>sid\<close>: time passes, and any operation
  but a new \<open>setSessionKey\<close> of the same identifier (identifiers are random UUIDs of the server).
\<close>

inductive storeStep :: "string \<Rightarrow> int \<times> sessions \<Rightarrow> int \<times> sessions \<Rightarrow> bool" for sid where
  tick: "now \<le> now' \<Longrightarrow> storeStep sid (now, s) (now', s)"
| create: "i \<noteq> sid \<Longrightarrow> i \<noteq> [] \<Longrightarrow> storeStep sid (now, s) (now, snd (setSessionKey now i key s))"
| has: "storeStep sid (now, s) (now, snd (hasSession now i s))"
| key: "storeStep sid (now, s) (now, snd (getSessionKey now i s))"
| bind: "storeStep sid (now, s) (now, snd (bindUser now i u s))"
| bound: "storeStep sid (now, s) (now, snd (getBoundUser now i s))"
| wipe: "storeStep sid (now, s) (now, snd (deleteSessionsByUser u x s))"
| delete: "storeStep sid (now, s) (now, deleteSession i s)"
| sweep: "storeStep sid (now, s) (now, sweepSessions now s)"

inductive_cases storeStepE: "storeStep sid (now, s) y"

lemma storeOk_step: "storeStep sid x y \<Longrightarrow> storeOk x \<Longrightarrow> storeOk y"
  by (induction rule: storeStep.induct)
    (auto simp: storeOk_def clockAfter_ops clockAfter_delete sessionsOk_ops intro: clockAfter_mono)

section \<open>Replay\<close>

text \<open>
  What \<open>decryptMiddleware\<close> does with the store for a request with a well-formed envelope: look up the key,
  refuse a stale timestamp, record the nonce. Each of the three reads the clock for itself: the check of the
  timestamp \<open>fst d\<close> milliseconds after the key was looked up, \<open>recordNonce\<close> another \<open>snd d\<close> later.
\<close>

definition TIMESTAMP_WINDOW_MS :: int where
  "TIMESTAMP_WINDOW_MS = 60 * 1000"

definition admitRequest ::
  "nat \<times> nat \<Rightarrow> string \<times> string \<times> int \<Rightarrow> int \<times> sessions \<Rightarrow> bool \<times> (int \<times> sessions)" where
  "admitRequest d r x = (case r of (sid, nonce, timestamp) \<Rightarrow> case x of (now, s) \<Rightarrow>
     (case getSessionKey now sid s of
        (None, s1) \<Rightarrow> (False, (now, s1))
      | (Some k, s1) \<Rightarrow>
          (let checked = now + int (fst d); recorded = checked + int (snd d) in
           if TIMESTAMP_WINDOW_MS < \<bar>checked - timestamp\<bar> then (False, (checked, s1))
           else (case recordNonce recorded sid nonce timestamp s1 of (ok, s2) \<Rightarrow> (ok, (recorded, s2))))))"

definition nonceSpent :: "string \<times> string \<times> int \<Rightarrow> int \<times> sessions \<Rightarrow> bool" where
  "nonceSpent r x \<longleftrightarrow> (case r of (sid, nonce, timestamp) \<Rightarrow> case x of (now, s) \<Rightarrow>
     TIMESTAMP_WINDOW_MS < now - timestamp
     \<or> (case mapGet s sid of None \<Rightarrow> True | Some e \<Rightarrow> mapGet (se_seenNonces e) nonce = Some timestamp))"

lemma nonceSpent_pair: "nonceSpent (sid, n, t) (now, s) \<longleftrightarrow> TIMESTAMP_WINDOW_MS < now - t
     \<or> (case mapGet s sid of None \<Rightarrow> True | Some e \<Rightarrow> mapGet (se_seenNonces e) n = Some t)"
  by (simp add: nonceSpent_def)

text \<open>An operation that adds no nonces to the session, though it may drop it.\<close>

definition sameNonces :: "string \<Rightarrow> sessions \<Rightarrow> sessions \<Rightarrow> bool" where
  "sameNonces sid s s' \<longleftrightarrow> (\<forall>e'. mapGet s' sid = Some e' \<longrightarrow>
     (\<exists>e. mapGet s sid = Some e \<and> se_seenNonces e' = se_seenNonces e))"

lemma sameNonces_ops:
  assumes "sessionsOk s"
  shows "sameNonces sid s s" "i \<noteq> sid \<Longrightarrow> sameNonces sid s (snd (setSessionKey now i key s))"
    "sameNonces sid s (snd (hasSession now i s))" "sameNonces sid s (snd (getSessionKey now i s))"
    "sameNonces sid s (snd (bindUser now i u s))" "sameNonces sid s (snd (getBoundUser now i s))"
    "sameNonces sid s (snd (deleteSessionsByUser u x s))" "sameNonces sid s (deleteSession i s)"
    "sameNonces sid s (sweepSessions now s)"
  using assms mapGet_filter_some [of s]
  by (auto simp: sameNonces_def setSessionKey_def Let_def evictOldest_def evictOldestBy_def hasSession_def getSessionKey_def bindUser_def
      getBoundUser_def deleteSessionsByUser_def sweepSessions_def deleteSession_def sessionsOk_def
      split: option.splits if_splits prod.splits)

lemma nonceSpent_same:
  "nonceSpent (sid, n, t) (now, s) \<Longrightarrow> now \<le> now' \<Longrightarrow> sameNonces sid s s' \<Longrightarrow> nonceSpent (sid, n, t) (now', s')"
  by (fastforce simp: nonceSpent_pair sameNonces_def split: option.splits)

lemma nonceSpent_step:
  assumes "storeStep sid (now, s) (now', s')" and "nonceSpent (sid, n, t) (now, s)" and "storeOk (now, s)"
  shows "nonceSpent (sid, n, t) (now', s')"
  using assms(1) by (cases rule: storeStepE)
    (use assms(2,3) sameNonces_ops in \<open>auto simp: storeOk_def intro: nonceSpent_same\<close>)

lemma recordNonce_spent:
  assumes "sessionsOk s"
  shows "recordNonce now sid n t s = (True, s') \<Longrightarrow> nonceSpent (sid, n, t) (now, s')"
    and "nonceSpent (sid, n, t) (now, s) \<Longrightarrow> now - t \<le> TIMESTAMP_WINDOW_MS \<Longrightarrow> \<not> fst (recordNonce now sid n t s)"
    and "nonceSpent (sid, n, t) (now, s) \<Longrightarrow> nonceSpent (sid, n, t) (now, snd (recordNonce now i m u s))"
proof -
  have dist: "distinct (mapKeys (se_seenNonces e))" if "mapGet s j = Some e" for e j
    using sessionsOk_get [OF assms that] by (simp add: entryOk_def)
  note [simp] = mapGet_filter [OF dist] mapHas_get NONCE_WINDOW_MS_def TIMESTAMP_WINDOW_MS_def
  show "recordNonce now sid n t s = (True, s') \<Longrightarrow> nonceSpent (sid, n, t) (now, s')"
    by (auto simp: recordNonce_def nonceSpent_pair Let_def split: option.splits if_splits)
  show "nonceSpent (sid, n, t) (now, s) \<Longrightarrow> now - t \<le> TIMESTAMP_WINDOW_MS \<Longrightarrow> \<not> fst (recordNonce now sid n t s)"
    by (auto simp: recordNonce_def nonceSpent_pair Let_def split: option.splits)
  show "nonceSpent (sid, n, t) (now, s) \<Longrightarrow> nonceSpent (sid, n, t) (now, snd (recordNonce now i m u s))"
    by (auto simp: recordNonce_def nonceSpent_pair Let_def split: option.splits)
qed

text \<open>The stages of a request: the store after the key was looked up, and the readings of the clock.\<close>

lemma admitRequest_cases [consumes 1]:
  assumes "admitRequest d (sid, n, t) (now, s) = (ok, y)"
  obtains s1 later where "s1 = snd (getSessionKey now sid s)" "now \<le> later" "\<not> ok" "y = (later, s1)"
  | s1 later where "s1 = snd (getSessionKey now sid s)" "now \<le> later"
      "\<bar>now + int (fst d) - t\<bar> \<le> TIMESTAMP_WINDOW_MS" "recordNonce later sid n t s1 = (ok, snd y)" "fst y = later"
  using assms by (fastforce simp: admitRequest_def Let_def not_less split: prod.splits option.splits if_splits)

lemma clockAfter_keyed: "clockAfter now s \<Longrightarrow> now \<le> later \<Longrightarrow> clockAfter later (snd (getSessionKey now sid s))"
  using clockAfter_ops(3) clockAfter_mono by blast

lemma admitRequest_ok:
  assumes "admitRequest d r x = (ok, y)" and "storeOk x"
  shows "storeOk y" and "fst x \<le> fst y"
proof -
  obtain sid n t now s where [simp]: "r = (sid, n, t)" "x = (now, s)" by (metis surj_pair)
  have s: "sessionsOk s" "clockAfter now s" using assms(2) by (simp_all add: storeOk_def)
  note ops = getSessionKey_ok [OF s] clockAfter_keyed [OF s(2)]
  have "admitRequest d (sid, n, t) (now, s) = (ok, y)" using assms(1) by simp
  then have "storeOk y \<and> fst x \<le> fst y"
  proof (cases rule: admitRequest_cases)
    case (1 s1 later)
    with ops show ?thesis by (simp add: storeOk_def)
  next
    case (2 s1 later)
    have "sessionsOk s1" "clockAfter later s1" using 2(1,2) ops by simp_all
    from recordNonce_ok [OF this(1), of later sid n t] clockAfter_ops(4) [OF this(2), of sid n t] 2 show ?thesis
      by (cases y) (simp add: storeOk_def)
  qed
  then show "storeOk y" "fst x \<le> fst y" by simp_all
qed

lemma admitRequest_spends:
  assumes "admitRequest d r x = (True, y)" and "storeOk x"
  shows "nonceSpent r y"
proof -
  obtain sid n t now s where [simp]: "r = (sid, n, t)" "x = (now, s)" by (metis surj_pair)
  have s: "sessionsOk s" "clockAfter now s" using assms(2) by (simp_all add: storeOk_def)
  have "admitRequest d (sid, n, t) (now, s) = (True, y)" using assms(1) by simp
  then show ?thesis
  proof (cases rule: admitRequest_cases)
    case (2 s1 later)
    then have "sessionsOk s1" using getSessionKey_ok [OF s] by simp
    from recordNonce_spent(1) [OF this 2(4)] 2(5) show ?thesis by (cases y) simp
  qed simp
qed

text \<open>A spent nonce stays spent, and is accepted again only when its window ends before the nonce is recorded.\<close>

lemma nonceSpent_keyed:
  assumes "nonceSpent (sid, n, t) (now, s)" and "sessionsOk s" and "now \<le> later"
  shows "nonceSpent (sid, n, t) (later, snd (getSessionKey now i s))"
  by (rule nonceSpent_same [OF assms(1,3) sameNonces_ops(4) [OF assms(2)]])

lemma admitRequest_spent:
  assumes "admitRequest d q x = (ok, y)" and "storeOk x" and "nonceSpent r x"
  shows "nonceSpent r y" and "ok \<Longrightarrow> q = r \<Longrightarrow> snd (snd r) + TIMESTAMP_WINDOW_MS < fst y"
proof -
  obtain sid n t now s sid' n' t' where [simp]: "r = (sid, n, t)" "q = (sid', n', t')" "x = (now, s)" by (metis surj_pair)
  have s: "sessionsOk s" "clockAfter now s" using assms(2) by (simp_all add: storeOk_def)
  have spent: "nonceSpent (sid, n, t) (later, snd (getSessionKey now sid' s))" if "now \<le> later" for later
    by (rule nonceSpent_keyed [OF _ s(1) that]) (use assms(3) in simp)
  have ok1: "sessionsOk (snd (getSessionKey now sid' s))" by (rule getSessionKey_ok [OF s])
  have "admitRequest d (sid', n', t') (now, s) = (ok, y)" using assms(1) by simp
  then have "nonceSpent r y \<and> (ok \<longrightarrow> q = r \<longrightarrow> t + TIMESTAMP_WINDOW_MS < fst y)"
  proof (cases rule: admitRequest_cases)
    case (1 s1 later)
    with spent show ?thesis by simp
  next
    case (2 s1 later)
    from 2(1,2) have now: "nonceSpent (sid, n, t) (later, s1)" and s1: "sessionsOk s1" using spent ok1 by simp_all
    from recordNonce_spent(3) [OF s1 now, of sid' n' t'] 2(4,5) have "nonceSpent r y"
      by (cases y) simp
    moreover have "t + TIMESTAMP_WINDOW_MS < later" if ok "q = r"
      using recordNonce_spent(2) [OF s1 now] that 2(4) by (cases "later - t \<le> TIMESTAMP_WINDOW_MS") auto
    ultimately show ?thesis using 2(5) by simp
  qed
  then show "nonceSpent r y" "ok \<Longrightarrow> q = r \<Longrightarrow> snd (snd r) + TIMESTAMP_WINDOW_MS < fst y" by simp_all
qed

text \<open>
  \<open>admissions r x as y\<close>: in a history from \<open>x\<close> to \<open>y\<close>, made of requests of any kind and of other operations, the
  request \<open>r\<close> was admitted as often as \<open>as\<close> is long, its nonce being recorded at these readings of the clock.
\<close>

inductive admissions :: "string \<times> string \<times> int \<Rightarrow> int \<times> sessions \<Rightarrow> int list \<Rightarrow> int \<times> sessions \<Rightarrow> bool" for r where
  none: "admissions r x [] x"
| request: "admitRequest d q x = (ok, y) \<Longrightarrow> admissions r y as z \<Longrightarrow>
    admissions r x ((if ok \<and> q = r then [fst y] else []) @ as) z"
| other: "storeStep (fst r) x y \<Longrightarrow> admissions r y as z \<Longrightarrow> admissions r x as z"

text \<open>The end of the time in which the timestamp of a request is fresh.\<close>

definition windowEnd :: "string \<times> string \<times> int \<Rightarrow> int" where
  "windowEnd r = snd (snd r) + TIMESTAMP_WINDOW_MS"

lemma storeStep_clock: "storeStep sid x y \<Longrightarrow> fst x \<le> fst y"
  by (induction rule: storeStep.induct) auto

lemma storeStep_spent: "storeStep (fst r) x y \<Longrightarrow> nonceSpent r x \<Longrightarrow> storeOk x \<Longrightarrow> nonceSpent r y"
  using nonceSpent_step by (cases r; cases x; cases y) auto

lemma admissions_stale: "admissions r x as y \<Longrightarrow> storeOk x \<Longrightarrow> windowEnd r < fst x \<Longrightarrow> as = []"
proof (induction rule: admissions.induct)
  case (request d q x ok y as z)
  note y = admitRequest_ok [OF request.hyps(1) request.prems(1)]
  have "\<not> (ok \<and> q = r)"
  proof
    assume "ok \<and> q = r"
    with request.hyps(1) have a: "admitRequest d r x = (True, y)" by simp
    obtain sid n t now s where [simp]: "r = (sid, n, t)" "x = (now, s)" by (metis surj_pair)
    from a have "admitRequest d (sid, n, t) (now, s) = (True, y)" by simp
    then show False
      by (cases rule: admitRequest_cases) (use request.prems(2) in \<open>auto simp: windowEnd_def\<close>)
  qed
  with request.IH [OF y(1)] y(2) request.prems(2) show ?case by auto
qed (use storeOk_step storeStep_clock in force)+

lemma admissions_spent:
  "admissions r x as y \<Longrightarrow> storeOk x \<Longrightarrow> nonceSpent r x \<Longrightarrow> filter (\<lambda>a. a \<le> windowEnd r) as = []"
proof (induction rule: admissions.induct)
  case (request d q x ok y as z)
  note y = admitRequest_ok(1) [OF request.hyps(1) request.prems(1)] admitRequest_spent [OF request.hyps(1) request.prems]
  show ?case using request.IH [OF y(1,2)] y(3) by (simp add: windowEnd_def not_le)
qed (use storeOk_step storeStep_spent in auto)

lemma admissions_bound:
  "admissions r x as y \<Longrightarrow> storeOk x \<Longrightarrow>
     length (filter (\<lambda>a. a \<le> windowEnd r) as) \<le> 1 \<and> length (filter (\<lambda>a. windowEnd r < a) as) \<le> 1"
proof (induction rule: admissions.induct)
  case (request d q x ok y as z)
  note y = admitRequest_ok(1) [OF request.hyps(1) request.prems]
  show ?case
  proof (cases "ok \<and> q = r")
    case True
    with request.hyps(1) have "admitRequest d r x = (True, y)" by simp
    from admitRequest_spends [OF this request.prems]
    have "filter (\<lambda>a. a \<le> windowEnd r) as = []" by (rule admissions_spent [OF request.hyps(2) y])
    moreover have "as = []" if "windowEnd r < fst y" by (rule admissions_stale [OF request.hyps(2) y that])
    ultimately show ?thesis using True request.IH [OF y] by auto
  next
    case False
    then show ?thesis using request.IH [OF y] by auto
  qed
qed (use storeOk_step in auto)

section \<open>Identity of a session\<close>

text \<open>The key, the creation time and, once set, the user of a session stay what they are while it lives.\<close>

definition sameIdentity :: "session_entry \<Rightarrow> session_entry \<Rightarrow> bool" where
  "sameIdentity e e' \<longleftrightarrow> se_key e' = se_key e \<and> se_createdAt e' = se_createdAt e
     \<and> (\<forall>u. se_userId e = Some u \<and> u \<noteq> [] \<longrightarrow> se_userId e' = Some u)"

definition keepsIdentity :: "string \<Rightarrow> sessions \<Rightarrow> sessions \<Rightarrow> bool" where
  "keepsIdentity sid s s' \<longleftrightarrow> (\<forall>e'. mapGet s' sid = Some e' \<longrightarrow> (\<exists>e. mapGet s sid = Some e \<and> sameIdentity e e'))"

lemma sameIdentity_simps [simp]:
  "sameIdentity e e" "sameIdentity e (e\<lparr>se_lastUsedAt := t\<rparr>)" "sameIdentity e (e\<lparr>se_seenNonces := ns\<rparr>)"
  by (simp_all add: sameIdentity_def)

lemma sameIdentity_trans: "sameIdentity a b \<Longrightarrow> sameIdentity b c \<Longrightarrow> sameIdentity a c"
  by (simp add: sameIdentity_def)

lemma keepsIdentity_trans: "keepsIdentity sid a b \<Longrightarrow> keepsIdentity sid b c \<Longrightarrow> keepsIdentity sid a c"
  unfolding keepsIdentity_def by (blast intro: sameIdentity_trans)

lemma keepsIdentity_ops:
  assumes "sessionsOk s"
  shows "keepsIdentity sid s s" "i \<noteq> sid \<Longrightarrow> keepsIdentity sid s (snd (setSessionKey now i key s))"
    "keepsIdentity sid s (snd (hasSession now i s))" "keepsIdentity sid s (snd (getSessionKey now i s))"
    "keepsIdentity sid s (snd (bindUser now i u s))" "keepsIdentity sid s (snd (getBoundUser now i s))"
    "keepsIdentity sid s (snd (deleteSessionsByUser u x s))" "keepsIdentity sid s (deleteSession i s)"
    "keepsIdentity sid s (sweepSessions now s)" "keepsIdentity sid s (snd (recordNonce now i n t s))"
proof -
  have "sameIdentity e (e\<lparr>se_userId := Some u\<rparr>)"
    if "\<not> (case se_userId e of None \<Rightarrow> False | Some v \<Rightarrow> v \<noteq> [] \<and> v \<noteq> u)" for e
    using that by (auto simp: sameIdentity_def)
  then show "keepsIdentity sid s (snd (bindUser now i u s))"
    by (auto simp: keepsIdentity_def bindUser_def deleteSession_def split: option.splits if_splits)
qed (use assms mapGet_filter_some [of s] in \<open>auto simp: keepsIdentity_def setSessionKey_def Let_def evictOldest_def evictOldestBy_def
    hasSession_def getSessionKey_def getBoundUser_def deleteSessionsByUser_def sweepSessions_def deleteSession_def
    recordNonce_def sessionsOk_def split: option.splits if_splits prod.splits\<close>)

text \<open>Everything that may happen: other operations, time, and requests of any session.\<close>

inductive storeRun :: "string \<Rightarrow> int \<times> sessions \<Rightarrow> int \<times> sessions \<Rightarrow> bool" for sid where
  start: "storeRun sid x x"
| op: "storeRun sid x y \<Longrightarrow> storeStep sid y z \<Longrightarrow> storeRun sid x z"
| request: "storeRun sid x y \<Longrightarrow> storeRun sid x (snd (admitRequest d r y))"

lemma storeRun_ok: "storeRun sid x y \<Longrightarrow> storeOk x \<Longrightarrow> storeOk y"
  by (induction rule: storeRun.induct) (auto intro: storeOk_step admitRequest_ok(1) [OF surjective_pairing])

lemma keepsIdentity_step:
  assumes "storeStep sid (now, s) (now', s')" and "sessionsOk s"
  shows "keepsIdentity sid s s'"
  using assms(1) by (cases rule: storeStepE) (use assms(2) keepsIdentity_ops in auto)

lemma keepsIdentity_request:
  assumes "storeOk (now, s)"
  shows "keepsIdentity sid s (snd (snd (admitRequest d r (now, s))))"
proof -
  obtain j n t where r: "r = (j, n, t)" by (metis surj_pair)
  obtain ok y where a: "admitRequest d (j, n, t) (now, s) = (ok, y)" by (metis surj_pair)
  have s: "sessionsOk s" "clockAfter now s" using assms by (simp_all add: storeOk_def)
  note ok1 = getSessionKey_ok [OF s, of j] and same1 = keepsIdentity_ops(4) [OF s(1), of sid now j]
  from a have "keepsIdentity sid s (snd y)"
  proof (cases rule: admitRequest_cases)
    case (1 s1 later)
    with same1 show ?thesis by simp
  next
    case (2 s1 later)
    with ok1 same1 keepsIdentity_ops(10) [of s1 sid later j n t] show ?thesis
      by (auto intro: keepsIdentity_trans)
  qed
  with a r show ?thesis by simp
qed

lemma storeRun_identity: "storeRun sid x y \<Longrightarrow> storeOk x \<Longrightarrow> keepsIdentity sid (snd x) (snd y)"
proof (induction rule: storeRun.induct)
  case (start x)
  then show ?case by (simp add: storeOk_def keepsIdentity_ops)
next
  case (op x y z)
  then show ?case
    using storeRun_ok [OF op.hyps(1) op.prems] keepsIdentity_step
    by (cases y; cases z) (auto simp: storeOk_def intro: keepsIdentity_trans)
next
  case (request x y d r)
  obtain now s where y: "y = (now, s)" by fastforce
  from storeRun_ok [OF request.hyps request.prems] have "keepsIdentity sid s (snd (snd (admitRequest d r y)))"
    unfolding y by (rule keepsIdentity_request)
  with request.IH request.prems show ?case unfolding y by (auto intro: keepsIdentity_trans)
qed

section \<open>Properties\<close>

text \<open>
  C25: Replay is bounded: in any history of the store, in which time passes, sessions come and go (none new under the same identifier) and any requests
  are admitted or refused, a request of a session with a given nonce and timestamp is admitted at most once with
  its nonce recorded while its timestamp is fresh, and at most once more with the nonce recorded after that. The
  second needs the two readings of the clock of one request to lie on both sides of the end of the window; the
  example shows that it can happen.
\<close>

theorem request_admitted_once:
  assumes "admissions (sid, nonce, t) x as y" and "storeOk x"
  shows "length (filter (\<lambda>a. a \<le> t + TIMESTAMP_WINDOW_MS) as) \<le> 1
     \<and> length (filter (\<lambda>a. t + TIMESTAMP_WINDOW_MS < a) as) \<le> 1"
  using admissions_bound [OF assms] by (simp add: windowEnd_def)

definition exSessions :: sessions where
  "exSessions = [(''s'', \<lparr>se_key = [1, 2], se_createdAt = 0, se_lastUsedAt = 5, se_seenNonces = [], se_userId = Some ''ua''\<rparr>)]"

lemma exSessions_ok: "storeOk (10, exSessions)"
  by (simp add: storeOk_def sessionsOk_def clockAfter_def exSessions_def entryOk_def MAX_SESSIONS_def)

text \<open>Made at 7, admitted at 10, and again at 60007, its nonce being recorded a millisecond later.\<close>

definition exReplayed :: "int \<times> sessions" where
  "exReplayed = snd (admitRequest (0, 1) (''s'', ''n'', 7) (60007, snd (snd (admitRequest (0, 0) (''s'', ''n'', 7) (10, exSessions)))))"

lemma exReplayed_twice: "admissions (''s'', ''n'', 7) (10, exSessions) [10, 60008] exReplayed"
proof -
  let ?r = "(''s'', ''n'', 7 :: int)"
  obtain ok x where a: "admitRequest (0, 0) ?r (10, exSessions) = (ok, x)" by (metis surj_pair)
  obtain ok' y where b: "admitRequest (0, 1) ?r (60007, snd x) = (ok', y)" by (metis surj_pair)
  note eval = admitRequest_def getSessionKey_def recordNonce_def exSessions_def isExpired_def session_consts
    TIMESTAMP_WINDOW_MS_def Let_def mapHas_def MAX_NONCES_PER_SESSION_def
  from a have x: "ok" "fst x = 10" by (auto simp: eval)
  from a b have y: "ok'" "fst y = 60008" by (auto simp: eval)
  have "exReplayed = y" using a b by (simp add: exReplayed_def)
  moreover have "admissions ?r x [60008] y"
    using admissions.other [OF storeStep.tick [of 10 60007 _ "snd x"] admissions.request [OF b admissions.none, of ?r]] x y
    by (cases x) simp
  ultimately show ?thesis using admissions.request [OF a, of ?r] x by simp
qed

theorem request_admitted_once_witness:
  "admissions (''s'', ''n'', 7) (10, exSessions) [10, 60008] exReplayed
     \<and> length (filter (\<lambda>a. a \<le> 60007) [10, 60008 :: int]) \<le> 1 \<and> length (filter (\<lambda>a. 60007 < a) [10, 60008 :: int]) \<le> 1"
  using exReplayed_twice request_admitted_once [OF exReplayed_twice exSessions_ok]
  by (simp add: TIMESTAMP_WINDOW_MS_def)

text \<open>
  C26: While a session lives, whatever happens, its key never changes, the user bound to it never changes
  once bound, and its key is not handed out later than an hour after it was created.
\<close>

theorem session_identity_stable:
  assumes "storeRun sid (now, s) (now', s')" and "storeOk (now, s)"
    and "mapGet s sid = Some e" and "se_userId e = Some u" and "u \<noteq> []"
  shows "fst (getSessionKey now' sid s') \<in> {None, Some (se_key e)} \<and> fst (getBoundUser now' sid s') \<in> {None, Some u}
     \<and> (se_createdAt e + SESSION_HARD_TTL_MS < now' \<longrightarrow> fst (getSessionKey now' sid s') = None)"
proof (cases "mapGet s' sid")
  case None
  then show ?thesis by (simp add: getSessionKey_def getBoundUser_def)
next
  case (Some e')
  with storeRun_identity [OF assms(1,2)] assms(3) have "sameIdentity e e'"
    by (auto simp: keepsIdentity_def)
  with assms(4,5) have "se_key e' = se_key e" "se_createdAt e' = se_createdAt e" "se_userId e' = Some u"
    by (simp_all add: sameIdentity_def)
  then show ?thesis using Some by (simp add: getSessionKey_def getBoundUser_def isExpired_def)
qed

theorem session_identity_stable_witness:
  "fst (getSessionKey 20 ''s'' exSessions) \<in> {None, Some [1, 2]} \<and> fst (getBoundUser 20 ''s'' exSessions) \<in> {None, Some ''ua''}
     \<and> fst (getSessionKey 4000000 ''s'' exSessions) = None"
proof -
  have run: "storeRun ''s'' (10, exSessions) (t, exSessions)" if "10 \<le> t" for t
    by (rule storeRun.op [OF storeRun.start storeStep.tick]) (rule that)
  from session_identity_stable [OF run [of 20] exSessions_ok, of "snd (hd exSessions)" "''ua''"]
    session_identity_stable [OF run [of 4000000] exSessions_ok, of "snd (hd exSessions)" "''ua''"]
  show ?thesis by (simp add: exSessions_def SESSION_HARD_TTL_MS_def)
qed

text \<open>
  C27: The store stays bounded, whatever happens: at most 10,000 sessions with at most 10,000 nonces each, one
  entry per identifier.
\<close>

theorem sessions_bounded:
  assumes "storeRun sid x y" and "storeOk x"
  shows "length (snd y) \<le> MAX_SESSIONS \<and> distinct (mapKeys (snd y))
     \<and> (\<forall>p \<in> set (snd y). length (se_seenNonces (snd p)) \<le> MAX_NONCES_PER_SESSION)"
  using storeRun_ok [OF assms] by (auto simp: storeOk_def sessionsOk_def entryOk_def)

theorem sessions_bounded_witness:
  "length exSessions \<le> MAX_SESSIONS \<and> distinct (mapKeys exSessions)
     \<and> length (se_seenNonces (snd (hd exSessions))) \<le> MAX_NONCES_PER_SESSION"
  using sessions_bounded [OF storeRun.start exSessions_ok] by (simp add: exSessions_def)

end
