(* ===== verification/HandshakeStore.thy ===== *)
theory HandshakeStore
  imports OneShot
begin

text \<open>
  Two short-lived, single-use maps keyed by the session: the pending key agreements of
  \<open>crypto/handshakeStore.ts\<close> and the "password verified, passkey next" states of
  \<open>contexts/identity/application/loginStateMachine.ts\<close>. Every operation takes the reading of \<open>Date.now()\<close>
  it makes.
\<close>

section \<open>Pending handshakes\<close>

definition HANDSHAKE_TTL_MS :: int where
  "HANDSHAKE_TTL_MS = 5 * 60 * 1000"

definition MAX_HANDSHAKES :: nat where
  "MAX_HANDSHAKES = 1000"

record handshake_entry =
  hs_privateKey :: "nat list"
  hs_salt :: "nat list"
  hs_createdAt :: int

type_synonym handshakes = "(string, handshake_entry) jsmap"

definition setHandshake :: "int \<Rightarrow> string \<Rightarrow> nat list \<Rightarrow> nat list \<Rightarrow> handshakes \<Rightarrow> handshakes" where
  "setHandshake now sid privateKey salt s =
     (let s = (if MAX_HANDSHAKES \<le> length s then evictOldestBy hs_createdAt s else s) in
      mapSet s sid \<lparr>hs_privateKey = privateKey, hs_salt = salt, hs_createdAt = now\<rparr>)"

definition consumeHandshake :: "int \<Rightarrow> string \<Rightarrow> handshakes \<Rightarrow> handshake_entry option \<times> handshakes" where
  "consumeHandshake now sid s = (case mapGet s sid of None \<Rightarrow> (None, s)
     | Some e \<Rightarrow> (if HANDSHAKE_TTL_MS < now - hs_createdAt e then None else Some e, mapDelete s sid))"

definition sweepHandshakes :: "int \<Rightarrow> handshakes \<Rightarrow> handshakes" where
  "sweepHandshakes now s = filter (\<lambda>p. \<not> HANDSHAKE_TTL_MS < now - hs_createdAt (snd p)) s"

section \<open>Login states\<close>

datatype login_purpose = EnrollPasskey | AuthPasskey | EnrollAdditional

record login_state =
  ls_userId :: string
  ls_username :: string
  ls_purpose :: login_purpose
  ls_nonce :: string
  ls_expiresAt :: int

type_synonym login_states = "(string, login_state) jsmap"

definition LOGIN_TTL_MS :: int where
  "LOGIN_TTL_MS = 5 * 60 * 1000"

text \<open>The nonce is the random one the operation draws.\<close>

definition setLoginState ::
  "int \<Rightarrow> string \<Rightarrow> string \<Rightarrow> string \<Rightarrow> string \<Rightarrow> login_purpose \<Rightarrow> login_states \<Rightarrow> (string \<times> int) \<times> login_states" where
  "setLoginState now nonce sid userId username purpose s =
     (let expiresAt = now + LOGIN_TTL_MS in
      ((nonce, expiresAt),
       mapSet s sid \<lparr>ls_userId = userId, ls_username = username, ls_purpose = purpose, ls_nonce = nonce,
                     ls_expiresAt = expiresAt\<rparr>))"

definition peekLoginState :: "int \<Rightarrow> string \<Rightarrow> login_purpose \<Rightarrow> login_states \<Rightarrow> login_state option \<times> login_states" where
  "peekLoginState now sid purpose s = (case mapGet s sid of None \<Rightarrow> (None, s)
     | Some v \<Rightarrow> if ls_expiresAt v < now then (None, mapDelete s sid)
                else if ls_purpose v \<noteq> purpose then (None, s) else (Some v, s))"

definition consumeLoginState :: "int \<Rightarrow> string \<Rightarrow> login_purpose \<Rightarrow> login_states \<Rightarrow> login_state option \<times> login_states" where
  "consumeLoginState now sid purpose s = (case peekLoginState now sid purpose s of
       (None, s1) \<Rightarrow> (None, s1) | (Some v, s1) \<Rightarrow> (Some v, mapDelete s1 sid))"

definition clearLoginState :: "string \<Rightarrow> login_states \<Rightarrow> login_states" where
  "clearLoginState sid s = mapDelete s sid"

definition sweepLoginStates :: "int \<Rightarrow> login_states \<Rightarrow> login_states" where
  "sweepLoginStates now s = filter (\<lambda>p. \<not> ls_expiresAt (snd p) < now) s"

section \<open>Both are one-shot\<close>

definition absent :: "string \<Rightarrow> int \<times> (string, 'v) jsmap \<Rightarrow> bool" where
  "absent sid x \<longleftrightarrow> mapGet (snd x) sid = None"

definition oneEntryEach :: "int \<times> (string, 'v) jsmap \<Rightarrow> bool" where
  "oneEntryEach x \<longleftrightarrow> distinct (mapKeys (snd x))"

definition takeHandshake :: "string \<Rightarrow> int \<times> handshakes \<Rightarrow> bool \<times> (int \<times> handshakes)" where
  "takeHandshake sid x = (case consumeHandshake (fst x) sid (snd x) of (r, s) \<Rightarrow> (r \<noteq> None, (fst x, s)))"

text \<open>Anything that may happen in between but a new handshake of the same session.\<close>

inductive handshakeStep :: "string \<Rightarrow> int \<times> handshakes \<Rightarrow> int \<times> handshakes \<Rightarrow> bool" for sid where
  tick: "now \<le> now' \<Longrightarrow> handshakeStep sid (now, s) (now', s)"
| set_other: "i \<noteq> sid \<Longrightarrow> handshakeStep sid (now, s) (now, setHandshake now i k salt s)"
| sweep: "handshakeStep sid (now, s) (now, sweepHandshakes now s)"

inductive_cases handshakeStepE: "handshakeStep sid x y"

lemma mapGet_filter_None: "distinct (mapKeys m) \<Longrightarrow> mapGet m k = None \<Longrightarrow> mapGet (filter P m) k = None"
  by (simp add: mapGet_filter)

lemma distinct_filter_keys: "distinct (mapKeys m) \<Longrightarrow> distinct (mapKeys (filter P m))"
  by (simp add: distinct_map_filter)

lemma evicted_get: "distinct (mapKeys m) \<Longrightarrow> mapGet m k = None \<Longrightarrow> mapGet (evictOldestBy f m) k = None"
  using evictOldestBy_filter mapGet_filter_None by metis

lemma evicted_distinct: "distinct (mapKeys m) \<Longrightarrow> distinct (mapKeys (evictOldestBy f m))"
  using evictOldestBy_filter distinct_filter_keys by metis

interpretation handshakes: one_shot takeHandshake handshakeStep absent oneEntryEach
  by unfold_locales
    (auto simp: takeHandshake_def absent_def oneEntryEach_def consumeHandshake_def setHandshake_def sweepHandshakes_def
      Let_def evicted_get evicted_distinct mapGet_filter_None distinct_filter_keys
      split: option.splits if_splits elim!: handshakeStepE)

type_synonym login_request = "string \<times> login_purpose"

definition takeLoginState :: "login_request \<Rightarrow> int \<times> login_states \<Rightarrow> bool \<times> (int \<times> login_states)" where
  "takeLoginState r x = (case consumeLoginState (fst x) (fst r) (snd r) (snd x) of (v, s) \<Rightarrow> (v \<noteq> None, (fst x, s)))"

definition noLoginState :: "login_request \<Rightarrow> int \<times> login_states \<Rightarrow> bool" where
  "noLoginState r = absent (fst r)"

inductive loginStep :: "login_request \<Rightarrow> int \<times> login_states \<Rightarrow> int \<times> login_states \<Rightarrow> bool" for r where
  tick: "now \<le> now' \<Longrightarrow> loginStep r (now, s) (now', s)"
| set_other: "i \<noteq> fst r \<Longrightarrow> loginStep r (now, s) (now, snd (setLoginState now n i u name p s))"
| peek: "loginStep r (now, s) (now, snd (peekLoginState now i p s))"
| clear: "loginStep r (now, s) (now, clearLoginState i s)"
| sweep: "loginStep r (now, s) (now, sweepLoginStates now s)"

inductive_cases loginStepE: "loginStep r x y"

interpretation login_states: one_shot takeLoginState loginStep noLoginState oneEntryEach
  by unfold_locales
    (auto simp: takeLoginState_def noLoginState_def absent_def oneEntryEach_def consumeLoginState_def peekLoginState_def
      setLoginState_def clearLoginState_def sweepLoginStates_def Let_def mapGet_filter_None distinct_filter_keys
      split: option.splits if_splits prod.splits elim!: loginStepE)

text \<open>The store of handshakes stays bounded.\<close>

lemma setHandshake_bounded:
  assumes "length s \<le> MAX_HANDSHAKES" and "[] \<notin> fst ` set s"
  shows "length (setHandshake now sid k salt s) \<le> MAX_HANDSHAKES"
proof -
  have "length (if MAX_HANDSHAKES \<le> length s then evictOldestBy hs_createdAt s else s) < MAX_HANDSHAKES"
    using assms evictOldestBy_shrinks [OF assms(2), of hs_createdAt] by (cases "s = []") (auto simp: MAX_HANDSHAKES_def)
  then show ?thesis by (simp add: setHandshake_def Let_def length_mapSet)
qed

text \<open>A login state is handed out only for the purpose it was set for, and not after it expired.\<close>

lemma consumeLoginState_purpose:
  "consumeLoginState now sid p s = (Some l, s') \<Longrightarrow> ls_purpose l = p \<and> now \<le> ls_expiresAt l"
  by (auto simp: consumeLoginState_def peekLoginState_def split: option.splits if_splits prod.splits)

section \<open>Properties\<close>

text \<open>
  C28: A pending handshake and a login state are each handed out at most once, in any history in which
  they are not set again: time may pass, others may be set, peeked at, cleared and swept.
\<close>

theorem single_use_states:
  assumes "uses takeHandshake handshakeStep sid x n y" and "oneEntryEach x"
    and "uses takeLoginState loginStep r u m v" and "oneEntryEach u"
  shows "n \<le> 1 \<and> m \<le> 1"
  using handshakes.at_most_once [OF assms(1,2)] login_states.at_most_once [OF assms(3,4)] by blast

definition exHandshakes :: handshakes where
  "exHandshakes = setHandshake 0 ''s'' [7] [9] []"

definition exLogin :: login_states where
  "exLogin = snd (setLoginState 0 ''n'' ''s'' ''ua'' ''alice'' AuthPasskey [])"

theorem single_use_states_witness:
  "uses takeHandshake handshakeStep ''s'' (5, exHandshakes) 1 (5, []) \<and> (1 :: nat) \<le> 1
     \<and> uses takeLoginState loginStep (''s'', AuthPasskey) (5, exLogin) 1 (5, []) \<and> (1 :: nat) \<le> 1"
proof -
  have h: "uses takeHandshake handshakeStep ''s'' (5, exHandshakes) 1 (5, [])"
    unfolding One_nat_def
    by (rule uses_shown_ok [OF _ uses.none])
      (simp add: takeHandshake_def consumeHandshake_def exHandshakes_def setHandshake_def Let_def
        HANDSHAKE_TTL_MS_def MAX_HANDSHAKES_def)
  have l: "uses takeLoginState loginStep (''s'', AuthPasskey) (5, exLogin) 1 (5, [])"
    unfolding One_nat_def
    by (rule uses_shown_ok [OF _ uses.none])
      (simp add: takeLoginState_def consumeLoginState_def peekLoginState_def exLogin_def setLoginState_def Let_def
        LOGIN_TTL_MS_def)
  have "oneEntryEach (5, exHandshakes)" "oneEntryEach (5, exLogin)"
    by (simp_all add: oneEntryEach_def exHandshakes_def setHandshake_def Let_def MAX_HANDSHAKES_def exLogin_def
        setLoginState_def)
  from single_use_states [OF h this(1) l this(2)] h l show ?thesis by simp
qed

end
