(* ===== verification/ActionTokens.thy ===== *)
theory ActionTokens
  imports OneShot
begin

text \<open>
  One-shot signed tokens: \<open>services/actionTokens.ts\<close> and its mirror \<open>services/otpTokens.ts\<close>, which differ
  in their keys. Base64url, JSON and HMAC-SHA-256 are functions of the platform and parameters of the
  model: \<open>tc_encode\<close> is \<open>base64url(JSON.stringify(token))\<close>, \<open>tc_decode\<close> its inverse (\<open>None\<close> when
  \<open>JSON.parse\<close> throws), \<open>tc_mac\<close> the base64url text of the MAC of a body under the key of the store, and
  \<open>tc_bytes\<close> what \<open>Buffer.from(\<dots>, "base64url")\<close> makes of a text.
\<close>

record minted_token =
  mt_jti :: string
  mt_action :: string
  mt_paramsHash :: string
  mt_sessionId :: string
  mt_iat :: int
  mt_exp :: int

record token_codec =
  tc_encode :: "minted_token \<Rightarrow> string"
  tc_decode :: "string \<Rightarrow> minted_token option"
  tc_mac :: "string \<Rightarrow> string"
  tc_bytes :: "string \<Rightarrow> nat list"

definition TOKEN_TTL_MS :: int where
  "TOKEN_TTL_MS = 60 * 1000"

definition MAX_LIVE_TOKENS :: nat where
  "MAX_LIVE_TOKENS = 10000"

text \<open>The consumed identifiers, a JavaScript \<open>Set\<close>: a list without repetitions.\<close>

type_synonym consumed_jti = "string list"

definition jtiBucket :: "consumed_jti \<Rightarrow> consumed_jti" where
  "jtiBucket c = (if MAX_LIVE_TOKENS < length c then [] else c)"

definition signToken :: "token_codec \<Rightarrow> minted_token \<Rightarrow> string" where
  "signToken C t = (let body = tc_encode C t in body @ ''.'' @ tc_mac C body)"

definition verifyToken :: "token_codec \<Rightarrow> string \<Rightarrow> minted_token option" where
  "verifyToken C token =
     (if CHR ''.'' \<notin> set token then None else
      let body = takeWhile (\<lambda>c. c \<noteq> CHR ''.'') token; mac = tl (dropWhile (\<lambda>c. c \<noteq> CHR ''.'') token) in
      if tc_bytes C mac \<noteq> tc_bytes C (tc_mac C body) then None else tc_decode C body)"

definition mintActionToken ::
  "token_codec \<Rightarrow> int \<Rightarrow> string \<Rightarrow> string \<Rightarrow> string \<Rightarrow> string \<Rightarrow> consumed_jti \<Rightarrow> (string \<times> int) \<times> consumed_jti" where
  "mintActionToken C now jti action sid paramsHash c =
     (let minted = \<lparr>mt_jti = jti, mt_action = action, mt_paramsHash = paramsHash, mt_sessionId = sid,
                    mt_iat = now, mt_exp = now + TOKEN_TTL_MS\<rparr> in
      ((signToken C minted, mt_exp minted), jtiBucket c))"

datatype token_verdict = TokenOk | TokenMalformed | TokenExpired | TokenConsumed | TokenMismatch

definition consumeActionToken ::
  "token_codec \<Rightarrow> int \<Rightarrow> string \<Rightarrow> string \<Rightarrow> string \<Rightarrow> string \<Rightarrow> consumed_jti \<Rightarrow> token_verdict \<times> consumed_jti" where
  "consumeActionToken C now token action sid paramsHash c =
     (case verifyToken C token of None \<Rightarrow> (TokenMalformed, c)
      | Some m \<Rightarrow>
          if mt_exp m < now then (TokenExpired, c)
          else if mt_jti m \<in> set c then (TokenConsumed, c)
          else if mt_action m \<noteq> action \<or> mt_sessionId m \<noteq> sid \<or> mt_paramsHash m \<noteq> paramsHash then (TokenMismatch, c)
          else (TokenOk, List.insert (mt_jti m) c))"

text \<open>
  The tokens of \<open>otpTokens.ts\<close>, a module of its own with its own key, limits and set of consumed identifiers.
\<close>

definition OTP_TOKEN_TTL_MS :: int where
  "OTP_TOKEN_TTL_MS = 60 * 1000"

definition OTP_MAX_LIVE_TOKENS :: nat where
  "OTP_MAX_LIVE_TOKENS = 10000"

definition otpJtiBucket :: "consumed_jti \<Rightarrow> consumed_jti" where
  "otpJtiBucket c = (if OTP_MAX_LIVE_TOKENS < length c then [] else c)"

definition signOtpToken :: "token_codec \<Rightarrow> minted_token \<Rightarrow> string" where
  "signOtpToken C t = (let body = tc_encode C t; mac = tc_mac C body in body @ ''.'' @ mac)"

definition verifyOtpToken :: "token_codec \<Rightarrow> string \<Rightarrow> minted_token option" where
  "verifyOtpToken C token =
     (if CHR ''.'' \<notin> set token then None else
      let body = takeWhile (\<lambda>c. c \<noteq> CHR ''.'') token; mac = tl (dropWhile (\<lambda>c. c \<noteq> CHR ''.'') token);
          a = tc_bytes C mac; b = tc_bytes C (tc_mac C body) in
      if length a \<noteq> length b \<or> a \<noteq> b then None else tc_decode C body)"

definition mintOtpToken ::
  "token_codec \<Rightarrow> int \<Rightarrow> string \<Rightarrow> string \<Rightarrow> string \<Rightarrow> string \<Rightarrow> consumed_jti \<Rightarrow> (string \<times> int) \<times> consumed_jti" where
  "mintOtpToken C now jti action sid paramsHash c =
     (let minted = \<lparr>mt_jti = jti, mt_action = action, mt_paramsHash = paramsHash, mt_sessionId = sid,
                    mt_iat = now, mt_exp = now + OTP_TOKEN_TTL_MS\<rparr> in
      ((signOtpToken C minted, mt_exp minted), otpJtiBucket c))"

definition consumeOtpToken ::
  "token_codec \<Rightarrow> int \<Rightarrow> string \<Rightarrow> string \<Rightarrow> string \<Rightarrow> string \<Rightarrow> consumed_jti \<Rightarrow> token_verdict \<times> consumed_jti" where
  "consumeOtpToken C now token action sid paramsHash c =
     (case verifyOtpToken C token of None \<Rightarrow> (TokenMalformed, c)
      | Some m \<Rightarrow>
          if mt_exp m < now then (TokenExpired, c)
          else if mt_jti m \<in> set c then (TokenConsumed, c)
          else if mt_action m \<noteq> action \<or> mt_sessionId m \<noteq> sid \<or> mt_paramsHash m \<noteq> paramsHash then (TokenMismatch, c)
          else (TokenOk, List.insert (mt_jti m) c))"

section \<open>What a token proves\<close>

text \<open>The two modules are the same program under different keys.\<close>

lemma otp_mirror_parts: "otpJtiBucket = jtiBucket" "signOtpToken = signToken" "verifyOtpToken = verifyToken"
  by (auto simp: fun_eq_iff otpJtiBucket_def jtiBucket_def OTP_MAX_LIVE_TOKENS_def MAX_LIVE_TOKENS_def signOtpToken_def
      signToken_def verifyOtpToken_def verifyToken_def Let_def)

lemma otp_mirror: "mintOtpToken = mintActionToken" "consumeOtpToken = consumeActionToken"
  by (simp_all add: fun_eq_iff mintOtpToken_def mintActionToken_def consumeOtpToken_def consumeActionToken_def
      otp_mirror_parts OTP_TOKEN_TTL_MS_def TOKEN_TTL_MS_def)

text \<open>The codec can carry the token: its body has no dot and decodes to it.\<close>

definition carries :: "token_codec \<Rightarrow> minted_token \<Rightarrow> bool" where
  "carries C t \<longleftrightarrow> tc_decode C (tc_encode C t) = Some t \<and> CHR ''.'' \<notin> set (tc_encode C t)"

lemma verify_sign: "carries C t \<Longrightarrow> verifyToken C (signToken C t) = Some t"
  by (auto simp: verifyToken_def signToken_def carries_def Let_def takeWhile_append dropWhile_append)

lemma consume_ok:
  "fst (consumeActionToken C now token action sid h c) = TokenOk \<longleftrightarrow>
     (\<exists>m. verifyToken C token = Some m \<and> now \<le> mt_exp m \<and> mt_jti m \<notin> set c
        \<and> mt_action m = action \<and> mt_sessionId m = sid \<and> mt_paramsHash m = h)"
  by (auto simp: consumeActionToken_def split: option.splits)

section \<open>Tokens are one-shot between two clearings\<close>

text \<open>A presentation: the token and the action, session and parameters it is presented for.\<close>

record presentation =
  pr_token :: string
  pr_action :: string
  pr_session :: string
  pr_params :: string

definition showToken :: "token_codec \<Rightarrow> presentation \<Rightarrow> int \<times> consumed_jti \<Rightarrow> bool \<times> (int \<times> consumed_jti)" where
  "showToken C p x = (case consumeActionToken C (fst x) (pr_token p) (pr_action p) (pr_session p) (pr_params p) (snd x) of
     (v, c) \<Rightarrow> (v = TokenOk, (fst x, c)))"

text \<open>Minting clears the set when it has grown past its limit; such a clearing is not a step here.\<close>

inductive tokenStep :: "presentation \<Rightarrow> int \<times> consumed_jti \<Rightarrow> int \<times> consumed_jti \<Rightarrow> bool" for p where
  tick: "now \<le> now' \<Longrightarrow> tokenStep p (now, c) (now', c)"
| mint: "length c \<le> MAX_LIVE_TOKENS \<Longrightarrow> tokenStep p (now, c) (now, snd (mintActionToken C now j a s h c))"

definition tokenSpent :: "token_codec \<Rightarrow> presentation \<Rightarrow> int \<times> consumed_jti \<Rightarrow> bool" where
  "tokenSpent C p x \<longleftrightarrow> (\<exists>m. verifyToken C (pr_token p) = Some m \<and> mt_jti m \<in> set (snd x))"

interpretation tokens: one_shot "showToken C" tokenStep "tokenSpent C" "\<lambda>_. True" for C
  by unfold_locales
    (auto simp: showToken_def tokenSpent_def consumeActionToken_def mintActionToken_def jtiBucket_def Let_def
      split: option.splits if_splits prod.splits elim!: tokenStep.cases)

text \<open>
  The clearing loses the identifiers of tokens that are still valid: when more than \<open>MAX_LIVE_TOKENS\<close> have
  been consumed, the next minting makes every consumed token that has not expired acceptable again.
\<close>

theorem token_replayable_after_clearing:
  assumes "verifyToken C token = Some m" and "mt_jti m \<in> set c" and "MAX_LIVE_TOKENS < length c" and "now \<le> mt_exp m"
  shows "fst (consumeActionToken C now token (mt_action m) (mt_sessionId m) (mt_paramsHash m) c) = TokenConsumed
    \<and> fst (consumeActionToken C now token (mt_action m) (mt_sessionId m) (mt_paramsHash m)
           (snd (mintActionToken C now j a s h c))) = TokenOk"
  using assms by (simp add: consumeActionToken_def mintActionToken_def jtiBucket_def Let_def)

section \<open>Properties\<close>

text \<open>
  C29: Minting and verifying is a round trip: a freshly minted token is accepted, within its minute and for
  exactly the action, session and parameters it was minted for, if its identifier is new.
\<close>

theorem token_roundtrip:
  assumes "mintActionToken C now jti action sid h c = ((token, ex), c')"
    and "carries C \<lparr>mt_jti = jti, mt_action = action, mt_paramsHash = h, mt_sessionId = sid, mt_iat = now, mt_exp = now + TOKEN_TTL_MS\<rparr>"
    and "jti \<notin> set c"
  shows "fst (consumeActionToken C later token action' sid' h' c') = TokenOk \<longleftrightarrow>
     later \<le> now + TOKEN_TTL_MS \<and> action' = action \<and> sid' = sid \<and> h' = h"
proof -
  have "token = signToken C \<lparr>mt_jti = jti, mt_action = action, mt_paramsHash = h, mt_sessionId = sid, mt_iat = now,
      mt_exp = now + TOKEN_TTL_MS\<rparr>" "set c' \<subseteq> set c"
    using assms(1) by (auto simp: mintActionToken_def Let_def jtiBucket_def split: if_splits)
  with assms(3) show ?thesis
    by (auto simp: consume_ok verify_sign [OF assms(2)])
qed

definition exToken :: minted_token where
  "exToken = \<lparr>mt_jti = ''j1'', mt_action = ''transfer'', mt_paramsHash = ''h'', mt_sessionId = ''s'', mt_iat = 100,
     mt_exp = 100 + TOKEN_TTL_MS\<rparr>"

definition exCodec :: token_codec where
  "exCodec = \<lparr>tc_encode = (\<lambda>t. mt_jti t), tc_decode = (\<lambda>b. if b = ''j1'' then Some exToken else None),
     tc_mac = rev, tc_bytes = map of_char\<rparr>"

theorem token_roundtrip_witness:
  "fst (consumeActionToken exCodec 200 ''j1.1j'' ''transfer'' ''s'' ''h'' []) = TokenOk \<longleftrightarrow>
     200 \<le> 100 + TOKEN_TTL_MS \<and> ''transfer'' = ''transfer'' \<and> ''s'' = ''s'' \<and> ''h'' = ''h''"
  by (rule token_roundtrip [where jti = "''j1''" and now = 100 and c = "[]" and ex = "100 + TOKEN_TTL_MS"])
    (simp_all add: mintActionToken_def exCodec_def signToken_def Let_def jtiBucket_def carries_def exToken_def)

text \<open>
  C30: A token is accepted at most once, whatever it is presented for, in any history in which the set of
  consumed identifiers is not cleared for its size.
\<close>

theorem token_single_use:
  assumes "uses (showToken C) tokenStep p x n y"
  shows "n \<le> 1"
  by (rule tokens.at_most_once [OF assms]) simp

definition exShown :: presentation where
  "exShown = \<lparr>pr_token = ''j1.1j'', pr_action = ''transfer'', pr_session = ''s'', pr_params = ''h''\<rparr>"

theorem token_single_use_witness:
  "uses (showToken exCodec) tokenStep exShown (200, []) 1 (200, [''j1'']) \<and> (1 :: nat) \<le> 1"
proof -
  have "uses (showToken exCodec) tokenStep exShown (200, []) 1 (200, [''j1''])"
    unfolding One_nat_def
    by (rule uses_shown_ok [OF _ uses.none])
      (simp add: showToken_def exShown_def consumeActionToken_def verifyToken_def exCodec_def Let_def exToken_def
        TOKEN_TTL_MS_def)
  with token_single_use [OF this] show ?thesis by simp
qed

end
