(* ===== verification/Otp.thy ===== *)
theory Otp
  imports OneShot
begin

text \<open>
  Emailed one-time codes (\<open>services/otpService.ts\<close>): one slot per session, action and parameters, five
  guesses per slot, five minutes to use it. Operations take the reading of \<open>Date.now()\<close>, the random draws
  they make and, for the parameters, their hash.
\<close>

definition OTP_REQUIRED_ACTIONS :: "string list" where
  "OTP_REQUIRED_ACTIONS = [''passkey.add'', ''passkey.revoke'', ''password.change'', ''session.wipe'',
     ''identity.contact.change'', ''admin.recovery'']"

definition OTP_TTL_MS :: int where
  "OTP_TTL_MS = 5 * 60 * 1000"

definition MAX_ATTEMPTS :: nat where
  "MAX_ATTEMPTS = 5"

definition RESEND_COOLDOWN_MS :: int where
  "RESEND_COOLDOWN_MS = 30 * 1000"

definition OTP_MAX_KEYS :: nat where
  "OTP_MAX_KEYS = 10000"

record otp_slot =
  os_requestId :: string
  os_code :: string
  os_userId :: string
  os_createdAt :: int
  os_expiresAt :: int
  os_attempts :: nat

type_synonym otp_slots = "(string, otp_slot) jsmap"

definition isOtpRequired :: "string \<Rightarrow> bool" where
  "isOtpRequired action \<longleftrightarrow> action \<in> set OTP_REQUIRED_ACTIONS"

text \<open>\<open>Map.keys()\<close> runs in insertion order: the oldest entries are the first ones.\<close>

definition evictSlots :: "otp_slots \<Rightarrow> otp_slots" where
  "evictSlots s = (if length s \<le> OTP_MAX_KEYS then s else drop (length s - OTP_MAX_KEYS + 100) s)"

definition otpKey :: "string \<Rightarrow> string \<Rightarrow> string \<Rightarrow> string" where
  "otpKey sid action paramsHash = sid @ ''::'' @ action @ ''::'' @ paramsHash"

definition generate6Digit :: "nat \<Rightarrow> string" where
  "generate6Digit r = padStart 6 (CHR ''0'') (showNat (r mod 1000000))"

record otp_request_result =
  or_requestId :: string
  or_code :: string
  or_expiresAt :: int
  or_cooldownUntil :: int
  or_resent :: bool

definition requestOtp ::
  "int \<Rightarrow> nat \<Rightarrow> string \<Rightarrow> string \<Rightarrow> string \<Rightarrow> string \<Rightarrow> string \<Rightarrow> otp_slots \<Rightarrow> otp_request_result \<times> otp_slots" where
  "requestOtp now rnd requestId sid action paramsHash userId s =
     (let s = evictSlots s; k = otpKey sid action paramsHash; existing = mapGet s k;
          slot = \<lparr>os_requestId = requestId, os_code = generate6Digit rnd, os_userId = userId, os_createdAt = now,
                  os_expiresAt = now + OTP_TTL_MS, os_attempts = 0\<rparr>;
          fresh = \<lparr>or_requestId = requestId, or_code = os_code slot, or_expiresAt = os_expiresAt slot,
                   or_cooldownUntil = now + RESEND_COOLDOWN_MS,
                   or_resent = (case existing of None \<Rightarrow> False | Some x \<Rightarrow> os_expiresAt x \<le> now)\<rparr> in
      (case existing of
         Some x \<Rightarrow>
           if now < os_expiresAt x \<and> now < os_createdAt x + RESEND_COOLDOWN_MS
           then (\<lparr>or_requestId = os_requestId x, or_code = os_code x, or_expiresAt = os_expiresAt x,
                  or_cooldownUntil = os_createdAt x + RESEND_COOLDOWN_MS, or_resent = True\<rparr>, s)
           else (fresh, mapSet s k slot)
       | None \<Rightarrow> (fresh, mapSet s k slot)))"

datatype otp_outcome = OtpOk string | OtpMissing | OtpExpired | OtpLocked | OtpMismatch

text \<open>\<open>stub\<close> is \<open>process.env.OTP_STUB_BYPASS === "true"\<close>.\<close>

definition verifyOtp ::
  "bool \<Rightarrow> int \<Rightarrow> string \<Rightarrow> string \<Rightarrow> string \<Rightarrow> string \<Rightarrow> string \<Rightarrow> otp_slots \<Rightarrow> otp_outcome \<times> otp_slots" where
  "verifyOtp stub now sid action paramsHash code userId s =
     (let k = otpKey sid action paramsHash in
      case mapGet s k of None \<Rightarrow> (OtpMissing, s)
      | Some slot \<Rightarrow>
          if os_expiresAt slot < now then (OtpExpired, mapDelete s k)
          else if MAX_ATTEMPTS \<le> os_attempts slot then (OtpLocked, s)
          else if os_userId slot \<noteq> userId then (OtpMismatch, s)
          else if \<not> (stub \<and> code = ''000000'') \<and> padStart 6 (CHR ''0'') code \<noteq> os_code slot
          then (OtpMismatch, mapSet s k (slot\<lparr>os_attempts := os_attempts slot + 1\<rparr>))
          else (OtpOk (os_userId slot), mapDelete s k))"

definition sweepSlots :: "int \<Rightarrow> otp_slots \<Rightarrow> otp_slots" where
  "sweepSlots now s = filter (\<lambda>p. \<not> os_expiresAt (snd p) < now) s"

section \<open>Guessing\<close>

record guess =
  g_now :: int
  g_code :: string
  g_user :: string

text \<open>The outcomes of guessing again and again at one slot.\<close>

fun guessAll :: "bool \<Rightarrow> string \<Rightarrow> string \<Rightarrow> string \<Rightarrow> guess list \<Rightarrow> otp_slots \<Rightarrow> otp_outcome list" where
  "guessAll stub sid a h [] s = []"
| "guessAll stub sid a h (g # gs) s =
     (case verifyOtp stub (g_now g) sid a h (g_code g) (g_user g) s of (r, s') \<Rightarrow> r # guessAll stub sid a h gs s')"

definition isOtpOk :: "otp_outcome \<Rightarrow> bool" where
  "isOtpOk r \<longleftrightarrow> (\<exists>u. r = OtpOk u)"

lemma guess_missing: "mapGet s (otpKey sid a h) = None \<Longrightarrow> list_all (\<lambda>r. \<not> isOtpOk r) (guessAll stub sid a h gs s)"
  by (induction gs arbitrary: s) (simp_all add: verifyOtp_def isOtpOk_def)

text \<open>The guesses of the slot's user; those of others are not counted against it.\<close>

definition ownGuesses :: "string \<Rightarrow> guess list \<Rightarrow> string list" where
  "ownGuesses u gs = map (\<lambda>g. padStart 6 (CHR ''0'') (g_code g)) (filter (\<lambda>g. g_user g = u) gs)"

lemma ownGuesses_simps [simp]:
  "ownGuesses u [] = []"
  "ownGuesses u (g # gs) = (if g_user g = u then padStart 6 (CHR ''0'') (g_code g) # ownGuesses u gs else ownGuesses u gs)"
  by (simp_all add: ownGuesses_def)

lemma guesses_fail:
  assumes "mapGet s (otpKey sid a h) = Some slot"
    and "os_code slot \<notin> set (take (MAX_ATTEMPTS - os_attempts slot) (ownGuesses (os_userId slot) gs))"
  shows "list_all (\<lambda>r. \<not> isOtpOk r) (guessAll False sid a h gs s)"
  using assms
proof (induction gs arbitrary: s slot)
  case (Cons g gs)
  let ?k = "otpKey sid a h"
  note slot = Cons.prems(1)
  consider "os_expiresAt slot < g_now g" | "\<not> os_expiresAt slot < g_now g" "MAX_ATTEMPTS \<le> os_attempts slot"
    | "\<not> os_expiresAt slot < g_now g" "\<not> MAX_ATTEMPTS \<le> os_attempts slot" "os_userId slot \<noteq> g_user g"
    | "\<not> os_expiresAt slot < g_now g" "\<not> MAX_ATTEMPTS \<le> os_attempts slot" "os_userId slot = g_user g"
    by blast
  then show ?case
  proof cases
    case 1
    then show ?thesis using slot guess_missing by (simp add: verifyOtp_def Let_def isOtpOk_def)
  next
    case 2
    then show ?thesis using slot Cons.IH [OF slot] by (simp add: verifyOtp_def Let_def isOtpOk_def)
  next
    case 3
    then show ?thesis using slot Cons.prems(2) Cons.IH [OF slot] by (simp add: verifyOtp_def Let_def isOtpOk_def)
  next
    case 4
    let ?slot = "slot\<lparr>os_attempts := os_attempts slot + 1\<rparr>"
    obtain n where n: "MAX_ATTEMPTS - os_attempts slot = Suc n" using 4(2) by (cases "MAX_ATTEMPTS - os_attempts slot") auto
    with Cons.prems(2) 4(3) have wrong: "padStart 6 (CHR ''0'') (g_code g) \<noteq> os_code slot"
      "os_code slot \<notin> set (take n (ownGuesses (os_userId slot) gs))" by auto
    have "MAX_ATTEMPTS - os_attempts ?slot = n" using n by simp
    with wrong(2) Cons.IH [of "mapSet s ?k ?slot" ?slot]
    have "list_all (\<lambda>r. \<not> isOtpOk r) (guessAll False sid a h gs (mapSet s ?k ?slot))" by simp
    with 4 wrong(1) slot show ?thesis by (simp add: verifyOtp_def Let_def isOtpOk_def)
  qed
qed simp

section \<open>Codes are one-shot\<close>

definition showCode :: "string \<Rightarrow> string \<Rightarrow> string \<Rightarrow> guess \<Rightarrow> otp_slots \<Rightarrow> bool \<times> otp_slots" where
  "showCode sid a h g s = (case verifyOtp False (g_now g) sid a h (g_code g) (g_user g) s of (r, s') \<Rightarrow> (isOtpOk r, s'))"

definition noSlot :: "string \<Rightarrow> guess \<Rightarrow> otp_slots \<Rightarrow> bool" where
  "noSlot k g s \<longleftrightarrow> mapGet s k = None"

text \<open>Anything but a new request for the same session, action and parameters.\<close>

inductive otpStep :: "string \<Rightarrow> guess \<Rightarrow> otp_slots \<Rightarrow> otp_slots \<Rightarrow> bool" for k g where
  request_other: "otpKey i a h \<noteq> k \<Longrightarrow> otpStep k g s (snd (requestOtp now rnd r i a h u s))"
| verify_any: "otpStep k g s (snd (verifyOtp stub now i a h c u s))"
| sweep: "otpStep k g s (sweepSlots now s)"

lemma evictSlots_get: "mapGet s k = None \<Longrightarrow> mapGet (evictSlots s) k = None"
  by (auto simp: evictSlots_def mapGet_None_iff dest: in_set_dropD)

lemma evictSlots_distinct: "distinct (mapKeys s) \<Longrightarrow> distinct (mapKeys (evictSlots s))"
  by (simp add: evictSlots_def flip: drop_map)

lemma requestOtp_other:
  "otpKey i a h \<noteq> k \<Longrightarrow> mapGet s k = None \<Longrightarrow> mapGet (snd (requestOtp now rnd r i a h u s)) k = None"
  using evictSlots_get by (auto simp: requestOtp_def Let_def split: option.splits)

lemma verifyOtp_other: "mapGet s k = None \<Longrightarrow> mapGet (snd (verifyOtp stub now i a h c u s)) k = None"
  by (auto simp: verifyOtp_def Let_def split: option.splits)

lemma otp_distinct:
  assumes "distinct (mapKeys s)"
  shows "distinct (mapKeys (snd (requestOtp now rnd r i a h u s)))" "distinct (mapKeys (snd (verifyOtp stub now i a h c u s)))"
    "distinct (mapKeys (sweepSlots now s))"
  using assms evictSlots_distinct [OF assms]
  by (auto simp: requestOtp_def verifyOtp_def sweepSlots_def Let_def distinct_map_filter split: option.splits)

lemma showCode_snd: "snd (showCode sid a h g s) = snd (verifyOtp False (g_now g) sid a h (g_code g) (g_user g) s)"
  by (simp add: showCode_def split: prod.splits)

interpretation otp: one_shot "showCode sid a h" "otpStep (otpKey sid a h)" "noSlot (otpKey sid a h)" "\<lambda>s. distinct (mapKeys s)"
  for sid a h
proof unfold_locales
  fix s s' :: otp_slots and g g' :: guess
  assume d: "distinct (mapKeys s)"
  show "noSlot (otpKey sid a h) g s'" if "showCode sid a h g s = (True, s')"
    using that by (auto simp: showCode_def noSlot_def verifyOtp_def isOtpOk_def Let_def split: option.splits if_splits)
  show "\<not> fst (showCode sid a h g s)" if "noSlot (otpKey sid a h) g s"
    using that by (simp add: showCode_def noSlot_def verifyOtp_def isOtpOk_def)
  show "noSlot (otpKey sid a h) g (snd (showCode sid a h g' s))" if "noSlot (otpKey sid a h) g s"
    using that verifyOtp_other by (simp add: noSlot_def showCode_snd)
  show "noSlot (otpKey sid a h) g s'" if "noSlot (otpKey sid a h) g s" "otpStep (otpKey sid a h) g s s'"
    using that(2,1) by cases (auto simp: noSlot_def requestOtp_other verifyOtp_other sweepSlots_def mapGet_filter [OF d])
  show "distinct (mapKeys (snd (showCode sid a h g' s)))"
    using otp_distinct(2) [OF d] by (simp add: showCode_snd)
  show "distinct (mapKeys s')" if "otpStep (otpKey sid a h) g s s'"
    using that by cases (use otp_distinct [OF d] in auto)
qed

lemma generate6Digit_length: "length (generate6Digit r) = 6 \<and> (\<forall>c \<in> set (generate6Digit r). isDigit c)"
  using padStart_showNat [of "r mod 1000000" 6] by (simp add: generate6Digit_def)

section \<open>Properties\<close>

text \<open>
  C31: Five guesses: whatever codes are tried at a fresh slot, at whatever times and by whoever, none is
  accepted if the code is not among the first five codes its own user tried (and the development bypass
  is off).
\<close>

theorem otp_five_guesses:
  assumes "requestOtp now rnd i sid a h u s = (r, s')" and "mapGet s (otpKey sid a h) = None"
    and "or_code r \<notin> set (take 5 (ownGuesses u gs))"
  shows "list_all (\<lambda>r. \<not> isOtpOk r) (guessAll False sid a h gs s')"
proof -
  have "mapGet (evictSlots s) (otpKey sid a h) = None" by (rule evictSlots_get [OF assms(2)])
  then have "mapGet s' (otpKey sid a h) = Some \<lparr>os_requestId = i, os_code = or_code r, os_userId = u, os_createdAt = now,
      os_expiresAt = now + OTP_TTL_MS, os_attempts = 0\<rparr>"
    using assms(1) by (auto simp: requestOtp_def Let_def)
  from guesses_fail [OF this, of gs] assms(3) show ?thesis by (simp add: MAX_ATTEMPTS_def)
qed

theorem otp_five_guesses_witness:
  "list_all (\<lambda>r. \<not> isOtpOk r) (guessAll False ''s'' ''a'' ''h'' [\<lparr>g_now = 5, g_code = ''x'', g_user = ''ua''\<rparr>]
      (snd (requestOtp 0 42 ''r'' ''s'' ''a'' ''h'' ''ua'' [])))"
proof (rule otp_five_guesses [OF prod.collapse [symmetric]])
  have "CHR ''x'' \<in> set (padStart 6 (CHR ''0'') ''x'')" "\<not> isDigit (CHR ''x'')"
    by (simp_all add: padStart_def isDigit_def)
  with generate6Digit_length [of 42] have "generate6Digit 42 \<noteq> padStart 6 (CHR ''0'') ''x''" by metis
  then show "or_code (fst (requestOtp 0 42 ''r'' ''s'' ''a'' ''h'' ''ua'' []))
      \<notin> set (take 5 (ownGuesses ''ua'' [\<lparr>g_now = 5, g_code = ''x'', g_user = ''ua''\<rparr>]))"
    by (simp add: requestOtp_def Let_def evictSlots_def)
qed simp

end
