(* ===== verification/Velocity.thy ===== *)
theory Velocity
  imports OneShot
begin

text \<open>
  Counters over fixed windows: the per-session velocity caps of \<open>services/velocity.ts\<close> and the per-address
  rate limiter of \<open>middleware/rate-limit.ts\<close>. Operations take the reading of \<open>Date.now()\<close> they make.
\<close>

section \<open>Velocity caps\<close>

definition PER_MINUTE_MAX :: nat where
  "PER_MINUTE_MAX = 5"

definition PER_DAY_MAX :: nat where
  "PER_DAY_MAX = 50"

definition MINUTE_MS :: int where
  "MINUTE_MS = 60 * 1000"

definition DAY_MS :: int where
  "DAY_MS = 24 * 60 * 60 * 1000"

definition VELOCITY_MAX_KEYS :: nat where
  "VELOCITY_MAX_KEYS = 10000"

record velocity_entry =
  ve_minuteSince :: int
  ve_minuteCount :: nat
  ve_daySince :: int
  ve_dayCount :: nat

type_synonym velocity_buckets = "(string, velocity_entry) jsmap"

definition velocityKey :: "string \<Rightarrow> string \<Rightarrow> string" where
  "velocityKey sid action = sid @ ''::'' @ action"

definition evictBuckets :: "velocity_buckets \<Rightarrow> velocity_buckets" where
  "evictBuckets b = (if length b \<le> VELOCITY_MAX_KEYS then b else drop (length b - VELOCITY_MAX_KEYS + 100) b)"

datatype velocity_verdict = VelAllowed | VelMinute int | VelDay int

text \<open>\<open>Math.ceil(ms / 1000)\<close>.\<close>

definition ceilSec :: "int \<Rightarrow> int" where
  "ceilSec ms = - ((- ms) div 1000)"

text \<open>The entry the attempt finds, with the windows that are over started anew.\<close>

definition rolled :: "int \<Rightarrow> velocity_entry option \<Rightarrow> velocity_entry" where
  "rolled now x =
     (let e = (case x of None \<Rightarrow> \<lparr>ve_minuteSince = now, ve_minuteCount = 0, ve_daySince = now, ve_dayCount = 0\<rparr>
               | Some e \<Rightarrow> e);
          e = (if MINUTE_MS \<le> now - ve_minuteSince e then e\<lparr>ve_minuteSince := now, ve_minuteCount := 0\<rparr> else e)
      in if DAY_MS \<le> now - ve_daySince e then e\<lparr>ve_daySince := now, ve_dayCount := 0\<rparr> else e)"

definition recordAttempt :: "int \<Rightarrow> string \<Rightarrow> string \<Rightarrow> velocity_buckets \<Rightarrow> velocity_verdict \<times> velocity_buckets" where
  "recordAttempt now sid action b =
     (let b = evictBuckets b; k = velocityKey sid action; e = rolled now (mapGet b k) in
      if PER_MINUTE_MAX \<le> ve_minuteCount e
      then (VelMinute (max 1 (ceilSec (ve_minuteSince e + MINUTE_MS - now))), mapSet b k e)
      else if PER_DAY_MAX \<le> ve_dayCount e
      then (VelDay (max 1 (ceilSec (ve_daySince e + DAY_MS - now))), mapSet b k e)
      else (VelAllowed, mapSet b k (e\<lparr>ve_minuteCount := ve_minuteCount e + 1, ve_dayCount := ve_dayCount e + 1\<rparr>)))"

text \<open>Attempts of one session at one action, at the given times; which of them were allowed.\<close>

fun attempts :: "string \<Rightarrow> string \<Rightarrow> int list \<Rightarrow> velocity_buckets \<Rightarrow> velocity_verdict list" where
  "attempts sid action [] b = []"
| "attempts sid action (t # ts) b =
     (case recordAttempt t sid action b of (v, b') \<Rightarrow> v # attempts sid action ts b')"

definition allowedIn :: "velocity_verdict list \<Rightarrow> nat" where
  "allowedIn vs = length (filter (\<lambda>v. v = VelAllowed) vs)"

lemma allowedIn_simps [simp]:
  "allowedIn [] = 0" "allowedIn (v # vs) = (if v = VelAllowed then Suc (allowedIn vs) else allowedIn vs)"
  by (simp_all add: allowedIn_def)

text \<open>As long as there is room for the key, only its own entry matters.\<close>

definition roomFor :: "string \<Rightarrow> velocity_buckets \<Rightarrow> bool" where
  "roomFor k b \<longleftrightarrow> length b \<le> VELOCITY_MAX_KEYS \<and> (length b < VELOCITY_MAX_KEYS \<or> mapHas b k)"

lemma roomFor_set: "roomFor k b \<Longrightarrow> roomFor k (mapSet b k e)"
  by (auto simp: roomFor_def length_mapSet mapHas_get)

lemma recordAttempt_room:
  assumes "roomFor (velocityKey sid action) b" and "recordAttempt now sid action b = (v, b')"
  shows "roomFor (velocityKey sid action) b'"
    and "let e = rolled now (mapGet b (velocityKey sid action)) in
      if PER_MINUTE_MAX \<le> ve_minuteCount e \<or> PER_DAY_MAX \<le> ve_dayCount e
      then v \<noteq> VelAllowed \<and> mapGet b' (velocityKey sid action) = Some e
      else v = VelAllowed \<and> mapGet b' (velocityKey sid action) =
        Some (e\<lparr>ve_minuteCount := ve_minuteCount e + 1, ve_dayCount := ve_dayCount e + 1\<rparr>)"
proof -
  have "evictBuckets b = b" using assms(1) by (simp add: evictBuckets_def roomFor_def)
  with assms show "roomFor (velocityKey sid action) b'"
    "let e = rolled now (mapGet b (velocityKey sid action)) in
      if PER_MINUTE_MAX \<le> ve_minuteCount e \<or> PER_DAY_MAX \<le> ve_dayCount e
      then v \<noteq> VelAllowed \<and> mapGet b' (velocityKey sid action) = Some e
      else v = VelAllowed \<and> mapGet b' (velocityKey sid action) =
        Some (e\<lparr>ve_minuteCount := ve_minuteCount e + 1, ve_dayCount := ve_dayCount e + 1\<rparr>)"
    by (auto simp: recordAttempt_def Let_def roomFor_set split: if_splits)
qed

text \<open>Within one window of the entry, what is left of the window's allowance bounds the attempts.\<close>

lemma attempts_window:
  assumes "roomFor (velocityKey sid action) b" and "mapGet b (velocityKey sid action) = Some e"
    and "\<forall>t \<in> set ts. t < ve_minuteSince e + MINUTE_MS"
  shows "allowedIn (attempts sid action ts b) \<le> PER_MINUTE_MAX - ve_minuteCount e"
  using assms
proof (induction ts arbitrary: b e)
  case (Cons t ts)
  obtain v b' where r: "recordAttempt t sid action b = (v, b')" by fastforce
  note room = recordAttempt_room [OF Cons.prems(1) r]
  let ?e = "rolled t (Some e)"
  have e: "ve_minuteSince ?e = ve_minuteSince e" "ve_minuteCount ?e = ve_minuteCount e"
    using Cons.prems(3) by (auto simp: rolled_def Let_def)
  have ts: "\<forall>t \<in> set ts. t < ve_minuteSince e + MINUTE_MS" using Cons.prems(3) by simp
  show ?case
  proof (cases "v = VelAllowed")
    case True
    with room(2) Cons.prems(2) have "\<not> PER_MINUTE_MAX \<le> ve_minuteCount e"
      and g: "mapGet b' (velocityKey sid action) =
        Some (?e\<lparr>ve_minuteCount := ve_minuteCount ?e + 1, ve_dayCount := ve_dayCount ?e + 1\<rparr>)"
      by (auto simp: Let_def e split: if_splits)
    with Cons.IH [OF room(1) g] ts e True r show ?thesis by simp
  next
    case False
    with room(2) Cons.prems(2) have "mapGet b' (velocityKey sid action) = Some ?e"
      by (auto simp: Let_def split: if_splits)
    from Cons.IH [OF room(1) this] ts e False r show ?thesis by simp
  qed
qed simp

lemma attempts_two_windows:
  assumes "roomFor (velocityKey sid action) b" and "sorted ts" and "\<forall>t \<in> set ts. t0 \<le> t \<and> t < t0 + MINUTE_MS"
  shows "allowedIn (attempts sid action ts b) \<le>
     (case mapGet b (velocityKey sid action) of None \<Rightarrow> PER_MINUTE_MAX
      | Some e \<Rightarrow> (PER_MINUTE_MAX - ve_minuteCount e) + PER_MINUTE_MAX)"
  using assms
proof (induction ts arbitrary: b)
  case (Cons t ts)
  obtain v b' where r: "recordAttempt t sid action b = (v, b')" by fastforce
  note room = recordAttempt_room [OF Cons.prems(1) r]
  let ?k = "velocityKey sid action"
  let ?e = "rolled t (mapGet b ?k)"
  obtain e' where e': "mapGet b' ?k = Some e'" "ve_minuteSince e' = ve_minuteSince ?e"
    "(v = VelAllowed \<and> ve_minuteCount e' = ve_minuteCount ?e + 1 \<and> ve_minuteCount ?e < PER_MINUTE_MAX)
     \<or> (v \<noteq> VelAllowed \<and> ve_minuteCount e' = ve_minuteCount ?e)"
    using room(2) by (auto simp: Let_def not_le split: if_splits)
  have later: "\<forall>u \<in> set ts. t \<le> u \<and> u < t0 + MINUTE_MS" "t0 \<le> t" using Cons.prems(2,3) by auto
  show ?case
  proof (cases "ve_minuteSince ?e = t \<and> ve_minuteCount ?e = 0")
    case True
    then have "\<forall>u \<in> set ts. u < ve_minuteSince e' + MINUTE_MS" using later e'(2) by force
    from attempts_window [OF room(1) e'(1) this] e'(3) True
    have "allowedIn (attempts sid action (t # ts) b) \<le> PER_MINUTE_MAX" using r by auto
    then show ?thesis by (auto split: option.splits)
  next
    case False
    then obtain e where e: "mapGet b ?k = Some e" "ve_minuteCount ?e = ve_minuteCount e"
      by (auto simp: rolled_def Let_def split: option.splits if_splits)
    have "allowedIn (attempts sid action ts b') \<le> (PER_MINUTE_MAX - ve_minuteCount e') + PER_MINUTE_MAX"
      using Cons.IH [OF room(1)] Cons.prems(2,3) e'(1) by simp
    then show ?thesis using e'(3) e r by auto
  qed
qed (simp split: option.splits)

section \<open>Rate limits\<close>

record rate_bucket =
  rb_count :: nat
  rb_resetAt :: int

type_synonym rate_buckets = "(string, rate_bucket) jsmap"

text \<open>\<open>None\<close> passes the request on; \<open>Some r\<close> answers 429 with \<open>Retry-After\<close> \<open>r\<close>.\<close>

definition rateLimit :: "int \<Rightarrow> nat \<Rightarrow> int \<Rightarrow> string \<Rightarrow> rate_buckets \<Rightarrow> int option \<times> rate_buckets" where
  "rateLimit windowMs maxCount now key b =
     (let bucket = (case mapGet b key of
            None \<Rightarrow> \<lparr>rb_count = 0, rb_resetAt = now + windowMs\<rparr>
          | Some x \<Rightarrow> if rb_resetAt x \<le> now then \<lparr>rb_count = 0, rb_resetAt = now + windowMs\<rparr> else x);
          bucket = bucket\<lparr>rb_count := rb_count bucket + 1\<rparr> in
      (if maxCount < rb_count bucket then Some (ceilSec (rb_resetAt bucket - now)) else None,
       mapSet b key bucket))"

definition sweepRates :: "int \<Rightarrow> rate_buckets \<Rightarrow> rate_buckets" where
  "sweepRates now b = filter (\<lambda>p. \<not> rb_resetAt (snd p) \<le> now) b"

fun requests :: "int \<Rightarrow> nat \<Rightarrow> string \<Rightarrow> int list \<Rightarrow> rate_buckets \<Rightarrow> int option list" where
  "requests w m key [] b = []"
| "requests w m key (t # ts) b = (case rateLimit w m t key b of (v, b') \<Rightarrow> v # requests w m key ts b')"

definition passedIn :: "int option list \<Rightarrow> nat" where
  "passedIn vs = length (filter (\<lambda>v. v = None) vs)"

lemma passedIn_simps [simp]:
  "passedIn [] = 0" "passedIn (v # vs) = (if v = None then Suc (passedIn vs) else passedIn vs)"
  by (simp_all add: passedIn_def)

lemma requests_window:
  assumes "mapGet b key = Some x" and "\<forall>t \<in> set ts. t < rb_resetAt x"
  shows "passedIn (requests w m key ts b) \<le> m - rb_count x"
  using assms
proof (induction ts arbitrary: b x)
  case (Cons t ts)
  then have r: "rateLimit w m t key b = (if m < rb_count x + 1 then Some (ceilSec (rb_resetAt x - t)) else None,
      mapSet b key (x\<lparr>rb_count := rb_count x + 1\<rparr>))"
    by (auto simp: rateLimit_def Let_def)
  from Cons.IH [of "mapSet b key (x\<lparr>rb_count := rb_count x + 1\<rparr>)" "x\<lparr>rb_count := rb_count x + 1\<rparr>"] Cons.prems(2)
  show ?case by (auto simp: r)
qed simp

lemma requests_two_windows:
  assumes "sorted ts" and "\<forall>t \<in> set ts. t0 \<le> t \<and> t < t0 + w"
  shows "passedIn (requests w m key ts b) \<le>
     (case mapGet b key of None \<Rightarrow> m | Some x \<Rightarrow> (m - rb_count x) + m)"
  using assms
proof (induction ts arbitrary: b)
  case (Cons t ts)
  have later: "\<forall>u \<in> set ts. t \<le> u \<and> u < t0 + w" "t0 \<le> t" using Cons.prems by auto
  show ?case
  proof (cases "mapGet b key = None \<or> (\<exists>x. mapGet b key = Some x \<and> rb_resetAt x \<le> t)")
    case True
    let ?x = "\<lparr>rb_count = 1, rb_resetAt = t + w\<rparr>"
    from True have r: "rateLimit w m t key b = (if m < 1 then Some (ceilSec w) else None, mapSet b key ?x)"
      by (auto simp: rateLimit_def Let_def)
    have "\<forall>u \<in> set ts. u < t + w" using later by force
    then have "passedIn (requests w m key ts (mapSet b key ?x)) \<le> m - 1"
      using requests_window [of "mapSet b key ?x" key ?x ts w m] by simp
    then have "passedIn (requests w m key (t # ts) b) \<le> m" by (auto simp: r)
    then show ?thesis by (auto split: option.splits)
  next
    case False
    then obtain x where x: "mapGet b key = Some x" "\<not> rb_resetAt x \<le> t" by auto
    let ?x = "x\<lparr>rb_count := rb_count x + 1\<rparr>"
    from x have r: "rateLimit w m t key b = (if m < rb_count x + 1 then Some (ceilSec (rb_resetAt x - t)) else None,
        mapSet b key ?x)"
      by (auto simp: rateLimit_def Let_def)
    from Cons.IH [of "mapSet b key ?x"] Cons.prems
    have "passedIn (requests w m key ts (mapSet b key ?x)) \<le> (m - (rb_count x + 1)) + m" by simp
    then show ?thesis using x(1) by (auto simp: r)
  qed
qed (simp split: option.splits)

section \<open>Properties\<close>

lemma ceilSec_covers: "ms \<le> 1000 * ceilSec ms"
proof -
  have "- ms = 1000 * ((- ms) div 1000) + (- ms) mod 1000" by simp
  moreover have "0 \<le> (- ms) mod 1000" by simp
  ultimately show ?thesis unfolding ceilSec_def by linarith
qed

text \<open>
  The velocity cap and the rate limiter bound what passes in any stretch of time shorter than their
  window: at most twice the cap (ten attempts a minute for the velocity cap), because fixed windows can
  meet inside the stretch; and at most the cap itself for a key that had no entry.
\<close>

theorem window_bounds:
  assumes "sorted ts" and "\<forall>t \<in> set ts. t0 \<le> t \<and> t < t0 + MINUTE_MS" and "roomFor (velocityKey sid action) b"
  shows "allowedIn (attempts sid action ts b) \<le> 10
    \<and> (mapGet b (velocityKey sid action) = None \<longrightarrow> allowedIn (attempts sid action ts b) \<le> 5)
    \<and> passedIn (requests MINUTE_MS m key ts r) \<le> 2 * m
    \<and> (mapGet r key = None \<longrightarrow> passedIn (requests MINUTE_MS m key ts r) \<le> m)"
  using attempts_two_windows [OF assms(3,1,2)] requests_two_windows [OF assms(1,2), of m key r]
  by (auto simp: PER_MINUTE_MAX_def split: option.splits)

theorem window_bounds_witness:
  "allowedIn (attempts ''s'' ''a'' [1, 2, 3] []) \<le> 5 \<and> passedIn (requests MINUTE_MS 2 ''ip'' [1, 2, 3] []) \<le> 2"
  using window_bounds [of "[1, 2, 3]" 0 "''s''" "''a''" "[]" 2 "''ip''" "[]"]
  by (simp add: MINUTE_MS_def roomFor_def VELOCITY_MAX_KEYS_def)

text \<open>
  A refusal is temporary and says for how long: after the number of seconds it names, the same session
  is not refused again for the same window.
\<close>

theorem retry_after_suffices:
  assumes "recordAttempt now sid action b = (VelMinute r, b')" and "now + 1000 * r \<le> later"
    and "roomFor (velocityKey sid action) b"
  shows "0 < r \<and> (\<forall>q. fst (recordAttempt later sid action b') \<noteq> VelMinute q)"
proof -
  let ?k = "velocityKey sid action"
  let ?e = "rolled now (mapGet b ?k)"
  have b: "evictBuckets b = b" using assms(3) by (simp add: evictBuckets_def roomFor_def)
  with assms(1) have r: "r = max 1 (ceilSec (ve_minuteSince ?e + MINUTE_MS - now))" and b': "b' = mapSet b ?k ?e"
    by (auto simp: recordAttempt_def Let_def split: if_splits)
  have "ve_minuteSince ?e + MINUTE_MS - now \<le> 1000 * r"
    using ceilSec_covers [of "ve_minuteSince ?e + MINUTE_MS - now"] unfolding r by linarith
  with assms(2) have "MINUTE_MS \<le> later - ve_minuteSince ?e" by simp
  then have "ve_minuteCount (rolled later (mapGet b' ?k)) = 0"
    by (simp add: b' rolled_def Let_def)
  moreover have "evictBuckets b' = b'"
    using roomFor_set [OF assms(3), of ?e] by (simp add: b' evictBuckets_def roomFor_def)
  ultimately show ?thesis by (auto simp: recordAttempt_def Let_def PER_MINUTE_MAX_def r)
qed

definition exVelocity :: velocity_buckets where
  "exVelocity = [(''s::a'', \<lparr>ve_minuteSince = 0, ve_minuteCount = 5, ve_daySince = 0, ve_dayCount = 5\<rparr>)]"

theorem retry_after_suffices_witness:
  "0 < (60 :: int) \<and> (\<forall>q. fst (recordAttempt 60005 ''s'' ''a'' exVelocity) \<noteq> VelMinute q)"
  by (rule retry_after_suffices [where now = 5 and b = exVelocity])
    (simp_all add: recordAttempt_def exVelocity_def velocityKey_def evictBuckets_def rolled_def Let_def MINUTE_MS_def
      DAY_MS_def PER_MINUTE_MAX_def ceilSec_def roomFor_def VELOCITY_MAX_KEYS_def)

end
