(* ===== verification/Identity.thy ===== *)
theory Identity
  imports Examples
begin

text \<open>
  Signing up, passwords and the lockout, contact details and recovery codes:
  \<open>contexts/identity/application\<close>. The bcrypt package is a parameter: \<open>bc_hash\<close> is its salted hash of a text
  at a cost (the salt stands for the randomness it draws) and \<open>bc_compare\<close> its comparison (\<open>None\<close> when it
  throws). The logins are split where the code awaits the comparison, so that requests can interleave.
\<close>

record bcrypt =
  bc_hash :: "nat \<Rightarrow> nat \<Rightarrow> string \<Rightarrow> string"
  bc_compare :: "string \<Rightarrow> string \<Rightarrow> bool option"

section \<open>Passwords\<close>

definition BCRYPT_COST :: nat where
  "BCRYPT_COST = 12"

definition MIN_LEN :: nat where
  "MIN_LEN = 10"

definition MAX_LEN :: nat where
  "MAX_LEN = 128"

definition isLineEnd :: "char \<Rightarrow> bool" where
  "isLineEnd c \<longleftrightarrow> c = CHR 0x0A \<or> c = CHR 0x0D"

text \<open>\<open>/^\$2[aby]\$\d{2}\$.{53}$/\<close>\<close>

definition isBcryptHash :: "string \<Rightarrow> bool" where
  "isBcryptHash s = matchClasses
     ([\<lambda>c. c = CHR ''$'', \<lambda>c. c = CHR ''2'', \<lambda>c. c \<in> set ''aby'', \<lambda>c. c = CHR ''$'', isDigit, isDigit, \<lambda>c. c = CHR ''$'']
      @ replicate 53 (\<lambda>c. \<not> isLineEnd c)) s"

text \<open>The reason a password is too weak; \<open>None\<close> for \<open>{ ok: true }\<close>. The argument is \<open>None\<close> when it is no string.\<close>

definition validateStrength :: "string option \<Rightarrow> string option" where
  "validateStrength pw =
     (case pw of None \<Rightarrow> Some ''Password must be a string'' | Some p \<Rightarrow>
      if length p < MIN_LEN then Some ''Password must be at least 10 chars''
      else if MAX_LEN < length p then Some ''Password must be at most 128 chars''
      else if \<not> list_ex isLower p then Some ''Password needs a lowercase letter''
      else if \<not> list_ex isUpper p then Some ''Password needs an uppercase letter''
      else if \<not> list_ex isDigit p then Some ''Password needs a digit''
      else if \<not> list_ex (\<lambda>c. \<not> (isLower c \<or> isUpper c \<or> isDigit c)) p then Some ''Password needs a symbol''
      else None)"

definition hashPassword :: "bcrypt \<Rightarrow> string \<Rightarrow> string op" where
  "hashPassword B plain =
     thn (throwIf (isBcryptHash plain) (GenericError ''hashPassword called with a bcrypt hash''))
    (bnd (draw (2 ^ 128)) (\<lambda>salt. ret (bc_hash B salt BCRYPT_COST plain)))"

definition verifyPassword :: "bcrypt \<Rightarrow> string \<Rightarrow> string \<Rightarrow> bool" where
  "verifyPassword B plain hash =
     (if hash = [] then False else if \<not> isBcryptHash hash then False
      else (case bc_compare B plain hash of None \<Rightarrow> False | Some b \<Rightarrow> b))"

section \<open>Password login\<close>

definition LOCKOUT_THRESHOLD :: int where
  "LOCKOUT_THRESHOLD = 5"

definition LOCKOUT_WINDOW_MS :: int where
  "LOCKOUT_WINDOW_MS = 15 * 60 * 1000"

datatype next_step = StepEnroll | StepAuth

text \<open>Up to the awaited comparison: the user that was read and the time.\<close>

definition loginBegin :: "string \<Rightarrow> (user \<times> int) op" where
  "loginBegin username =
     bnd (dbGet (\<lambda>d. findUserByUsername d username)) (\<lambda>x.
     bnd (need x (Idn InvalidCredentialsError)) (\<lambda>user.
     bnd clockNow (\<lambda>now.
     thn (throwIf (isLocked user now) (Idn AccountLockedError)) (ret (user, now)))))"

text \<open>After it.\<close>

definition loginEnd :: "user \<Rightarrow> int \<Rightarrow> bool \<Rightarrow> (user \<times> next_step) op" where
  "loginEnd user now ok =
     (if \<not> ok then
        (let nextCount = u_failedAttempts user + 1;
             lockedUntil = (if LOCKOUT_THRESHOLD \<le> nextCount then Some (now + LOCKOUT_WINDOW_MS) else None) in
         thn (recordFailedAttempt (u_id user) lockedUntil) (raise (Idn InvalidCredentialsError)))
      else
        thn (resetFailedAttempts (u_id user)) (ret (user, if u_passkeyEnrolled user then StepAuth else StepEnroll)))"

definition loginWithPassword :: "bcrypt \<Rightarrow> string \<Rightarrow> string \<Rightarrow> (user \<times> next_step) op" where
  "loginWithPassword B username password =
     bnd (loginBegin username) (\<lambda>(user, now). loginEnd user now (verifyPassword B password (u_passwordHash user)))"

definition changePassword :: "bcrypt \<Rightarrow> string \<Rightarrow> string \<Rightarrow> string \<Rightarrow> unit op" where
  "changePassword B userId oldPassword newPassword =
     bnd (dbGet (\<lambda>d. findUserById d userId)) (\<lambda>x.
     bnd (need x (Idn UnknownUserError)) (\<lambda>user.
     thn (throwIf (\<not> verifyPassword B oldPassword (u_passwordHash user)) (Idn InvalidCredentialsError))
    (thn (case validateStrength (Some newPassword) of None \<Rightarrow> ret () | Some r \<Rightarrow> raise (Idn (WeakPasswordError r)))
    (thn (throwIf (oldPassword = newPassword) (Idn (WeakPasswordError ''New password must differ from current password'')))
    (bnd (hashPassword B newPassword) (\<lambda>newHash. setPasswordRow (u_id user) newHash))))))"

section \<open>Signing up\<close>

definition isUsernameChar :: "char \<Rightarrow> bool" where
  "isUsernameChar c \<longleftrightarrow> isWordChar c \<or> c = CHR ''-''"

definition usernameOk :: "string \<Rightarrow> bool" where
  "usernameOk s \<longleftrightarrow> 3 \<le> length s \<and> length s \<le> 32 \<and> list_all isUsernameChar s"

text \<open>
  \<open>/^[^\s@]+@[^\s@]+\.[^\s@]+$/\<close>: exactly one \<open>@\<close>, no white space, and in the part after it a dot that is
  neither the first nor the last character.
\<close>

definition emailOk :: "string \<Rightarrow> bool" where
  "emailOk s \<longleftrightarrow>
     (let user = takeWhile (\<lambda>c. c \<noteq> CHR ''@'') s; rest = dropWhile (\<lambda>c. c \<noteq> CHR ''@'') s; host = tl rest in
      rest \<noteq> [] \<and> user \<noteq> [] \<and> CHR ''@'' \<notin> set host \<and> list_all (\<lambda>c. \<not> isSpace c) s
      \<and> CHR ''.'' \<in> set (butlast (tl host)))"

definition signupUser :: "bcrypt \<Rightarrow> string \<Rightarrow> string \<Rightarrow> string \<Rightarrow> role option \<Rightarrow> user op" where
  "signupUser B username email password r =
     thn (throwIf (\<not> usernameOk username) (GenericError ''Username must be 3-32 chars, alphanumeric / _ / -''))
    (thn (throwIf (\<not> emailOk email \<or> 254 < length email) (Idn InvalidEmailError))
    (thn (case validateStrength (Some password) of None \<Rightarrow> ret () | Some why \<Rightarrow> raise (Idn (WeakPasswordError why)))
    (bnd (dbGet (\<lambda>d. findUserByUsername d username)) (\<lambda>x.
     thn (throwIf (x \<noteq> None) (Idn UsernameTakenError))
    (bnd (hashPassword B password) (\<lambda>h.
     bnd uuid (\<lambda>i.
     bnd clockNow (\<lambda>now.
     bnd (lift (createUser i username email h (Some (case r of None \<Rightarrow> Customer | Some x \<Rightarrow> x)) (Some False) now)) (\<lambda>u.
     thn (insertUser u) (ret u))))))))))"

definition devUser :: "string \<Rightarrow> string \<Rightarrow> role \<Rightarrow> user op" where
  "devUser username h r =
     bnd uuid (\<lambda>i.
     bnd clockNow (\<lambda>now.
     bnd (lift (createUser i username (username @ ''@dev.local'') h (Some r) (Some True) now)) (\<lambda>u.
     thn (insertUser u) (ret u))))"

definition devSeedUser :: "bcrypt \<Rightarrow> string \<Rightarrow> string option \<Rightarrow> role \<Rightarrow> user op" where
  "devSeedUser B username password r =
     bnd (dbGet (\<lambda>d. findUserByUsername d username)) (\<lambda>x.
     case x of Some u \<Rightarrow> ret u | None \<Rightarrow>
     bnd (if truthy password then hashPassword B (the password) else ret []) (\<lambda>h. devUser username h r))"

definition findOrCreateUser :: "string \<Rightarrow> role \<Rightarrow> user op" where
  "findOrCreateUser username r =
     bnd (dbGet (\<lambda>d. findUserByUsername d username)) (\<lambda>x.
     case x of Some u \<Rightarrow> ret u | None \<Rightarrow> devUser username [] r)"

definition registerUser :: "string \<Rightarrow> role \<Rightarrow> user op" where
  "registerUser username r =
     bnd (dbGet (\<lambda>d. findUserByUsername d username)) (\<lambda>x.
     thn (throwIf (x \<noteq> None) (Idn UsernameTakenError)) (devUser username [] r))"

section \<open>Contact details\<close>

definition changeEmail :: "string \<Rightarrow> string \<Rightarrow> unit op" where
  "changeEmail userId email =
     (let e = toLowerCase (trim email) in
      thn (throwIf (\<not> emailOk e) (GenericError ''Invalid email'')) (setEmail userId e))"

text \<open>\<open>/^\+?[1-9]\d{9,14}$/\<close>\<close>

definition mobileOk :: "string \<Rightarrow> bool" where
  "mobileOk s \<longleftrightarrow> (let ds = (if s \<noteq> [] \<and> hd s = CHR ''+'' then tl s else s) in
     10 \<le> length ds \<and> length ds \<le> 15 \<and> list_all isDigit ds \<and> hd ds \<noteq> CHR ''0'')"

definition changeMobile :: "string \<Rightarrow> string \<Rightarrow> unit op" where
  "changeMobile userId mobile =
     (let m = trim mobile in
      thn (throwIf (\<not> mobileOk m) (GenericError ''Invalid mobile number'')) (setMobile userId (Some m)))"

section \<open>Recovery codes\<close>

definition RECOVERY_TTL_MS :: int where
  "RECOVERY_TTL_MS = 24 * 60 * 60 * 1000"

definition ALPHABET :: string where
  "ALPHABET = ''ABCDEFGHJKLMNPQRSTUVWXYZ23456789''"

text \<open>Twelve random bytes pick twelve symbols.\<close>

definition codeOf :: "nat \<Rightarrow> string" where
  "codeOf r = (let out = map (\<lambda>i. ALPHABET ! ((r div 256 ^ i) mod 256 mod 32)) [0..<12] in
     take 4 out @ ''-'' @ take 4 (drop 4 out) @ ''-'' @ drop 8 out)"

definition generateCode :: "string op" where
  "generateCode = bnd (draw (256 ^ 12)) (\<lambda>r. ret (codeOf r))"

definition issueRecoveryCode :: "bcrypt \<Rightarrow> bus option \<Rightarrow> string \<Rightarrow> string \<Rightarrow> (string \<times> recovery_code) op" where
  "issueRecoveryCode B bus userId adminUserId =
     bnd (dbGet (\<lambda>d. findUserById d userId)) (\<lambda>x.
     bnd (need x (GenericError ''User not found'')) (\<lambda>user.
     bnd generateCode (\<lambda>plain.
     bnd (draw (2 ^ 128)) (\<lambda>salt.
     bnd clockNow (\<lambda>issuedAt.
     bnd uuid (\<lambda>i.
     (let rc = \<lparr>rc_id = i, rc_userId = u_id user, rc_codeHash = bc_hash B salt 10 plain, rc_issuedAt = issuedAt,
                 rc_issuedByAdminId = Some adminUserId, rc_expiresAt = issuedAt + RECOVERY_TTL_MS,
                 rc_consumedAt = None, rc_purpose = PasskeyAdd\<rparr> in
      thn (insertRecoveryCode rc)
     (thn (case bus of None \<Rightarrow> ret () | Some publish \<Rightarrow> publish [IdentityEv
              (RecoveryCodeIssued (u_id user) (u_username user) i adminUserId (rc_expiresAt rc) issuedAt)])
          (ret (plain, rc))))))))))"

text \<open>The first active code of the user that matches; a comparison that throws stops the loop.\<close>

fun matchCode :: "bcrypt \<Rightarrow> string \<Rightarrow> recovery_code list \<Rightarrow> error + recovery_code option" where
  "matchCode B code [] = Inr None"
| "matchCode B code (c # cs) =
     (case bc_compare B code (rc_codeHash c) of
        None \<Rightarrow> Inl (GenericError ''bcrypt'')
      | Some ok \<Rightarrow> andThen (matchCode B code cs) (\<lambda>m. Inr (if ok then Some c else m)))"

definition consumeRecoveryCode :: "bcrypt \<Rightarrow> bus option \<Rightarrow> string \<Rightarrow> string \<Rightarrow> recovery_code option op" where
  "consumeRecoveryCode B bus userId code =
     bnd clockNow (\<lambda>now.
     bnd (dbGet (\<lambda>d. filter (\<lambda>c. rc_purpose c = PasskeyAdd) (listActiveRecoveryCodes d userId now))) (\<lambda>candidates.
     bnd (lift (matchCode B code candidates)) (\<lambda>m.
     case m of None \<Rightarrow> ret None
     | Some c \<Rightarrow>
         thn (markConsumed (rc_id c) now)
        (thn (case bus of None \<Rightarrow> ret () | Some publish \<Rightarrow> publish [IdentityEv
                (RecoveryCodeConsumed (rc_userId c) (rc_id c) now)])
             (ret (Some (c\<lparr>rc_consumedAt := Some now\<rparr>)))))))"

section \<open>The lockout\<close>

lemma findUserByUsername_update:
  "findUserByUsername d n = Some u \<Longrightarrow> (\<And>r. u_username (f r) = u_username r) \<Longrightarrow>
   findUserByUsername (d\<lparr>db_users := updateWhere (\<lambda>r. u_id r = u_id u) f (db_users d)\<rparr>) n = Some (f u)"
proof -
  assume n: "findUserByUsername d n = Some u" and f: "\<And>r. u_username (f r) = u_username r"
  have "List.find (\<lambda>r. u_username r = n) xs = Some u \<Longrightarrow>
    List.find (\<lambda>r. u_username r = n) (updateWhere (\<lambda>r. u_id r = u_id u) f xs) = Some (f u)" for xs
    by (induction xs) (auto simp: updateWhere_def f split: if_splits)
  then show ?thesis using n by (simp add: findUserByUsername_def)
qed

definition nowOf :: "world \<Rightarrow> int" where
  "nowOf w = w_clock w (w_clockN w)"

lemma loginBegin_run:
  "loginBegin n s = (case findUserByUsername (w_db s) n of
       None \<Rightarrow> (Inl (Idn InvalidCredentialsError), s)
     | Some u \<Rightarrow> (let s' = s\<lparr>w_clockN := Suc (w_clockN s)\<rparr> in
         if isLocked u (nowOf s) then (Inl (Idn AccountLockedError), s') else (Inr (u, nowOf s), s')))"
  by (simp add: loginBegin_def dbGet_def bnd_def gets_def need_def ret_def raise_def clockNow_def throwIf_def nowOf_def
      Let_def split: option.splits)

lemma loginEnd_wrong:
  "loginEnd u now False s = (Inl (Idn InvalidCredentialsError), s\<lparr>w_db := (w_db s)\<lparr>db_users :=
     updateWhere (\<lambda>r. u_id r = u_id u) (\<lambda>r. r\<lparr>u_failedAttempts := u_failedAttempts r + 1,
       u_lockedUntil := if LOCKOUT_THRESHOLD \<le> u_failedAttempts u + 1 then Some (now + LOCKOUT_WINDOW_MS) else None\<rparr>)
       (db_users (w_db s))\<rparr>\<rparr>)"
  by (simp add: loginEnd_def recordFailedAttempt_def updateUserWhere_def dbMod_def bnd_def modify_def raise_def Let_def)

text \<open>A sequence of password logins for one name, one after the other.\<close>

fun loginRun :: "bcrypt \<Rightarrow> string \<Rightarrow> string list \<Rightarrow> world \<Rightarrow> (error + user \<times> next_step) list \<times> world" where
  "loginRun B n [] s = ([], s)"
| "loginRun B n (p # ps) s = (case loginWithPassword B n p s of (r, s1) \<Rightarrow>
     (case loginRun B n ps s1 of (rs, s2) \<Rightarrow> (r # rs, s2)))"

definition afterMiss :: "int \<Rightarrow> user \<Rightarrow> user" where
  "afterMiss now u = u\<lparr>u_failedAttempts := u_failedAttempts u + 1,
     u_lockedUntil := if LOCKOUT_THRESHOLD \<le> u_failedAttempts u + 1 then Some (now + LOCKOUT_WINDOW_MS) else None\<rparr>"

lemma login_miss:
  assumes "findUserByUsername (w_db s) n = Some u" and "\<not> isLocked u (nowOf s)"
    and "\<not> verifyPassword B p (u_passwordHash u)"
  shows "\<exists>s'. loginWithPassword B n p s = (Inl (Idn InvalidCredentialsError), s')
           \<and> findUserByUsername (w_db s') n = Some (afterMiss (nowOf s) u)
           \<and> w_clock s' = w_clock s \<and> w_clockN s' = Suc (w_clockN s)"
  using assms by (simp add: loginWithPassword_def bnd_def loginBegin_run loginEnd_wrong Let_def afterMiss_def
      findUserByUsername_update)

lemma loginRun_misses:
  assumes "findUserByUsername (w_db s) n = Some u" and "u_accountStatus u \<noteq> UserLocked" and "u_lockedUntil u = None"
    and "u_failedAttempts u + int (length ps) = LOCKOUT_THRESHOLD" and "ps \<noteq> []"
    and "\<forall>p \<in> set ps. \<not> verifyPassword B p (u_passwordHash u)"
  shows "fst (loginRun B n ps s) = replicate (length ps) (Inl (Idn InvalidCredentialsError))
         \<and> (\<exists>v. findUserByUsername (w_db (snd (loginRun B n ps s))) n = Some v
              \<and> u_lockedUntil v = Some (w_clock s (w_clockN s + (length ps - 1)) + LOCKOUT_WINDOW_MS))"
  using assms
proof (induction ps arbitrary: s u)
  case (Cons p ps)
  have free: "\<not> isLocked u (nowOf s)" using Cons.prems by (simp add: isLocked_def)
  obtain s' where s': "loginWithPassword B n p s = (Inl (Idn InvalidCredentialsError), s')"
      "findUserByUsername (w_db s') n = Some (afterMiss (nowOf s) u)" "w_clock s' = w_clock s"
      "w_clockN s' = Suc (w_clockN s)"
    using login_miss [OF Cons.prems(1) free, of B p] Cons.prems(6) by auto
  show ?case
  proof (cases "ps = []")
    case True
    with s' Cons.prems show ?thesis by (simp add: afterMiss_def nowOf_def)
  next
    case False
    with Cons.prems have "u_failedAttempts u + 1 < LOCKOUT_THRESHOLD" by (cases ps) simp_all
    then have "u_lockedUntil (afterMiss (nowOf s) u) = None"
        "u_failedAttempts (afterMiss (nowOf s) u) = u_failedAttempts u + 1"
        "u_accountStatus (afterMiss (nowOf s) u) = u_accountStatus u"
        "u_passwordHash (afterMiss (nowOf s) u) = u_passwordHash u"
      by (simp_all add: afterMiss_def)
    with Cons.IH [OF s'(2)] Cons.prems False s'(3,4)
    have rest: "fst (loginRun B n ps s') = replicate (length ps) (Inl (Idn InvalidCredentialsError))
         \<and> (\<exists>v. findUserByUsername (w_db (snd (loginRun B n ps s'))) n = Some v
              \<and> u_lockedUntil v = Some (w_clock s (Suc (w_clockN s) + (length ps - 1)) + LOCKOUT_WINDOW_MS))"
      by simp
    have "Suc (w_clockN s) + (length ps - 1) = w_clockN s + length ps" using False by (cases ps) simp_all
    from rest [unfolded this] show ?thesis using s'(1) by (auto simp: case_prod_unfold)
  qed
qed simp

lemma login_locked:
  assumes "findUserByUsername (w_db s) n = Some v" and "u_lockedUntil v = Some t" and "nowOf s < t"
  shows "fst (loginWithPassword B n p s) = Inl (Idn AccountLockedError)"
  using assms by (simp add: loginWithPassword_def bnd_def loginBegin_run Let_def isLocked_def)

text \<open>
  C32: five misses lock a user. From a row that is not locked, as many wrong passwords in a row as bring the
  count to five are all answered with invalid credentials; from then on every login under that name is
  refused as locked, with the right password too, while the clock is within fifteen minutes of the last miss
  and nothing has unlocked the row.
\<close>

theorem five_misses_lock:
  assumes "findUserByUsername (w_db s) n = Some u" and "u_accountStatus u \<noteq> UserLocked" and "u_lockedUntil u = None"
    and "u_failedAttempts u + int (length ps) = 5" and "ps \<noteq> []"
    and "\<forall>p \<in> set ps. \<not> verifyPassword B p (u_passwordHash u)"
    and "findUserByUsername (w_db s') n = findUserByUsername (w_db (snd (loginRun B n ps s))) n"
    and "w_clock s' (w_clockN s') < w_clock s (w_clockN s + (length ps - 1)) + 15 * 60 * 1000"
  shows "fst (loginRun B n ps s) = replicate (length ps) (Inl (Idn InvalidCredentialsError))
         \<and> fst (loginWithPassword B n p s') = Inl (Idn AccountLockedError)"
proof -
  have j: "u_failedAttempts u + int (length ps) = LOCKOUT_THRESHOLD" using assms(4) by (simp add: LOCKOUT_THRESHOLD_def)
  obtain v where "findUserByUsername (w_db s') n = Some v"
      "u_lockedUntil v = Some (w_clock s (w_clockN s + (length ps - 1)) + LOCKOUT_WINDOW_MS)"
    using loginRun_misses [OF assms(1-3) j assms(5,6)] assms(7) by auto
  from login_locked [OF this] assms(8) loginRun_misses [OF assms(1-3) j assms(5,6)] show ?thesis
    by (simp add: nowOf_def LOCKOUT_WINDOW_MS_def)
qed

text \<open>Alice's stored hash is no bcrypt hash, so that no password verifies against it.\<close>

definition exBcrypt :: bcrypt where
  "exBcrypt = \<lparr>bc_hash = (\<lambda>salt cost p. p), bc_compare = (\<lambda>p h. Some (p = h))\<rparr>"

lemma exVerify [simp]: "\<not> verifyPassword B p ''h''"
  by (simp add: verifyPassword_def isBcryptHash_def matchClasses_def)

theorem five_misses_lock_witness:
  "fst (loginRun exBcrypt ''alice'' [''1'', ''2'', ''3'', ''4'', ''5''] (exWorld exDb))
     = replicate 5 (Inl (Idn InvalidCredentialsError))
   \<and> fst (loginWithPassword exBcrypt ''alice'' ''h''
         (snd (loginRun exBcrypt ''alice'' [''1'', ''2'', ''3'', ''4'', ''5''] (exWorld exDb))))
       = Inl (Idn AccountLockedError)"
proof -
  let ?ps = "[''1'', ''2'', ''3'', ''4'', ''5'']"
  let ?s' = "snd (loginRun exBcrypt ''alice'' ?ps (exWorld exDb))"
  have u: "findUserByUsername (w_db (exWorld exDb)) ''alice'' = Some (exUser ''ua'' ''alice'')"
    by (simp add: findUserByUsername_def exDb_def exUser_def)
  have c: "w_clock ?s' (w_clockN ?s') < w_clock (exWorld exDb) (w_clockN (exWorld exDb) + (length ?ps - 1)) + 15 * 60 * 1000"
    by (simp add: loginWithPassword_def bnd_def loginBegin_run loginEnd_wrong Let_def findUserByUsername_def exDb_def
        exUser_def exWorld_def updateWhere_def isLocked_def LOCKOUT_THRESHOLD_def nowOf_def)
  have "fst (loginRun exBcrypt ''alice'' ?ps (exWorld exDb)) = replicate (length ?ps) (Inl (Idn InvalidCredentialsError))
    \<and> fst (loginWithPassword exBcrypt ''alice'' ''h'' ?s') = Inl (Idn AccountLockedError)"
    by (rule five_misses_lock [OF u _ _ _ _ _ refl c]) (simp_all add: exUser_def)
  moreover have "length ?ps = 5" by simp
  ultimately show ?thesis by (simp only:)
qed

section \<open>The lockout when requests interleave\<close>

text \<open>
  Requests that all read the row before any of them has finished its comparison: each of them writes the
  lock that follows from the count it read, so any number of misses leaves the row unlocked, and such a
  request removes a lock that another has just set.
\<close>

fun endAll :: "(user \<times> int) list \<Rightarrow> world \<Rightarrow> world" where
  "endAll [] s = s"
| "endAll ((u, now) # xs) s = endAll xs (snd (loginEnd u now False s))"

theorem interleaved_misses_never_lock:
  assumes "findUserByUsername (w_db s) n = Some v" and "u_id v = u_id u" and "u_lockedUntil v = None"
    and "u_failedAttempts u = 0" and "\<forall>x \<in> set xs. fst x = u"
  shows "\<exists>v'. findUserByUsername (w_db (endAll xs s)) n = Some v' \<and> u_lockedUntil v' = None
              \<and> u_failedAttempts v' = u_failedAttempts v + int (length xs)"
  using assms
proof (induction xs arbitrary: s v)
  case (Cons x xs)
  obtain now where x: "x = (u, now)" using Cons.prems(5) by (cases x) auto
  let ?s = "snd (loginEnd u now False s)"
  let ?v = "v\<lparr>u_failedAttempts := u_failedAttempts v + 1, u_lockedUntil := None\<rparr>"
  have "findUserByUsername (w_db ?s) n = Some ?v"
    using findUserByUsername_update [OF Cons.prems(1), where
        f = "\<lambda>r. r\<lparr>u_failedAttempts := u_failedAttempts r + 1, u_lockedUntil := None\<rparr>"] Cons.prems(2,4)
    by (simp add: loginEnd_wrong LOCKOUT_THRESHOLD_def)
  from Cons.IH [OF this] Cons.prems x show ?case by auto
qed simp

section \<open>Recovery codes are used once\<close>

definition spentCode :: "db \<Rightarrow> string \<Rightarrow> bool" where
  "spentCode d i \<longleftrightarrow> i \<in> rc_id ` set (db_recovery d)
     \<and> (\<forall>c \<in> set (db_recovery d). rc_id c = i \<longrightarrow> rc_consumedAt c \<noteq> None)"

lemma spentCode_quiet: "bankView d' = bankView d \<Longrightarrow> spentCode d i \<Longrightarrow> spentCode d' i"
  using bankViewD(17) [of d' d] by (simp add: spentCode_def)

lemma spentCode_insert:
  "spentCode d i \<Longrightarrow> rc_id c \<notin> rc_id ` set (db_recovery d) \<Longrightarrow>
   spentCode (d\<lparr>db_recovery := db_recovery d @ [c]\<rparr>) i"
  by (auto simp: spentCode_def)

lemma spentCode_mark:
  assumes "spentCode d i \<or> (i = j \<and> j \<in> rc_id ` set (db_recovery d))"
  shows "spentCode (d\<lparr>db_recovery := updateWhere (\<lambda>c. rc_id c = j) (\<lambda>c. c\<lparr>rc_consumedAt := Some t\<rparr>) (db_recovery d)\<rparr>) i"
proof -
  let ?cs = "updateWhere (\<lambda>c. rc_id c = j) (\<lambda>c. c\<lparr>rc_consumedAt := Some t\<rparr>) (db_recovery d)"
  have ids: "rc_id ` set (updateWhere (\<lambda>c. rc_id c = j) (\<lambda>c. c\<lparr>rc_consumedAt := Some t\<rparr>) cs) = rc_id ` set cs" for cs
    by (induction cs) (simp_all add: updateWhere_def)
  from assms have "i \<in> rc_id ` set (db_recovery d)" by (auto simp: spentCode_def)
  then have "i \<in> rc_id ` set ?cs" by (simp only: ids)
  moreover have "\<forall>c \<in> set ?cs. rc_id c = i \<longrightarrow> rc_consumedAt c \<noteq> None"
    using assms by (auto simp: spentCode_def updateWhere_def)
  ultimately show ?thesis by (simp add: spentCode_def)
qed

lemma active_not_spent: "c \<in> set (db_recovery d) \<Longrightarrow> rc_consumedAt c = None \<Longrightarrow> \<not> spentCode d (rc_id c)"
  by (auto simp: spentCode_def)

lemma matchCode_mem: "matchCode B code cs = Inr (Some c) \<Longrightarrow> c \<in> set cs"
  by (induction cs) (auto simp: andThen_Inr_iff split: option.splits if_splits)

lemma listActive_mem: "c \<in> set (listActiveRecoveryCodes d u now) \<Longrightarrow> c \<in> set (db_recovery d) \<and> rc_consumedAt c = None"
  by (auto simp: listActiveRecoveryCodes_def)

lemma accepted_active:
  "matchCode B p (filter (\<lambda>c. rc_purpose c = PasskeyAdd) (listActiveRecoveryCodes d u now)) = Inr (Some c) \<Longrightarrow>
   c \<in> set (db_recovery d) \<and> rc_consumedAt c = None"
  using listActive_mem [of c d u now] matchCode_mem [of B p "filter (\<lambda>c. rc_purpose c = PasskeyAdd) (listActiveRecoveryCodes d u now)" c]
  by auto

context event_bus begin

lemma issueRecoveryCode_wp:
  assumes "spentCode (w_db w) i"
  shows "wp (issueRecoveryCode B (Some publish) u a) (\<lambda>_ w'. spentCode (w_db w') i) (\<lambda>_ w'. spentCode (w_db w') i) w"
  apply (simp add: issueRecoveryCode_def generateCode_def wp_rules insertRecoveryCode_def Let_def assms split: option.split)
  apply (intro allI impI conjI wp_publish)
   apply (auto simp: isKycApproved_def wp_rules intro: spentCode_quiet [OF _ spentCode_insert [OF assms]])
  done

lemma consumeRecoveryCode_wp:
  "wp (consumeRecoveryCode B (Some publish) u p)
     (\<lambda>r w'. (\<forall>i. spentCode (w_db w) i \<longrightarrow> spentCode (w_db w') i)
        \<and> (\<forall>c. r = Some c \<longrightarrow> spentCode (w_db w') (rc_id c) \<and> \<not> spentCode (w_db w) (rc_id c)))
     (\<lambda>_ w'. \<forall>i. spentCode (w_db w) i \<longrightarrow> spentCode (w_db w') i) w"
  apply (simp add: consumeRecoveryCode_def wp_rules markConsumed_def split: option.split sum.split)
  apply (intro allI impI conjI wp_publish)
    apply (simp add: isKycApproved_def)
  subgoal for m c x w'
    using accepted_active [of B p "w_db w" u _ c] active_not_spent [of c "w_db w"]
    by (auto simp: wp_rules intro: spentCode_quiet [OF _ spentCode_mark])
  subgoal for m c x w'
    by (auto intro: spentCode_quiet [OF _ spentCode_mark])
  done

end

datatype recovery_op = RecIssue string string | RecUse string string

text \<open>The identifiers of the codes that were accepted in a run of requests.\<close>

fun recoveryRun :: "bcrypt \<Rightarrow> (string \<Rightarrow> string) \<Rightarrow> recovery_op list \<Rightarrow> world \<Rightarrow> string list" where
  "recoveryRun B sha [] w = []"
| "recoveryRun B sha (RecIssue u a # ops) w =
     recoveryRun B sha ops (snd (issueRecoveryCode B (Some (containerPublish sha)) u a w))"
| "recoveryRun B sha (RecUse u p # ops) w =
     (case consumeRecoveryCode B (Some (containerPublish sha)) u p w of
        (Inr (Some c), w') \<Rightarrow> rc_id c # recoveryRun B sha ops w'
      | (_, w') \<Rightarrow> recoveryRun B sha ops w')"

lemma recoveryRun_fresh: "spentCode (w_db w) i \<Longrightarrow> i \<notin> set (recoveryRun B sha ops w)"
proof (induction ops arbitrary: w)
  case (Cons x ops)
  show ?case
  proof (cases x)
    case (RecIssue u a)
    with Cons wp_sndD [OF container_bus.issueRecoveryCode_wp [OF Cons.prems]] show ?thesis by simp
  next
    case (RecUse u p)
    with Cons container_bus.consumeRecoveryCode_wp [of B sha u p w] show ?thesis
      by (auto simp: wp_def split: prod.splits sum.splits option.splits)
  qed
qed simp

text \<open>
  C33: A recovery code is accepted at most once: in any run of issuing and presenting codes, for any users,
  with the container's subscribers running, no identifier is accepted twice.
\<close>

theorem recovery_code_once: "distinct (recoveryRun B sha ops w)"
proof (induction ops arbitrary: w)
  case (Cons x ops)
  show ?case
  proof (cases x)
    case (RecUse u p)
    with Cons container_bus.consumeRecoveryCode_wp [of B sha u p w] show ?thesis
      by (auto simp: wp_def recoveryRun_fresh split: prod.splits sum.splits option.splits)
  qed (simp add: Cons)
qed simp

end
