(* ===== verification/AuditTrail.thy ===== *)
theory AuditTrail
  imports Transfers Examples
begin

text \<open>
  The audit table as an append-only log. Abstractly the log is the chronological list of entries; whatever
  is published, the table only grows at its end, and the walk over the hash chain stops at no entry but one whose
  text was not stored as it was hashed.
\<close>

section \<open>Growing\<close>

definition grownFrom :: "(string \<Rightarrow> string) \<Rightarrow> db \<Rightarrow> world \<Rightarrow> bool" where
  "grownFrom sha d0 w \<longleftrightarrow> auditOk sha (w_db w) \<and> (\<exists>new. db_audit (w_db w) = db_audit d0 @ new)"

named_theorems grows_rules \<open>programs under which the audit table only grows\<close>

lemma grows_leaves: "leaves db_audit m \<Longrightarrow> keeps (grownFrom sha d0) m"
  by (rule keepsI, erule leaves_wp) (auto simp: grownFrom_def auditOk_def)

lemmas keeps_intros [grows_rules] = keeps_bnd keeps_forEach keeps_tryCatch keeps_if keeps_basic

lemma keeps_option [grows_rules]:
  "keeps I m \<Longrightarrow> (\<And>x. keeps I (f x)) \<Longrightarrow> keeps I (case y of None \<Rightarrow> m | Some x \<Rightarrow> f x)"
  by (cases y) auto

lemma grows_recordAudit [grows_rules]: "keeps (grownFrom sha d0) (recordAudit sha inp)"
proof (rule keepsI)
  fix w assume g: "grownFrom sha d0 w"
  then have "auditOk sha (w_db w)" by (simp add: grownFrom_def)
  from recordAudit_extends [OF this] show "wp (recordAudit sha inp) (\<lambda>_. grownFrom sha d0) (\<lambda>_. grownFrom sha d0) w"
    by (rule wp_mono) (use g in \<open>auto simp: grownFrom_def\<close>)
qed

lemma grows_auditSubscriber [grows_rules]: "keeps (grownFrom sha d0) (auditSubscriber sha e)"
  unfolding auditSubscriber_def by (intro grows_rules)

lemma audit_emitNotification [leaves_rules]: "leaves db_audit (emitNotification u k t b et ei)"
  unfolding emitNotification_def insertNotification_def Let_def by (intro leaves_rules) simp_all

lemma audit_notifyHolder [leaves_rules]: "leaves db_audit (notifyHolder a k t b i)"
  unfolding notifyHolder_def by (intro leaves_rules)

lemma audit_onMoneyMoved [leaves_rules]: "leaves db_audit (onMoneyMoved t n)"
  unfolding onMoneyMoved_def Let_def by (intro leaves_rules)

lemma audit_freshNumber: "leaves db_audit freshAccountNumber"
  by (rule leavesI_wp) (simp add: wp_rules split: option.splits)

lemma audit_insertAccount: "leaves db_audit (insertAccount a)"
  unfolding insertAccount_def by (intro leaves_rules) (simp add: accountInsertRow_def)

lemma grows_quiet [grows_rules]:
  "keeps (grownFrom sha d0) (emitNotification u k t b et ei)" "keeps (grownFrom sha d0) (onMoneyMoved i n)"
  "keeps (grownFrom sha d0) (noteEvent e)" "keeps (grownFrom sha d0) freshAccountNumber"
  "keeps (grownFrom sha d0) (insertAccount a)" "keeps (grownFrom sha d0) clockNow" "keeps (grownFrom sha d0) uuid"
  "keeps (grownFrom sha d0) (dbGet f)"
  by (intro grows_leaves leaves_rules audit_freshNumber audit_insertAccount)+

lemma grows_busPublish:
  assumes "\<And>e h. h \<in> set (handlers e) \<Longrightarrow> keeps (grownFrom sha d0) (h e)"
    and "\<And>e h. h \<in> set wildcards \<Longrightarrow> keeps (grownFrom sha d0) (h e)"
  shows "keeps (grownFrom sha d0) (busPublish handlers wildcards evs)"
  unfolding busPublish_def using assms by (auto intro!: grows_rules)

lemma grows_inner [grows_rules]: "keeps (grownFrom sha d0) (innerPublish sha evs)"
  unfolding innerPublish_def by (rule grows_busPublish) (auto intro: grows_rules)

lemma grows_createAccount [grows_rules]: "keeps (grownFrom sha d0) (createAccountForUser (innerPublish sha) u ty)"
  unfolding createAccountForUser_def publishOpened_def Let_def by (intro grows_rules)

lemma grows_handlers: "h \<in> set (containerHandlers (innerPublish sha) e) \<Longrightarrow> keeps (grownFrom sha d0) h"
proof (cases e)
  case (KycEv k)
  moreover assume "h \<in> set (containerHandlers (innerPublish sha) e)"
  ultimately show ?thesis
    by (cases k) (auto simp: onKycApproved_def onKycRejected_def intro!: grows_rules)
next
  case (CardEv c)
  moreover assume "h \<in> set (containerHandlers (innerPublish sha) e)"
  ultimately show ?thesis by (cases c) (auto intro!: grows_rules)
next
  case (SiEv c)
  moreover assume "h \<in> set (containerHandlers (innerPublish sha) e)"
  ultimately show ?thesis by (cases c) (auto intro!: grows_rules)
next
  case (IdentityEv c)
  moreover assume "h \<in> set (containerHandlers (innerPublish sha) e)"
  ultimately show ?thesis by (cases c) (auto intro!: grows_rules)
qed (auto intro!: grows_rules)

lemma grows_publish [grows_rules]: "keeps (grownFrom sha d0) (containerPublish sha evs)"
  unfolding containerPublish_def by (rule grows_busPublish) (auto intro: grows_handlers grows_rules)

section \<open>Properties\<close>

text \<open>The audit log of an abstract observer: the entries in the order they were made.\<close>

definition auditTrail :: "world \<Rightarrow> audit_entry list" where
  "auditTrail w = listAllChronological (w_db w)"

lemma auditTrail_eq: "auditOk sha (w_db w) \<Longrightarrow> auditTrail w = db_audit (w_db w)"
  unfolding auditTrail_def by (rule auditOk_chronological)

lemma auditTrail_breaks:
  assumes "auditOk sha (w_db w)" and "verifyChain sha (auditTrail w) = ChainBroken i q r"
  shows "r = ''hash mismatch'' \<and> (\<exists>e \<in> set (auditTrail w). au_id e = i \<and> au_seq e = q \<and> mended e)"
proof -
  have "linkedFrom sha None (auditTrail w)" using assms(1) auditTrail_eq [OF assms(1)] by (simp add: auditOk_def)
  from linked_breaks [OF this assms(2) [unfolded verifyChain_def]] show ?thesis .
qed

text \<open>
  C16: Altering an entry that is not the last one, its hash recomputed or not, is noticed by the walk, unless the
  altered entry collides with the original under the digest: two chains that differ in one entry only and
  both verify carry the same digest there.
\<close>

theorem audit_tamper_evident:
  assumes "isChainOk (verifyChain sha (xs @ e # f # ys))" and "isChainOk (verifyChain sha (xs @ e' # f # ys))"
  shows "sha (canonicalize e') = sha (canonicalize e) \<and> au_hash e' = au_hash e"
  using assms unfolding verifyChain_def by (rule verify_tampered)

text \<open>Under a digest with one value only, an altered entry does collide, and nothing else is hidden.\<close>

definition exEntry :: "string \<Rightarrow> string option \<Rightarrow> audit_entry" where
  "exEntry action prev = (auditDraft (map_option (\<lambda>h. (h, 1)) prev)
       \<lparr>ai_action = action, ai_category = None, ai_actorUserId = None, ai_actorUsername = None, ai_actorRole = None,
        ai_sessionId = None, ai_target = None, ai_status = AuditSuccess, ai_errorCode = None, ai_summary = ''s'',
        ai_payload = None, ai_requestId = None, ai_ip = None, ai_userAgent = None, ai_occurredAt = None\<rparr> 0 ''i'')
       \<lparr>au_hash := ''d''\<rparr>"

theorem audit_tamper_evident_witness:
  "exEntry ''b'' None \<noteq> exEntry ''a'' None
   \<and> (\<lambda>_ :: string. ''d'') (canonicalize (exEntry ''b'' None)) = (\<lambda>_. ''d'') (canonicalize (exEntry ''a'' None))
   \<and> au_hash (exEntry ''b'' None) = au_hash (exEntry ''a'' None)"
proof -
  have chain: "isChainOk (verifyChain (\<lambda>_. ''d'') ([] @ exEntry c None # exEntry ''c'' (Some ''d'') # []))" for c
    by (simp add: verifyChain_def isChainOk_def exEntry_def hashEntry_def)
  have "au_action (exEntry ''b'' None) \<noteq> au_action (exEntry ''a'' None)"
    by (simp add: exEntry_def auditDraft_def)
  then have "exEntry ''b'' None \<noteq> exEntry ''a'' None" by auto
  with audit_tamper_evident [OF chain [of "''a''"] chain [of "''b''"]] show ?thesis by simp
qed

lemma recordAudit_hashed: "wp (recordAudit sha inp) (\<lambda>e _. sha (canonicalize e) = au_hash e) (\<lambda>_ _. True) w"
  by (cases "ai_occurredAt inp") (simp_all add: recordAudit_def insertAudit_def wp_rules Let_def hashEntry_def)

text \<open>
  C39: An entry whose text can not be stored as it was hashed breaks the chain: when storing it changes the
  canonical form so that the digest is another one (a lone surrogate in the user name of a failed login does), the
  walk over a chain that was intact before reports that entry.
\<close>

theorem unstorable_entry_breaks_chain:
  assumes "auditOk sha (w_db w)" and "isChainOk (verifyChain sha (auditTrail w))"
    and "recordAudit sha inp w = (Inr e, w')"
    and "sha (canonicalize (storedEntry e)) \<noteq> sha (canonicalize e)" and "storedText (au_hash e) = au_hash e"
  shows "verifyChain sha (auditTrail w') = ChainBroken (au_id (storedEntry e)) (au_seq e) ''hash mismatch''"
proof -
  from wp_okD [OF recordAudit_extends [OF assms(1)] assms(3)]
  have d: "db_audit (w_db w') = db_audit (w_db w) @ [storedEntry e]" and ok: "auditOk sha (w_db w')" by auto
  obtain m where m: "verifyFrom sha None 0 (db_audit (w_db w)) = ChainOk m"
    using assms(2) auditTrail_eq [OF assms(1)]
    by (cases "verifyFrom sha None 0 (db_audit (w_db w))") (simp_all add: isChainOk_def verifyChain_def)
  have link: "au_prevHash (storedEntry e) = lastHash None (db_audit (w_db w))"
    using ok by (simp add: auditOk_def d linkedFrom_append)
  have "sha (canonicalize e) = au_hash (storedEntry e)"
    using wp_okD [OF recordAudit_hashed assms(3)] assms(5) by (simp add: storedEntry_def)
  with assms(4) m link show ?thesis
    by (simp add: auditTrail_eq [OF ok] d verifyChain_def verifyFrom_append hashEntry_def) (simp add: storedEntry_def)
qed

text \<open>The example: the attempted user name of a failed login is a lone surrogate, U+D800.\<close>

definition exSurrogate :: audit_input where
  "exSurrogate = \<lparr>ai_action = ''login.failed'', ai_category = None, ai_actorUserId = None,
     ai_actorUsername = Some [CHR 0xED, CHR 0xA0, CHR 0x80], ai_actorRole = None, ai_sessionId = None, ai_target = None,
     ai_status = AuditFailure, ai_errorCode = None, ai_summary = ''s'', ai_payload = None, ai_requestId = None,
     ai_ip = None, ai_userAgent = None, ai_occurredAt = Some 0\<rparr>"

definition exHashed :: audit_entry where
  "exHashed = (auditDraft None exSurrogate 0 ''u0'')\<lparr>au_hash := ''a''\<rparr>"

text \<open>A digest that tells the entry from all others.\<close>

definition exDigest :: "string \<Rightarrow> string" where
  "exDigest s = (if s = canonicalize exHashed then ''a'' else ''b'')"

lemma exHashed_stored:
  "storedEntry exHashed = exHashed\<lparr>au_actorUsername := Some REPLACEMENT\<rparr>"
  by (simp add: storedEntry_def exHashed_def auditDraft_def exSurrogate_def surrogateAt_def)

lemma exHashed_differs: "canonicalize (exHashed\<lparr>au_actorUsername := Some REPLACEMENT\<rparr>) \<noteq> canonicalize exHashed"
  by (simp add: canonicalize_def canonicalJson_def exHashed_def auditDraft_def exSurrogate_def quoteString_def
      REPLACEMENT_def surrogateAt_def orNull_def escapeChar_def)

theorem unstorable_entry_breaks_chain_witness:
  "verifyChain exDigest (auditTrail (snd (recordAudit exDigest exSurrogate (exWorld exDb)))) = ChainBroken ''u0'' 1 ''hash mismatch''"
proof -
  have n0: "showNat 0 = ''0''" by code_simp
  have digest: "hashEntry exDigest (auditDraft None exSurrogate 0 ''u0'') = ''a''"
    by (simp add: hashEntry_def exDigest_def exHashed_def)
  have facts: "ai_occurredAt exSurrogate = Some 0" "findLatestAudit (w_db (exWorld exDb)) = None"
    "db_audit (w_db (exWorld exDb)) = []" "uuid (exWorld exDb) = (Inr ''u0'', (exWorld exDb)\<lparr>w_uuidN := 1\<rparr>)"
    "au_actorUserId (storedEntry exHashed) = None"
    by (simp_all add: exSurrogate_def findLatestAudit_def exWorld_def exDb_def uuid_def n0 storedEntry_def exHashed_def auditDraft_def)
  have run: "recordAudit exDigest exSurrogate (exWorld exDb) = (Inr exHashed, snd (recordAudit exDigest exSurrogate (exWorld exDb)))"
    using digest facts
    by (simp add: recordAudit_def bnd_def dbGet_def gets_def ret_def Let_def insertAudit_def insertInto_def dbMod_def modify_def
        throwIf_def exHashed_def [symmetric])
  have "storedText (au_hash exHashed) = au_hash exHashed" by (simp add: exHashed_def)
  moreover have "au_id (storedEntry exHashed) = ''u0''" "au_seq exHashed = 1"
    by (simp_all add: exHashed_stored) (simp_all add: exHashed_def auditDraft_def)
  ultimately show ?thesis
    using unstorable_entry_breaks_chain [OF _ _ run] exHashed_differs
    by (simp add: exHashed_stored exDigest_def auditOk_def auditTrail_def listAllChronological_def verifyChain_def isChainOk_def
        exWorld_def exDb_def)
qed

end
