(* ===== verification/AccountFacts.thy ===== *)
theory AccountFacts
  imports Transfers Examples
begin

text \<open>
  Properties of opening accounts and deposits, and of how a refused payment is answered.
\<close>

section \<open>Account numbers\<close>

text \<open>
  C34: Drawing a fresh account number returns: with fewer accounts than there are numbers, and a random source that keeps
  drawing every number, the retry loop of \<open>createAccount.ts\<close> ends with a well-formed number that no account has.
\<close>

theorem account_number_drawn:
  assumes "length (db_accounts (w_db w)) < 10000000000" and "drawsEverything (w_rnd w)"
  shows "\<exists>nr w'. freshAccountNumber w = (Inr nr, w') \<and> w_db w' = w_db w \<and> isValidAccountNumber nr
           \<and> findAccountByNumber (w_db w) nr = None"
proof -
  obtain m where m: "freshDraw (numberInUse (w_db w)) (accountNumberAt (w_rnd w)) (w_rndN w) = Some m"
    using freshDraw_terminates [OF assms] by blast
  then have "\<not> numberInUse (w_db w) (accountNumberAt (w_rnd w) m)" using freshDraw_sound by blast
  moreover have "isValidAccountNumber (accountNumberAt (w_rnd w) m)"
    unfolding accountNumberAt_def by (rule accountNumberOf_valid) simp
  ultimately show ?thesis using m by (simp add: freshAccountNumber_def numberInUse_def)
qed

lemma counting_drawsEverything: "drawsEverything (\<lambda>k. k)"
  unfolding drawsEverything_def
proof (intro allI impI)
  fix k n :: nat assume n: "n < 10000000000"
  have "k + (10000000000 * (k + 1) + n - k) = n + 10000000000 * (k + 1)" by simp
  then have "(k + (10000000000 * (k + 1) + n - k)) mod 10000000000 = n" using n by (simp only: mod_mult_self2 mod_less)
  then show "\<exists>j. (k + j) mod 10000000000 = n" by blast
qed

theorem account_number_drawn_witness:
  "\<exists>nr w'. freshAccountNumber (exWorld exDb\<lparr>w_rnd := \<lambda>k. k\<rparr>) = (Inr nr, w') \<and> w_db w' = exDb
     \<and> isValidAccountNumber nr \<and> findAccountByNumber exDb nr = None"
  using account_number_drawn [of "exWorld exDb\<lparr>w_rnd := \<lambda>k. k\<rparr>"] counting_drawsEverything
  by (simp add: exDb_def)

section \<open>Fixed deposits\<close>

text \<open>
  A deposit pays between nothing and its terms: whatever the moment, closing early pays at most the
  interest accrued by then, which is at most the interest at maturity; that interest is the principal at the
  tenure's rate, at most eight percent a year, and the deposit matures at least 28 days per month of tenure
  after it was opened.
\<close>

theorem fixed_deposit_pays_within_terms:
  assumes "openFdDomain tz i a u p pr te ar ts = Inr fd"
  shows "0 \<le> prematureInterestMinor fd t \<and> prematureInterestMinor fd t \<le> accruedInterestMinor fd t
         \<and> accruedInterestMinor fd t \<le> maturityInterestMinor fd
         \<and> maturityInterestMinor fd * 120000 \<le> pr * te * 800
         \<and> ts + 28 * te * msPerDay \<le> fd_maturityAt fd"
proof -
  have ok: "fdOk fd" by (rule fdOk_openFdDomain [OF assms])
  have fd: "fd_principal fd = pr" "fd_tenureMonths fd = te" "fd_openedAt fd = ts"
    using assms by (auto simp: openFdDomain_Inr)
  have "maturityInterestMinor fd * 120000 \<le> pr * fd_rateBps fd * te"
    unfolding maturityInterestMinor_def fd by (simp add: mult.commute [of _ "120000 :: int"])
  also have "\<dots> \<le> pr * 800 * te"
    using ok fd by (intro mult_right_mono mult_left_mono) (auto simp: fdOk_def fd_consts)
  finally have "maturityInterestMinor fd * 120000 \<le> pr * te * 800" by (simp add: mult_ac)
  with maturity_after_open [OF assms] fd premature_le_accrued [OF ok, of t] accrued_le_maturity [OF ok, of t]
  show ?thesis by simp
qed

theorem fixed_deposit_pays_within_terms_witness:
  "\<exists>fd. openFdDomain 0 ''f'' ''a'' ''u'' ''p'' 1000000 12 False 0 = Inr fd
     \<and> 0 \<le> prematureInterestMinor fd 5000000000 \<and> maturityInterestMinor fd * 120000 \<le> 1000000 * 12 * 800"
proof -
  obtain fd where fd: "openFdDomain 0 ''f'' ''a'' ''u'' ''p'' 1000000 12 False 0 = Inr fd"
    using rateBpsForTenure_total [of 12] by (auto simp: openFdDomain_Inr fd_consts)
  with fixed_deposit_pays_within_terms [OF fd, of 5000000000] show ?thesis by auto
qed

section \<open>Refusals\<close>

text \<open>The translation every payment route ends with (\<open>translate\<close> in \<open>payments/interface/routes.ts\<close>).\<close>

definition paymentsMapErr :: "error \<Rightarrow> error" where
  "paymentsMapErr e = composeDomainErrorTranslation [translateDisputePlainError] e"

lemma paymentsMapErr_common:
  assumes "isCommonDomainError e"
  shows "\<exists>h. paymentsMapErr e = HttpErr h \<and> http_status h \<in> {400, 403, 404, 409} \<and> http_message h = errorMessage e"
proof -
  obtain h where h: "firstMapped [translateAccountDomainError, translateTransferDomainError,
        translateBeneficiaryDomainError, translateKycDomainError] e = Some h"
      "http_status h \<in> {400, 403, 404, 409}" "http_message h = errorMessage e"
    using common_mapped [OF assms] by blast
  have plain: "http_status g \<in> {400, 403, 404, 409} \<and> http_message g = errorMessage e"
    if "translateDisputePlainError e = Some g" for g
    using that assms
    by (cases e) (auto simp: translateDisputePlainError_def translateDisputeDomainError_def isCommonDomainError_def
        http_defs split: if_splits)
  have "paymentsMapErr e = (case firstMapped ([translateDisputePlainError] @ [translateAccountDomainError,
        translateTransferDomainError, translateBeneficiaryDomainError, translateKycDomainError]) e of
      Some h \<Rightarrow> HttpErr h | None \<Rightarrow> e)"
    using assms by (cases e) (simp_all add: paymentsMapErr_def composeDomainErrorTranslation_def isCommonDomainError_def
        cong: option.case_cong)
  with h plain show ?thesis
    by (cases "translateDisputePlainError e") (auto simp del: firstMapped.simps simp add: firstMapped.simps(2) [of translateDisputePlainError])
qed

text \<open>
  C13: A transfer that throws either was made (a subscriber failed afterwards), or left the database as it was; and
  then it violated a constraint of the schema, or the router answers a client error, 400, 403, 404 or 409, with
  the message of the domain error.
\<close>

theorem transfer_refusals_answered:
  assumes "accountsOk (w_db w)" and "executeTransfer (containerPublish sha) inp w = (Inl e, w')"
  shows "(\<exists>t. transferOutcome w inp t (w_db w'))
         \<or> w_db w' = w_db w \<and> (isDbError e \<or> httpStatusOf (paymentsMapErr e) \<in> {400, 403, 404, 409}
               \<and> (\<exists>h. paymentsMapErr e = HttpErr h \<and> http_message h = errorMessage e))"
  using wp_errD [OF container_bus.executeTransfer_wp [OF assms(1)] assms(2)] paymentsMapErr_common [of e]
  by (auto simp: httpStatusOf_def)

text \<open>A transfer of nothing.\<close>

theorem transfer_refusals_answered_witness:
  "(\<exists>t. transferOutcome (exWorld exDb) (exTransfer 0) t exDb)
   \<or> (\<exists>h. paymentsMapErr (Pay TransferAmountInvalidError) = HttpErr h
         \<and> http_message h = ''Transfer amount must be > 0'')"
proof -
  have "executeTransfer (containerPublish (\<lambda>s. s)) (exTransfer 0) (exWorld exDb)
      = (Inl (Pay TransferAmountInvalidError), exWorld exDb)"
    by (simp add: executeTransfer_def bnd_def throwIf_def raise_def numLe_isInteger)
  from transfer_refusals_answered [OF _ this] exDb_accounts show ?thesis by (simp add: isDbError_def) blast
qed

end
