(* ===== verification/Statements.thy ===== *)
theory Statements
  imports Examples
begin

text \<open>
  Monthly statements (\<open>contexts/statements\<close>): the query over the ledger, its totals, and the rendering as
  RFC 4180 CSV. The rendering as PDF is not modelled.
\<close>

section \<open>The query\<close>

record statement_line =
  sl_postedAt :: string
  sl_transferId :: string
  sl_direction :: entry_kind
  sl_amount :: int
  sl_runningBalance :: int
  sl_counterpartyAccountId :: "string option"
  sl_counterpartyName :: "string option"
  sl_referenceNumber :: "string option"
  sl_memo :: "string option"
  sl_description :: "string option"
  sl_kind :: transfer_kind

record monthly_statement =
  ms_accountId :: string
  ms_month :: string
  ms_opening :: int
  ms_closing :: int
  ms_totalDebit :: int
  ms_totalCredit :: int
  ms_lines :: "statement_line list"

definition orElse :: "'a option \<Rightarrow> 'a option \<Rightarrow> 'a option" where
  "orElse x y = (case x of None \<Rightarrow> y | Some _ \<Rightarrow> x)"

text \<open>The inner join with \<open>transfers\<close>: an entry without its transfer has no line.\<close>

definition statementRows :: "db \<Rightarrow> string \<Rightarrow> int \<Rightarrow> int \<Rightarrow> (ledger_entry \<times> transfer) list" where
  "statementRows d accountId fromMs toMs =
     concat (map (\<lambda>l. case findTransferById d (l_transferId l) of None \<Rightarrow> [] | Some t \<Rightarrow> [(l, t)])
       (listLedgerByAccountInRange d accountId fromMs toMs))"

definition statementLine :: "ledger_entry \<times> transfer \<Rightarrow> statement_line" where
  "statementLine r = (case r of (l, t) \<Rightarrow>
     \<lparr>sl_postedAt = toISOString (l_postedAt l), sl_transferId = t_id t, sl_direction = l_kind l,
      sl_amount = l_amount l, sl_runningBalance = l_runningBalance l,
      sl_counterpartyAccountId = (if l_kind l = Debit then t_toAccountId t else t_fromAccountId t),
      sl_counterpartyName =
        (if l_kind l = Debit then orElse (t_toUsername t) (t_toAccountNumber t)
         else orElse (t_fromUsername t) (t_fromAccountNumber t)),
      sl_referenceNumber = t_referenceNumber t, sl_memo = t_memo t, sl_description = t_description t,
      sl_kind = t_kind t\<rparr>)"

definition sumDirection :: "entry_kind \<Rightarrow> statement_line list \<Rightarrow> int" where
  "sumDirection k ls = sum_list (map sl_amount (filter (\<lambda>l. sl_direction l = k) ls))"

definition closingOf :: "statement_line list \<Rightarrow> int" where
  "closingOf ls = (if ls = [] then 0 else sl_runningBalance (last ls))"

definition openingOf :: "statement_line list \<Rightarrow> int" where
  "openingOf ls = (case ls of [] \<Rightarrow> closingOf ls
     | l # _ \<Rightarrow> if sl_direction l = Credit then sl_runningBalance l - sl_amount l else sl_runningBalance l + sl_amount l)"

definition monthOfDate :: "int \<Rightarrow> string" where
  "monthOfDate t = showInt (yearOf (dayOf t)) @ ''-'' @ pad2 (monthOf (dayOf t) + 1)"

definition queryStatement :: "db \<Rightarrow> string \<Rightarrow> int \<Rightarrow> int \<Rightarrow> monthly_statement" where
  "queryStatement d accountId fromMs toMs =
     (let ls = map statementLine (statementRows d accountId fromMs toMs) in
      \<lparr>ms_accountId = accountId, ms_month = monthOfDate fromMs, ms_opening = openingOf ls, ms_closing = closingOf ls,
       ms_totalDebit = sumDirection Debit ls, ms_totalCredit = sumDirection Credit ls, ms_lines = ls\<rparr>)"

text \<open>\<open>/^\d{4}-(0[1-9]|1[0-2])$/\<close>\<close>

definition isMonth :: "string \<Rightarrow> bool" where
  "isMonth s \<longleftrightarrow> matchClasses (replicate 4 isDigit @ [\<lambda>c. c = CHR ''-''] @ replicate 2 isDigit) s
     \<and> (let m = drop 5 s in (m ! 0 = CHR ''0'' \<and> m ! 1 \<noteq> CHR ''0'') \<or> (m ! 0 = CHR ''1'' \<and> m ! 1 \<in> set ''012''))"

text \<open>\<open>month.split("-").map(Number)\<close>, on a text of that form.\<close>

definition digitsValue :: "string \<Rightarrow> int" where
  "digitsValue s = foldl (\<lambda>a c. 10 * a + (of_char c - 48)) 0 s"

text \<open>
  \<open>Date.UTC(year, monthIndex, 1)\<close>; a year from 0 to 99 is taken to mean 1900 to 1999.
\<close>

definition utcFirst :: "int \<Rightarrow> int \<Rightarrow> int" where
  "utcFirst year monthIndex =
     makeDate (makeDay (if 0 \<le> year \<and> year \<le> 99 then 1900 + year else year) monthIndex 1) 0"

definition getMonthlyStatement :: "db \<Rightarrow> string \<Rightarrow> string \<Rightarrow> error + monthly_statement" where
  "getMonthlyStatement d accountId month =
     andThen (check (isMonth month) (GenericError ''Invalid month'')) (\<lambda>_.
     (let year = digitsValue (take 4 month); m = digitsValue (drop 5 month) in
      Inr (queryStatement d accountId (utcFirst year (m - 1))
             (utcFirst (if m = 12 then year + 1 else year) (if m = 12 then 0 else m)))))"

section \<open>CSV\<close>

definition crlf :: string where
  "crlf = [CHR 0x0D, CHR 0x0A]"

definition needsQuotes :: "char \<Rightarrow> bool" where
  "needsQuotes c \<longleftrightarrow> c = CHR 0x22 \<or> c = CHR '','' \<or> c = CHR 0x0D \<or> c = CHR 0x0A"

definition doubleQuote :: "char \<Rightarrow> string" where
  "doubleQuote c = (if c = CHR 0x22 then [c, c] else [c])"

definition csvField :: "string \<Rightarrow> string" where
  "csvField v = (if list_ex needsQuotes v then [CHR 0x22] @ concat (map doubleQuote v) @ [CHR 0x22] else v)"

definition csvRow :: "string list \<Rightarrow> string" where
  "csvRow vs = joinWith '','' (map csvField vs)"

primrec directionName :: "entry_kind \<Rightarrow> string" where
  "directionName Debit = ''debit''"
| "directionName Credit = ''credit''"

definition csvLine :: "statement_line \<Rightarrow> string list" where
  "csvLine l =
     [sl_postedAt l, (case sl_referenceNumber l of None \<Rightarrow> sl_transferId l | Some r \<Rightarrow> r), directionName (sl_direction l),
      (case sl_counterpartyName l of None \<Rightarrow> [] | Some n \<Rightarrow> n),
      (case orElse (sl_description l) (sl_memo l) of None \<Rightarrow> [] | Some t \<Rightarrow> t),
      showInt (sl_amount l), showInt (sl_runningBalance l), transferKindName (sl_kind l)]"

definition csvRows :: "monthly_statement \<Rightarrow> string \<Rightarrow> string list list" where
  "csvRows st number =
     [[''Account number'', number], [''Period'', ms_month st],
      [''Opening balance (paise)'', showInt (ms_opening st)], [''Closing balance (paise)'', showInt (ms_closing st)],
      [''Total credits (paise)'', showInt (ms_totalCredit st)], [''Total debits (paise)'', showInt (ms_totalDebit st)],
      [[]],
      [''Posted At'', ''Reference'', ''Direction'', ''Counterparty'', ''Description'', ''Amount (paise)'',
       ''Running Balance (paise)'', ''Kind'']]
     @ map csvLine (ms_lines st)"

definition statementToCsv :: "monthly_statement \<Rightarrow> string \<Rightarrow> string" where
  "statementToCsv st number = joinWith crlf (map csvRow (csvRows st number))"

section \<open>PDF\<close>

text \<open>
  \<open>exportPdf.ts\<close>. A dash is its three bytes in UTF-8; \<open>stream.length\<close> counts UTF-16 units, one for every byte that
  starts a character and one more for every character outside the basic plane. The base64 encoding is left to
  the caller.
\<close>

definition emDash :: string where
  "emDash = [CHR 0xE2, CHR 0x80, CHR 0x94]"

definition utf16Length :: "string \<Rightarrow> nat" where
  "utf16Length s = length (filter (\<lambda>c. \<not> (128 \<le> (of_char c :: nat) \<and> (of_char c :: nat) < 192)) s)
     + length (filter (\<lambda>c. 240 \<le> (of_char c :: nat)) s)"

definition pdfEscape :: "string \<Rightarrow> string" where
  "pdfEscape s = concat (map (\<lambda>c. if c \<in> {CHR 0x5C, CHR ''('', CHR '')''} then [CHR 0x5C, c] else [c]) s)"

definition pdfLine :: "statement_line \<Rightarrow> string" where
  "pdfLine l = take 10 (sl_postedAt l) @ '' '' @ directionName (sl_direction l) @ '' '' @ showInt (sl_amount l)
     @ '' paise '' @ emDash @ '' ''
     @ (case orElse (orElse (sl_description l) (sl_memo l)) (sl_referenceNumber l) of None \<Rightarrow> sl_transferId l | Some t \<Rightarrow> t)"

definition pdfLines :: "monthly_statement \<Rightarrow> string \<Rightarrow> string list" where
  "pdfLines st number =
     [''Sentinel Bank '' @ emDash @ '' Account Statement'', ''Account: '' @ number, ''Period: '' @ ms_month st,
      ''Opening balance (paise): '' @ showInt (ms_opening st), ''Closing balance (paise): '' @ showInt (ms_closing st),
      ''Total credits (paise): '' @ showInt (ms_totalCredit st), ''Total debits (paise): '' @ showInt (ms_totalDebit st),
      [], ''Transactions:'']
     @ map pdfLine (ms_lines st)"

definition pdfStream :: "monthly_statement \<Rightarrow> string \<Rightarrow> string" where
  "pdfStream st number = ''BT /F1 10 Tf 50 750 Td (''
     @ joinWith [CHR 0x5C, CHR ''n''] (map pdfEscape (pdfLines st number)) @ '') Tj ET''"

definition statementToPdf :: "monthly_statement \<Rightarrow> string \<Rightarrow> string" where
  "statementToPdf st number = joinWith [CHR 0x0A]
     [''%PDF-1.4'', ''1 0 obj<< /Type /Catalog /Pages 2 0 R >>endobj'',
      ''2 0 obj<< /Type /Pages /Kids [3 0 R] /Count 1 >>endobj'',
      ''3 0 obj<< /Type /Page /Parent 2 0 R /MediaBox [0 0 612 792] /Contents 4 0 R /Resources<< /Font<< /F1 5 0 R >> >> >>endobj'',
      ''4 0 obj<< /Length '' @ showNat (utf16Length (pdfStream st number)) @ '' >>stream'',
      pdfStream st number, ''endstream endobj'',
      ''5 0 obj<< /Type /Font /Subtype /Type1 /BaseFont /Helvetica >>endobj'', ''xref'', ''0 6'',
      ''0000000000 65535 f '', ''0000000009 00000 n '', ''0000000058 00000 n '', ''0000000115 00000 n '',
      ''0000000266 00000 n '', ''0000000350 00000 n '', ''trailer<< /Size 6 /Root 1 0 R >>'', ''startxref'', ''420'', ''%%EOF'']"

section \<open>Reading CSV back\<close>

text \<open>A reader of RFC 4180 records, quoted fields and line breaks within them included.\<close>

fun unquote :: "string \<Rightarrow> string \<times> string" where
  "unquote [] = ([], [])"
| "unquote [c] = (if c = CHR 0x22 then ([], []) else ([c], []))"
| "unquote (c # d # cs) =
     (if c = CHR 0x22
      then (if d = CHR 0x22 then (case unquote cs of (f, r) \<Rightarrow> (c # f, r)) else ([], d # cs))
      else (case unquote (d # cs) of (f, r) \<Rightarrow> (c # f, r)))"

definition isBreak :: "char \<Rightarrow> bool" where
  "isBreak c \<longleftrightarrow> c = CHR '','' \<or> c = CHR 0x0D"

definition readField :: "string \<Rightarrow> string \<times> string" where
  "readField s =
     (if s \<noteq> [] \<and> hd s = CHR 0x22 then unquote (tl s)
      else (takeWhile (\<lambda>c. \<not> isBreak c) s, dropWhile (\<lambda>c. \<not> isBreak c) s))"

lemma unquote_shorter: "length (snd (unquote s)) \<le> length s"
  by (induction s rule: unquote.induct) (auto split: prod.splits)

lemma readField_shorter: "readField s = (f, r) \<Longrightarrow> length r \<le> length s"
  using unquote_shorter [of "tl s"] length_dropWhile_le [of "\<lambda>c. \<not> isBreak c" s]
  by (auto simp: readField_def split: if_splits)

function readCsv :: "string \<Rightarrow> string list list" where
  "readCsv s = (case readField s of (f, r) \<Rightarrow>
     (case r of [] \<Rightarrow> [[f]]
      | c # r' \<Rightarrow> if c = CHR '','' then (case readCsv r' of [] \<Rightarrow> [[f]] | row # rows \<Rightarrow> (f # row) # rows)
                 else [f] # readCsv (tl r')))"
  by pat_completeness auto
termination
  by (relation "measure length") (auto dest!: readField_shorter [OF sym])

declare readCsv.simps [simp del]

lemma doubleQuote_simps [simp]:
  "doubleQuote (CHR 0x22) = [CHR 0x22, CHR 0x22]" "c \<noteq> CHR 0x22 \<Longrightarrow> doubleQuote c = [c]"
  by (simp_all add: doubleQuote_def)

lemma unquote_doubled: "rest = [] \<or> hd rest \<noteq> CHR 0x22 \<Longrightarrow>
    unquote (concat (map doubleQuote v) @ CHR 0x22 # rest) = (v, rest)"
proof (induction v)
  case Nil
  then show ?case by (cases rest) auto
next
  case (Cons c v)
  then have IH: "unquote (concat (map doubleQuote v) @ CHR 0x22 # rest) = (v, rest)" by simp
  obtain d ds where "concat (map doubleQuote v) @ CHR 0x22 # rest = d # ds"
    by (cases "concat (map doubleQuote v) @ CHR 0x22 # rest") auto
  with IH show ?case by (cases "c = CHR 0x22") simp_all
qed

lemma readField_csv:
  assumes "rest = [] \<or> isBreak (hd rest)"
  shows "readField (csvField v @ rest) = (v, rest)"
proof (cases "list_ex needsQuotes v")
  case True
  have "rest = [] \<or> hd rest \<noteq> CHR 0x22" using assms by (auto simp: isBreak_def)
  with True unquote_doubled [OF this, of v] show ?thesis by (simp add: readField_def csvField_def)
next
  case False
  then have plain: "\<forall>c \<in> set v. \<not> isBreak c \<and> c \<noteq> CHR 0x22"
    by (auto simp: list_ex_iff needsQuotes_def isBreak_def)
  have "v @ rest = [] \<or> hd (v @ rest) \<noteq> CHR 0x22"
    using plain assms by (cases v) (auto simp: isBreak_def)
  moreover have "takeWhile (\<lambda>c. \<not> isBreak c) (v @ rest) = v" "dropWhile (\<lambda>c. \<not> isBreak c) (v @ rest) = rest"
    using plain assms by (auto simp: takeWhile_append dropWhile_append takeWhile_eq_Nil_iff dropWhile_eq_self_iff)
  ultimately show ?thesis using False by (auto simp: readField_def csvField_def)
qed

lemma readCsv_row:
  assumes "vs \<noteq> []" and "rest = [] \<or> take 2 rest = crlf"
  shows "readCsv (csvRow vs @ rest) = vs # (if rest = [] then [] else readCsv (drop 2 rest))"
  using assms(1)
proof (induction vs)
  case (Cons v vs)
  show ?case
  proof (cases vs)
    case Nil
    have "rest = [] \<or> isBreak (hd rest)" using assms(2) by (cases rest) (auto simp: isBreak_def crlf_def)
    from readField_csv [OF this, of v] Nil assms(2) show ?thesis
      by (cases rest; subst readCsv.simps) (auto simp: csvRow_def crlf_def numeral_2_eq_2 drop_Suc)
  next
    case (Cons w ws)
    have "csvRow (v # vs) @ rest = csvField v @ (CHR '','' # (csvRow vs @ rest))" using Cons by (simp add: csvRow_def)
    moreover have "readField (csvField v @ (CHR '','' # (csvRow vs @ rest))) = (v, CHR '','' # (csvRow vs @ rest))"
      by (rule readField_csv) (simp add: isBreak_def)
    ultimately show ?thesis using Cons Cons.IH by (subst readCsv.simps) simp
  qed
qed simp

lemma readCsv_rows:
  "rows \<noteq> [] \<Longrightarrow> \<forall>vs \<in> set rows. vs \<noteq> [] \<Longrightarrow> readCsv (joinWith crlf (map csvRow rows)) = rows"
proof (induction rows)
  case (Cons vs rows)
  show ?case
  proof (cases rows)
    case Nil
    then show ?thesis using readCsv_row [of vs "[]"] Cons.prems by simp
  next
    case (Cons ws rest)
    then have "joinWith crlf (map csvRow (vs # rows)) = csvRow vs @ (crlf @ joinWith crlf (map csvRow rows))" by simp
    moreover have "readCsv (csvRow vs @ (crlf @ joinWith crlf (map csvRow rows)))
        = vs # readCsv (joinWith crlf (map csvRow rows))"
      using readCsv_row [of vs "crlf @ joinWith crlf (map csvRow rows)"] Cons.prems by (simp add: crlf_def)
    ultimately show ?thesis using Cons Cons.IH Cons.prems by simp
  qed
qed simp

section \<open>Properties\<close>

text \<open>
  C35: The CSV export loses nothing: reading it back as RFC 4180 records gives exactly the header block, a blank line and one
  record per line of the statement, whatever commas, quotes or line breaks the names and descriptions contain.
\<close>

theorem statement_csv_roundtrip: "readCsv (statementToCsv st number) = csvRows st number"
  unfolding statementToCsv_def by (rule readCsv_rows) (auto simp: csvRows_def csvLine_def)

text \<open>The entries of an account follow one another: each running balance is the one before it, moved by the entry.\<close>

definition signedLine :: "statement_line \<Rightarrow> int" where
  "signedLine l = (if sl_direction l = Credit then sl_amount l else - sl_amount l)"

fun consecutive :: "statement_line list \<Rightarrow> bool" where
  "consecutive (l # m # ls) \<longleftrightarrow> sl_runningBalance m = sl_runningBalance l + signedLine m \<and> consecutive (m # ls)"
| "consecutive _ \<longleftrightarrow> True"

lemma sumDirection_signed:
  "sumDirection Credit ls - sumDirection Debit ls = sum_list (map signedLine ls)"
  by (induction ls) (auto simp: sumDirection_def signedLine_def, (metis entry_kind.exhaust)+)

lemma consecutive_last:
  "consecutive (l # ls) \<Longrightarrow> sl_runningBalance (last (l # ls)) = sl_runningBalance l + sum_list (map signedLine ls)"
  by (induction ls arbitrary: l) auto

text \<open>
  A statement balances: when the running balances of the month's entries follow one another, the closing
  balance is the opening balance plus all credits minus all debits.
\<close>

theorem statement_balances:
  assumes "consecutive (ms_lines (queryStatement d a t0 t1))"
  shows "ms_closing (queryStatement d a t0 t1) =
     ms_opening (queryStatement d a t0 t1) + ms_totalCredit (queryStatement d a t0 t1)
       - ms_totalDebit (queryStatement d a t0 t1)"
proof (cases "ms_lines (queryStatement d a t0 t1)")
  case Nil
  then show ?thesis by (simp add: queryStatement_def Let_def closingOf_def openingOf_def sumDirection_def)
next
  case (Cons l ls)
  then have "openingOf (l # ls) = sl_runningBalance l - signedLine l" by (simp add: openingOf_def signedLine_def)
  moreover have "closingOf (l # ls) = sl_runningBalance l + sum_list (map signedLine ls)"
    using consecutive_last [of l ls] assms Cons by (simp add: closingOf_def)
  moreover have "sumDirection Credit (l # ls) - sumDirection Debit (l # ls) = signedLine l + sum_list (map signedLine ls)"
    by (simp add: sumDirection_signed)
  ultimately show ?thesis using Cons by (simp add: queryStatement_def Let_def)
qed

text \<open>A credit of 500 and a debit of 700 on a balance of 1000.\<close>

definition exStatementDb :: db where
  "exStatementDb = exDbPosted\<lparr>db_ledger :=
     [\<lparr>l_id = ''l1'', l_accountId = ''a1'', l_transferId = ''p1'', l_kind = Credit, l_amount = 500,
       l_runningBalance = 1500, l_postedAt = 1\<rparr>,
      \<lparr>l_id = ''l2'', l_accountId = ''a1'', l_transferId = ''p2'', l_kind = Debit, l_amount = 700,
       l_runningBalance = 800, l_postedAt = 2\<rparr>]\<rparr>"

lemma exStatement_lines:
  "map (\<lambda>l. (sl_direction l, sl_amount l, sl_runningBalance l)) (ms_lines (queryStatement exStatementDb ''a1'' 0 10))
     = [(Credit, 500, 1500), (Debit, 700, 800)]"
  by (simp add: queryStatement_def statementRows_def listLedgerByAccountInRange_def exStatementDb_def exDbPosted_def
      findTransferById_def exPending_def exPosted_def statementLine_def Let_def)

theorem statement_balances_witness:
  "ms_closing (queryStatement exStatementDb ''a1'' 0 10) = ms_opening (queryStatement exStatementDb ''a1'' 0 10)
     + ms_totalCredit (queryStatement exStatementDb ''a1'' 0 10) - ms_totalDebit (queryStatement exStatementDb ''a1'' 0 10)
   \<and> length (ms_lines (queryStatement exStatementDb ''a1'' 0 10)) = 2"
proof -
  have "length (ms_lines (queryStatement exStatementDb ''a1'' 0 10)) = 2"
    using arg_cong [OF exStatement_lines, of length] by simp
  moreover have "consecutive (ms_lines (queryStatement exStatementDb ''a1'' 0 10))"
    using exStatement_lines by (auto simp: Cons_eq_map_conv map_eq_Cons_conv signedLine_def)
  ultimately show ?thesis using statement_balances by blast
qed

end
