(* ===== verification/MakerChecker.thy ===== *)
theory MakerChecker
  imports Examples
begin

text \<open>
  Maker-checker for large administrative payments (\<open>services/adminMakerChecker.ts\<close>): a payment above the
  threshold is stored as a pending action, which an administrator approves once. The payload is kept as the
  JSON text the service stores.
\<close>

section \<open>Operations\<close>

definition FAUCET_MAKER_CHECKER_THRESHOLD_MINOR :: int where
  "FAUCET_MAKER_CHECKER_THRESHOLD_MINOR = 1000000"

definition requiresMakerChecker :: "int \<Rightarrow> bool" where
  "requiresMakerChecker amountMinor \<longleftrightarrow> FAUCET_MAKER_CHECKER_THRESHOLD_MINOR < amountMinor"

definition insertPending :: "pending_action \<Rightarrow> unit op" where
  "insertPending a = bnd (gets w_db) (\<lambda>d.
     insertInto (findPendingActionById d (pa_id a) = None)
       (userExists d (pa_requestedBy a) \<and> (case pa_approvedBy a of None \<Rightarrow> True | Some u \<Rightarrow> userExists d u))
       (\<lambda>d. d\<lparr>db_pending := db_pending d @ [a]\<rparr>))"

definition createPendingAction :: "string \<Rightarrow> string \<Rightarrow> json \<Rightarrow> pending_action op" where
  "createPendingAction action requestedBy payload =
     bnd uuid (\<lambda>i.
     bnd clockNow (\<lambda>now.
     (let row = \<lparr>pa_id = i, pa_action = action, pa_requestedBy = requestedBy, pa_approvedBy = None,
                 pa_payload = stringify payload, pa_status = PaPending, pa_createdAt = now, pa_decidedAt = None\<rparr> in
      thn (insertPending row) (ret row))))"

definition listPendingActions :: "db \<Rightarrow> pending_action list" where
  "listPendingActions d = filter (\<lambda>a. pa_status a = PaPending) (db_pending d)"

definition approvedRow :: "string \<Rightarrow> string \<Rightarrow> int \<Rightarrow> db \<Rightarrow> db" where
  "approvedRow i approver now d = d\<lparr>db_pending := updateWhere (\<lambda>a. pa_id a = i)
     (\<lambda>a. a\<lparr>pa_status := PaApproved, pa_approvedBy := Some approver, pa_decidedAt := Some now\<rparr>) (db_pending d)\<rparr>"

definition approvePendingAction :: "string \<Rightarrow> string \<Rightarrow> pending_action option op" where
  "approvePendingAction i approver =
     bnd (dbGet (\<lambda>d. findPendingActionById d i)) (\<lambda>x.
     case x of None \<Rightarrow> ret None
     | Some row \<Rightarrow>
         if pa_status row \<noteq> PaPending then ret None
         else bnd clockNow (\<lambda>now.
              bnd (dbGet (\<lambda>d. userExists d approver)) (\<lambda>known.
              thn (throwIf (\<not> known) (SqliteError ''FOREIGN KEY constraint failed''))
             (thn (dbMod (approvedRow i approver now))
                  (ret (Some (row\<lparr>pa_status := PaApproved, pa_approvedBy := Some approver,
                                  pa_decidedAt := Some now\<rparr>)))))))"

definition markPendingExecuted :: "string \<Rightarrow> unit op" where
  "markPendingExecuted i = dbMod (\<lambda>d. d\<lparr>db_pending := updateWhere (\<lambda>a. pa_id a = i)
     (\<lambda>a. a\<lparr>pa_status := PaExecuted\<rparr>) (db_pending d)\<rparr>)"

section \<open>An action is approved once\<close>

text \<open>A row that was decided; the statements keep it so.\<close>

definition decidedAction :: "db \<Rightarrow> string \<Rightarrow> bool" where
  "decidedAction d i \<longleftrightarrow> i \<in> pa_id ` set (db_pending d)
     \<and> (\<forall>a \<in> set (db_pending d). pa_id a = i \<longrightarrow> pa_status a \<noteq> PaPending)"

lemma pa_id_updateWhere:
  "(\<And>a. pa_id (f a) = pa_id a) \<Longrightarrow> pa_id ` set (updateWhere P f xs) = pa_id ` set xs"
  by (induction xs) (auto simp: updateWhere_def)

lemma decidedAction_insert:
  "decidedAction d i \<Longrightarrow> findPendingActionById d (pa_id a) = None \<Longrightarrow>
   decidedAction (d\<lparr>db_pending := db_pending d @ [a]\<rparr>) i"
  by (auto simp: decidedAction_def findPendingActionById_def find_None_iff)

lemma decidedAction_update:
  assumes "decidedAction d i" and "\<And>a. pa_id (f a) = pa_id a" and "\<And>a. pa_status (f a) \<noteq> PaPending"
  shows "decidedAction (d\<lparr>db_pending := updateWhere P f (db_pending d)\<rparr>) i"
proof -
  have "i \<in> pa_id ` set (updateWhere P f (db_pending d))"
    using assms(1) by (simp only: decidedAction_def pa_id_updateWhere [of f, OF assms(2)])
  moreover have "\<forall>a \<in> set (updateWhere P f (db_pending d)). pa_id a = i \<longrightarrow> pa_status a \<noteq> PaPending"
    using assms by (auto simp: decidedAction_def updateWhere_def)
  ultimately show ?thesis by (simp add: decidedAction_def)
qed

lemma decidedAction_approved:
  assumes "i \<in> pa_id ` set (db_pending d)"
  shows "decidedAction (approvedRow i u now d) i"
proof -
  let ?f = "\<lambda>a. a\<lparr>pa_status := PaApproved, pa_approvedBy := Some u, pa_decidedAt := Some now\<rparr>"
  let ?xs = "updateWhere (\<lambda>a. pa_id a = i) ?f (db_pending d)"
  have "pa_id ` set ?xs = pa_id ` set (db_pending d)" by (rule pa_id_updateWhere) simp
  with assms have "i \<in> pa_id ` set ?xs" by (simp only:)
  moreover have "\<forall>a \<in> set ?xs. pa_id a = i \<longrightarrow> pa_status a \<noteq> PaPending" by (simp add: updateWhere_def ball_Un)
  ultimately show ?thesis by (simp add: decidedAction_def approvedRow_def)
qed

lemma createPendingAction_decided:
  assumes "decidedAction (w_db w) i"
  shows "wp (createPendingAction act u p) (\<lambda>_ w'. decidedAction (w_db w') i) (\<lambda>_ w'. decidedAction (w_db w') i) w"
  using decidedAction_insert [OF assms] assms
  by (simp add: createPendingAction_def insertPending_def wp_rules Let_def del: stringify.simps)

lemma approvePendingAction_wp:
  "wp (approvePendingAction i u)
     (\<lambda>r w'. (\<forall>j. decidedAction (w_db w) j \<longrightarrow> decidedAction (w_db w') j)
        \<and> (\<forall>a. r = Some a \<longrightarrow> pa_id a = i \<and> decidedAction (w_db w') i \<and> \<not> decidedAction (w_db w) i))
     (\<lambda>_ w'. \<forall>j. decidedAction (w_db w) j \<longrightarrow> decidedAction (w_db w') j) w"
proof (cases "findPendingActionById (w_db w) i")
  case None
  then show ?thesis by (simp add: approvePendingAction_def wp_rules)
next
  case (Some row)
  then have row: "row \<in> set (db_pending (w_db w))" "pa_id row = i"
    by (auto simp: findPendingActionById_def dest: find_Some_iff_mem)
  have "decidedAction (approvedRow i u now (w_db w)) j" if "decidedAction (w_db w) j" for now j
    unfolding approvedRow_def by (rule decidedAction_update [OF that]) simp_all
  moreover have "decidedAction (approvedRow i u now (w_db w)) i" for now
    using row by (intro decidedAction_approved) auto
  moreover have "pa_status row = PaPending \<Longrightarrow> \<not> decidedAction (w_db w) i"
    using row by (auto simp: decidedAction_def)
  ultimately show ?thesis using row Some by (simp add: approvePendingAction_def wp_rules)
qed

datatype admin_op = RequestAction string string json | ApproveAction string string | ExecuteAction string

text \<open>The identifiers whose approval was granted, in a run of requests.\<close>

fun adminRun :: "admin_op list \<Rightarrow> world \<Rightarrow> string list" where
  "adminRun [] w = []"
| "adminRun (RequestAction act u p # ops) w = adminRun ops (snd (createPendingAction act u p w))"
| "adminRun (ApproveAction i u # ops) w =
     (case approvePendingAction i u w of
        (Inr (Some a), w') \<Rightarrow> pa_id a # adminRun ops w' | (_, w') \<Rightarrow> adminRun ops w')"
| "adminRun (ExecuteAction i # ops) w = adminRun ops (snd (markPendingExecuted i w))"

lemma markPendingExecuted_decided:
  "decidedAction (w_db w) j \<Longrightarrow> decidedAction (w_db (snd (markPendingExecuted i w))) j"
  by (simp add: markPendingExecuted_def dbMod_def modify_def decidedAction_update)

lemma adminRun_fresh: "decidedAction (w_db w) j \<Longrightarrow> j \<notin> set (adminRun ops w)"
proof (induction ops arbitrary: w)
  case (Cons x ops)
  show ?case
  proof (cases x)
    case (RequestAction act u p)
    with Cons wp_sndD [OF createPendingAction_decided [OF Cons.prems]] show ?thesis by simp
  next
    case (ApproveAction i u)
    with Cons approvePendingAction_wp [of i u w] show ?thesis
      by (auto simp: wp_def split: prod.splits sum.splits option.splits)
  next
    case (ExecuteAction i)
    with Cons markPendingExecuted_decided show ?thesis by simp
  qed
qed simp

text \<open>
  C36: A pending administrative action is approved at most once, whoever asks and in whatever order actions are
  requested, approved and marked as executed.
\<close>

theorem action_approved_once: "distinct (adminRun ops w)"
proof (induction ops arbitrary: w)
  case (Cons x ops)
  show ?case
  proof (cases x)
    case (ApproveAction i u)
    with Cons approvePendingAction_wp [of i u w] show ?thesis
      by (auto simp: wp_def adminRun_fresh split: prod.splits sum.splits option.splits)
  qed (simp_all add: Cons)
qed simp

lemma showNat_0: "showNat 0 = ''0''"
  by code_simp

text \<open>Nothing keeps the requesting administrator from approving the action.\<close>

definition exAdminWorld :: world where
  "exAdminWorld = exWorld (exDb\<lparr>db_users := [exUser ''ua'' ''alice''\<lparr>u_role := Admin\<rparr>]\<rparr>)"

theorem maker_approves_own_action:
  "adminRun [RequestAction ''admin.faucet'' ''ua'' (JNumber 5000000), ApproveAction ''u0'' ''ua''] exAdminWorld = [''u0'']"
  by (simp add: createPendingAction_def insertPending_def approvePendingAction_def bnd_def uuid_def clockNow_def gets_def
      insertInto_def throwIf_def dbMod_def modify_def dbGet_def ret_def findPendingActionById_def userExists_def
      findUserById_def exAdminWorld_def exWorld_def exDb_def exUser_def approvedRow_def updateWhere_def Let_def
      showNat_0)

end
