(* ===== verification/Challenges.thy ===== *)
theory Challenges
  imports HandshakeStore
begin

text \<open>
  The challenges of pending passkey ceremonies: \<open>pendingChallenges\<close> of \<open>routes/webauthn.ts\<close> (enrolment and
  step-up) and \<open>passkeyChallenges\<close> of \<open>contexts/identity/interface/routes.ts\<close> (login).
\<close>

section \<open>The stores\<close>

datatype challenge_purpose = ForRegister | ForAuthenticate

record pending_challenge =
  pc_challenge :: string
  pc_purpose :: challenge_purpose
  pc_sessionId :: "string option"
  pc_action :: "string option"
  pc_paramsHash :: "string option"
  pc_expiresAt :: int

record passkey_challenge =
  pk_challenge :: string
  pk_expiresAt :: int

type_synonym pending_challenges = "(string, pending_challenge) jsmap"
type_synonym passkey_challenges = "(string, passkey_challenge) jsmap"

definition CHALLENGE_TTL_MS :: int where
  "CHALLENGE_TTL_MS = 5 * 60 * 1000"

definition setChallenge :: "string \<Rightarrow> pending_challenge \<Rightarrow> pending_challenges \<Rightarrow> pending_challenges" where
  "setChallenge username v s = mapSet s username v"

definition takeChallenge :: "int \<Rightarrow> string \<Rightarrow> pending_challenges \<Rightarrow> pending_challenge option \<times> pending_challenges" where
  "takeChallenge now username s = (case mapGet s username of None \<Rightarrow> (None, s)
     | Some v \<Rightarrow> (if pc_expiresAt v < now then None else Some v, mapDelete s username))"

definition sweepChallenges :: "int \<Rightarrow> pending_challenges \<Rightarrow> pending_challenges" where
  "sweepChallenges now s = filter (\<lambda>p. \<not> pc_expiresAt (snd p) < now) s"

text \<open>The login's store: the entry is deleted whether or not it is still valid.\<close>

definition takePasskey :: "int \<Rightarrow> string \<Rightarrow> passkey_challenges \<Rightarrow> passkey_challenge option \<times> passkey_challenges" where
  "takePasskey now sid s = (case mapGet s sid of None \<Rightarrow> (None, mapDelete s sid)
     | Some v \<Rightarrow> (if pk_expiresAt v < now then None else Some v, mapDelete s sid))"

definition sweepPasskeys :: "int \<Rightarrow> passkey_challenges \<Rightarrow> passkey_challenges" where
  "sweepPasskeys now s = filter (\<lambda>p. \<not> pk_expiresAt (snd p) < now) s"

section \<open>A challenge is taken once\<close>

definition showChallenge :: "string \<Rightarrow> int \<times> pending_challenges \<Rightarrow> bool \<times> (int \<times> pending_challenges)" where
  "showChallenge u x = (case takeChallenge (fst x) u (snd x) of (r, s) \<Rightarrow> (r \<noteq> None, (fst x, s)))"

definition showPasskey :: "string \<Rightarrow> int \<times> passkey_challenges \<Rightarrow> bool \<times> (int \<times> passkey_challenges)" where
  "showPasskey u x = (case takePasskey (fst x) u (snd x) of (r, s) \<Rightarrow> (r \<noteq> None, (fst x, s)))"

text \<open>Anything but a new challenge under the same key.\<close>

inductive challengeStep :: "string \<Rightarrow> int \<times> pending_challenges \<Rightarrow> int \<times> pending_challenges \<Rightarrow> bool" for u where
  tick: "now \<le> now' \<Longrightarrow> challengeStep u (now, s) (now', s)"
| set_other: "i \<noteq> u \<Longrightarrow> challengeStep u (now, s) (now, setChallenge i v s)"
| sweep: "challengeStep u (now, s) (now, sweepChallenges now s)"

inductive passkeyStep :: "string \<Rightarrow> int \<times> passkey_challenges \<Rightarrow> int \<times> passkey_challenges \<Rightarrow> bool" for u where
  tick: "now \<le> now' \<Longrightarrow> passkeyStep u (now, s) (now', s)"
| set_other: "i \<noteq> u \<Longrightarrow> passkeyStep u (now, s) (now, mapSet s i v)"
| sweep: "passkeyStep u (now, s) (now, sweepPasskeys now s)"

inductive_cases challengeStepE: "challengeStep u x y"
inductive_cases passkeyStepE: "passkeyStep u x y"

interpretation challenges: one_shot showChallenge challengeStep absent oneEntryEach
  by unfold_locales
    (auto simp: showChallenge_def absent_def oneEntryEach_def takeChallenge_def setChallenge_def sweepChallenges_def
      mapGet_filter_None distinct_filter_keys split: option.splits if_splits elim!: challengeStepE)

interpretation passkeys: one_shot showPasskey passkeyStep absent oneEntryEach
  by unfold_locales
    (auto simp: showPasskey_def absent_def oneEntryEach_def takePasskey_def sweepPasskeys_def
      mapGet_filter_None distinct_filter_keys split: option.splits if_splits elim!: passkeyStepE)

lemma takeChallenge_fresh:
  "takeChallenge now u s = (Some c, s') \<Longrightarrow> mapGet s u = Some c \<and> now \<le> pc_expiresAt c"
  by (auto simp: takeChallenge_def split: option.splits if_splits)

end
