(* ===== verification/Http.thy ===== *)
theory Http
  imports SessionStore HandshakeStore Challenges ActionTokens Otp Velocity Identity
begin

text \<open>
  The HTTP side: the server's state, requests and responses, the middlewares (\<open>middleware/*.ts\<close>,
  \<open>audit/interface/middleware.ts\<close>), the error handler of \<open>app.ts\<close> and the encryption of the wire
  (\<open>crypto/aes.ts\<close>). A handler runs to its end before the next request is looked at; \<open>next(err)\<close> is a
  thrown error.
\<close>

section \<open>The server\<close>

record server =
  sv_world :: world
  sv_sessions :: sessions
  sv_handshakes :: handshakes
  sv_logins :: login_states
  sv_otp :: otp_slots
  sv_actionJti :: consumed_jti
  sv_otpJti :: consumed_jti
  sv_velocity :: velocity_buckets
  sv_rates :: "(string, rate_buckets) jsmap"
  sv_pending :: pending_challenges
  sv_passkeys :: passkey_challenges

text \<open>
  The platform: digests, the codecs of the tokens, \<open>JSON.parse\<close>, AES-256-GCM under a key, an initialization
  vector and additional data (\<open>None\<close> when the tag does not verify), base64, \<open>new Date(text)\<close>, key pairs on
  a curve, Diffie-Hellman with an imported public key (\<open>None\<close> for an exception of either) and HKDF, the functions of \<open>@simplewebauthn/server\<close> (options with
  their challenge, from random bytes; a verification throws, does not verify, or verifies with its result), and
  the environment.
\<close>

record registration =
  rg_id :: string
  rg_publicKey :: "nat list"
  rg_counter :: int
  rg_transports :: "string list option"
  rg_deviceType :: device_type
  rg_backedUp :: bool

record platform =
  pf_sha256 :: "string \<Rightarrow> string"
  pf_digest :: "string \<Rightarrow> string"
  pf_action :: token_codec
  pf_otp :: token_codec
  pf_parse :: "string \<Rightarrow> json option"
  pf_seal :: "nat list \<Rightarrow> string \<Rightarrow> string \<Rightarrow> string \<Rightarrow> string \<times> string"
  pf_open :: "nat list \<Rightarrow> string \<Rightarrow> string \<Rightarrow> string \<Rightarrow> string \<Rightarrow> string option"
  pf_base64 :: "string \<Rightarrow> string"
  pf_unbase64 :: "string \<Rightarrow> string"
  pf_base64url :: "string \<Rightarrow> string"
  pf_bcrypt :: bcrypt
  pf_parseDate :: "string \<Rightarrow> int option"
  pf_keyPair :: "string \<Rightarrow> nat \<Rightarrow> json \<times> nat list"
  pf_diffieHellman :: "nat list \<Rightarrow> json \<Rightarrow> nat list option"
  pf_hkdf :: "string \<Rightarrow> nat list \<Rightarrow> nat list \<Rightarrow> nat list \<Rightarrow> nat \<Rightarrow> nat list"
  pf_registrationOptions :: "nat \<Rightarrow> user \<Rightarrow> credential list \<Rightarrow> string \<times> json"
  pf_verifyRegistration :: "json \<Rightarrow> string \<Rightarrow> error + registration option"
  pf_authenticationOptions :: "nat \<Rightarrow> credential list \<Rightarrow> string \<times> json"
  pf_verifyAuthentication :: "json \<Rightarrow> string \<Rightarrow> credential \<Rightarrow> error + int option"
  pf_stubOtp :: bool
  pf_production :: bool

text \<open>
  A request. Header names are in lower case; \<open>rq_params\<close> are the parameters of the path, \<open>rq_query\<close> those of the
  query string. \<open>rq_sessionId\<close> and \<open>rq_user\<close> are what the middlewares attach.
\<close>

record request =
  rq_method :: string
  rq_headers :: "string \<Rightarrow> string option"
  rq_params :: "(string \<times> string) list"
  rq_query :: "(string \<times> json) list"
  rq_body :: "json option"
  rq_ip :: "string option"
  rq_requestId :: string
  rq_sessionId :: "string option"
  rq_user :: "(string \<times> string \<times> role) option"

record response =
  rs_status :: int
  rs_body :: json
  rs_headers :: "(string \<times> string) list"

type_synonym 'a http = "(server, error, 'a) prog"
type_synonym handler = "request \<Rightarrow> response http"
type_synonym middleware = "handler \<Rightarrow> handler"

text \<open>Programs over the world, and the stores kept in the process, run in the server.\<close>

definition inWorld :: "'a op \<Rightarrow> 'a http" where
  "inWorld m = (\<lambda>s. case m (sv_world s) of (r, w) \<Rightarrow> (r, s\<lparr>sv_world := w\<rparr>))"

definition nowMs :: "int http" where
  "nowMs = inWorld clockNow"

definition query :: "(db \<Rightarrow> 'a) \<Rightarrow> 'a http" where
  "query f = inWorld (dbGet f)"

definition onSessions :: "(int \<Rightarrow> sessions \<Rightarrow> 'a \<times> sessions) \<Rightarrow> 'a http" where
  "onSessions f = bnd nowMs (\<lambda>now s. case f now (sv_sessions s) of (x, t) \<Rightarrow> (Inr x, s\<lparr>sv_sessions := t\<rparr>))"

text \<open>The same for any other store of the process.\<close>

definition onStore ::
  "(server \<Rightarrow> 's) \<Rightarrow> ('s \<Rightarrow> server \<Rightarrow> server) \<Rightarrow> (int \<Rightarrow> 's \<Rightarrow> 'a \<times> 's) \<Rightarrow> 'a http" where
  "onStore get put f = bnd nowMs (\<lambda>now s. case f now (get s) of (x, t) \<Rightarrow> (Inr x, put t s))"

definition fail :: "http_error \<Rightarrow> 'a http" where
  "fail e = raise (HttpErr e)"

definition json200 :: "json \<Rightarrow> response http" where
  "json200 j = ret \<lparr>rs_status = 200, rs_body = j, rs_headers = []\<rparr>"

definition jsonStatus :: "int \<Rightarrow> json \<Rightarrow> response http" where
  "jsonStatus st j = ret \<lparr>rs_status = st, rs_body = j, rs_headers = []\<rparr>"

text \<open>\<open>throw translate(err)\<close> around a use case.\<close>

definition mapError :: "(error \<Rightarrow> error) \<Rightarrow> 'a http \<Rightarrow> 'a http" where
  "mapError f m = tryCatch m (\<lambda>e. raise (f e))"

section \<open>Reading requests\<close>

text \<open>\<open>(req.body || {}).key\<close>; \<open>None\<close> is \<open>undefined\<close>.\<close>

definition field :: "request \<Rightarrow> string \<Rightarrow> json option" where
  "field rq k = (case rq_body rq of Some (JObject kvs) \<Rightarrow> map_of kvs k | _ \<Rightarrow> None)"

definition param :: "request \<Rightarrow> string \<Rightarrow> json option" where
  "param rq k = map_option JString (map_of (rq_params rq) k)"

definition isHexDigit :: "char \<Rightarrow> bool" where
  "isHexDigit c \<longleftrightarrow> isDigit c \<or> of_char c \<in> {65 .. 70 :: nat} \<or> of_char c \<in> {97 .. 102 :: nat}"

definition uuidPattern :: "(char \<Rightarrow> bool) list" where
  "uuidPattern = replicate 8 isHexDigit @ [\<lambda>c. c = CHR ''-''] @ replicate 4 isHexDigit @ [\<lambda>c. c = CHR ''-'']
     @ replicate 4 isHexDigit @ [\<lambda>c. c = CHR ''-''] @ replicate 4 isHexDigit @ [\<lambda>c. c = CHR ''-''] @ replicate 12 isHexDigit"

definition asUuid :: "json option \<Rightarrow> string option" where
  "asUuid v = (case v of Some (JString s) \<Rightarrow> if matchClasses uuidPattern s then Some s else None | _ \<Rightarrow> None)"

definition asNonEmpty :: "nat option \<Rightarrow> json option \<Rightarrow> string option" where
  "asNonEmpty limit v = (case v of
      Some (JString s) \<Rightarrow>
        if s \<noteq> [] \<and> (case limit of None \<Rightarrow> True | Some n \<Rightarrow> length s \<le> n) then Some s else None
    | _ \<Rightarrow> None)"

definition asText :: "json option \<Rightarrow> string option" where
  "asText v = (case v of Some (JString s) \<Rightarrow> Some s | _ \<Rightarrow> None)"

definition asPositiveInt :: "json option \<Rightarrow> int option" where
  "asPositiveInt v = (case v of Some (JNumber n) \<Rightarrow> if 0 < n then Some n else None | _ \<Rightarrow> None)"

definition isTrue :: "json option \<Rightarrow> bool" where
  "isTrue v \<longleftrightarrow> v = Some (JBool True)"

text \<open>\<open>v !== undefined && v !== null && !ok\<close>\<close>

definition optionalIs :: "(json \<Rightarrow> bool) \<Rightarrow> json option \<Rightarrow> bool" where
  "optionalIs ok v \<longleftrightarrow> (case v of None \<Rightarrow> True | Some JNull \<Rightarrow> True | Some j \<Rightarrow> ok j)"

definition textUpTo :: "nat \<Rightarrow> json \<Rightarrow> bool" where
  "textUpTo n v \<longleftrightarrow> (case v of JString s \<Rightarrow> length s \<le> n | _ \<Rightarrow> False)"

definition require :: "'a option \<Rightarrow> http_error \<Rightarrow> 'a http" where
  "require x e = need x (HttpErr e)"

definition check400 :: "bool \<Rightarrow> string \<Rightarrow> unit http" where
  "check400 ok msg = throwIf (\<not> ok) (HttpErr (badRequestError msg))"

section \<open>Encryption of the wire\<close>

definition IV_LEN :: nat where
  "IV_LEN = 12"

definition TAG_LEN :: nat where
  "TAG_LEN = 16"

text \<open>Random bytes are drawn as one number; \<open>bytesOf n r\<close> are its \<open>n\<close> bytes.\<close>

definition bytesOf :: "nat \<Rightarrow> nat \<Rightarrow> string" where
  "bytesOf n r = map (\<lambda>i. char_of ((r div 256 ^ i) mod 256)) [0..<n]"

definition encryptAES :: "platform \<Rightarrow> string \<Rightarrow> json \<Rightarrow> nat list \<Rightarrow> string \<Rightarrow> string" where
  "encryptAES P iv v key aad =
     (case pf_seal P key iv aad (stringify v) of (ciphertext, tag) \<Rightarrow> pf_base64 P (iv @ ciphertext @ tag))"

definition decryptAES :: "platform \<Rightarrow> string \<Rightarrow> nat list \<Rightarrow> string \<Rightarrow> error + json" where
  "decryptAES P payload key aad =
     (let buf = pf_unbase64 P payload in
      if length buf < IV_LEN + TAG_LEN then Inl (GenericError ''Payload too short'')
      else (let iv = take IV_LEN buf; tag = drop (length buf - TAG_LEN) buf;
                ciphertext = drop IV_LEN (take (length buf - TAG_LEN) buf) in
        (case pf_open P key iv aad ciphertext tag of
           None \<Rightarrow> Inl (GenericError ''Unsupported state or unable to authenticate data'')
         | Some plaintext \<Rightarrow> (case pf_parse P plaintext of
             None \<Rightarrow> Inl (GenericError ''Unexpected token'') | Some v \<Rightarrow> Inr v))))"

section \<open>Middlewares\<close>

definition userOf :: "request \<Rightarrow> (string \<times> string \<times> role) http" where
  "userOf rq = require (rq_user rq) (unauthorizedError ''Login required'')"

definition callerId :: "request \<Rightarrow> string" where
  "callerId rq = (case rq_user rq of None \<Rightarrow> [] | Some (i, n, r) \<Rightarrow> i)"

definition callerRole :: "request \<Rightarrow> role" where
  "callerRole rq = (case rq_user rq of None \<Rightarrow> Customer | Some (i, n, r) \<Rightarrow> r)"

definition requireSession :: middleware where
  "requireSession k rq =
     (if \<not> truthy (rq_sessionId rq) then fail (unauthorizedError ''Session required'') else
      bnd (onSessions (\<lambda>now. getBoundUser now (the (rq_sessionId rq)))) (\<lambda>userId.
      if \<not> truthy userId then fail (unauthorizedError ''Login required'') else
      bnd (query (\<lambda>d. findUserById d (the userId))) (\<lambda>x.
      bnd (require x (unauthorizedError ''Login required'')) (\<lambda>user.
      k (rq\<lparr>rq_user := Some (u_id user, u_username user, u_role user)\<rparr>)))))"

definition requireRole :: "role \<Rightarrow> middleware" where
  "requireRole r k rq =
     bnd (userOf rq) (\<lambda>u.
     thn (throwIf (snd (snd u) \<noteq> r) (HttpErr (forbiddenError ''Insufficient role''))) (k rq))"

definition requireBankingAccess :: middleware where
  "requireBankingAccess k rq =
     bnd (userOf rq) (\<lambda>u.
     thn (mapError (\<lambda>e. case e of KycE (KycBankingAccessDeniedError r) \<Rightarrow> HttpErr (forbiddenError (errorMessage e)) | _ \<Rightarrow> e)
            (inWorld (assertBankingAccess (fst u))))
         (k rq))"

definition hashActionParams :: "platform \<Rightarrow> json option \<Rightarrow> string" where
  "hashActionParams P v = pf_digest P (stringify (case v of None \<Rightarrow> JNull | Some j \<Rightarrow> j))"

text \<open>\<open>req.body && typeof req.body === "object" ? req.body : {}\<close>\<close>

definition bodyObject :: "request \<Rightarrow> json" where
  "bodyObject rq = (case rq_body rq of Some (JObject kvs) \<Rightarrow> JObject kvs | Some (JArray vs) \<Rightarrow> JArray vs | _ \<Rightarrow> JObject [])"

definition tokenError :: "string \<Rightarrow> token_verdict \<Rightarrow> http_error" where
  "tokenError name v = (case v of
      TokenMalformed \<Rightarrow> badRequestError (''Malformed '' @ name)
    | TokenExpired \<Rightarrow> forbiddenError ((if name = ''action token'' then ''Action token'' else name) @ '' expired'')
    | TokenConsumed \<Rightarrow> forbiddenError ((if name = ''action token'' then ''Action token'' else name) @ '' already used'')
    | _ \<Rightarrow> forbiddenError ((if name = ''action token'' then ''Action token'' else name) @ '' does not match request''))"

definition requireStepUp :: "platform \<Rightarrow> string \<Rightarrow> middleware" where
  "requireStepUp P action k rq =
     (if \<not> truthy (rq_headers rq ''x-action-token'') then fail (unauthorizedError ''Missing action token'') else
      if \<not> truthy (rq_sessionId rq) then fail (unauthorizedError ''No session for action token'') else
      (let token = the (rq_headers rq ''x-action-token''); sid = the (rq_sessionId rq);
           h = hashActionParams P (Some (bodyObject rq)) in
       bnd nowMs (\<lambda>now.
       bnd (\<lambda>s. case consumeActionToken (pf_action P) now token action sid h (sv_actionJti s) of
                   (v, c) \<Rightarrow> (Inr v, s\<lparr>sv_actionJti := c\<rparr>)) (\<lambda>v.
       thn (throwIf (v \<noteq> TokenOk) (HttpErr (tokenError ''action token'' v)))
      (bnd nowMs (\<lambda>now.
       bnd (\<lambda>s. case recordAttempt now sid action (sv_velocity s) of (vv, b) \<Rightarrow> (Inr vv, s\<lparr>sv_velocity := b\<rparr>)) (\<lambda>vv.
       case vv of
         VelAllowed \<Rightarrow> k rq
       | VelMinute r \<Rightarrow> fail (tooManyRequestsError ''Velocity cap (minute) reached'' (Some r))
       | VelDay r \<Rightarrow> fail (tooManyRequestsError ''Velocity cap (day) reached'' (Some r)))))))))"

definition requireOtp :: "platform \<Rightarrow> string \<Rightarrow> middleware" where
  "requireOtp P action k rq =
     (if \<not> truthy (rq_headers rq ''x-otp-token'') then fail (unauthorizedError ''Missing OTP token'') else
      if \<not> truthy (rq_sessionId rq) then fail (unauthorizedError ''No session for OTP token'') else
      (let token = the (rq_headers rq ''x-otp-token''); sid = the (rq_sessionId rq);
           h = hashActionParams P (Some (bodyObject rq)) in
       bnd nowMs (\<lambda>now.
       bnd (\<lambda>s. case consumeOtpToken (pf_otp P) now token action sid h (sv_otpJti s) of
                   (v, c) \<Rightarrow> (Inr v, s\<lparr>sv_otpJti := c\<rparr>)) (\<lambda>v.
       thn (throwIf (v \<noteq> TokenOk) (HttpErr (tokenError ''OTP token'' v))) (k rq)))))"

text \<open>A limiter has a name, which stands for the closure's own map.\<close>

definition limitRate :: "string \<Rightarrow> int \<Rightarrow> nat \<Rightarrow> middleware" where
  "limitRate name windowMs maxCount k rq =
     (let key = (if truthy (rq_ip rq) then the (rq_ip rq) else ''unknown'') in
      bnd nowMs (\<lambda>now.
      bnd (\<lambda>s. case rateLimit windowMs maxCount now key (case mapGet (sv_rates s) name of None \<Rightarrow> [] | Some b \<Rightarrow> b) of
                  (v, b) \<Rightarrow> (Inr v, s\<lparr>sv_rates := mapSet (sv_rates s) name b\<rparr>)) (\<lambda>v.
      case v of None \<Rightarrow> k rq
      | Some retry \<Rightarrow> fail (tooManyRequestsError ''Too many requests'' (Some retry)))))"

section \<open>Decryption of requests\<close>

definition MAX_PAYLOAD_LEN :: nat where
  "MAX_PAYLOAD_LEN = 64 * 1024"

text \<open>
  A valid envelope: its data, its nonce and the floor and the ceiling of its finite time stamp, between which
  every comparison with the integral clock is decided.
\<close>

definition asEnvelope :: "json \<Rightarrow> (json \<times> string \<times> int \<times> int) option" where
  "asEnvelope v = (case v of
      JObject kvs \<Rightarrow>
        (case (map_of kvs ''nonce'', map_of kvs ''timestamp'', map_of kvs ''data'') of
           (Some (JString n), Some (JNumber t), Some x) \<Rightarrow>
             if 16 \<le> length n \<and> length n \<le> 128 then Some (x, n, t, t) else None
         | (Some (JString n), Some (JFraction t txt), Some x) \<Rightarrow>
             if 16 \<le> length n \<and> length n \<le> 128 then Some (x, n, t, t + 1) else None
         | _ \<Rightarrow> None)
    | _ \<Rightarrow> None)"

definition headerSession :: "request \<Rightarrow> string option" where
  "headerSession rq = asUuid (map_option JString (rq_headers rq ''x-session-id''))"

definition decryptMiddleware :: "platform \<Rightarrow> middleware" where
  "decryptMiddleware P k rq =
     (if rq_method rq \<in> {''GET'', ''HEAD''} then
        bnd (require (headerSession rq) (badRequestError ''Invalid session'')) (\<lambda>sid.
        bnd (onSessions (\<lambda>now. getSessionKey now sid)) (\<lambda>key.
        bnd (require key (unauthorizedError ''Invalid session'')) (\<lambda>_.
        k (rq\<lparr>rq_sessionId := Some sid\<rparr>))))
      else
        bnd (require (headerSession rq) (badRequestError ''Invalid session'')) (\<lambda>sid.
        thn (check400 (asUuid (field rq ''sessionId'') = Some sid) ''Invalid session'')
       (bnd (require (asNonEmpty (Some MAX_PAYLOAD_LEN) (field rq ''payload'')) (badRequestError ''Invalid payload'')) (\<lambda>payload.
        bnd (onSessions (\<lambda>now. getSessionKey now sid)) (\<lambda>x.
        bnd (require x (unauthorizedError ''Invalid session'')) (\<lambda>key.
        bnd (mapError (\<lambda>_. HttpErr (badRequestError ''Decryption failed'')) (lift (decryptAES P payload key sid))) (\<lambda>v.
        bnd (require (asEnvelope v) (badRequestError ''Malformed envelope'')) (\<lambda>(x, nonce, lo, hi).
        bnd nowMs (\<lambda>now.
        thn (check400 (\<not> (TIMESTAMP_WINDOW_MS < now - lo \<or> TIMESTAMP_WINDOW_MS < hi - now)) ''Stale request'')
       (bnd (onSessions (\<lambda>now. recordNonce now sid nonce lo)) (\<lambda>fresh.
        thn (check400 fresh ''Replay detected'')
        (k (rq\<lparr>rq_body := Some x, rq_sessionId := Some sid\<rparr>)))))))))))))"

section \<open>Responses\<close>

text \<open>The central error handler of \<open>app.ts\<close>.\<close>

definition errorResponse :: "request \<Rightarrow> error \<Rightarrow> response" where
  "errorResponse rq e =
     (let body = (\<lambda>msg details. JObject [(''success'', JBool False),
            (''error'', JObject ([(''message'', JString msg), (''requestId'', JString (rq_requestId rq))] @ details))]) in
      (case e of
         HttpErr h \<Rightarrow> \<lparr>rs_status = http_status h,
            rs_body = body (http_message h) (case http_details h of None \<Rightarrow> []
              | Some kvs \<Rightarrow> [(''details'', JObject (map (\<lambda>(k, v). (k, JString v)) kvs))]),
            rs_headers = http_headers h\<rparr>
       | _ \<Rightarrow> \<lparr>rs_status = 500, rs_body = body ''Internal Server Error'' [], rs_headers = []\<rparr>))"

definition answerErrors :: "handler \<Rightarrow> handler" where
  "answerErrors k rq = tryCatch (k rq) (\<lambda>e. ret (errorResponse rq e))"

text \<open>
  \<open>encryptedResponse\<close>: \<open>req.sessionId\<close>, when it is set, is the header \<open>x-session-id\<close>, so the header alone
  decides. A response without a known session goes out in the clear.
\<close>

definition sealResponse :: "platform \<Rightarrow> request \<Rightarrow> response \<Rightarrow> response http" where
  "sealResponse P rq rs =
     (if \<not> truthy (rq_headers rq ''x-session-id'') then ret rs else
      (let sid = the (rq_headers rq ''x-session-id'') in
       bnd (onSessions (\<lambda>now. getSessionKey now sid)) (\<lambda>x.
       case x of None \<Rightarrow> ret rs
       | Some key \<Rightarrow>
           bnd (inWorld (draw (256 ^ 16))) (\<lambda>n.
           bnd nowMs (\<lambda>now.
           bnd (inWorld (draw (256 ^ IV_LEN))) (\<lambda>iv.
           (let envelope = JObject [(''data'', rs_body rs), (''nonce'', JString (padStart 32 (CHR ''0'') (showRadix 16 n))),
                                    (''timestamp'', JNumber now)] in
            ret (rs\<lparr>rs_body := JObject [(''payload'', JString (encryptAES P (bytesOf IV_LEN iv) envelope key sid))]\<rparr>))))))))"

definition encryptedResponse :: "platform \<Rightarrow> middleware" where
  "encryptedResponse P k rq = bnd (answerErrors k rq) (sealResponse P rq)"

section \<open>Auditing requests\<close>

definition requestIp :: "request \<Rightarrow> string option" where
  "requestIp rq = (case rq_headers rq ''x-forwarded-for'' of
      None \<Rightarrow> rq_ip rq
    | Some f \<Rightarrow> (let i = trim (takeWhile (\<lambda>c. c \<noteq> CHR '','') f) in if i = [] then rq_ip rq else Some i))"

definition auditRoleOf :: "role \<Rightarrow> audit_role" where
  "auditRoleOf r = (case r of Admin \<Rightarrow> RoleAdmin | Customer \<Rightarrow> RoleCustomer)"

definition requestAudit :: "string \<Rightarrow> (string \<times> string) option \<Rightarrow> int \<Rightarrow> request \<Rightarrow> audit_input" where
  "requestAudit action target statusCode rq =
     \<lparr>ai_action = action, ai_category = Some (categoryOf action), ai_actorUserId = map_option fst (rq_user rq),
      ai_actorUsername = map_option (fst \<circ> snd) (rq_user rq),
      ai_actorRole = Some (case rq_user rq of None \<Rightarrow> RoleAnonymous | Some (i, n, r) \<Rightarrow> auditRoleOf r),
      ai_sessionId = rq_sessionId rq, ai_target = target,
      ai_status = (if 400 \<le> statusCode then AuditFailure else AuditSuccess),
      ai_errorCode = (if 400 \<le> statusCode then Some (showInt statusCode) else None),
      ai_summary = (if 400 \<le> statusCode then action @ '' failed ('' @ showInt statusCode @ '')'' else action),
      ai_payload = Some (JObject (optField ''body'' (\<lambda>v. v) (rq_body rq)
         @ [(''params'', JObject (map (\<lambda>(k, v). (k, JString v)) (rq_params rq))), (''query'', JObject (rq_query rq))])),
      ai_requestId = Some (rq_requestId rq), ai_ip = requestIp rq, ai_userAgent = rq_headers rq ''user-agent'',
      ai_occurredAt = None\<rparr>"

text \<open>
  One row per request, written when the response is finished, with the status it went out with; an error of
  the recording is logged and swallowed.
\<close>

definition auditMiddleware :: "platform \<Rightarrow> string \<Rightarrow> (request \<Rightarrow> (string \<times> string) option) \<Rightarrow> middleware" where
  "auditMiddleware P action target k rq = (\<lambda>s. case k rq s of (r, s1) \<Rightarrow>
     if r = Inl Diverged then (r, s1) else
     (let st = (case r of Inl e \<Rightarrow> rs_status (errorResponse rq e) | Inr rs \<Rightarrow> rs_status rs) in
      (case inWorld (recordAudit (pf_sha256 P) (requestAudit action (target rq) st rq)) s1 of (_, s2) \<Rightarrow> (r, s2))))"

definition noTarget :: "request \<Rightarrow> (string \<times> string) option" where
  "noTarget rq = None"

section \<open>Mounts\<close>

text \<open>The middleware stacks of \<open>routes/index.ts\<close>, outermost first.\<close>

definition mountOpen :: "platform \<Rightarrow> middleware" where
  "mountOpen P k = encryptedResponse P (decryptMiddleware P k)"

definition mountCustomer :: "platform \<Rightarrow> middleware" where
  "mountCustomer P k = mountOpen P (requireSession k)"

definition mountBanking :: "platform \<Rightarrow> middleware" where
  "mountBanking P k = mountCustomer P (requireBankingAccess k)"

definition mountAdmin :: "platform \<Rightarrow> middleware" where
  "mountAdmin P k = mountCustomer P (requireRole Admin k)"

end
