(* ===== verification/HttpRules.thy ===== *)
theory HttpRules
  imports Http
begin

text \<open>
  How the middlewares act: what each of them may change and what holds when the handler behind it is reached.
\<close>

section \<open>Programs in the server\<close>

lemma wp_inWorld [wp_rules]:
  "wp (inWorld m) Q E s = wp m (\<lambda>x w. Q x (s\<lparr>sv_world := w\<rparr>)) (\<lambda>e w. E e (s\<lparr>sv_world := w\<rparr>)) (sv_world s)"
  by (simp add: wp_def inWorld_def split: prod.splits sum.splits)

definition ticked :: "server \<Rightarrow> server" where
  "ticked s = s\<lparr>sv_world := (sv_world s)\<lparr>w_clockN := Suc (w_clockN (sv_world s))\<rparr>\<rparr>"

lemma ticked_simps [simp]:
  "w_db (sv_world (ticked s)) = w_db (sv_world s)" "sv_sessions (ticked s) = sv_sessions s"
  "sv_actionJti (ticked s) = sv_actionJti s" "sv_otpJti (ticked s) = sv_otpJti s"
  "sv_velocity (ticked s) = sv_velocity s" "sv_rates (ticked s) = sv_rates s" "sv_otp (ticked s) = sv_otp s"
  "sv_logins (ticked s) = sv_logins s" "sv_handshakes (ticked s) = sv_handshakes s"
  "sv_pending (ticked s) = sv_pending s" "sv_passkeys (ticked s) = sv_passkeys s"
  "w_clock (sv_world (ticked s)) = w_clock (sv_world s)" "w_clockN (sv_world (ticked s)) = Suc (w_clockN (sv_world s))"
  by (simp_all add: ticked_def)

lemma wp_nowMs [wp_rules]: "wp nowMs Q E s = Q (nowOf (sv_world s)) (ticked s)"
  by (simp add: wp_def nowMs_def inWorld_def clockNow_def nowOf_def ticked_def)

lemma wp_query [wp_rules]: "wp (query f) Q E s = Q (f (w_db (sv_world s))) s"
  by (simp add: query_def wp_rules)

lemma wp_require [wp_rules]: "wp (require x e) Q E s = (case x of None \<Rightarrow> E (HttpErr e) s | Some y \<Rightarrow> Q y s)"
  by (simp add: require_def wp_rules)

lemma wp_fail [wp_rules]: "wp (fail e) Q E s = E (HttpErr e) s"
  by (simp add: fail_def wp_rules)

lemma wp_check400 [wp_rules]: "wp (check400 ok msg) Q E s = (if ok then Q () s else E (HttpErr (badRequestError msg)) s)"
  by (simp add: check400_def wp_rules)

lemma wp_point [wp_rules]: "wp (ret x) Q E = Q x" "wp (raise e) Q E = E e"
  by (auto simp: wp_rules)

lemma wp_mapError [wp_rules]: "wp (mapError f m) Q E s = wp m Q (\<lambda>e. E (if e = Diverged then Diverged else f e)) s"
  unfolding mapError_def wp_tryCatch wp_point by (rule arg_cong [where f = "\<lambda>F. wp m Q F s"]) (simp add: fun_eq_iff)

lemma wp_json [wp_rules]:
  "wp (json200 j) Q E s = Q \<lparr>rs_status = 200, rs_body = j, rs_headers = []\<rparr> s"
  "wp (jsonStatus st j) Q E s = Q \<lparr>rs_status = st, rs_body = j, rs_headers = []\<rparr> s"
  by (simp_all add: json200_def jsonStatus_def wp_rules)

lemma wp_onSessions [wp_rules]:
  "wp (onSessions f) Q E s =
     (case f (nowOf (sv_world s)) (sv_sessions s) of (x, t) \<Rightarrow> Q x ((ticked s)\<lparr>sv_sessions := t\<rparr>))"
  by (simp add: onSessions_def wp_rules) (simp add: wp_def ticked_def split: prod.splits)

text \<open>An operation on another part of the state.\<close>

lemma wp_step: "wp (\<lambda>s. case f s of (x, t) \<Rightarrow> (Inr x, g t s)) Q E s = (case f s of (x, t) \<Rightarrow> Q x (g t s))"
  by (simp add: wp_def split: prod.splits)

section \<open>What a request finds\<close>

text \<open>The user of every session that is still there is the one it had.\<close>

definition usersFrom :: "sessions \<Rightarrow> sessions \<Rightarrow> bool" where
  "usersFrom t t' \<longleftrightarrow> (\<forall>sid e'. mapGet t' sid = Some e' \<longrightarrow> (\<exists>e. mapGet t sid = Some e \<and> se_userId e' = se_userId e))"

lemma usersFrom_refl [simp]: "usersFrom t t"
  by (simp add: usersFrom_def)

lemma usersFrom_trans: "usersFrom a b \<Longrightarrow> usersFrom b c \<Longrightarrow> usersFrom a c"
  unfolding usersFrom_def by metis

lemma usersFrom_ops:
  "getSessionKey now i t = (x, t') \<Longrightarrow> usersFrom t t'" "recordNonce now i n ts t = (y, t') \<Longrightarrow> usersFrom t t'"
  "getBoundUser now i t = (z, t') \<Longrightarrow> usersFrom t t'"
  by (auto simp: usersFrom_def getSessionKey_def recordNonce_def getBoundUser_def deleteSession_def Let_def
      split: option.splits if_splits)

text \<open>The user a session is bound to.\<close>

definition boundTo :: "server \<Rightarrow> string \<Rightarrow> string option" where
  "boundTo s sid = (case mapGet (sv_sessions s) sid of None \<Rightarrow> None | Some e \<Rightarrow> se_userId e)"

text \<open>
  \<open>calm s s'\<close>: only sessions were touched, the clock was read and random bytes were drawn; the database and the
  stores of tokens and counters are as they were.
\<close>

definition calm :: "server \<Rightarrow> server \<Rightarrow> bool" where
  "calm s s' \<longleftrightarrow> w_db (sv_world s') = w_db (sv_world s) \<and> usersFrom (sv_sessions s) (sv_sessions s')
     \<and> sv_actionJti s' = sv_actionJti s \<and> sv_otpJti s' = sv_otpJti s \<and> sv_velocity s' = sv_velocity s
     \<and> sv_otp s' = sv_otp s \<and> sv_logins s' = sv_logins s \<and> sv_handshakes s' = sv_handshakes s"

lemma calm_refl [simp]: "calm s s"
  by (simp add: calm_def)

lemma calm_trans: "calm s s' \<Longrightarrow> calm s' s'' \<Longrightarrow> calm s s''"
  by (auto simp: calm_def intro: usersFrom_trans)

lemma calm_ticked [simp]: "calm s (ticked s)"
  by (simp add: calm_def)

lemma calm_sessions: "usersFrom (sv_sessions s) t \<Longrightarrow> calm s ((ticked s)\<lparr>sv_sessions := t\<rparr>)"
  by (simp add: calm_def)

lemma boundTo_calm: "calm s s' \<Longrightarrow> boundTo s' sid = Some u \<Longrightarrow> boundTo s sid = Some u"
  by (fastforce simp: calm_def boundTo_def usersFrom_def split: option.splits)

lemma getBoundUser_bound: "fst (getBoundUser now sid (sv_sessions s)) = Some u \<Longrightarrow> boundTo s sid = Some u"
  by (auto simp: getBoundUser_def boundTo_def split: option.splits if_splits)

lemma calm_db: "calm s s' \<Longrightarrow> w_db (sv_world s') = w_db (sv_world s)"
  by (simp add: calm_def)

text \<open>The statuses the gates answer with.\<close>

definition isRefusal :: "http_error \<Rightarrow> bool" where
  "isRefusal e \<longleftrightarrow> http_status e \<in> {400, 401, 403}"

lemma isRefusal_simps [simp]:
  "isRefusal (badRequestError m)" "isRefusal (unauthorizedError m)" "isRefusal (forbiddenError m)"
  by (simp_all add: isRefusal_def http_defs)

lemma requireSession_wp:
  assumes "\<And>e s'. calm s s' \<Longrightarrow> isRefusal e \<Longrightarrow> E (HttpErr e) s'"
    and "\<And>u n r s'. calm s s' \<Longrightarrow> truthy (rq_sessionId rq) \<Longrightarrow>
           boundTo s (the (rq_sessionId rq)) = Some (u_id r) \<Longrightarrow>
           findUserById (w_db (sv_world s)) (u_id r) = Some r \<Longrightarrow>
           wp (k (rq\<lparr>rq_user := Some (u_id r, u_username r, u_role r)\<rparr>)) Q E s'"
  shows "wp (requireSession k rq) Q E s"
proof (cases "truthy (rq_sessionId rq)")
  case False
  then show ?thesis using assms(1) [OF calm_refl] by (simp add: requireSession_def wp_rules)
next
  case True
  obtain x t where g: "getBoundUser (nowOf (sv_world s)) (the (rq_sessionId rq)) (sv_sessions s) = (x, t)" by fastforce
  let ?s = "(ticked s)\<lparr>sv_sessions := t\<rparr>"
  have c: "calm s ?s" by (rule calm_sessions) (rule usersFrom_ops(3) [OF g])
  note E = assms(1) [OF c]
  show ?thesis
  proof (cases "truthy x")
    case False
    with True g E show ?thesis by (simp add: requireSession_def wp_rules)
  next
    case t: True
    show ?thesis
    proof (cases "findUserById (w_db (sv_world s)) (the x)")
      case None
      with True t g E show ?thesis by (simp add: requireSession_def wp_rules calm_db [OF c])
    next
      case (Some r)
      then have "u_id r = the x" by (auto simp: findUserById_def dest: find_Some_iff_mem)
      with Some t g have "boundTo s (the (rq_sessionId rq)) = Some (u_id r)"
          "findUserById (w_db (sv_world s)) (u_id r) = Some r"
        by (auto simp: truthy_def intro!: getBoundUser_bound [of "nowOf (sv_world s)"] split: option.splits)
      from assms(2) [OF c True this] Some True t g show ?thesis
        by (simp add: requireSession_def wp_rules calm_db [OF c])
    qed
  qed
qed

lemma requireRole_wp:
  assumes "\<And>e. isRefusal e \<Longrightarrow> E (HttpErr e) s" and "callerRole rq = r \<Longrightarrow> rq_user rq \<noteq> None \<Longrightarrow> wp (k rq) Q E s"
  shows "wp (requireRole r k rq) Q E s"
  using assms by (auto simp: requireRole_def userOf_def wp_rules callerRole_def split: option.splits)

lemma requireBankingAccess_wp:
  assumes "\<And>e. isRefusal e \<Longrightarrow> E (HttpErr e) s" and "bankingAccessError (w_db (sv_world s)) (callerId rq) = Inr () \<Longrightarrow> wp (k rq) Q E s"
  shows "wp (requireBankingAccess k rq) Q E s"
  using assms by (auto simp: requireBankingAccess_def userOf_def wp_rules callerId_def bankingAccessError_def Let_def
      split: option.splits sum.splits if_splits)

text \<open>What the step-up middleware demands and leaves behind.\<close>

definition steppedUp :: "platform \<Rightarrow> string \<Rightarrow> request \<Rightarrow> server \<Rightarrow> server \<Rightarrow> bool" where
  "steppedUp P action rq s s' \<longleftrightarrow> (\<exists>token m.
     rq_headers rq ''x-action-token'' = Some token \<and> verifyToken (pf_action P) token = Some m
     \<and> mt_action m = action \<and> Some (mt_sessionId m) = rq_sessionId rq
     \<and> mt_paramsHash m = hashActionParams P (Some (bodyObject rq)) \<and> nowOf (sv_world s) \<le> mt_exp m
     \<and> mt_jti m \<notin> set (sv_actionJti s) \<and> mt_jti m \<in> set (sv_actionJti s'))"

definition calmButTokens :: "server \<Rightarrow> server \<Rightarrow> bool" where
  "calmButTokens s s' \<longleftrightarrow> w_db (sv_world s') = w_db (sv_world s) \<and> sv_otpJti s' = sv_otpJti s
     \<and> sv_sessions s' = sv_sessions s"

lemma truthy_iff: "truthy x \<longleftrightarrow> (\<exists>t. x = Some t \<and> t \<noteq> [])"
  by (cases x) (auto simp: truthy_def)

lemma consume_fresh:
  "consumeActionToken C now token action sid h c = (TokenOk, c') \<Longrightarrow> \<exists>m. verifyToken C token = Some m \<and> now \<le> mt_exp m
     \<and> mt_jti m \<notin> set c \<and> mt_jti m \<in> set c' \<and> mt_action m = action \<and> mt_sessionId m = sid \<and> mt_paramsHash m = h"
  by (auto simp: consumeActionToken_def split: option.splits if_splits)

lemma requireStepUp_wp:
  assumes "\<And>e s'. calmButTokens s s' \<Longrightarrow> E e s'"
    and "\<And>s'. calmButTokens s s' \<Longrightarrow> steppedUp P action rq s s' \<Longrightarrow> wp (k rq) Q E s'"
  shows "wp (requireStepUp P action k rq) Q E s"
proof (cases "truthy (rq_headers rq ''x-action-token'') \<and> truthy (rq_sessionId rq)")
  case False
  then show ?thesis using assms(1) [of s] by (auto simp: requireStepUp_def wp_rules calmButTokens_def)
next
  case True
  then obtain token sid where h: "rq_headers rq ''x-action-token'' = Some token" "rq_sessionId rq = Some sid"
      "truthy (Some token)" "truthy (Some sid)"
    by (auto simp: truthy_iff)
  obtain v c where v: "consumeActionToken (pf_action P) (nowOf (sv_world s)) token action sid
      (hashActionParams P (Some (bodyObject rq))) (sv_actionJti s) = (v, c)" by fastforce
  let ?s1 = "(ticked s)\<lparr>sv_actionJti := c\<rparr>"
  obtain vv b where vv: "recordAttempt (nowOf (sv_world ?s1)) sid action (sv_velocity s) = (vv, b)" by fastforce
  let ?s2 = "(ticked ?s1)\<lparr>sv_velocity := b\<rparr>"
  have calm: "calmButTokens s ?s1" "calmButTokens s ?s2" by (simp_all add: calmButTokens_def)
  have "steppedUp P action rq s ?s2" if "v = TokenOk"
    using consume_fresh [OF v [unfolded that]] h by (auto simp: steppedUp_def)
  then have "v = TokenOk \<Longrightarrow> wp (k rq) Q E ?s2" by (rule assms(2) [OF calm(2)])
  with v vv h assms(1) [OF calm(1)] assms(1) [OF calm(2)] show ?thesis
    by (simp add: requireStepUp_def wp_rules wp_step Let_def split: velocity_verdict.split)
qed

text \<open>The request that reaches the handler behind the decryption has a session with a key, named by its header.\<close>

lemma decryptAES_returns: "decryptAES P payload key aad \<noteq> Inl Diverged"
  by (auto simp: decryptAES_def Let_def split: option.splits)

lemma decryptMiddleware_wp:
  assumes "\<And>e s'. calm s s' \<Longrightarrow> isRefusal e \<Longrightarrow> E (HttpErr e) s'"
    and "\<And>body sid s'. calm s s' \<Longrightarrow> headerSession rq = Some sid \<Longrightarrow>
           wp (k (rq\<lparr>rq_body := body, rq_sessionId := Some sid\<rparr>)) Q E s'"
  shows "wp (decryptMiddleware P k rq) Q E s"
proof (cases "headerSession rq")
  case None
  then show ?thesis using assms(1) [OF calm_refl] by (simp add: decryptMiddleware_def wp_rules)
next
  case (Some sid)
  obtain key t where k: "getSessionKey (nowOf (sv_world s)) sid (sv_sessions s) = (key, t)" by fastforce
  let ?s1 = "(ticked s)\<lparr>sv_sessions := t\<rparr>"
  let ?s2 = "ticked ?s1"
  let ?nonce = "\<lambda>n ts. recordNonce (nowOf (sv_world ?s2)) sid n ts t"
  have u: "usersFrom (sv_sessions s) t" by (rule usersFrom_ops(1) [OF k])
  then have c: "calm s ?s1" "calm s ?s2" by (auto simp: calm_def)
  have c3: "calm s ((ticked ?s2)\<lparr>sv_sessions := snd (?nonce n ts)\<rparr>)" for n ts
    using usersFrom_trans [OF u usersFrom_ops(2)] by (auto simp: calm_def prod_eq_iff)
  note E = assms(1) [OF calm_refl] assms(1) [OF c(1)] assms(1) [OF c(2)] assms(1) [OF c3]
  have get: "wp (k (rq\<lparr>rq_sessionId := Some sid\<rparr>)) Q E ?s1"
    using assms(2) [OF c(1) Some, of "rq_body rq"] by simp
  show ?thesis
  proof (cases "rq_method rq \<in> {''GET'', ''HEAD''}")
    case True
    with Some k E get show ?thesis by (simp add: decryptMiddleware_def wp_rules split: option.split)
  next
    case False
    with Some k E assms(2) [OF c3 Some] show ?thesis
      by (simp add: decryptMiddleware_def wp_rules case_prod_unfold decryptAES_returns split: option.split sum.split)
  qed
qed

text \<open>The answer to a request, errors included, goes out encrypted or not; the database is as the handler left it.\<close>

lemma sealResponse_wp:
  "wp (sealResponse P rq rs) (\<lambda>rs' s'. rs_status rs' = rs_status rs \<and> calm s s') (\<lambda>_ _. False) s"
proof -
  obtain x t where t: "getSessionKey (nowOf (sv_world s)) (the (rq_headers rq ''x-session-id'')) (sv_sessions s) = (x, t)"
    by fastforce
  from usersFrom_ops(1) [OF this] have "usersFrom (sv_sessions s) t" .
  with t show ?thesis by (simp add: sealResponse_def wp_rules Let_def calm_def split: option.split)
qed

lemma encryptedResponse_wp:
  assumes "\<And>s1 s2 st. calm s1 s2 \<Longrightarrow> I st s1 \<Longrightarrow> I st s2"
    and "wp (k rq) (\<lambda>rs. I (rs_status rs)) (\<lambda>e. I (rs_status (errorResponse rq e))) s"
  shows "wp (encryptedResponse P k rq) (\<lambda>rs. I (rs_status rs)) (\<lambda>e s'. e = Diverged \<and> I 500 s') s"
proof -
  have "wp (sealResponse P rq rs) (\<lambda>rs. I (rs_status rs)) (\<lambda>e s'. e = Diverged \<and> I 500 s') s'"
    if "I (rs_status rs) s'" for rs s'
    by (rule wp_mono [OF sealResponse_wp]) (use assms(1) that in auto)
  then show ?thesis
    unfolding encryptedResponse_def answerErrors_def wp_bnd wp_tryCatch wp_ret
    by (intro wp_mono [OF assms(2)]) (auto simp: errorResponse_def)
qed

section \<open>Handlers that act on the world only\<close>

named_theorems world_rules \<open>programs that change nothing of the server but its world\<close>

definition storesOf :: "server \<Rightarrow> sessions \<times> handshakes \<times> login_states \<times> otp_slots \<times> consumed_jti \<times> consumed_jti
     \<times> velocity_buckets \<times> (string, rate_buckets) jsmap \<times> pending_challenges \<times> passkey_challenges" where
  "storesOf s = (sv_sessions s, sv_handshakes s, sv_logins s, sv_otp s, sv_actionJti s, sv_otpJti s, sv_velocity s,
     sv_rates s, sv_pending s, sv_passkeys s)"

definition worldOnly :: "'a http \<Rightarrow> bool" where
  "worldOnly m \<longleftrightarrow> (\<forall>s. storesOf (snd (m s)) = storesOf s)"

lemma storesOf_world [simp]: "storesOf (s\<lparr>sv_world := w\<rparr>) = storesOf s"
  by (simp add: storesOf_def)

lemma worldOnly_inWorld [world_rules]: "worldOnly (inWorld m)"
  by (auto simp: worldOnly_def inWorld_def split: prod.splits)

lemma worldOnly_bnd [world_rules]: "worldOnly m \<Longrightarrow> (\<And>x. worldOnly (k x)) \<Longrightarrow> worldOnly (bnd m k)"
  unfolding worldOnly_def bnd_def by (auto split: prod.splits sum.splits) (metis snd_conv)+

lemma worldOnly_point [world_rules]: "worldOnly (ret x)" "worldOnly (raise e)" "worldOnly (throwIf c e)" "worldOnly (lift r)"
    "worldOnly (need y e)" "worldOnly (gets f)"
  by (auto simp: worldOnly_def ret_def raise_def throwIf_def lift_def need_def gets_def split: option.splits)

lemma worldOnly_tryCatch [world_rules]: "worldOnly m \<Longrightarrow> (\<And>e. worldOnly (h e)) \<Longrightarrow> worldOnly (tryCatch m h)"
  unfolding worldOnly_def tryCatch_def by (auto split: prod.splits sum.splits) (metis snd_conv)+

lemma worldOnly_if [world_rules]: "worldOnly m \<Longrightarrow> worldOnly n \<Longrightarrow> worldOnly (if c then m else n)"
  by simp

lemma worldOnly_option [world_rules]:
  "worldOnly m \<Longrightarrow> (\<And>x. worldOnly (f x)) \<Longrightarrow> worldOnly (case y of None \<Rightarrow> m | Some x \<Rightarrow> f x)"
  by (cases y) auto

lemma worldOnly_http [world_rules]: "worldOnly nowMs" "worldOnly (query f)" "worldOnly (fail e)" "worldOnly (require y g)"
    "worldOnly (check400 b msg)" "worldOnly (json200 j)" "worldOnly (jsonStatus st j)"
  unfolding nowMs_def query_def fail_def require_def check400_def json200_def jsonStatus_def by (intro world_rules)+

lemma worldOnly_mapError [world_rules]: "worldOnly m \<Longrightarrow> worldOnly (mapError f m)"
  unfolding mapError_def by (intro world_rules)

lemma worldOnly_audit [world_rules]: "worldOnly (k rq) \<Longrightarrow> worldOnly (auditMiddleware P a t k rq)"
  unfolding worldOnly_def auditMiddleware_def inWorld_def by (auto split: prod.splits) (metis snd_conv)+

lemma worldOnly_wp:
  assumes "worldOnly m"
    and "wp m (\<lambda>_ s'. I (w_db (sv_world s'))) (\<lambda>_ s'. I (w_db (sv_world s'))) s" and "J (sv_actionJti s)"
  shows "wp m (\<lambda>_ s'. I (w_db (sv_world s')) \<and> J (sv_actionJti s')) (\<lambda>_ s'. I (w_db (sv_world s')) \<and> J (sv_actionJti s')) s"
proof -
  have "sv_actionJti (snd (m s)) = sv_actionJti s" using assms(1) by (simp add: worldOnly_def storesOf_def)
  with assms(2,3) show ?thesis by (simp add: wp_snd)
qed

lemma leaves_recordAudit [leaves_rules]: "leaves bankView (recordAudit sha inp)"
  unfolding recordAudit_def insertAudit_def Let_def by (intro leaves_rules) simp_all

text \<open>A property of the bank's tables survives the recording of the request.\<close>

lemma auditMiddleware_wp:
  assumes "wp (k rq) (\<lambda>_ s'. I (w_db (sv_world s'))) (\<lambda>_ s'. I (w_db (sv_world s'))) s"
    and "\<And>d d'. bankView d' = bankView d \<Longrightarrow> I d \<Longrightarrow> I d'"
  shows "wp (auditMiddleware P a t k rq) (\<lambda>_ s'. I (w_db (sv_world s'))) (\<lambda>_ s'. I (w_db (sv_world s'))) s"
proof -
  obtain r s1 where k: "k rq s = (r, s1)" by fastforce
  with assms(1) have I: "I (w_db (sv_world s1))" by (auto simp: wp_def split: sum.splits)
  have "bankView (w_db (snd (recordAudit sha x w))) = bankView (w_db w)" for sha x w
    using leaves_recordAudit by (simp add: leaves_def)
  with assms(2) [OF _ I] show ?thesis
    unfolding wp_snd by (simp add: auditMiddleware_def k inWorld_def case_prod_unfold Let_def)
qed

section \<open>Handlers that leave a part of the database alone\<close>

named_theorems quiet_rules \<open>handlers that leave a part of the database alone\<close>

definition quiet :: "(db \<Rightarrow> 'v) \<Rightarrow> 'a http \<Rightarrow> bool" where
  "quiet v m \<longleftrightarrow> (\<forall>s. v (w_db (sv_world (snd (m s)))) = v (w_db (sv_world s)))"

lemma quiet_inWorld [quiet_rules]: "leaves v m \<Longrightarrow> quiet v (inWorld m)"
  by (auto simp: quiet_def leaves_def inWorld_def split: prod.splits) (metis snd_conv)

lemma quiet_bnd [quiet_rules]: "quiet v m \<Longrightarrow> (\<And>x. quiet v (k x)) \<Longrightarrow> quiet v (bnd m k)"
  unfolding quiet_def bnd_def by (auto split: prod.splits sum.splits) (metis snd_conv)+

lemma quiet_point [quiet_rules]: "quiet v (ret x)" "quiet v (raise e)" "quiet v (throwIf c e)" "quiet v (lift r)"
    "quiet v (need y e)" "quiet v (gets f)"
  by (auto simp: quiet_def ret_def raise_def throwIf_def lift_def need_def gets_def split: option.splits)

lemma quiet_tryCatch [quiet_rules]: "quiet v m \<Longrightarrow> (\<And>e. quiet v (h e)) \<Longrightarrow> quiet v (tryCatch m h)"
  unfolding quiet_def tryCatch_def by (auto split: prod.splits sum.splits) (metis snd_conv)+

lemma quiet_if [quiet_rules]: "quiet v m \<Longrightarrow> quiet v n \<Longrightarrow> quiet v (if c then m else n)"
  by simp

lemma quiet_option [quiet_rules]:
  "quiet v m \<Longrightarrow> (\<And>x. quiet v (f x)) \<Longrightarrow> quiet v (case y of None \<Rightarrow> m | Some x \<Rightarrow> f x)"
  by (cases y) auto

lemma quiet_http [quiet_rules]: "quiet v nowMs" "quiet v (query f)" "quiet v (fail e)" "quiet v (require y g)"
    "quiet v (check400 b msg)" "quiet v (json200 j)" "quiet v (jsonStatus st j)"
  unfolding nowMs_def query_def fail_def require_def check400_def json200_def jsonStatus_def
  by (intro quiet_rules leaves_rules)+

lemma quiet_mapError [quiet_rules]: "quiet v m \<Longrightarrow> quiet v (mapError f m)"
  unfolding mapError_def by (intro quiet_rules)

text \<open>Stepping over a quiet part of a handler.\<close>

lemma quiet_step:
  assumes "quiet v m" and "\<And>e s'. v (w_db (sv_world s')) = v (w_db (sv_world s)) \<Longrightarrow> E e s'"
    and "\<And>x s'. v (w_db (sv_world s')) = v (w_db (sv_world s)) \<Longrightarrow> wp (k x) Q E s'"
  shows "wp (bnd m k) Q E s"
proof -
  obtain r s1 where m: "m s = (r, s1)" by fastforce
  with assms(1) have "v (w_db (sv_world s1)) = v (w_db (sv_world s))" unfolding quiet_def by (metis snd_conv)
  with m assms(2,3) show ?thesis by (auto simp: wp_bnd) (auto simp: wp_def split: sum.split)
qed

lemma quiet_wp:
  assumes "quiet v m" and "\<And>x s'. v (w_db (sv_world s')) = v (w_db (sv_world s)) \<Longrightarrow> Q x s'"
    and "\<And>e s'. v (w_db (sv_world s')) = v (w_db (sv_world s)) \<Longrightarrow> E e s'"
  shows "wp m Q E s"
proof -
  obtain r s1 where m: "m s = (r, s1)" by fastforce
  with assms(1) have "v (w_db (sv_world s1)) = v (w_db (sv_world s))" unfolding quiet_def by (metis snd_conv)
  with m assms(2,3) show ?thesis by (auto simp: wp_def split: sum.split)
qed

end
