(* ===== verification/Routes.thy ===== *)
theory Routes
  imports Http
begin

text \<open>
  What the routes of all contexts share: how a body field, a path parameter and a query parameter is checked,
  how optional values and dates are written, and the targets named in the audit log.
\<close>

section \<open>Writing\<close>

definition optText :: "string \<Rightarrow> string option \<Rightarrow> (string \<times> json) list" where
  "optText k x = optField k JString x"

definition isoDate :: "int \<Rightarrow> json" where
  "isoDate t = JString (toISOString t)"

definition jsonList :: "string \<Rightarrow> ('a \<Rightarrow> json) \<Rightarrow> 'a list \<Rightarrow> json" where
  "jsonList k f xs = JObject [(k, JArray (map f xs))]"

definition jsonOne :: "string \<Rightarrow> json \<Rightarrow> json" where
  "jsonOne k v = JObject [(k, v)]"

primrec tierName :: "kyc_tier \<Rightarrow> string" where
  "tierName TierNone = ''none''"
| "tierName TierBasic = ''basic''"
| "tierName TierFull = ''full''"

primrec roleName :: "role \<Rightarrow> string" where
  "roleName Customer = ''customer''"
| "roleName Admin = ''admin''"

section \<open>Reading\<close>

definition needUuid :: "json option \<Rightarrow> string \<Rightarrow> string http" where
  "needUuid v msg = require (asUuid v) (badRequestError msg)"

definition needText :: "nat \<Rightarrow> json option \<Rightarrow> string \<Rightarrow> string http" where
  "needText n v msg = require (asNonEmpty (Some n) v) (badRequestError msg)"

definition needPositive :: "request \<Rightarrow> string \<Rightarrow> string \<Rightarrow> int http" where
  "needPositive rq k msg = require (asPositiveInt (field rq k)) (badRequestError msg)"

text \<open>\<open>v !== undefined && v !== null && !isNonEmptyString(v, n)\<close>\<close>

definition optionalText :: "nat \<Rightarrow> json option \<Rightarrow> bool" where
  "optionalText n v \<longleftrightarrow> optionalIs (\<lambda>j. asNonEmpty (Some n) (Some j) \<noteq> None) v"

text \<open>A whole number between two bounds.\<close>

definition asIntIn :: "int \<Rightarrow> int \<Rightarrow> json option \<Rightarrow> int option" where
  "asIntIn lo hi v = (case v of Some (JNumber n) \<Rightarrow> if lo \<le> n \<and> n \<le> hi then Some n else None | _ \<Rightarrow> None)"

text \<open>The target of an audit row taken from the path.\<close>

definition paramTarget :: "string \<Rightarrow> request \<Rightarrow> (string \<times> string) option" where
  "paramTarget ty rq = (case map_of (rq_params rq) ''id'' of None \<Rightarrow> None
     | Some i \<Rightarrow> if i = [] then None else Some (ty, i))"

definition tierOf :: "request \<Rightarrow> kyc_tier http" where
  "tierOf rq = query (\<lambda>d. getKycTier d (callerId rq))"

definition bestEffort :: "unit http \<Rightarrow> unit http" where
  "bestEffort m = tryCatch m (\<lambda>_. ret ())"

section \<open>Numbers in query strings\<close>

text \<open>\<open>parseInt(text, 10)\<close>; \<open>None\<close> is \<open>NaN\<close>.\<close>

definition decimalValue :: "string \<Rightarrow> int" where
  "decimalValue s = foldl (\<lambda>a c. 10 * a + (of_char c - 48)) 0 s"

definition parseIntText :: "string \<Rightarrow> int option" where
  "parseIntText text =
     (let s = trimStart text;
          neg = (s \<noteq> [] \<and> hd s = CHR ''-'');
          ds = takeWhile isDigit (if s \<noteq> [] \<and> hd s \<in> set ''+-'' then tl s else s) in
      if ds = [] then None else Some (if neg then - decimalValue ds else decimalValue ds))"

text \<open>
  \<open>Number(value)\<close>. A decimal literal has its exact value, but what a double rounds to infinity or to zero is
  infinite or zero.
\<close>

definition asDouble :: "rat \<Rightarrow> number" where
  "asDouble r = (if 2 ^ 1024 - 2 ^ 970 \<le> r then JInf else if r \<le> - (2 ^ 1024 - 2 ^ 970) then JNegInf
     else if abs r * 2 ^ 1075 \<le> 1 then JNum 0 else JNum r)"

definition exponentOf :: "string \<Rightarrow> int option" where
  "exponentOf s =
     (let ds = (if s \<noteq> [] \<and> hd s \<in> set ''+-'' then tl s else s) in
      if ds = [] \<or> \<not> list_all isDigit ds then None
      else Some (if hd s = CHR ''-'' then - decimalValue ds else decimalValue ds))"

definition scaled :: "rat \<Rightarrow> int \<Rightarrow> rat" where
  "scaled r e = (if 0 \<le> e then r * 10 ^ nat e else r / 10 ^ nat (- e))"

definition decimalLiteral :: "string \<Rightarrow> rat option" where
  "decimalLiteral s =
     (let ip = takeWhile isDigit s; r1 = dropWhile isDigit s;
          dot = (r1 \<noteq> [] \<and> hd r1 = CHR ''.'');
          fp = (if dot then takeWhile isDigit (tl r1) else []);
          r2 = (if dot then dropWhile isDigit (tl r1) else r1);
          v = scaled (of_int (decimalValue (ip @ fp))) (- int (length fp)) in
      if ip = [] \<and> fp = [] then None
      else (case r2 of [] \<Rightarrow> Some v
            | c # t \<Rightarrow> if c \<in> set ''eE'' then map_option (scaled v) (exponentOf t) else None))"

definition radixDigit :: "char \<Rightarrow> int option" where
  "radixDigit c = (let n = of_char c :: int in
     if 48 \<le> n \<and> n \<le> 57 then Some (n - 48)
     else if 97 \<le> n \<and> n \<le> 122 then Some (n - 87) else if 65 \<le> n \<and> n \<le> 90 then Some (n - 55) else None)"

definition radixLiteral :: "int \<Rightarrow> string \<Rightarrow> number" where
  "radixLiteral b s =
     (if s = [] \<or> \<not> list_all (\<lambda>c. case radixDigit c of None \<Rightarrow> False | Some k \<Rightarrow> k < b) s then JNaN
      else asDouble (of_int (foldl (\<lambda>a c. b * a + the (radixDigit c)) 0 s)))"

definition textToNumber :: "string \<Rightarrow> number" where
  "textToNumber text =
     (let s = trim text; signed = (s \<noteq> [] \<and> hd s \<in> set ''+-''); u = (if signed then tl s else s);
          neg = (s \<noteq> [] \<and> hd s = CHR ''-'') in
      if s = [] then JNum 0
      else if u = ''Infinity'' then (if neg then JNegInf else JInf)
      else if take 2 s \<in> {''0x'', ''0X''} then radixLiteral 16 (drop 2 s)
      else if take 2 s \<in> {''0o'', ''0O''} then radixLiteral 8 (drop 2 s)
      else if take 2 s \<in> {''0b'', ''0B''} then radixLiteral 2 (drop 2 s)
      else (case decimalLiteral u of None \<Rightarrow> JNaN | Some r \<Rightarrow> asDouble (if neg then - r else r)))"

text \<open>A query parameter is a text, or a list or an object of them.\<close>

fun toNumber :: "json option \<Rightarrow> number" where
  "toNumber (Some (JString s)) = textToNumber s"
| "toNumber (Some (JArray [])) = JNum 0"
| "toNumber (Some (JArray [x])) = toNumber (Some x)"
| "toNumber _ = JNaN"

end
