(* ===== verification/PaymentRoutes.thy ===== *)
theory PaymentRoutes
  imports Routes Statements AccountFacts BeneficiaryOps Disputes MakerChecker
begin

text \<open>
  The routes of payments: transfers, disputes, the administrators' transactions, the faucet and the pending
  actions (\<open>contexts/payments/interface/routes.ts\<close>). \<open>bus\<close> is the container's.
\<close>

section \<open>Serialization\<close>

primrec transferStatusName :: "transfer_status \<Rightarrow> string" where
  "transferStatusName Pending = ''pending''"
| "transferStatusName Posted = ''posted''"
| "transferStatusName Failed = ''failed''"

primrec transferCategoryName :: "transfer_category \<Rightarrow> string" where
  "transferCategoryName P2p = ''p2p''"
| "transferCategoryName Self = ''self''"
| "transferCategoryName CFaucet = ''faucet''"
| "transferCategoryName CBill = ''bill''"
| "transferCategoryName CCard = ''card''"

definition serializeTransfer :: "transfer \<Rightarrow> json" where
  "serializeTransfer t = JObject
     ([(''id'', JString (t_id t))] @ optText ''idempotencyKey'' (t_idempotencyKey t)
      @ optText ''fromAccountId'' (t_fromAccountId t) @ optText ''toAccountId'' (t_toAccountId t)
      @ [(''amountMinor'', JNumber (t_amount t)), (''currency'', JString (t_currency t))] @ optText ''memo'' (t_memo t)
      @ [(''kind'', JString (transferKindName (t_kind t))), (''status'', JString (transferStatusName (t_status t))),
         (''rail'', JString (railName (t_rail t)))]
      @ optText ''utr'' (t_utr t) @ optText ''failureReason'' (t_failureReason t)
      @ [(''postedAt'', isoDate (t_postedAt t))] @ optText ''referenceNumber'' (t_referenceNumber t)
      @ [(''feeMinor'', JNumber (t_fee t))]
      @ optField ''category'' (\<lambda>c. JString (transferCategoryName c)) (t_category t)
      @ optText ''fromAccountNumber'' (t_fromAccountNumber t) @ optText ''toAccountNumber'' (t_toAccountNumber t)
      @ optText ''fromUsername'' (t_fromUsername t) @ optText ''toUsername'' (t_toUsername t)
      @ optText ''description'' (t_description t) @ optText ''billerId'' (t_billerId t))"

definition serializeLedger :: "ledger_entry \<Rightarrow> json" where
  "serializeLedger e = JObject
     [(''id'', JString (l_id e)), (''accountId'', JString (l_accountId e)), (''transferId'', JString (l_transferId e)),
      (''kind'', JString (directionName (l_kind e))), (''amountMinor'', JNumber (l_amount e)),
      (''runningBalanceMinor'', JNumber (l_runningBalance e)), (''postedAt'', isoDate (l_postedAt e))]"

primrec disputeStatusName :: "dispute_status \<Rightarrow> string" where
  "disputeStatusName DSubmitted = ''submitted''"
| "disputeStatusName DUnderReview = ''under_review''"
| "disputeStatusName DApproved = ''approved''"
| "disputeStatusName DRejected = ''rejected''"

definition serializeDispute :: "dispute \<Rightarrow> json" where
  "serializeDispute p = JObject
     ([(''id'', JString (d_id p)), (''userId'', JString (d_userId p)), (''transferId'', JString (d_transferId p)),
       (''reason'', JString (d_reason p)), (''status'', JString (disputeStatusName (d_status p)))]
      @ optText ''adminNote'' (d_adminNote p) @ optText ''reversalTransferId'' (d_reversalTransferId p)
      @ [(''createdAt'', isoDate (d_createdAt p))] @ optField ''decidedAt'' isoDate (d_decidedAt p))"

primrec pendingStatusName :: "pending_status \<Rightarrow> string" where
  "pendingStatusName PaPending = ''pending''"
| "pendingStatusName PaApproved = ''approved''"
| "pendingStatusName PaRejected = ''rejected''"
| "pendingStatusName PaExecuted = ''executed''"

definition pendingJson :: "pending_action \<Rightarrow> json" where
  "pendingJson a = JObject
     ([(''id'', JString (pa_id a)), (''action'', JString (pa_action a)), (''requestedByUserId'', JString (pa_requestedBy a))]
      @ optText ''approvedByUserId'' (pa_approvedBy a)
      @ [(''payload'', JString (pa_payload a)), (''status'', JString (pendingStatusName (pa_status a))),
         (''createdAt'', JDate (pa_createdAt a))] @ optField ''decidedAt'' JDate (pa_decidedAt a))"

definition limitsJson :: "limit_preview \<Rightarrow> json" where
  "limitsJson p = JObject
     [(''dailyUsedMinor'', JNumber (lp_dailyUsed p)), (''dailyLimitMinor'', JNumber (lp_dailyLimit p)),
      (''monthlyUsedMinor'', JNumber (lp_monthlyUsed p)), (''monthlyLimitMinor'', JNumber (lp_monthlyLimit p)),
      (''perTransactionMaxMinor'', JNumber (lp_perTransactionMax p))]"

section \<open>Transfers\<close>

text \<open>The checks of the request body that several handlers share.\<close>

definition checkMemo :: "request \<Rightarrow> unit http" where
  "checkMemo rq = check400 (optionalIs (textUpTo 256) (field rq ''memo'')) ''Invalid memo''"

definition optKey :: "request \<Rightarrow> string option http" where
  "optKey rq = (case field rq ''idempotencyKey'' of None \<Rightarrow> ret None
     | Some v \<Rightarrow> bnd (require (asNonEmpty (Some 128) (Some v)) (badRequestError ''Invalid idempotencyKey'')) (\<lambda>k. ret (Some k)))"

definition needAmount :: "request \<Rightarrow> int http" where
  "needAmount rq = require (asPositiveInt (field rq ''amountMinor'')) (badRequestError ''Invalid amountMinor'')"

text \<open>\<open>beneficiaryId\<close> stands in for the account number of the saved payee.\<close>

definition resolvePayee :: "request \<Rightarrow> (string option \<times> json option) http" where
  "resolvePayee rq =
     (case field rq ''beneficiaryId'' of
        Some (JString b) \<Rightarrow>
          if b = [] then ret (None, field rq ''toAccountNumber'') else
          bnd (require (asUuid (Some (JString b))) (badRequestError ''Invalid beneficiaryId'')) (\<lambda>i.
          bnd (query (\<lambda>d. findBeneficiaryById d i)) (\<lambda>x.
          bnd (require (case x of None \<Rightarrow> None | Some p \<Rightarrow> if b_ownerUserId p \<noteq> callerId rq then None else Some p)
                 (notFoundError ''Beneficiary not found'')) (\<lambda>p.
          bnd (inWorld clockNow) (\<lambda>now.
          thn (throwIf (\<not> isTransferAllowed p now) (Ben BeneficiaryCoolingPeriodError))
              (ret (Some (b_id p), Some (JString (b_accountNumber p))))))))
      | _ \<Rightarrow> ret (None, field rq ''toAccountNumber''))"

definition postTransferRoute :: "bus \<Rightarrow> handler" where
  "postTransferRoute bus rq = mapError paymentsMapErr (
     bnd (require (asUuid (field rq ''fromAccountId'')) (badRequestError ''Invalid fromAccountId'')) (\<lambda>fromId.
     bnd (resolvePayee rq) (\<lambda>(payee, target).
     bnd (require (asNonEmpty (Some 32) target) (badRequestError ''Invalid toAccountNumber'')) (\<lambda>toNr.
     bnd (needAmount rq) (\<lambda>amount.
     thn (checkMemo rq)
    (bnd (optKey rq) (\<lambda>key.
     bnd (query (\<lambda>d. findAccountById d fromId)) (\<lambda>x.
     bnd (require x (notFoundError ''Source account not found'')) (\<lambda>src.
     thn (throwIf (acc_userId src \<noteq> callerId rq) (HttpErr (forbiddenError ''Source account does not belong to user'')))
    (bnd (tierOf rq) (\<lambda>tier.
     bnd (inWorld (executeTransfer bus
            \<lparr>ti_fromAccountId = fromId, ti_toAccountNumber = toNr, ti_amount = JNum (of_int amount), ti_currency = INR,
             ti_memo = asText (field rq ''memo''), ti_idempotencyKey = key, ti_beneficiaryId = payee,
             ti_ownerUserId = Some (callerId rq), ti_kycTier = Some tier, ti_rail = Some Internal\<rparr>)) (\<lambda>t.
     thn (bestEffort (inWorld (touchBeneficiaryByAccount (callerId rq) toNr)))
         (json200 (JObject [(''transfer'', serializeTransfer t)]))))))))))))))"

definition getLimitsRoute :: handler where
  "getLimitsRoute rq =
     bnd (query (\<lambda>d. myAccountIds d (callerId rq))) (\<lambda>ids.
     bnd (tierOf rq) (\<lambda>tier.
     bnd (inWorld (gets w_tz)) (\<lambda>tz.
     bnd (inWorld clockNow) (\<lambda>now.
     bnd (query (\<lambda>d. previewLimits tz d ids tier now)) (\<lambda>p.
     json200 (JObject [(''limits'', limitsJson p), (''kycTier'', JString (tierName tier))]))))))"

definition railOf :: "json option \<Rightarrow> transfer_rail option" where
  "railOf v = (if v = Some (JString ''imps'') then Some Imps else if v = Some (JString ''neft'') then Some Neft
     else if v = Some (JString ''rtgs'') then Some Rtgs else if v = Some (JString ''upi'') then Some Upi else None)"

definition postRailRoute :: "bus \<Rightarrow> handler" where
  "postRailRoute bus rq = mapError paymentsMapErr (
     bnd (require (asUuid (field rq ''fromAccountId'')) (badRequestError ''Invalid fromAccountId'')) (\<lambda>fromId.
     bnd (require (asNonEmpty (Some 32) (field rq ''toAccountNumber'')) (badRequestError ''Invalid toAccountNumber'')) (\<lambda>toNr.
     bnd (needAmount rq) (\<lambda>amount.
     bnd (require (railOf (field rq ''rail'')) (badRequestError ''Invalid rail'')) (\<lambda>rail.
     thn (checkMemo rq)
    (bnd (optKey rq) (\<lambda>key.
     thn (check400 (optionalIs (\<lambda>v. case v of JString s \<Rightarrow> isValidIfsc (toUpperCase s) | _ \<Rightarrow> False) (field rq ''ifsc''))
            ''Invalid ifsc'')
    (bnd (query (\<lambda>d. findAccountById d fromId)) (\<lambda>x.
     thn (throwIf (case x of None \<Rightarrow> True | Some a \<Rightarrow> acc_userId a \<noteq> callerId rq)
            (HttpErr (forbiddenError ''Source account does not belong to user'')))
    (bnd (tierOf rq) (\<lambda>tier.
     bnd (inWorld (executeRailTransfer bus
            \<lparr>ri_fromAccountId = fromId, ri_toAccountNumber = toNr, ri_amount = JNum (of_int amount), ri_currency = INR,
             ri_rail = rail, ri_memo = asText (field rq ''memo''), ri_idempotencyKey = key, ri_ownerUserId = callerId rq,
             ri_kycTier = tier, ri_vpa = asText (field rq ''vpa''),
             ri_ifsc = map_option toUpperCase (asText (field rq ''ifsc''))\<rparr>)) (\<lambda>t.
     json200 (JObject [(''transfer'', serializeTransfer t)])))))))))))))"

section \<open>Disputes of a customer\<close>

definition ellipsis :: string where
  "ellipsis = [CHR 0xE2, CHR 0x80, CHR 0xA6]"

definition postDisputeRoute :: handler where
  "postDisputeRoute rq = mapError paymentsMapErr (
     bnd (require (asUuid (field rq ''transferId'')) (badRequestError ''Invalid transferId'')) (\<lambda>tid.
     bnd (require (asNonEmpty (Some 512) (field rq ''reason'')) (badRequestError ''Invalid reason'')) (\<lambda>reason.
     bnd (inWorld (fileDispute (callerId rq) tid reason)) (\<lambda>p.
     thn (inWorld (emitNotification (callerId rq) NDisputeFiled ''Dispute submitted''
            (''We received your dispute for transfer '' @ take 8 tid @ ellipsis) (Some ''dispute'') (Some (d_id p))))
         (jsonStatus 201 (JObject [(''dispute'', serializeDispute p)]))))))"

definition getDisputesRoute :: handler where
  "getDisputesRoute rq = bnd (query (\<lambda>d. listDisputesByUserId d (callerId rq))) (\<lambda>ps.
     json200 (JObject [(''disputes'', JArray (map serializeDispute ps))]))"

section \<open>Looking at transfers\<close>

definition getRecentRoute :: handler where
  "getRecentRoute rq =
     bnd (require (asUuid (map_of (rq_query rq) ''accountId'')) (badRequestError ''Invalid accountId'')) (\<lambda>i.
     bnd (query (\<lambda>d. findAccountById d i)) (\<lambda>x.
     bnd (require (case x of None \<Rightarrow> None | Some a \<Rightarrow> if acc_userId a \<noteq> callerId rq then None else Some a)
            (notFoundError ''Account not found'')) (\<lambda>a.
     bnd (query (\<lambda>d. listLedgerByAccount d (acc_id a) 50)) (\<lambda>es.
     json200 (JObject [(''entries'', JArray (map serializeLedger es))])))))"

definition touchesAny :: "string list \<Rightarrow> transfer \<Rightarrow> bool" where
  "touchesAny ids t \<longleftrightarrow> (truthy (t_fromAccountId t) \<and> the (t_fromAccountId t) \<in> set ids)
     \<or> (truthy (t_toAccountId t) \<and> the (t_toAccountId t) \<in> set ids)"

definition getMineRoute :: handler where
  "getMineRoute rq =
     bnd (query (\<lambda>d. myAccountIds d (callerId rq))) (\<lambda>ids.
     if ids = [] then json200 (JObject [(''transfers'', JArray [])]) else
     bnd (query (\<lambda>d. listTransfers d 500)) (\<lambda>ts.
     json200 (JObject [(''transfers'', JArray (map serializeTransfer (filter (touchesAny ids) ts)))])))"

definition ownsSide :: "db \<Rightarrow> string \<Rightarrow> string option \<Rightarrow> bool" where
  "ownsSide d u side \<longleftrightarrow> truthy side
     \<and> (case findAccountById d (the side) of None \<Rightarrow> False | Some a \<Rightarrow> acc_userId a = u)"

definition maySeeTransfer :: "db \<Rightarrow> string \<Rightarrow> role \<Rightarrow> transfer \<Rightarrow> bool" where
  "maySeeTransfer d u r t \<longleftrightarrow> r = Admin \<or> ownsSide d u (t_fromAccountId t) \<or> ownsSide d u (t_toAccountId t)"

definition getTransferRoute :: handler where
  "getTransferRoute rq =
     bnd (require (asUuid (param rq ''id'')) (badRequestError ''Invalid transfer id'')) (\<lambda>i.
     bnd (query (\<lambda>d. findTransferById d i)) (\<lambda>x.
     bnd (require x (notFoundError ''Transfer not found'')) (\<lambda>t.
     bnd (query (\<lambda>d. maySeeTransfer d (callerId rq) (callerRole rq) t)) (\<lambda>ok.
     thn (throwIf (\<not> ok) (HttpErr (forbiddenError ''Not your transfer'')))
    (bnd (query (\<lambda>d. listLedgerByTransfer d (t_id t))) (\<lambda>es.
     json200 (JObject [(''transfer'', serializeTransfer t), (''entries'', JArray (map serializeLedger es))])))))))"

section \<open>Administrators\<close>

definition getTransactionsRoute :: handler where
  "getTransactionsRoute rq = bnd (query (\<lambda>d. listTransfers d 200)) (\<lambda>ts.
     json200 (JObject [(''transfers'', JArray (map serializeTransfer ts))]))"

definition postFaucetRoute :: "bus \<Rightarrow> handler" where
  "postFaucetRoute bus rq = mapError paymentsMapErr (
     bnd (require (asUuid (field rq ''toAccountId'')) (badRequestError ''Invalid toAccountId'')) (\<lambda>toId.
     bnd (needAmount rq) (\<lambda>amount.
     thn (check400 (case field rq ''memo'' of None \<Rightarrow> True | Some v \<Rightarrow> textUpTo 256 v) ''Invalid memo'')
    (bnd (optKey rq) (\<lambda>key.
     if requiresMakerChecker amount \<and> \<not> isTrue (field rq ''skipMakerChecker'') then
       bnd (inWorld (createPendingAction ''admin.faucet'' (callerId rq)
              (JObject ([(''toAccountId'', JString toId), (''amountMinor'', JNumber amount)]
                 @ optText ''memo'' (asText (field rq ''memo'')) @ optText ''idempotencyKey'' key)))) (\<lambda>a.
       jsonStatus 202 (JObject [(''pendingAction'', pendingJson a)]))
     else
       bnd (inWorld (faucetDeposit bus \<lparr>fi_toAccountId = toId, fi_amount = JNum (of_int amount), fi_currency = INR,
              fi_memo = asText (field rq ''memo''), fi_idempotencyKey = key\<rparr>)) (\<lambda>t.
       json200 (JObject [(''transfer'', serializeTransfer t)])))))))"

definition listDisputesAll :: "db \<Rightarrow> nat \<Rightarrow> dispute list" where
  "listDisputesAll d limit = take limit (sort_key (\<lambda>r. - d_createdAt r) (db_disputes d))"

definition getAllDisputesRoute :: handler where
  "getAllDisputesRoute rq = bnd (query (\<lambda>d. listDisputesAll d 200)) (\<lambda>ps.
     json200 (JObject [(''disputes'', JArray (map serializeDispute ps))]))"

definition decideDisputeRoute :: "bus \<Rightarrow> handler" where
  "decideDisputeRoute bus rq = mapError paymentsMapErr (
     (let approve = isTrue (field rq ''approve'') in
     bnd (require (asUuid (param rq ''id'')) (badRequestError ''Invalid id'')) (\<lambda>i.
     thn (check400 (optionalIs (\<lambda>v. asText (Some v) \<noteq> None) (field rq ''adminNote'')) ''Invalid adminNote'')
    (bnd (inWorld (decideDispute bus i (callerId rq) approve (asText (field rq ''adminNote'')))) (\<lambda>p.
     thn (inWorld (emitNotification (d_userId p) NDisputeDecided
            (if approve then ''Dispute approved'' else ''Dispute rejected'')
            (if approve then ''Your dispute was approved. Funds may be reversed if applicable.''
             else ''Your dispute was reviewed and rejected.'') (Some ''dispute'') (Some (d_id p))))
         (json200 (JObject [(''dispute'', serializeDispute p)])))))))"

definition getPendingRoute :: handler where
  "getPendingRoute rq = bnd (query listPendingActions) (\<lambda>xs.
     json200 (JObject [(''pendingActions'', JArray (map pendingJson xs))]))"

text \<open>
  The stored payload is read back as JSON; \<open>payload.toAccountId\<close> of a payload without that text would reach the
  database as \<open>undefined\<close>, which the model answers like an account that does not exist.
\<close>

definition numberField :: "json option \<Rightarrow> number" where
  "numberField v = (case v of Some (JNumber n) \<Rightarrow> JNum (of_int n) | _ \<Rightarrow> JNaN)"

definition faucetFromPayload :: "json \<Rightarrow> faucet_input" where
  "faucetFromPayload v = (let get = (\<lambda>k. case v of JObject kvs \<Rightarrow> map_of kvs k | _ \<Rightarrow> None) in
     \<lparr>fi_toAccountId = (case asText (get ''toAccountId'') of None \<Rightarrow> [] | Some s \<Rightarrow> s),
      fi_amount = numberField (get ''amountMinor''), fi_currency = INR, fi_memo = asText (get ''memo''),
      fi_idempotencyKey = asText (get ''idempotencyKey'')\<rparr>)"

definition approvePendingRoute :: "platform \<Rightarrow> bus \<Rightarrow> handler" where
  "approvePendingRoute P bus rq = mapError paymentsMapErr (
     bnd (require (asUuid (param rq ''id'')) (badRequestError ''Invalid id'')) (\<lambda>i.
     bnd (inWorld (approvePendingAction i (callerId rq))) (\<lambda>x.
     bnd (require x (notFoundError ''Pending action not found'')) (\<lambda>a.
     if pa_action a = ''admin.faucet'' then
       bnd (need (pf_parse P (pa_payload a)) (GenericError ''Unexpected token'')) (\<lambda>v.
       bnd (inWorld (faucetDeposit bus (faucetFromPayload v))) (\<lambda>t.
       thn (inWorld (markPendingExecuted (pa_id a)))
           (json200 (JObject [(''pendingAction'', pendingJson a), (''transfer'', serializeTransfer t)]))))
     else json200 (JObject [(''pendingAction'', pendingJson a)])))))"

section \<open>The routers\<close>

datatype payment_route =
    PostTransfer | GetLimits | PostRail | PostDispute | GetDisputes | GetRecent | GetMine | GetTransfer
  | AdminTransactions | PostFaucet | AdminDisputes | AdminDecide | AdminPending | AdminApprove

definition transferTarget :: "request \<Rightarrow> (string \<times> string) option" where
  "transferTarget rq = (case field rq ''fromAccountId'' of
     Some (JString i) \<Rightarrow> if i = [] then None else Some (''account'', i) | _ \<Rightarrow> None)"

fun paymentHandler :: "platform \<Rightarrow> bus \<Rightarrow> payment_route \<Rightarrow> handler" where
  "paymentHandler P bus PostTransfer = mountBanking P (requireStepUp P ''transfer''
     (auditMiddleware P ''transfer.executed'' transferTarget (postTransferRoute bus)))"
| "paymentHandler P bus GetLimits = mountBanking P getLimitsRoute"
| "paymentHandler P bus PostRail = mountBanking P (requireStepUp P ''transfer''
     (auditMiddleware P ''transfer.rail.executed'' noTarget (postRailRoute bus)))"
| "paymentHandler P bus PostDispute = mountBanking P (auditMiddleware P ''dispute.filed'' noTarget postDisputeRoute)"
| "paymentHandler P bus GetDisputes = mountBanking P getDisputesRoute"
| "paymentHandler P bus GetRecent = mountBanking P getRecentRoute"
| "paymentHandler P bus GetMine = mountBanking P getMineRoute"
| "paymentHandler P bus GetTransfer = mountBanking P getTransferRoute"
| "paymentHandler P bus AdminTransactions =
     mountAdmin P (auditMiddleware P ''admin.transactions.listed'' noTarget getTransactionsRoute)"
| "paymentHandler P bus PostFaucet =
     mountAdmin P (auditMiddleware P ''admin.faucet.issued'' noTarget (requireStepUp P ''faucet'' (postFaucetRoute bus)))"
| "paymentHandler P bus AdminDisputes = mountAdmin P getAllDisputesRoute"
| "paymentHandler P bus AdminDecide = mountAdmin P (decideDisputeRoute bus)"
| "paymentHandler P bus AdminPending = mountAdmin P getPendingRoute"
| "paymentHandler P bus AdminApprove = mountAdmin P (approvePendingRoute P bus)"

end
