(* ===== verification/PaymentSecurity.thy ===== *)
theory PaymentSecurity
  imports HttpRules PaymentRoutes PaymentFacts
begin

text \<open>
  End to end: what a request to a payment route has to carry before it can move money, and whose money it can move.
\<close>

section \<open>A fresh action token\<close>

text \<open>
  The request names a session bound to \<open>u\<close> and carries a token minted for that session and that action, which
  was not used before and is used up now.
\<close>

definition authorised :: "platform \<Rightarrow> string \<Rightarrow> request \<Rightarrow> server \<Rightarrow> consumed_jti \<Rightarrow> string \<Rightarrow> bool" where
  "authorised P action rq s jtis u \<longleftrightarrow> (\<exists>sid token m.
     headerSession rq = Some sid \<and> boundTo s sid = Some u
     \<and> rq_headers rq ''x-action-token'' = Some token \<and> verifyToken (pf_action P) token = Some m
     \<and> mt_action m = action \<and> mt_sessionId m = sid \<and> mt_jti m \<notin> set (sv_actionJti s) \<and> mt_jti m \<in> set jtis)"

lemma mountBanking_wp:
  assumes "I (w_db (sv_world s)) (sv_actionJti s)"
    and "\<And>body sid (u :: user) s'. calm s s' \<Longrightarrow> headerSession rq = Some sid \<Longrightarrow> boundTo s sid = Some (u_id u) \<Longrightarrow>
           wp (k (rq\<lparr>rq_body := body, rq_sessionId := Some sid, rq_user := Some (u_id u, u_username u, u_role u)\<rparr>))
             (\<lambda>_ s'. I (w_db (sv_world s')) (sv_actionJti s')) (\<lambda>_ s'. I (w_db (sv_world s')) (sv_actionJti s')) s'"
  shows "wp (mountBanking P k rq) (\<lambda>_ s'. I (w_db (sv_world s')) (sv_actionJti s'))
     (\<lambda>_ s'. I (w_db (sv_world s')) (sv_actionJti s')) s"
  unfolding mountBanking_def mountCustomer_def mountOpen_def
proof (rule wp_mono [OF encryptedResponse_wp [where I = "\<lambda>_ s'. I (w_db (sv_world s')) (sv_actionJti s')"]], simp add: calm_def,
    rule decryptMiddleware_wp)
  fix e and s' :: server assume "calm s s'"
  with assms(1) show "I (w_db (sv_world s')) (sv_actionJti s')" by (simp add: calm_def)
next
  fix body sid and s' :: server assume c: "calm s s'" and h: "headerSession rq = Some sid"
  show "wp (requireSession (requireBankingAccess k) (rq\<lparr>rq_body := body, rq_sessionId := Some sid\<rparr>))
      (\<lambda>_ s'. I (w_db (sv_world s')) (sv_actionJti s')) (\<lambda>_ s'. I (w_db (sv_world s')) (sv_actionJti s')) s'"
  proof (rule requireSession_wp)
    fix e and s2 :: server assume "calm s' s2"
    with c assms(1) show "I (w_db (sv_world s2)) (sv_actionJti s2)" by (simp add: calm_def)
  next
    fix r :: user and s2 :: server
    assume c2: "calm s' s2" and b: "boundTo s' (the (rq_sessionId (rq\<lparr>rq_body := body, rq_sessionId := Some sid\<rparr>))) = Some (u_id r)"
    from calm_trans [OF c c2] have c3: "calm s s2" .
    have b': "boundTo s sid = Some (u_id r)" using boundTo_calm [OF c] b by simp
    show "wp (requireBankingAccess k (rq\<lparr>rq_body := body, rq_sessionId := Some sid,
            rq_user := Some (u_id r, u_username r, u_role r)\<rparr>))
        (\<lambda>_ s'. I (w_db (sv_world s')) (sv_actionJti s')) (\<lambda>_ s'. I (w_db (sv_world s')) (sv_actionJti s')) s2"
      by (rule requireBankingAccess_wp) (use c3 assms(1) assms(2) [OF c3 h b'] in \<open>auto simp: calm_def\<close>)
  qed
qed simp_all

lemma postTransferRoute_world: "worldOnly (postTransferRoute bus rq)"
  unfolding postTransferRoute_def resolvePayee_def needAmount_def checkMemo_def optKey_def tierOf_def bestEffort_def
  by (intro world_rules | simp add: world_rules split: json.split prod.split)+

lemma postRailRoute_world: "worldOnly (postRailRoute bus rq)"
  unfolding postRailRoute_def needAmount_def checkMemo_def optKey_def tierOf_def
  by (intro world_rules | simp add: world_rules)+

lemma steppedUp_authorised:
  assumes "steppedUp P action (rq\<lparr>rq_body := body, rq_sessionId := Some sid, rq_user := x\<rparr>) s1 s2"
    and "calm s s1" and "headerSession rq = Some sid" and "boundTo s sid = Some u"
  shows "authorised P action rq s (sv_actionJti s2) u"
  using assms by (auto simp: steppedUp_def authorised_def calm_def)

lemma banking_step_up:
  assumes "\<And>rq. worldOnly (h rq)"
  shows "wp (mountBanking P (requireStepUp P action (auditMiddleware P a t h)) rq)
     (\<lambda>_ s'. bankView (w_db (sv_world s')) = bankView (w_db (sv_world s))
        \<or> (\<exists>u. authorised P action rq s (sv_actionJti s') u))
     (\<lambda>_ s'. bankView (w_db (sv_world s')) = bankView (w_db (sv_world s))
        \<or> (\<exists>u. authorised P action rq s (sv_actionJti s') u)) s"
proof (rule mountBanking_wp [where I = "\<lambda>d j. bankView d = bankView (w_db (sv_world s)) \<or> (\<exists>u. authorised P action rq s j u)"])
  fix body sid and u :: user and s1 :: server
  assume c: "calm s s1" and h: "headerSession rq = Some sid" "boundTo s sid = Some (u_id u)"
  let ?rq = "rq\<lparr>rq_body := body, rq_sessionId := Some sid, rq_user := Some (u_id u, u_username u, u_role u)\<rparr>"
  show "wp (requireStepUp P action (auditMiddleware P a t h) ?rq)
     (\<lambda>_ s'. bankView (w_db (sv_world s')) = bankView (w_db (sv_world s)) \<or> (\<exists>u. authorised P action rq s (sv_actionJti s') u))
     (\<lambda>_ s'. bankView (w_db (sv_world s')) = bankView (w_db (sv_world s)) \<or> (\<exists>u. authorised P action rq s (sv_actionJti s') u)) s1"
  proof (rule requireStepUp_wp)
    fix e and s2 :: server assume "calmButTokens s1 s2"
    with c show "bankView (w_db (sv_world s2)) = bankView (w_db (sv_world s))
        \<or> (\<exists>u. authorised P action rq s (sv_actionJti s2) u)"
      by (simp add: calm_def calmButTokens_def)
  next
    fix s2 :: server assume "steppedUp P action ?rq s1 s2"
    from steppedUp_authorised [OF this c h]
    have "\<exists>u. authorised P action rq s (sv_actionJti s2) u" by blast
    have "wp (auditMiddleware P a t h ?rq)
        (\<lambda>_ s'. True \<and> (\<exists>u. authorised P action rq s (sv_actionJti s') u))
        (\<lambda>_ s'. True \<and> (\<exists>u. authorised P action rq s (sv_actionJti s') u)) s2"
      by (rule worldOnly_wp) (use assms \<open>\<exists>u. authorised P action rq s (sv_actionJti s2) u\<close> in \<open>simp_all add: worldOnly_audit\<close>)
    then show "wp (auditMiddleware P a t h ?rq)
       (\<lambda>_ s'. bankView (w_db (sv_world s')) = bankView (w_db (sv_world s)) \<or> (\<exists>u. authorised P action rq s (sv_actionJti s') u))
       (\<lambda>_ s'. bankView (w_db (sv_world s')) = bankView (w_db (sv_world s)) \<or> (\<exists>u. authorised P action rq s (sv_actionJti s') u)) s2"
      by (rule wp_mono) simp_all
  qed
qed simp

text \<open>
  No money moves without a fresh gesture: after any request to one of the two transfer routes, whatever
  it contains, the bank's tables are as they were, or the request named a session bound to a user and carried
  a transfer token minted for that session which had not been used and now is.
\<close>

theorem transfer_needs_step_up:
  "let asItWas = (\<lambda>s'. bankView (w_db (sv_world s')) = bankView (w_db (sv_world s)));
       fresh = (\<lambda>s'. \<exists>u. authorised P ''transfer'' rq s (sv_actionJti s') u);
       s1 = snd (paymentHandler P bus PostTransfer rq s); s2 = snd (paymentHandler P bus PostRail rq s)
   in (asItWas s1 \<or> fresh s1) \<and> (asItWas s2 \<or> fresh s2)"
  unfolding Let_def paymentHandler.simps
  using wp_sndD [OF banking_step_up [where h = "postTransferRoute bus" and P = P and action = "''transfer''"
        and a = "''transfer.executed''" and t = transferTarget and rq = rq and s = s, OF postTransferRoute_world]]
    wp_sndD [OF banking_step_up [where h = "postRailRoute bus" and P = P and action = "''transfer''"
        and a = "''transfer.rail.executed''" and t = noTarget and rq = rq and s = s, OF postRailRoute_world]]
  by blast

section \<open>Whose money\<close>

text \<open>Whoever's account lost money is \<open>u\<close>.\<close>

definition lossesOf :: "string \<Rightarrow> db \<Rightarrow> db \<Rightarrow> bool" where
  "lossesOf u d d' \<longleftrightarrow> (\<forall>i. balanceOf d' i < balanceOf d i \<longrightarrow> (\<exists>a. findAccountById d i = Some a \<and> acc_userId a = u))"

lemma lossesOf_same: "db_accounts d' = db_accounts d \<Longrightarrow> lossesOf u d d'"
  by (simp add: lossesOf_def balanceOf_def findAccountById_def)

lemma lossesOf_after: "lossesOf u d d1 \<Longrightarrow> db_accounts d' = db_accounts d1 \<Longrightarrow> lossesOf u d d'"
  by (simp add: lossesOf_def balanceOf_def findAccountById_def)

lemma lossesOf_transfer:
  assumes "transferOutcome w inp t d'" and "booksOk (w_db w)"
    and "findAccountById (w_db w) (ti_fromAccountId inp) = Some src" and "0 \<le> intOf (ti_amount inp)"
  shows "lossesOf (acc_userId src) (w_db w) d'"
proof (cases "priorTransfer (w_db w) (ti_idempotencyKey inp)")
  case (Some t0)
  with assms(1) have "bankView d' = bankView (w_db w)" by (auto simp: transferOutcome_def)
  then show ?thesis by (intro lossesOf_same) (rule bankViewD(3))
next
  case None
  from transferOutcome_effect [OF assms(1,2) None] obtain dst
    where "movedMoney (w_db w) d' (ti_fromAccountId inp) dst (intOf (ti_amount inp))"
    by (auto simp: transferEffect_def)
  then show ?thesis using assms(3,4) by (auto simp: lossesOf_def movedMoney_def split: if_splits)
qed

lemma leaves_touch: "leaves db_accounts (touchBeneficiaryByAccount u nr)"
  unfolding touchBeneficiaryByAccount_def touchBeneficiary_def by (intro leaves_rules) simp

lemma quiet_resolvePayee: "quiet (\<lambda>d. d) (resolvePayee rq)"
  unfolding resolvePayee_def by (intro quiet_rules leaves_rules | simp add: quiet_rules split: json.split)+

lemma quiet_checkMemo: "quiet v (checkMemo rq)" and quiet_optKey: "quiet v (optKey rq)" and quiet_tierOf: "quiet v (tierOf rq)"
  unfolding checkMemo_def optKey_def tierOf_def by (intro quiet_rules)+

context event_bus begin

lemma postTransferRoute_wp:
  assumes "booksOk (w_db (sv_world s))"
  shows "wp (postTransferRoute publish rq) (\<lambda>_ s'. lossesOf (callerId rq) (w_db (sv_world s)) (w_db (sv_world s')))
     (\<lambda>_ s'. lossesOf (callerId rq) (w_db (sv_world s)) (w_db (sv_world s'))) s"
proof -
  let ?I = "\<lambda>w. lossesOf (callerId rq) (w_db (sv_world s)) (w_db w)"
  have transfer: "wp (executeTransfer publish inp) (\<lambda>_. ?I) (\<lambda>_. ?I) w"
    if "w_db w = w_db (sv_world s)" "findAccountById (w_db w) (ti_fromAccountId inp) = Some src"
      "acc_userId src = callerId rq" "0 \<le> intOf (ti_amount inp)" for inp w src
  proof -
    have "accountsOk (w_db w)" using assms that(1) by (simp add: booksOk_def)
    from executeTransfer_wp [OF this] show ?thesis
      by (rule wp_mono) (use that assms lossesOf_transfer [OF _ _ that(2,4)] lossesOf_same in auto)
  qed
  have touch: "wp (touchBeneficiaryByAccount u nr) (\<lambda>_. ?I) (\<lambda>_. ?I) w" if "?I w" for u nr w
    by (rule leaves_wp [OF leaves_touch]) (use that lossesOf_after in auto)
  have pay: "wp (inWorld (executeTransfer publish inp)) (\<lambda>t. wp (thn (bestEffort (inWorld (touchBeneficiaryByAccount u nr)))
        (json200 (JObject [(''transfer'', serializeTransfer t)]))) (\<lambda>_ s'. ?I (sv_world s')) (\<lambda>_ s'. ?I (sv_world s')))
      (\<lambda>_ s'. ?I (sv_world s')) s'"
    if "w_db (sv_world s') = w_db (sv_world s)" "findAccountById (w_db (sv_world s')) (ti_fromAccountId inp) = Some src"
      "acc_userId src = callerId rq" "0 \<le> intOf (ti_amount inp)" for inp s' src u nr
    unfolding wp_inWorld
    by (rule wp_mono [OF transfer [OF that]])
      (auto simp: wp_rules bestEffort_def intro!: wp_mono [OF touch])
  show ?thesis
    unfolding postTransferRoute_def wp_mapError
    apply (rule quiet_step [where v = "\<lambda>d. d"], rule quiet_rules, simp add: lossesOf_same)
    apply (rule quiet_step [where v = "\<lambda>d. d"], rule quiet_resolvePayee, simp add: lossesOf_same)
    apply (clarsimp simp: case_prod_unfold)
    apply (rule quiet_step [where v = "\<lambda>d. d"], rule quiet_rules, simp add: lossesOf_same)
    apply (simp add: needAmount_def wp_rules asPositiveInt_def lossesOf_same del: wp_inWorld split: option.split json.split)
    apply (intro allI impI conjI)
    apply (rule quiet_wp [where v = "\<lambda>d. d"], rule quiet_checkMemo)
    apply (rule quiet_step [where v = "\<lambda>d. d"], rule quiet_optKey, simp add: lossesOf_same)
    apply (simp add: wp_rules lossesOf_same del: wp_inWorld split: option.split)
    apply (intro allI impI conjI)
    apply (rule quiet_wp [where v = "\<lambda>d. d"], rule quiet_tierOf)
    apply (simp only: wp_bnd)
    apply (rule pay; simp)
    apply (simp_all add: lossesOf_same)
    done
qed

end

text \<open>The user the session named by a request's header is bound to.\<close>

definition sessionUser :: "request \<Rightarrow> server \<Rightarrow> string option" where
  "sessionUser rq s = (case headerSession rq of None \<Rightarrow> None | Some sid \<Rightarrow> boundTo s sid)"

text \<open>Every account of \<open>d\<close> that is poorer in \<open>d'\<close> belongs to the user \<open>x\<close>, if there is one.\<close>

definition lossesOnlyOf :: "string option \<Rightarrow> db \<Rightarrow> db \<Rightarrow> bool" where
  "lossesOnlyOf x d d' \<longleftrightarrow> {i. balanceOf d' i < balanceOf d i}
     \<subseteq> {i. \<exists>a. findAccountById d i = Some a \<and> x = Some (acc_userId a)}"

lemma lossesOnlyOf_same: "bankView d' = bankView d \<Longrightarrow> lossesOnlyOf x d d'"
  by (drule bankViewD(3)) (simp add: lossesOnlyOf_def balanceOf_def findAccountById_def)

lemma lossesOnlyOf_eq [simp]: "lossesOnlyOf x d d"
  by (simp add: lossesOnlyOf_def)

lemma lossesOnlyOf_after: "bankView d2 = bankView d1 \<Longrightarrow> lossesOnlyOf x d d1 \<Longrightarrow> lossesOnlyOf x d d2"
  by (drule bankViewD(3)) (simp add: lossesOnlyOf_def balanceOf_def findAccountById_def)

lemma lossesOnlyOf_some: "lossesOf u d d' \<Longrightarrow> x = Some u \<Longrightarrow> lossesOnlyOf x d d'"
  by (auto simp: lossesOf_def lossesOnlyOf_def)

lemma postTransfer_mounted_wp:
  assumes "booksOk (w_db (sv_world s))"
  shows "wp (paymentHandler P (containerPublish sha) PostTransfer rq)
     (\<lambda>_ s'. lossesOnlyOf (sessionUser rq s) (w_db (sv_world s)) (w_db (sv_world s')))
     (\<lambda>_ s'. lossesOnlyOf (sessionUser rq s) (w_db (sv_world s)) (w_db (sv_world s'))) s"
  unfolding paymentHandler.simps
proof (rule mountBanking_wp [where I = "\<lambda>d j. lossesOnlyOf (sessionUser rq s) (w_db (sv_world s)) d"])
  fix body sid and u :: user and s1 :: server
  assume c: "calm s s1" and h: "headerSession rq = Some sid" "boundTo s sid = Some (u_id u)"
  let ?rq = "rq\<lparr>rq_body := body, rq_sessionId := Some sid, rq_user := Some (u_id u, u_username u, u_role u)\<rparr>"
  let ?I = "\<lambda>s'. lossesOnlyOf (sessionUser rq s) (w_db (sv_world s)) (w_db (sv_world s'))"
  have caller: "sessionUser rq s = Some (callerId ?rq)" using h by (simp add: sessionUser_def callerId_def)
  show "wp (requireStepUp P ''transfer'' (auditMiddleware P ''transfer.executed'' transferTarget
      (postTransferRoute (containerPublish sha))) ?rq) (\<lambda>_. ?I) (\<lambda>_. ?I) s1"
  proof (rule requireStepUp_wp)
    fix e and s2 :: server assume "calmButTokens s1 s2"
    with c show "?I s2" by (simp add: calm_def calmButTokens_def)
  next
    fix s2 :: server assume "calmButTokens s1 s2"
    with c have d: "w_db (sv_world s2) = w_db (sv_world s)" by (simp add: calm_def calmButTokens_def)
    with assms have b: "booksOk (w_db (sv_world s2))" by simp
    show "wp (auditMiddleware P ''transfer.executed'' transferTarget (postTransferRoute (containerPublish sha)) ?rq)
        (\<lambda>_. ?I) (\<lambda>_. ?I) s2"
    proof (rule auditMiddleware_wp [where I = "lossesOnlyOf (sessionUser rq s) (w_db (sv_world s))"])
      show "wp (postTransferRoute (containerPublish sha) ?rq) (\<lambda>_. ?I) (\<lambda>_. ?I) s2"
        by (rule wp_mono [OF container_bus.postTransferRoute_wp [OF b]]) (simp_all add: d lossesOnlyOf_some caller)
    qed (rule lossesOnlyOf_after)
  qed
qed simp

text \<open>
  C9: Nobody spends another customer's money: when a request to the transfer route has been answered, whatever
  its headers and body, every account that is poorer than before belongs to the user to whom the session named
  by the request is bound; without such a session no account is poorer.
\<close>

theorem only_owner_debited:
  assumes "booksOk (w_db (sv_world s))"
  shows "lossesOnlyOf (sessionUser rq s) (w_db (sv_world s))
     (w_db (sv_world (snd (paymentHandler P (containerPublish sha) PostTransfer rq s))))"
  by (rule wp_sndD [OF postTransfer_mounted_wp [OF assms]])

text \<open>A platform without cryptography, and a server with one session, bound to a user.\<close>

definition exPlatform :: platform where
  "exPlatform = \<lparr>pf_sha256 = rev, pf_digest = rev, pf_action = exCodec, pf_otp = exCodec, pf_parse = (\<lambda>s. Some JNull),
     pf_seal = (\<lambda>k iv aad t. (t, replicate 16 CHR ''0'')), pf_open = (\<lambda>k iv aad t tag. Some t),
     pf_base64 = (\<lambda>s. s), pf_unbase64 = (\<lambda>s. s), pf_base64url = (\<lambda>s. s),
     pf_bcrypt = exBcrypt,
     pf_parseDate = (\<lambda>_. None), pf_keyPair = (\<lambda>curve n. (JNull, [])),
     pf_diffieHellman = (\<lambda>k j. None), pf_hkdf = (\<lambda>digest secret salt info n. []),
     pf_registrationOptions = (\<lambda>n u cs. ([], JNull)), pf_verifyRegistration = (\<lambda>v c. Inr None),
     pf_authenticationOptions = (\<lambda>n cs. ([], JNull)), pf_verifyAuthentication = (\<lambda>v c cr. Inr None),
     pf_stubOtp = True, pf_production = True\<rparr>"

definition exSid :: string where
  "exSid = ''00000000-0000-4000-8000-000000000001''"

definition exServer :: "db \<Rightarrow> server" where
  "exServer d = \<lparr>sv_world = exWorld d,
     sv_sessions = [(exSid, \<lparr>se_key = [], se_createdAt = 1735700000000, se_lastUsedAt = 1735700000000, se_seenNonces = [],
                            se_userId = Some ''ua''\<rparr>)],
     sv_handshakes = [], sv_logins = [], sv_otp = [], sv_actionJti = [], sv_otpJti = [], sv_velocity = [], sv_rates = [],
     sv_pending = [], sv_passkeys = []\<rparr>"

definition exRequest :: "string \<Rightarrow> json \<Rightarrow> request" where
  "exRequest method body = \<lparr>rq_method = method, rq_headers = [''x-session-id'' \<mapsto> exSid], rq_params = [], rq_query = [],
     rq_body = Some body, rq_ip = None, rq_requestId = ''r1'', rq_sessionId = None, rq_user = None\<rparr>"

lemma exRequest_user: "sessionUser (exRequest method body) (exServer d) = Some ''ua''"
proof -
  have "matchClasses uuidPattern exSid"
    by (simp add: uuidPattern_def exSid_def numeral_nat matchClasses_def isHexDigit_def isDigit_def)
  then show ?thesis
    by (simp add: sessionUser_def headerSession_def exRequest_def asUuid_def boundTo_def exServer_def)
qed

theorem only_owner_debited_witness:
  "lossesOnlyOf (Some ''ua'') exDb (w_db (sv_world (snd (paymentHandler exPlatform (containerPublish rev) PostTransfer
     (exRequest ''POST'' JNull) (exServer exDb)))))"
  using only_owner_debited [of "exServer exDb" "exRequest ''POST'' JNull" exPlatform rev] exDb_books
  by (simp add: exRequest_user) (simp add: exServer_def)

end
