(* ===== verification/AccountRoutes.thy ===== *)
theory AccountRoutes
  imports Routes AccountFacts
begin

text \<open>The routes of accounts, fixed deposits and nominees (\<open>contexts/accounts/interface/routes.ts\<close>).\<close>

section \<open>Serialization\<close>

definition serializeAccount :: "account \<Rightarrow> json" where
  "serializeAccount a = JObject
     [(''id'', JString (acc_id a)), (''accountNumber'', JString (acc_number a)), (''userId'', JString (acc_userId a)),
      (''accountType'', JString (accountTypeName (acc_type a))), (''status'', JString (statusName (acc_status a))),
      (''balanceMinor'', JNumber (acc_balance a)), (''holdBalanceMinor'', JNumber (acc_hold a)),
      (''availableBalanceMinor'', JNumber (availableBalanceMinor a)),
      (''minBalanceMinor'', JNumber (minBalanceForType (acc_type a))), (''currency'', JString (acc_currency a)),
      (''createdAt'', isoDate (acc_createdAt a)), (''updatedAt'', isoDate (acc_updatedAt a))]"

primrec fdStatusName :: "fd_status \<Rightarrow> string" where
  "fdStatusName FdActive = ''active''"
| "fdStatusName FdMatured = ''matured''"
| "fdStatusName FdPrematureClosed = ''premature_closed''"

definition serializeFd :: "fixed_deposit \<Rightarrow> json" where
  "serializeFd fd = JObject
     ([(''id'', JString (fd_id fd)), (''accountId'', JString (fd_accountId fd)),
       (''payoutAccountId'', JString (fd_payoutAccountId fd)), (''principalMinor'', JNumber (fd_principal fd)),
       (''tenureMonths'', JNumber (fd_tenureMonths fd)), (''interestRateBps'', JNumber (fd_rateBps fd)),
       (''openedAt'', isoDate (fd_openedAt fd)), (''maturityAt'', isoDate (fd_maturityAt fd)),
       (''autoRenew'', JBool (fd_autoRenew fd)), (''status'', JString (fdStatusName (fd_status fd)))]
      @ optField ''closedAt'' isoDate (fd_closedAt fd) @ [(''interestPaidMinor'', JNumber (fd_interestPaid fd))])"

definition serializeNominee :: "nominee \<Rightarrow> json" where
  "serializeNominee n = JObject
     [(''id'', JString (n_id n)), (''accountId'', JString (n_accountId n)), (''fullName'', JString (n_fullName n)),
      (''relation'', JString (n_relation n)), (''sharePercent'', JNumber (n_sharePercent n)),
      (''createdAt'', isoDate (n_createdAt n))]"

text \<open>The labels and descriptions of \<open>ACCOUNT_TYPE_META\<close>; the rupee sign is its three bytes.\<close>

definition rupee :: string where
  "rupee = [CHR 0xE2, CHR 0x82, CHR 0xB9]"

primrec typeLabel :: "account_type \<Rightarrow> string" where
  "typeLabel Savings = ''Savings''"
| "typeLabel Current = ''Current''"
| "typeLabel FixedDeposit = ''Fixed Deposit''"

primrec typeDescription :: "account_type \<Rightarrow> string" where
  "typeDescription Savings = ''Everyday savings account. Minimum balance '' @ rupee @ ''500.''"
| "typeDescription Current = ''Business current account. Minimum balance '' @ rupee @ ''10,000.''"
| "typeDescription FixedDeposit =
     ''Term deposit with locked principal. Withdraw only at maturity or via premature closure.''"

definition accountsMapErr :: "error \<Rightarrow> error" where
  "accountsMapErr e = composeDomainErrorTranslation [] e"

section \<open>Accounts of the caller\<close>

definition getMyAccountsRoute :: handler where
  "getMyAccountsRoute rq = bnd (query (\<lambda>d. listAccountsByUserId d (callerId rq))) (\<lambda>as.
     json200 (jsonList ''accounts'' serializeAccount as))"

definition getTypesRoute :: handler where
  "getTypesRoute rq = json200 (jsonList ''types'' (\<lambda>t. JObject
     [(''type'', JString (accountTypeName t)), (''label'', JString (typeLabel t)),
      (''description'', JString (typeDescription t))]) ACCOUNT_TYPES)"

definition asAccountType :: "json option \<Rightarrow> account_type option" where
  "asAccountType v = (case v of Some (JString s) \<Rightarrow> parseAccountType s | _ \<Rightarrow> None)"

definition postAccountRoute :: "bus \<Rightarrow> handler" where
  "postAccountRoute bus rq = mapError accountsMapErr (
     bnd (require (asAccountType (field rq ''accountType'')) (badRequestError ''Invalid accountType'')) (\<lambda>ty.
     bnd (query (\<lambda>d. List.find (\<lambda>k. k_status k = Approved) (listKycByUserId d (callerId rq)))) (\<lambda>x.
     thn (throwIf (x = None) (HttpErr (conflictError ''KYC must be approved before opening more accounts'')))
    (bnd (inWorld (openAdditionalAccount bus (callerId rq) ty)) (\<lambda>a.
     jsonStatus 201 (jsonOne ''account'' (serializeAccount a)))))))"

definition postCloseRoute :: "bus \<Rightarrow> handler" where
  "postCloseRoute bus rq = mapError accountsMapErr (
     bnd (needUuid (param rq ''id'') ''Invalid id'') (\<lambda>i.
     bnd (inWorld (closeAccount bus (callerId rq) i)) (\<lambda>a.
     json200 (jsonOne ''account'' (serializeAccount a)))))"

section \<open>Fixed deposits\<close>

definition listFdsByUserId :: "db \<Rightarrow> string \<Rightarrow> fixed_deposit list" where
  "listFdsByUserId d u = filter (\<lambda>r. fd_userId r = u) (db_fds d)"

definition getFdsRoute :: handler where
  "getFdsRoute rq = bnd (query (\<lambda>d. listFdsByUserId d (callerId rq))) (\<lambda>fds.
     json200 (jsonList ''fixedDeposits'' serializeFd fds))"

definition postFdRoute :: handler where
  "postFdRoute rq = mapError accountsMapErr (
     bnd (needUuid (field rq ''payoutAccountId'') ''Invalid payoutAccountId'') (\<lambda>payout.
     bnd (needPositive rq ''principalMinor'' ''Invalid principalMinor'') (\<lambda>princ.
     thn (check400 (FD_MIN_PRINCIPAL_MINOR \<le> princ) ''FD minimum principal not met'')
    (bnd (require (asIntIn FD_MIN_TENURE_MONTHS FD_MAX_TENURE_MONTHS (field rq ''tenureMonths''))
            (badRequestError ''Invalid FD tenure'')) (\<lambda>tenure.
     bnd (inWorld (openFixedDeposit (callerId rq) payout princ tenure (isTrue (field rq ''autoRenew'')))) (\<lambda>fd.
     jsonStatus 201 (jsonOne ''fixedDeposit'' (serializeFd fd))))))))"

definition postPrematureCloseRoute :: handler where
  "postPrematureCloseRoute rq = mapError accountsMapErr (
     bnd (needUuid (param rq ''id'') ''Invalid id'') (\<lambda>i.
     bnd (inWorld (prematureCloseFixedDeposit (callerId rq) i)) (\<lambda>fd.
     json200 (jsonOne ''fixedDeposit'' (serializeFd fd)))))"

section \<open>Nominees\<close>

definition getNomineesRoute :: handler where
  "getNomineesRoute rq = mapError accountsMapErr (
     bnd (needUuid (param rq ''id'') ''Invalid id'') (\<lambda>i.
     bnd (inWorld (listNominees (callerId rq) i)) (\<lambda>ns.
     json200 (jsonList ''nominees'' serializeNominee ns))))"

definition postNomineeRoute :: handler where
  "postNomineeRoute rq = mapError accountsMapErr (
     bnd (needUuid (param rq ''id'') ''Invalid id'') (\<lambda>i.
     bnd (needText 128 (field rq ''fullName'') ''Invalid fullName'') (\<lambda>fullName.
     bnd (needText 64 (field rq ''relation'') ''Invalid relation'') (\<lambda>relation.
     thn (check400 (field rq ''sharePercent'' = None \<or> asIntIn 1 100 (field rq ''sharePercent'') \<noteq> None) ''Invalid sharePercent'')
    (bnd (inWorld (addNominee (callerId rq) i fullName relation (asIntIn 1 100 (field rq ''sharePercent'')))) (\<lambda>n.
     jsonStatus 201 (jsonOne ''nominee'' (serializeNominee n))))))))"

definition removeNomineeRoute :: handler where
  "removeNomineeRoute rq = mapError accountsMapErr (
     thn (check400 (asUuid (param rq ''id'') \<noteq> None \<and> asUuid (param rq ''nomineeId'') \<noteq> None) ''Invalid id'')
    (thn (inWorld (removeNominee (callerId rq) (the (asUuid (param rq ''nomineeId'')))))
         (json200 (jsonOne ''ok'' (JBool True)))))"

section \<open>Administrators\<close>

definition listAccounts :: "db \<Rightarrow> nat \<Rightarrow> account list" where
  "listAccounts d limit = take limit (db_accounts d)"

definition getAccountsRoute :: handler where
  "getAccountsRoute rq = bnd (query (\<lambda>d. listAccounts d 200)) (\<lambda>as.
     json200 (jsonList ''accounts'' serializeAccount as))"

definition postFreezeRoute :: "bus \<Rightarrow> handler" where
  "postFreezeRoute bus rq = mapError accountsMapErr (
     bnd (needUuid (param rq ''id'') ''Invalid id'') (\<lambda>i.
     bnd (inWorld (freezeAccount bus i)) (\<lambda>a.
     json200 (jsonOne ''account'' (serializeAccount a)))))"

definition postUnfreezeRoute :: "bus \<Rightarrow> handler" where
  "postUnfreezeRoute bus rq = mapError accountsMapErr (
     bnd (needUuid (param rq ''id'') ''Invalid id'') (\<lambda>i.
     bnd (inWorld (unfreezeAccount bus i)) (\<lambda>a.
     json200 (jsonOne ''account'' (serializeAccount a)))))"

section \<open>The routers\<close>

datatype account_route =
    MyAccounts | AccountTypes | OpenAccount | CloseAccount | MyFds | OpenFd | CloseFd | MyNominees | AddNominee | DropNominee
  | AllAccounts | FreezeAccount | UnfreezeAccount

fun accountHandler :: "platform \<Rightarrow> bus \<Rightarrow> account_route \<Rightarrow> handler" where
  "accountHandler P bus MyAccounts = mountCustomer P getMyAccountsRoute"
| "accountHandler P bus AccountTypes = mountCustomer P getTypesRoute"
| "accountHandler P bus OpenAccount = mountBanking P (requireStepUp P ''account.open''
     (auditMiddleware P ''account.opened'' noTarget (postAccountRoute bus)))"
| "accountHandler P bus CloseAccount = mountBanking P (requireStepUp P ''account.close''
     (auditMiddleware P ''account.closed'' (paramTarget ''account'') (postCloseRoute bus)))"
| "accountHandler P bus MyFds = mountBanking P getFdsRoute"
| "accountHandler P bus OpenFd = mountBanking P (requireStepUp P ''fd.open''
     (auditMiddleware P ''account.fd.opened'' noTarget postFdRoute))"
| "accountHandler P bus CloseFd = mountBanking P (requireStepUp P ''fd.premature_close''
     (auditMiddleware P ''account.fd.premature_closed'' noTarget postPrematureCloseRoute))"
| "accountHandler P bus MyNominees = mountBanking P getNomineesRoute"
| "accountHandler P bus AddNominee = mountBanking P postNomineeRoute"
| "accountHandler P bus DropNominee = mountBanking P removeNomineeRoute"
| "accountHandler P bus AllAccounts = mountAdmin P (auditMiddleware P ''admin.accounts.listed'' noTarget getAccountsRoute)"
| "accountHandler P bus FreezeAccount =
     mountAdmin P (auditMiddleware P ''account.frozen'' (paramTarget ''account'') (postFreezeRoute bus))"
| "accountHandler P bus UnfreezeAccount =
     mountAdmin P (auditMiddleware P ''account.unfrozen'' (paramTarget ''account'') (postUnfreezeRoute bus))"

end
