(* ===== verification/CardRoutes.thy ===== *)
theory CardRoutes
  imports Routes CardOps
begin

text \<open>The routes of debit cards (\<open>contexts/cards/interface/routes.ts\<close>).\<close>

section \<open>Serialization\<close>

primrec networkName :: "card_network \<Rightarrow> string" where
  "networkName Visa = ''visa''"
| "networkName Mastercard = ''mastercard''"
| "networkName Rupay = ''rupay''"

definition cardFieldsJson :: "debit_card \<Rightarrow> (string \<times> json) list" where
  "cardFieldsJson c =
     [(''id'', JString (c_id c)), (''accountId'', JString (c_accountId c)), (''maskedNumber'', JString (c_maskedNumber c)),
      (''network'', JString (networkName (c_network c))), (''status'', JString (cardStatusName (c_status c))),
      (''issuedAt'', isoDate (c_issuedAt c))]
     @ optField ''frozenAt'' isoDate (c_frozenAt c) @ optField ''cancelledAt'' isoDate (c_cancelledAt c)
     @ [(''perTxnLimitMinor'', JNumber (c_perTxnLimit c)), (''dailyLimitMinor'', JNumber (c_dailyLimit c)),
        (''monthlyLimitMinor'', JNumber (c_monthlyLimit c))]"

definition serializeCard :: "debit_card \<Rightarrow> json" where
  "serializeCard c = JObject (cardFieldsJson c)"

definition cardLimitsJson :: "card_limits \<Rightarrow> json" where
  "cardLimitsJson l = JObject
     [(''perTxnLimitMinor'', JNumber (cl_perTxn l)), (''dailyLimitMinor'', JNumber (cl_daily l)),
      (''monthlyLimitMinor'', JNumber (cl_monthly l))]"

definition cardPreviewJson :: "card_limit_check \<Rightarrow> json" where
  "cardPreviewJson p = JObject
     [(''dailyUsedMinor'', JNumber (cc_dailyUsed p)), (''dailyLimitMinor'', JNumber (cc_dailyLimit p)),
      (''monthlyUsedMinor'', JNumber (cc_monthlyUsed p)), (''monthlyLimitMinor'', JNumber (cc_monthlyLimit p)),
      (''perTxnLimitMinor'', JNumber (cc_perTxnLimit p))]"

definition cardsMapErr :: "error \<Rightarrow> error" where
  "cardsMapErr e = composeDomainErrorTranslation [translateCardDomainError] e"

section \<open>The caller's cards\<close>

definition cardsOfUser :: "db \<Rightarrow> string \<Rightarrow> (debit_card \<times> string) list" where
  "cardsOfUser d u = concat (map (\<lambda>a. map (\<lambda>c. (c, acc_number a)) (listCardsByAccount d (acc_id a)))
     (listAccountsByUserId d u))"

definition getMyCardsRoute :: handler where
  "getMyCardsRoute rq = bnd (query (\<lambda>d. cardsOfUser d (callerId rq))) (\<lambda>cs.
     json200 (jsonList ''cards'' (\<lambda>(c, nr). JObject (cardFieldsJson c @ [(''accountNumber'', JString nr)])) cs))"

definition getCardLimitsRoute :: handler where
  "getCardLimitsRoute rq = mapError cardsMapErr (
     bnd (needUuid (param rq ''id'') ''Invalid id'') (\<lambda>i.
     bnd (inWorld (mustOwn (callerId rq) i)) (\<lambda>c.
     bnd (inWorld (gets w_tz)) (\<lambda>tz.
     bnd (inWorld clockNow) (\<lambda>now.
     bnd (query (\<lambda>d. previewCardLimits tz d (c_id c)
            \<lparr>cl_perTxn = c_perTxnLimit c, cl_daily = c_dailyLimit c, cl_monthly = c_monthlyLimit c\<rparr> now)) (\<lambda>p.
     bnd (tierOf rq) (\<lambda>tier.
     json200 (JObject [(''limits'', cardPreviewJson p), (''bankMax'', cardLimitsJson (bankMaxForTier tier)),
                       (''kycTier'', JString (tierName tier))]))))))))"

definition asNetwork :: "json option \<Rightarrow> card_network option" where
  "asNetwork v = (if v = Some (JString ''visa'') then Some Visa else if v = Some (JString ''mastercard'') then Some Mastercard
     else if v = Some (JString ''rupay'') then Some Rupay else None)"

definition postCardRoute :: "bus \<Rightarrow> handler" where
  "postCardRoute bus rq = mapError cardsMapErr (
     bnd (needUuid (field rq ''accountId'') ''Invalid accountId'') (\<lambda>accountId.
     thn (check400 (field rq ''network'' = None \<or> asNetwork (field rq ''network'') \<noteq> None) ''Invalid network'')
    (bnd (inWorld (issueCard (callerId rq) accountId (asNetwork (field rq ''network'')))) (\<lambda>c.
     thn (inWorld (bus [CardEv (DebitCardIssued (c_id c) (callerId rq) (c_accountId c) (c_maskedNumber c) (c_issuedAt c))]))
         (jsonStatus 201 (jsonOne ''card'' (serializeCard c)))))))"

definition postCardLimitsRoute :: handler where
  "postCardLimitsRoute rq = mapError cardsMapErr (
     bnd (needUuid (param rq ''id'') ''Invalid id'') (\<lambda>i.
     bnd (needPositive rq ''perTxnLimitMinor'' ''Invalid perTxnLimitMinor'') (\<lambda>perTxn.
     bnd (needPositive rq ''dailyLimitMinor'' ''Invalid dailyLimitMinor'') (\<lambda>daily.
     bnd (needPositive rq ''monthlyLimitMinor'' ''Invalid monthlyLimitMinor'') (\<lambda>monthly.
     bnd (inWorld (setCardLimits (callerId rq) i (JNum (of_int perTxn)) (JNum (of_int daily)) (JNum (of_int monthly)))) (\<lambda>c.
     json200 (jsonOne ''card'' (serializeCard c))))))))"

definition postSpendRoute :: "bus \<Rightarrow> handler" where
  "postSpendRoute bus rq = mapError cardsMapErr (
     bnd (needUuid (param rq ''id'') ''Invalid id'') (\<lambda>i.
     bnd (needPositive rq ''amountMinor'' ''Invalid amountMinor'') (\<lambda>amount.
     thn (check400 (optionalText 128 (field rq ''merchantName'')) ''Invalid merchantName'')
    (thn (check400 (optionalText 128 (field rq ''idempotencyKey'')) ''Invalid idempotencyKey'')
    (bnd (inWorld (simulateCardSpend bus
            \<lparr>ci_ownerUserId = callerId rq, ci_cardId = i, ci_amount = JNum (of_int amount), ci_currency = INR,
             ci_merchantName = asText (field rq ''merchantName''),
             ci_idempotencyKey = asText (field rq ''idempotencyKey'')\<rparr>)) (\<lambda>t.
     json200 (jsonOne ''transfer'' (JObject
       ([(''id'', JString (t_id t))] @ optText ''referenceNumber'' (t_referenceNumber t)
        @ [(''amountMinor'', JNumber (t_amount t))] @ optText ''description'' (t_description t))))))))))"

text \<open>A card that was just frozen, or was frozen before, has the time of it; so has a cancelled one.\<close>

definition timeOf :: "int option \<Rightarrow> int" where
  "timeOf x = (case x of None \<Rightarrow> 0 | Some t \<Rightarrow> t)"

definition postFreezeCardRoute :: "bus \<Rightarrow> handler" where
  "postFreezeCardRoute bus rq = mapError cardsMapErr (
     bnd (needUuid (param rq ''id'') ''Invalid id'') (\<lambda>i.
     bnd (inWorld (freezeCard (callerId rq) i)) (\<lambda>c.
     thn (inWorld (bus [CardEv (DebitCardFrozen (c_id c) (callerId rq) (c_maskedNumber c) (timeOf (c_frozenAt c)))]))
         (json200 (jsonOne ''card'' (serializeCard c))))))"

definition postUnfreezeCardRoute :: handler where
  "postUnfreezeCardRoute rq = mapError cardsMapErr (
     bnd (needUuid (param rq ''id'') ''Invalid id'') (\<lambda>i.
     bnd (inWorld (unfreezeCard (callerId rq) i)) (\<lambda>c.
     json200 (jsonOne ''card'' (serializeCard c)))))"

definition postCancelCardRoute :: "bus \<Rightarrow> handler" where
  "postCancelCardRoute bus rq = mapError cardsMapErr (
     bnd (needUuid (param rq ''id'') ''Invalid id'') (\<lambda>i.
     bnd (inWorld (cancelCard (callerId rq) i)) (\<lambda>c.
     thn (inWorld (bus [CardEv (DebitCardCancelled (c_id c) (callerId rq) (c_maskedNumber c) (timeOf (c_cancelledAt c)))]))
         (json200 (jsonOne ''card'' (serializeCard c))))))"

section \<open>The router\<close>

datatype card_route = MyCards | CardLimits | IssueCard | SetLimits | SpendCard | FreezeCard | UnfreezeCard | CancelCard

fun cardRouteHandler :: "platform \<Rightarrow> bus \<Rightarrow> card_route \<Rightarrow> handler" where
  "cardRouteHandler P bus MyCards = mountBanking P getMyCardsRoute"
| "cardRouteHandler P bus CardLimits = mountBanking P getCardLimitsRoute"
| "cardRouteHandler P bus IssueCard = mountBanking P (requireStepUp P ''card.issue''
     (auditMiddleware P ''card.issued'' noTarget (postCardRoute bus)))"
| "cardRouteHandler P bus SetLimits = mountBanking P (requireStepUp P ''card.limits.update''
     (auditMiddleware P ''card.limits.updated'' (paramTarget ''debit_card'') postCardLimitsRoute))"
| "cardRouteHandler P bus SpendCard = mountBanking P (requireStepUp P ''card.spend''
     (auditMiddleware P ''card.spent'' (paramTarget ''debit_card'') (postSpendRoute bus)))"
| "cardRouteHandler P bus FreezeCard = mountBanking P (requireStepUp P ''card.update''
     (auditMiddleware P ''card.frozen'' (paramTarget ''debit_card'') (postFreezeCardRoute bus)))"
| "cardRouteHandler P bus UnfreezeCard = mountBanking P (requireStepUp P ''card.update'' postUnfreezeCardRoute)"
| "cardRouteHandler P bus CancelCard = mountBanking P (requireStepUp P ''card.cancel''
     (auditMiddleware P ''card.cancelled'' (paramTarget ''debit_card'') (postCancelCardRoute bus)))"

end
