(* ===== verification/PayeeRoutes.thy ===== *)
theory PayeeRoutes
  imports Routes BeneficiaryOps BillOps SiOps
begin

text \<open>
  The routes of payees (\<open>contexts/beneficiaries/interface/routes.ts\<close>), bills
  (\<open>contexts/bills/interface/routes.ts\<close>) and standing instructions
  (\<open>contexts/standingInstructions/interface/routes.ts\<close>).
\<close>

section \<open>Payees\<close>

primrec benStatusName :: "beneficiary_status \<Rightarrow> string" where
  "benStatusName BenPending = ''pending''"
| "benStatusName BenActive = ''active''"

definition serializeBeneficiary :: "int \<Rightarrow> beneficiary \<Rightarrow> json" where
  "serializeBeneficiary now b = JObject
     ([(''id'', JString (b_id b)), (''nickname'', JString (b_nickname b)), (''accountNumber'', JString (b_accountNumber b))]
      @ optText ''beneficiaryUsername'' (b_username b) @ [(''status'', JString (benStatusName (b_status b)))]
      @ optField ''activatedAt'' isoDate (b_activatedAt b)
      @ [(''transferAllowed'', JBool (isTransferAllowed b now)), (''coolingActive'', JBool (\<not> isTransferAllowed b now)),
         (''createdAt'', isoDate (b_createdAt b))]
      @ optField ''lastUsedAt'' isoDate (b_lastUsedAt b))"

text \<open>Each payee is written with a reading of the clock of its own.\<close>

fun serializeBeneficiaries :: "beneficiary list \<Rightarrow> json list http" where
  "serializeBeneficiaries [] = ret []"
| "serializeBeneficiaries (b # bs) =
     bnd nowMs (\<lambda>now. bnd (serializeBeneficiaries bs) (\<lambda>js. ret (serializeBeneficiary now b # js)))"

primrec preferredRailName :: "preferred_rail \<Rightarrow> string" where
  "preferredRailName PrefImps = ''imps''"
| "preferredRailName PrefNeft = ''neft''"
| "preferredRailName PrefRtgs = ''rtgs''"
| "preferredRailName PrefUpi = ''upi''"

definition serializeExternal :: "external_beneficiary \<Rightarrow> json" where
  "serializeExternal b = JObject
     ([(''id'', JString (x_id b)), (''nickname'', JString (x_nickname b)), (''accountNumber'', JString (x_accountNumber b)),
       (''ifsc'', JString (x_ifsc b)), (''bankName'', JString (x_bankName b)),
       (''beneficiaryName'', JString (x_beneficiaryName b))]
      @ optText ''vpa'' (x_vpa b) @ optField ''preferredRail'' (\<lambda>r. JString (preferredRailName r)) (x_preferredRail b)
      @ [(''status'', JString (benStatusName (x_status b)))] @ optField ''activatedAt'' isoDate (x_activatedAt b)
      @ [(''createdAt'', isoDate (x_createdAt b))])"

definition beneficiariesMapErr :: "error \<Rightarrow> error" where
  "beneficiariesMapErr e = composeDomainErrorTranslation [translateBeneficiaryDomainError] e"

definition getBeneficiariesRoute :: handler where
  "getBeneficiariesRoute rq =
     bnd (inWorld (listBeneficiariesByOwner (callerId rq))) (\<lambda>bs.
     bnd (serializeBeneficiaries bs) (\<lambda>js.
     json200 (JObject [(''beneficiaries'', JArray js)])))"

definition asAccountNumber :: "json option \<Rightarrow> string option" where
  "asAccountNumber v = (case v of Some (JString s) \<Rightarrow> if isValidAccountNumber s then Some s else None | _ \<Rightarrow> None)"

definition postBeneficiaryRoute :: "bus \<Rightarrow> handler" where
  "postBeneficiaryRoute bus rq = mapError beneficiariesMapErr (
     bnd (needText 64 (field rq ''nickname'') ''Invalid nickname'') (\<lambda>nick.
     bnd (require (asAccountNumber (field rq ''accountNumber'')) (badRequestError ''Invalid account number'')) (\<lambda>nr.
     bnd (inWorld (addBeneficiary (Some bus) (callerId rq) nick nr)) (\<lambda>b.
     bnd nowMs (\<lambda>now.
     jsonStatus 201 (jsonOne ''beneficiary'' (serializeBeneficiary now b)))))))"

definition postRenameRoute :: "bus \<Rightarrow> handler" where
  "postRenameRoute bus rq = mapError beneficiariesMapErr (
     bnd (needUuid (param rq ''id'') ''Invalid id'') (\<lambda>i.
     bnd (needText 64 (field rq ''nickname'') ''Invalid nickname'') (\<lambda>nick.
     bnd (inWorld (renameBeneficiary (Some bus) (callerId rq) i nick)) (\<lambda>b.
     bnd nowMs (\<lambda>now.
     json200 (jsonOne ''beneficiary'' (serializeBeneficiary now b)))))))"

definition getExternalRoute :: handler where
  "getExternalRoute rq = bnd (inWorld (listExternalBeneficiaries (callerId rq))) (\<lambda>bs.
     json200 (jsonList ''externalBeneficiaries'' serializeExternal bs))"

definition asPreferredRail :: "json option \<Rightarrow> preferred_rail option" where
  "asPreferredRail v = (if v = Some (JString ''imps'') then Some PrefImps else if v = Some (JString ''neft'') then Some PrefNeft
     else if v = Some (JString ''rtgs'') then Some PrefRtgs else if v = Some (JString ''upi'') then Some PrefUpi else None)"

definition postExternalRoute :: handler where
  "postExternalRoute rq = mapError beneficiariesMapErr (
     bnd (needText 64 (field rq ''nickname'') ''Invalid nickname'') (\<lambda>nick.
     bnd (needText 32 (field rq ''accountNumber'') ''Invalid accountNumber'') (\<lambda>nr.
     bnd (needText 11 (field rq ''ifsc'') ''Invalid ifsc'') (\<lambda>ifsc.
     bnd (needText 128 (field rq ''bankName'') ''Invalid bankName'') (\<lambda>bankName.
     bnd (needText 128 (field rq ''beneficiaryName'') ''Invalid beneficiaryName'') (\<lambda>name.
     bnd (inWorld (addExternalBeneficiary
            \<lparr>xi_ownerUserId = callerId rq, xi_nickname = nick, xi_accountNumber = nr, xi_ifsc = toUpperCase ifsc,
             xi_bankName = bankName, xi_beneficiaryName = name, xi_vpa = asText (field rq ''vpa''),
             xi_preferredRail = asPreferredRail (field rq ''preferredRail'')\<rparr>)) (\<lambda>b.
     jsonStatus 201 (jsonOne ''externalBeneficiary'' (serializeExternal b)))))))))"

definition postRemoveRoute :: "bus \<Rightarrow> handler" where
  "postRemoveRoute bus rq = mapError beneficiariesMapErr (
     bnd (needUuid (param rq ''id'') ''Invalid id'') (\<lambda>i.
     thn (inWorld (removeBeneficiary (Some bus) (callerId rq) i))
         (json200 (jsonOne ''success'' (JBool True)))))"

section \<open>Bills\<close>

primrec billerCategoryName :: "biller_category \<Rightarrow> string" where
  "billerCategoryName Electricity = ''electricity''"
| "billerCategoryName Gas = ''gas''"
| "billerCategoryName Water = ''water''"
| "billerCategoryName Internet = ''internet''"
| "billerCategoryName Mobile = ''mobile''"
| "billerCategoryName OtherBiller = ''other''"

definition serializeBiller :: "biller \<Rightarrow> json" where
  "serializeBiller b = JObject
     [(''id'', JString (bl_id b)), (''name'', JString (bl_name b)),
      (''category'', JString (billerCategoryName (bl_category b))), (''billerAccountNumber'', JString (bl_accountNumber b)),
      (''active'', JBool (bl_active b))]"

definition serializeSaved :: "saved_bill_account \<Rightarrow> json" where
  "serializeSaved s = JObject
     [(''id'', JString (sb_id s)), (''billerId'', JString (sb_billerId s)), (''customerRef'', JString (sb_customerRef s)),
      (''nickname'', JString (sb_nickname s)), (''createdAt'', isoDate (sb_createdAt s))]"

definition billsMapErr :: "error \<Rightarrow> error" where
  "billsMapErr e = composeDomainErrorTranslation [translateBillDomainError] e"

definition getBillersRoute :: handler where
  "getBillersRoute rq = bnd (query listActiveBillers) (\<lambda>bs. json200 (jsonList ''billers'' serializeBiller bs))"

definition getSavedRoute :: handler where
  "getSavedRoute rq = bnd (query (\<lambda>d. listSavedBillsByUserId d (callerId rq))) (\<lambda>ss.
     json200 (jsonList ''savedAccounts'' serializeSaved ss))"

definition postSavedRoute :: handler where
  "postSavedRoute rq = mapError billsMapErr (
     bnd (needUuid (field rq ''billerId'') ''Invalid billerId'') (\<lambda>billerId.
     bnd (needText 64 (field rq ''customerRef'') ''Invalid customerRef'') (\<lambda>ref.
     bnd (needText 64 (field rq ''nickname'') ''Invalid nickname'') (\<lambda>nick.
     bnd (inWorld (saveBillAccount (callerId rq) billerId ref nick)) (\<lambda>s.
     jsonStatus 201 (jsonOne ''savedAccount'' (serializeSaved s)))))))"

definition removeSavedRoute :: handler where
  "removeSavedRoute rq = mapError billsMapErr (
     bnd (needUuid (param rq ''id'') ''Invalid id'') (\<lambda>i.
     thn (inWorld (removeSavedBillAccount (callerId rq) i))
         (json200 (jsonOne ''ok'' (JBool True)))))"

definition postBillRoute :: "bus \<Rightarrow> handler" where
  "postBillRoute bus rq = mapError billsMapErr (
     bnd (needUuid (field rq ''fromAccountId'') ''Invalid fromAccountId'') (\<lambda>fromId.
     bnd (needUuid (field rq ''billerId'') ''Invalid billerId'') (\<lambda>billerId.
     bnd (needPositive rq ''amountMinor'' ''Invalid amountMinor'') (\<lambda>amount.
     thn (check400 (optionalIs (textUpTo 64) (field rq ''customerRef'')) ''Invalid customerRef'')
    (thn (check400 (optionalText 128 (field rq ''idempotencyKey'')) ''Invalid idempotencyKey'')
    (bnd (query (\<lambda>d. findAccountById d fromId)) (\<lambda>x.
     bnd (require x (notFoundError ''Source account not found'')) (\<lambda>src.
     thn (throwIf (acc_userId src \<noteq> callerId rq) (HttpErr (forbiddenError ''Source account does not belong to user'')))
    (bnd (inWorld (payBill bus
            \<lparr>bi_fromAccountId = fromId, bi_billerId = billerId, bi_amount = JNum (of_int amount), bi_currency = INR,
             bi_customerRef = asText (field rq ''customerRef''), bi_idempotencyKey = asText (field rq ''idempotencyKey''),
             bi_ownerUserId = callerId rq\<rparr>)) (\<lambda>t.
     json200 (jsonOne ''transfer'' (JObject
       ([(''id'', JString (t_id t))] @ optText ''referenceNumber'' (t_referenceNumber t)
        @ [(''amountMinor'', JNumber (t_amount t))] @ optText ''billerId'' (t_billerId t))))))))))))))"

section \<open>Standing instructions\<close>

definition serializeSi :: "standing_instruction \<Rightarrow> json" where
  "serializeSi si = JObject
     ([(''id'', JString (si_id si)), (''fromAccountId'', JString (si_fromAccountId si)),
       (''beneficiaryId'', JString (si_beneficiaryId si)), (''amountMinor'', JNumber (si_amount si)),
       (''currency'', JString (si_currency si)), (''frequency'', JString (frequencyName (si_frequency si))),
       (''nextRunAt'', isoDate (si_nextRunAt si))]
      @ optField ''lastRunAt'' isoDate (si_lastRunAt si) @ [(''status'', JString (siStatusName (si_status si)))]
      @ optText ''description'' (si_description si) @ optField ''endAt'' isoDate (si_endAt si)
      @ [(''failureCount'', JNumber (si_failureCount si)), (''createdAt'', isoDate (si_createdAt si))])"

definition sisMapErr :: "error \<Rightarrow> error" where
  "sisMapErr e = composeDomainErrorTranslation [translateStandingInstructionDomainError] e"

definition getSisRoute :: handler where
  "getSisRoute rq = bnd (query (\<lambda>d. listSisByOwner d (callerId rq))) (\<lambda>ss.
     json200 (jsonList ''instructions'' serializeSi ss))"

definition asFrequency :: "json option \<Rightarrow> si_frequency option" where
  "asFrequency v = (if v = Some (JString ''daily'') then Some Daily else if v = Some (JString ''weekly'') then Some Weekly
     else if v = Some (JString ''monthly'') then Some Monthly else None)"

text \<open>\<open>new Date(endDate)\<close> of a text, which has to be valid.\<close>

definition needEndDate :: "platform \<Rightarrow> json option \<Rightarrow> int option http" where
  "needEndDate P v = (case v of None \<Rightarrow> ret None | Some JNull \<Rightarrow> ret None
     | Some (JString s) \<Rightarrow> bnd (require (pf_parseDate P s) (badRequestError ''Invalid endDate'')) (\<lambda>t. ret (Some t))
     | _ \<Rightarrow> fail (badRequestError ''Invalid endDate''))"

definition postSiRoute :: "platform \<Rightarrow> bus \<Rightarrow> handler" where
  "postSiRoute P bus rq = mapError sisMapErr (
     bnd (needUuid (field rq ''fromAccountId'') ''Invalid fromAccountId'') (\<lambda>fromId.
     bnd (needUuid (field rq ''beneficiaryId'') ''Invalid beneficiaryId'') (\<lambda>payee.
     bnd (needPositive rq ''amountMinor'' ''Invalid amountMinor'') (\<lambda>amount.
     bnd (require (asFrequency (field rq ''frequency'')) (badRequestError ''Invalid frequency'')) (\<lambda>freq.
     thn (check400 (optionalIs (textUpTo 256) (field rq ''description'')) ''Invalid description'')
    (bnd (needEndDate P (field rq ''endDate'')) (\<lambda>endAt.
     bnd (inWorld (createStandingInstruction bus
            \<lparr>cs_ownerUserId = callerId rq, cs_fromAccountId = fromId, cs_beneficiaryId = payee,
             cs_amount = JNum (of_int amount), cs_currency = INR, cs_frequency = freq,
             cs_description = asText (field rq ''description''), cs_startAt = None, cs_endAt = endAt\<rparr>)) (\<lambda>si.
     jsonStatus 201 (jsonOne ''instruction'' (serializeSi si))))))))))"

definition changeSiRoute :: "(string \<Rightarrow> string \<Rightarrow> unit op) \<Rightarrow> handler" where
  "changeSiRoute change rq = mapError sisMapErr (
     bnd (needUuid (param rq ''id'') ''Invalid id'') (\<lambda>i.
     thn (inWorld (change (callerId rq) i))
    (bnd (query (\<lambda>d. findSiById d i)) (\<lambda>x.
     json200 (jsonOne ''instruction'' (orNull serializeSi x))))))"

definition postPauseRoute :: "bus \<Rightarrow> handler" where
  "postPauseRoute bus = changeSiRoute (pauseStandingInstruction bus)"

definition postResumeRoute :: "bus \<Rightarrow> handler" where
  "postResumeRoute bus = changeSiRoute (resumeStandingInstruction bus)"

definition postCancelSiRoute :: "bus \<Rightarrow> handler" where
  "postCancelSiRoute bus = changeSiRoute (cancelStandingInstruction bus)"

section \<open>The routers\<close>

datatype payee_route =
    MyPayees | AddPayee | RenamePayee | MyExternals | AddExternal | RemovePayee
  | Billers | SavedBills | SaveBill | RemoveSavedBill | PayBill
  | MySis | CreateSi | PauseSi | ResumeSi | CancelSi

fun payeeHandler :: "platform \<Rightarrow> bus \<Rightarrow> payee_route \<Rightarrow> handler" where
  "payeeHandler P bus MyPayees = mountBanking P getBeneficiariesRoute"
| "payeeHandler P bus AddPayee = mountBanking P (requireStepUp P ''beneficiary.add''
     (auditMiddleware P ''beneficiary.added'' noTarget (postBeneficiaryRoute bus)))"
| "payeeHandler P bus RenamePayee = mountBanking P (requireStepUp P ''beneficiary.rename''
     (auditMiddleware P ''beneficiary.renamed'' (paramTarget ''beneficiary'') (postRenameRoute bus)))"
| "payeeHandler P bus MyExternals = mountBanking P getExternalRoute"
| "payeeHandler P bus AddExternal = mountBanking P (requireStepUp P ''beneficiary.add'' postExternalRoute)"
| "payeeHandler P bus RemovePayee = mountBanking P (requireStepUp P ''beneficiary.remove''
     (auditMiddleware P ''beneficiary.removed'' (paramTarget ''beneficiary'') (postRemoveRoute bus)))"
| "payeeHandler P bus Billers = mountBanking P getBillersRoute"
| "payeeHandler P bus SavedBills = mountBanking P getSavedRoute"
| "payeeHandler P bus SaveBill = mountBanking P postSavedRoute"
| "payeeHandler P bus RemoveSavedBill = mountBanking P removeSavedRoute"
| "payeeHandler P bus PayBill = mountBanking P (requireStepUp P ''bill.pay''
     (auditMiddleware P ''bill.paid'' noTarget (postBillRoute bus)))"
| "payeeHandler P bus MySis = mountBanking P getSisRoute"
| "payeeHandler P bus CreateSi = mountBanking P (requireStepUp P ''standing.create''
     (auditMiddleware P ''si.created'' noTarget (postSiRoute P bus)))"
| "payeeHandler P bus PauseSi = mountBanking P (requireStepUp P ''standing.update''
     (auditMiddleware P ''si.paused'' (paramTarget ''standing_instruction'') (postPauseRoute bus)))"
| "payeeHandler P bus ResumeSi = mountBanking P (requireStepUp P ''standing.update''
     (auditMiddleware P ''si.resumed'' (paramTarget ''standing_instruction'') (postResumeRoute bus)))"
| "payeeHandler P bus CancelSi = mountBanking P (requireStepUp P ''standing.cancel''
     (auditMiddleware P ''si.cancelled'' (paramTarget ''standing_instruction'') (postCancelSiRoute bus)))"

end
