(* ===== verification/CustomerRoutes.thy ===== *)
theory CustomerRoutes
  imports Routes KycOps Statements AccountRoutes
begin

text \<open>
  The routes of KYC (\<open>contexts/kyc/interface/routes.ts\<close>), notifications
  (\<open>contexts/notifications/interface/routes.ts\<close>) and statements (\<open>contexts/statements/interface/routes.ts\<close>).
\<close>

section \<open>KYC\<close>

definition serializeKyc :: "kyc_application \<Rightarrow> json" where
  "serializeKyc k = JObject
     ([(''id'', JString (k_id k)), (''userId'', JString (k_userId k)), (''fullName'', JString (k_fullName k)),
       (''dob'', JString (k_dob k)), (''pan'', JString (k_pan k)), (''address'', JString (k_address k)),
       (''requestedAccountType'', JString (accountTypeName (k_requestedAccountType k))),
       (''status'', JString (kycStatusName (k_status k))), (''submittedAt'', isoDate (k_submittedAt k))]
      @ optField ''decidedAt'' isoDate (k_decidedAt k) @ optText ''rejectReason'' (k_rejectReason k))"

definition kycMapErr :: "error \<Rightarrow> error" where
  "kycMapErr e = composeDomainErrorTranslation [translateKycDomainError] e"

definition postKycRoute :: "bus \<Rightarrow> handler" where
  "postKycRoute bus rq = mapError kycMapErr (
     bnd (needText 128 (field rq ''fullName'') ''Invalid fullName'') (\<lambda>fullName.
     bnd (needText 10 (field rq ''dob'') ''Invalid dob'') (\<lambda>dob.
     bnd (needText 10 (field rq ''pan'') ''Invalid pan'') (\<lambda>pan.
     bnd (needText 256 (field rq ''address'') ''Invalid address'') (\<lambda>address.
     thn (check400 (case field rq ''docB64'' of None \<Rightarrow> True | Some v \<Rightarrow> textUpTo (32 * 1024) v) ''Invalid docB64'')
    (thn (check400 (optionalIs (\<lambda>v. asAccountType (Some v) \<noteq> None) (field rq ''requestedAccountType''))
            ''Invalid requestedAccountType'')
    (bnd (inWorld (submitKyc bus
            \<lparr>sk_userId = callerId rq, sk_fullName = fullName, sk_dob = dob, sk_pan = pan, sk_address = address,
             sk_docB64 = asText (field rq ''docB64''),
             sk_requested = asAccountType (field rq ''requestedAccountType'')\<rparr>)) (\<lambda>k.
     jsonStatus 201 (jsonOne ''application'' (serializeKyc k))))))))))"

definition getMyKycRoute :: handler where
  "getMyKycRoute rq = bnd (query (\<lambda>d. listKycByUserId d (callerId rq))) (\<lambda>ks.
     json200 (jsonList ''applications'' serializeKyc ks))"

definition getKycQueueRoute :: handler where
  "getKycQueueRoute rq = bnd (query (\<lambda>d. listKycByStatus d Submitted 100)) (\<lambda>ks.
     json200 (jsonList ''applications'' serializeKyc ks))"

definition postApproveKycRoute :: "bus \<Rightarrow> handler" where
  "postApproveKycRoute bus rq = mapError kycMapErr (
     bnd (needUuid (param rq ''id'') ''Invalid id'') (\<lambda>i.
     bnd (inWorld (approveKyc bus i (callerId rq))) (\<lambda>k.
     json200 (jsonOne ''application'' (serializeKyc k)))))"

definition postRejectKycRoute :: "bus \<Rightarrow> handler" where
  "postRejectKycRoute bus rq = mapError kycMapErr (
     bnd (needUuid (param rq ''id'') ''Invalid id'') (\<lambda>i.
     bnd (needText 256 (field rq ''reason'') ''Invalid reason'') (\<lambda>reason.
     bnd (inWorld (rejectKyc bus i (callerId rq) reason)) (\<lambda>k.
     json200 (jsonOne ''application'' (serializeKyc k))))))"

section \<open>Notifications\<close>

primrec notificationKindName :: "notification_kind \<Rightarrow> string" where
  "notificationKindName NKycApproved = ''kyc.approved''"
| "notificationKindName NKycRejected = ''kyc.rejected''"
| "notificationKindName NTransferSent = ''transfer.sent''"
| "notificationKindName NTransferReceived = ''transfer.received''"
| "notificationKindName NStandingExecuted = ''standing.executed''"
| "notificationKindName NPasswordChanged = ''password.changed''"
| "notificationKindName NPasskeyRevoked = ''passkey.revoked''"
| "notificationKindName NCardFrozen = ''card.frozen''"
| "notificationKindName NCardIssued = ''card.issued''"
| "notificationKindName NCardSpent = ''card.spent''"
| "notificationKindName NDisputeFiled = ''dispute.filed''"
| "notificationKindName NDisputeDecided = ''dispute.decided''"
| "notificationKindName NStandingFailed = ''standing.failed''"

definition serializeNotification :: "notification \<Rightarrow> json" where
  "serializeNotification n = JObject
     ([(''id'', JString (nt_id n)), (''kind'', JString (notificationKindName (nt_kind n))),
       (''title'', JString (nt_title n)), (''body'', JString (nt_body n))]
      @ optField ''readAt'' isoDate (nt_readAt n) @ optText ''relatedEntityType'' (nt_relatedEntityType n)
      @ optText ''relatedEntityId'' (nt_relatedEntityId n) @ [(''createdAt'', isoDate (nt_createdAt n))])"

text \<open>
  \<open>Math.min(rawLimit, 100)\<close> of a finite positive number, else 50; a limit that is not whole makes the
  statement fail.
\<close>

definition notificationLimit :: "json option \<Rightarrow> number" where
  "notificationLimit v = (case toNumber v of
      JNum r \<Rightarrow> if 0 < r then JNum (min r 100) else JNum 50
    | _ \<Rightarrow> JNum 50)"

definition getNotificationsRoute :: handler where
  "getNotificationsRoute rq =
     (let unread = (map_of (rq_query rq) ''unread'' \<in> {Some (JString ''true''), Some (JString ''1'')});
          limit = notificationLimit (map_of (rq_query rq) ''limit'') in
      thn (throwIf (\<not> isInteger limit) (SqliteError ''datatype mismatch''))
     (bnd (query (\<lambda>d. listNotificationsByUser d (callerId rq) unread (Some (nat (intOf limit))))) (\<lambda>ns.
      bnd (query (\<lambda>d. countUnread d (callerId rq))) (\<lambda>n.
      json200 (JObject [(''notifications'', JArray (map serializeNotification ns)), (''unreadCount'', JNumber (int n))])))))"

definition postReadRoute :: handler where
  "postReadRoute rq =
     bnd (needUuid (param rq ''id'') ''Invalid id'') (\<lambda>i.
     bnd (query (\<lambda>d. findNotificationById d i)) (\<lambda>x.
     bnd (require x (notFoundError ''Notification not found'')) (\<lambda>n.
     thn (throwIf (nt_userId n \<noteq> callerId rq) (HttpErr (forbiddenError ''Not your notification'')))
    (bnd nowMs (\<lambda>now.
     thn (inWorld (markRead i now)) (json200 (jsonOne ''success'' (JBool True))))))))"

definition postMarkAllRoute :: handler where
  "postMarkAllRoute rq =
     bnd nowMs (\<lambda>now. thn (inWorld (markAllRead (callerId rq) now)) (json200 (jsonOne ''success'' (JBool True))))"

section \<open>Statements\<close>

definition statementLineJson :: "statement_line \<Rightarrow> json" where
  "statementLineJson l = JObject
     ([(''postedAt'', JString (sl_postedAt l)), (''transferId'', JString (sl_transferId l)),
       (''direction'', JString (directionName (sl_direction l))), (''amountMinor'', JNumber (sl_amount l)),
       (''runningBalanceMinor'', JNumber (sl_runningBalance l))]
      @ optText ''counterpartyAccountId'' (sl_counterpartyAccountId l) @ optText ''counterpartyName'' (sl_counterpartyName l)
      @ optText ''referenceNumber'' (sl_referenceNumber l) @ optText ''memo'' (sl_memo l)
      @ optText ''description'' (sl_description l) @ [(''kind'', JString (transferKindName (sl_kind l)))])"

definition statementJson :: "monthly_statement \<Rightarrow> json" where
  "statementJson m = JObject
     [(''accountId'', JString (ms_accountId m)), (''month'', JString (ms_month m)),
      (''openingBalanceMinor'', JNumber (ms_opening m)), (''closingBalanceMinor'', JNumber (ms_closing m)),
      (''totalDebitMinor'', JNumber (ms_totalDebit m)), (''totalCreditMinor'', JNumber (ms_totalCredit m)),
      (''lines'', JArray (map statementLineJson (ms_lines m)))]"

text \<open>\<open>(req.query.month as string | undefined) ?? defaultMonth()\<close>\<close>

definition defaultMonth :: "string http" where
  "defaultMonth = bnd nowMs (\<lambda>now. ret (monthOfDate now))"

definition monthParam :: "request \<Rightarrow> json http" where
  "monthParam rq = (case map_of (rq_query rq) ''month'' of
      None \<Rightarrow> bnd defaultMonth (\<lambda>m. ret (JString m)) | Some JNull \<Rightarrow> bnd defaultMonth (\<lambda>m. ret (JString m))
    | Some v \<Rightarrow> ret v)"

definition asMonth :: "json \<Rightarrow> string option" where
  "asMonth v = (case v of JString s \<Rightarrow> if isMonth s then Some s else None | _ \<Rightarrow> None)"

text \<open>What the three routes begin with: the account, its owner and the statement.\<close>

definition statementFor :: "request \<Rightarrow> (account \<times> string \<times> monthly_statement) http" where
  "statementFor rq =
     bnd (monthParam rq) (\<lambda>v.
     bnd (needUuid (param rq ''accountId'') ''Invalid accountId'') (\<lambda>i.
     bnd (require (asMonth v) (badRequestError ''Invalid month (expected YYYY-MM)'')) (\<lambda>month.
     bnd (query (\<lambda>d. findAccountById d i)) (\<lambda>x.
     bnd (require x (notFoundError ''Account not found'')) (\<lambda>a.
     thn (throwIf (acc_userId a \<noteq> callerId rq \<and> callerRole rq \<noteq> Admin)
            (HttpErr (forbiddenError ''Cannot view this account's statement'')))
    (bnd (query (\<lambda>d. getMonthlyStatement d i month)) (\<lambda>r.
     bnd (lift r) (\<lambda>st. ret (a, month, st)))))))))"

definition getStatementRoute :: handler where
  "getStatementRoute rq = bnd (statementFor rq) (\<lambda>(a, month, st). json200 (jsonOne ''statement'' (statementJson st)))"

definition getCsvRoute :: handler where
  "getCsvRoute rq = bnd (statementFor rq) (\<lambda>(a, month, st).
     json200 (JObject [(''filename'', JString (''statement-'' @ acc_number a @ ''-'' @ month @ ''.csv'')),
                       (''csv'', JString (statementToCsv st (acc_number a)))]))"

definition getPdfRoute :: "platform \<Rightarrow> handler" where
  "getPdfRoute P rq = bnd (statementFor rq) (\<lambda>(a, month, st).
     json200 (JObject [(''filename'', JString (''statement-'' @ acc_number a @ ''-'' @ month @ ''.pdf'')),
                       (''pdfBase64'', JString (pf_base64 P (statementToPdf st (acc_number a)))),
                       (''contentType'', JString ''application/pdf'')]))"

section \<open>The routers\<close>

datatype customer_route =
    SubmitKyc | MyKyc | KycQueue | ApproveKyc | RejectKyc | Notifications | ReadOne | ReadAll | Statement | StatementCsv | StatementPdf

fun customerHandler :: "platform \<Rightarrow> bus \<Rightarrow> customer_route \<Rightarrow> handler" where
  "customerHandler P bus SubmitKyc = mountCustomer P (auditMiddleware P ''kyc.submitted'' noTarget (postKycRoute bus))"
| "customerHandler P bus MyKyc = mountCustomer P getMyKycRoute"
| "customerHandler P bus KycQueue = mountAdmin P (auditMiddleware P ''admin.kyc.listed'' noTarget getKycQueueRoute)"
| "customerHandler P bus ApproveKyc =
     mountAdmin P (auditMiddleware P ''kyc.approved'' (paramTarget ''kyc_application'') (postApproveKycRoute bus))"
| "customerHandler P bus RejectKyc =
     mountAdmin P (auditMiddleware P ''kyc.rejected'' (paramTarget ''kyc_application'') (postRejectKycRoute bus))"
| "customerHandler P bus Notifications = mountCustomer P getNotificationsRoute"
| "customerHandler P bus ReadOne = mountCustomer P postReadRoute"
| "customerHandler P bus ReadAll = mountCustomer P postMarkAllRoute"
| "customerHandler P bus Statement = mountBanking P getStatementRoute"
| "customerHandler P bus StatementCsv = mountBanking P getCsvRoute"
| "customerHandler P bus StatementPdf = mountBanking P (getPdfRoute P)"

end
