(* ===== verification/AuditRoutes.thy ===== *)
theory AuditRoutes
  imports Routes AuditLog Statements
begin

text \<open>The administrators' view of the audit log (\<open>contexts/audit/interface/admin.ts\<close>).\<close>

section \<open>The filter of a query\<close>

definition CATEGORY_VALUES :: "audit_category list" where
  "CATEGORY_VALUES = [CatAuth, CatMoney, CatKyc, CatAccount, CatBeneficiary, CatBill, CatSi, CatCard, CatAdminRead,
     CatAdminWrite, CatSystem]"

definition optString :: "json option \<Rightarrow> string option" where
  "optString v = (case v of Some (JString s) \<Rightarrow> if trim s = [] then None else Some (trim s) | _ \<Rightarrow> None)"

definition optDate :: "platform \<Rightarrow> json option \<Rightarrow> int option" where
  "optDate P v = (case optString v of None \<Rightarrow> None | Some s \<Rightarrow> pf_parseDate P s)"

text \<open>\<open>parseInt\<close> of the text, or of the default; what is not finite is the default again.\<close>

definition intParam :: "int \<Rightarrow> json option \<Rightarrow> int" where
  "intParam dflt v = (case optString v of None \<Rightarrow> dflt
     | Some s \<Rightarrow> (case parseIntText s of None \<Rightarrow> dflt
        | Some n \<Rightarrow> (case asDouble (of_int n) of JNum r \<Rightarrow> n | _ \<Rightarrow> dflt)))"

definition parseFilter :: "platform \<Rightarrow> (string \<times> json) list \<Rightarrow> error + audit_filter \<times> int \<times> int" where
  "parseFilter P q =
     (let get = (\<lambda>k. optString (map_of q k));
          category = (\<lambda>c. List.find (\<lambda>k. categoryName k = c) CATEGORY_VALUES) in
      andThen (check (case get ''action'' of None \<Rightarrow> True | Some a \<Rightarrow> a \<in> set AUDIT_ACTION_VALUES)
        (HttpErr (badRequestError (''Unknown action: '' @ the (get ''action''))))) (\<lambda>_.
      andThen (check (case get ''category'' of None \<Rightarrow> True | Some c \<Rightarrow> category c \<noteq> None)
        (HttpErr (badRequestError (''Unknown category: '' @ the (get ''category''))))) (\<lambda>_.
      andThen (check (case get ''status'' of None \<Rightarrow> True | Some s \<Rightarrow> s \<in> {''success'', ''failure''})
        (HttpErr (badRequestError (''Unknown status: '' @ the (get ''status''))))) (\<lambda>_.
      Inr (\<lparr>af_actorUserId = orElse (get ''actor'') (get ''actorUserId''), af_actorUsername = get ''actorUsername'',
            af_action = get ''action'',
            af_category = (case get ''category'' of None \<Rightarrow> None | Some c \<Rightarrow> category c),
            af_status = (case get ''status'' of None \<Rightarrow> None
                         | Some s \<Rightarrow> Some (if s = ''success'' then AuditSuccess else AuditFailure)),
            af_targetType = get ''targetType'', af_targetId = get ''targetId'',
            af_from = optDate P (map_of q ''from''), af_to = optDate P (map_of q ''to''), af_limit = 0, af_offset = 0\<rparr>,
           intParam 50 (map_of q ''limit''), intParam 0 (map_of q ''offset''))))))"

section \<open>Serialization\<close>

definition serializeAudit :: "audit_entry \<Rightarrow> json" where
  "serializeAudit e =
     (let text = (\<lambda>k x. (k, orNull JString x)) in
      JObject [(''id'', JString (au_id e)), (''seq'', JNumber (int (au_seq e))), (''occurredAt'', isoDate (au_occurredAt e)),
        text ''actorUserId'' (au_actorUserId e), text ''actorUsername'' (au_actorUsername e),
        (''actorRole'', JString (auditRoleName (au_actorRole e))), text ''sessionId'' (au_sessionId e),
        (''action'', JString (au_action e)), (''category'', JString (categoryName (au_category e))),
        text ''targetType'' (au_targetType e), text ''targetId'' (au_targetId e),
        (''status'', JString (auditStatusName (au_status e))), text ''errorCode'' (au_errorCode e),
        (''summary'', JString (au_summary e)), (''payload'', orNull (\<lambda>v. v) (au_payload e)),
        text ''requestId'' (au_requestId e), text ''ip'' (au_ip e), text ''userAgent'' (au_userAgent e),
        text ''prevHash'' (au_prevHash e), (''hash'', JString (au_hash e))])"

definition CSV_COLUMNS :: "string list" where
  "CSV_COLUMNS = [''seq'', ''occurredAt'', ''actorUserId'', ''actorUsername'', ''actorRole'', ''action'', ''category'',
     ''targetType'', ''targetId'', ''status'', ''errorCode'', ''summary'', ''requestId'', ''ip'', ''hash'']"

definition textOf :: "string option \<Rightarrow> string" where
  "textOf x = (case x of None \<Rightarrow> [] | Some s \<Rightarrow> s)"

text \<open>The columns of an entry, in the order of \<open>CSV_COLUMNS\<close>.\<close>

definition auditColumns :: "audit_entry \<Rightarrow> string list" where
  "auditColumns e =
     [showNat (au_seq e), toISOString (au_occurredAt e), textOf (au_actorUserId e), textOf (au_actorUsername e),
      auditRoleName (au_actorRole e), au_action e, categoryName (au_category e), textOf (au_targetType e),
      textOf (au_targetId e), auditStatusName (au_status e), textOf (au_errorCode e), au_summary e, textOf (au_requestId e),
      textOf (au_ip e), au_hash e]"

definition csvCell :: "string \<Rightarrow> string" where
  "csvCell s = (if list_ex (\<lambda>c. c \<in> {CHR '','', CHR 0x22, CHR 0x0A}) s
     then [CHR 0x22] @ concat (map doubleQuote s) @ [CHR 0x22] else s)"

definition auditToCsv :: "audit_entry list \<Rightarrow> string" where
  "auditToCsv es = joinWith [CHR 0x0A] (joinWith '','' CSV_COLUMNS # map (\<lambda>e. joinWith '','' (map csvCell (auditColumns e))) es)"

section \<open>The handlers\<close>

text \<open>An offset outside the integers of SQLite makes the statement fail.\<close>

definition auditPage :: "platform \<Rightarrow> request \<Rightarrow> int option \<Rightarrow> int option \<Rightarrow> (audit_page \<times> int \<times> int) http" where
  "auditPage P rq limit offset =
     bnd (lift (parseFilter P (rq_query rq))) (\<lambda>(f, l, k).
     (let lim = (case limit of None \<Rightarrow> l | Some x \<Rightarrow> x); off = (case offset of None \<Rightarrow> k | Some x \<Rightarrow> x) in
      thn (throwIf (2 ^ 63 \<le> off) (SqliteError ''datatype mismatch''))
     (bnd (query (listAudit f (Some lim) (Some off))) (\<lambda>p. ret (p, l, k)))))"

definition getAuditRoute :: "platform \<Rightarrow> handler" where
  "getAuditRoute P rq = bnd (auditPage P rq None None) (\<lambda>(p, l, k).
     json200 (JObject [(''entries'', JArray (map serializeAudit (ap_entries p))), (''total'', JNumber (int (ap_total p))),
       (''hasMore'', JBool (ap_hasMore p)), (''limit'', JNumber l), (''offset'', JNumber k)]))"

definition verifyRoute :: "platform \<Rightarrow> handler" where
  "verifyRoute P rq = bnd (query listAllChronological) (\<lambda>es.
     json200 (case verifyChain (pf_sha256 P) es of
        ChainOk n \<Rightarrow> JObject [(''ok'', JBool True), (''count'', JNumber (int n))]
      | ChainBroken i s reason \<Rightarrow> JObject [(''ok'', JBool False), (''brokenAtId'', JString i),
          (''brokenAtSeq'', JNumber (int s)), (''reason'', JString reason)]))"

definition getActionsRoute :: handler where
  "getActionsRoute rq = json200 (JObject [(''actions'', JArray (map JString AUDIT_ACTION_VALUES)),
     (''categories'', JArray (map (\<lambda>c. JString (categoryName c)) CATEGORY_VALUES))])"

definition exportRoute :: "platform \<Rightarrow> handler" where
  "exportRoute P rq = bnd (auditPage P rq (Some 5000) (Some 0)) (\<lambda>(p, l, k).
     json200 (JObject [(''csv'', JString (auditToCsv (ap_entries p))), (''count'', JNumber (int (length (ap_entries p))))]))"

definition getAuditEntryRoute :: handler where
  "getAuditEntryRoute rq =
     bnd (require (map_of (rq_params rq) ''id'') (notFoundError ''Audit entry not found'')) (\<lambda>i.
     bnd (query (\<lambda>d. findAuditById d i)) (\<lambda>x.
     bnd (require x (notFoundError ''Audit entry not found'')) (\<lambda>e.
     json200 (jsonOne ''entry'' (serializeAudit e)))))"

section \<open>The router\<close>

datatype audit_route = ListAudit | VerifyAudit | AuditActionNames | ExportAudit | ViewAudit

fun auditHandler :: "platform \<Rightarrow> audit_route \<Rightarrow> handler" where
  "auditHandler P ListAudit = mountAdmin P (auditMiddleware P ''admin.audit.listed'' noTarget (getAuditRoute P))"
| "auditHandler P VerifyAudit = mountAdmin P (auditMiddleware P ''admin.audit.verified'' noTarget (verifyRoute P))"
| "auditHandler P AuditActionNames = mountAdmin P getActionsRoute"
| "auditHandler P ExportAudit = mountAdmin P (auditMiddleware P ''admin.audit.exported'' noTarget (exportRoute P))"
| "auditHandler P ViewAudit = mountAdmin P (auditMiddleware P ''admin.audit.viewed'' noTarget getAuditEntryRoute)"

section \<open>Pages\<close>

text \<open>
  An export holds at most 200 entries, however many match: the 5000 it asks for are clamped to the size of a
  page of the list.
\<close>

lemma auditList_page: "length (ap_entries (auditList f d)) \<le> af_limit f"
  by (simp add: auditList_def Let_def)

lemma listAudit_page: "length (ap_entries (listAudit f l k d)) \<le> nat MAX_PAGE"
proof -
  let ?l = "max 1 (min (case l of None \<Rightarrow> 50 | Some l \<Rightarrow> l) MAX_PAGE)"
  have "length (ap_entries (listAudit f l k d)) \<le> nat ?l"
    unfolding listAudit_def Let_def by (rule order_trans [OF auditList_page]) simp
  also have "\<dots> \<le> nat MAX_PAGE" by (simp add: MAX_PAGE_def)
  finally show ?thesis .
qed

end
