(* ===== verification/IdentityRoutes.thy ===== *)
theory IdentityRoutes
  imports Routes Container
begin

text \<open>
  The routes of identity: signing up, logging in with password and passkey or with a recovery code, one-time
  codes, password and contact changes, sessions (\<open>contexts/identity/interface/routes.ts\<close>), passkeys
  (\<open>credentials.ts\<close>) and the administration of users (\<open>admin.ts\<close>). An \<open>await\<close> of \<open>bcrypt\<close> or of the
  WebAuthn library is a step of the handler.
\<close>

section \<open>Helpers\<close>

abbreviation onLogins :: "(int \<Rightarrow> login_states \<Rightarrow> 'a \<times> login_states) \<Rightarrow> 'a http" where
  "onLogins \<equiv> onStore sv_logins (\<lambda>t. sv_logins_update (\<lambda>_. t))"

abbreviation onPasskeys :: "(int \<Rightarrow> passkey_challenges \<Rightarrow> 'a \<times> passkey_challenges) \<Rightarrow> 'a http" where
  "onPasskeys \<equiv> onStore sv_passkeys (\<lambda>t. sv_passkeys_update (\<lambda>_. t))"

abbreviation onOtp :: "(int \<Rightarrow> otp_slots \<Rightarrow> 'a \<times> otp_slots) \<Rightarrow> 'a http" where
  "onOtp \<equiv> onStore sv_otp (\<lambda>t. sv_otp_update (\<lambda>_. t))"

text \<open>\<open>auditFromRequest\<close>: an error of the recording is not swallowed here.\<close>

definition auditFromRequest ::
  "platform \<Rightarrow> request \<Rightarrow> string \<Rightarrow> string option \<times> string option \<times> audit_role \<Rightarrow> (string \<times> string) option \<Rightarrow> string option
     \<Rightarrow> string \<Rightarrow> json option \<Rightarrow> string option \<Rightarrow> unit http" where
  "auditFromRequest P rq action actor target errorCode summary payload sid =
     bnd (inWorld (recordAudit (pf_sha256 P)
       \<lparr>ai_action = action, ai_category = None, ai_actorUserId = fst actor, ai_actorUsername = fst (snd actor),
        ai_actorRole = Some (snd (snd actor)), ai_sessionId = (case sid of None \<Rightarrow> rq_sessionId rq | Some i \<Rightarrow> Some i),
        ai_target = target, ai_status = (if errorCode = None then AuditSuccess else AuditFailure),
        ai_errorCode = errorCode, ai_summary = summary, ai_payload = payload, ai_requestId = Some (rq_requestId rq),
        ai_ip = requestIp rq, ai_userAgent = rq_headers rq ''user-agent'', ai_occurredAt = None\<rparr>)) (\<lambda>_. ret ())"

definition auditUser ::
  "platform \<Rightarrow> request \<Rightarrow> string \<Rightarrow> user \<Rightarrow> string option \<Rightarrow> string \<Rightarrow> json option \<Rightarrow> string \<Rightarrow> unit http" where
  "auditUser P rq action u errorCode summary payload sid =
     auditFromRequest P rq action (Some (u_id u), Some (u_username u), auditRoleOf (u_role u)) (Some (''user'', u_id u))
       errorCode summary payload (Some sid)"

text \<open>The class of the errors a sign-up throws (\<open>e.constructor.name\<close>).\<close>

definition errorClass :: "error \<Rightarrow> string" where
  "errorClass e = (case e of
      Idn UsernameTakenError \<Rightarrow> ''UsernameTakenError'' | Idn InvalidEmailError \<Rightarrow> ''InvalidEmailError''
    | Idn (WeakPasswordError m) \<Rightarrow> ''WeakPasswordError'' | SqliteError m \<Rightarrow> ''SqliteError'' | _ \<Rightarrow> ''Error'')"

definition loginFailure :: "error \<Rightarrow> string" where
  "loginFailure e = (if e = Idn AccountLockedError then ''locked''
     else if e = Idn InvalidCredentialsError then ''bad_password_or_user'' else ''error'')"

definition loginError :: "error \<Rightarrow> error" where
  "loginError e = (if e = Idn AccountLockedError then HttpErr (forbiddenError ''Account is locked. Contact an admin.'')
     else if e = Idn InvalidCredentialsError then HttpErr (unauthorizedError ''Invalid credentials'') else e)"

definition identityLimiter :: middleware where
  "identityLimiter = limitRate ''identity'' 60000 30"

text \<open>The session a login names in its body, which has to exist.\<close>

definition needSession :: "string \<Rightarrow> unit http" where
  "needSession sid = bnd (onSessions (\<lambda>now. hasSession now sid)) (\<lambda>live.
     throwIf (\<not> live) (HttpErr (unauthorizedError ''Session not established'')))"

definition needPassword :: "request \<Rightarrow> string http" where
  "needPassword rq = require (asNonEmpty None (field rq ''password'')) (badRequestError ''Password required'')"

definition startLogin :: "platform \<Rightarrow> string \<Rightarrow> user \<Rightarrow> login_purpose \<Rightarrow> (string \<times> int) http" where
  "startLogin P sid u purpose =
     bnd (inWorld (draw (256 ^ 16))) (\<lambda>n.
     onLogins (\<lambda>now. setLoginState now (pf_base64url P (bytesOf 16 n)) sid (u_id u) (u_username u) purpose))"

text \<open>\<open>bindUser\<close> throws when the session is gone or belongs to another user.\<close>

definition bindSession :: "string \<Rightarrow> string \<Rightarrow> unit http" where
  "bindSession sid u = bnd (onSessions (\<lambda>now. bindUser now sid u)) (\<lambda>r.
     case r of Inl m \<Rightarrow> raise (GenericError m) | Inr _ \<Rightarrow> ret ())"

definition userJson :: "string \<Rightarrow> string \<Rightarrow> role \<Rightarrow> json" where
  "userJson i name r = JObject [(''id'', JString i), (''username'', JString name), (''role'', JString (roleName r))]"

section \<open>Signing up\<close>

definition signupError :: "error \<Rightarrow> error" where
  "signupError e = (case e of
      Idn UsernameTakenError \<Rightarrow> HttpErr (conflictError ''Username already taken'')
    | Idn InvalidEmailError \<Rightarrow> HttpErr (badRequestError ''Invalid email'')
    | Idn (WeakPasswordError m) \<Rightarrow> HttpErr (badRequestError m) | _ \<Rightarrow> e)"

definition postSignupRoute :: "platform \<Rightarrow> handler" where
  "postSignupRoute P rq =
     thn (check400 (asNonEmpty (Some 64) (field rq ''username'') \<noteq> None \<and> asNonEmpty (Some 254) (field rq ''email'') \<noteq> None)
            ''Invalid signup'')
    (bnd (require (asText (field rq ''password'')) (badRequestError ''Password is required'')) (\<lambda>password.
     (let username = the (asText (field rq ''username'')); email = the (asText (field rq ''email'')) in
      tryCatch
        (bnd (inWorld (signupUser (pf_bcrypt P) username email password (Some Customer))) (\<lambda>u.
         thn (auditFromRequest P rq ''auth.signup'' (Some (u_id u), Some (u_username u), RoleCustomer)
                (Some (''user'', u_id u)) None (''Signup for '' @ u_username u)
                (Some (JObject [(''username'', JString (u_username u)), (''email'', JString email)])) None)
             (jsonStatus 201 (JObject [(''userId'', JString (u_id u)), (''username'', JString (u_username u)),
                (''role'', JString (roleName (u_role u)))]))))
        (\<lambda>e. thn (auditFromRequest P rq ''auth.signup'' (None, Some username, RoleAnonymous) None (Some (errorClass e))
                    (''Signup failed for '' @ username)
                    (Some (JObject [(''username'', JString username), (''email'', JString email)])) None)
                 (raise (signupError e))))))"

section \<open>Logging in\<close>

definition postPasswordRoute :: "platform \<Rightarrow> handler" where
  "postPasswordRoute P rq =
     bnd (needText 64 (field rq ''username'') ''Invalid username'') (\<lambda>username.
     bnd (needPassword rq) (\<lambda>password.
     bnd (needUuid (field rq ''sessionId'') ''Invalid session'') (\<lambda>sid.
     thn (needSession sid)
    (tryCatch
       (bnd (inWorld (loginWithPassword (pf_bcrypt P) username password)) (\<lambda>(u, next).
        bnd (startLogin P sid u (if next = StepEnroll then EnrollPasskey else AuthPasskey)) (\<lambda>(nonce, expiresAt).
        json200 (JObject [(''nextStep'', JString (if next = StepEnroll then ''enroll'' else ''auth'')),
          (''username'', JString (u_username u)), (''nonce'', JString nonce), (''expiresAt'', JNumber expiresAt)]))))
       (\<lambda>e. thn (auditFromRequest P rq ''auth.login.failure'' (None, Some username, RoleAnonymous) None (Some (loginFailure e))
                   (''Login failed ('' @ loginFailure e @ '') for '' @ username)
                   (Some (JObject [(''username'', JString username), (''reason'', JString (loginFailure e))])) (Some sid))
                (raise (loginError e)))))))"

definition recoveryFailed :: "platform \<Rightarrow> request \<Rightarrow> string \<Rightarrow> string \<Rightarrow> string \<Rightarrow> unit http" where
  "recoveryFailed P rq username sid reason =
     auditFromRequest P rq ''auth.recovery.consumed.failure'' (None, Some username, RoleAnonymous) None (Some reason)
       (''Recovery attempt failed ('' @ reason @ '') for '' @ username)
       (Some (JObject [(''username'', JString username), (''reason'', JString reason)])) (Some sid)"

definition postRecoveryRoute :: "platform \<Rightarrow> bus \<Rightarrow> handler" where
  "postRecoveryRoute P bus rq =
     bnd (needText 64 (field rq ''username'') ''Invalid username'') (\<lambda>username.
     bnd (needPassword rq) (\<lambda>password.
     bnd (needText 64 (field rq ''code'') ''Recovery code required'') (\<lambda>code.
     bnd (needUuid (field rq ''sessionId'') ''Invalid session'') (\<lambda>sid.
     thn (needSession sid)
    (bnd (tryCatch (inWorld (loginWithPassword (pf_bcrypt P) username password))
            (\<lambda>e. thn (recoveryFailed P rq username sid (loginFailure e)) (raise (loginError e)))) (\<lambda>(u, next).
     bnd (inWorld (consumeRecoveryCode (pf_bcrypt P) (Some bus) (u_id u) code)) (\<lambda>x.
     if x = None
     then thn (recoveryFailed P rq username sid ''invalid_recovery_code'')
              (fail (forbiddenError ''Invalid or expired recovery code''))
     else bnd (startLogin P sid u EnrollAdditional) (\<lambda>(nonce, expiresAt).
          json200 (JObject [(''nextStep'', JString ''enroll-additional''), (''username'', JString (u_username u)),
            (''nonce'', JString nonce), (''expiresAt'', JNumber expiresAt)])))))))))"

definition needNonce :: "request \<Rightarrow> string http" where
  "needNonce rq = require (asText (field rq ''nonce'')) (badRequestError ''Invalid nonce'')"

text \<open>The login state, which has to be there and to carry the nonce the client sent.\<close>

definition needState :: "login_state option \<Rightarrow> string \<Rightarrow> login_state http" where
  "needState x nonce = require (case x of None \<Rightarrow> None | Some l \<Rightarrow> if ls_nonce l \<noteq> nonce then None else Some l)
     (forbiddenError ''Login state expired or invalid'')"

definition postPasskeyOptionsRoute :: "platform \<Rightarrow> handler" where
  "postPasskeyOptionsRoute P rq =
     bnd (needUuid (field rq ''sessionId'') ''Invalid session'') (\<lambda>sid.
     bnd (needNonce rq) (\<lambda>nonce.
     thn (needSession sid)
    (bnd (onLogins (\<lambda>now. peekLoginState now sid AuthPasskey)) (\<lambda>x.
     bnd (needState x nonce) (\<lambda>l.
     bnd (query (\<lambda>d. listCredentialsByUserId d (ls_userId l))) (\<lambda>cs.
     thn (throwIf (cs = []) (HttpErr (notFoundError ''User has no registered credentials'')))
    (bnd (inWorld (draw (256 ^ 32))) (\<lambda>n.
     (case pf_authenticationOptions P n cs of (challenge, options) \<Rightarrow>
      thn (onPasskeys (\<lambda>now s. ((), mapSet s sid \<lparr>pk_challenge = challenge, pk_expiresAt = now + CHALLENGE_TTL_MS\<rparr>)))
          (json200 options))))))))))"

text \<open>\<open>!response || typeof response !== "object"\<close>\<close>

definition needResponse :: "request \<Rightarrow> json http" where
  "needResponse rq = require (case field rq ''response'' of
      Some (JObject kvs) \<Rightarrow> Some (JObject kvs) | Some (JArray vs) \<Rightarrow> Some (JArray vs) | _ \<Rightarrow> None)
     (badRequestError ''Invalid response'')"

definition credentialId :: "json \<Rightarrow> string option" where
  "credentialId v = (case v of JObject kvs \<Rightarrow> asText (map_of kvs ''id'') | _ \<Rightarrow> None)"

definition ownCredential :: "string \<Rightarrow> string \<Rightarrow> credential http" where
  "ownCredential u i = bnd (query (\<lambda>d. findCredentialById d i)) (\<lambda>x.
     require (case x of None \<Rightarrow> None | Some c \<Rightarrow> if cr_userId c \<noteq> u then None else Some c) (forbiddenError ''Unknown credential''))"

text \<open>The assertion is checked by the library; the credential's use and counter are stored.\<close>

definition verifyAssertion :: "platform \<Rightarrow> json \<Rightarrow> string \<Rightarrow> credential \<Rightarrow> unit http" where
  "verifyAssertion P v challenge cred =
     bnd (lift (pf_verifyAuthentication P v challenge cred)) (\<lambda>r.
     bnd (require r (forbiddenError ''Assertion not verified'')) (\<lambda>counter.
     bnd nowMs (\<lambda>now. inWorld (updateUsage (cr_id cred) now counter))))"

definition postPasskeyVerifyRoute :: "platform \<Rightarrow> handler" where
  "postPasskeyVerifyRoute P rq =
     bnd (needUuid (field rq ''sessionId'') ''Invalid session'') (\<lambda>sid.
     bnd (needNonce rq) (\<lambda>nonce.
     bnd (needResponse rq) (\<lambda>v.
     thn (needSession sid)
    (bnd (onLogins (\<lambda>now. consumeLoginState now sid AuthPasskey)) (\<lambda>x.
     bnd (needState x nonce) (\<lambda>l.
     bnd (onPasskeys (\<lambda>now. takePasskey now sid)) (\<lambda>y.
     bnd (require y (forbiddenError ''No passkey challenge'')) (\<lambda>stored.
     bnd (require (credentialId v) (badRequestError ''Missing credential id'')) (\<lambda>credId.
     bnd (ownCredential (ls_userId l) credId) (\<lambda>cred.
     thn (verifyAssertion P v (pk_challenge stored) cred)
    (bnd (query (\<lambda>d. findUserById d (ls_userId l))) (\<lambda>z.
     bnd (require z (notFoundError ''Unknown user'')) (\<lambda>u.
     thn (bindSession sid (u_id u))
    (thn (auditUser P rq ''auth.passkey.authenticated'' u None (''Passkey assertion verified for '' @ u_username u)
            (Some (JObject [(''credentialId'', JString (cr_id cred))])) sid)
    (thn (auditUser P rq ''auth.login.success'' u None (''Login success for '' @ u_username u) None sid)
         (json200 (JObject [(''verified'', JBool True), (''user'', userJson (u_id u) (u_username u) (u_role u))])))))))))))))))))"

section \<open>The session of the caller\<close>

definition callerName :: "request \<Rightarrow> string" where
  "callerName rq = (case rq_user rq of None \<Rightarrow> [] | Some (i, n, r) \<Rightarrow> n)"

definition sessionOf :: "request \<Rightarrow> string" where
  "sessionOf rq = (case rq_sessionId rq of None \<Rightarrow> [] | Some i \<Rightarrow> i)"

definition getMeRoute :: handler where
  "getMeRoute rq = json200 (jsonOne ''user'' (userJson (callerId rq) (callerName rq) (callerRole rq)))"

definition auditCaller :: "platform \<Rightarrow> request \<Rightarrow> string \<Rightarrow> string option \<Rightarrow> string \<Rightarrow> json option \<Rightarrow> unit http" where
  "auditCaller P rq action errorCode summary payload =
     auditFromRequest P rq action (Some (callerId rq), Some (callerName rq), auditRoleOf (callerRole rq))
       (Some (''user'', callerId rq)) errorCode summary payload (Some (sessionOf rq))"

definition postLogoutRoute :: "platform \<Rightarrow> handler" where
  "postLogoutRoute P rq =
     thn (auditCaller P rq ''auth.logout'' None (''Logout for '' @ callerName rq) None)
    (thn (onLogins (\<lambda>now s. ((), clearLoginState (sessionOf rq) s)))
    (thn (onSessions (\<lambda>now s. ((), deleteSession (sessionOf rq) s)))
         (json200 (jsonOne ''success'' (JBool True)))))"

section \<open>One-time codes\<close>

text \<open>\<open>body.params ?? {}\<close>\<close>

definition paramsOf :: "request \<Rightarrow> json" where
  "paramsOf rq = (case field rq ''params'' of None \<Rightarrow> JObject [] | Some JNull \<Rightarrow> JObject [] | Some v \<Rightarrow> v)"

definition needOtpAction :: "string \<Rightarrow> unit http" where
  "needOtpAction action = check400 (isOtpRequired action) ''Action does not require OTP''"

definition postOtpRequestRoute :: "platform \<Rightarrow> handler" where
  "postOtpRequestRoute P rq =
     bnd (needText 64 (field rq ''action'') ''Invalid action'') (\<lambda>action.
     thn (needOtpAction action)
    (bnd (query (\<lambda>d. findUserById d (callerId rq))) (\<lambda>x.
     bnd (require x (unauthorizedError ''Login required'')) (\<lambda>u.
     bnd (inWorld (draw 1000000)) (\<lambda>rnd.
     bnd (inWorld uuid) (\<lambda>i.
     bnd (onOtp (\<lambda>now. requestOtp now rnd i (sessionOf rq) action (hashActionParams P (Some (paramsOf rq))) (callerId rq))) (\<lambda>r.
     json200 (JObject [(''requestId'', JString (or_requestId r)), (''expiresAt'', JNumber (or_expiresAt r)),
       (''cooldownUntil'', JNumber (or_cooldownUntil r)), (''deliveredVia'', JString ''stub''),
       (''resent'', JBool (or_resent r))]))))))))"

primrec otpReason :: "otp_outcome \<Rightarrow> string" where
  "otpReason (OtpOk u) = ''ok''"
| "otpReason OtpMissing = ''missing''"
| "otpReason OtpExpired = ''expired''"
| "otpReason OtpLocked = ''locked''"
| "otpReason OtpMismatch = ''mismatch''"

definition postOtpVerifyRoute :: "platform \<Rightarrow> handler" where
  "postOtpVerifyRoute P rq =
     bnd (needText 64 (field rq ''action'') ''Invalid action'') (\<lambda>action.
     bnd (needText 16 (field rq ''code'') ''Invalid code'') (\<lambda>code.
     thn (needOtpAction action)
    (let h = hashActionParams P (Some (paramsOf rq)) in
     bnd (onOtp (\<lambda>now. verifyOtp (pf_stubOtp P) now (sessionOf rq) action h code (callerId rq))) (\<lambda>outcome.
     if isOtpOk outcome
     then bnd (inWorld uuid) (\<lambda>jti.
          bnd (onStore sv_otpJti (\<lambda>t. sv_otpJti_update (\<lambda>_. t))
                 (\<lambda>now. mintOtpToken (pf_otp P) now jti action (sessionOf rq) h)) (\<lambda>(token, ex).
          thn (auditCaller P rq ''auth.otp.verified'' None (''OTP verified for '' @ callerName rq @ '' action='' @ action)
                 (Some (JObject [(''action'', JString action)])))
              (json200 (JObject [(''otpToken'', JString token), (''expiresAt'', JNumber ex)]))))
     else thn (auditCaller P rq ''auth.otp.failed'' (Some (otpReason outcome))
                 (''OTP verify failed ('' @ otpReason outcome @ '') for '' @ callerName rq @ '' action='' @ action)
                 (Some (JObject [(''action'', JString action), (''reason'', JString (otpReason outcome))])))
              (fail (forbiddenError (''OTP '' @ otpReason outcome)))))))"

section \<open>Profile and security\<close>

definition passwordError :: "error \<Rightarrow> error" where
  "passwordError e = (case e of
      Idn UnknownUserError \<Rightarrow> HttpErr (notFoundError ''User not found'')
    | Idn InvalidCredentialsError \<Rightarrow> HttpErr (unauthorizedError ''Current password is incorrect'')
    | Idn (WeakPasswordError m) \<Rightarrow> HttpErr (badRequestError m) | _ \<Rightarrow> e)"

definition postPasswordChangeRoute :: "platform \<Rightarrow> bus \<Rightarrow> handler" where
  "postPasswordChangeRoute P bus rq =
     bnd (require (asNonEmpty None (field rq ''oldPassword'')) (badRequestError ''oldPassword required'')) (\<lambda>old.
     bnd (require (asNonEmpty None (field rq ''newPassword'')) (badRequestError ''newPassword required'')) (\<lambda>new.
     mapError passwordError (
       thn (inWorld (changePassword (pf_bcrypt P) (callerId rq) old new))
      (bnd nowMs (\<lambda>now.
       thn (inWorld (bus [IdentityEv (PasswordChanged (callerId rq) (callerName rq) now)]))
           (json200 (jsonOne ''success'' (JBool True))))))))"

definition postContactRoute :: handler where
  "postContactRoute rq = mapError (\<lambda>e. HttpErr (badRequestError (errorMessage e))) (
     bnd (require (if field rq ''field'' \<in> {Some (JString ''email''), Some (JString ''mobile'')} then asText (field rq ''field'')
            else None) (badRequestError ''Invalid field'')) (\<lambda>f.
     bnd (require (asNonEmpty None (field rq ''value'')) (badRequestError ''Invalid value'')) (\<lambda>v.
     thn (inWorld (if f = ''email'' then changeEmail (callerId rq) v else changeMobile (callerId rq) v))
         (json200 (jsonOne ''success'' (JBool True))))))"

definition getSessionsRoute :: handler where
  "getSessionsRoute rq =
     bnd (onSessions (\<lambda>now s. (listSessionsByUser now (callerId rq) s, s))) (\<lambda>ss.
     json200 (jsonList ''sessions'' (\<lambda>x. JObject [(''sessionId'', JString (us_sessionId x)),
       (''isCurrent'', JBool (us_sessionId x = sessionOf rq)), (''createdAt'', isoDate (us_createdAt x)),
       (''lastUsedAt'', isoDate (us_lastUsedAt x))]) ss))"

definition postWipeRoute :: handler where
  "postWipeRoute rq =
     bnd (onSessions (\<lambda>now. deleteSessionsByUser (callerId rq) (Some (sessionOf rq)))) (\<lambda>n.
     json200 (JObject [(''success'', JBool True), (''wiped'', JNumber (int n))]))"

end
