(* ===== verification/SecurityRoutes.thy ===== *)
theory SecurityRoutes
  imports IdentityRoutes
begin

text \<open>
  The rest of the identity routes (\<open>credentials.ts\<close>, \<open>admin.ts\<close>), the passkey ceremonies
  (\<open>routes/webauthn.ts\<close>), the key agreement that opens a session (\<open>routes/security.ts\<close>), the routes for
  development (\<open>routes/dev.ts\<close>) and the routers.
\<close>

section \<open>Passkeys of the caller\<close>

primrec deviceTypeName :: "device_type \<Rightarrow> string" where
  "deviceTypeName SingleDevice = ''singleDevice''"
| "deviceTypeName MultiDevice = ''multiDevice''"

definition credentialJson :: "credential \<Rightarrow> json" where
  "credentialJson c = JObject
     [(''id'', JString (cr_id c)), (''label'', orNull JString (cr_label c)),
      (''deviceType'', JString (deviceTypeName (cr_deviceType c))), (''backedUp'', JBool (cr_backedUp c)),
      (''transports'', JArray (map JString (case cr_transports c of None \<Rightarrow> [] | Some ts \<Rightarrow> ts))),
      (''createdAt'', isoDate (cr_createdAt c)), (''lastUsedAt'', orNull isoDate (cr_lastUsedAt c))]"

definition getCredentialsRoute :: handler where
  "getCredentialsRoute rq = bnd (query (\<lambda>d. listCredentialsByUserId d (callerId rq))) (\<lambda>cs.
     json200 (jsonList ''credentials'' credentialJson cs))"

definition postEnrollOptionsRoute :: "platform \<Rightarrow> handler" where
  "postEnrollOptionsRoute P rq =
     bnd (inWorld (draw (256 ^ 16))) (\<lambda>n.
     bnd (onLogins (\<lambda>now. setLoginState now (pf_base64url P (bytesOf 16 n)) (sessionOf rq) (callerId rq) (callerName rq)
            EnrollAdditional)) (\<lambda>(nonce, expiresAt).
     json200 (JObject [(''nonce'', JString nonce), (''expiresAt'', JNumber expiresAt)])))"

definition pathId :: "request \<Rightarrow> string option" where
  "pathId rq = map_of (rq_params rq) ''id''"

definition needCredential :: "request \<Rightarrow> string \<Rightarrow> credential http" where
  "needCredential rq i = bnd (query (\<lambda>d. findCredentialById d i)) (\<lambda>x.
     require (case x of None \<Rightarrow> None | Some c \<Rightarrow> if cr_userId c \<noteq> callerId rq then None else Some c)
       (notFoundError ''Credential not found''))"

definition postLabelRoute :: handler where
  "postLabelRoute rq =
     bnd (require (if truthy (pathId rq) then pathId rq else None) (notFoundError ''Credential not found'')) (\<lambda>i.
     bnd (needText 64 (field rq ''label'') ''Invalid label'') (\<lambda>l.
     bnd (needCredential rq i) (\<lambda>_.
     thn (inWorld (setLabel i (Some (trim l)))) (json200 (jsonOne ''success'' (JBool True))))))"

definition postRevokeRoute :: "bus \<Rightarrow> handler" where
  "postRevokeRoute bus rq =
     bnd (require (asNonEmpty (Some 256) (param rq ''id'')) (badRequestError ''Invalid credential id'')) (\<lambda>i.
     bnd (needCredential rq i) (\<lambda>_.
     bnd (query (\<lambda>d. countCredentials d (callerId rq))) (\<lambda>total.
     thn (throwIf (total \<le> 1) (HttpErr (conflictError ''Cannot revoke the last passkey. Add another before revoking.'')))
    (thn (inWorld (deleteCredential i))
    (bnd nowMs (\<lambda>now.
     thn (inWorld (bus [IdentityEv (PasskeyRevoked (callerId rq) i now)]))
         (json200 (jsonOne ''success'' (JBool True)))))))))"

section \<open>Administration of users\<close>

definition userRowJson :: "user \<Rightarrow> json" where
  "userRowJson u = JObject
     [(''id'', JString (u_id u)), (''username'', JString (u_username u)), (''email'', JString (u_email u)),
      (''role'', JString (roleName (u_role u))),
      (''accountStatus'', JString (if u_accountStatus u = UserActive then ''Active'' else ''Locked'')),
      (''passkeyEnrolled'', JBool (u_passkeyEnrolled u)), (''failedAttempts'', JNumber (u_failedAttempts u)),
      (''lockedUntil'', orNull isoDate (u_lockedUntil u)), (''createdAt'', isoDate (u_createdAt u))]"

definition getUsersRoute :: handler where
  "getUsersRoute rq = bnd (query db_users) (\<lambda>us. json200 (jsonList ''users'' userRowJson us))"

definition needUser :: "request \<Rightarrow> user http" where
  "needUser rq =
     bnd (require (if truthy (pathId rq) then pathId rq else None) (notFoundError ''Unknown user'')) (\<lambda>i.
     bnd (query (\<lambda>d. findUserById d i)) (\<lambda>x. require x (notFoundError ''Unknown user'')))"

definition setUserStatusRoute :: "user_status \<Rightarrow> handler" where
  "setUserStatusRoute st rq = bnd (needUser rq) (\<lambda>u.
     thn (inWorld (setAccountStatus (u_id u) st)) (json200 (jsonOne ''ok'' (JBool True))))"

definition asRole :: "json option \<Rightarrow> role option" where
  "asRole v = (if v = Some (JString ''customer'') then Some Customer
     else if v = Some (JString ''admin'') then Some Admin else None)"

definition postRoleRoute :: handler where
  "postRoleRoute rq =
     bnd (require (if truthy (pathId rq) then pathId rq else None) (notFoundError ''Unknown user'')) (\<lambda>i.
     bnd (require (asRole (field rq ''role'')) (badRequestError ''Invalid role'')) (\<lambda>r.
     bnd (query (\<lambda>d. findUserById d i)) (\<lambda>x.
     bnd (require x (notFoundError ''Unknown user'')) (\<lambda>u.
     thn (inWorld (setRole (u_id u) r)) (json200 (jsonOne ''ok'' (JBool True)))))))"

definition postRecoveryCodeRoute :: "platform \<Rightarrow> bus \<Rightarrow> handler" where
  "postRecoveryCodeRoute P bus rq =
     bnd (needUser rq) (\<lambda>u.
     bnd (inWorld (issueRecoveryCode (pf_bcrypt P) (Some bus) (u_id u) (callerId rq))) (\<lambda>(code, rec).
     json200 (JObject [(''code'', JString code), (''expiresAt'', isoDate (rc_expiresAt rec)),
       (''purpose'', JString ''passkey-add''), (''userId'', JString (u_id u)), (''username'', JString (u_username u))])))"

definition userTarget :: "request \<Rightarrow> (string \<times> string) option" where
  "userTarget rq = map_option (\<lambda>(i, n, r). (''user'', i)) (rq_user rq)"

section \<open>Registering a passkey\<close>

definition webauthnLimiter :: middleware where
  "webauthnLimiter = limitRate ''webauthn'' 60000 30"

abbreviation onPending :: "(int \<Rightarrow> pending_challenges \<Rightarrow> 'a \<times> pending_challenges) \<Rightarrow> 'a http" where
  "onPending \<equiv> onStore sv_pending (\<lambda>t. sv_pending_update (\<lambda>_. t))"

definition orTry :: "'a option http \<Rightarrow> 'a option http \<Rightarrow> 'a option http" where
  "orTry m n = bnd m (\<lambda>x. case x of None \<Rightarrow> n | Some v \<Rightarrow> ret (Some v))"

definition enrollKey :: "string \<Rightarrow> string" where
  "enrollKey sid = ''enroll:'' @ sid"

definition postRegistrationOptionsRoute :: "platform \<Rightarrow> handler" where
  "postRegistrationOptionsRoute P rq =
     bnd (needUuid (field rq ''sessionId'') ''Invalid session'') (\<lambda>sid.
     bnd (needNonce rq) (\<lambda>nonce.
     thn (needSession sid)
    (bnd (orTry (onLogins (\<lambda>now. peekLoginState now sid EnrollPasskey))
                (onLogins (\<lambda>now. peekLoginState now sid EnrollAdditional))) (\<lambda>x.
     bnd (needState x nonce) (\<lambda>l.
     bnd (query (\<lambda>d. findUserById d (ls_userId l))) (\<lambda>y.
     bnd (require y (notFoundError ''Unknown user'')) (\<lambda>u.
     bnd (query (\<lambda>d. listCredentialsByUserId d (u_id u))) (\<lambda>cs.
     bnd (inWorld (draw (256 ^ 32))) (\<lambda>n.
     (case pf_registrationOptions P n u cs of (challenge, options) \<Rightarrow>
      thn (onPending (\<lambda>now s. ((), setChallenge (enrollKey sid)
             \<lparr>pc_challenge = challenge, pc_purpose = ForRegister, pc_sessionId = Some sid, pc_action = None,
              pc_paramsHash = None, pc_expiresAt = now + CHALLENGE_TTL_MS\<rparr> s)))
          (json200 options)))))))))))"

definition needChallenge :: "challenge_purpose \<Rightarrow> pending_challenge option \<Rightarrow> string \<Rightarrow> pending_challenge http" where
  "needChallenge purpose x msg = require
     (case x of None \<Rightarrow> None | Some c \<Rightarrow> if pc_purpose c \<noteq> purpose then None else Some c) (forbiddenError msg)"

definition registeredCredential :: "registration \<Rightarrow> string \<Rightarrow> int \<Rightarrow> credential" where
  "registeredCredential g u now =
     \<lparr>cr_id = rg_id g, cr_userId = u, cr_publicKey = rg_publicKey g, cr_counter = rg_counter g,
      cr_transports = rg_transports g, cr_deviceType = rg_deviceType g, cr_backedUp = rg_backedUp g,
      cr_createdAt = now, cr_lastUsedAt = None, cr_label = None\<rparr>"

definition enrolled :: "platform \<Rightarrow> bus \<Rightarrow> request \<Rightarrow> bool \<Rightarrow> user \<Rightarrow> string \<Rightarrow> string \<Rightarrow> unit http" where
  "enrolled P bus rq additional u credId sid =
     (if additional
      then bnd nowMs (\<lambda>now. inWorld (bus [IdentityEv (PasskeyEnrolledAdditional (u_id u) (u_username u) credId now)]))
      else thn (auditUser P rq ''auth.passkey.enrolled'' u None (''Passkey enrolled for '' @ u_username u)
                 (Some (JObject [(''credentialId'', JString credId)])) sid)
               (auditUser P rq ''auth.login.success'' u None (''Login success (post-enrollment) for '' @ u_username u) None sid))"

definition postRegistrationVerifyRoute :: "platform \<Rightarrow> bus \<Rightarrow> handler" where
  "postRegistrationVerifyRoute P bus rq =
     bnd (needUuid (field rq ''sessionId'') ''Invalid session'') (\<lambda>sid.
     bnd (needNonce rq) (\<lambda>nonce.
     bnd (needResponse rq) (\<lambda>v.
     thn (needSession sid)
    (bnd (orTry (onLogins (\<lambda>now. consumeLoginState now sid EnrollPasskey))
                (onLogins (\<lambda>now. consumeLoginState now sid EnrollAdditional))) (\<lambda>x.
     bnd (needState x nonce) (\<lambda>l.
     bnd (onPending (\<lambda>now. takeChallenge now (enrollKey sid))) (\<lambda>y.
     bnd (needChallenge ForRegister y ''No registration challenge'') (\<lambda>c.
     bnd (query (\<lambda>d. findUserById d (ls_userId l))) (\<lambda>z.
     bnd (require z (notFoundError ''Unknown user'')) (\<lambda>u.
     bnd (lift (pf_verifyRegistration P v (pc_challenge c))) (\<lambda>r.
     bnd (require r (forbiddenError ''Registration not verified'')) (\<lambda>g.
     bnd nowMs (\<lambda>now.
     thn (inWorld (insertCredential (registeredCredential g (u_id u) now)))
    (thn (if ls_purpose l = EnrollAdditional then ret () else inWorld (markPasskeyEnrolled (u_id u)))
    (thn (bindSession sid (u_id u))
    (thn (enrolled P bus rq (ls_purpose l = EnrollAdditional) u (rg_id g) sid)
         (json200 (JObject [(''verified'', JBool True), (''user'', userJson (u_id u) (u_username u) (u_role u))]))))))))))))))))))"

section \<open>Stepping up for an action\<close>

definition postAuthenticationOptionsRoute :: "platform \<Rightarrow> handler" where
  "postAuthenticationOptionsRoute P rq =
     bnd (needText 64 (field rq ''username'') ''Invalid username'') (\<lambda>username.
     bnd (needUuid (field rq ''sessionId'') ''Invalid session'') (\<lambda>sid.
     bnd (needText 64 (field rq ''action'') ''Invalid action'') (\<lambda>action.
     thn (needSession sid)
    (bnd (query (\<lambda>d. findUserByUsername d username)) (\<lambda>x.
     bnd (require x (notFoundError ''Unknown user'')) (\<lambda>u.
     bnd (query (\<lambda>d. listCredentialsByUserId d (u_id u))) (\<lambda>cs.
     thn (throwIf (cs = []) (HttpErr (notFoundError ''User has no registered credentials'')))
    (bnd (inWorld (draw (256 ^ 32))) (\<lambda>n.
     (case pf_authenticationOptions P n cs of (challenge, options) \<Rightarrow>
     (let h = hashActionParams P (field rq ''params'') in
      thn (onPending (\<lambda>now s. ((), setChallenge (u_username u)
             \<lparr>pc_challenge = challenge, pc_purpose = ForAuthenticate, pc_sessionId = Some sid, pc_action = Some action,
              pc_paramsHash = Some h, pc_expiresAt = now + CHALLENGE_TTL_MS\<rparr> s)))
          (json200 (JObject [(''options'', options), (''paramsHash'', JString h)])))))))))))))"

definition given :: "string option \<Rightarrow> string" where
  "given x = (case x of None \<Rightarrow> [] | Some s \<Rightarrow> s)"

definition postAuthenticationVerifyRoute :: "platform \<Rightarrow> handler" where
  "postAuthenticationVerifyRoute P rq =
     bnd (needText 64 (field rq ''username'') ''Invalid username'') (\<lambda>username.
     bnd (needResponse rq) (\<lambda>v.
     bnd (onPending (\<lambda>now. takeChallenge now username)) (\<lambda>x.
     bnd (needChallenge ForAuthenticate x ''No authentication challenge'') (\<lambda>c.
     bnd (query (\<lambda>d. findUserByUsername d username)) (\<lambda>y.
     bnd (require y (notFoundError ''Unknown user'')) (\<lambda>u.
     bnd (require (credentialId v) (badRequestError ''Missing credential id'')) (\<lambda>credId.
     bnd (ownCredential (u_id u) credId) (\<lambda>cred.
     thn (verifyAssertion P v (pc_challenge c) cred)
    (bnd (inWorld uuid) (\<lambda>jti.
     bnd (onStore sv_actionJti (\<lambda>t. sv_actionJti_update (\<lambda>_. t))
            (\<lambda>now. mintActionToken (pf_action P) now jti (given (pc_action c)) (given (pc_sessionId c))
                     (given (pc_paramsHash c)))) (\<lambda>(token, ex).
     json200 (JObject [(''verified'', JBool True), (''actionToken'', JString token), (''expiresAt'', JNumber ex)]))))))))))))"

section \<open>Opening a session\<close>

text \<open>\<open>crypto/ecdh.ts\<close>: the key pair and the key both sides derive from it.\<close>

definition generateEcdhKeyPair :: "platform \<Rightarrow> nat \<Rightarrow> json \<times> nat list" where
  "generateEcdhKeyPair P n = pf_keyPair P ''P-256'' n"

definition deriveAesKey :: "platform \<Rightarrow> nat list \<Rightarrow> json \<Rightarrow> nat list \<Rightarrow> nat list option" where
  "deriveAesKey P ourPrivate peerPublicJwk salt =
     (case pf_diffieHellman P ourPrivate peerPublicJwk of
        None \<Rightarrow> None
      | Some sharedSecret \<Rightarrow>
          let info = map of_char ''sbe/v1/aes-256-gcm'' in Some (pf_hkdf P ''sha256'' sharedSecret salt info 32))"

definition getSessionRoute :: "platform \<Rightarrow> handler" where
  "getSessionRoute P rq =
     bnd (inWorld uuid) (\<lambda>sid.
     bnd (inWorld (draw (256 ^ 32))) (\<lambda>n.
     bnd (inWorld (draw (256 ^ 16))) (\<lambda>r.
     (case generateEcdhKeyPair P n of (jwk, private) \<Rightarrow>
      thn (onStore sv_handshakes (\<lambda>t. sv_handshakes_update (\<lambda>_. t))
             (\<lambda>now s. ((), setHandshake now sid private (map of_char (bytesOf 16 r)) s)))
          (json200 (JObject [(''sessionId'', JString sid), (''serverPublicJwk'', jwk),
             (''salt'', JString (pf_base64 P (bytesOf 16 r)))]))))))"

definition clientJwk :: "json option \<Rightarrow> json option" where
  "clientJwk v = (case v of
      Some (JObject kvs) \<Rightarrow>
        if map_of kvs ''kty'' = Some (JString ''EC'') \<and> map_of kvs ''crv'' = Some (JString ''P-256'')
           \<and> asText (map_of kvs ''x'') \<noteq> None \<and> asText (map_of kvs ''y'') \<noteq> None then Some (JObject kvs) else None
    | _ \<Rightarrow> None)"

definition postHandshakeRoute :: "platform \<Rightarrow> handler" where
  "postHandshakeRoute P rq =
     bnd (needUuid (field rq ''sessionId'') ''Invalid session'') (\<lambda>sid.
     bnd (require (clientJwk (field rq ''clientPublicJwk'')) (badRequestError ''Invalid client public key'')) (\<lambda>jwk.
     bnd (onSessions (\<lambda>now. hasSession now sid)) (\<lambda>bound.
     thn (throwIf bound (HttpErr (conflictError ''Session already bound'')))
    (bnd (onStore sv_handshakes (\<lambda>t. sv_handshakes_update (\<lambda>_. t)) (\<lambda>now. consumeHandshake now sid)) (\<lambda>x.
     bnd (require x (badRequestError ''Invalid session'')) (\<lambda>h.
     bnd (require (deriveAesKey P (hs_privateKey h) jwk (hs_salt h)) (badRequestError ''Invalid handshake'')) (\<lambda>key.
     bnd (onSessions (\<lambda>now. setSessionKey now sid key)) (\<lambda>r.
     case r of Inl e \<Rightarrow> fail (conflictError ''Session already bound'')
     | Inr _ \<Rightarrow> json200 (jsonOne ''success'' (JBool True))))))))))"

section \<open>Development\<close>

definition devOnly :: "platform \<Rightarrow> middleware" where
  "devOnly P k rq = (if pf_production P then fail (forbiddenError ''Dev endpoints are disabled in production'') else k rq)"

definition postLoginAsRoute :: "platform \<Rightarrow> handler" where
  "postLoginAsRoute P rq =
     bnd (needText 64 (field rq ''username'') ''Invalid username'') (\<lambda>username.
     bnd (needUuid (field rq ''sessionId'') ''Invalid sessionId'') (\<lambda>sid.
     thn (check400 (field rq ''role'' = None \<or> asRole (field rq ''role'') \<noteq> None) ''Invalid role'')
    (thn (check400 (field rq ''password'' = None \<or> asText (field rq ''password'') \<noteq> None) ''Invalid password'')
    (thn (needSession sid)
    (bnd (inWorld (devSeedUser (pf_bcrypt P) username (asText (field rq ''password''))
            (case asRole (field rq ''role'') of None \<Rightarrow> Customer | Some r \<Rightarrow> r))) (\<lambda>u.
     thn (case asRole (field rq ''role'') of None \<Rightarrow> ret ()
          | Some r \<Rightarrow> if u_role u \<noteq> r then inWorld (setRole (u_id u) r) else ret ())
    (thn (bindSession sid (u_id u))
         (json200 (JObject [(''ok'', JBool True), (''user'', userJson (u_id u) (u_username u)
            (case asRole (field rq ''role'') of None \<Rightarrow> u_role u | Some r \<Rightarrow> r))])))))))))"

definition postResetRoute :: "platform \<Rightarrow> handler" where
  "postResetRoute P rq =
     bnd (needText 64 (field rq ''username'') ''Invalid username'') (\<lambda>username.
     bnd (require (asNonEmpty None (field rq ''password'')) (badRequestError ''Invalid password'')) (\<lambda>password.
     bnd (query (\<lambda>d. findUserByUsername d username)) (\<lambda>x.
     bnd (require x (badRequestError ''Unknown user'')) (\<lambda>u.
     bnd (inWorld (hashPassword (pf_bcrypt P) password)) (\<lambda>h.
     thn (inWorld (setPasswordRow (u_id u) h))
    (thn (inWorld (setAccountStatus (u_id u) UserActive))
         (json200 (jsonOne ''ok'' (JBool True)))))))))"

section \<open>The routers\<close>

datatype identity_route =
    Signup | LoginPassword | LoginRecovery | PasskeyOptions | PasskeyVerify | Me | Logout | OtpRequest | OtpVerify
  | PasswordChange | ContactChange | Sessions | WipeOthers
  | Credentials | EnrollOptions | LabelCredential | RevokeCredential
  | Users | UnlockUser | LockUser | ChangeRole | NewRecoveryCode
  | RegistrationOptions | RegistrationVerify | AuthenticationOptions | AuthenticationVerify

fun identityRouteHandler :: "platform \<Rightarrow> bus \<Rightarrow> identity_route \<Rightarrow> handler" where
  "identityRouteHandler P bus Signup = mountOpen P (identityLimiter (postSignupRoute P))"
| "identityRouteHandler P bus LoginPassword = mountOpen P (identityLimiter (postPasswordRoute P))"
| "identityRouteHandler P bus LoginRecovery = mountOpen P (identityLimiter (postRecoveryRoute P bus))"
| "identityRouteHandler P bus PasskeyOptions = mountOpen P (identityLimiter (postPasskeyOptionsRoute P))"
| "identityRouteHandler P bus PasskeyVerify = mountOpen P (identityLimiter (postPasskeyVerifyRoute P))"
| "identityRouteHandler P bus Me = mountCustomer P getMeRoute"
| "identityRouteHandler P bus Logout = mountCustomer P (postLogoutRoute P)"
| "identityRouteHandler P bus OtpRequest = mountCustomer P (identityLimiter
     (auditMiddleware P ''auth.otp.requested'' noTarget (postOtpRequestRoute P)))"
| "identityRouteHandler P bus OtpVerify = mountCustomer P (identityLimiter (postOtpVerifyRoute P))"
| "identityRouteHandler P bus PasswordChange = mountCustomer P (requireOtp P ''password.change''
     (requireStepUp P ''password.change'' (auditMiddleware P ''auth.password.changed'' noTarget (postPasswordChangeRoute P bus))))"
| "identityRouteHandler P bus ContactChange = mountCustomer P (requireOtp P ''identity.contact.change''
     (requireStepUp P ''identity.contact.change'' (auditMiddleware P ''identity.contact.changed'' noTarget postContactRoute)))"
| "identityRouteHandler P bus Sessions = mountCustomer P getSessionsRoute"
| "identityRouteHandler P bus WipeOthers = mountCustomer P (requireOtp P ''session.wipe''
     (requireStepUp P ''session.wipe'' (auditMiddleware P ''auth.sessions.wiped'' noTarget postWipeRoute)))"
| "identityRouteHandler P bus Credentials = mountCustomer P getCredentialsRoute"
| "identityRouteHandler P bus EnrollOptions = mountCustomer P (requireOtp P ''passkey.add'' (requireStepUp P ''passkey.add''
     (auditMiddleware P ''auth.passkey.enrolled.additional'' userTarget (postEnrollOptionsRoute P))))"
| "identityRouteHandler P bus LabelCredential = mountCustomer P
     (auditMiddleware P ''auth.passkey.labeled'' (paramTarget ''credential'') postLabelRoute)"
| "identityRouteHandler P bus RevokeCredential = mountCustomer P (requireOtp P ''passkey.revoke'' (requireStepUp P ''passkey.revoke''
     (auditMiddleware P ''auth.passkey.revoked'' (paramTarget ''credential'') (postRevokeRoute bus))))"
| "identityRouteHandler P bus Users = mountAdmin P (auditMiddleware P ''admin.users.listed'' noTarget getUsersRoute)"
| "identityRouteHandler P bus UnlockUser = mountAdmin P
     (auditMiddleware P ''admin.user.unlocked'' (paramTarget ''user'') (setUserStatusRoute UserActive))"
| "identityRouteHandler P bus LockUser = mountAdmin P
     (auditMiddleware P ''admin.user.locked'' (paramTarget ''user'') (setUserStatusRoute UserLocked))"
| "identityRouteHandler P bus ChangeRole = mountAdmin P
     (auditMiddleware P ''admin.user.role.changed'' (paramTarget ''user'') postRoleRoute)"
| "identityRouteHandler P bus NewRecoveryCode = mountAdmin P (requireOtp P ''admin.recovery''
     (auditMiddleware P ''admin.recovery.code.issued'' (paramTarget ''user'') (postRecoveryCodeRoute P bus)))"
| "identityRouteHandler P bus RegistrationOptions = mountOpen P (webauthnLimiter (postRegistrationOptionsRoute P))"
| "identityRouteHandler P bus RegistrationVerify = mountOpen P (webauthnLimiter (postRegistrationVerifyRoute P bus))"
| "identityRouteHandler P bus AuthenticationOptions = mountOpen P (webauthnLimiter (postAuthenticationOptionsRoute P))"
| "identityRouteHandler P bus AuthenticationVerify = mountOpen P (webauthnLimiter (postAuthenticationVerifyRoute P))"

datatype open_route = NewSession | Handshake | LoginAs | ResetPassword

text \<open>The routes that are neither encrypted nor authenticated; their errors go to the central handler.\<close>

fun openHandler :: "platform \<Rightarrow> open_route \<Rightarrow> handler" where
  "openHandler P NewSession = answerErrors (limitRate ''session'' 60000 10 (getSessionRoute P))"
| "openHandler P Handshake = answerErrors (limitRate ''handshake'' 60000 20 (postHandshakeRoute P))"
| "openHandler P LoginAs = answerErrors (devOnly P (postLoginAsRoute P))"
| "openHandler P ResetPassword = answerErrors (devOnly P (postResetRoute P))"

end
