(* ===== verification/Schema.thy ===== *)
theory Schema
  imports Prelude
begin

text \<open>
  The schema the code works with (\<open>db/schema.ts\<close>): every table with its columns and indexes, written with the
  builders of the source. An \<open>enum\<close> on a text column and the mode of an integer column (date, boolean) are
  TypeScript types without a counterpart in the database; every foreign key refers to the column \<open>id\<close>.
\<close>

section \<open>Tables, columns and indexes\<close>

datatype sql_type = SqlText | SqlInteger | SqlBlob

datatype sql_default = DefText string | DefInt int

record column =
  co_name :: string
  co_type :: sql_type
  co_primary :: bool
  co_notNull :: bool
  co_default :: "sql_default option"
  co_ref :: "(string \<times> bool) option"

record sql_index =
  ix_name :: string
  ix_table :: string
  ix_columns :: "string list"
  ix_unique :: bool

record table =
  tb_name :: string
  tb_columns :: "column list"
  tb_indexes :: "sql_index list"

definition columnOf :: "sql_type \<Rightarrow> string \<Rightarrow> column" where
  "columnOf ty n = \<lparr>co_name = n, co_type = ty, co_primary = False, co_notNull = False, co_default = None, co_ref = None\<rparr>"

abbreviation textCol :: "string \<Rightarrow> column" where
  "textCol \<equiv> columnOf SqlText"

abbreviation intCol :: "string \<Rightarrow> column" where
  "intCol \<equiv> columnOf SqlInteger"

abbreviation blobCol :: "string \<Rightarrow> column" where
  "blobCol \<equiv> columnOf SqlBlob"

definition primary :: "column \<Rightarrow> column" where
  "primary c = c\<lparr>co_primary := True\<rparr>"

definition notNull :: "column \<Rightarrow> column" where
  "notNull c = c\<lparr>co_notNull := True\<rparr>"

text \<open>\<open>PRIMARY KEY\<close> alone admits \<open>NULL\<close> in SQLite; the builder \<open>primaryKey()\<close> adds \<open>NOT NULL\<close>.\<close>

definition primaryKey :: "column \<Rightarrow> column" where
  "primaryKey c = notNull (primary c)"

definition dflt :: "sql_default \<Rightarrow> column \<Rightarrow> column" where
  "dflt v c = c\<lparr>co_default := Some v\<rparr>"

text \<open>A reference without an action, and one with \<open>ON DELETE CASCADE\<close>.\<close>

definition references :: "string \<Rightarrow> column \<Rightarrow> column" where
  "references t c = c\<lparr>co_ref := Some (t, False)\<rparr>"

definition cascades :: "string \<Rightarrow> column \<Rightarrow> column" where
  "cascades t c = c\<lparr>co_ref := Some (t, True)\<rparr>"

definition indexOn :: "string \<Rightarrow> string \<Rightarrow> string list \<Rightarrow> sql_index" where
  "indexOn n t cs = \<lparr>ix_name = n, ix_table = t, ix_columns = cs, ix_unique = False\<rparr>"

definition uniqueOn :: "string \<Rightarrow> string \<Rightarrow> string list \<Rightarrow> sql_index" where
  "uniqueOn n t cs = \<lparr>ix_name = n, ix_table = t, ix_columns = cs, ix_unique = True\<rparr>"

section \<open>The tables of the bank\<close>

definition usersTable :: table where
  "usersTable = \<lparr>tb_name = ''users'',
     tb_columns =
      [primaryKey (textCol ''id''), notNull (textCol ''username''),
       dflt (DefText '''') (notNull (textCol ''email'')),
       dflt (DefText '''') (notNull (textCol ''password_hash'')),
       dflt (DefText ''customer'') (notNull (textCol ''role'')),
       dflt (DefText ''Active'') (notNull (textCol ''account_status'')),
       dflt (DefInt 0) (notNull (intCol ''failed_attempts'')), intCol ''locked_until'',
       dflt (DefInt 0) (notNull (intCol ''passkey_enrolled'')),
       dflt (DefText ''none'') (notNull (textCol ''kyc_tier'')), textCol ''mobile'',
       notNull (intCol ''created_at'')],
     tb_indexes =
      [uniqueOn ''users_username_uq'' ''users'' [''username'']]\<rparr>"

definition webauthnCredentialsTable :: table where
  "webauthnCredentialsTable = \<lparr>tb_name = ''webauthn_credentials'',
     tb_columns =
      [primaryKey (textCol ''id''), cascades ''users'' (notNull (textCol ''user_id'')),
       notNull (blobCol ''public_key''), notNull (intCol ''counter''), textCol ''transports'',
       notNull (textCol ''device_type''), notNull (intCol ''backed_up''), notNull (intCol ''created_at''),
       intCol ''last_used_at'', textCol ''label''],
     tb_indexes =
      [indexOn ''webauthn_by_user'' ''webauthn_credentials'' [''user_id'']]\<rparr>"

definition recoveryCodesTable :: table where
  "recoveryCodesTable = \<lparr>tb_name = ''recovery_codes'',
     tb_columns =
      [primaryKey (textCol ''id''), cascades ''users'' (notNull (textCol ''user_id'')),
       notNull (textCol ''code_hash''), notNull (intCol ''issued_at''),
       references ''users'' (textCol ''issued_by_admin_id''), notNull (intCol ''expires_at''),
       intCol ''consumed_at'', notNull (textCol ''purpose'')],
     tb_indexes =
      [indexOn ''recovery_by_user'' ''recovery_codes'' [''user_id'', ''consumed_at'']]\<rparr>"

definition kycApplicationsTable :: table where
  "kycApplicationsTable = \<lparr>tb_name = ''kyc_applications'',
     tb_columns =
      [primaryKey (textCol ''id''), cascades ''users'' (notNull (textCol ''user_id'')),
       notNull (textCol ''full_name''), notNull (textCol ''dob''), notNull (textCol ''pan''),
       notNull (textCol ''address''), textCol ''doc_b64'',
       dflt (DefText ''savings'') (notNull (textCol ''requested_account_type'')),
       dflt (DefText ''Submitted'') (notNull (textCol ''status'')), notNull (intCol ''submitted_at''),
       intCol ''decided_at'', references ''users'' (textCol ''decided_by_user_id''), textCol ''reject_reason''],
     tb_indexes =
      [indexOn ''kyc_by_user'' ''kyc_applications'' [''user_id''],
       indexOn ''kyc_by_status'' ''kyc_applications'' [''status'']]\<rparr>"

definition accountsTable :: table where
  "accountsTable = \<lparr>tb_name = ''accounts'',
     tb_columns =
      [primaryKey (textCol ''id''), notNull (textCol ''account_number''),
       cascades ''users'' (notNull (textCol ''user_id'')),
       dflt (DefText ''savings'') (notNull (textCol ''account_type'')),
       dflt (DefText ''Active'') (notNull (textCol ''status'')),
       dflt (DefInt 0) (notNull (intCol ''balance_minor'')),
       dflt (DefInt 0) (notNull (intCol ''hold_balance_minor'')),
       dflt (DefText ''INR'') (notNull (textCol ''currency'')), notNull (intCol ''created_at''),
       notNull (intCol ''updated_at'')],
     tb_indexes =
      [indexOn ''accounts_by_user'' ''accounts'' [''user_id''],
       uniqueOn ''accounts_number_uq'' ''accounts'' [''account_number'']]\<rparr>"

definition beneficiariesTable :: table where
  "beneficiariesTable = \<lparr>tb_name = ''beneficiaries'',
     tb_columns =
      [primaryKey (textCol ''id''), cascades ''users'' (notNull (textCol ''owner_user_id'')),
       notNull (textCol ''nickname''), notNull (textCol ''account_number''), textCol ''beneficiary_username'',
       dflt (DefText ''pending'') (notNull (textCol ''status'')), intCol ''activated_at'',
       intCol ''verified_at'', notNull (intCol ''created_at''), intCol ''last_used_at''],
     tb_indexes =
      [indexOn ''beneficiaries_by_owner'' ''beneficiaries'' [''owner_user_id''],
       uniqueOn ''beneficiaries_owner_acc_uq'' ''beneficiaries'' [''owner_user_id'', ''account_number'']]\<rparr>"

definition externalBeneficiariesTable :: table where
  "externalBeneficiariesTable = \<lparr>tb_name = ''external_beneficiaries'',
     tb_columns =
      [primaryKey (textCol ''id''), cascades ''users'' (notNull (textCol ''owner_user_id'')),
       notNull (textCol ''nickname''), notNull (textCol ''account_number''), notNull (textCol ''ifsc''),
       notNull (textCol ''bank_name''), notNull (textCol ''beneficiary_name''), textCol ''vpa'',
       textCol ''preferred_rail'', dflt (DefText ''pending'') (notNull (textCol ''status'')),
       intCol ''activated_at'', intCol ''verified_at'', notNull (intCol ''created_at''), intCol ''last_used_at''],
     tb_indexes =
      [indexOn ''ext_beneficiaries_by_owner'' ''external_beneficiaries'' [''owner_user_id''],
       uniqueOn ''ext_beneficiaries_owner_acc_ifsc_uq'' ''external_beneficiaries'' [''owner_user_id'', ''account_number'', ''ifsc'']]\<rparr>"

definition fixedDepositsTable :: table where
  "fixedDepositsTable = \<lparr>tb_name = ''fixed_deposits'',
     tb_columns =
      [primaryKey (textCol ''id''), cascades ''accounts'' (notNull (textCol ''account_id'')),
       cascades ''users'' (notNull (textCol ''user_id'')),
       references ''accounts'' (notNull (textCol ''payout_account_id'')), notNull (intCol ''principal_minor''),
       notNull (intCol ''tenure_months''), notNull (intCol ''interest_rate_bps''),
       notNull (intCol ''opened_at''), notNull (intCol ''maturity_at''),
       dflt (DefInt 0) (notNull (intCol ''auto_renew'')),
       dflt (DefText ''active'') (notNull (textCol ''status'')), intCol ''closed_at'',
       dflt (DefInt 0) (notNull (intCol ''interest_paid_minor''))],
     tb_indexes =
      [indexOn ''fd_by_user'' ''fixed_deposits'' [''user_id''],
       uniqueOn ''fd_by_account_uq'' ''fixed_deposits'' [''account_id''],
       indexOn ''fd_by_maturity'' ''fixed_deposits'' [''status'', ''maturity_at'']]\<rparr>"

definition nomineesTable :: table where
  "nomineesTable = \<lparr>tb_name = ''nominees'',
     tb_columns =
      [primaryKey (textCol ''id''), cascades ''accounts'' (notNull (textCol ''account_id'')),
       cascades ''users'' (notNull (textCol ''user_id'')), notNull (textCol ''full_name''),
       notNull (textCol ''relation''), dflt (DefInt 100) (notNull (intCol ''share_percent'')),
       notNull (intCol ''created_at'')],
     tb_indexes =
      [indexOn ''nominees_by_account'' ''nominees'' [''account_id'']]\<rparr>"

definition billersTable :: table where
  "billersTable = \<lparr>tb_name = ''billers'',
     tb_columns =
      [primaryKey (textCol ''id''), notNull (textCol ''name''), notNull (textCol ''category''),
       notNull (textCol ''biller_account_number''), dflt (DefInt 1) (notNull (intCol ''active'')),
       notNull (intCol ''created_at'')],
     tb_indexes =
      [uniqueOn ''billers_acc_uq'' ''billers'' [''biller_account_number'']]\<rparr>"

definition savedBillAccountsTable :: table where
  "savedBillAccountsTable = \<lparr>tb_name = ''saved_bill_accounts'',
     tb_columns =
      [primaryKey (textCol ''id''), cascades ''users'' (notNull (textCol ''user_id'')),
       cascades ''billers'' (notNull (textCol ''biller_id'')), notNull (textCol ''customer_ref''),
       notNull (textCol ''nickname''), notNull (intCol ''created_at'')],
     tb_indexes =
      [indexOn ''saved_bill_accounts_by_user'' ''saved_bill_accounts'' [''user_id''],
       uniqueOn ''saved_bill_accounts_user_biller_ref_uq'' ''saved_bill_accounts'' [''user_id'', ''biller_id'', ''customer_ref'']]\<rparr>"

definition standingInstructionsTable :: table where
  "standingInstructionsTable = \<lparr>tb_name = ''standing_instructions'',
     tb_columns =
      [primaryKey (textCol ''id''), cascades ''users'' (notNull (textCol ''owner_user_id'')),
       cascades ''accounts'' (notNull (textCol ''from_account_id'')),
       cascades ''beneficiaries'' (notNull (textCol ''beneficiary_id'')), notNull (intCol ''amount_minor''),
       dflt (DefText ''INR'') (notNull (textCol ''currency'')), notNull (textCol ''frequency''),
       notNull (intCol ''next_run_at''), intCol ''last_run_at'',
       dflt (DefText ''active'') (notNull (textCol ''status'')), textCol ''description'', intCol ''end_at'',
       dflt (DefInt 0) (notNull (intCol ''failure_count'')), notNull (intCol ''created_at'')],
     tb_indexes =
      [indexOn ''si_by_owner'' ''standing_instructions'' [''owner_user_id''],
       indexOn ''si_by_next_run'' ''standing_instructions'' [''status'', ''next_run_at'']]\<rparr>"

definition notificationsTable :: table where
  "notificationsTable = \<lparr>tb_name = ''notifications'',
     tb_columns =
      [primaryKey (textCol ''id''), cascades ''users'' (notNull (textCol ''user_id'')),
       notNull (textCol ''kind''), notNull (textCol ''title''), notNull (textCol ''body''), intCol ''read_at'',
       textCol ''related_entity_type'', textCol ''related_entity_id'', notNull (intCol ''created_at'')],
     tb_indexes =
      [indexOn ''notifications_by_user'' ''notifications'' [''user_id'', ''created_at''],
       indexOn ''notifications_by_unread'' ''notifications'' [''user_id'', ''read_at'']]\<rparr>"

definition debitCardsTable :: table where
  "debitCardsTable = \<lparr>tb_name = ''debit_cards'',
     tb_columns =
      [primaryKey (textCol ''id''), cascades ''accounts'' (notNull (textCol ''account_id'')),
       notNull (textCol ''masked_number''), notNull (textCol ''network''),
       dflt (DefText ''active'') (notNull (textCol ''status'')), notNull (intCol ''issued_at''),
       intCol ''frozen_at'', intCol ''cancelled_at'', notNull (intCol ''per_txn_limit_minor''),
       notNull (intCol ''daily_limit_minor''), notNull (intCol ''monthly_limit_minor'')],
     tb_indexes =
      [indexOn ''debit_cards_by_account'' ''debit_cards'' [''account_id'']]\<rparr>"

definition transfersTable :: table where
  "transfersTable = \<lparr>tb_name = ''transfers'',
     tb_columns =
      [primaryKey (textCol ''id''), textCol ''idempotency_key'',
       references ''accounts'' (textCol ''from_account_id''),
       references ''accounts'' (textCol ''to_account_id''), notNull (intCol ''amount_minor''),
       dflt (DefText ''INR'') (notNull (textCol ''currency'')), textCol ''memo'',
       dflt (DefText ''transfer'') (notNull (textCol ''kind'')),
       dflt (DefText ''posted'') (notNull (textCol ''status'')),
       dflt (DefText ''internal'') (notNull (textCol ''rail'')), textCol ''utr'', textCol ''failure_reason'',
       notNull (intCol ''posted_at''), textCol ''reference_number'',
       dflt (DefInt 0) (notNull (intCol ''fee_minor'')), textCol ''category'', textCol ''from_account_number'',
       textCol ''to_account_number'', textCol ''from_username'', textCol ''to_username'',
       textCol ''description'', textCol ''biller_id'', references ''debit_cards'' (textCol ''card_id'')],
     tb_indexes =
      [uniqueOn ''transfers_idem_uq'' ''transfers'' [''idempotency_key''],
       indexOn ''transfers_by_from'' ''transfers'' [''from_account_id''],
       indexOn ''transfers_by_to'' ''transfers'' [''to_account_id''],
       uniqueOn ''transfers_ref_uq'' ''transfers'' [''reference_number''],
       indexOn ''transfers_by_card'' ''transfers'' [''card_id'', ''posted_at'']]\<rparr>"

definition ledgerEntriesTable :: table where
  "ledgerEntriesTable = \<lparr>tb_name = ''ledger_entries'',
     tb_columns =
      [primaryKey (textCol ''id''), cascades ''accounts'' (notNull (textCol ''account_id'')),
       cascades ''transfers'' (notNull (textCol ''transfer_id'')), notNull (textCol ''kind''),
       notNull (intCol ''amount_minor''), notNull (intCol ''running_balance_minor''),
       notNull (intCol ''posted_at'')],
     tb_indexes =
      [indexOn ''ledger_by_account'' ''ledger_entries'' [''account_id''],
       indexOn ''ledger_by_transfer'' ''ledger_entries'' [''transfer_id''],
       indexOn ''ledger_by_account_posted'' ''ledger_entries'' [''account_id'', ''posted_at'']]\<rparr>"

definition disputesTable :: table where
  "disputesTable = \<lparr>tb_name = ''disputes'',
     tb_columns =
      [primaryKey (textCol ''id''), cascades ''users'' (notNull (textCol ''user_id'')),
       references ''transfers'' (notNull (textCol ''transfer_id'')), notNull (textCol ''reason''),
       dflt (DefText ''submitted'') (notNull (textCol ''status'')), textCol ''admin_note'',
       references ''transfers'' (textCol ''reversal_transfer_id''), notNull (intCol ''created_at''),
       intCol ''decided_at'', references ''users'' (textCol ''decided_by_user_id'')],
     tb_indexes =
      [indexOn ''disputes_by_user'' ''disputes'' [''user_id''],
       indexOn ''disputes_by_transfer'' ''disputes'' [''transfer_id'']]\<rparr>"

definition adminPendingActionsTable :: table where
  "adminPendingActionsTable = \<lparr>tb_name = ''admin_pending_actions'',
     tb_columns =
      [primaryKey (textCol ''id''), notNull (textCol ''action''),
       references ''users'' (notNull (textCol ''requested_by_user_id'')),
       references ''users'' (textCol ''approved_by_user_id''), notNull (textCol ''payload''),
       dflt (DefText ''pending'') (notNull (textCol ''status'')), notNull (intCol ''created_at''),
       intCol ''decided_at''],
     tb_indexes =
      [indexOn ''admin_pending_by_status'' ''admin_pending_actions'' [''status'', ''created_at'']]\<rparr>"

definition auditLogTable :: table where
  "auditLogTable = \<lparr>tb_name = ''audit_log'',
     tb_columns =
      [primaryKey (textCol ''id''), notNull (intCol ''occurred_at''),
       references ''users'' (textCol ''actor_user_id''), textCol ''actor_username'',
       notNull (textCol ''actor_role''), textCol ''session_id'', notNull (textCol ''action''),
       notNull (textCol ''category''), textCol ''target_type'', textCol ''target_id'',
       notNull (textCol ''status''), textCol ''error_code'', notNull (textCol ''summary''), textCol ''payload'',
       textCol ''request_id'', textCol ''ip'', textCol ''user_agent'', textCol ''prev_hash'',
       notNull (textCol ''hash''), notNull (intCol ''seq'')],
     tb_indexes =
      [indexOn ''audit_by_actor'' ''audit_log'' [''actor_user_id'', ''occurred_at''],
       indexOn ''audit_by_action'' ''audit_log'' [''action'', ''occurred_at''],
       indexOn ''audit_by_target'' ''audit_log'' [''target_type'', ''target_id''],
       indexOn ''audit_by_time'' ''audit_log'' [''occurred_at''],
       uniqueOn ''audit_by_seq_uq'' ''audit_log'' [''seq'']]\<rparr>"

definition schema :: "table list" where
  "schema = [usersTable, webauthnCredentialsTable, recoveryCodesTable, kycApplicationsTable, accountsTable,
     beneficiariesTable, externalBeneficiariesTable, fixedDepositsTable, nomineesTable, billersTable,
     savedBillAccountsTable, standingInstructionsTable, notificationsTable, debitCardsTable, transfersTable,
     ledgerEntriesTable, disputesTable, adminPendingActionsTable, auditLogTable]"

lemmas column_builders = columnOf_def primary_def notNull_def primaryKey_def dflt_def references_def cascades_def
  indexOn_def uniqueOn_def

lemmas schema_tables = usersTable_def webauthnCredentialsTable_def recoveryCodesTable_def kycApplicationsTable_def
  accountsTable_def beneficiariesTable_def externalBeneficiariesTable_def fixedDepositsTable_def nomineesTable_def
  billersTable_def savedBillAccountsTable_def standingInstructionsTable_def notificationsTable_def debitCardsTable_def
  transfersTable_def ledgerEntriesTable_def disputesTable_def adminPendingActionsTable_def auditLogTable_def

end
