(* ===== verification/Migrate.thy ===== *)
theory Migrate
  imports Schema AuditLog
begin

text \<open>
  The migrations (\<open>db/migrate.ts\<close>, \<open>db/migrateProd.ts\<close>, \<open>db/runMigrations.ts\<close>). The SQL the code executes is
  data, a list of statements, run by an interpreter of the statements it uses. The interpreter knows tables,
  columns and indexes, not rows, so a unique index over rows that are not unique is not one of its errors.
\<close>

section \<open>SQL\<close>

text \<open>The first argument of \<open>CreateTable\<close> and \<open>CreateIndex\<close> is \<open>IF NOT EXISTS\<close>.\<close>

datatype sql_stmt =
    CreateTable bool string "column list"
  | CreateIndex bool sql_index
  | AddColumn string column

record sql_db =
  sd_tables :: "(string \<times> column list) list"
  sd_indexes :: "sql_index list"

type_synonym 'a sql = "(sql_db, string, 'a) prog"

definition noTables :: sql_db where
  "noTables = \<lparr>sd_tables = [], sd_indexes = []\<rparr>"

definition columnsOf :: "sql_db \<Rightarrow> string \<Rightarrow> column list option" where
  "columnsOf d t = map_of (sd_tables d) t"

definition indexNamed :: "sql_db \<Rightarrow> string \<Rightarrow> bool" where
  "indexNamed d n \<longleftrightarrow> n \<in> ix_name ` set (sd_indexes d)"

definition columnNames :: "column list \<Rightarrow> string list" where
  "columnNames cs = map co_name cs"

definition addTable :: "string \<Rightarrow> column list \<Rightarrow> sql_db \<Rightarrow> sql_db" where
  "addTable t cs d = d\<lparr>sd_tables := sd_tables d @ [(t, cs)]\<rparr>"

definition addIndex :: "sql_index \<Rightarrow> sql_db \<Rightarrow> sql_db" where
  "addIndex ix d = d\<lparr>sd_indexes := sd_indexes d @ [ix]\<rparr>"

definition appendColumn :: "string \<Rightarrow> column \<Rightarrow> sql_db \<Rightarrow> sql_db" where
  "appendColumn t c d = d\<lparr>sd_tables := map (\<lambda>(n, cs). (n, if n = t then cs @ [c] else cs)) (sd_tables d)\<rparr>"

fun execSql :: "sql_stmt \<Rightarrow> unit sql" where
  "execSql (CreateTable lenient t cs) = bnd (gets (\<lambda>d. columnsOf d t)) (\<lambda>x. case x of
       Some _ \<Rightarrow> throwIf (\<not> lenient) (''table '' @ t @ '' already exists'')
     | None \<Rightarrow> modify (addTable t cs))"
| "execSql (CreateIndex lenient ix) = bnd (gets (\<lambda>d. columnsOf d (ix_table ix))) (\<lambda>x. case x of
       None \<Rightarrow> raise (''no such table: main.'' @ ix_table ix)
     | Some cs \<Rightarrow> bnd (gets (\<lambda>d. indexNamed d (ix_name ix))) (\<lambda>known.
         if known then throwIf (\<not> lenient) (''index '' @ ix_name ix @ '' already exists'') else
         (case List.find (\<lambda>c. c \<notin> set (columnNames cs)) (ix_columns ix) of
            Some c \<Rightarrow> raise (''no such column: '' @ c)
          | None \<Rightarrow> modify (addIndex ix))))"
| "execSql (AddColumn t c) = bnd (gets (\<lambda>d. columnsOf d t)) (\<lambda>x. case x of
       None \<Rightarrow> raise (''no such table: '' @ t)
     | Some cs \<Rightarrow>
         if co_name c \<in> set (columnNames cs) then raise (''duplicate column name: '' @ co_name c)
         else modify (appendColumn t c))"

text \<open>\<open>sqlite.exec\<close> of several statements stops at the first error; what ran before it stays.\<close>

definition execScript :: "sql_stmt list \<Rightarrow> unit sql" where
  "execScript stmts = forEach stmts execSql"

section \<open>The statements of the migration\<close>

definition columnsUsers :: "column list" where
  "columnsUsers =
     [primary (textCol ''id''), notNull (textCol ''username''),
      dflt (DefText '''') (notNull (textCol ''email'')),
      dflt (DefText '''') (notNull (textCol ''password_hash'')),
      dflt (DefText ''customer'') (notNull (textCol ''role'')),
      dflt (DefText ''Active'') (notNull (textCol ''account_status'')),
      dflt (DefInt 0) (notNull (intCol ''failed_attempts'')), intCol ''locked_until'',
      dflt (DefInt 0) (notNull (intCol ''passkey_enrolled'')), notNull (intCol ''created_at'')]"

definition ddlUsers :: "sql_stmt list" where
  "ddlUsers =
     [CreateTable True ''users'' columnsUsers,
      CreateIndex True (uniqueOn ''users_username_uq'' ''users'' [''username''])]"

definition columnsWebauthnCredentials :: "column list" where
  "columnsWebauthnCredentials =
     [primary (textCol ''id''), cascades ''users'' (notNull (textCol ''user_id'')),
      notNull (blobCol ''public_key''), notNull (intCol ''counter''), textCol ''transports'',
      notNull (textCol ''device_type''), notNull (intCol ''backed_up''), notNull (intCol ''created_at''),
      intCol ''last_used_at'', textCol ''label'']"

definition ddlWebauthnCredentials :: "sql_stmt list" where
  "ddlWebauthnCredentials =
     [CreateTable True ''webauthn_credentials'' columnsWebauthnCredentials,
      CreateIndex True (indexOn ''webauthn_by_user'' ''webauthn_credentials'' [''user_id''])]"

definition columnsRecoveryCodes :: "column list" where
  "columnsRecoveryCodes =
     [primary (textCol ''id''), cascades ''users'' (notNull (textCol ''user_id'')),
      notNull (textCol ''code_hash''), notNull (intCol ''issued_at''),
      references ''users'' (textCol ''issued_by_admin_id''), notNull (intCol ''expires_at''),
      intCol ''consumed_at'', notNull (textCol ''purpose'')]"

definition ddlRecoveryCodes :: "sql_stmt list" where
  "ddlRecoveryCodes =
     [CreateTable True ''recovery_codes'' columnsRecoveryCodes,
      CreateIndex True (indexOn ''recovery_by_user'' ''recovery_codes'' [''user_id'', ''consumed_at''])]"

definition columnsKycApplications :: "column list" where
  "columnsKycApplications =
     [primary (textCol ''id''), cascades ''users'' (notNull (textCol ''user_id'')),
      notNull (textCol ''full_name''), notNull (textCol ''dob''), notNull (textCol ''pan''),
      notNull (textCol ''address''), textCol ''doc_b64'',
      dflt (DefText ''savings'') (notNull (textCol ''requested_account_type'')),
      dflt (DefText ''Submitted'') (notNull (textCol ''status'')), notNull (intCol ''submitted_at''),
      intCol ''decided_at'', references ''users'' (textCol ''decided_by_user_id''), textCol ''reject_reason'']"

definition ddlKycApplications :: "sql_stmt list" where
  "ddlKycApplications =
     [CreateTable True ''kyc_applications'' columnsKycApplications,
      CreateIndex True (indexOn ''kyc_by_user'' ''kyc_applications'' [''user_id'']),
      CreateIndex True (indexOn ''kyc_by_status'' ''kyc_applications'' [''status''])]"

definition columnsAccounts :: "column list" where
  "columnsAccounts =
     [primary (textCol ''id''), notNull (textCol ''account_number''),
      cascades ''users'' (notNull (textCol ''user_id'')),
      dflt (DefText ''savings'') (notNull (textCol ''account_type'')),
      dflt (DefText ''Active'') (notNull (textCol ''status'')),
      dflt (DefInt 0) (notNull (intCol ''balance_minor'')),
      dflt (DefInt 0) (notNull (intCol ''hold_balance_minor'')),
      dflt (DefText ''INR'') (notNull (textCol ''currency'')), notNull (intCol ''created_at''),
      notNull (intCol ''updated_at'')]"

definition ddlAccounts :: "sql_stmt list" where
  "ddlAccounts =
     [CreateTable True ''accounts'' columnsAccounts,
      CreateIndex True (indexOn ''accounts_by_user'' ''accounts'' [''user_id'']),
      CreateIndex True (uniqueOn ''accounts_number_uq'' ''accounts'' [''account_number''])]"

definition columnsBeneficiaries :: "column list" where
  "columnsBeneficiaries =
     [primary (textCol ''id''), cascades ''users'' (notNull (textCol ''owner_user_id'')),
      notNull (textCol ''nickname''), notNull (textCol ''account_number''), textCol ''beneficiary_username'',
      dflt (DefText ''pending'') (notNull (textCol ''status'')), intCol ''activated_at'',
      intCol ''verified_at'', notNull (intCol ''created_at''), intCol ''last_used_at'']"

definition ddlBeneficiaries :: "sql_stmt list" where
  "ddlBeneficiaries =
     [CreateTable True ''beneficiaries'' columnsBeneficiaries]"

definition columnsExternalBeneficiaries :: "column list" where
  "columnsExternalBeneficiaries =
     [primary (textCol ''id''), cascades ''users'' (notNull (textCol ''owner_user_id'')),
      notNull (textCol ''nickname''), notNull (textCol ''account_number''), notNull (textCol ''ifsc''),
      notNull (textCol ''bank_name''), notNull (textCol ''beneficiary_name''), textCol ''vpa'',
      textCol ''preferred_rail'', dflt (DefText ''pending'') (notNull (textCol ''status'')),
      intCol ''activated_at'', intCol ''verified_at'', notNull (intCol ''created_at''), intCol ''last_used_at'']"

definition ddlExternalBeneficiaries :: "sql_stmt list" where
  "ddlExternalBeneficiaries =
     [CreateTable True ''external_beneficiaries'' columnsExternalBeneficiaries,
      CreateIndex True (indexOn ''ext_beneficiaries_by_owner'' ''external_beneficiaries'' [''owner_user_id'']),
      CreateIndex True (uniqueOn ''ext_beneficiaries_owner_acc_ifsc_uq'' ''external_beneficiaries'' [''owner_user_id'', ''account_number'', ''ifsc''])]"

definition columnsFixedDeposits :: "column list" where
  "columnsFixedDeposits =
     [primary (textCol ''id''), cascades ''accounts'' (notNull (textCol ''account_id'')),
      cascades ''users'' (notNull (textCol ''user_id'')),
      references ''accounts'' (notNull (textCol ''payout_account_id'')), notNull (intCol ''principal_minor''),
      notNull (intCol ''tenure_months''), notNull (intCol ''interest_rate_bps''),
      notNull (intCol ''opened_at''), notNull (intCol ''maturity_at''),
      dflt (DefInt 0) (notNull (intCol ''auto_renew'')),
      dflt (DefText ''active'') (notNull (textCol ''status'')), intCol ''closed_at'',
      dflt (DefInt 0) (notNull (intCol ''interest_paid_minor''))]"

definition ddlFixedDeposits :: "sql_stmt list" where
  "ddlFixedDeposits =
     [CreateTable True ''fixed_deposits'' columnsFixedDeposits,
      CreateIndex True (indexOn ''fd_by_user'' ''fixed_deposits'' [''user_id'']),
      CreateIndex True (uniqueOn ''fd_by_account_uq'' ''fixed_deposits'' [''account_id'']),
      CreateIndex True (indexOn ''fd_by_maturity'' ''fixed_deposits'' [''status'', ''maturity_at''])]"

definition columnsNominees :: "column list" where
  "columnsNominees =
     [primary (textCol ''id''), cascades ''accounts'' (notNull (textCol ''account_id'')),
      cascades ''users'' (notNull (textCol ''user_id'')), notNull (textCol ''full_name''),
      notNull (textCol ''relation''), dflt (DefInt 100) (notNull (intCol ''share_percent'')),
      notNull (intCol ''created_at'')]"

definition ddlNominees :: "sql_stmt list" where
  "ddlNominees =
     [CreateTable True ''nominees'' columnsNominees,
      CreateIndex True (indexOn ''nominees_by_account'' ''nominees'' [''account_id'']),
      CreateIndex True (indexOn ''beneficiaries_by_owner'' ''beneficiaries'' [''owner_user_id'']),
      CreateIndex True (uniqueOn ''beneficiaries_owner_acc_uq'' ''beneficiaries'' [''owner_user_id'', ''account_number''])]"

definition columnsBillers :: "column list" where
  "columnsBillers =
     [primary (textCol ''id''), notNull (textCol ''name''), notNull (textCol ''category''),
      notNull (textCol ''biller_account_number''), dflt (DefInt 1) (notNull (intCol ''active'')),
      notNull (intCol ''created_at'')]"

definition ddlBillers :: "sql_stmt list" where
  "ddlBillers =
     [CreateTable True ''billers'' columnsBillers,
      CreateIndex True (uniqueOn ''billers_acc_uq'' ''billers'' [''biller_account_number''])]"

definition columnsSavedBillAccounts :: "column list" where
  "columnsSavedBillAccounts =
     [primary (textCol ''id''), cascades ''users'' (notNull (textCol ''user_id'')),
      cascades ''billers'' (notNull (textCol ''biller_id'')), notNull (textCol ''customer_ref''),
      notNull (textCol ''nickname''), notNull (intCol ''created_at'')]"

definition ddlSavedBillAccounts :: "sql_stmt list" where
  "ddlSavedBillAccounts =
     [CreateTable True ''saved_bill_accounts'' columnsSavedBillAccounts,
      CreateIndex True (indexOn ''saved_bill_accounts_by_user'' ''saved_bill_accounts'' [''user_id'']),
      CreateIndex True (uniqueOn ''saved_bill_accounts_user_biller_ref_uq'' ''saved_bill_accounts'' [''user_id'', ''biller_id'', ''customer_ref''])]"

definition columnsStandingInstructions :: "column list" where
  "columnsStandingInstructions =
     [primary (textCol ''id''), cascades ''users'' (notNull (textCol ''owner_user_id'')),
      cascades ''accounts'' (notNull (textCol ''from_account_id'')),
      cascades ''beneficiaries'' (notNull (textCol ''beneficiary_id'')), notNull (intCol ''amount_minor''),
      dflt (DefText ''INR'') (notNull (textCol ''currency'')), notNull (textCol ''frequency''),
      notNull (intCol ''next_run_at''), intCol ''last_run_at'',
      dflt (DefText ''active'') (notNull (textCol ''status'')), textCol ''description'',
      notNull (intCol ''created_at'')]"

definition ddlStandingInstructions :: "sql_stmt list" where
  "ddlStandingInstructions =
     [CreateTable True ''standing_instructions'' columnsStandingInstructions,
      CreateIndex True (indexOn ''si_by_owner'' ''standing_instructions'' [''owner_user_id'']),
      CreateIndex True (indexOn ''si_by_next_run'' ''standing_instructions'' [''status'', ''next_run_at''])]"

definition columnsNotifications :: "column list" where
  "columnsNotifications =
     [primary (textCol ''id''), cascades ''users'' (notNull (textCol ''user_id'')), notNull (textCol ''kind''),
      notNull (textCol ''title''), notNull (textCol ''body''), intCol ''read_at'',
      textCol ''related_entity_type'', textCol ''related_entity_id'', notNull (intCol ''created_at'')]"

definition ddlNotifications :: "sql_stmt list" where
  "ddlNotifications =
     [CreateTable True ''notifications'' columnsNotifications,
      CreateIndex True (indexOn ''notifications_by_user'' ''notifications'' [''user_id'', ''created_at'']),
      CreateIndex True (indexOn ''notifications_by_unread'' ''notifications'' [''user_id'', ''read_at''])]"

definition columnsDebitCards :: "column list" where
  "columnsDebitCards =
     [primary (textCol ''id''), cascades ''accounts'' (notNull (textCol ''account_id'')),
      notNull (textCol ''masked_number''), notNull (textCol ''network''),
      dflt (DefText ''active'') (notNull (textCol ''status'')), notNull (intCol ''issued_at''),
      intCol ''frozen_at'', intCol ''cancelled_at'',
      dflt (DefInt 1000000) (notNull (intCol ''per_txn_limit_minor'')),
      dflt (DefInt 2500000) (notNull (intCol ''daily_limit_minor'')),
      dflt (DefInt 25000000) (notNull (intCol ''monthly_limit_minor''))]"

definition ddlDebitCards :: "sql_stmt list" where
  "ddlDebitCards =
     [CreateTable True ''debit_cards'' columnsDebitCards,
      CreateIndex True (indexOn ''debit_cards_by_account'' ''debit_cards'' [''account_id''])]"

definition columnsTransfers :: "column list" where
  "columnsTransfers =
     [primary (textCol ''id''), textCol ''idempotency_key'',
      references ''accounts'' (textCol ''from_account_id''),
      references ''accounts'' (textCol ''to_account_id''), notNull (intCol ''amount_minor''),
      dflt (DefText ''INR'') (notNull (textCol ''currency'')), textCol ''memo'',
      dflt (DefText ''transfer'') (notNull (textCol ''kind'')),
      dflt (DefText ''posted'') (notNull (textCol ''status'')),
      dflt (DefText ''internal'') (notNull (textCol ''rail'')), textCol ''utr'', textCol ''failure_reason'',
      notNull (intCol ''posted_at''), textCol ''reference_number'',
      dflt (DefInt 0) (notNull (intCol ''fee_minor'')), textCol ''category'', textCol ''from_account_number'',
      textCol ''to_account_number'', textCol ''from_username'', textCol ''to_username'',
      textCol ''description'', textCol ''biller_id'', references ''debit_cards'' (textCol ''card_id'')]"

definition ddlTransfers :: "sql_stmt list" where
  "ddlTransfers =
     [CreateTable True ''transfers'' columnsTransfers,
      CreateIndex True (uniqueOn ''transfers_idem_uq'' ''transfers'' [''idempotency_key'']),
      CreateIndex True (indexOn ''transfers_by_from'' ''transfers'' [''from_account_id'']),
      CreateIndex True (indexOn ''transfers_by_to'' ''transfers'' [''to_account_id'']),
      CreateIndex True (uniqueOn ''transfers_ref_uq'' ''transfers'' [''reference_number''])]"

definition columnsLedgerEntries :: "column list" where
  "columnsLedgerEntries =
     [primary (textCol ''id''), cascades ''accounts'' (notNull (textCol ''account_id'')),
      cascades ''transfers'' (notNull (textCol ''transfer_id'')), notNull (textCol ''kind''),
      notNull (intCol ''amount_minor''), notNull (intCol ''running_balance_minor''),
      notNull (intCol ''posted_at'')]"

definition ddlLedgerEntries :: "sql_stmt list" where
  "ddlLedgerEntries =
     [CreateTable True ''ledger_entries'' columnsLedgerEntries,
      CreateIndex True (indexOn ''ledger_by_account'' ''ledger_entries'' [''account_id'']),
      CreateIndex True (indexOn ''ledger_by_transfer'' ''ledger_entries'' [''transfer_id'']),
      CreateIndex True (indexOn ''ledger_by_account_posted'' ''ledger_entries'' [''account_id'', ''posted_at''])]"

definition columnsAuditLog :: "column list" where
  "columnsAuditLog =
     [primary (textCol ''id''), notNull (intCol ''occurred_at''),
      references ''users'' (textCol ''actor_user_id''), textCol ''actor_username'',
      notNull (textCol ''actor_role''), textCol ''session_id'', notNull (textCol ''action''),
      notNull (textCol ''category''), textCol ''target_type'', textCol ''target_id'',
      notNull (textCol ''status''), textCol ''error_code'', notNull (textCol ''summary''), textCol ''payload'',
      textCol ''request_id'', textCol ''ip'', textCol ''user_agent'', textCol ''prev_hash'',
      notNull (textCol ''hash''), notNull (intCol ''seq'')]"

definition ddlAuditLog :: "sql_stmt list" where
  "ddlAuditLog =
     [CreateTable True ''audit_log'' columnsAuditLog,
      CreateIndex True (indexOn ''audit_by_actor'' ''audit_log'' [''actor_user_id'', ''occurred_at'']),
      CreateIndex True (indexOn ''audit_by_action'' ''audit_log'' [''action'', ''occurred_at'']),
      CreateIndex True (indexOn ''audit_by_target'' ''audit_log'' [''target_type'', ''target_id'']),
      CreateIndex True (indexOn ''audit_by_time'' ''audit_log'' [''occurred_at'']),
      CreateIndex True (uniqueOn ''audit_by_seq_uq'' ''audit_log'' [''seq''])]"

definition columnsDisputes :: "column list" where
  "columnsDisputes =
     [primary (textCol ''id''), cascades ''users'' (notNull (textCol ''user_id'')),
      references ''transfers'' (notNull (textCol ''transfer_id'')), notNull (textCol ''reason''),
      dflt (DefText ''submitted'') (notNull (textCol ''status'')), textCol ''admin_note'',
      references ''transfers'' (textCol ''reversal_transfer_id''), notNull (intCol ''created_at''),
      intCol ''decided_at'', references ''users'' (textCol ''decided_by_user_id'')]"

definition ddlDisputes :: "sql_stmt list" where
  "ddlDisputes =
     [CreateTable True ''disputes'' columnsDisputes,
      CreateIndex True (indexOn ''disputes_by_user'' ''disputes'' [''user_id'']),
      CreateIndex True (indexOn ''disputes_by_transfer'' ''disputes'' [''transfer_id''])]"

definition columnsAdminPendingActions :: "column list" where
  "columnsAdminPendingActions =
     [primary (textCol ''id''), notNull (textCol ''action''),
      references ''users'' (notNull (textCol ''requested_by_user_id'')),
      references ''users'' (textCol ''approved_by_user_id''), notNull (textCol ''payload''),
      dflt (DefText ''pending'') (notNull (textCol ''status'')), notNull (intCol ''created_at''),
      intCol ''decided_at'']"

definition ddlAdminPendingActions :: "sql_stmt list" where
  "ddlAdminPendingActions =
     [CreateTable True ''admin_pending_actions'' columnsAdminPendingActions,
      CreateIndex True (indexOn ''admin_pending_by_status'' ''admin_pending_actions'' [''status'', ''created_at''])]"

definition ddl :: "sql_stmt list" where
  "ddl = concat [ddlUsers, ddlWebauthnCredentials, ddlRecoveryCodes, ddlKycApplications, ddlAccounts, ddlBeneficiaries,
     ddlExternalBeneficiaries, ddlFixedDeposits, ddlNominees, ddlBillers, ddlSavedBillAccounts,
     ddlStandingInstructions, ddlNotifications, ddlDebitCards, ddlTransfers, ddlLedgerEntries, ddlAuditLog,
     ddlDisputes, ddlAdminPendingActions]"

definition upgrades :: "(string \<times> column) list" where
  "upgrades =
     [(''users'', dflt (DefText '''') (notNull (textCol ''email''))),
      (''users'', dflt (DefText '''') (notNull (textCol ''password_hash''))),
      (''users'', dflt (DefText ''Active'') (notNull (textCol ''account_status''))),
      (''users'', dflt (DefInt 0) (notNull (intCol ''failed_attempts''))), (''users'', intCol ''locked_until''),
      (''users'', dflt (DefInt 0) (notNull (intCol ''passkey_enrolled''))),
      (''transfers'', textCol ''reference_number''),
      (''transfers'', dflt (DefInt 0) (notNull (intCol ''fee_minor''))), (''transfers'', textCol ''category''),
      (''transfers'', textCol ''from_account_number''), (''transfers'', textCol ''to_account_number''),
      (''transfers'', textCol ''from_username''), (''transfers'', textCol ''to_username''),
      (''transfers'', textCol ''description''),
      (''accounts'', dflt (DefText ''savings'') (notNull (textCol ''account_type''))),
      (''kyc_applications'', dflt (DefText ''savings'') (notNull (textCol ''requested_account_type''))),
      (''webauthn_credentials'', intCol ''last_used_at''), (''webauthn_credentials'', textCol ''label''),
      (''transfers'', textCol ''biller_id''),
      (''users'', dflt (DefText ''none'') (notNull (textCol ''kyc_tier''))), (''users'', textCol ''mobile''),
      (''accounts'', dflt (DefInt 0) (notNull (intCol ''hold_balance_minor''))),
      (''beneficiaries'', dflt (DefText ''pending'') (notNull (textCol ''status''))),
      (''beneficiaries'', intCol ''activated_at''), (''beneficiaries'', intCol ''verified_at''),
      (''transfers'', dflt (DefText ''internal'') (notNull (textCol ''rail''))),
      (''transfers'', textCol ''utr''), (''transfers'', textCol ''failure_reason''),
      (''debit_cards'', dflt (DefInt 1000000) (notNull (intCol ''per_txn_limit_minor''))),
      (''debit_cards'', dflt (DefInt 2500000) (notNull (intCol ''daily_limit_minor''))),
      (''debit_cards'', dflt (DefInt 25000000) (notNull (intCol ''monthly_limit_minor''))),
      (''transfers'', references ''debit_cards'' (textCol ''card_id'')),
      (''standing_instructions'', intCol ''end_at''),
      (''standing_instructions'', dflt (DefInt 0) (notNull (intCol ''failure_count'')))]"

section \<open>Migrating\<close>

definition applyUpgradesTo :: "unit sql" where
  "applyUpgradesTo =
     thn (forEach upgrades (\<lambda>(t, c). catchAny (execSql (AddColumn t c)) (\<lambda>msg.
            if isInfixOf ''duplicate column name'' (toLowerCase msg) then ret () else raise msg)))
    (thn (execSql (CreateIndex True (uniqueOn ''transfers_ref_uq'' ''transfers'' [''reference_number''])))
         (execSql (CreateIndex True (indexOn ''transfers_by_card'' ''transfers'' [''card_id'', ''posted_at'']))))"

definition migrate :: "unit sql" where
  "migrate = thn (execScript ddl) applyUpgradesTo"

section \<open>The migration of production\<close>

text \<open>The journal of \<open>drizzle/\<close> has one entry.\<close>

definition prodAccounts :: "column list" where
  "prodAccounts =
     [notNull (primary (textCol ''id'')), notNull (textCol ''account_number''),
      cascades ''users'' (notNull (textCol ''user_id'')),
      notNull (dflt (DefText ''savings'') (textCol ''account_type'')),
      notNull (dflt (DefText ''Active'') (textCol ''status'')),
      notNull (dflt (DefInt 0) (intCol ''balance_minor'')),
      notNull (dflt (DefInt 0) (intCol ''hold_balance_minor'')),
      notNull (dflt (DefText ''INR'') (textCol ''currency'')), notNull (intCol ''created_at''),
      notNull (intCol ''updated_at'')]"

definition prodAdminPendingActions :: "column list" where
  "prodAdminPendingActions =
     [notNull (primary (textCol ''id'')), notNull (textCol ''action''),
      references ''users'' (notNull (textCol ''requested_by_user_id'')),
      references ''users'' (textCol ''approved_by_user_id''), notNull (textCol ''payload''),
      notNull (dflt (DefText ''pending'') (textCol ''status'')), notNull (intCol ''created_at''),
      intCol ''decided_at'']"

definition prodAuditLog :: "column list" where
  "prodAuditLog =
     [notNull (primary (textCol ''id'')), notNull (intCol ''occurred_at''),
      references ''users'' (textCol ''actor_user_id''), textCol ''actor_username'',
      notNull (textCol ''actor_role''), textCol ''session_id'', notNull (textCol ''action''),
      notNull (textCol ''category''), textCol ''target_type'', textCol ''target_id'',
      notNull (textCol ''status''), textCol ''error_code'', notNull (textCol ''summary''), textCol ''payload'',
      textCol ''request_id'', textCol ''ip'', textCol ''user_agent'', textCol ''prev_hash'',
      notNull (textCol ''hash''), notNull (intCol ''seq'')]"

definition prodBeneficiaries :: "column list" where
  "prodBeneficiaries =
     [notNull (primary (textCol ''id'')), cascades ''users'' (notNull (textCol ''owner_user_id'')),
      notNull (textCol ''nickname''), notNull (textCol ''account_number''), textCol ''beneficiary_username'',
      notNull (dflt (DefText ''pending'') (textCol ''status'')), intCol ''activated_at'',
      intCol ''verified_at'', notNull (intCol ''created_at''), intCol ''last_used_at'']"

definition prodBillers :: "column list" where
  "prodBillers =
     [notNull (primary (textCol ''id'')), notNull (textCol ''name''), notNull (textCol ''category''),
      notNull (textCol ''biller_account_number''), notNull (dflt (DefInt 1) (intCol ''active'')),
      notNull (intCol ''created_at'')]"

definition prodDebitCards :: "column list" where
  "prodDebitCards =
     [notNull (primary (textCol ''id'')), cascades ''accounts'' (notNull (textCol ''account_id'')),
      notNull (textCol ''masked_number''), notNull (textCol ''network''),
      notNull (dflt (DefText ''active'') (textCol ''status'')), notNull (intCol ''issued_at''),
      intCol ''frozen_at'', intCol ''cancelled_at'', notNull (intCol ''per_txn_limit_minor''),
      notNull (intCol ''daily_limit_minor''), notNull (intCol ''monthly_limit_minor'')]"

definition prodDisputes :: "column list" where
  "prodDisputes =
     [notNull (primary (textCol ''id'')), cascades ''users'' (notNull (textCol ''user_id'')),
      references ''transfers'' (notNull (textCol ''transfer_id'')), notNull (textCol ''reason''),
      notNull (dflt (DefText ''submitted'') (textCol ''status'')), textCol ''admin_note'',
      references ''transfers'' (textCol ''reversal_transfer_id''), notNull (intCol ''created_at''),
      intCol ''decided_at'', references ''users'' (textCol ''decided_by_user_id'')]"

definition prodExternalBeneficiaries :: "column list" where
  "prodExternalBeneficiaries =
     [notNull (primary (textCol ''id'')), cascades ''users'' (notNull (textCol ''owner_user_id'')),
      notNull (textCol ''nickname''), notNull (textCol ''account_number''), notNull (textCol ''ifsc''),
      notNull (textCol ''bank_name''), notNull (textCol ''beneficiary_name''), textCol ''vpa'',
      textCol ''preferred_rail'', notNull (dflt (DefText ''pending'') (textCol ''status'')),
      intCol ''activated_at'', intCol ''verified_at'', notNull (intCol ''created_at''), intCol ''last_used_at'']"

definition prodFixedDeposits :: "column list" where
  "prodFixedDeposits =
     [notNull (primary (textCol ''id'')), cascades ''accounts'' (notNull (textCol ''account_id'')),
      cascades ''users'' (notNull (textCol ''user_id'')),
      references ''accounts'' (notNull (textCol ''payout_account_id'')), notNull (intCol ''principal_minor''),
      notNull (intCol ''tenure_months''), notNull (intCol ''interest_rate_bps''),
      notNull (intCol ''opened_at''), notNull (intCol ''maturity_at''),
      notNull (dflt (DefInt 0) (intCol ''auto_renew'')),
      notNull (dflt (DefText ''active'') (textCol ''status'')), intCol ''closed_at'',
      notNull (dflt (DefInt 0) (intCol ''interest_paid_minor''))]"

definition prodKycApplications :: "column list" where
  "prodKycApplications =
     [notNull (primary (textCol ''id'')), cascades ''users'' (notNull (textCol ''user_id'')),
      notNull (textCol ''full_name''), notNull (textCol ''dob''), notNull (textCol ''pan''),
      notNull (textCol ''address''), textCol ''doc_b64'',
      notNull (dflt (DefText ''savings'') (textCol ''requested_account_type'')),
      notNull (dflt (DefText ''Submitted'') (textCol ''status'')), notNull (intCol ''submitted_at''),
      intCol ''decided_at'', references ''users'' (textCol ''decided_by_user_id''), textCol ''reject_reason'']"

definition prodLedgerEntries :: "column list" where
  "prodLedgerEntries =
     [notNull (primary (textCol ''id'')), cascades ''accounts'' (notNull (textCol ''account_id'')),
      cascades ''transfers'' (notNull (textCol ''transfer_id'')), notNull (textCol ''kind''),
      notNull (intCol ''amount_minor''), notNull (intCol ''running_balance_minor''),
      notNull (intCol ''posted_at'')]"

definition prodNominees :: "column list" where
  "prodNominees =
     [notNull (primary (textCol ''id'')), cascades ''accounts'' (notNull (textCol ''account_id'')),
      cascades ''users'' (notNull (textCol ''user_id'')), notNull (textCol ''full_name''),
      notNull (textCol ''relation''), notNull (dflt (DefInt 100) (intCol ''share_percent'')),
      notNull (intCol ''created_at'')]"

definition prodNotifications :: "column list" where
  "prodNotifications =
     [notNull (primary (textCol ''id'')), cascades ''users'' (notNull (textCol ''user_id'')),
      notNull (textCol ''kind''), notNull (textCol ''title''), notNull (textCol ''body''), intCol ''read_at'',
      textCol ''related_entity_type'', textCol ''related_entity_id'', notNull (intCol ''created_at'')]"

definition prodRecoveryCodes :: "column list" where
  "prodRecoveryCodes =
     [notNull (primary (textCol ''id'')), cascades ''users'' (notNull (textCol ''user_id'')),
      notNull (textCol ''code_hash''), notNull (intCol ''issued_at''),
      references ''users'' (textCol ''issued_by_admin_id''), notNull (intCol ''expires_at''),
      intCol ''consumed_at'', notNull (textCol ''purpose'')]"

definition prodStandingInstructions :: "column list" where
  "prodStandingInstructions =
     [notNull (primary (textCol ''id'')), cascades ''users'' (notNull (textCol ''owner_user_id'')),
      cascades ''accounts'' (notNull (textCol ''from_account_id'')),
      cascades ''beneficiaries'' (notNull (textCol ''beneficiary_id'')), notNull (intCol ''amount_minor''),
      notNull (dflt (DefText ''INR'') (textCol ''currency'')), notNull (textCol ''frequency''),
      notNull (intCol ''next_run_at''), intCol ''last_run_at'',
      notNull (dflt (DefText ''active'') (textCol ''status'')), textCol ''description'',
      notNull (intCol ''created_at'')]"

definition prodTransfers :: "column list" where
  "prodTransfers =
     [notNull (primary (textCol ''id'')), textCol ''idempotency_key'',
      references ''accounts'' (textCol ''from_account_id''),
      references ''accounts'' (textCol ''to_account_id''), notNull (intCol ''amount_minor''),
      notNull (dflt (DefText ''INR'') (textCol ''currency'')), textCol ''memo'',
      notNull (dflt (DefText ''transfer'') (textCol ''kind'')),
      notNull (dflt (DefText ''posted'') (textCol ''status'')),
      notNull (dflt (DefText ''internal'') (textCol ''rail'')), textCol ''utr'', textCol ''failure_reason'',
      notNull (intCol ''posted_at''), textCol ''reference_number'',
      notNull (dflt (DefInt 0) (intCol ''fee_minor'')), textCol ''category'', textCol ''from_account_number'',
      textCol ''to_account_number'', textCol ''from_username'', textCol ''to_username'',
      textCol ''description'', textCol ''biller_id'', references ''debit_cards'' (textCol ''card_id'')]"

definition prodUsers :: "column list" where
  "prodUsers =
     [notNull (primary (textCol ''id'')), notNull (textCol ''username''),
      notNull (dflt (DefText '''') (textCol ''email'')),
      notNull (dflt (DefText '''') (textCol ''password_hash'')),
      notNull (dflt (DefText ''customer'') (textCol ''role'')),
      notNull (dflt (DefText ''Active'') (textCol ''account_status'')),
      notNull (dflt (DefInt 0) (intCol ''failed_attempts'')), intCol ''locked_until'',
      notNull (dflt (DefInt 0) (intCol ''passkey_enrolled'')),
      notNull (dflt (DefText ''none'') (textCol ''kyc_tier'')), textCol ''mobile'',
      notNull (intCol ''created_at'')]"

definition prodWebauthnCredentials :: "column list" where
  "prodWebauthnCredentials =
     [notNull (primary (textCol ''id'')), cascades ''users'' (notNull (textCol ''user_id'')),
      notNull (blobCol ''public_key''), notNull (intCol ''counter''), textCol ''transports'',
      notNull (textCol ''device_type''), notNull (intCol ''backed_up''), notNull (intCol ''created_at''),
      intCol ''last_used_at'', textCol ''label'']"

definition faultyEpoch :: "sql_stmt list" where
  "faultyEpoch =
     [CreateTable False ''accounts'' prodAccounts,
      CreateIndex False (indexOn ''accounts_by_user'' ''accounts'' [''user_id'']),
      CreateIndex False (uniqueOn ''accounts_number_uq'' ''accounts'' [''account_number'']),
      CreateTable False ''admin_pending_actions'' prodAdminPendingActions,
      CreateIndex False (indexOn ''admin_pending_by_status'' ''admin_pending_actions'' [''status'', ''created_at'']),
      CreateTable False ''audit_log'' prodAuditLog,
      CreateIndex False (indexOn ''audit_by_actor'' ''audit_log'' [''actor_user_id'', ''occurred_at'']),
      CreateIndex False (indexOn ''audit_by_action'' ''audit_log'' [''action'', ''occurred_at'']),
      CreateIndex False (indexOn ''audit_by_target'' ''audit_log'' [''target_type'', ''target_id'']),
      CreateIndex False (indexOn ''audit_by_time'' ''audit_log'' [''occurred_at'']),
      CreateIndex False (uniqueOn ''audit_by_seq_uq'' ''audit_log'' [''seq'']),
      CreateTable False ''beneficiaries'' prodBeneficiaries,
      CreateIndex False (indexOn ''beneficiaries_by_owner'' ''beneficiaries'' [''owner_user_id'']),
      CreateIndex False (uniqueOn ''beneficiaries_owner_acc_uq'' ''beneficiaries'' [''owner_user_id'', ''account_number'']),
      CreateTable False ''billers'' prodBillers,
      CreateIndex False (uniqueOn ''billers_acc_uq'' ''billers'' [''biller_account_number'']),
      CreateTable False ''debit_cards'' prodDebitCards,
      CreateIndex False (indexOn ''debit_cards_by_account'' ''debit_cards'' [''account_id'']),
      CreateTable False ''disputes'' prodDisputes,
      CreateIndex False (indexOn ''disputes_by_user'' ''disputes'' [''user_id'']),
      CreateIndex False (indexOn ''disputes_by_transfer'' ''disputes'' [''transfer_id'']),
      CreateTable False ''external_beneficiaries'' prodExternalBeneficiaries,
      CreateIndex False (indexOn ''ext_beneficiaries_by_owner'' ''external_beneficiaries'' [''owner_user_id'']),
      CreateIndex False (uniqueOn ''ext_beneficiaries_owner_acc_ifsc_uq'' ''external_beneficiaries'' [''owner_user_id'', ''account_number'', ''ifsc'']),
      CreateTable False ''fixed_deposits'' prodFixedDeposits,
      CreateIndex False (indexOn ''fd_by_user'' ''fixed_deposits'' [''user_id'']),
      CreateIndex False (uniqueOn ''fd_by_account_uq'' ''fixed_deposits'' [''account_id'']),
      CreateIndex False (indexOn ''fd_by_maturity'' ''fixed_deposits'' [''status'', ''maturity_at'']),
      CreateTable False ''kyc_applications'' prodKycApplications,
      CreateIndex False (indexOn ''kyc_by_user'' ''kyc_applications'' [''user_id'']),
      CreateIndex False (indexOn ''kyc_by_status'' ''kyc_applications'' [''status'']),
      CreateTable False ''ledger_entries'' prodLedgerEntries,
      CreateIndex False (indexOn ''ledger_by_account'' ''ledger_entries'' [''account_id'']),
      CreateIndex False (indexOn ''ledger_by_transfer'' ''ledger_entries'' [''transfer_id'']),
      CreateIndex False (indexOn ''ledger_by_account_posted'' ''ledger_entries'' [''account_id'', ''posted_at'']),
      CreateTable False ''nominees'' prodNominees,
      CreateIndex False (indexOn ''nominees_by_account'' ''nominees'' [''account_id'']),
      CreateTable False ''notifications'' prodNotifications,
      CreateIndex False (indexOn ''notifications_by_user'' ''notifications'' [''user_id'', ''created_at'']),
      CreateIndex False (indexOn ''notifications_by_unread'' ''notifications'' [''user_id'', ''read_at'']),
      CreateTable False ''recovery_codes'' prodRecoveryCodes,
      CreateIndex False (indexOn ''recovery_by_user'' ''recovery_codes'' [''user_id'', ''consumed_at'']),
      CreateTable False ''standing_instructions'' prodStandingInstructions,
      CreateIndex False (indexOn ''si_by_owner'' ''standing_instructions'' [''owner_user_id'']),
      CreateIndex False (indexOn ''si_by_next_run'' ''standing_instructions'' [''status'', ''next_run_at'']),
      CreateTable False ''transfers'' prodTransfers,
      CreateIndex False (uniqueOn ''transfers_idem_uq'' ''transfers'' [''idempotency_key'']),
      CreateIndex False (indexOn ''transfers_by_from'' ''transfers'' [''from_account_id'']),
      CreateIndex False (indexOn ''transfers_by_to'' ''transfers'' [''to_account_id'']),
      CreateIndex False (uniqueOn ''transfers_ref_uq'' ''transfers'' [''reference_number'']),
      CreateIndex False (indexOn ''transfers_by_card'' ''transfers'' [''card_id'', ''posted_at'']),
      CreateTable False ''users'' prodUsers,
      CreateIndex False (uniqueOn ''users_username_uq'' ''users'' [''username'']),
      CreateTable False ''webauthn_credentials'' prodWebauthnCredentials,
      CreateIndex False (indexOn ''webauthn_by_user'' ''webauthn_credentials'' [''user_id''])]"

definition journal :: "(int \<times> sql_stmt list) list" where
  "journal = [(1780085063494, faultyEpoch)]"

text \<open>The migrator of \<open>drizzle-orm\<close>, which runs the entries of a journal that have not run, is a parameter.\<close>

definition migrateProd :: "((int \<times> sql_stmt list) list \<Rightarrow> unit sql) \<Rightarrow> unit sql" where
  "migrateProd migrator = migrator journal"

text \<open>\<open>process.env.NODE_ENV\<close>\<close>

definition runMigrations :: "((int \<times> sql_stmt list) list \<Rightarrow> unit sql) \<Rightarrow> string option \<Rightarrow> unit sql" where
  "runMigrations migrator nodeEnv =
     (if nodeEnv = Some ''test'' then ret ()
      else if nodeEnv = Some ''production'' then migrateProd migrator else migrate)"

end
