(* ===== verification/MigrateFacts.thy ===== *)
theory MigrateFacts
  imports Migrate
begin

text \<open>
  What the migrations establish: the development migration gives the schema the code works with and can be run
  again; it never drops a table or a column; it fails on a database from before the reference numbers, and the
  production migration lacks a table and two columns.
\<close>

section \<open>Scripts on a new database\<close>

fun creates :: "sql_stmt list \<Rightarrow> (string \<times> column list) list" where
  "creates [] = []"
| "creates (CreateTable b t cs # s) = (t, cs) # creates s"
| "creates (_ # s) = creates s"

fun indexesIn :: "sql_stmt list \<Rightarrow> sql_index list" where
  "indexesIn [] = []"
| "indexesIn (CreateIndex b ix # s) = ix # indexesIn s"
| "indexesIn (_ # s) = indexesIn s"

text \<open>Every index comes after its table and names columns of it.\<close>

fun ready :: "(string \<times> column list) list \<Rightarrow> sql_stmt list \<Rightarrow> bool" where
  "ready tbs [] = True"
| "ready tbs (CreateTable b t cs # s) = ready (tbs @ [(t, cs)]) s"
| "ready tbs (CreateIndex b ix # s) = ((case map_of tbs (ix_table ix) of
       None \<Rightarrow> False | Some cs \<Rightarrow> list_all (\<lambda>c. c \<in> set (columnNames cs)) (ix_columns ix)) \<and> ready tbs s)"
| "ready tbs (AddColumn t c # s) = False"

lemma execScript_simps [simp]:
  "execScript [] = ret ()" "execScript (x # s) = thn (execSql x) (execScript s)"
  by (simp_all add: execScript_def)

lemma thn_done: "m d = (Inr u, d') \<Longrightarrow> thn m n d = n d'"
  by (simp add: bnd_def)

lemma exec_newTable: "columnsOf d t = None \<Longrightarrow> execSql (CreateTable b t cs) d = (Inr (), addTable t cs d)"
  by (simp add: bnd_def gets_def modify_def)

lemma exec_newIndex:
  assumes "columnsOf d (ix_table ix) = Some cs" and "list_all (\<lambda>c. c \<in> set (columnNames cs)) (ix_columns ix)"
    and "\<not> indexNamed d (ix_name ix)"
  shows "execSql (CreateIndex b ix) d = (Inr (), addIndex ix d)"
proof -
  have "List.find (\<lambda>c. c \<notin> set (columnNames cs)) (ix_columns ix) = None"
    using assms(2) by (auto simp: find_None_iff list_all_iff)
  with assms(1,3) show ?thesis by (simp add: bnd_def gets_def modify_def)
qed

lemma execScript_fresh:
  "ready (sd_tables d) s \<Longrightarrow> distinct (map fst (sd_tables d @ creates s)) \<Longrightarrow>
   distinct (map ix_name (sd_indexes d @ indexesIn s)) \<Longrightarrow>
   execScript s d = (Inr (), \<lparr>sd_tables = sd_tables d @ creates s, sd_indexes = sd_indexes d @ indexesIn s\<rparr>)"
proof (induction s arbitrary: d)
  case Nil
  show ?case by (simp add: ret_def)
next
  case (Cons x s)
  show ?case
  proof (cases x)
    case (CreateTable b t cs)
    have "columnsOf d t = None"
      using Cons.prems(2) CreateTable by (force simp: columnsOf_def map_of_eq_None_iff)
    then have "execSql x d = (Inr (), addTable t cs d)" unfolding CreateTable by (rule exec_newTable)
    moreover have "execScript s (addTable t cs d)
        = (Inr (), \<lparr>sd_tables = sd_tables d @ creates (x # s), sd_indexes = sd_indexes d @ indexesIn (x # s)\<rparr>)"
      using Cons.IH [of "addTable t cs d"] Cons.prems CreateTable by (simp add: addTable_def)
    ultimately show ?thesis by (simp add: thn_done)
  next
    case (CreateIndex b ix)
    with Cons.prems(1) obtain cs where "columnsOf d (ix_table ix) = Some cs"
        "list_all (\<lambda>c. c \<in> set (columnNames cs)) (ix_columns ix)"
      by (auto simp: columnsOf_def split: option.splits)
    moreover have "\<not> indexNamed d (ix_name ix)"
      using Cons.prems(3) CreateIndex by (auto simp: indexNamed_def)
    ultimately have "execSql x d = (Inr (), addIndex ix d)" unfolding CreateIndex by (rule exec_newIndex)
    moreover have "execScript s (addIndex ix d)
        = (Inr (), \<lparr>sd_tables = sd_tables d @ creates (x # s), sd_indexes = sd_indexes d @ indexesIn (x # s)\<rparr>)"
      using Cons.IH [of "addIndex ix d"] Cons.prems CreateIndex by (simp add: addIndex_def)
    ultimately show ?thesis by (simp add: thn_done)
  next
    case (AddColumn t c)
    with Cons.prems(1) show ?thesis by simp
  qed
qed

section \<open>The development migration on a new database\<close>

lemmas ddl_blocks =
  ddl_def ddlUsers_def ddlWebauthnCredentials_def ddlRecoveryCodes_def ddlKycApplications_def ddlAccounts_def
  ddlBeneficiaries_def ddlExternalBeneficiaries_def ddlFixedDeposits_def ddlNominees_def ddlBillers_def
  ddlSavedBillAccounts_def ddlStandingInstructions_def ddlNotifications_def ddlDebitCards_def
  ddlTransfers_def ddlLedgerEntries_def ddlAuditLog_def ddlDisputes_def ddlAdminPendingActions_def

lemmas ddl_columns =
  columnsUsers_def columnsWebauthnCredentials_def columnsRecoveryCodes_def columnsKycApplications_def
  columnsAccounts_def columnsBeneficiaries_def columnsExternalBeneficiaries_def columnsFixedDeposits_def
  columnsNominees_def columnsBillers_def columnsSavedBillAccounts_def columnsStandingInstructions_def
  columnsNotifications_def columnsDebitCards_def columnsTransfers_def columnsLedgerEntries_def
  columnsAuditLog_def columnsDisputes_def columnsAdminPendingActions_def

lemma ddl_names:
  "columnNames columnsUsers =
     [''id'', ''username'', ''email'', ''password_hash'', ''role'', ''account_status'', ''failed_attempts'',
      ''locked_until'', ''passkey_enrolled'', ''created_at'']"
  "columnNames columnsWebauthnCredentials =
     [''id'', ''user_id'', ''public_key'', ''counter'', ''transports'', ''device_type'', ''backed_up'',
      ''created_at'', ''last_used_at'', ''label'']"
  "columnNames columnsRecoveryCodes =
     [''id'', ''user_id'', ''code_hash'', ''issued_at'', ''issued_by_admin_id'', ''expires_at'',
      ''consumed_at'', ''purpose'']"
  "columnNames columnsKycApplications =
     [''id'', ''user_id'', ''full_name'', ''dob'', ''pan'', ''address'', ''doc_b64'',
      ''requested_account_type'', ''status'', ''submitted_at'', ''decided_at'', ''decided_by_user_id'',
      ''reject_reason'']"
  "columnNames columnsAccounts =
     [''id'', ''account_number'', ''user_id'', ''account_type'', ''status'', ''balance_minor'',
      ''hold_balance_minor'', ''currency'', ''created_at'', ''updated_at'']"
  "columnNames columnsBeneficiaries =
     [''id'', ''owner_user_id'', ''nickname'', ''account_number'', ''beneficiary_username'', ''status'',
      ''activated_at'', ''verified_at'', ''created_at'', ''last_used_at'']"
  "columnNames columnsExternalBeneficiaries =
     [''id'', ''owner_user_id'', ''nickname'', ''account_number'', ''ifsc'', ''bank_name'',
      ''beneficiary_name'', ''vpa'', ''preferred_rail'', ''status'', ''activated_at'', ''verified_at'',
      ''created_at'', ''last_used_at'']"
  "columnNames columnsFixedDeposits =
     [''id'', ''account_id'', ''user_id'', ''payout_account_id'', ''principal_minor'', ''tenure_months'',
      ''interest_rate_bps'', ''opened_at'', ''maturity_at'', ''auto_renew'', ''status'', ''closed_at'',
      ''interest_paid_minor'']"
  "columnNames columnsNominees =
     [''id'', ''account_id'', ''user_id'', ''full_name'', ''relation'', ''share_percent'', ''created_at'']"
  "columnNames columnsBillers =
     [''id'', ''name'', ''category'', ''biller_account_number'', ''active'', ''created_at'']"
  "columnNames columnsSavedBillAccounts =
     [''id'', ''user_id'', ''biller_id'', ''customer_ref'', ''nickname'', ''created_at'']"
  "columnNames columnsStandingInstructions =
     [''id'', ''owner_user_id'', ''from_account_id'', ''beneficiary_id'', ''amount_minor'', ''currency'',
      ''frequency'', ''next_run_at'', ''last_run_at'', ''status'', ''description'', ''created_at'']"
  "columnNames columnsNotifications =
     [''id'', ''user_id'', ''kind'', ''title'', ''body'', ''read_at'', ''related_entity_type'',
      ''related_entity_id'', ''created_at'']"
  "columnNames columnsDebitCards =
     [''id'', ''account_id'', ''masked_number'', ''network'', ''status'', ''issued_at'', ''frozen_at'',
      ''cancelled_at'', ''per_txn_limit_minor'', ''daily_limit_minor'', ''monthly_limit_minor'']"
  "columnNames columnsTransfers =
     [''id'', ''idempotency_key'', ''from_account_id'', ''to_account_id'', ''amount_minor'', ''currency'',
      ''memo'', ''kind'', ''status'', ''rail'', ''utr'', ''failure_reason'', ''posted_at'',
      ''reference_number'', ''fee_minor'', ''category'', ''from_account_number'', ''to_account_number'',
      ''from_username'', ''to_username'', ''description'', ''biller_id'', ''card_id'']"
  "columnNames columnsLedgerEntries =
     [''id'', ''account_id'', ''transfer_id'', ''kind'', ''amount_minor'', ''running_balance_minor'',
      ''posted_at'']"
  "columnNames columnsAuditLog =
     [''id'', ''occurred_at'', ''actor_user_id'', ''actor_username'', ''actor_role'', ''session_id'',
      ''action'', ''category'', ''target_type'', ''target_id'', ''status'', ''error_code'', ''summary'',
      ''payload'', ''request_id'', ''ip'', ''user_agent'', ''prev_hash'', ''hash'', ''seq'']"
  "columnNames columnsDisputes =
     [''id'', ''user_id'', ''transfer_id'', ''reason'', ''status'', ''admin_note'', ''reversal_transfer_id'',
      ''created_at'', ''decided_at'', ''decided_by_user_id'']"
  "columnNames columnsAdminPendingActions =
     [''id'', ''action'', ''requested_by_user_id'', ''approved_by_user_id'', ''payload'', ''status'',
      ''created_at'', ''decided_at'']"
  by (simp_all add: columnNames_def ddl_columns column_builders)

lemma ddl_tables:
  "distinct (map fst (creates ddl))"
  by (simp add: ddl_blocks)

lemma ddl_indexes:
  "distinct (map ix_name (indexesIn ddl))"
  by (simp add: ddl_blocks indexOn_def uniqueOn_def)

lemma ddl_ready:
  "ready [] ddl"
  by (simp add: ddl_blocks indexOn_def uniqueOn_def ddl_names)

lemma ddl_done: "execScript ddl noTables = (Inr (), \<lparr>sd_tables = creates ddl, sd_indexes = indexesIn ddl\<rparr>)"
  using execScript_fresh [of noTables ddl] by (simp add: noTables_def ddl_ready ddl_tables ddl_indexes)

section \<open>Upgrades\<close>

text \<open>One upgrade, its error included, and what it does to a table that exists.\<close>

definition upgrade :: "string \<times> column \<Rightarrow> unit sql" where
  "upgrade = (\<lambda>(t, c). catchAny (execSql (AddColumn t c)) (\<lambda>msg.
     if isInfixOf ''duplicate column name'' (toLowerCase msg) then ret () else raise msg))"

definition withColumn :: "column \<Rightarrow> column list \<Rightarrow> column list" where
  "withColumn c cs = (if co_name c \<in> set (columnNames cs) then cs else cs @ [c])"

definition changeTable :: "string \<Rightarrow> (column list \<Rightarrow> column list) \<Rightarrow> sql_db \<Rightarrow> sql_db" where
  "changeTable t f d = d\<lparr>sd_tables := map (\<lambda>(n, cs). (n, if n = t then f cs else cs)) (sd_tables d)\<rparr>"

lemma applyUpgrades_eq: "applyUpgradesTo = thn (forEach upgrades upgrade)
    (thn (execSql (CreateIndex True (uniqueOn ''transfers_ref_uq'' ''transfers'' [''reference_number''])))
         (execSql (CreateIndex True (indexOn ''transfers_by_card'' ''transfers'' [''card_id'', ''posted_at'']))))"
  by (simp add: applyUpgradesTo_def upgrade_def [abs_def])

lemma map_of_change: "map_of (map (\<lambda>(n, cs). (n, if n = t then f cs else cs)) tbs) t'
    = (if t' = t then map_option f (map_of tbs t') else map_of tbs t')"
  by (induction tbs) auto

lemma columnsOf_change: "columnsOf (changeTable t f d) t' =
    (if t' = t then map_option f (columnsOf d t') else columnsOf d t')"
  by (simp add: columnsOf_def changeTable_def map_of_change)

lemma duplicate_message: "isInfixOf ''duplicate column name'' (toLowerCase (''duplicate column name: '' @ n))"
  by (simp add: toLowerCase_def lowerChar_def isUpper_def startsWith_def)

lemma upgrade_known:
  "columnsOf d t = Some cs \<Longrightarrow> co_name c \<in> set (columnNames cs) \<Longrightarrow> upgrade (t, c) d = (Inr (), d)"
  using duplicate_message [of "co_name c"]
  by (simp add: upgrade_def catchAny_def bnd_def gets_def raise_def ret_def)

lemma upgrade_new:
  "columnsOf d t = Some cs \<Longrightarrow> co_name c \<notin> set (columnNames cs) \<Longrightarrow> upgrade (t, c) d = (Inr (), appendColumn t c d)"
  by (simp add: upgrade_def catchAny_def bnd_def gets_def modify_def)

definition upgradesOf :: "string \<Rightarrow> (string \<times> column) list \<Rightarrow> column list" where
  "upgradesOf t us = map snd (filter (\<lambda>u. fst u = t) us)"

lemma upgradesOf_simps [simp]:
  "upgradesOf t [] = []" "upgradesOf t (u # us) = (if fst u = t then snd u # upgradesOf t us else upgradesOf t us)"
  by (simp_all add: upgradesOf_def)

definition upgradedFrom :: "(string \<times> column) list \<Rightarrow> sql_db \<Rightarrow> sql_db \<Rightarrow> bool" where
  "upgradedFrom us d d' \<longleftrightarrow> (\<forall>t. columnsOf d' t = map_option (fold withColumn (upgradesOf t us)) (columnsOf d t))
     \<and> sd_indexes d' = sd_indexes d \<and> length (sd_tables d') = length (sd_tables d)"

lemma upgrade_runs:
  assumes "columnsOf d t \<noteq> None"
  shows "\<exists>d'. upgrade (t, c) d = (Inr (), d') \<and> upgradedFrom [(t, c)] d d'"
proof -
  from assms obtain cs where cs: "columnsOf d t = Some cs" by auto
  show ?thesis
  proof (cases "co_name c \<in> set (columnNames cs)")
    case True
    with cs upgrade_known [OF cs, of c] show ?thesis by (auto simp: upgradedFrom_def withColumn_def option.map_id)
  next
    case False
    have "appendColumn t c d = changeTable t (\<lambda>cs. cs @ [c]) d" by (simp add: appendColumn_def changeTable_def)
    with cs False upgrade_new [OF cs, of c] show ?thesis
      by (auto simp: upgradedFrom_def columnsOf_change withColumn_def option.map_id) (simp add: changeTable_def)+
  qed
qed

lemma upgrades_run:
  "\<forall>u \<in> set us. columnsOf d (fst u) \<noteq> None \<Longrightarrow> \<exists>d'. forEach us upgrade d = (Inr (), d') \<and> upgradedFrom us d d'"
proof (induction us arbitrary: d)
  case Nil
  show ?case by (simp add: ret_def upgradedFrom_def option.map_id)
next
  case (Cons u us)
  obtain d1 where d1: "upgrade u d = (Inr (), d1)" "upgradedFrom [u] d d1"
    using upgrade_runs [of d "fst u" "snd u"] Cons.prems by auto
  then have "\<forall>v \<in> set us. columnsOf d1 (fst v) \<noteq> None" using Cons.prems by (simp add: upgradedFrom_def)
  from Cons.IH [OF this] obtain d2 where d2: "forEach us upgrade d1 = (Inr (), d2)" "upgradedFrom us d1 d2" by blast
  have "upgradedFrom (u # us) d d2"
    using d1(2) d2(2) by (auto simp: upgradedFrom_def option.map_comp o_def intro: option.map_cong)
  with d1(1) d2(1) show ?case by (auto simp: bnd_def)
qed

section \<open>A database that serves the schema\<close>

text \<open>
  A column of the database serves one of the schema: same name and type, key, null values and reference (a primary
  key is not null for the code either way), and the same default where the schema has one.
\<close>

definition fits :: "column \<Rightarrow> column \<Rightarrow> bool" where
  "fits e c \<longleftrightarrow> co_name e = co_name c \<and> co_type e = co_type c \<and> co_primary e = co_primary c
     \<and> (co_notNull e \<or> co_primary e) = co_notNull c \<and> co_ref e = co_ref c
     \<and> (co_default c = None \<or> co_default e = co_default c)"

definition columnsServe :: "column list option \<Rightarrow> table \<Rightarrow> bool" where
  "columnsServe x tb = (case x of
      None \<Rightarrow> False
    | Some cs \<Rightarrow> length cs = length (tb_columns tb) \<and> list_all (\<lambda>c. list_ex (\<lambda>e. fits e c) cs) (tb_columns tb))"

definition servesTable :: "sql_db \<Rightarrow> table \<Rightarrow> bool" where
  "servesTable d tb \<longleftrightarrow> columnsServe (columnsOf d (tb_name tb)) tb
     \<and> list_all (\<lambda>ix. ix \<in> set (sd_indexes d)) (tb_indexes tb)"

definition serves :: "sql_db \<Rightarrow> table list \<Rightarrow> bool" where
  "serves d tbs \<longleftrightarrow> list_all (servesTable d) tbs \<and> length (sd_tables d) = length tbs
     \<and> length (sd_indexes d) = length (concat (map tb_indexes tbs))"

lemma columnNames_simps [simp]:
  "columnNames [] = []" "columnNames (c # cs) = co_name c # columnNames cs"
  "columnNames (cs @ ds) = columnNames cs @ columnNames ds"
  by (simp_all add: columnNames_def)

lemma co_name_builders [simp]:
  "co_name (columnOf ty n) = n" "co_name (notNull c) = co_name c" "co_name (dflt v c) = co_name c"
  "co_name (references t c) = co_name c" "co_name (primary c) = co_name c" "co_name (cascades t c) = co_name c"
  by (simp_all add: column_builders)

definition byCard :: sql_index where
  "byCard = indexOn ''transfers_by_card'' ''transfers'' [''card_id'', ''posted_at'']"

text \<open>The columns of a table after the migration of a new database.\<close>

definition migratedColumns :: "string \<Rightarrow> column list option" where
  "migratedColumns t = map_option (fold withColumn (upgradesOf t upgrades)) (map_of (creates ddl) t)"

lemma upgrade_tables: "\<forall>u \<in> set upgrades. map_of (creates ddl) (fst u) \<noteq> None"
  by (simp add: upgrades_def ddl_blocks)

lemma migrated_transfers: "migratedColumns ''transfers'' = Some columnsTransfers"
  by (simp add: migratedColumns_def ddl_blocks upgrades_def withColumn_def ddl_names)

lemma index_names:
  "''transfers_ref_uq'' \<in> ix_name ` set (indexesIn ddl)" "''transfers_by_card'' \<notin> ix_name ` set (indexesIn ddl)"
  by (simp_all add: ddl_blocks indexOn_def uniqueOn_def)

lemma migrate_new:
  "\<exists>d. migrate noTables = (Inr (), d) \<and> columnsOf d = migratedColumns
     \<and> sd_indexes d = indexesIn ddl @ [byCard] \<and> length (sd_tables d) = length (creates ddl)"
proof -
  let ?d1 = "\<lparr>sd_tables = creates ddl, sd_indexes = indexesIn ddl\<rparr>"
  have "\<forall>u \<in> set upgrades. columnsOf ?d1 (fst u) \<noteq> None"
    using upgrade_tables by (simp add: columnsOf_def)
  from upgrades_run [OF this] obtain d2 where d2: "forEach upgrades upgrade ?d1 = (Inr (), d2)"
      "upgradedFrom upgrades ?d1 d2" by blast
  then have cols: "columnsOf d2 = migratedColumns" "sd_indexes d2 = indexesIn ddl"
    by (auto simp: upgradedFrom_def migratedColumns_def columnsOf_def)
  have ref: "execSql (CreateIndex True (uniqueOn ''transfers_ref_uq'' ''transfers'' [''reference_number''])) d2 = (Inr (), d2)"
    using index_names by (simp add: bnd_def gets_def cols migrated_transfers indexNamed_def uniqueOn_def throwIf_def ret_def)
  have card: "execSql (CreateIndex True byCard) d2 = (Inr (), addIndex byCard d2)"
    by (rule exec_newIndex)
      (use index_names(2) in \<open>auto simp: cols migrated_transfers ddl_names indexNamed_def byCard_def indexOn_def\<close>)
  have "migrate noTables = (Inr (), addIndex byCard d2)"
    using ddl_done d2(1) ref card by (simp add: migrate_def applyUpgrades_eq byCard_def bnd_def del: execSql.simps)
  moreover have "columnsOf (addIndex byCard d2) = columnsOf d2" by (simp add: fun_eq_iff columnsOf_def addIndex_def)
  ultimately show ?thesis using cols d2(2) by (auto simp: upgradedFrom_def addIndex_def)
qed

lemma columnsServe_same: "list_all2 fits cs (tb_columns tb) \<Longrightarrow> columnsServe (Some cs) tb"
  by (fastforce simp: columnsServe_def list_all2_conv_all_nth list_all_length list_ex_length)

lemma unchanged_columns:
  "migratedColumns ''webauthn_credentials'' = Some columnsWebauthnCredentials"
  "migratedColumns ''recovery_codes'' = Some columnsRecoveryCodes"
  "migratedColumns ''kyc_applications'' = Some columnsKycApplications"
  "migratedColumns ''accounts'' = Some columnsAccounts"
  "migratedColumns ''beneficiaries'' = Some columnsBeneficiaries"
  "migratedColumns ''external_beneficiaries'' = Some columnsExternalBeneficiaries"
  "migratedColumns ''fixed_deposits'' = Some columnsFixedDeposits"
  "migratedColumns ''nominees'' = Some columnsNominees"
  "migratedColumns ''billers'' = Some columnsBillers"
  "migratedColumns ''saved_bill_accounts'' = Some columnsSavedBillAccounts"
  "migratedColumns ''notifications'' = Some columnsNotifications"
  "migratedColumns ''debit_cards'' = Some columnsDebitCards"
  "migratedColumns ''transfers'' = Some columnsTransfers"
  "migratedColumns ''ledger_entries'' = Some columnsLedgerEntries"
  "migratedColumns ''disputes'' = Some columnsDisputes"
  "migratedColumns ''admin_pending_actions'' = Some columnsAdminPendingActions"
  "migratedColumns ''audit_log'' = Some columnsAuditLog"
  by (simp_all add: migratedColumns_def ddl_blocks upgrades_def withColumn_def ddl_names)

lemma unchanged_fit:
  "list_all2 fits columnsWebauthnCredentials (tb_columns webauthnCredentialsTable)"
  "list_all2 fits columnsRecoveryCodes (tb_columns recoveryCodesTable)"
  "list_all2 fits columnsKycApplications (tb_columns kycApplicationsTable)"
  "list_all2 fits columnsAccounts (tb_columns accountsTable)"
  "list_all2 fits columnsBeneficiaries (tb_columns beneficiariesTable)"
  "list_all2 fits columnsExternalBeneficiaries (tb_columns externalBeneficiariesTable)"
  "list_all2 fits columnsFixedDeposits (tb_columns fixedDepositsTable)"
  "list_all2 fits columnsNominees (tb_columns nomineesTable)"
  "list_all2 fits columnsBillers (tb_columns billersTable)"
  "list_all2 fits columnsSavedBillAccounts (tb_columns savedBillAccountsTable)"
  "list_all2 fits columnsNotifications (tb_columns notificationsTable)"
  "list_all2 fits columnsDebitCards (tb_columns debitCardsTable)"
  "list_all2 fits columnsTransfers (tb_columns transfersTable)"
  "list_all2 fits columnsLedgerEntries (tb_columns ledgerEntriesTable)"
  "list_all2 fits columnsDisputes (tb_columns disputesTable)"
  "list_all2 fits columnsAdminPendingActions (tb_columns adminPendingActionsTable)"
  "list_all2 fits columnsAuditLog (tb_columns auditLogTable)"
  by (simp_all add: ddl_columns schema_tables fits_def column_builders)

lemma serves_upgraded:
  "columnsServe (migratedColumns ''users'') usersTable"
  "columnsServe (migratedColumns ''standing_instructions'') standingInstructionsTable"
  by (simp_all add: columnsServe_def migratedColumns_def ddl_blocks upgrades_def withColumn_def ddl_names schema_tables
      ddl_columns column_builders fits_def)

lemma schema_names: "map tb_name schema =
     [''users'', ''webauthn_credentials'', ''recovery_codes'', ''kyc_applications'', ''accounts'', ''beneficiaries'',
      ''external_beneficiaries'', ''fixed_deposits'', ''nominees'', ''billers'', ''saved_bill_accounts'', ''standing_instructions'',
      ''notifications'', ''debit_cards'', ''transfers'', ''ledger_entries'', ''disputes'', ''admin_pending_actions'',
      ''audit_log'']"
  by (simp add: schema_def schema_tables)

lemma serves_columns: "list_all (\<lambda>tb. columnsServe (migratedColumns (tb_name tb)) tb) schema"
proof -
  show ?thesis
    using serves_upgraded unchanged_fit [THEN columnsServe_same] schema_names
    by (simp add: schema_def unchanged_columns)
qed

lemma serves_indexes: "list_all (\<lambda>tb. list_all (\<lambda>ix. ix \<in> set (indexesIn ddl @ [byCard])) (tb_indexes tb)) schema"
  by (simp add: schema_def schema_tables ddl_blocks byCard_def)

text \<open>The columns of a table whose default in the database is not the one the schema declares.\<close>

definition defaultsApart :: "column list option \<Rightarrow> table \<Rightarrow> string list" where
  "defaultsApart x tb = (case x of
      None \<Rightarrow> []
    | Some cs \<Rightarrow> map co_name (filter (\<lambda>c. list_ex (\<lambda>e. co_name e = co_name c \<and> co_default e \<noteq> co_default c) cs)
        (tb_columns tb)))"

lemma unchanged_defaults:
  "defaultsApart (Some columnsWebauthnCredentials) webauthnCredentialsTable = []"
  "defaultsApart (Some columnsRecoveryCodes) recoveryCodesTable = []"
  "defaultsApart (Some columnsKycApplications) kycApplicationsTable = []"
  "defaultsApart (Some columnsAccounts) accountsTable = []"
  "defaultsApart (Some columnsBeneficiaries) beneficiariesTable = []"
  "defaultsApart (Some columnsExternalBeneficiaries) externalBeneficiariesTable = []"
  "defaultsApart (Some columnsFixedDeposits) fixedDepositsTable = []"
  "defaultsApart (Some columnsNominees) nomineesTable = []"
  "defaultsApart (Some columnsBillers) billersTable = []"
  "defaultsApart (Some columnsSavedBillAccounts) savedBillAccountsTable = []"
  "defaultsApart (Some columnsNotifications) notificationsTable = []"
  "defaultsApart (Some columnsDebitCards) debitCardsTable
     = [''per_txn_limit_minor'', ''daily_limit_minor'', ''monthly_limit_minor'']"
  "defaultsApart (Some columnsTransfers) transfersTable = []"
  "defaultsApart (Some columnsLedgerEntries) ledgerEntriesTable = []"
  "defaultsApart (Some columnsDisputes) disputesTable = []"
  "defaultsApart (Some columnsAdminPendingActions) adminPendingActionsTable = []"
  "defaultsApart (Some columnsAuditLog) auditLogTable = []"
  "defaultsApart (migratedColumns ''users'') usersTable = []"
  "defaultsApart (migratedColumns ''standing_instructions'') standingInstructionsTable = []"
  by (simp_all add: defaultsApart_def ddl_columns schema_tables column_builders migratedColumns_def ddl_blocks
      upgrades_def withColumn_def ddl_names)

text \<open>
  C37: The migration of a new database succeeds and gives what the schema of the code declares: the same tables, each
  with the same columns (name, type, key, null values and reference) and the same indexes. The defaults of the
  columns are those of the schema too, but for exactly three: the limits of a debit card have a default in the
  database and none in the schema.
\<close>

theorem migrate_gives_schema:
  "case migrate noTables of (r, d) \<Rightarrow> r = Inr () \<and> serves d schema
     \<and> concat (map (\<lambda>tb. map (Pair (tb_name tb)) (defaultsApart (columnsOf d (tb_name tb)) tb)) schema)
        = [(''debit_cards'', ''per_txn_limit_minor''), (''debit_cards'', ''daily_limit_minor''),
           (''debit_cards'', ''monthly_limit_minor'')]"
proof -
  obtain d where d: "migrate noTables = (Inr (), d)" "columnsOf d = migratedColumns"
      "sd_indexes d = indexesIn ddl @ [byCard]" "length (sd_tables d) = length (creates ddl)"
    using migrate_new by blast
  have "list_all (servesTable d) schema"
    using serves_columns serves_indexes by (simp add: servesTable_def d(2,3) list_all_iff)
  moreover have "length (sd_tables d) = length schema" by (simp add: d(4) ddl_blocks schema_def)
  moreover have "length (sd_indexes d) = length (concat (map tb_indexes schema))"
    by (simp add: d(3) ddl_blocks schema_def schema_tables)
  moreover have "concat (map (\<lambda>tb. map (Pair (tb_name tb)) (defaultsApart (columnsOf d (tb_name tb)) tb)) schema)
        = [(''debit_cards'', ''per_txn_limit_minor''), (''debit_cards'', ''daily_limit_minor''),
           (''debit_cards'', ''monthly_limit_minor'')]"
    using schema_names by (simp add: d(2) schema_def unchanged_columns unchanged_defaults)
  ultimately show ?thesis by (simp add: d(1) serves_def)
qed

section \<open>Migrating again\<close>

text \<open>What a statement has achieved; it stays achieved, and a lenient statement then does nothing.\<close>

fun achieved :: "sql_stmt \<Rightarrow> sql_db \<Rightarrow> bool" where
  "achieved (CreateTable b t cs) d = (columnsOf d t \<noteq> None)"
| "achieved (CreateIndex b ix) d = (columnsOf d (ix_table ix) \<noteq> None \<and> indexNamed d (ix_name ix))"
| "achieved (AddColumn t c) d = (\<exists>cs. columnsOf d t = Some cs \<and> co_name c \<in> set (columnNames cs))"

definition grows :: "sql_db \<Rightarrow> sql_db \<Rightarrow> bool" where
  "grows d d' \<longleftrightarrow> (\<forall>t cs. columnsOf d t = Some cs \<longrightarrow> (\<exists>more. columnsOf d' t = Some (cs @ more)))
     \<and> (\<forall>n. indexNamed d n \<longrightarrow> indexNamed d' n)"

lemma grows_refl [simp]: "grows d d"
  by (simp add: grows_def)

lemma grows_trans: "grows d d' \<Longrightarrow> grows d' d'' \<Longrightarrow> grows d d''"
  unfolding grows_def by (metis append.assoc)

lemma appendColumn_change: "appendColumn t c = changeTable t (\<lambda>cs. cs @ [c])"
  by (simp add: fun_eq_iff appendColumn_def changeTable_def)

lemma columnsOf_add [simp]:
  "columnsOf (addTable t cs d) n = (case columnsOf d n of None \<Rightarrow> if n = t then Some cs else None | Some x \<Rightarrow> Some x)"
  "columnsOf (addIndex ix d) n = columnsOf d n" "indexNamed (addTable t cs d) m = indexNamed d m"
  "indexNamed (addIndex ix d) m = (m = ix_name ix \<or> indexNamed d m)" "indexNamed (appendColumn t c d) m = indexNamed d m"
  "columnsOf (appendColumn t c d) n = (if n = t then map_option (\<lambda>cs. cs @ [c]) (columnsOf d n) else columnsOf d n)"
  by (auto simp: columnsOf_def indexNamed_def addTable_def addIndex_def appendColumn_def map_of_change map_add_def
      split: option.split)

lemma execSql_grows: "wp (execSql s) (\<lambda>_ d'. grows d d' \<and> achieved s d') (\<lambda>_ d'. d' = d) d"
  by (cases s) (auto simp: wp_rules grows_def split: option.split)

lemma achieved_stays: "achieved s d \<Longrightarrow> grows d d' \<Longrightarrow> achieved s d'"
  unfolding grows_def by (cases s) (auto, fastforce+)

fun lenient :: "sql_stmt \<Rightarrow> bool" where
  "lenient (CreateTable b t cs) = b"
| "lenient (CreateIndex b ix) = b"
| "lenient (AddColumn t c) = False"

lemma achieved_again: "lenient s \<Longrightarrow> achieved s d \<Longrightarrow> execSql s d = (Inr (), d)"
  by (cases s) (auto simp: bnd_def gets_def throwIf_def ret_def)

lemma upgrade_spec:
  assumes "\<not> isInfixOf ''duplicate column name'' (toLowerCase (''no such table: '' @ t))"
  shows "wp (upgrade (t, c)) (\<lambda>_ d'. grows d d' \<and> achieved (AddColumn t c) d') (\<lambda>_ d'. d' = d) d"
  using assms duplicate_message [of "co_name c"]
  by (auto simp: upgrade_def wp_rules grows_def split: option.split)

lemma upgrade_again: "achieved (AddColumn t c) d \<Longrightarrow> upgrade (t, c) d = (Inr (), d)"
  by (auto intro: upgrade_known)

lemma forEach_achieves:
  assumes "\<And>x d. x \<in> set xs \<Longrightarrow> wp (f x) (\<lambda>_ d'. grows d d' \<and> achieved (g x) d') (\<lambda>_ d'. d' = d) d"
  shows "wp (forEach xs f) (\<lambda>_ d'. grows d d' \<and> (\<forall>x \<in> set xs. achieved (g x) d')) (\<lambda>_ d'. grows d d') d"
  using assms
proof (induction xs arbitrary: d)
  case Nil
  show ?case by (simp add: wp_rules)
next
  case (Cons x xs)
  have "wp (forEach xs f) (\<lambda>_ d'. grows d d' \<and> (\<forall>y \<in> set (x # xs). achieved (g y) d')) (\<lambda>_ d'. grows d d') d1"
    if "grows d d1" "achieved (g x) d1" for d1
    by (rule wp_mono [OF Cons.IH]) (use Cons.prems that in \<open>auto intro: grows_trans achieved_stays\<close>)
  then show ?case by (auto simp: wp_rules intro!: wp_mono [OF Cons.prems])
qed

lemma forEach_again: "(\<And>x. x \<in> set xs \<Longrightarrow> f x d = (Inr (), d)) \<Longrightarrow> forEach xs f d = (Inr (), d)"
  by (induction xs) (simp_all add: ret_def bnd_def)

definition lastIndexes :: "sql_stmt list" where
  "lastIndexes = [CreateIndex True (uniqueOn ''transfers_ref_uq'' ''transfers'' [''reference_number'']), CreateIndex True byCard]"

lemma migrate_parts: "migrate = thn (execScript ddl) (thn (forEach upgrades upgrade) (execScript lastIndexes))"
  unfolding migrate_def applyUpgrades_eq lastIndexes_def byCard_def
  by (rule ext) (simp add: bnd_def ret_def split: prod.split sum.split del: execSql.simps)

definition migrated :: "sql_db \<Rightarrow> bool" where
  "migrated d \<longleftrightarrow> (\<forall>s \<in> set ddl. achieved s d) \<and> (\<forall>u \<in> set upgrades. achieved (AddColumn (fst u) (snd u)) d)
     \<and> (\<forall>s \<in> set lastIndexes. achieved s d)"

lemma script_spec: "wp (execScript s) (\<lambda>_ d'. grows d d' \<and> (\<forall>x \<in> set s. achieved x d')) (\<lambda>_ d'. grows d d') d"
  unfolding execScript_def by (rule forEach_achieves) (rule execSql_grows)

lemma upgrades_spec:
  "wp (forEach upgrades upgrade) (\<lambda>_ d'. grows d d' \<and> (\<forall>u \<in> set upgrades. achieved (AddColumn (fst u) (snd u)) d'))
     (\<lambda>_ d'. grows d d') d"
proof (rule forEach_achieves [where g = "\<lambda>u. AddColumn (fst u) (snd u)"])
  have "list_all (\<lambda>t. \<not> isInfixOf ''duplicate column name'' (toLowerCase (''no such table: '' @ t)))
      [''users'', ''transfers'', ''accounts'', ''kyc_applications'', ''webauthn_credentials'', ''beneficiaries'',
       ''debit_cards'', ''standing_instructions'']"
    by (simp add: toLowerCase_def lowerChar_def isUpper_def startsWith_def)
  moreover have "fst ` set upgrades \<subseteq> set [''users'', ''transfers'', ''accounts'', ''kyc_applications'',
      ''webauthn_credentials'', ''beneficiaries'', ''debit_cards'', ''standing_instructions'']"
    by (simp add: upgrades_def)
  ultimately have "\<not> isInfixOf ''duplicate column name'' (toLowerCase (''no such table: '' @ fst u))"
    if "u \<in> set upgrades" for u
    using that by (auto simp: list_all_iff simp del: isInfixOf.simps)
  then show "wp (upgrade u) (\<lambda>_ d'. grows d d' \<and> achieved (AddColumn (fst u) (snd u)) d') (\<lambda>_ d'. d' = d) d"
    if "u \<in> set upgrades" for u d
    using upgrade_spec [of "fst u" "snd u" d] that by simp
qed

lemma migrate_spec: "wp migrate (\<lambda>_ d'. grows d d' \<and> migrated d') (\<lambda>_ d'. grows d d') d"
proof -
  have last: "wp (execScript lastIndexes) (\<lambda>_ d'. grows d d' \<and> migrated d') (\<lambda>_ d'. grows d d') d2"
    if "grows d d2" "\<forall>s \<in> set ddl. achieved s d2" "\<forall>u \<in> set upgrades. achieved (AddColumn (fst u) (snd u)) d2" for d2
    by (rule wp_mono [OF script_spec])
      (use that in \<open>auto simp: migrated_def intro: grows_trans achieved_stays simp del: achieved.simps\<close>)
  have "wp (thn (forEach upgrades upgrade) (execScript lastIndexes)) (\<lambda>_ d'. grows d d' \<and> migrated d') (\<lambda>_ d'. grows d d') d1"
    if "grows d d1" "\<forall>s \<in> set ddl. achieved s d1" for d1
    unfolding wp_bnd
    by (rule wp_mono [OF upgrades_spec])
      (use that in \<open>auto intro!: last intro: grows_trans achieved_stays simp del: achieved.simps\<close>)
  then show ?thesis
    unfolding migrate_parts wp_bnd [where m = "execScript ddl"] by (auto intro!: wp_mono [OF script_spec])
qed

lemma migrated_again: "migrated d \<Longrightarrow> migrate d = (Inr (), d)"
proof -
  assume m: "migrated d"
  have lenient: "list_all lenient ddl" "list_all lenient lastIndexes" by (simp_all add: ddl_blocks lastIndexes_def)
  have "execScript ddl d = (Inr (), d)" "execScript lastIndexes d = (Inr (), d)" "forEach upgrades upgrade d = (Inr (), d)"
    unfolding execScript_def
    using m lenient
    by (auto simp: migrated_def list_all_iff intro!: forEach_again achieved_again upgrade_again simp del: achieved.simps)
  then show ?thesis unfolding migrate_parts by (simp add: thn_done del: execScript_simps)
qed

text \<open>
  A migration, whether it succeeds or stops at an error, keeps every table with all its columns, in their order,
  and every index; after one that succeeded, another succeeds and changes nothing.
\<close>

theorem migrate_again:
  assumes "migrate d = (r, d')"
  shows "grows d d' \<and> (r = Inr () \<longrightarrow> migrate d' = (Inr (), d'))"
  using migrate_spec [of d] assms migrated_again [of d'] by (auto simp: wp_def split: sum.splits)

theorem migrate_again_witness:
  "migrate (snd (migrate noTables)) = (Inr (), snd (migrate noTables))"
  using migrate_again [of noTables "Inr ()" "snd (migrate noTables)"] migrate_new by auto

section \<open>A database from before the reference numbers\<close>

definition noReference :: "column list \<Rightarrow> sql_db \<Rightarrow> bool" where
  "noReference cs d \<longleftrightarrow> columnsOf d ''transfers'' = Some cs \<and> \<not> indexNamed d ''transfers_ref_uq''"

lemma noReference_kept:
  assumes "case s of CreateIndex b ix \<Rightarrow> ix_name ix = ''transfers_ref_uq'' \<longrightarrow>
       ix_table ix = ''transfers'' \<and> \<not> list_all (\<lambda>c. c \<in> set (columnNames cs)) (ix_columns ix)
     | CreateTable b t cols \<Rightarrow> True | AddColumn t c \<Rightarrow> False"
  shows "keeps (noReference cs) (execSql s)"
  using assms
  by (cases s) (auto simp: keeps_def noReference_def wp_rules find_None_iff list_all_iff split: option.split)

lemma ddl_keeps: "''reference_number'' \<notin> set (columnNames cs) \<Longrightarrow> keeps (noReference cs) (execScript ddl)"
  unfolding execScript_def
  by (intro keeps_forEach noReference_kept) (auto simp: ddl_blocks indexOn_def uniqueOn_def)

text \<open>
  C38: On a database whose transfers have no reference number yet, the migration stops: the script creates the
  index on that column before the upgrade that adds the column can run, and the column is never added.
\<close>

theorem migrate_old_database:
  assumes "columnsOf d ''transfers'' = Some cs" and "''reference_number'' \<notin> set (columnNames cs)"
    and "\<not> indexNamed d ''transfers_ref_uq''"
  shows "wp migrate (\<lambda>_ _. False) (\<lambda>_ d'. columnsOf d' ''transfers'' = Some cs) d"
proof -
  have "noReference cs d" using assms by (simp add: noReference_def)
  note kept = keepsD [OF ddl_keeps [OF assms(2)] this]
  have "CreateIndex True (uniqueOn ''transfers_ref_uq'' ''transfers'' [''reference_number'']) \<in> set ddl"
    by (simp add: ddl_blocks)
  then have "wp (execScript ddl) (\<lambda>_ d'. indexNamed d' ''transfers_ref_uq'') (\<lambda>_ _. True) d"
    by (intro wp_mono [OF script_spec]) (auto simp: uniqueOn_def)
  from wp_conj [OF kept this] have "wp (execScript ddl) (\<lambda>_ _. False) (\<lambda>_ d'. columnsOf d' ''transfers'' = Some cs) d"
    by (rule wp_mono) (auto simp: noReference_def)
  then show ?thesis unfolding migrate_def wp_bnd by (rule wp_mono) simp_all
qed

text \<open>The transfers table as it was when the upgrades that follow it were written.\<close>

definition exOldDatabase :: sql_db where
  "exOldDatabase = \<lparr>sd_tables = [(''transfers'', [primary (textCol ''id''), notNull (intCol ''amount_minor'')])], sd_indexes = []\<rparr>"

theorem migrate_old_database_witness:
  "wp migrate (\<lambda>_ _. False) (\<lambda>_ d'. columnsOf d' ''transfers'' = columnsOf exOldDatabase ''transfers'') exOldDatabase"
  using migrate_old_database [of exOldDatabase "[primary (textCol ''id''), notNull (intCol ''amount_minor'')]"]
  by (simp add: exOldDatabase_def columnsOf_def indexNamed_def)

section \<open>The migration of production\<close>

lemmas prod_columns =
  prodAccounts_def prodAdminPendingActions_def prodAuditLog_def prodBeneficiaries_def prodBillers_def
  prodDebitCards_def prodDisputes_def prodExternalBeneficiaries_def prodFixedDeposits_def
  prodKycApplications_def prodLedgerEntries_def prodNominees_def prodNotifications_def
  prodRecoveryCodes_def prodStandingInstructions_def prodTransfers_def prodUsers_def
  prodWebauthnCredentials_def

lemma prod_names:
  "columnNames prodAccounts =
     [''id'', ''account_number'', ''user_id'', ''account_type'', ''status'', ''balance_minor'',
      ''hold_balance_minor'', ''currency'', ''created_at'', ''updated_at'']"
  "columnNames prodAdminPendingActions =
     [''id'', ''action'', ''requested_by_user_id'', ''approved_by_user_id'', ''payload'', ''status'',
      ''created_at'', ''decided_at'']"
  "columnNames prodAuditLog =
     [''id'', ''occurred_at'', ''actor_user_id'', ''actor_username'', ''actor_role'', ''session_id'',
      ''action'', ''category'', ''target_type'', ''target_id'', ''status'', ''error_code'', ''summary'',
      ''payload'', ''request_id'', ''ip'', ''user_agent'', ''prev_hash'', ''hash'', ''seq'']"
  "columnNames prodBeneficiaries =
     [''id'', ''owner_user_id'', ''nickname'', ''account_number'', ''beneficiary_username'', ''status'',
      ''activated_at'', ''verified_at'', ''created_at'', ''last_used_at'']"
  "columnNames prodBillers =
     [''id'', ''name'', ''category'', ''biller_account_number'', ''active'', ''created_at'']"
  "columnNames prodDebitCards =
     [''id'', ''account_id'', ''masked_number'', ''network'', ''status'', ''issued_at'', ''frozen_at'',
      ''cancelled_at'', ''per_txn_limit_minor'', ''daily_limit_minor'', ''monthly_limit_minor'']"
  "columnNames prodDisputes =
     [''id'', ''user_id'', ''transfer_id'', ''reason'', ''status'', ''admin_note'', ''reversal_transfer_id'',
      ''created_at'', ''decided_at'', ''decided_by_user_id'']"
  "columnNames prodExternalBeneficiaries =
     [''id'', ''owner_user_id'', ''nickname'', ''account_number'', ''ifsc'', ''bank_name'',
      ''beneficiary_name'', ''vpa'', ''preferred_rail'', ''status'', ''activated_at'', ''verified_at'',
      ''created_at'', ''last_used_at'']"
  "columnNames prodFixedDeposits =
     [''id'', ''account_id'', ''user_id'', ''payout_account_id'', ''principal_minor'', ''tenure_months'',
      ''interest_rate_bps'', ''opened_at'', ''maturity_at'', ''auto_renew'', ''status'', ''closed_at'',
      ''interest_paid_minor'']"
  "columnNames prodKycApplications =
     [''id'', ''user_id'', ''full_name'', ''dob'', ''pan'', ''address'', ''doc_b64'',
      ''requested_account_type'', ''status'', ''submitted_at'', ''decided_at'', ''decided_by_user_id'',
      ''reject_reason'']"
  "columnNames prodLedgerEntries =
     [''id'', ''account_id'', ''transfer_id'', ''kind'', ''amount_minor'', ''running_balance_minor'',
      ''posted_at'']"
  "columnNames prodNominees =
     [''id'', ''account_id'', ''user_id'', ''full_name'', ''relation'', ''share_percent'', ''created_at'']"
  "columnNames prodNotifications =
     [''id'', ''user_id'', ''kind'', ''title'', ''body'', ''read_at'', ''related_entity_type'',
      ''related_entity_id'', ''created_at'']"
  "columnNames prodRecoveryCodes =
     [''id'', ''user_id'', ''code_hash'', ''issued_at'', ''issued_by_admin_id'', ''expires_at'',
      ''consumed_at'', ''purpose'']"
  "columnNames prodStandingInstructions =
     [''id'', ''owner_user_id'', ''from_account_id'', ''beneficiary_id'', ''amount_minor'', ''currency'',
      ''frequency'', ''next_run_at'', ''last_run_at'', ''status'', ''description'', ''created_at'']"
  "columnNames prodTransfers =
     [''id'', ''idempotency_key'', ''from_account_id'', ''to_account_id'', ''amount_minor'', ''currency'',
      ''memo'', ''kind'', ''status'', ''rail'', ''utr'', ''failure_reason'', ''posted_at'',
      ''reference_number'', ''fee_minor'', ''category'', ''from_account_number'', ''to_account_number'',
      ''from_username'', ''to_username'', ''description'', ''biller_id'', ''card_id'']"
  "columnNames prodUsers =
     [''id'', ''username'', ''email'', ''password_hash'', ''role'', ''account_status'', ''failed_attempts'',
      ''locked_until'', ''passkey_enrolled'', ''kyc_tier'', ''mobile'', ''created_at'']"
  "columnNames prodWebauthnCredentials =
     [''id'', ''user_id'', ''public_key'', ''counter'', ''transports'', ''device_type'', ''backed_up'',
      ''created_at'', ''last_used_at'', ''label'']"
  by (simp_all add: columnNames_def prod_columns column_builders)

lemma prod_fine:
  "distinct (map fst (creates faultyEpoch))" "distinct (map ix_name (indexesIn faultyEpoch))" "ready [] faultyEpoch"
  by (simp_all add: faultyEpoch_def indexOn_def uniqueOn_def prod_names)

lemma prod_done: "execScript faultyEpoch noTables
    = (Inr (), \<lparr>sd_tables = creates faultyEpoch, sd_indexes = indexesIn faultyEpoch\<rparr>)"
  using execScript_fresh [of noTables faultyEpoch] by (simp add: noTables_def prod_fine)

lemma prod_columns_of:
  "map_of (creates faultyEpoch) ''users'' = Some prodUsers"
  "map_of (creates faultyEpoch) ''webauthn_credentials'' = Some prodWebauthnCredentials"
  "map_of (creates faultyEpoch) ''recovery_codes'' = Some prodRecoveryCodes"
  "map_of (creates faultyEpoch) ''kyc_applications'' = Some prodKycApplications"
  "map_of (creates faultyEpoch) ''accounts'' = Some prodAccounts"
  "map_of (creates faultyEpoch) ''beneficiaries'' = Some prodBeneficiaries"
  "map_of (creates faultyEpoch) ''external_beneficiaries'' = Some prodExternalBeneficiaries"
  "map_of (creates faultyEpoch) ''fixed_deposits'' = Some prodFixedDeposits"
  "map_of (creates faultyEpoch) ''nominees'' = Some prodNominees"
  "map_of (creates faultyEpoch) ''billers'' = Some prodBillers"
  "map_of (creates faultyEpoch) ''notifications'' = Some prodNotifications"
  "map_of (creates faultyEpoch) ''debit_cards'' = Some prodDebitCards"
  "map_of (creates faultyEpoch) ''transfers'' = Some prodTransfers"
  "map_of (creates faultyEpoch) ''ledger_entries'' = Some prodLedgerEntries"
  "map_of (creates faultyEpoch) ''disputes'' = Some prodDisputes"
  "map_of (creates faultyEpoch) ''admin_pending_actions'' = Some prodAdminPendingActions"
  "map_of (creates faultyEpoch) ''audit_log'' = Some prodAuditLog"
  "map_of (creates faultyEpoch) ''standing_instructions'' = Some prodStandingInstructions"
  "map_of (creates faultyEpoch) ''saved_bill_accounts'' = None"
  by (simp_all add: faultyEpoch_def)

lemma prod_fit:
  "list_all2 fits prodUsers (tb_columns usersTable)"
  "list_all2 fits prodWebauthnCredentials (tb_columns webauthnCredentialsTable)"
  "list_all2 fits prodRecoveryCodes (tb_columns recoveryCodesTable)"
  "list_all2 fits prodKycApplications (tb_columns kycApplicationsTable)"
  "list_all2 fits prodAccounts (tb_columns accountsTable)"
  "list_all2 fits prodBeneficiaries (tb_columns beneficiariesTable)"
  "list_all2 fits prodExternalBeneficiaries (tb_columns externalBeneficiariesTable)"
  "list_all2 fits prodFixedDeposits (tb_columns fixedDepositsTable)"
  "list_all2 fits prodNominees (tb_columns nomineesTable)"
  "list_all2 fits prodBillers (tb_columns billersTable)"
  "list_all2 fits prodNotifications (tb_columns notificationsTable)"
  "list_all2 fits prodDebitCards (tb_columns debitCardsTable)"
  "list_all2 fits prodTransfers (tb_columns transfersTable)"
  "list_all2 fits prodLedgerEntries (tb_columns ledgerEntriesTable)"
  "list_all2 fits prodDisputes (tb_columns disputesTable)"
  "list_all2 fits prodAdminPendingActions (tb_columns adminPendingActionsTable)"
  "list_all2 fits prodAuditLog (tb_columns auditLogTable)"
  by (simp_all add: prod_columns schema_tables fits_def column_builders)

lemma prod_indexes:
  "list_all (\<lambda>tb. tb_name tb \<in> {''saved_bill_accounts'', ''standing_instructions''}
     \<or> list_all (\<lambda>ix. ix \<in> set (indexesIn faultyEpoch)) (tb_indexes tb)) schema"
  by (simp add: schema_def schema_tables faultyEpoch_def)

text \<open>
  When the migrator runs the statements of the journal on a new production database, the migration succeeds,
  and every table of the schema is served but two: the saved bill accounts and the standing instructions.
\<close>

theorem prod_schema_incomplete:
  assumes "migrator journal noTables = execScript (concat (map snd journal)) noTables"
  shows "case runMigrations migrator (Some ''production'') noTables of (r, d) \<Rightarrow>
     r = Inr () \<and> filter (\<lambda>tb. \<not> servesTable d tb) schema = [savedBillAccountsTable, standingInstructionsTable]"
proof -
  let ?d = "\<lparr>sd_tables = creates faultyEpoch, sd_indexes = indexesIn faultyEpoch\<rparr>"
  have run: "runMigrations migrator (Some ''production'') noTables = (Inr (), ?d)"
    using assms prod_done by (simp add: runMigrations_def migrateProd_def journal_def)
  have lack: "\<not> servesTable ?d savedBillAccountsTable" "\<not> servesTable ?d standingInstructionsTable"
    by (simp_all add: servesTable_def columnsServe_def columnsOf_def prod_columns_of prod_columns schema_tables)
  have "list_all (\<lambda>tb. tb_name tb \<in> {''saved_bill_accounts'', ''standing_instructions''}
      \<or> columnsServe (columnsOf ?d (tb_name tb)) tb) schema"
    using prod_fit [THEN columnsServe_same] schema_names by (simp add: schema_def columnsOf_def prod_columns_of)
  with prod_indexes have "list_all (\<lambda>tb. tb_name tb \<in> {''saved_bill_accounts'', ''standing_instructions''}
      \<or> servesTable ?d tb) schema"
    by (auto simp: list_all_iff servesTable_def)
  then have "filter (\<lambda>tb. \<not> servesTable ?d tb) schema = [savedBillAccountsTable, standingInstructionsTable]"
    using schema_names lack by (simp add: schema_def)
  with run show ?thesis by simp
qed

theorem prod_schema_incomplete_witness:
  "case runMigrations (\<lambda>j. execScript (concat (map snd j))) (Some ''production'') noTables of (r, d) \<Rightarrow>
     r = Inr () \<and> filter (\<lambda>tb. \<not> servesTable d tb) schema = [savedBillAccountsTable, standingInstructionsTable]"
  using prod_schema_incomplete [of "\<lambda>j. execScript (concat (map snd j))"] by simp

end
