(* ===== verification/Seeding.thy ===== *)
theory Seeding
  imports CardOps Identity KycOps Statements
begin

text \<open>
  The seeders (\<open>db/seed.ts\<close>, \<open>db/seedTestCustomers.ts\<close>), run after the migration. What they print is left out. The
  customers of one chunk are seeded one after the other: the only step that overlaps in the code is the hashing of
  their passwords, before which each reads nothing but its own user.
\<close>

section \<open>The administrator and the billers\<close>

definition SEED_USERNAME :: string where
  "SEED_USERNAME = ''Admin''"

definition SEED_EMAIL :: string where
  "SEED_EMAIL = ''admin@sentinel.bank''"

definition SEED_PASSWORD :: string where
  "SEED_PASSWORD = ''Admin@123''"

definition BILLER_SEEDS :: "(string \<times> biller_category) list" where
  "BILLER_SEEDS =
     [(CARD_MERCHANT_BILLER_NAME, OtherBiller), (''Sentinel Power Co.'', Electricity), (''GreenFlame Gas'', Gas),
      (''Aqua Munipality Water'', Water), (''FastNet Internet'', Internet), (''ProMobile Postpaid'', Mobile),
      (''City Property Tax'', OtherBiller)]"

definition seedAdmin :: "bcrypt \<Rightarrow> user op" where
  "seedAdmin B =
     bnd (dbGet (\<lambda>d. findUserByUsername d SEED_USERNAME)) (\<lambda>x.
     case x of
       Some existing \<Rightarrow>
         bnd (hashPassword B SEED_PASSWORD) (\<lambda>h.
         thn (setPasswordRow (u_id existing) h)
        (thn (if u_role existing \<noteq> Admin then setRole (u_id existing) Admin else ret ())
        (thn (setAccountStatus (u_id existing) UserActive)
             (ret existing))))
     | None \<Rightarrow>
         bnd (hashPassword B SEED_PASSWORD) (\<lambda>h.
         bnd uuid (\<lambda>i.
         bnd clockNow (\<lambda>now.
         bnd (lift (createUser i SEED_USERNAME SEED_EMAIL h (Some Admin) (Some False) now)) (\<lambda>u.
         thn (insertUser u) (ret u))))))"

definition seedBiller :: "string \<Rightarrow> biller list \<Rightarrow> string \<times> biller_category \<Rightarrow> unit op" where
  "seedBiller adminUserId existing = (\<lambda>(name, category).
     if \<exists>b \<in> set existing. bl_name b = name then ret () else
     bnd uuid (\<lambda>i.
     bnd accountNumber (\<lambda>nr.
     bnd clockNow (\<lambda>opened.
     (let a = openAccount i nr adminUserId (Some Current) None opened in
      thn (insertAccount a)
     (bnd uuid (\<lambda>j.
      bnd clockNow (\<lambda>now.
      insertBiller \<lparr>bl_id = j, bl_name = name, bl_category = category, bl_accountNumber = acc_number a,
        bl_active = True, bl_createdAt = now\<rparr>))))))))"

definition seedBillers :: "string \<Rightarrow> unit op" where
  "seedBillers adminUserId =
     bnd (dbGet listAllBillers) (\<lambda>existing.
     if length BILLER_SEEDS \<le> length existing then ret ()
     else forEach BILLER_SEEDS (seedBiller adminUserId existing))"

definition seedMain :: "bcrypt \<Rightarrow> unit op" where
  "seedMain B = bnd (seedAdmin B) (\<lambda>admin. seedBillers (u_id admin))"

section \<open>The test customers\<close>

definition TOTAL :: nat where
  "TOTAL = 100"

definition APPROVED_THROUGH :: nat where
  "APPROVED_THROUGH = 80"

definition REJECTED_THROUGH :: nat where
  "REJECTED_THROUGH = 90"

definition REJECT_REASONS :: "string list" where
  "REJECT_REASONS =
     [''Document quality insufficient '' @ emDash @ '' please re-upload a clearer scan'',
      ''PAN number mismatch with submitted documents'', ''Address proof missing or expired'',
      ''Photo identification unclear'', ''Date of birth could not be verified'']"

definition panFor :: "nat \<Rightarrow> string" where
  "panFor i = ''TESTA'' @ padStart 4 (CHR ''0'') (showNat i) @ [char_of (65 + (i - 1) mod 26)]"

definition dobFor :: "nat \<Rightarrow> string" where
  "dobFor i = showNat (1970 + i mod 30) @ ''-'' @ padStart 2 (CHR ''0'') (showNat (i mod 12 + 1))
     @ ''-'' @ padStart 2 (CHR ''0'') (showNat (i mod 27 + 1))"

definition accountTypeFor :: "nat \<Rightarrow> account_type" where
  "accountTypeFor i = ACCOUNT_TYPES ! (i mod length ACCOUNT_TYPES)"

datatype seed_outcome = Created | Rotated

definition testName :: "nat \<Rightarrow> string" where
  "testName i = ''test_'' @ showNat i"

definition seedUser :: "bcrypt \<Rightarrow> nat \<Rightarrow> (user \<times> seed_outcome) op" where
  "seedUser B i =
     (let password = ''Test'' @ showNat i @ ''@Pass123'' in
      bnd (dbGet (\<lambda>d. findUserByUsername d (testName i))) (\<lambda>x.
      case x of
        Some user \<Rightarrow>
          bnd (hashPassword B password) (\<lambda>h.
          thn (setPasswordRow (u_id user) h)
         (thn (setAccountStatus (u_id user) UserActive)
              (ret (user, Rotated))))
      | None \<Rightarrow>
          bnd (hashPassword B password) (\<lambda>h.
          bnd uuid (\<lambda>j.
          bnd clockNow (\<lambda>now.
          bnd (lift (createUser j (testName i) (testName i @ ''@sentinel.bank'') h (Some Customer) (Some False) now)) (\<lambda>u.
          thn (insertUser u) (ret (u, Created))))))))"

definition seedKyc :: "nat \<Rightarrow> string \<Rightarrow> user \<Rightarrow> unit op" where
  "seedKyc i adminUserId user =
     bnd (dbGet (\<lambda>d. listKycByUserId d (u_id user))) (\<lambda>existing.
     if existing \<noteq> [] then ret () else
     bnd uuid (\<lambda>j.
     bnd clockNow (\<lambda>submitted.
     bnd (lift (submitApplication j (u_id user) (''Test User '' @ showNat i) (dobFor i) (panFor i)
                  (showNat (100 + i) @ '' Demo Street, Test City'') None (Some (accountTypeFor i)) submitted)) (\<lambda>app.
     thn (insertKyc app)
         (if i \<le> APPROVED_THROUGH then
            bnd clockNow (\<lambda>now. bnd (lift (approve app adminUserId now)) updateKyc)
          else if i \<le> REJECTED_THROUGH then
            bnd clockNow (\<lambda>now.
            bnd (lift (reject app adminUserId now (REJECT_REASONS ! (i mod length REJECT_REASONS)))) updateKyc)
          else ret ())))))"

definition seedAccount :: "nat \<Rightarrow> user \<Rightarrow> account op" where
  "seedAccount i user =
     bnd (dbGet (\<lambda>d. List.find (\<lambda>a. acc_type a = accountTypeFor i) (listAccountsByUserId d (u_id user)))) (\<lambda>x.
     case x of Some a \<Rightarrow> ret a | None \<Rightarrow>
       bnd uuid (\<lambda>j.
       bnd accountNumber (\<lambda>nr.
       bnd clockNow (\<lambda>now.
       (let a = openAccount j nr (u_id user) (Some (accountTypeFor i)) None now in
        thn (insertAccount a) (ret a))))))"

text \<open>The bus of the seeder has no subscribers.\<close>

definition seedBus :: bus where
  "seedBus = busPublish (\<lambda>_. []) []"

definition seedKey :: "nat \<Rightarrow> string" where
  "seedKey i = ''seed:test_'' @ showNat i @ '':initial''"

definition seedFunds :: "nat \<Rightarrow> account \<Rightarrow> unit op" where
  "seedFunds i a =
     bnd (faucetDeposit seedBus
       \<lparr>fi_toAccountId = acc_id a, fi_amount = JNum (of_nat (i * 1000 * 100)), fi_currency = INR,
        fi_memo = Some (''Initial demo balance for test_'' @ showNat i), fi_idempotencyKey = Some (seedKey i)\<rparr>) (\<lambda>_. ret ())"

definition seedOne :: "bcrypt \<Rightarrow> nat \<Rightarrow> string \<Rightarrow> seed_outcome op" where
  "seedOne B i adminUserId =
     bnd (seedUser B i) (\<lambda>(user, action).
     thn (seedKyc i adminUserId user)
    (thn (if i \<le> APPROVED_THROUGH then bnd (seedAccount i user) (seedFunds i) else ret ())
         (ret action)))"

text \<open>Without the administrator the process exits with code 2.\<close>

definition seedTestCustomers :: "bcrypt \<Rightarrow> (nat \<times> nat) op" where
  "seedTestCustomers B =
     bnd (dbGet (\<lambda>d. findUserByUsername d SEED_USERNAME)) (\<lambda>x.
     bnd (need x (GenericError ''Admin user not found'')) (\<lambda>admin.
     foldProg [1..<Suc TOTAL] (\<lambda>(created, rotated) i.
       bnd (seedOne B i (u_id admin)) (\<lambda>action.
       ret (if action = Created then (Suc created, rotated) else (created, Suc rotated)))) (0, 0)))"

section \<open>What a seeded customer can do\<close>

lemma users_updateKyc [leaves_rules]: "leaves db_users (updateKyc k)"
  unfolding updateKyc_def by (intro leaves_rules) simp

lemma users_seedKyc: "leaves db_users (seedKyc i adm u)"
  unfolding seedKyc_def insertKyc_def by (intro leaves_rules) simp_all

lemma users_seedAccount: "leaves db_users (seedAccount i u)"
  unfolding seedAccount_def insertAccount_def accountNumber_def Let_def
  by (intro leaves_rules) (simp_all add: accountInsertRow_def)

lemma users_faucet: "leaves db_users (faucetTx inp)"
  unfolding faucetTx_def insertTransfer_def updateAccount_def insertEntry_def insertLedger_def transactionReference_def
  by (intro leaves_rules) (simp_all add: transferInsertRow_def accountUpdateRow_def ledgerInsertRow_def)

lemma users_seedFunds: "leaves db_users (seedFunds i a)"
  unfolding seedFunds_def faucetDeposit_def publishAll_def seedBus_def
  by (intro leaves_rules users_faucet leaves_busPublish) (auto split: prod.split intro!: leaves_rules leaves_busPublish)

lemma createUser_new:
  "createUser i n e h r p now = Inr u \<Longrightarrow> u_id u = i \<and> u_username u = n \<and> u_kycTier u = TierNone"
  by (auto simp: createUser_def andThen_Inr_iff)

definition untiered :: "string \<Rightarrow> db \<Rightarrow> user \<Rightarrow> bool" where
  "untiered n d u \<longleftrightarrow> findUserByUsername d n = Some u \<and> getKycTier d (u_id u) = TierNone"

lemma untiered_cong: "db_users d' = db_users d \<Longrightarrow> untiered n d' u = untiered n d u"
  by (simp add: untiered_def findUserByUsername_def getKycTier_def findUserById_def)

lemma inserted_untiered:
  assumes "findUserByUsername d n = None" and "findUserById d (u_id u) = None"
    and "u_username u = n" and "u_kycTier u = TierNone"
  shows "untiered n (d\<lparr>db_users := db_users d @ [u]\<rparr>) u"
  using assms by (simp add: untiered_def getKycTier_def findUserById_def findUserByUsername_def find_append)

lemma insertUser_untiered:
  assumes "u_username u = n" and "u_kycTier u = TierNone" and "findUserByUsername (w_db w) n = None"
  shows "wp (thn (insertUser u) (ret (u, Created)))
     (\<lambda>(u, action) w'. action = Created \<and> untiered n (w_db w') u) (\<lambda>_ _. True) w"
  using assms by (simp add: insertUser_def wp_rules inserted_untiered)

lemma createdUser_untiered:
  assumes "findUserByUsername (w_db w) n = None"
  shows "wp (bnd (lift (createUser j n e h r p now)) (\<lambda>u. thn (insertUser u) (ret (u, Created))))
     (\<lambda>(u, action) w'. action = Created \<and> untiered n (w_db w') u) (\<lambda>_ _. True) w"
proof (cases "createUser j n e h r p now")
  case (Inl e)
  then show ?thesis by (simp add: wp_bnd wp_lift)
next
  case (Inr u)
  from createUser_new [OF this] insertUser_untiered [OF _ _ assms, of u] Inr show ?thesis
    unfolding wp_bnd [where m = "lift x" for x] wp_lift by simp
qed

lemma quiet_hash: "leaves (\<lambda>d. d) (hashPassword B p)"
  unfolding hashPassword_def by (intro leaves_rules)

lemma seedUser_new:
  assumes "findUserByUsername (w_db w) (testName i) = None"
  shows "wp (seedUser B i) (\<lambda>(u, action) w'. action = Created \<and> untiered (testName i) (w_db w') u) (\<lambda>_ _. True) w"
proof -
  have "wp (bnd uuid (\<lambda>j. bnd clockNow (\<lambda>now.
        bnd (lift (createUser j (testName i) e h (Some Customer) (Some False) now)) (\<lambda>u. thn (insertUser u) (ret (u, Created))))))
      (\<lambda>(u, action) w'. action = Created \<and> untiered (testName i) (w_db w') u) (\<lambda>_ _. True) w1"
    if "w_db w1 = w_db w" for w1 e h
    unfolding wp_bnd [where m = uuid] wp_uuid wp_bnd [where m = clockNow] wp_clockNow
    by (rule createdUser_untiered) (simp add: that assms)
  then show ?thesis
    unfolding seedUser_def Let_def wp_bnd [where m = "dbGet f" for f] wp_dbGet assms option.case
      wp_bnd [where m = "hashPassword B' p" for B' p]
    by (rule leaves_wp [OF quiet_hash]) (assumption, rule TrueI)
qed

text \<open>The transfers that carry the user's tier all throw and write nothing.\<close>

definition transfersRefused :: "world \<Rightarrow> user \<Rightarrow> bool" where
  "transfersRefused w u \<longleftrightarrow>
     (\<forall>bus inp. ti_kycTier inp = Some (getKycTier (w_db w) (u_id u)) \<longrightarrow> (\<exists>e. executeTransfer bus inp w = (Inl e, w)))
   \<and> (\<forall>bus inp. ri_kycTier inp = getKycTier (w_db w) (u_id u) \<longrightarrow> (\<exists>e. executeRailTransfer bus inp w = (Inl e, w)))"

lemma throws_wp: "wp m (\<lambda>_ _. False) (\<lambda>_ w'. w' = w) w \<Longrightarrow> \<exists>e. m w = (Inl e, w)"
  by (auto simp: wp_def split: prod.splits sum.splits)

lemma untiered_refused: "untiered n (w_db w) u \<Longrightarrow> transfersRefused w u"
  unfolding transfersRefused_def untiered_def
  by (auto intro!: throws_wp simp: executeTransfer_def executeRailTransfer_def wp_rules split: sum.splits)

text \<open>
  C40: The seeder of test customers never sets their tier: a customer it creates, approved and funded or not, has tier
  none, and every transfer that carries the customer's tier, internal or by a rail, throws and writes nothing. (The
  transfers of standing instructions carry no tier.)
\<close>

theorem seeded_without_tier:
  assumes "findUserByUsername (w_db w) (testName i) = None"
  shows "wp (seedOne B i adminUserId)
     (\<lambda>_ w'. \<exists>u. findUserByUsername (w_db w') (testName i) = Some u \<and> getKycTier (w_db w') (u_id u) = TierNone
        \<and> transfersRefused w' u)
     (\<lambda>_ _. True) w"
proof -
  have "leaves db_users (thn (seedKyc i adminUserId u)
      (thn (if i \<le> APPROVED_THROUGH then bnd (seedAccount i u) (seedFunds i) else ret ()) (ret action)))" for u action
    by (intro leaves_rules users_seedKyc users_seedAccount users_seedFunds)
  then have rest: "wp (thn (seedKyc i adminUserId u)
      (thn (if i \<le> APPROVED_THROUGH then bnd (seedAccount i u) (seedFunds i) else ret ()) (ret action)))
      (\<lambda>_ w'. untiered (testName i) (w_db w') u) (\<lambda>_ _. True) w'"
    if "untiered (testName i) (w_db w') u" for u action w'
    by (rule leaves_wp) (simp_all only: untiered_cong that)
  show ?thesis
    unfolding seedOne_def wp_bnd [where m = "seedUser B i"]
  proof (rule wp_mono [OF seedUser_new [OF assms]], split prod.split, intro allI impI)
    fix x :: "user \<times> seed_outcome" and w' :: world and user action
    assume "x = (user, action)"
      and "(case x of (u, action) \<Rightarrow> \<lambda>w'. action = Created \<and> untiered (testName i) (w_db w') u) w'"
    then have "untiered (testName i) (w_db w') user" by simp
    from rest [OF this] show "wp (thn (seedKyc i adminUserId user)
        (thn (if i \<le> APPROVED_THROUGH then bnd (seedAccount i user) (seedFunds i) else ret ()) (ret action)))
        (\<lambda>_ w'. \<exists>u. findUserByUsername (w_db w') (testName i) = Some u \<and> getKycTier (w_db w') (u_id u) = TierNone
           \<and> transfersRefused w' u)
        (\<lambda>_ _. True) w'"
      by (rule wp_mono) (use untiered_refused in \<open>unfold untiered_def, blast+\<close>)
  qed simp
qed

theorem seeded_without_tier_witness:
  "wp (seedOne exBcrypt 7 ''ua'')
     (\<lambda>_ w'. \<exists>u. findUserByUsername (w_db w') (testName 7) = Some u \<and> getKycTier (w_db w') (u_id u) = TierNone
        \<and> transfersRefused w' u)
     (\<lambda>_ _. True) (exWorld exDb)"
  by (rule seeded_without_tier) (simp add: exWorld_def exDb_def findUserByUsername_def exUser_def testName_def)

end
