(* ===== verification/Server.thy ===== *)
theory Server
  imports PaymentRoutes AccountRoutes CardRoutes PayeeRoutes CustomerRoutes AuditRoutes SecurityRoutes
begin

text \<open>
  The running server: which handler answers an endpoint (\<open>routes/index.ts\<close>), the timers of \<open>main.ts\<close> and
  what a restart forgets. A run is a sequence of requests, ticks and restarts in any order.
\<close>

section \<open>Endpoints\<close>

datatype endpoint =
    EpPayment payment_route | EpAccount account_route | EpCard card_route | EpPayee payee_route
  | EpCustomer customer_route | EpAudit audit_route | EpIdentity identity_route | EpOpen open_route

text \<open>The routers share one container, whose bus records with the digest of the platform.\<close>

abbreviation busOf :: "platform \<Rightarrow> bus" where
  "busOf P \<equiv> containerPublish (pf_sha256 P)"

fun dispatch :: "platform \<Rightarrow> endpoint \<Rightarrow> handler" where
  "dispatch P (EpPayment r) = paymentHandler P (busOf P) r"
| "dispatch P (EpAccount r) = accountHandler P (busOf P) r"
| "dispatch P (EpCard r) = cardRouteHandler P (busOf P) r"
| "dispatch P (EpPayee r) = payeeHandler P (busOf P) r"
| "dispatch P (EpCustomer r) = customerHandler P (busOf P) r"
| "dispatch P (EpAudit r) = auditHandler P r"
| "dispatch P (EpIdentity r) = identityRouteHandler P (busOf P) r"
| "dispatch P (EpOpen r) = openHandler P r"

section \<open>Timers\<close>

text \<open>An error of a tick is logged and swallowed; what it did before stays.\<close>

definition instructionTick :: "platform \<Rightarrow> unit http" where
  "instructionTick P = tryCatch (bnd (inWorld (runDueInstructions (busOf P) True)) (\<lambda>_. ret ())) (\<lambda>_. ret ())"

definition maturityTick :: "unit http" where
  "maturityTick = tryCatch (bnd (inWorld (matureFixedDeposits None)) (\<lambda>_. ret ())) (\<lambda>_. ret ())"

definition settlementTick :: "platform \<Rightarrow> unit http" where
  "settlementTick P = tryCatch
     (bnd (inWorld (settlePendingTransfers (busOf P) Neft)) (\<lambda>_.
      bnd (inWorld (settlePendingTransfers (busOf P) Rtgs)) (\<lambda>_. ret ()))) (\<lambda>_. ret ())"

text \<open>The stores of the process are swept by timers of their own; each limiter has its own map.\<close>

datatype sweeper =
    SweepSessions | SweepHandshakes | SweepLogins | SweepSlots | SweepRates string | SweepPasskeys | SweepChallenges

fun sweepTick :: "sweeper \<Rightarrow> unit http" where
  "sweepTick SweepSessions = onSessions (\<lambda>now t. ((), sweepSessions now t))"
| "sweepTick SweepHandshakes =
     onStore sv_handshakes (\<lambda>t. sv_handshakes_update (\<lambda>_. t)) (\<lambda>now t. ((), sweepHandshakes now t))"
| "sweepTick SweepLogins = onStore sv_logins (\<lambda>t. sv_logins_update (\<lambda>_. t)) (\<lambda>now t. ((), sweepLoginStates now t))"
| "sweepTick SweepSlots = onStore sv_otp (\<lambda>t. sv_otp_update (\<lambda>_. t)) (\<lambda>now t. ((), sweepSlots now t))"
| "sweepTick (SweepRates name) = onStore sv_rates (\<lambda>t. sv_rates_update (\<lambda>_. t))
     (\<lambda>now t. ((), case mapGet t name of None \<Rightarrow> t | Some b \<Rightarrow> mapSet t name (sweepRates now b)))"
| "sweepTick SweepPasskeys =
     onStore sv_passkeys (\<lambda>t. sv_passkeys_update (\<lambda>_. t)) (\<lambda>now t. ((), sweepPasskeys now t))"
| "sweepTick SweepChallenges =
     onStore sv_pending (\<lambda>t. sv_pending_update (\<lambda>_. t)) (\<lambda>now t. ((), sweepChallenges now t))"

section \<open>Runs\<close>

text \<open>What a process keeps in memory is gone when it starts again; the database stays.\<close>

definition restart :: "server \<Rightarrow> server" where
  "restart s = s\<lparr>sv_sessions := [], sv_handshakes := [], sv_logins := [], sv_otp := [], sv_actionJti := [], sv_otpJti := [],
     sv_velocity := [], sv_rates := [], sv_pending := [], sv_passkeys := []\<rparr>"

inductive server_step :: "platform \<Rightarrow> server \<Rightarrow> server \<Rightarrow> bool" for P where
  Requested: "dispatch P ep rq s = (r, s') \<Longrightarrow> server_step P s s'"
| InstructionsRun: "instructionTick P s = (r, s') \<Longrightarrow> server_step P s s'"
| DepositsMatured: "maturityTick s = (r, s') \<Longrightarrow> server_step P s s'"
| RailsSettled: "settlementTick P s = (r, s') \<Longrightarrow> server_step P s s'"
| StoreSwept: "sweepTick k s = (r, s') \<Longrightarrow> server_step P s s'"
| Restarted: "server_step P s (restart s)"

inductive_cases server_stepE: "server_step P s s'"

inductive reaches :: "platform \<Rightarrow> server \<Rightarrow> server \<Rightarrow> bool" for P s where
  Start: "reaches P s s"
| Step: "reaches P s s' \<Longrightarrow> server_step P s' s'' \<Longrightarrow> reaches P s s''"

text \<open>What every step keeps, every run keeps.\<close>

lemma reaches_invariant:
  assumes "reaches P s s'" and "I s" and "\<And>s s'. server_step P s s' \<Longrightarrow> I s \<Longrightarrow> I s'"
  shows "I s'"
  using assms(1,2) by (induction rule: reaches.induct) (auto intro: assms(3))

end
