(* ===== verification/Kept.thy ===== *)
theory Kept
  imports HttpRules Disputes SiOps BillOps CardOps KycOps BeneficiaryOps MakerChecker
begin

text \<open>
  Predicates of the database that programs and handlers keep, whether they succeed or throw: the rules by which
  one is carried from the statements to the use cases and on to the handlers behind their middlewares.
\<close>

section \<open>Keeping a predicate of the database\<close>

definition opKeeps :: "(db \<Rightarrow> bool) \<Rightarrow> 'a op \<Rightarrow> bool" where
  "opKeeps I m \<longleftrightarrow> keeps (\<lambda>w. I (w_db w)) m"

definition webKeeps :: "(db \<Rightarrow> bool) \<Rightarrow> 'a http \<Rightarrow> bool" where
  "webKeeps I m \<longleftrightarrow> keeps (\<lambda>s. I (w_db (sv_world s))) m"

named_theorems kept_rules \<open>programs that keep a predicate of the database\<close>

lemma opKeepsI: "(\<And>w. I (w_db w) \<Longrightarrow> wp m (\<lambda>_ w'. I (w_db w')) (\<lambda>_ w'. I (w_db w')) w) \<Longrightarrow> opKeeps I m"
  unfolding opKeeps_def by (rule keepsI)

lemma opKeeps_snd: "opKeeps I m \<Longrightarrow> I (w_db w) \<Longrightarrow> I (w_db (snd (m w)))"
  unfolding opKeeps_def by (rule keeps_snd)

lemma webKeeps_snd: "webKeeps I m \<Longrightarrow> I (w_db (sv_world s)) \<Longrightarrow> I (w_db (sv_world (snd (m s))))"
  unfolding webKeeps_def using keeps_snd [where I = "\<lambda>s. I (w_db (sv_world s))"] by blast

lemma opKeeps_leaves:
  assumes "\<And>d d'. v d' = v d \<Longrightarrow> I d \<Longrightarrow> I d'" and "leaves v m"
  shows "opKeeps I m"
  by (rule opKeepsI, rule leaves_wp [OF assms(2)]) (use assms(1) in blast)+

lemma opKeeps_control [kept_rules]:
  "opKeeps I m \<Longrightarrow> (\<And>x. opKeeps I (k x)) \<Longrightarrow> opKeeps I (bnd m k)"
  "opKeeps I m \<Longrightarrow> (\<And>e. opKeeps I (h e)) \<Longrightarrow> opKeeps I (tryCatch m h)"
  "(\<And>x. opKeeps I (f x)) \<Longrightarrow> opKeeps I (forEach xs f)"
  "(\<And>a x. opKeeps I (g a x)) \<Longrightarrow> opKeeps I (foldProg ys g b)"
  unfolding opKeeps_def by (auto intro: keeps_bnd keeps_tryCatch keeps_forEach keeps_foldProg)

lemma opKeeps_basic [kept_rules]:
  "opKeeps I (ret x)" "opKeeps I (raise e)" "opKeeps I (throwIf c e)" "opKeeps I (lift r)" "opKeeps I (gets f)"
  "opKeeps I (need y e)" "opKeeps I (dbGet g)" "opKeeps I clockNow" "opKeeps I uuid" "opKeeps I (draw n)"
  by (rule opKeepsI, simp add: wp_rules split: sum.splits option.splits)+

lemma opKeeps_transaction [kept_rules]: "opKeeps I m \<Longrightarrow> opKeeps I (transaction m)"
  unfolding opKeeps_def keeps_def by (auto simp: wp_transaction elim!: wp_mono)

lemma webKeeps_control [kept_rules]:
  "webKeeps I m \<Longrightarrow> (\<And>x. webKeeps I (k x)) \<Longrightarrow> webKeeps I (bnd m k)"
  "webKeeps I m \<Longrightarrow> (\<And>e. webKeeps I (h e)) \<Longrightarrow> webKeeps I (tryCatch m h)"
  unfolding webKeeps_def by (auto intro: keeps_bnd keeps_tryCatch)

lemma webKeeps_basic [kept_rules]:
  "webKeeps I (ret x)" "webKeeps I (raise e)" "webKeeps I (throwIf c e)" "webKeeps I (lift r)" "webKeeps I (gets f)"
  "webKeeps I (need y e)"
  unfolding webKeeps_def by simp_all

lemma webKeeps_inWorld [kept_rules]: "opKeeps I m \<Longrightarrow> webKeeps I (inWorld m)"
  unfolding opKeeps_def webKeeps_def keeps_def by (simp add: wp_inWorld)

lemma webKeeps_step:
  "(\<And>x t s. w_db (sv_world (g t s)) = w_db (sv_world s)) \<Longrightarrow> webKeeps I (\<lambda>s. case f s of (x, t) \<Rightarrow> (Inr (y x), g t s))"
  unfolding webKeeps_def keeps_def by (auto simp: wp_def split: prod.splits)

lemma kept_cases [kept_rules]:
  "opKeeps I m \<Longrightarrow> opKeeps I n \<Longrightarrow> opKeeps I (if c then m else n)"
  "opKeeps I m \<Longrightarrow> (\<And>x. opKeeps I (f x)) \<Longrightarrow> opKeeps I (case y of None \<Rightarrow> m | Some x \<Rightarrow> f x)"
  "(\<And>a b. opKeeps I (g a b)) \<Longrightarrow> opKeeps I (case p of (a, b) \<Rightarrow> g a b)"
  "opKeeps I (h z) \<Longrightarrow> opKeeps I (Let z h)"
  by (auto split: option.splits prod.splits)

lemma webKept_cases [kept_rules]:
  "webKeeps I m \<Longrightarrow> webKeeps I n \<Longrightarrow> webKeeps I (if c then m else n)"
  "webKeeps I m \<Longrightarrow> (\<And>x. webKeeps I (f x)) \<Longrightarrow> webKeeps I (case y of None \<Rightarrow> m | Some x \<Rightarrow> f x)"
  "(\<And>a b. webKeeps I (g a b)) \<Longrightarrow> webKeeps I (case p of (a, b) \<Rightarrow> g a b)"
  "webKeeps I (h z) \<Longrightarrow> webKeeps I (Let z h)"
  by (auto split: option.splits prod.splits)

section \<open>The middlewares\<close>

lemma webKeeps_http [kept_rules]:
  "webKeeps I nowMs" "webKeeps I (query f)" "webKeeps I (fail e)" "webKeeps I (require y g)" "webKeeps I (check400 b msg)"
  "webKeeps I (json200 j)" "webKeeps I (jsonStatus st j)"
  unfolding nowMs_def query_def fail_def require_def check400_def json200_def jsonStatus_def
  by (intro kept_rules)+

lemma webKeeps_mapError [kept_rules]: "webKeeps I m \<Longrightarrow> webKeeps I (mapError f m)"
  unfolding mapError_def by (intro kept_rules)

lemma webKeeps_sessions [kept_rules]: "webKeeps I (onSessions f)"
  unfolding onSessions_def by (intro kept_rules webKeeps_step) simp

lemma webKeeps_store [kept_rules]:
  "(\<And>t s. w_db (sv_world (put t s)) = w_db (sv_world s)) \<Longrightarrow> webKeeps I (onStore get put f)"
  unfolding onStore_def by (intro kept_rules webKeeps_step)

lemma webKeeps_mounts:
  assumes "\<And>rq. webKeeps I (k rq)"
  shows "webKeeps I (encryptedResponse P k rq)" "webKeeps I (decryptMiddleware P k rq)" "webKeeps I (requireSession k rq)"
    "webKeeps I (requireRole r k rq)" "webKeeps I (answerErrors k rq)"
  unfolding encryptedResponse_def sealResponse_def decryptMiddleware_def requireSession_def requireRole_def answerErrors_def userOf_def
  by (intro kept_rules assms | simp split: prod.split)+

lemma webKeeps_banking:
  assumes "\<And>rq. webKeeps I (k rq)"
  shows "webKeeps I (requireBankingAccess k rq)"
  unfolding requireBankingAccess_def userOf_def assertBankingAccess_def by (intro kept_rules assms)

lemma webKeeps_limits [kept_rules]:
  assumes "\<And>rq. webKeeps I (k rq)"
  shows "webKeeps I (limitRate name win n k rq)" "webKeeps I (requireStepUp P action k rq)" "webKeeps I (requireOtp P action k rq)"
proof -
  show "webKeeps I (limitRate name win n k rq)"
    unfolding limitRate_def Let_def by (intro kept_rules webKeeps_step assms) simp
  have v: "webKeeps I (case vv of VelAllowed \<Rightarrow> k rq
       | VelMinute r \<Rightarrow> fail (tooManyRequestsError ''Velocity cap (minute) reached'' (Some r))
       | VelDay r \<Rightarrow> fail (tooManyRequestsError ''Velocity cap (day) reached'' (Some r)))" for vv
    by (cases vv) (auto intro: kept_rules assms)
  show "webKeeps I (requireStepUp P action k rq)"
    unfolding requireStepUp_def Let_def by (intro kept_rules webKeeps_step v) simp_all
  show "webKeeps I (requireOtp P action k rq)"
    unfolding requireOtp_def Let_def by (intro kept_rules webKeeps_step assms) simp
qed

lemma webKeeps_mounted [kept_rules]:
  assumes "\<And>rq. webKeeps I (k rq)"
  shows "webKeeps I (mountOpen P k rq)" "webKeeps I (mountCustomer P k rq)" "webKeeps I (mountBanking P k rq)"
    "webKeeps I (mountAdmin P k rq)"
  unfolding mountOpen_def mountCustomer_def mountBanking_def mountAdmin_def
  by (intro webKeeps_mounts webKeeps_banking assms)+

section \<open>What every statement leaves alone\<close>

text \<open>The tables the money invariants and the audit log are about.\<close>

definition coreTables :: "db \<Rightarrow> account list \<times> transfer list \<times> ledger_entry list \<times> audit_entry list" where
  "coreTables d = (db_accounts d, db_transfers d, db_ledger d, db_audit d)"

lemma leaves_case_prod [leaves_rules]: "(\<And>a b. leaves v (f a b)) \<Longrightarrow> leaves v (case p of (a, b) \<Rightarrow> f a b)"
  by (cases p) simp

named_theorems core_rules \<open>statements and use cases that leave the core tables alone\<close>

lemma core_users [core_rules]:
  "leaves coreTables (insertUser u)" "leaves coreTables (updateUserWhere i f)" "leaves coreTables (setRole i r)"
  "leaves coreTables (setAccountStatus i st)" "leaves coreTables (setPasswordRow i h)" "leaves coreTables (markPasskeyEnrolled i)"
  "leaves coreTables (recordFailedAttempt i l)" "leaves coreTables (resetFailedAttempts i)" "leaves coreTables (setKycTierRow i tier)"
  "leaves coreTables (setEmail i email)" "leaves coreTables (setMobile i mobile)"
  "leaves coreTables (insertKyc k)" "leaves coreTables (updateKyc k)"
  unfolding user_stmts insertUser_def updateUserWhere_def insertKyc_def updateKyc_def
  by (intro leaves_rules; simp add: coreTables_def)+

lemma core_security [core_rules]:
  "leaves coreTables (insertCredential c)" "leaves coreTables (updateCredentialWhere i g)" "leaves coreTables (updateCounter i n)"
  "leaves coreTables (updateUsage i t m)" "leaves coreTables (setLabel i l)" "leaves coreTables (deleteCredential i)"
  "leaves coreTables (insertRecoveryCode rc)" "leaves coreTables (markConsumed i t)"
  unfolding insertCredential_def updateCredentialWhere_def updateCounter_def updateUsage_def setLabel_def deleteCredential_def
    insertRecoveryCode_def markConsumed_def
  by (intro leaves_rules; simp add: coreTables_def)+

lemma core_payees [core_rules]:
  "leaves coreTables (insertBeneficiary b)" "leaves coreTables (updateBeneficiary b)" "leaves coreTables (deleteBeneficiary i)"
  "leaves coreTables (touchBeneficiary i ts)" "leaves coreTables (insertExternalBeneficiary x)"
  "leaves coreTables (insertSavedBill sb)" "leaves coreTables (deleteSavedBill i)"
  unfolding insertBeneficiary_def updateBeneficiary_def deleteBeneficiary_def touchBeneficiary_def insertExternalBeneficiary_def
    insertSavedBill_def deleteSavedBill_def
  by (intro leaves_rules; simp add: coreTables_def)+

lemma core_products [core_rules]:
  "leaves coreTables (insertCard c)" "leaves coreTables (updateCard c)" "leaves coreTables (insertSi s)" "leaves coreTables (updateSi s)"
  "leaves coreTables (setSiStatus i st)" "leaves coreTables (insertFd fd)" "leaves coreTables (updateFd fd)"
  "leaves coreTables (insertNominee n)" "leaves coreTables (deleteNominee i)"
  unfolding insertCard_def updateCard_def insertSi_def updateSi_def setSiStatus_def insertFd_def updateFd_def insertNominee_def
    deleteNominee_def
  by (intro leaves_rules;
      simp add: coreTables_def fdInsertRow_def fdUpdateRow_def siInsertRow_def siUpdateRow_def cardInsertRow_def cardUpdateRow_def)+

lemma core_rest [core_rules]:
  "leaves coreTables (insertNotification n)" "leaves coreTables (markRead i t)" "leaves coreTables (markAllRead u t)"
  "leaves coreTables (insertDispute p)" "leaves coreTables (updateDispute p)" "leaves coreTables (insertPending a)"
  unfolding insertNotification_def markRead_def markAllRead_def insertDispute_def updateDispute_def insertPending_def
  by (intro leaves_rules; simp add: coreTables_def)+

end
