(* ===== verification/Invariants.thy ===== *)
theory Invariants
  imports Kept Server
begin

text \<open>
  Invariants of the server. The locales collect what a predicate of the database must survive: changes
  outside the core tables, the recording of an audit row, publications, and the use cases that touch accounts
  and money. From that it survives every handler behind its middlewares, every tick and every run.
\<close>

section \<open>Use cases that leave the core tables alone\<close>

lemma core_usecases [core_rules]:
  "leaves coreTables (touchBeneficiaryByAccount u nr)" "leaves coreTables (addExternalBeneficiary xi)"
  "leaves coreTables (saveBillAccount u b c n)" "leaves coreTables (removeSavedBillAccount u i)"
  "leaves coreTables (fileDispute u t r)"
  unfolding touchBeneficiaryByAccount_def addExternalBeneficiary_def saveBillAccount_def removeSavedBillAccount_def fileDispute_def
  by (intro leaves_rules core_rules)+

lemma core_lists [core_rules]:
  "leaves coreTables (listBeneficiariesByOwner u)" "leaves coreTables (listExternalBeneficiaries u)"
  "leaves coreTables (mustOwn u i)" "leaves coreTables (assertBankingAccess u)" "leaves coreTables (ownAccount u a)"
  "leaves coreTables (listNominees u a)"
  unfolding listBeneficiariesByOwner_def listExternalBeneficiaries_def mustOwn_def assertBankingAccess_def ownAccount_def
    listNominees_def
  by (intro leaves_rules; simp add: coreTables_def)+

lemma core_cards [core_rules]:
  "leaves coreTables (issueCard u a n)" "leaves coreTables (freezeCard u i)" "leaves coreTables (unfreezeCard u i)"
  "leaves coreTables (cancelCard u i)" "leaves coreTables (setCardLimits u i p d m)"
  unfolding issueCard_def maskedNumber_def freezeCard_def unfreezeCard_def cancelCard_def setCardLimits_def Let_def
  by (intro leaves_rules core_rules)+

lemma core_actions [core_rules]:
  "leaves coreTables (createPendingAction a u j)" "leaves coreTables (approvePendingAction i u)" "leaves coreTables (markPendingExecuted i)"
  "leaves coreTables (addNominee u a f r sh)" "leaves coreTables (removeNominee u i)"
  "leaves coreTables (emitNotification u k t b et ei)"
  unfolding createPendingAction_def approvePendingAction_def markPendingExecuted_def addNominee_def removeNominee_def
    emitNotification_def Let_def
  by (intro leaves_rules core_rules; simp add: coreTables_def approvedRow_def)+

lemma core_identity [core_rules]:
  "leaves coreTables (hashPassword B p)" "leaves coreTables (loginWithPassword B n p)" "leaves coreTables (changePassword B u p q)"
  "leaves coreTables (signupUser B n e p r)" "leaves coreTables (devSeedUser B n qo ro)"
  "leaves coreTables (changeEmail u e)" "leaves coreTables (changeMobile u m)"
  unfolding hashPassword_def loginWithPassword_def loginBegin_def loginEnd_def changePassword_def signupUser_def devSeedUser_def
    devUser_def changeEmail_def changeMobile_def Let_def
  by (intro leaves_rules core_rules)+

section \<open>Invariants that see the core tables only\<close>

locale table_invariant =
  fixes P :: platform and I :: "db \<Rightarrow> bool"
  assumes core: "coreTables d' = coreTables d \<Longrightarrow> I d \<Longrightarrow> I d'"
    and recording: "opKeeps I (recordAudit (pf_sha256 P) inp)"
    and publishing: "opKeeps I (busOf P evs)"
begin

lemma leaving: "leaves coreTables m \<Longrightarrow> opKeeps I m"
  using core by (rule opKeeps_leaves)

lemmas table_stmts [kept_rules] =
  core_users [THEN leaving] core_security [THEN leaving] core_payees [THEN leaving] core_products [THEN leaving]
  core_rest [THEN leaving] core_usecases [THEN leaving] core_lists [THEN leaving] core_cards [THEN leaving]
  core_actions [THEN leaving] core_identity [THEN leaving]

lemmas table_publish [kept_rules] = recording publishing

lemma kept_payees [kept_rules]:
  "opKeeps I (addBeneficiary (Some (busOf P)) u n nr)"
  "opKeeps I (renameBeneficiary (Some (busOf P)) u i n)"
  "opKeeps I (removeBeneficiary (Some (busOf P)) u i)"
  unfolding addBeneficiary_def renameBeneficiary_def removeBeneficiary_def publishBen_def option.case
  by (intro kept_rules)+

lemma kept_instructions [kept_rules]:
  "opKeeps I (createStandingInstruction (busOf P) ci)"
  "opKeeps I (pauseStandingInstruction (busOf P) u i)"
  "opKeeps I (resumeStandingInstruction (busOf P) u i)"
  "opKeeps I (cancelStandingInstruction (busOf P) u i)"
  unfolding createStandingInstruction_def pauseStandingInstruction_def resumeStandingInstruction_def
    cancelStandingInstruction_def ownSi_def
  by (intro kept_rules)+

lemma kept_kyc [kept_rules]:
  "opKeeps I (submitKyc (busOf P) ki)" "opKeeps I (approveKyc (busOf P) i a)"
  "opKeeps I (rejectKyc (busOf P) i a r)"
  unfolding submitKyc_def approveKyc_def rejectKyc_def setKycTier_def
  by (intro kept_rules)+

lemma kept_recovery [kept_rules]:
  "opKeeps I (issueRecoveryCode B (Some (busOf P)) u a)"
  "opKeeps I (consumeRecoveryCode B (Some (busOf P)) u c)"
  unfolding issueRecoveryCode_def consumeRecoveryCode_def generateCode_def option.case Let_def
  by (intro kept_rules)+

lemma kept_audited [kept_rules]:
  assumes "\<And>rq. webKeeps I (k rq)"
  shows "webKeeps I (auditMiddleware P a t k rq)"
  unfolding webKeeps_def
proof (rule keepsI)
  fix s :: server assume i: "I (w_db (sv_world s))"
  obtain r s1 where k: "k rq s = (r, s1)" by fastforce
  from webKeeps_snd [OF assms i] k have i1: "I (w_db (sv_world s1))" by (metis snd_conv)
  from opKeeps_snd [OF recording this]
  show "wp (auditMiddleware P a t k rq) (\<lambda>_ s. I (w_db (sv_world s))) (\<lambda>_ s. I (w_db (sv_world s))) s"
    using i1 unfolding wp_snd by (simp add: auditMiddleware_def k inWorld_def case_prod_unfold Let_def)
qed

lemma kept_from_request [kept_rules]:
  "webKeeps I (auditFromRequest P rq a ac t e su pl sid)" "webKeeps I (auditUser P rq a u e su pl i)"
  "webKeeps I (auditCaller P rq a e su pl)"
  unfolding auditUser_def auditCaller_def auditFromRequest_def by (intro kept_rules)+

end

section \<open>Reading requests\<close>

lemma kept_reading [kept_rules]:
  "webKeeps I (needUuid v m)" "webKeeps I (needText n v m)" "webKeeps I (needPositive rq f m)" "webKeeps I (tierOf rq)"
  "webKeeps I (checkMemo rq)" "webKeeps I (optKey rq)" "webKeeps I (needAmount rq)" "webKeeps I (needSession sid)"
  "webKeeps I (needPassword rq)" "webKeeps I (needNonce rq)" "webKeeps I (needState x nn)" "webKeeps I (needResponse rq)"
  "webKeeps I (ownCredential u i)" "webKeeps I (needOtpAction a)" "webKeeps I (needCredential rq i)" "webKeeps I (needUser rq)"
  "webKeeps I (needChallenge p y m)"
  unfolding needUuid_def needText_def needPositive_def tierOf_def checkMemo_def optKey_def needAmount_def needSession_def
    needPassword_def needNonce_def needState_def needResponse_def ownCredential_def needOtpAction_def needCredential_def
    needUser_def needChallenge_def
  by (intro kept_rules)+

lemma kept_end_date [kept_rules]: "webKeeps I (needEndDate P v)"
  unfolding needEndDate_def by (auto split: option.split json.split intro!: kept_rules)

lemma kept_best_effort [kept_rules]: "webKeeps I m \<Longrightarrow> webKeeps I (bestEffort m)"
  unfolding bestEffort_def by (intro kept_rules)

lemma kept_binding [kept_rules]: "webKeeps I (bindSession sid u)" "webKeeps I (startLogin P sid v pu)"
  unfolding bindSession_def startLogin_def by (intro kept_rules; simp add: kept_rules split: sum.split)+

lemma kept_payee [kept_rules]: "webKeeps I (resolvePayee rq)"
  unfolding resolvePayee_def by (auto split: option.split json.split intro!: kept_rules)

end
