(* ===== verification/RouteInvariants.thy ===== *)
theory RouteInvariants
  imports Invariants
begin

text \<open>
  What a use case keeps, every route, every timer and every run of the server keeps.
\<close>

section \<open>The use cases that touch the core tables\<close>

locale server_invariant = table_invariant +
  assumes transfers: "opKeeps I (executeTransfer (busOf P) ti)" "opKeeps I (executeRailTransfer (busOf P) ri)"
      "opKeeps I (settlePendingTransfers (busOf P) rail)" "opKeeps I (faucetDeposit (busOf P) fi)"
      "opKeeps I (decideDispute (busOf P) i u b n)" "opKeeps I (simulateCardSpend (busOf P) si)"
      "opKeeps I (payBill (busOf P) bi)" "opKeeps I (runDueInstructions (busOf P) b)"
    and accounts: "opKeeps I (openAdditionalAccount (busOf P) u ty)" "opKeeps I (freezeAccount (busOf P) i)"
      "opKeeps I (unfreezeAccount (busOf P) i)" "opKeeps I (closeAccount (busOf P) u i)"
      "opKeeps I (openFixedDeposit u i p m r)" "opKeeps I (prematureCloseFixedDeposit u i)"
      "opKeeps I (matureFixedDeposits t)"
begin

lemmas use_cases [kept_rules] = transfers accounts

section \<open>The routes\<close>

lemma kept_statement_for [kept_rules]: "webKeeps I (statementFor rq)"
proof -
  have "webKeeps I (monthParam rq)"
    unfolding monthParam_def defaultMonth_def by (auto split: option.split json.split intro!: kept_rules)
  then show ?thesis unfolding statementFor_def by (intro kept_rules)
qed

lemma kept_helpers [kept_rules]:
  "webKeeps I (auditPage P rq l k)" "webKeeps I (verifyAssertion P v c cr)" "webKeeps I (recoveryFailed P rq n s r)"
  "webKeeps I (enrolled P (busOf P) rq b u c s)"
  unfolding auditPage_def verifyAssertion_def recoveryFailed_def enrolled_def
  by (intro kept_rules)+

lemma kept_change_si [kept_rules]: "(\<And>u i. opKeeps I (change u i)) \<Longrightarrow> webKeeps I (changeSiRoute change rq)"
  unfolding changeSiRoute_def by (intro kept_rules)

lemma kept_or_try [kept_rules]: "webKeeps I m \<Longrightarrow> webKeeps I n \<Longrightarrow> webKeeps I (orTry m n)"
  unfolding orTry_def by (intro kept_rules)

lemma kept_sum [kept_rules]:
  "(\<And>x. webKeeps I (f x)) \<Longrightarrow> (\<And>x. webKeeps I (g x)) \<Longrightarrow> webKeeps I (case z of Inl x \<Rightarrow> f x | Inr x \<Rightarrow> g x)"
  by (cases z) auto

lemma kept_serialize [kept_rules]: "webKeeps I (serializeBeneficiaries bs)"
  by (induction bs) (auto intro!: kept_rules)

lemma kept_dev_only [kept_rules]: "(\<And>rq. webKeeps I (k rq)) \<Longrightarrow> webKeeps I (devOnly Q k rq)"
  unfolding devOnly_def by (intro kept_rules)

lemma kept_payment_routes [kept_rules]:
  "webKeeps I (postTransferRoute (busOf P) rq)" "webKeeps I (getLimitsRoute rq)"
  "webKeeps I (postRailRoute (busOf P) rq)" "webKeeps I (postDisputeRoute rq)" "webKeeps I (getDisputesRoute rq)"
  "webKeeps I (getRecentRoute rq)" "webKeeps I (getMineRoute rq)" "webKeeps I (getTransferRoute rq)"
  "webKeeps I (getTransactionsRoute rq)" "webKeeps I (postFaucetRoute (busOf P) rq)"
  "webKeeps I (getAllDisputesRoute rq)" "webKeeps I (decideDisputeRoute (busOf P) rq)"
  "webKeeps I (getPendingRoute rq)" "webKeeps I (approvePendingRoute P (busOf P) rq)"
  unfolding postTransferRoute_def getLimitsRoute_def postRailRoute_def postDisputeRoute_def getDisputesRoute_def
    getRecentRoute_def getMineRoute_def getTransferRoute_def getTransactionsRoute_def postFaucetRoute_def
    getAllDisputesRoute_def decideDisputeRoute_def getPendingRoute_def approvePendingRoute_def
  by (intro kept_rules)+

lemma kept_account_routes [kept_rules]:
  "webKeeps I (getMyAccountsRoute rq)" "webKeeps I (getTypesRoute rq)" "webKeeps I (postAccountRoute (busOf P) rq)"
  "webKeeps I (postCloseRoute (busOf P) rq)" "webKeeps I (getFdsRoute rq)" "webKeeps I (postFdRoute rq)"
  "webKeeps I (postPrematureCloseRoute rq)" "webKeeps I (getNomineesRoute rq)" "webKeeps I (postNomineeRoute rq)"
  "webKeeps I (removeNomineeRoute rq)" "webKeeps I (getAccountsRoute rq)" "webKeeps I (postFreezeRoute (busOf P) rq)"
  "webKeeps I (postUnfreezeRoute (busOf P) rq)"
  unfolding getMyAccountsRoute_def getTypesRoute_def postAccountRoute_def postCloseRoute_def getFdsRoute_def
    postFdRoute_def postPrematureCloseRoute_def getNomineesRoute_def postNomineeRoute_def removeNomineeRoute_def
    getAccountsRoute_def postFreezeRoute_def postUnfreezeRoute_def
  by (intro kept_rules)+

lemma kept_card_routes [kept_rules]:
  "webKeeps I (getMyCardsRoute rq)" "webKeeps I (getCardLimitsRoute rq)" "webKeeps I (postCardRoute (busOf P) rq)"
  "webKeeps I (postCardLimitsRoute rq)" "webKeeps I (postSpendRoute (busOf P) rq)"
  "webKeeps I (postFreezeCardRoute (busOf P) rq)" "webKeeps I (postUnfreezeCardRoute rq)"
  "webKeeps I (postCancelCardRoute (busOf P) rq)"
  unfolding getMyCardsRoute_def getCardLimitsRoute_def postCardRoute_def postCardLimitsRoute_def postSpendRoute_def
    postFreezeCardRoute_def postUnfreezeCardRoute_def postCancelCardRoute_def
  by (intro kept_rules)+

lemma kept_payee_routes [kept_rules]:
  "webKeeps I (getBeneficiariesRoute rq)" "webKeeps I (postBeneficiaryRoute (busOf P) rq)"
  "webKeeps I (postRenameRoute (busOf P) rq)" "webKeeps I (getExternalRoute rq)" "webKeeps I (postExternalRoute rq)"
  "webKeeps I (postRemoveRoute (busOf P) rq)" "webKeeps I (getBillersRoute rq)" "webKeeps I (getSavedRoute rq)"
  "webKeeps I (postSavedRoute rq)" "webKeeps I (removeSavedRoute rq)" "webKeeps I (postBillRoute (busOf P) rq)"
  "webKeeps I (getSisRoute rq)" "webKeeps I (postSiRoute P (busOf P) rq)" "webKeeps I (postPauseRoute (busOf P) rq)"
  "webKeeps I (postResumeRoute (busOf P) rq)" "webKeeps I (postCancelSiRoute (busOf P) rq)"
  unfolding getBeneficiariesRoute_def postBeneficiaryRoute_def postRenameRoute_def getExternalRoute_def
    postExternalRoute_def postRemoveRoute_def getBillersRoute_def getSavedRoute_def postSavedRoute_def
    removeSavedRoute_def postBillRoute_def getSisRoute_def postSiRoute_def postPauseRoute_def postResumeRoute_def
    postCancelSiRoute_def
  by (intro kept_rules)+

lemma kept_customer_routes [kept_rules]:
  "webKeeps I (postKycRoute (busOf P) rq)" "webKeeps I (getMyKycRoute rq)" "webKeeps I (getKycQueueRoute rq)"
  "webKeeps I (postApproveKycRoute (busOf P) rq)" "webKeeps I (postRejectKycRoute (busOf P) rq)"
  "webKeeps I (getNotificationsRoute rq)" "webKeeps I (postReadRoute rq)" "webKeeps I (postMarkAllRoute rq)"
  "webKeeps I (getStatementRoute rq)" "webKeeps I (getCsvRoute rq)" "webKeeps I (getPdfRoute P rq)"
  unfolding postKycRoute_def getMyKycRoute_def getKycQueueRoute_def postApproveKycRoute_def postRejectKycRoute_def
    getNotificationsRoute_def postReadRoute_def postMarkAllRoute_def getStatementRoute_def getCsvRoute_def
    getPdfRoute_def
  by (intro kept_rules)+

lemma kept_audit_routes [kept_rules]:
  "webKeeps I (getAuditRoute P rq)" "webKeeps I (verifyRoute P rq)" "webKeeps I (getActionsRoute rq)"
  "webKeeps I (exportRoute P rq)" "webKeeps I (getAuditEntryRoute rq)"
  unfolding getAuditRoute_def verifyRoute_def getActionsRoute_def exportRoute_def getAuditEntryRoute_def
  by (intro kept_rules)+

lemma kept_identity_routes [kept_rules]:
  "webKeeps I (postSignupRoute P rq)" "webKeeps I (postPasswordRoute P rq)"
  "webKeeps I (postRecoveryRoute P (busOf P) rq)" "webKeeps I (postPasskeyOptionsRoute P rq)"
  "webKeeps I (postPasskeyVerifyRoute P rq)" "webKeeps I (getMeRoute rq)" "webKeeps I (postLogoutRoute P rq)"
  "webKeeps I (postOtpRequestRoute P rq)" "webKeeps I (postOtpVerifyRoute P rq)"
  "webKeeps I (postPasswordChangeRoute P (busOf P) rq)" "webKeeps I (postContactRoute rq)"
  "webKeeps I (getSessionsRoute rq)" "webKeeps I (postWipeRoute rq)"
  unfolding postSignupRoute_def postPasswordRoute_def postRecoveryRoute_def postPasskeyOptionsRoute_def
    postPasskeyVerifyRoute_def getMeRoute_def postLogoutRoute_def postOtpRequestRoute_def postOtpVerifyRoute_def
    postPasswordChangeRoute_def postContactRoute_def getSessionsRoute_def postWipeRoute_def
  by (intro kept_rules; simp)+

lemma kept_security_routes [kept_rules]:
  "webKeeps I (getCredentialsRoute rq)" "webKeeps I (postEnrollOptionsRoute P rq)" "webKeeps I (postLabelRoute rq)"
  "webKeeps I (postRevokeRoute (busOf P) rq)" "webKeeps I (getUsersRoute rq)" "webKeeps I (setUserStatusRoute st rq)"
  "webKeeps I (postRoleRoute rq)" "webKeeps I (postRecoveryCodeRoute P (busOf P) rq)"
  "webKeeps I (postRegistrationOptionsRoute P rq)" "webKeeps I (postRegistrationVerifyRoute P (busOf P) rq)"
  "webKeeps I (postAuthenticationOptionsRoute P rq)" "webKeeps I (postAuthenticationVerifyRoute P rq)"
  "webKeeps I (getSessionRoute P rq)" "webKeeps I (postHandshakeRoute P rq)" "webKeeps I (postLoginAsRoute P rq)"
  "webKeeps I (postResetRoute P rq)"
  unfolding getCredentialsRoute_def postEnrollOptionsRoute_def postLabelRoute_def postRevokeRoute_def
    getUsersRoute_def setUserStatusRoute_def postRoleRoute_def postRecoveryCodeRoute_def
    postRegistrationOptionsRoute_def postRegistrationVerifyRoute_def postAuthenticationOptionsRoute_def
    postAuthenticationVerifyRoute_def getSessionRoute_def postHandshakeRoute_def postLoginAsRoute_def
    postResetRoute_def Let_def
  by (intro kept_rules; simp)+

section \<open>The server\<close>

lemma kept_dispatch: "webKeeps I (dispatch P ep rq)"
proof (cases ep)
  case (EpPayment r)
  then show ?thesis by (cases r) (simp_all, (intro kept_rules)+)
next
  case (EpAccount r)
  then show ?thesis by (cases r) (simp_all, (intro kept_rules)+)
next
  case (EpCard r)
  then show ?thesis by (cases r) (simp_all, (intro kept_rules)+)
next
  case (EpPayee r)
  then show ?thesis by (cases r) (simp_all, (intro kept_rules)+)
next
  case (EpCustomer r)
  then show ?thesis by (cases r) (simp_all, (intro kept_rules)+)
next
  case (EpAudit r)
  then show ?thesis by (cases r) (simp_all, (intro kept_rules)+)
next
  case (EpIdentity r)
  then show ?thesis by (cases r) (simp_all add: identityLimiter_def webauthnLimiter_def, (intro kept_rules)+)
next
  case (EpOpen r)
  then show ?thesis by (cases r) (simp_all, (intro kept_rules webKeeps_mounts)+)
qed

lemma kept_ticks: "webKeeps I (instructionTick P)" "webKeeps I maturityTick" "webKeeps I (settlementTick P)"
  unfolding instructionTick_def maturityTick_def settlementTick_def by (intro kept_rules)+

lemma kept_sweeps: "webKeeps I (sweepTick k)"
  by (cases k) (simp_all, (intro kept_rules; simp)+)

lemma kept_run_one: "webKeeps I m \<Longrightarrow> m s = (r, s') \<Longrightarrow> I (w_db (sv_world s)) \<Longrightarrow> I (w_db (sv_world s'))"
  using webKeeps_snd [of I m s] by simp

lemma kept_step:
  assumes "server_step P s s'" and "I (w_db (sv_world s))"
  shows "I (w_db (sv_world s'))"
  using assms(1)
proof (cases rule: server_step.cases)
  case Restarted
  with assms(2) show ?thesis by (simp add: restart_def)
qed (rule kept_run_one [OF _ _ assms(2)], rule kept_dispatch kept_ticks kept_sweeps, assumption)+

lemma kept_run: "reaches P s s' \<Longrightarrow> I (w_db (sv_world s)) \<Longrightarrow> I (w_db (sv_world s'))"
  by (rule reaches_invariant [where I = "\<lambda>s. I (w_db (sv_world s))"]) (auto intro: kept_step)

end

section \<open>Invariants of every statement\<close>

text \<open>A predicate that no statement on accounts, transfers and ledger can break needs no look at the use cases.\<close>

locale statement_invariant = table_invariant +
  assumes statements: "opKeeps I (insertAccount a)" "opKeeps I (updateAccount a)" "opKeeps I (insertTransfer t)"
      "opKeeps I (updateTransfer t)" "opKeeps I (settlePending i st u n r)" "opKeeps I (insertLedger l)"
begin

lemma kept_draws [kept_rules]: "opKeeps I transactionReference" "opKeeps I (utr now)" "opKeeps I freshAccountNumber"
  unfolding transactionReference_def utr_def by (intro kept_rules | simp add: leaving leaves_def freshAccountNumber_def split: option.split)+

lemma kept_posting [kept_rules]: "opKeeps I (postTransfer t a b)" "opKeeps I (postLegs i m n a b)" "opKeeps I (insertEntry a i k m n)"
  unfolding postTransfer_def postLegs_def insertEntry_def by (intro kept_rules statements)+

lemma kept_publishAll [kept_rules]: "opKeeps I (publishAll (busOf P) evs)"
  unfolding publishAll_def by (intro kept_rules)

lemma kept_transactions [kept_rules]:
  "opKeeps I (transferTx ti)" "opKeeps I (faucetTx fi)" "opKeeps I (reversalTx p now)" "opKeeps I (spendTx si a b now)"
  "opKeeps I (payBillTx bi)" "opKeeps I (createPendingRailTransfer ri)" "opKeeps I (settleOne t)" "opKeeps I (stampUtr t x)"
  unfolding transferTx_def faucetTx_def reversalTx_def spendTx_def payBillTx_def createPendingRailTransfer_def settleOne_def stampUtr_def
  by (intro kept_rules statements)+

lemma kept_executeTransfer [kept_rules]: "opKeeps I (executeTransfer (busOf P) ti)"
  unfolding executeTransfer_def by (intro kept_rules)

lemma kept_run_step [kept_rules]: "opKeeps I (runStep (busOf P) b now r si)"
  unfolding runStep_def runOne_def noteFailure_def by (intro kept_rules)

lemma kept_settle_step [kept_rules]: "opKeeps I (settleStep acc t)"
  unfolding settleStep_def by (intro kept_rules)

lemma kept_mature_one [kept_rules]: "opKeeps I (matureOne now fd)"
  unfolding matureOne_def by (intro kept_rules statements)

lemma kept_mature [kept_rules]: "opKeeps I (matureFixedDeposits t)"
proof -
  have "opKeeps I ((case a of (m, f) \<Rightarrow> \<lambda>fd.
       tryCatch (thn (matureOne now fd) (ret (m + 1, f))) (\<lambda>_. ret (m, f + 1))) fd)" for now fd and a :: "nat \<times> nat"
    by (cases a) (auto intro!: kept_rules)
  then show ?thesis unfolding matureFixedDeposits_def by (intro kept_rules)
qed

end

sublocale statement_invariant \<subseteq> server_invariant
  unfolding executeRailTransfer_def settlePendingTransfers_def faucetDeposit_def decideDispute_def simulateCardSpend_def payBill_def
    runDueInstructions_def openAdditionalAccount_def publishOpened_def freezeAccount_def unfreezeAccount_def closeAccount_def
    openFixedDeposit_def prematureCloseFixedDeposit_def server_invariant_def server_invariant_axioms_def
  by (intro conjI allI table_invariant_axioms kept_rules statements)

end
