(* ===== verification/ServerBooks.thy ===== *)
theory ServerBooks
  imports RouteInvariants PaymentFacts PaymentSecurity
begin

text \<open>
  The books over whole runs of the server: every use case, and so every request, tick and restart in any
  order, keeps the account, key and double-entry invariants.
\<close>

section \<open>Statements and publications\<close>

lemma books_core: "coreTables d' = coreTables d \<Longrightarrow> booksOk d \<Longrightarrow> booksOk d'"
  using moneyTables_cong(1) [of d' d] by (simp add: coreTables_def moneyTables_def)

lemma books_view: "leaves bankView m \<Longrightarrow> opKeeps booksOk m"
  by (rule opKeeps_leaves [where v = bankView]) (use booksOk_view(1) in blast)

lemma books_accounts:
  assumes "accountsOk d'" and "db_transfers d' = db_transfers d" and "db_ledger d' = db_ledger d" and "booksOk d"
  shows "booksOk d'"
  using assms by (simp add: booksOk_def doubleEntry_def entriesFor_def findTransferById_def)

lemma books_update: "booksOk d \<Longrightarrow> accountOk a \<Longrightarrow> booksOk (accountUpdateRow a d)"
  by (rule books_accounts [of _ d], rule accountsOk_update) (simp_all add: accountUpdateRow_def booksOk_def)

lemma books_insert:
  "booksOk d \<Longrightarrow> accountOk a \<Longrightarrow> findAccountById d (acc_id a) = None \<Longrightarrow> findAccountByNumber d (acc_number a) = None \<Longrightarrow>
   booksOk (accountInsertRow a d)"
  by (rule books_accounts [of _ d], rule accountsOk_insert) (simp_all add: accountInsertRow_def booksOk_def)

lemma books_fd [simp]: "booksOk (fdInsertRow fd d) = booksOk d" "booksOk (fdUpdateRow fd d) = booksOk d"
  by (simp_all add: booksOk_def accountsOk_def doubleEntry_def entriesFor_def findTransferById_def fdInsertRow_def fdUpdateRow_def)

lemma books_find: "booksOk d \<Longrightarrow> findAccountById d i = Some a \<Longrightarrow> accountOk a"
  by (auto simp: booksOk_def intro: accountsOk_find)

text \<open>What the aggregate makes of a stored account is a good row.\<close>

lemma books_ops:
  assumes "findAccountById d i = Some a" and "booksOk d"
  shows "debit a n c t = Inr a' \<Longrightarrow> accountOk a'" "credit a n c t = Inr a' \<Longrightarrow> accountOk a'"
    "close a t = Inr a' \<Longrightarrow> accountOk a'" "freeze a t = Inr a' \<Longrightarrow> accountOk a'" "unfreeze a t = Inr a' \<Longrightarrow> accountOk a'"
  using accountOk_ops [OF books_find [OF assms(2,1)]] by blast+

lemma books_insertAccount:
  assumes "accountOk a"
  shows "opKeeps booksOk (insertAccount a)"
  by (rule opKeepsI) (simp add: insertAccount_def wp_rules books_insert assms)

lemma books_freshNumber: "opKeeps booksOk freshAccountNumber"
  by (rule opKeepsI) (simp add: freshAccountNumber_def wp_def split: option.splits)

lemma books_createAccount:
  assumes "\<And>evs. opKeeps booksOk (bus evs)"
  shows "opKeeps booksOk (createAccountForUser bus u ty)" "opKeeps booksOk (openAdditionalAccount bus u ty)"
  unfolding createAccountForUser_def openAdditionalAccount_def publishOpened_def
  by (intro kept_rules assms books_insertAccount books_freshNumber; simp)+

lemma books_busPublish:
  assumes "\<And>e h. h \<in> set (handlers e) \<Longrightarrow> opKeeps booksOk (h e)" and "\<And>e h. h \<in> set wildcards \<Longrightarrow> opKeeps booksOk (h e)"
  shows "opKeeps booksOk (busPublish handlers wildcards evs)"
proof -
  have noted: "opKeeps booksOk (noteEvent e)" for e by (intro books_view leaves_rules)
  show ?thesis
    unfolding busPublish_def opKeeps_def
    by (intro keeps_bnd keeps_forEach keeps_tryCatch keeps_basic)
      (use assms noted in \<open>auto simp: opKeeps_def\<close>)
qed

lemma books_inner: "opKeeps booksOk (innerPublish sha evs)"
  unfolding innerPublish_def by (rule books_busPublish) (auto intro: books_view leaves_rules)

lemma books_handlers:
  assumes "h \<in> set (containerHandlers (innerPublish sha) e)"
  shows "opKeeps booksOk h"
proof (cases "isKycApproved e")
  case True
  then obtain u a t where e: "e = KycEv (KycApproved u a t)" by (auto simp: isKycApproved_def split: event.splits kyc_event.splits)
  have "opKeeps booksOk (onKycApproved (innerPublish sha) u a)"
    unfolding onKycApproved_def by (intro kept_rules books_createAccount books_inner books_view leaves_rules)
  with assms e show ?thesis by simp
next
  case False
  from leaves_containerHandlers [OF this assms] show ?thesis by (rule books_view)
qed

lemma books_publish: "opKeeps booksOk (containerPublish sha evs)"
  unfolding containerPublish_def by (rule books_busPublish) (auto intro: books_handlers books_view leaves_rules)

lemma books_publish_wp:
  "booksOk (w_db w) \<Longrightarrow> wp (containerPublish sha evs) (\<lambda>_ w'. booksOk (w_db w')) (\<lambda>_ w'. booksOk (w_db w')) w"
  using books_publish unfolding opKeeps_def by (rule keepsD)

section \<open>Accounts\<close>

lemma wp_updateBooks [wp_rules]: "wp (updateAccount a) Q E w = Q () (w\<lparr>w_db := accountUpdateRow a (w_db w)\<rparr>)"
  by (simp add: updateAccount_def wp_rules)

lemma wp_updateFd [wp_rules]: "wp (updateFd fd) Q E w = Q () (w\<lparr>w_db := fdUpdateRow fd (w_db w)\<rparr>)"
  by (simp add: updateFd_def wp_rules)

lemma books_freeze:
  "opKeeps booksOk (freezeAccount (containerPublish sha) i)"
  "opKeeps booksOk (unfreezeAccount (containerPublish sha) i)"
  by (rule opKeepsI, auto simp: freezeAccount_def unfreezeAccount_def wp_rules split: option.splits sum.splits
      intro!: books_publish_wp books_update dest: books_ops)+

lemma books_close: "opKeeps booksOk (closeAccount (containerPublish sha) u i)"
  by (rule opKeepsI, auto simp: closeAccount_def ownAccount_def wp_rules split: option.splits sum.splits
      intro!: books_publish_wp books_update dest: books_ops)

section \<open>Fixed deposits\<close>

lemma books_openFd: "opKeeps booksOk (openFixedDeposit u i p m r)"
  unfolding openFixedDeposit_def
proof (rule opKeeps_transaction, rule opKeepsI)
  fix w :: world assume "booksOk (w_db w)"
  then show "wp (bnd clockNow (\<lambda>now.
     bnd (ownAccount u i) (\<lambda>payout.
     bnd (lift (debit payout p INR now)) (\<lambda>debited.
     bnd freshAccountNumber (\<lambda>nr.
     bnd uuid (\<lambda>i.
     bnd (lift (credit (openAccount i nr u (Some FixedDeposit) None now) p INR now)) (\<lambda>funded.
     bnd uuid (\<lambda>fdId.
     bnd (gets w_tz) (\<lambda>tz.
     bnd (lift (openFdDomain tz fdId (acc_id funded) u (acc_id payout) p m r now)) (\<lambda>fd.
     thn (updateAccount debited)
    (thn (insertAccount funded)
    (thn (insertFd fd)
         (ret fd))))))))))))) (\<lambda>_ w'. booksOk (w_db w')) (\<lambda>_ w'. booksOk (w_db w')) w"
    by (auto simp: ownAccount_def wp_rules insertAccount_def insertFd_def split: option.splits sum.splits
        intro!: books_update books_insert dest: books_ops accountOk_ops(2) [OF accountOk_open])
qed

text \<open>A closed deposit account and the account it paid out to.\<close>

lemma books_paid_out:
  assumes "zeroFixedDepositPrincipal f t = Inr e" and "close e t = Inr c" and "credit p n k t = Inr q"
    and "findAccountById d j = Some p" and "booksOk d"
  shows "booksOk (accountUpdateRow q (accountUpdateRow c d))"
  using assms accountOk_zero_close [OF assms(1,2)] books_ops(2) [OF assms(4,5,3)] by (simp add: books_update)

lemma books_matureOne: "opKeeps booksOk (matureOne now fd)"
  unfolding matureOne_def Let_def
  by (rule opKeeps_transaction, rule opKeepsI)
    (auto simp: wp_rules split: option.split sum.split intro: books_paid_out)

lemma books_mature: "opKeeps booksOk (matureFixedDeposits t)"
proof -
  have step: "opKeeps booksOk ((case a of (m, f) \<Rightarrow> \<lambda>fd.
       tryCatch (thn (matureOne now fd) (ret (m + 1, f))) (\<lambda>_. ret (m, f + 1))) fd)" for now fd and a :: "nat \<times> nat"
    by (cases a) (auto intro!: kept_rules books_matureOne)
  show ?thesis unfolding matureFixedDeposits_def by (intro kept_rules step)
qed

lemma books_premature: "opKeeps booksOk (prematureCloseFixedDeposit u i)"
  unfolding prematureCloseFixedDeposit_def Let_def
  by (rule opKeeps_transaction, rule opKeepsI)
    (auto simp: wp_rules split: option.split sum.split intro: books_paid_out)

section \<open>Money\<close>

lemma books_same: "bankView d' = bankView d \<Longrightarrow> booksOk d \<Longrightarrow> booksOk d'"
  using booksOk_view(1) by blast

lemma books_posted: "postedTransfer d d1 t from to \<Longrightarrow> bankView d' = bankView d1 \<Longrightarrow> booksOk d \<Longrightarrow> booksOk d'"
  using postedTransfer_books booksOk_view(1) by blast

lemma books_transfer: "opKeeps booksOk (executeTransfer (containerPublish sha) inp)"
proof (rule opKeepsI)
  fix w :: world assume b: "booksOk (w_db w)"
  then have acc: "accountsOk (w_db w)" by (simp add: booksOk_def)
  have "booksOk d'" if "transferOutcome w inp t d'" for t d'
    using transferOutcome_money [OF that sameMoney_refl [OF b]] by (simp add: sameMoney_def)
  with b show "wp (executeTransfer (containerPublish sha) inp) (\<lambda>_ w'. booksOk (w_db w')) (\<lambda>_ w'. booksOk (w_db w')) w"
    by (intro wp_mono [OF container_bus.executeTransfer_wp [OF acc]]) auto
qed

lemma books_bill: "opKeeps booksOk (payBill (containerPublish sha) inp)"
proof (rule opKeepsI)
  fix w :: world assume b: "booksOk (w_db w)"
  then have acc: "accountsOk (w_db w)" by (simp add: booksOk_def)
  have "booksOk d'" if "billOutcome w inp t d'" for t d'
  proof (cases "priorTransfer (w_db w) (bi_idempotencyKey inp)")
    case None
    with that show ?thesis by (auto simp: billOutcome_def billPaidFrom_def intro: books_posted [OF _ _ b])
  next
    case (Some t0)
    with that show ?thesis by (auto simp: billOutcome_def intro: books_same [OF _ b])
  qed
  with b show "wp (payBill (containerPublish sha) inp) (\<lambda>_ w'. booksOk (w_db w')) (\<lambda>_ w'. booksOk (w_db w')) w"
    by (intro wp_mono [OF container_bus.payBill_wp [OF acc]]) auto
qed

lemma books_spend: "opKeeps booksOk (simulateCardSpend (containerPublish sha) inp)"
proof (rule opKeepsI)
  fix w :: world assume b: "booksOk (w_db w)"
  then have acc: "accountsOk (w_db w)" by (simp add: booksOk_def)
  have "booksOk d'" if "spendOutcome w inp t d'" for t d'
  proof (cases "priorTransfer (w_db w) (ci_idempotencyKey inp)")
    case None
    with that show ?thesis by (auto simp: spendOutcome_def spentWith_def intro: books_posted [OF _ _ b])
  next
    case (Some t0)
    with that show ?thesis by (auto simp: spendOutcome_def intro: books_same [OF _ b])
  qed
  with b show "wp (simulateCardSpend (containerPublish sha) inp) (\<lambda>_ w'. booksOk (w_db w')) (\<lambda>_ w'. booksOk (w_db w')) w"
    by (intro wp_mono [OF container_bus.simulateCardSpend_wp [OF acc]]) auto
qed

lemma books_dispute: "opKeeps booksOk (decideDispute (containerPublish sha) i u b n)"
proof (rule opKeepsI)
  fix w :: world assume b: "booksOk (w_db w)"
  have same: "booksOk d'" if "moneyTables d' = moneyTables d" "booksOk d" for d d'
    using moneyTables_cong(1) [OF that(1)] that(2) by simp
  have "booksOk d'" if "disputeReversed (w_db w) p tid d'" for p tid d'
    using that b by (auto simp: disputeReversed_def reversed_def dest: same intro: postedTransfer_books)
  with b same show "wp (decideDispute (containerPublish sha) i u b n) (\<lambda>_ w'. booksOk (w_db w')) (\<lambda>_ w'. booksOk (w_db w')) w"
    by (intro wp_mono [OF container_bus.decideDispute_wp]) (auto simp: decidedAs_def decisionThrown_def split: if_splits)
qed

lemma books_instructions: "opKeeps booksOk (runDueInstructions (containerPublish sha) b)"
proof (rule opKeepsI)
  fix w :: world assume b: "booksOk (w_db w)"
  from keeps_snd [OF container_bus.runDueInstructions_keeps sameMoney_refl [OF this]]
  show "wp (runDueInstructions (containerPublish sha) b) (\<lambda>_ w'. booksOk (w_db w')) (\<lambda>_ w'. booksOk (w_db w')) w"
    by (simp add: wp_snd sameMoney_def)
qed

lemma books_rail: "opKeeps booksOk (executeRailTransfer (containerPublish sha) inp)"
  by (rule opKeepsI, rule wp_mono [OF container_bus.executeRailTransfer_wp]) (auto simp: sameMoney_def)

lemma books_faucet: "opKeeps booksOk (faucetDeposit (containerPublish sha) inp)"
proof (rule opKeepsI)
  fix w :: world assume b: "booksOk (w_db w)"
  have "booksOk d'" if "faucetOutcome w inp t d'" for t d'
    by (rule conjunct1 [OF faucetOutcome_books [OF that b, of "[]"]])
  with b show "wp (faucetDeposit (containerPublish sha) inp) (\<lambda>_ w'. booksOk (w_db w')) (\<lambda>_ w'. booksOk (w_db w')) w"
    by (intro wp_mono [OF container_bus.faucetDeposit_wp]) auto
qed

lemma books_settle: "opKeeps booksOk (settlePendingTransfers (containerPublish sha) rail)"
proof -
  have one: "opKeeps booksOk (settleOne t)" for t
    by (rule opKeepsI, rule wp_mono [OF settleOne_spec]) (auto dest: settledTransfer_books)
  have step: "opKeeps booksOk (settleStep acc t)" for acc t
    unfolding settleStep_def by (cases acc) (auto intro!: kept_rules one)
  show ?thesis
    unfolding settlePendingTransfers_def publishAll_def by (intro kept_rules step books_publish)
qed

section \<open>Runs\<close>

interpretation server_books: server_invariant P booksOk for P
  by unfold_locales
    (auto intro: books_core books_view leaves_recordAudit books_publish books_transfer books_rail books_settle books_faucet
      books_dispute books_spend books_bill books_instructions books_createAccount books_freeze books_close books_openFd
      books_premature books_mature)

text \<open>
  C1: Whatever requests, ticks and restarts come in whatever order, the books stay in order: every account keeps
  its hold within its balance and a closed one is empty, identifiers, account numbers and idempotency keys stay
  unique, and the ledger holds for every transfer exactly the entries that its status and kind call for.
\<close>

theorem server_keeps_books:
  assumes "reaches P s s'" and "booksOk (w_db (sv_world s))"
  shows "booksOk (w_db (sv_world s'))"
  using assms by (rule server_books.kept_run)

theorem server_keeps_books_witness:
  "booksOk (w_db (sv_world (snd (settlementTick exPlatform (restart (snd (dispatch exPlatform (EpPayment PostTransfer)
     (exRequest ''POST'' JNull) (exServer exDb))))))))"
proof -
  let ?s1 = "snd (dispatch exPlatform (EpPayment PostTransfer) (exRequest ''POST'' JNull) (exServer exDb))"
  have "reaches exPlatform (exServer exDb) ?s1"
    by (rule reaches.Step [OF reaches.Start server_step.Requested]) (rule prod.collapse [symmetric])
  then have "reaches exPlatform (exServer exDb) (restart ?s1)"
    by (rule reaches.Step) (rule server_step.Restarted)
  then have "reaches exPlatform (exServer exDb) (snd (settlementTick exPlatform (restart ?s1)))"
    by (rule reaches.Step [OF _ server_step.RailsSettled]) (rule prod.collapse [symmetric])
  from server_keeps_books [OF this] show ?thesis using exDb_books by (simp add: exServer_def exWorld_def)
qed

end
