(* ===== verification/ServerAudit.thy ===== *)
theory ServerAudit
  imports RouteInvariants AuditTrail PaymentSecurity
begin

text \<open>
  The audit log over whole runs of the server: an append-only log, whatever comes in, whose hash chain breaks at no
  entry but one whose text was not stored as it was hashed; and that such an entry does break it.
\<close>

section \<open>What every statement keeps\<close>

definition trailGrown :: "(string \<Rightarrow> string) \<Rightarrow> db \<Rightarrow> db \<Rightarrow> bool" where
  "trailGrown sha d0 d \<longleftrightarrow> auditOk sha d \<and> (\<exists>new. db_audit d = db_audit d0 @ new)"

lemma trail_keeps: "opKeeps (trailGrown sha d0) m \<longleftrightarrow> keeps (grownFrom sha d0) m"
  by (simp add: opKeeps_def trailGrown_def grownFrom_def [abs_def])

lemma trail_leaves: "leaves db_audit m \<Longrightarrow> opKeeps (trailGrown sha d0) m"
  unfolding trail_keeps by (rule grows_leaves)

interpretation server_trail: statement_invariant P "trailGrown (pf_sha256 P) d0" for P d0
proof unfold_locales
  show "trailGrown (pf_sha256 P) d0 d'" if "coreTables d' = coreTables d" "trailGrown (pf_sha256 P) d0 d" for d d'
    using that by (auto simp: coreTables_def trailGrown_def auditOk_def)
  show "opKeeps (trailGrown (pf_sha256 P) d0) (recordAudit (pf_sha256 P) inp)" for inp
    unfolding trail_keeps by (rule grows_rules)
  show "opKeeps (trailGrown (pf_sha256 P) d0) (busOf P evs)" for evs
    unfolding trail_keeps by (rule grows_publish)
qed (unfold insertAccount_def updateAccount_def insertTransfer_def updateTransfer_def settlePending_def insertLedger_def,
  (intro trail_leaves leaves_rules; simp add: accountInsertRow_def accountUpdateRow_def transferInsertRow_def
     transferUpdateRow_def settleRow_def ledgerInsertRow_def)+)

section \<open>Runs\<close>

text \<open>
  C2: Whatever requests, ticks and restarts come in whatever order, the audit log is append-only: its chronological
  list of entries is the one it was, followed by new entries. The walk over the hash chain that the administrators'
  route makes finds no break, except where storing an entry put the replacement character U+FFFD into one of its
  texts (in place of a lone surrogate): a break it reports is the mismatch of the digest of such an entry, and never
  a missing link.
\<close>

theorem server_audit_appends:
  assumes "reaches P s s'" and "auditOk (pf_sha256 P) (w_db (sv_world s))"
  shows "(\<exists>new. auditTrail (sv_world s') = auditTrail (sv_world s) @ new)
     \<and> (case verifyChain (pf_sha256 P) (auditTrail (sv_world s')) of
          ChainOk n \<Rightarrow> True
        | ChainBroken i q r \<Rightarrow> r = ''hash mismatch''
            \<and> (\<exists>e \<in> set (auditTrail (sv_world s')). au_id e = i \<and> au_seq e = q \<and> mended e))"
proof -
  have "trailGrown (pf_sha256 P) (w_db (sv_world s)) (w_db (sv_world s))" using assms(2) by (simp add: trailGrown_def)
  from server_trail.kept_run [OF assms(1) this]
  have ok: "auditOk (pf_sha256 P) (w_db (sv_world s'))"
    and "\<exists>new. db_audit (w_db (sv_world s')) = db_audit (w_db (sv_world s)) @ new"
    by (simp_all add: trailGrown_def)
  then show ?thesis
    using auditTrail_eq [OF ok] auditTrail_eq [OF assms(2)] auditTrail_breaks [OF ok]
    by (auto split: verify_result.split)
qed

theorem server_audit_appends_witness:
  "\<exists>new. auditTrail (sv_world (snd (dispatch exPlatform (EpAudit VerifyAudit) (exRequest ''GET'' JNull) (exServer exDb))))
     = auditTrail (exWorld exDb) @ new"
proof -
  have "reaches exPlatform (exServer exDb) (snd (dispatch exPlatform (EpAudit VerifyAudit) (exRequest ''GET'' JNull) (exServer exDb)))"
    by (rule reaches.Step [OF reaches.Start server_step.Requested]) (rule prod.collapse [symmetric])
  from server_audit_appends [OF this] show ?thesis
    by (simp add: exServer_def exDb_def exWorld_def auditOk_def)
qed

end
