(* ===== verification/Gates.thy ===== *)
theory Gates
  imports RouteInvariants PaymentSecurity
begin

text \<open>
  Who may use which endpoint: the access every router is mounted with, and what a request without it comes to.
\<close>

section \<open>The table of access\<close>

datatype access = AnyCaller | SignedIn | BankingCustomer | Administrator

definition adminPayments :: "payment_route set" where
  "adminPayments = {AdminTransactions, PostFaucet, AdminDisputes, AdminDecide, AdminPending, AdminApprove}"

text \<open>The mounts of \<open>routes/index.ts\<close> and the guards inside the account and identity routers.\<close>

fun accessOf :: "endpoint \<Rightarrow> access" where
  "accessOf (EpPayment r) = (if r \<in> adminPayments then Administrator else BankingCustomer)"
| "accessOf (EpAccount r) = (if r \<in> {MyAccounts, AccountTypes} then SignedIn
     else if r \<in> {AllAccounts, FreezeAccount, UnfreezeAccount} then Administrator else BankingCustomer)"
| "accessOf (EpCard r) = BankingCustomer"
| "accessOf (EpPayee r) = BankingCustomer"
| "accessOf (EpCustomer r) = (if r \<in> {KycQueue, ApproveKyc, RejectKyc} then Administrator
     else if r \<in> {Statement, StatementCsv, StatementPdf} then BankingCustomer else SignedIn)"
| "accessOf (EpAudit r) = Administrator"
| "accessOf (EpIdentity r) = (if r \<in> {Users, UnlockUser, LockUser, ChangeRole, NewRecoveryCode} then Administrator
     else if r \<in> {Signup, LoginPassword, LoginRecovery, PasskeyOptions, PasskeyVerify, RegistrationOptions,
                   RegistrationVerify, AuthenticationOptions, AuthenticationVerify} then AnyCaller else SignedIn)"
| "accessOf (EpOpen r) = AnyCaller"

text \<open>What the database has to say of the user the session is bound to.\<close>

definition grants :: "access \<Rightarrow> db \<Rightarrow> string option \<Rightarrow> bool" where
  "grants a d x \<longleftrightarrow> a = AnyCaller \<or> (\<exists>u. x = Some (u_id u) \<and> findUserById d (u_id u) = Some u
     \<and> (a = Administrator \<longrightarrow> u_role u = Admin)
     \<and> (a = BankingCustomer \<longrightarrow> bankingAccessError d (u_id u) = Inr ()))"

section \<open>Refusals\<close>

text \<open>A response with a client error for a missing session, login or right, and a database as it was.\<close>

definition refused :: "db \<Rightarrow> int \<Rightarrow> db \<Rightarrow> bool" where
  "refused d st d' \<longleftrightarrow> d' = d \<and> st \<in> {400, 401, 403}"

text \<open>Behind the session gate the request carries a user of the database, to whom its session is bound.\<close>

lemma mountCustomer_wp:
  assumes "\<And>st. st \<in> {400, 401, 403} \<Longrightarrow> J st (w_db (sv_world s))"
    and "\<And>body sid (u :: user) s'. calm s s' \<Longrightarrow> sessionUser rq s = Some (u_id u) \<Longrightarrow>
           findUserById (w_db (sv_world s)) (u_id u) = Some u \<Longrightarrow>
           wp (k (rq\<lparr>rq_body := body, rq_sessionId := Some sid, rq_user := Some (u_id u, u_username u, u_role u)\<rparr>))
             (\<lambda>rs s'. J (rs_status rs) (w_db (sv_world s')))
             (\<lambda>e s'. J (rs_status (errorResponse rq e)) (w_db (sv_world s'))) s'"
  shows "wp (mountCustomer P k rq) (\<lambda>rs s'. J (rs_status rs) (w_db (sv_world s')))
     (\<lambda>e s'. e = Diverged \<and> J 500 (w_db (sv_world s'))) s"
  unfolding mountCustomer_def mountOpen_def
proof (rule encryptedResponse_wp [where I = "\<lambda>st s'. J st (w_db (sv_world s'))"], simp add: calm_def,
    rule decryptMiddleware_wp)
  have deny: "J (rs_status (errorResponse rq (HttpErr e))) (w_db (sv_world s'))" if "calm s s'" "isRefusal e" for e s'
    using that assms(1) by (simp add: calm_db errorResponse_def isRefusal_def)
  then show "calm s s' \<Longrightarrow> isRefusal e \<Longrightarrow> J (rs_status (errorResponse rq (HttpErr e))) (w_db (sv_world s'))" for e s' .
  fix body sid and s1 :: server assume c: "calm s s1" and h: "headerSession rq = Some sid"
  show "wp (requireSession k (rq\<lparr>rq_body := body, rq_sessionId := Some sid\<rparr>))
     (\<lambda>rs s'. J (rs_status rs) (w_db (sv_world s')))
     (\<lambda>e s'. J (rs_status (errorResponse rq e)) (w_db (sv_world s'))) s1"
  proof (rule requireSession_wp)
    show "calm s1 s2 \<Longrightarrow> isRefusal e \<Longrightarrow> J (rs_status (errorResponse rq (HttpErr e))) (w_db (sv_world s2))" for e s2
      by (rule deny [OF calm_trans [OF c]])
  next
    fix r :: user and s2 :: server
    assume c2: "calm s1 s2" and b: "boundTo s1 (the (rq_sessionId (rq\<lparr>rq_body := body, rq_sessionId := Some sid\<rparr>))) = Some (u_id r)"
      and f: "findUserById (w_db (sv_world s1)) (u_id r) = Some r"
    have "sessionUser rq s = Some (u_id r)" using boundTo_calm [OF c] b h by (simp add: sessionUser_def)
    moreover have "findUserById (w_db (sv_world s)) (u_id r) = Some r" using f calm_db [OF c] by simp
    ultimately show "wp (k (rq\<lparr>rq_body := body, rq_sessionId := Some sid, rq_user := Some (u_id r, u_username r, u_role r)\<rparr>))
       (\<lambda>rs s'. J (rs_status rs) (w_db (sv_world s')))
       (\<lambda>e s'. J (rs_status (errorResponse rq e)) (w_db (sv_world s'))) s2"
      using assms(2) [OF calm_trans [OF c c2]] by simp
  qed
qed

section \<open>The gates\<close>

text \<open>What the answer to a request may be when the caller has, or has not, the access \<open>a\<close>.\<close>

definition gated :: "access \<Rightarrow> request \<Rightarrow> server \<Rightarrow> int \<Rightarrow> db \<Rightarrow> bool" where
  "gated a rq s st d' \<longleftrightarrow> grants a (w_db (sv_world s)) (sessionUser rq s) \<or> refused (w_db (sv_world s)) st d'"

definition gatedBy :: "access \<Rightarrow> handler \<Rightarrow> bool" where
  "gatedBy a h \<longleftrightarrow> (\<forall>rq s. wp (h rq) (\<lambda>rs s'. gated a rq s (rs_status rs) (w_db (sv_world s')))
     (\<lambda>e s'. e = Diverged \<and> gated a rq s 500 (w_db (sv_world s'))) s)"

lemma grants_signed: "sessionUser rq s = Some (u_id u) \<Longrightarrow> findUserById d (u_id u) = Some u \<Longrightarrow>
   (a = Administrator \<Longrightarrow> u_role u = Admin) \<Longrightarrow> (a = BankingCustomer \<Longrightarrow> bankingAccessError d (u_id u) = Inr ()) \<Longrightarrow>
   grants a d (sessionUser rq s)"
  by (auto simp: grants_def)

lemma wp_granted: "grants a (w_db (sv_world s)) (sessionUser rq s) \<Longrightarrow>
   wp m (\<lambda>rs s'. gated a rq s (rs_status rs) (w_db (sv_world s')))
     (\<lambda>e s'. gated a rq s (rs_status (errorResponse rq e)) (w_db (sv_world s'))) s1"
  by (simp add: gated_def)

lemma gated_customer: "gatedBy SignedIn (mountCustomer P k)"
  unfolding gatedBy_def
  by (intro allI mountCustomer_wp wp_granted grants_signed) (simp_all add: gated_def refused_def)

lemma gated_banking: "gatedBy BankingCustomer (mountBanking P k)"
  unfolding gatedBy_def mountBanking_def
proof (intro allI mountCustomer_wp)
  fix rq body sid and u :: user and s s1 :: server
  assume c: "calm s s1" and u: "sessionUser rq s = Some (u_id u)" "findUserById (w_db (sv_world s)) (u_id u) = Some u"
  show "wp (requireBankingAccess k (rq\<lparr>rq_body := body, rq_sessionId := Some sid, rq_user := Some (u_id u, u_username u, u_role u)\<rparr>))
     (\<lambda>rs s'. gated BankingCustomer rq s (rs_status rs) (w_db (sv_world s')))
     (\<lambda>e s'. gated BankingCustomer rq s (rs_status (errorResponse rq e)) (w_db (sv_world s'))) s1"
    by (rule requireBankingAccess_wp)
      (simp add: gated_def refused_def errorResponse_def isRefusal_def calm_db [OF c],
       rule wp_granted, rule grants_signed [OF u], simp_all add: callerId_def calm_db [OF c])
qed (simp add: gated_def refused_def)

lemma gated_admin: "gatedBy Administrator (mountAdmin P k)"
  unfolding gatedBy_def mountAdmin_def
proof (intro allI mountCustomer_wp)
  fix rq body sid and u :: user and s s1 :: server
  assume c: "calm s s1" and u: "sessionUser rq s = Some (u_id u)" "findUserById (w_db (sv_world s)) (u_id u) = Some u"
  show "wp (requireRole Admin k (rq\<lparr>rq_body := body, rq_sessionId := Some sid, rq_user := Some (u_id u, u_username u, u_role u)\<rparr>))
     (\<lambda>rs s'. gated Administrator rq s (rs_status rs) (w_db (sv_world s')))
     (\<lambda>e s'. gated Administrator rq s (rs_status (errorResponse rq e)) (w_db (sv_world s'))) s1"
    by (rule requireRole_wp)
      (simp add: gated_def refused_def errorResponse_def isRefusal_def calm_db [OF c],
       rule wp_granted, rule grants_signed [OF u], simp_all add: callerRole_def)
qed (simp add: gated_def refused_def)

lemma gated_any: "gated AnyCaller rq s st d"
  by (simp add: gated_def grants_def)

lemma gated_open: "gatedBy AnyCaller (mountOpen P k)" "gatedBy AnyCaller (answerErrors k)"
proof -
  have "wp (encryptedResponse P k' rq) (\<lambda>_ _. True) (\<lambda>e _. e = Diverged \<and> True) s" for k' rq and s :: server
    by (rule encryptedResponse_wp [where I = "\<lambda>_ _. True"]) (simp_all add: wp_True)
  then show "gatedBy AnyCaller (mountOpen P k)" by (simp add: gatedBy_def gated_any mountOpen_def)
  show "gatedBy AnyCaller (answerErrors k)"
    unfolding gatedBy_def gated_any answerErrors_def wp_tryCatch wp_ret by (intro allI wp_mono [OF wp_True]) (auto simp: gated_any)
qed

lemmas gated_mounts = gated_customer gated_banking gated_admin gated_open

lemma gated_dispatch: "gatedBy (accessOf ep) (dispatch P ep)"
proof (cases ep)
  case (EpPayment r)
  then show ?thesis by (cases r) (simp_all add: adminPayments_def gated_mounts)
next
  case (EpAccount r)
  then show ?thesis by (cases r) (simp_all add: gated_mounts)
next
  case (EpCard r)
  then show ?thesis by (cases r) (simp_all add: gated_mounts)
next
  case (EpPayee r)
  then show ?thesis by (cases r) (simp_all add: gated_mounts)
next
  case (EpCustomer r)
  then show ?thesis by (cases r) (simp_all add: gated_mounts)
next
  case (EpAudit r)
  then show ?thesis by (cases r) (simp_all add: gated_mounts)
next
  case (EpIdentity r)
  then show ?thesis by (cases r) (simp_all add: gated_mounts)
next
  case (EpOpen r)
  then show ?thesis by (cases r) (simp_all add: gated_mounts)
qed

text \<open>
  C3: The mounts are the gates: at every endpoint, whatever the request holds, the session it names is bound to a user
  with the access the endpoint calls for (any user, one admitted to banking, an administrator), or the request is
  answered with 400, 401 or 403 and the whole database is as it was. No error leaves a mount: a request that
  returns is answered.
\<close>

theorem access_enforced:
  "case dispatch P ep rq s of (r, s') \<Rightarrow>
     (grants (accessOf ep) (w_db (sv_world s)) (sessionUser rq s)
        \<or> (\<exists>rs. r = Inr rs \<and> rs_status rs \<in> {400, 401, 403} \<and> w_db (sv_world s') = w_db (sv_world s)))
     \<and> (r = Inl Diverged \<or> (\<exists>rs. r = Inr rs))"
proof -
  obtain r s' where d: "dispatch P ep rq s = (r, s')" by fastforce
  from gated_dispatch [of ep P]
  have "wp (dispatch P ep rq) (\<lambda>rs s'. gated (accessOf ep) rq s (rs_status rs) (w_db (sv_world s')))
     (\<lambda>e s'. e = Diverged \<and> gated (accessOf ep) rq s 500 (w_db (sv_world s'))) s"
    by (simp add: gatedBy_def)
  with d show ?thesis by (cases r) (auto simp: gated_def refused_def wp_def)
qed

end
