(* ===== verification/Gestures.thy ===== *)
theory Gestures
  imports Gates
begin

text \<open>
  The endpoints that demand a fresh gesture of the customer: an action token (\<open>middleware/step-up.ts\<close>), a
  one-time code (\<open>middleware/otp.ts\<close>) or both, and the proof that nothing but the audit log changes without them.
\<close>

section \<open>The table of gestures\<close>



section \<open>What programs leave alone in the token stores\<close>

text \<open>The consumed action tokens, or the consumed tokens of one-time codes.\<close>

definition jtis :: "bool \<Rightarrow> server \<Rightarrow> consumed_jti" where
  "jtis otp s = (if otp then sv_otpJti s else sv_actionJti s)"

definition sameJtis :: "bool \<Rightarrow> 'a http \<Rightarrow> bool" where
  "sameJtis otp m \<longleftrightarrow> (\<forall>s. jtis otp (snd (m s)) = jtis otp s)"

named_theorems jti_rules \<open>programs that leave the consumed tokens alone\<close>

lemma jtis_simps [simp]:
  "jtis otp (s\<lparr>sv_world := w\<rparr>) = jtis otp s" "jtis otp (s\<lparr>sv_sessions := t\<rparr>) = jtis otp s"
  "jtis otp (s\<lparr>sv_logins := l\<rparr>) = jtis otp s" "jtis otp (ticked s) = jtis otp s" "jtis otp (s\<lparr>sv_velocity := b\<rparr>) = jtis otp s"
  by (simp_all add: jtis_def)

lemma sameJtis_control [jti_rules]:
  "sameJtis otp m \<Longrightarrow> (\<And>x. sameJtis otp (k x)) \<Longrightarrow> sameJtis otp (bnd m k)"
  "sameJtis otp m \<Longrightarrow> (\<And>e. sameJtis otp (h e)) \<Longrightarrow> sameJtis otp (tryCatch m h)"
  unfolding sameJtis_def bnd_def tryCatch_def by (auto split: prod.splits sum.splits) (metis snd_conv)+

lemma sameJtis_basic [jti_rules]:
  "sameJtis otp (ret x)" "sameJtis otp (raise e)" "sameJtis otp (throwIf c e)" "sameJtis otp (lift r)" "sameJtis otp (need y e)"
  "sameJtis otp (gets f)"
  by (auto simp: sameJtis_def ret_def raise_def throwIf_def lift_def need_def gets_def split: option.splits)

lemma sameJtis_inWorld [jti_rules]: "sameJtis otp (inWorld m)"
  by (auto simp: sameJtis_def inWorld_def split: prod.splits)

lemma sameJtis_cases [jti_rules]:
  "sameJtis otp m \<Longrightarrow> sameJtis otp n \<Longrightarrow> sameJtis otp (if c then m else n)"
  "sameJtis otp m \<Longrightarrow> (\<And>x. sameJtis otp (f x)) \<Longrightarrow> sameJtis otp (case y of None \<Rightarrow> m | Some x \<Rightarrow> f x)"
  "(\<And>a b. sameJtis otp (g a b)) \<Longrightarrow> sameJtis otp (case p of (a, b) \<Rightarrow> g a b)"
  "sameJtis otp (h z) \<Longrightarrow> sameJtis otp (Let z h)"
  by (auto split: option.splits prod.splits)

lemma sameJtis_http [jti_rules]:
  "sameJtis otp nowMs" "sameJtis otp (query f)" "sameJtis otp (fail e)" "sameJtis otp (require y g)" "sameJtis otp (check400 b msg)"
  "sameJtis otp (json200 j)" "sameJtis otp (jsonStatus st j)"
  unfolding nowMs_def query_def fail_def require_def check400_def json200_def jsonStatus_def by (intro jti_rules)+

lemma sameJtis_mapError [jti_rules]: "sameJtis otp m \<Longrightarrow> sameJtis otp (mapError f m)"
  unfolding mapError_def by (intro jti_rules)

lemma sameJtis_step: "(\<And>x t s. jtis otp (g t s) = jtis otp s) \<Longrightarrow> sameJtis otp (\<lambda>s. case f s of (x, t) \<Rightarrow> (Inr (y x), g t s))"
  by (auto simp: sameJtis_def split: prod.splits)

lemma sameJtis_stores [jti_rules]:
  "sameJtis otp (onSessions f)" "(\<And>t s. jtis otp (put t s) = jtis otp s) \<Longrightarrow> sameJtis otp (onStore get put h)"
  unfolding onSessions_def onStore_def by (intro jti_rules sameJtis_step; simp)+

lemma sameJtis_audit [jti_rules]: "sameJtis otp (k rq) \<Longrightarrow> sameJtis otp (auditMiddleware P a t k rq)"
  unfolding sameJtis_def auditMiddleware_def inWorld_def by (auto split: prod.splits) (metis snd_conv)+

lemma sameJtis_stepUp [jti_rules]:
  assumes "\<And>rq. sameJtis True (k rq)"
  shows "sameJtis True (requireStepUp P a k rq)"
proof -
  have v: "sameJtis True (case vv of VelAllowed \<Rightarrow> k rq
       | VelMinute r \<Rightarrow> fail (tooManyRequestsError ''Velocity cap (minute) reached'' (Some r))
       | VelDay r \<Rightarrow> fail (tooManyRequestsError ''Velocity cap (day) reached'' (Some r)))" for vv
    by (cases vv) (auto intro: jti_rules assms)
  show ?thesis unfolding requireStepUp_def Let_def by (intro jti_rules sameJtis_step v) (simp_all add: jtis_def)
qed

section \<open>What changes the data needs its tokens\<close>




















section \<open>The handlers behind the gestures\<close>

lemma sameJtis_reading [jti_rules]:
  "sameJtis otp (needUuid v m)" "sameJtis otp (needText n v m)" "sameJtis otp (needPositive rq f m)" "sameJtis otp (tierOf rq)"
  "sameJtis otp (checkMemo rq)" "sameJtis otp (optKey rq)" "sameJtis otp (needAmount rq)"
  "sameJtis otp (needPassword rq)" "sameJtis otp (ownCredential u i)" "sameJtis otp (needCredential rq i)" "sameJtis otp (needUser rq)"
  unfolding needUuid_def needText_def needPositive_def tierOf_def checkMemo_def optKey_def needAmount_def
    needPassword_def ownCredential_def needCredential_def needUser_def
  by (intro jti_rules)+

lemma sameJtis_helpers [jti_rules]:
  "sameJtis otp (needEndDate P v)" "sameJtis otp m \<Longrightarrow> sameJtis otp (bestEffort m)" "sameJtis otp (changeSiRoute change rq)"
  unfolding needEndDate_def bestEffort_def changeSiRoute_def by (auto split: option.split json.split intro!: jti_rules)

lemma sameJtis_payments [jti_rules]:
  "sameJtis otp (postTransferRoute bus rq)" "sameJtis otp (postRailRoute bus rq)" "sameJtis otp (postFaucetRoute bus rq)"
  unfolding postTransferRoute_def postRailRoute_def postFaucetRoute_def resolvePayee_def by (auto intro!: jti_rules split: json.split)

lemma sameJtis_accounts [jti_rules]:
  "sameJtis otp (postAccountRoute bus rq)" "sameJtis otp (postCloseRoute bus rq)" "sameJtis otp (postFdRoute rq)"
  "sameJtis otp (postPrematureCloseRoute rq)"
  unfolding postAccountRoute_def postCloseRoute_def postFdRoute_def postPrematureCloseRoute_def by (intro jti_rules)+

lemma sameJtis_cards [jti_rules]:
  "sameJtis otp (postCardRoute bus rq)" "sameJtis otp (postCardLimitsRoute rq)" "sameJtis otp (postSpendRoute bus rq)"
  "sameJtis otp (postFreezeCardRoute bus rq)" "sameJtis otp (postUnfreezeCardRoute rq)" "sameJtis otp (postCancelCardRoute bus rq)"
  unfolding postCardRoute_def postCardLimitsRoute_def postSpendRoute_def postFreezeCardRoute_def postUnfreezeCardRoute_def
    postCancelCardRoute_def
  by (intro jti_rules)+

lemma sameJtis_payees [jti_rules]:
  "sameJtis otp (postBeneficiaryRoute bus rq)" "sameJtis otp (postRenameRoute bus rq)" "sameJtis otp (postExternalRoute rq)"
  "sameJtis otp (postRemoveRoute bus rq)" "sameJtis otp (postBillRoute bus rq)" "sameJtis otp (postSiRoute P bus rq)"
  "sameJtis otp (postPauseRoute bus rq)" "sameJtis otp (postResumeRoute bus rq)" "sameJtis otp (postCancelSiRoute bus rq)"
  unfolding postBeneficiaryRoute_def postRenameRoute_def postExternalRoute_def postRemoveRoute_def postBillRoute_def postSiRoute_def
    postPauseRoute_def postResumeRoute_def postCancelSiRoute_def
  by (intro jti_rules)+

lemma sameJtis_identity [jti_rules]:
  "sameJtis otp (postPasswordChangeRoute P bus rq)" "sameJtis otp (postContactRoute rq)" "sameJtis otp (postWipeRoute rq)"
  "sameJtis otp (postEnrollOptionsRoute P rq)" "sameJtis otp (postRevokeRoute bus rq)" "sameJtis otp (postRecoveryCodeRoute P bus rq)"
  unfolding postPasswordChangeRoute_def postContactRoute_def postWipeRoute_def postEnrollOptionsRoute_def postRevokeRoute_def
    postRecoveryCodeRoute_def Let_def
  by (intro jti_rules; simp add: jtis_def)+

section \<open>The endpoints\<close>



end
