(* ===== verification/App.thy ===== *)
theory App
  imports Gates
begin

text \<open>
  The application in front of the endpoints: \<open>app.ts\<close>, \<open>middleware/request-id.ts\<close>,
  \<open>middleware/security-headers.ts\<close>, the mounts of \<open>routes/index.ts\<close> and the routes every router registers.
  Express is a parameter: its body parser, its matching of paths, and Swagger UI behind \<open>/api-docs\<close>.
\<close>

section \<open>Express\<close>

record inbound =
  ib_method :: string
  ib_path :: string
  ib_url :: string
  ib_headers :: "string \<Rightarrow> string option"
  ib_query :: "(string \<times> json) list"
  ib_body :: string
  ib_ip :: "string option"

text \<open>
  \<open>ex_json\<close> is \<open>express.json\<close> on the headers and the text of the body: \<open>None\<close> when it throws (the text is no JSON,
  or longer than the limit), else what it makes of \<open>req.body\<close>. \<open>ex_route\<close> says whether a route, registered for
  a method and a pattern, takes a request, and the parameters it reads off the path; \<open>ex_mount\<close> whether a path
  is under a mount. \<open>ex_swagger\<close> is what Swagger UI answers.
\<close>

record express =
  ex_json :: "(string \<Rightarrow> string option) \<Rightarrow> string \<Rightarrow> json option option"
  ex_route :: "string \<Rightarrow> string \<Rightarrow> string \<Rightarrow> string \<Rightarrow> (string \<times> string) list option"
  ex_mount :: "string \<Rightarrow> string \<Rightarrow> bool"
  ex_swagger :: "inbound \<Rightarrow> response option"

section \<open>Headers\<close>

text \<open>\<open>res.setHeader\<close>, one after the other: a later value replaces an earlier one.\<close>

definition setHeaders :: "(string \<times> string) list \<Rightarrow> (string \<times> string) list \<Rightarrow> (string \<times> string) list" where
  "setHeaders hs later = foldl (\<lambda>h (k, v). mapSet h k v) hs later"

definition withHeaders :: "(string \<times> string) list \<Rightarrow> response http \<Rightarrow> response http" where
  "withHeaders hs m = bnd m (\<lambda>rs. ret (rs\<lparr>rs_headers := setHeaders hs (rs_headers rs)\<rparr>))"

definition quoted :: "string \<Rightarrow> string" where
  "quoted s = CHR 0x27 # s @ [CHR 0x27]"

definition FRONTEND_ORIGIN :: "string option \<Rightarrow> string" where
  "FRONTEND_ORIGIN env = (if truthy env then the env else ''http://localhost:5174'')"

definition contentSecurityPolicy :: "bool \<Rightarrow> string \<Rightarrow> string" where
  "contentSecurityPolicy isProd origin =
     (let self = quoted ''self''; none = quoted ''none'';
          scriptSrc = (if isProd then [self, quoted ''strict-dynamic'']
                       else [self, quoted ''unsafe-inline'', quoted ''unsafe-eval'']);
          connectSrc = (if isProd then [self, origin] else [self, origin, ''ws:'', ''wss:'']) in
      joinWith ''; '' (
        [''default-src '' @ self, ''script-src '' @ joinWith '' '' scriptSrc,
         ''style-src '' @ self @ '' '' @ quoted ''unsafe-inline'', ''img-src '' @ self @ '' data:'',
         ''font-src '' @ self @ '' data:'', ''connect-src '' @ joinWith '' '' connectSrc,
         ''frame-ancestors '' @ none, ''base-uri '' @ none, ''object-src '' @ none, ''form-action '' @ self,
         ''worker-src '' @ self @ '' blob:'']
        @ (if isProd then [''upgrade-insecure-requests''] else [])
        @ (if isProd then [''require-trusted-types-for '' @ quoted ''script'', ''trusted-types default react''] else [])))"

definition securityHeaders :: "bool \<Rightarrow> string \<Rightarrow> (string \<times> string) list" where
  "securityHeaders isProd origin =
     [(''Content-Security-Policy'', contentSecurityPolicy isProd origin), (''X-Content-Type-Options'', ''nosniff''),
      (''Referrer-Policy'', ''strict-origin-when-cross-origin''), (''Cross-Origin-Opener-Policy'', ''same-origin''),
      (''Cross-Origin-Resource-Policy'', ''same-origin''),
      (''Permissions-Policy'', joinWith '', '' [''geolocation=()'', ''camera=()'', ''microphone=()'', ''payment=()''])]
     @ (if isProd then [(''Strict-Transport-Security'', ''max-age=31536000; includeSubDomains'')] else [])"

definition corsHeaders :: "string \<Rightarrow> (string \<times> string) list" where
  "corsHeaders origin =
     [(''Access-Control-Allow-Origin'', origin), (''Vary'', ''Origin''),
      (''Access-Control-Allow-Headers'', ''Content-Type, x-session-id, x-request-id, x-action-token''),
      (''Access-Control-Expose-Headers'', ''x-request-id, Retry-After''),
      (''Access-Control-Allow-Methods'', ''GET, POST, OPTIONS'')]"

definition SWAGGER_CSP :: string where
  "SWAGGER_CSP =
     (let self = quoted ''self''; inline = quoted ''unsafe-inline''; none = quoted ''none'' in
      joinWith ''; ''
        [''default-src '' @ self, ''script-src '' @ self @ '' '' @ inline, ''style-src '' @ self @ '' '' @ inline,
         ''img-src '' @ self @ '' data:'', ''font-src '' @ self @ '' data:'', ''connect-src '' @ self,
         ''worker-src '' @ self @ '' blob:'', ''frame-ancestors '' @ none, ''base-uri '' @ self, ''object-src '' @ none])"

text \<open>An inbound identifier of at most 128 characters is honoured.\<close>

definition requestIdMiddleware :: "(string \<Rightarrow> string option) \<Rightarrow> (string \<Rightarrow> response http) \<Rightarrow> response http" where
  "requestIdMiddleware headers k =
     bnd (case headers ''x-request-id'' of
            Some x \<Rightarrow> if x \<noteq> [] \<and> length x \<le> 128 then ret x else inWorld uuid
          | None \<Rightarrow> inWorld uuid) (\<lambda>requestId.
     withHeaders [(''x-request-id'', requestId)] (k requestId))"

section \<open>Routers\<close>

text \<open>The middlewares a router is mounted behind.\<close>

datatype mount_gate = Bare | DevOnly | Sealed | WithSession | WithBanking | WithAdmin

fun mountWith :: "mount_gate \<Rightarrow> platform \<Rightarrow> middleware" where
  "mountWith Bare P k = answerErrors k"
| "mountWith DevOnly P k = answerErrors (devOnly P k)"
| "mountWith Sealed P k = mountOpen P k"
| "mountWith WithSession P k = mountCustomer P k"
| "mountWith WithBanking P k = mountBanking P k"
| "mountWith WithAdmin P k = mountAdmin P k"

type_synonym route_entry = "string \<times> string \<times> endpoint"

definition securityRouter :: "route_entry list" where
  "securityRouter = [(''GET'', ''/session'', EpOpen NewSession), (''POST'', ''/handshake'', EpOpen Handshake)]"

definition devRouter :: "route_entry list" where
  "devRouter = [(''POST'', ''/login-as'', EpOpen LoginAs), (''POST'', ''/reset-password'', EpOpen ResetPassword)]"

definition identityRouter :: "route_entry list" where
  "identityRouter =
     [(''POST'', ''/signup'', EpIdentity Signup), (''POST'', ''/login/password'', EpIdentity LoginPassword),
      (''POST'', ''/login/recovery'', EpIdentity LoginRecovery),
      (''POST'', ''/login/passkey/options'', EpIdentity PasskeyOptions),
      (''GET'', ''/me'', EpIdentity Me), (''POST'', ''/logout'', EpIdentity Logout),
      (''POST'', ''/login/passkey/verify'', EpIdentity PasskeyVerify),
      (''POST'', ''/otp/request'', EpIdentity OtpRequest), (''POST'', ''/otp/verify'', EpIdentity OtpVerify),
      (''POST'', ''/password/change'', EpIdentity PasswordChange),
      (''POST'', ''/contact/change'', EpIdentity ContactChange), (''GET'', ''/sessions'', EpIdentity Sessions),
      (''POST'', ''/sessions/wipe-others'', EpIdentity WipeOthers)]"

definition credentialsRouter :: "route_entry list" where
  "credentialsRouter =
     [(''GET'', ''/'', EpIdentity Credentials), (''POST'', ''/enroll-options'', EpIdentity EnrollOptions),
      (''POST'', ''/:id/label'', EpIdentity LabelCredential), (''POST'', ''/:id/revoke'', EpIdentity RevokeCredential)]"

definition webauthnRouter :: "route_entry list" where
  "webauthnRouter =
     [(''POST'', ''/registration/options'', EpIdentity RegistrationOptions),
      (''POST'', ''/registration/verify'', EpIdentity RegistrationVerify),
      (''POST'', ''/authentication/options'', EpIdentity AuthenticationOptions),
      (''POST'', ''/authentication/verify'', EpIdentity AuthenticationVerify)]"

definition kycCustomerRouter :: "route_entry list" where
  "kycCustomerRouter = [(''POST'', ''/'', EpCustomer SubmitKyc), (''GET'', ''/me'', EpCustomer MyKyc)]"

definition accountsCustomerRouter :: "route_entry list" where
  "accountsCustomerRouter =
     [(''GET'', ''/me'', EpAccount MyAccounts), (''GET'', ''/types'', EpAccount AccountTypes),
      (''POST'', ''/'', EpAccount OpenAccount), (''GET'', ''/fixed-deposits'', EpAccount MyFds),
      (''POST'', ''/fixed-deposits'', EpAccount OpenFd),
      (''POST'', ''/fixed-deposits/:id/premature-close'', EpAccount CloseFd),
      (''POST'', ''/:id/close'', EpAccount CloseAccount), (''GET'', ''/:id/nominees'', EpAccount MyNominees),
      (''POST'', ''/:id/nominees'', EpAccount AddNominee),
      (''POST'', ''/:id/nominees/:nomineeId/remove'', EpAccount DropNominee)]"

definition statementsRouter :: "route_entry list" where
  "statementsRouter =
     [(''GET'', ''/:accountId'', EpCustomer Statement), (''GET'', ''/:accountId/csv'', EpCustomer StatementCsv),
      (''GET'', ''/:accountId/pdf'', EpCustomer StatementPdf)]"

definition beneficiariesRouter :: "route_entry list" where
  "beneficiariesRouter =
     [(''GET'', ''/'', EpPayee MyPayees), (''POST'', ''/'', EpPayee AddPayee),
      (''POST'', ''/:id/rename'', EpPayee RenamePayee), (''GET'', ''/external'', EpPayee MyExternals),
      (''POST'', ''/external'', EpPayee AddExternal), (''POST'', ''/:id/remove'', EpPayee RemovePayee)]"

definition billsRouter :: "route_entry list" where
  "billsRouter =
     [(''GET'', ''/billers'', EpPayee Billers), (''GET'', ''/saved'', EpPayee SavedBills),
      (''POST'', ''/saved'', EpPayee SaveBill), (''POST'', ''/saved/:id/remove'', EpPayee RemoveSavedBill),
      (''POST'', ''/payments/bill'', EpPayee PayBill)]"

definition standingInstructionsRouter :: "route_entry list" where
  "standingInstructionsRouter =
     [(''GET'', ''/'', EpPayee MySis), (''POST'', ''/'', EpPayee CreateSi), (''POST'', ''/:id/pause'', EpPayee PauseSi),
      (''POST'', ''/:id/resume'', EpPayee ResumeSi), (''POST'', ''/:id/cancel'', EpPayee CancelSi)]"

definition notificationsRouter :: "route_entry list" where
  "notificationsRouter =
     [(''GET'', ''/'', EpCustomer Notifications), (''POST'', ''/:id/read'', EpCustomer ReadOne),
      (''POST'', ''/mark-all-read'', EpCustomer ReadAll)]"

definition cardsRouter :: "route_entry list" where
  "cardsRouter =
     [(''GET'', ''/mine'', EpCard MyCards), (''GET'', ''/:id/limits'', EpCard CardLimits),
      (''POST'', ''/'', EpCard IssueCard), (''POST'', ''/:id/limits'', EpCard SetLimits),
      (''POST'', ''/:id/spend'', EpCard SpendCard), (''POST'', ''/:id/freeze'', EpCard FreezeCard),
      (''POST'', ''/:id/unfreeze'', EpCard UnfreezeCard), (''POST'', ''/:id/cancel'', EpCard CancelCard)]"

definition transferCustomerRouter :: "route_entry list" where
  "transferCustomerRouter =
     [(''POST'', ''/'', EpPayment PostTransfer), (''GET'', ''/limits'', EpPayment GetLimits),
      (''POST'', ''/rail'', EpPayment PostRail), (''POST'', ''/disputes'', EpPayment PostDispute),
      (''GET'', ''/disputes'', EpPayment GetDisputes), (''GET'', ''/recent'', EpPayment GetRecent),
      (''GET'', ''/mine'', EpPayment GetMine), (''GET'', ''/:id'', EpPayment GetTransfer)]"

definition kycAdminRouter :: "route_entry list" where
  "kycAdminRouter =
     [(''GET'', ''/queue'', EpCustomer KycQueue), (''POST'', ''/:id/approve'', EpCustomer ApproveKyc),
      (''POST'', ''/:id/reject'', EpCustomer RejectKyc)]"

definition accountsAdminRouter :: "route_entry list" where
  "accountsAdminRouter =
     [(''GET'', ''/'', EpAccount AllAccounts), (''POST'', ''/:id/freeze'', EpAccount FreezeAccount),
      (''POST'', ''/:id/unfreeze'', EpAccount UnfreezeAccount)]"

definition transactionsAdminRouter :: "route_entry list" where
  "transactionsAdminRouter =
     [(''GET'', ''/'', EpPayment AdminTransactions), (''GET'', ''/disputes'', EpPayment AdminDisputes),
      (''POST'', ''/disputes/:id/decide'', EpPayment AdminDecide),
      (''GET'', ''/pending-actions'', EpPayment AdminPending),
      (''POST'', ''/pending-actions/:id/approve'', EpPayment AdminApprove)]"

definition faucetAdminRouter :: "route_entry list" where
  "faucetAdminRouter = [(''POST'', ''/'', EpPayment PostFaucet)]"

definition usersAdminRouter :: "route_entry list" where
  "usersAdminRouter =
     [(''GET'', ''/'', EpIdentity Users), (''POST'', ''/:id/unlock'', EpIdentity UnlockUser),
      (''POST'', ''/:id/lock'', EpIdentity LockUser), (''POST'', ''/:id/role'', EpIdentity ChangeRole),
      (''POST'', ''/:id/recovery-code'', EpIdentity NewRecoveryCode)]"

definition auditAdminRouter :: "route_entry list" where
  "auditAdminRouter =
     [(''GET'', ''/'', EpAudit ListAudit), (''GET'', ''/verify'', EpAudit VerifyAudit),
      (''GET'', ''/actions'', EpAudit AuditActionNames), (''GET'', ''/export.csv'', EpAudit ExportAudit),
      (''GET'', ''/:id'', EpAudit ViewAudit)]"

text \<open>The mounts in their order; the routers of \<open>/admin\<close> are behind its gate.\<close>

definition mounts :: "(string \<times> mount_gate \<times> route_entry list) list" where
  "mounts =
     [(''/security'', Bare, securityRouter), (''/dev'', DevOnly, devRouter), (''/identity'', Sealed, identityRouter),
      (''/identity/credentials'', WithSession, credentialsRouter), (''/webauthn'', Sealed, webauthnRouter),
      (''/kyc'', WithSession, kycCustomerRouter), (''/accounts'', WithSession, accountsCustomerRouter),
      (''/statements'', WithBanking, statementsRouter), (''/beneficiaries'', WithBanking, beneficiariesRouter),
      (''/bills'', WithBanking, billsRouter), (''/standing-instructions'', WithBanking, standingInstructionsRouter),
      (''/notifications'', WithSession, notificationsRouter), (''/cards'', WithBanking, cardsRouter),
      (''/transfer'', WithBanking, transferCustomerRouter), (''/admin'', WithAdmin, []),
      (''/admin/kyc'', WithAdmin, kycAdminRouter), (''/admin/accounts'', WithAdmin, accountsAdminRouter),
      (''/admin/transactions'', WithAdmin, transactionsAdminRouter), (''/admin/faucet'', WithAdmin, faucetAdminRouter),
      (''/admin/users'', WithAdmin, usersAdminRouter), (''/admin/audit'', WithAdmin, auditAdminRouter)]"

definition routeTable :: "route_entry list" where
  "routeTable = concat (map (\<lambda>(prefix, _, routes). map (\<lambda>(m, path, ep). (m, prefix @ path, ep)) routes) mounts)"

text \<open>The first route that takes the request.\<close>

fun findRoute :: "express \<Rightarrow> string \<Rightarrow> string \<Rightarrow> route_entry list \<Rightarrow> (endpoint \<times> (string \<times> string) list) option" where
  "findRoute E m path [] = None"
| "findRoute E m path ((m', pattern, ep) # rs) =
     (case ex_route E m' pattern m path of Some ps \<Rightarrow> Some (ep, ps) | None \<Rightarrow> findRoute E m path rs)"

text \<open>A path no route takes falls through to the 404 fallback, behind the gates of the mounts it is under.\<close>

definition unmatchedGate :: "express \<Rightarrow> string \<Rightarrow> mount_gate" where
  "unmatchedGate E path = last (Bare # map (\<lambda>(_, g, _). g) (filter (\<lambda>(prefix, _, _). ex_mount E prefix path) mounts))"

definition notFoundFallback :: "string \<Rightarrow> handler" where
  "notFoundFallback url rq = fail ((httpError 404 ''Not Found'')\<lparr>http_details := Some [(''path'', url)]\<rparr>)"

definition router :: "platform \<Rightarrow> express \<Rightarrow> inbound \<Rightarrow> handler" where
  "router P E ib rq =
     (let docs = ex_mount E ''/api-docs'' (ib_path ib) in
      withHeaders (if docs then [(''Content-Security-Policy'', SWAGGER_CSP)] else [])
       (case (if docs then ex_swagger E ib else None) of
          Some rs \<Rightarrow> ret rs
        | None \<Rightarrow>
          (case findRoute E (ib_method ib) (ib_path ib) routeTable of
             Some (ep, params) \<Rightarrow> dispatch P ep (rq\<lparr>rq_params := params\<rparr>)
           | None \<Rightarrow> mountWith (unmatchedGate E (ib_path ib)) P (notFoundFallback (ib_url ib)) rq)))"

section \<open>The application\<close>

text \<open>What the body parser throws is no \<open>HttpError\<close>, and comes before the CORS headers.\<close>

definition serve :: "platform \<Rightarrow> express \<Rightarrow> string option \<Rightarrow> inbound \<Rightarrow> response http" where
  "serve P E env ib =
     requestIdMiddleware (ib_headers ib) (\<lambda>requestId.
     let origin = FRONTEND_ORIGIN env;
         rq = \<lparr>rq_method = ib_method ib, rq_headers = ib_headers ib, rq_params = [], rq_query = ib_query ib, rq_body = None,
               rq_ip = ib_ip ib, rq_requestId = requestId, rq_sessionId = None, rq_user = None\<rparr> in
     withHeaders (securityHeaders (pf_production P) origin)
      (case ex_json E (ib_headers ib) (ib_body ib) of
         None \<Rightarrow> ret (errorResponse rq (GenericError ''body-parser''))
       | Some body \<Rightarrow> withHeaders (corsHeaders origin)
          (if ib_method ib = ''OPTIONS'' then ret \<lparr>rs_status = 204, rs_body = JNull, rs_headers = []\<rparr>
           else if ex_route E ''GET'' ''/'' (ib_method ib) (ib_path ib) \<noteq> None
             then ret \<lparr>rs_status = 200, rs_body = JString ''Hello, TypeScript Backend!'', rs_headers = []\<rparr>
           else router P E ib (rq\<lparr>rq_body := body\<rparr>))))"

section \<open>How Express matches paths\<close>

fun splitOn :: "char \<Rightarrow> string \<Rightarrow> string list" where
  "splitOn c [] = [[]]"
| "splitOn c (x # xs) = (if x = c then [] # splitOn c xs
     else (case splitOn c xs of [] \<Rightarrow> [[x]] | y # ys \<Rightarrow> (x # y) # ys))"

definition segments :: "string \<Rightarrow> string list" where
  "segments path = filter (\<lambda>s. s \<noteq> []) (splitOn (CHR ''/'') path)"

definition slashed :: "string list \<Rightarrow> string" where
  "slashed ss = (if ss = [] then ''/'' else concat (map (\<lambda>s. CHR ''/'' # s) ss))"

definition isParam :: "string \<Rightarrow> bool" where
  "isParam s = (case s of [] \<Rightarrow> False | c # _ \<Rightarrow> c = CHR '':'')"

text \<open>Segment by segment; literals regardless of case, parameters anything.\<close>

definition fitsPath :: "string list \<Rightarrow> string list \<Rightarrow> bool" where
  "fitsPath ps ss = list_all2 (\<lambda>p s. isParam p \<or> toLowerCase p = toLowerCase s) ps ss"

fun under :: "string list \<Rightarrow> string list \<Rightarrow> bool" where
  "under [] ss = True"
| "under (p # ps) [] = False"
| "under (p # ps) (s # ss) = (toLowerCase p = toLowerCase s \<and> under ps ss)"

text \<open>
  The documented matching: a route only takes requests of its method (GET also HEAD) whose path fits its pattern, it
  does take those of its method and a well-formed fitting path, and what is under a mount starts with its segments.
\<close>

definition expressOk :: "express \<Rightarrow> bool" where
  "expressOk E \<longleftrightarrow>
     (\<forall>m pattern m' path. ex_route E m pattern m' path \<noteq> None \<longrightarrow>
        (m' = m \<or> m = ''GET'' \<and> m' = ''HEAD'') \<and> fitsPath (segments pattern) (segments path))
   \<and> (\<forall>m pattern ss. fitsPath (segments pattern) ss \<and> (\<forall>s \<in> set ss. s \<noteq> [] \<and> CHR ''/'' \<notin> set s) \<longrightarrow>
        ex_route E m pattern m (slashed ss) \<noteq> None)
   \<and> (\<forall>prefix path. ex_mount E prefix path \<longrightarrow> under (segments prefix) (segments path))"

lemma express_route:
  assumes "expressOk E" and "ex_route E m pattern m' path = Some ps"
  shows "(m' = m \<or> m = ''GET'' \<and> m' = ''HEAD'') \<and> fitsPath (segments pattern) (segments path)"
proof -
  from assms(2) have "ex_route E m pattern m' path \<noteq> None" by simp
  with assms(1) show ?thesis unfolding expressOk_def by blast
qed

lemma express_takes:
  assumes "expressOk E" and "fitsPath (segments pattern) ss" and "\<forall>s \<in> set ss. s \<noteq> [] \<and> CHR ''/'' \<notin> set s"
  shows "\<exists>ps. ex_route E m pattern m (slashed ss) = Some ps"
  using assms unfolding expressOk_def by blast

lemma express_mount: "expressOk E \<Longrightarrow> ex_mount E prefix path \<Longrightarrow> under (segments prefix) (segments path)"
  by (simp add: expressOk_def)

lemma segments_slashed:
  assumes "\<forall>s \<in> set ss. s \<noteq> [] \<and> CHR ''/'' \<notin> set s"
  shows "segments (slashed ss) = ss"
proof -
  have word: "splitOn c (s @ c # r) = s # splitOn c r" if "c \<notin> set s" for c s r
    using that by (induction s) auto
  have last: "splitOn c s = [s]" if "c \<notin> set s" for c s
    using that by (induction s) auto
  have ne: "splitOn c xs \<noteq> []" for c xs by (induction xs) (auto split: list.split)
  have "splitOn (CHR ''/'') (concat (map (\<lambda>s. CHR ''/'' # s) ss)) = [] # ss"
    using assms
  proof (induction ss)
    case (Cons s ss)
    then have "splitOn (CHR ''/'') (s @ concat (map (\<lambda>s. CHR ''/'' # s) ss)) = s # ss"
      by (cases ss) (auto simp: last word)
    then show ?case by simp
  qed simp
  then show ?thesis using assms by (auto simp: segments_def slashed_def)
qed

section \<open>The paths are guarded\<close>

fun gateAccess :: "mount_gate \<Rightarrow> access" where
  "gateAccess WithSession = SignedIn"
| "gateAccess WithBanking = BankingCustomer"
| "gateAccess WithAdmin = Administrator"
| "gateAccess _ = AnyCaller"

definition covers :: "access \<Rightarrow> access \<Rightarrow> bool" where
  "covers a b = (a = b \<or> b = AnyCaller \<or> b = SignedIn \<and> a \<noteq> AnyCaller)"

lemma grants_covers: "covers a b \<Longrightarrow> grants a d x \<Longrightarrow> grants b d x"
  by (auto simp: covers_def grants_def)

text \<open>The literals of the tables are in lower case, so that they match when they are equal.\<close>

definition plain :: "string \<Rightarrow> bool" where
  "plain s = list_all (\<lambda>c. c \<in> set ''abcdefghijklmnopqrstuvwxyz-.'') s"

lemma plain_lower: "plain s \<Longrightarrow> toLowerCase s = s"
  by (induction s) (auto simp: plain_def toLowerCase_def lowerChar_def isUpper_def)

definition tidy :: "string list \<Rightarrow> bool" where
  "tidy ss = list_all (\<lambda>s. isParam s \<or> plain s) ss"

fun maybeUnder :: "string list \<Rightarrow> string list \<Rightarrow> bool" where
  "maybeUnder [] qs = True"
| "maybeUnder (p # ps) [] = False"
| "maybeUnder (p # ps) (q # qs) = (if p = q \<or> isParam q then maybeUnder ps qs else False)"

lemma fitsPath_under: "fitsPath qs ss \<Longrightarrow> under ps ss \<Longrightarrow> tidy qs \<Longrightarrow> list_all plain ps \<Longrightarrow> maybeUnder ps qs"
proof (induction ps qs arbitrary: ss rule: maybeUnder.induct)
  case (3 p ps q qs)
  then show ?case by (cases ss) (auto simp: fitsPath_def tidy_def plain_lower)
qed (auto simp: fitsPath_def)

fun comparable :: "string list \<Rightarrow> string list \<Rightarrow> bool" where
  "comparable [] qs = True"
| "comparable (p # ps) [] = True"
| "comparable (p # ps) (q # qs) = (if p = q then comparable ps qs else False)"

lemma under_comparable: "under ps ss \<Longrightarrow> under qs ss \<Longrightarrow> list_all plain ps \<Longrightarrow> list_all plain qs \<Longrightarrow> comparable ps qs"
proof (induction ps qs arbitrary: ss rule: comparable.induct)
  case (3 p ps q qs)
  then show ?case by (cases ss) (auto simp: plain_lower)
qed auto

definition mountGates :: "(string list \<times> access) list" where
  "mountGates = map (\<lambda>(prefix, g, _). (segments prefix, gateAccess g)) mounts"

definition routeAccess :: "(string list \<times> access) list" where
  "routeAccess = map (\<lambda>(_, pattern, ep). (segments pattern, accessOf ep)) routeTable"

definition guardedRoutes :: "(string list \<times> access) list \<Rightarrow> (string list \<times> access) list \<Rightarrow> bool" where
  "guardedRoutes ms rs =
     list_all (\<lambda>(qs, a). tidy qs \<and> list_all (\<lambda>(ps, b). if maybeUnder ps qs then covers a b else True) ms) rs"

fun guardedMounts :: "(string list \<times> access) list \<Rightarrow> bool" where
  "guardedMounts [] = True"
| "guardedMounts ((ps, a) # ms) =
     (list_all (\<lambda>(qs, b). if comparable ps qs then covers b a else True) ms \<and> guardedMounts ms)"

lemma routes_guarded: "guardedRoutes mountGates routeAccess"
  by code_simp

lemma mounts_guarded: "guardedMounts mountGates"
  by code_simp

lemma mounts_apart: "list_all (\<lambda>(ps, a). ps \<noteq> [] \<and> list_all plain ps \<and> \<not> comparable ps [''api-docs'']) mountGates"
  by code_simp

text \<open>A response that grants nothing: the database is as it was.\<close>

definition guarded :: "access \<Rightarrow> string option \<Rightarrow> db \<Rightarrow> int \<Rightarrow> db \<Rightarrow> bool" where
  "guarded a x d st d' \<longleftrightarrow> grants a d x \<or> d' = d \<and> st \<in> {204, 400, 401, 403, 500}"

definition answers :: "access \<Rightarrow> string option \<Rightarrow> db \<Rightarrow> response http \<Rightarrow> server \<Rightarrow> bool" where
  "answers a x d m s \<longleftrightarrow> wp m (\<lambda>rs s'. guarded a x d (rs_status rs) (w_db (sv_world s')))
     (\<lambda>e s'. e = Diverged \<and> grants a d x) s"

lemma answers_headers: "answers a x d m s \<Longrightarrow> answers a x d (withHeaders hs m) s"
  by (simp add: answers_def withHeaders_def wp_rules)

lemma answers_ret: "w_db (sv_world s) = d \<Longrightarrow> rs_status rs \<in> {204, 400, 401, 403, 500} \<Longrightarrow> answers a x d (ret rs) s"
  by (simp add: answers_def wp_rules guarded_def)

lemma answers_gated:
  assumes "gatedBy b h" and "covers b a"
  shows "answers a (sessionUser rq s) (w_db (sv_world s)) (h rq) s"
proof -
  have "wp (h rq) (\<lambda>rs s'. gated b rq s (rs_status rs) (w_db (sv_world s')))
      (\<lambda>e s'. e = Diverged \<and> gated b rq s 500 (w_db (sv_world s'))) s"
    using assms(1) by (simp add: gatedBy_def)
  then show ?thesis unfolding answers_def
    by (rule wp_mono) (auto simp: gated_def refused_def guarded_def dest: grants_covers [OF assms(2)])
qed

lemma gated_mountWith: "gatedBy (gateAccess g) (mountWith g P k)"
  using gated_mounts by (cases g) (simp_all add: gatedBy_def)

lemma findRoute_mem:
  "findRoute E m path rs = Some (ep, ps) \<Longrightarrow> \<exists>m' pattern. (m', pattern, ep) \<in> set rs \<and> ex_route E m' pattern m path = Some ps"
  by (induction rs rule: findRoute.induct) (auto split: option.splits)

text \<open>What a path under a mount is resolved to is behind a gate that covers the mount's.\<close>

lemma mountGates_mem: "(prefix, g, rs) \<in> set mounts \<Longrightarrow> (segments prefix, gateAccess g) \<in> set mountGates"
  by (force simp: mountGates_def)

lemma mount_plain: "(ps, a) \<in> set mountGates \<Longrightarrow> ps \<noteq> [] \<and> list_all plain ps \<and> \<not> comparable ps [''api-docs'']"
  using mounts_apart by (auto simp: list_all_iff)

lemma route_covers:
  assumes "expressOk E" and "(prefix, g, rs) \<in> set mounts" and "ex_mount E prefix path"
    and "findRoute E m path routeTable = Some (ep, ps)"
  shows "covers (accessOf ep) (gateAccess g)"
proof -
  from findRoute_mem [OF assms(4)] obtain m' pattern
    where e: "(m', pattern, ep) \<in> set routeTable" "ex_route E m' pattern m path = Some ps" by blast
  have "(segments pattern, accessOf ep) \<in> set routeAccess" using e(1) by (force simp: routeAccess_def)
  with routes_guarded mountGates_mem [OF assms(2)]
  have t: "tidy (segments pattern)" "maybeUnder (segments prefix) (segments pattern) \<Longrightarrow> covers (accessOf ep) (gateAccess g)"
    by (fastforce simp: guardedRoutes_def list_all_iff)+
  have f: "fitsPath (segments pattern) (segments path)" "under (segments prefix) (segments path)"
    using express_route [OF assms(1) e(2)] express_mount [OF assms(1,3)] by simp_all
  have "list_all plain (segments prefix)" using mount_plain [OF mountGates_mem [OF assms(2)]] by simp
  from t(2) [OF fitsPath_under [OF f t(1) this]] show ?thesis .
qed

lemma guardedMounts_last:
  assumes "guardedMounts ms" and "(ps, a) \<in> set ms" and "\<And>qs b. (qs, b) \<in> set ms \<Longrightarrow> comparable ps qs"
  shows "covers (snd (last ms)) a"
  using assms
proof (induction ms)
  case (Cons x ms)
  show ?case
  proof (cases "ms = []")
    case True
    with Cons show ?thesis by (auto simp: covers_def)
  next
    case False
    obtain qs b where l: "last ms = (qs, b)" by fastforce
    with False have m: "(qs, b) \<in> set ms" by (metis last_in_set)
    have "covers b a" if "x = (ps, a)"
      using Cons.prems(1) m Cons.prems(3) [of qs b] that by (fastforce simp: list_all_iff)
    moreover have "covers (snd (last ms)) a" if "x \<noteq> (ps, a)"
    proof (rule Cons.IH)
      show "guardedMounts ms" using Cons.prems(1) by (cases x) simp
    qed (use Cons.prems that in auto)
    ultimately show ?thesis using False l by auto
  qed
qed simp

lemma unmatched_covers:
  assumes "expressOk E" and "(prefix, g, rs) \<in> set mounts" and "ex_mount E prefix path"
  shows "covers (gateAccess (unmatchedGate E path)) (gateAccess g)"
proof -
  let ?hit = "\<lambda>(prefix, _, _). ex_mount E prefix path"
  let ?f = "\<lambda>(prefix, g, _). (segments prefix, gateAccess g)"
  have filt: "guardedMounts (map ?f (filter Q xs))" if "guardedMounts (map ?f xs)" for Q and xs :: "(string \<times> mount_gate \<times> route_entry list) list"
    using that by (induction xs) (auto simp: list_all_iff)
  let ?ms = "map ?f (filter ?hit mounts)"
  have m: "(prefix, g, rs) \<in> set (filter ?hit mounts)" using assms(2,3) by simp
  have g: "guardedMounts ?ms" using mounts_guarded by (intro filt) (simp add: mountGates_def)
  have "comparable (segments prefix) qs" if hit: "(qs, b) \<in> set ?ms" for qs b
  proof -
    from hit obtain p where p: "(qs, b) \<in> set mountGates" "qs = segments p" "ex_mount E p path"
      by (force simp: mountGates_def)
    show ?thesis
      using under_comparable [OF express_mount [OF assms(1,3)] express_mount [OF assms(1) p(3)]]
        mount_plain [OF mountGates_mem [OF assms(2)]] mount_plain [OF p(1)] p(2) by simp
  qed
  with g m have "covers (snd (last ?ms)) (gateAccess g)"
    by (intro guardedMounts_last [of _ "segments prefix"]) force+
  moreover have "filter ?hit mounts \<noteq> []" using m by (metis list.distinct(1) list.set_cases)
  then have "snd (last ?ms) = gateAccess (unmatchedGate E path)"
    by (simp add: unmatchedGate_def last_map case_prod_unfold)
  ultimately show ?thesis by simp
qed

lemma answers_router:
  assumes "expressOk E" and "(prefix, g, rs) \<in> set mounts" and "ex_mount E prefix (ib_path ib)"
  shows "answers (gateAccess g) (sessionUser rq s) (w_db (sv_world s)) (router P E ib rq) s"
proof -
  have docs: "\<not> ex_mount E ''/api-docs'' (ib_path ib)"
  proof
    assume "ex_mount E ''/api-docs'' (ib_path ib)"
    moreover have "segments ''/api-docs'' = [''api-docs'']" "list_all plain [''api-docs'']" by code_simp+
    ultimately show False
      using under_comparable [OF express_mount [OF assms(1,3)] express_mount [OF assms(1)]]
        mount_plain [OF mountGates_mem [OF assms(2)]] by metis
  qed
  have user: "sessionUser (rq\<lparr>rq_params := ps\<rparr>) s = sessionUser rq s" for ps
    by (simp add: sessionUser_def headerSession_def)
  show ?thesis
  proof (cases "findRoute E (ib_method ib) (ib_path ib) routeTable")
    case None
    have "answers (gateAccess g) (sessionUser rq s) (w_db (sv_world s))
        (mountWith (unmatchedGate E (ib_path ib)) P (notFoundFallback (ib_url ib)) rq) s"
      by (rule answers_gated [OF gated_mountWith unmatched_covers [OF assms]])
    with None docs show ?thesis by (simp add: router_def answers_headers)
  next
    case (Some x)
    obtain ep ps where x: "x = (ep, ps)" by fastforce
    have "answers (gateAccess g) (sessionUser (rq\<lparr>rq_params := ps\<rparr>) s) (w_db (sv_world s)) (dispatch P ep (rq\<lparr>rq_params := ps\<rparr>)) s"
      by (rule answers_gated [OF gated_dispatch route_covers [OF assms Some [unfolded x]]])
    with Some x docs user show ?thesis by (simp add: router_def answers_headers)
  qed
qed

text \<open>The user the session named in a request is bound to.\<close>

definition inboundUser :: "inbound \<Rightarrow> server \<Rightarrow> string option" where
  "inboundUser ib s = (case asUuid (map_option JString (ib_headers ib ''x-session-id'')) of
     None \<Rightarrow> None | Some sid \<Rightarrow> boundTo s sid)"

lemma answers_requestId:
  assumes "\<And>requestId n. answers a x d (k requestId) (s\<lparr>sv_world := (sv_world s)\<lparr>w_uuidN := n\<rparr>\<rparr>)"
  shows "answers a x d (requestIdMiddleware headers k) s"
proof -
  have "answers a x d (withHeaders hs (k requestId)) (s\<lparr>sv_world := (sv_world s)\<lparr>w_uuidN := n\<rparr>\<rparr>)" for hs requestId n
    by (rule answers_headers [OF assms])
  note this [unfolded answers_def]
  from this [of _ _ "w_uuidN (sv_world s)"] this show ?thesis
    by (auto simp: answers_def requestIdMiddleware_def wp_rules split: option.split)
qed

lemma mounts_no_root:
  assumes "expressOk E" and "(prefix, g, rs) \<in> set mounts" and "ex_mount E prefix path"
  shows "ex_route E ''GET'' ''/'' m path = None"
proof (rule ccontr)
  assume "ex_route E ''GET'' ''/'' m path \<noteq> None"
  then obtain ps where "ex_route E ''GET'' ''/'' m path = Some ps" by blast
  from express_route [OF assms(1) this] have "segments path = []"
    by (simp add: fitsPath_def segments_def)
  moreover have "segments prefix \<noteq> []" using mount_plain [OF mountGates_mem [OF assms(2)]] by simp
  ultimately show False using express_mount [OF assms(1,3)] by (cases "segments prefix") auto
qed

lemma boundTo_world: "boundTo (s\<lparr>sv_world := w\<rparr>) sid = boundTo s sid"
  by (simp add: boundTo_def)

section \<open>An example\<close>

text \<open>Express as it is documented, for an application without bodies, and a request without a session.\<close>

definition exExpress :: express where
  "exExpress = \<lparr>ex_json = (\<lambda>headers text. Some None),
     ex_route = (\<lambda>m pattern m' path.
       if (m' = m \<or> m = ''GET'' \<and> m' = ''HEAD'') \<and> fitsPath (segments pattern) (segments path)
       then Some (map (\<lambda>(p, s). (tl p, s)) (filter (\<lambda>(p, s). isParam p) (zip (segments pattern) (segments path)))) else None),
     ex_mount = (\<lambda>prefix path. under (segments prefix) (segments path)), ex_swagger = (\<lambda>ib. None)\<rparr>"

lemma exExpress_ok: "expressOk exExpress"
  by (auto simp: expressOk_def exExpress_def segments_slashed)

definition exInbound :: "string \<Rightarrow> string \<Rightarrow> inbound" where
  "exInbound method path = \<lparr>ib_method = method, ib_path = path, ib_url = path, ib_headers = (\<lambda>_. None), ib_query = [],
     ib_body = [], ib_ip = None\<rparr>"

text \<open>
  C5: No path gets around the gate of its mount: for a path under any mount of \<open>routes/index.ts\<close>, resolved to one of the
  router's routes or to none, either the session named in the request is bound to a user with the access the mount
  calls for, or the database stays as it was and the request is answered with 204 (a CORS preflight), 400, 401, 403,
  or the 500 of a body that can not be parsed. No error leaves the application: a request that returns is answered.
\<close>

theorem paths_guarded:
  assumes "expressOk E" and "(prefix, g, rs) \<in> set mounts" and "ex_mount E prefix (ib_path ib)"
  shows "case serve P E env ib s of (r, s') \<Rightarrow>
     (grants (gateAccess g) (w_db (sv_world s)) (inboundUser ib s)
        \<or> (\<exists>rs. r = Inr rs \<and> rs_status rs \<in> {204, 400, 401, 403, 500} \<and> w_db (sv_world s') = w_db (sv_world s)))
     \<and> (r = Inl Diverged \<or> (\<exists>rs. r = Inr rs))"
proof -
  have r: "answers (gateAccess g) (inboundUser ib s) (w_db (sv_world s)) (router P E ib rq) (s\<lparr>sv_world := (sv_world s)\<lparr>w_uuidN := n\<rparr>\<rparr>)"
    if "rq_headers rq = ib_headers ib" for rq n
    using answers_router [OF assms, where rq = rq and s = "s\<lparr>sv_world := (sv_world s)\<lparr>w_uuidN := n\<rparr>\<rparr>"] that
    by (simp add: sessionUser_def inboundUser_def headerSession_def boundTo_world cong: option.case_cong)
  have "answers (gateAccess g) (inboundUser ib s) (w_db (sv_world s)) (serve P E env ib) s"
    unfolding serve_def Let_def mounts_no_root [OF assms]
    by (intro answers_requestId answers_headers)
      (auto intro!: answers_headers answers_ret r simp: errorResponse_def split: option.split)
  then have w: "wp (serve P E env ib) (\<lambda>rs s'. guarded (gateAccess g) (inboundUser ib s) (w_db (sv_world s)) (rs_status rs) (w_db (sv_world s')))
      (\<lambda>e s'. e = Diverged \<and> grants (gateAccess g) (w_db (sv_world s)) (inboundUser ib s)) s" by (simp add: answers_def)
  obtain r s' where d: "serve P E env ib s = (r, s')" by fastforce
  with w show ?thesis by (cases r) (auto simp: guarded_def wp_def)
qed

theorem paths_guarded_witness:
  "case serve exPlatform exExpress None (exInbound ''GET'' ''/admin/users/17'') (exServer exDb) of (r, s') \<Rightarrow>
     \<exists>rs. r = Inr rs \<and> w_db (sv_world s') = exDb \<and> rs_status rs \<in> {204, 400, 401, 403, 500}"
proof -
  have m: "(''/admin'', WithAdmin, []) \<in> set mounts" by (simp add: mounts_def)
  have "under (segments ''/admin'') (segments ''/admin/users/17'')" by code_simp
  then have "ex_mount exExpress ''/admin'' (ib_path (exInbound ''GET'' ''/admin/users/17''))"
    by (simp add: exExpress_def exInbound_def)
  from paths_guarded [OF exExpress_ok m this, where P = exPlatform and env = None and s = "exServer exDb"]
  show ?thesis by (auto simp: grants_def inboundUser_def exInbound_def asUuid_def exServer_def exWorld_def)
qed

section \<open>Every route is reached\<close>

text \<open>The literals of the table, and a value for a parameter of a path: not one of them.\<close>

definition routeWords :: "string list" where
  "routeWords = filter (\<lambda>s. \<not> isParam s) (concat (map (\<lambda>(_, pattern, _). segments pattern) routeTable))"

definition isValue :: "string \<Rightarrow> bool" where
  "isValue s \<longleftrightarrow> s \<noteq> [] \<and> CHR ''/'' \<notin> set s \<and> toLowerCase s \<notin> set routeWords"

definition instanceOf :: "string list \<Rightarrow> string list \<Rightarrow> bool" where
  "instanceOf ps ss = list_all2 (\<lambda>p s. if isParam p then isValue s else s = p) ps ss"

fun shadows :: "string list \<Rightarrow> string list \<Rightarrow> bool" where
  "shadows [] [] = True"
| "shadows (q # qs) (p # ps) = (if isParam q \<or> q = p then shadows qs ps else False)"
| "shadows _ _ = False"

fun unshadowed :: "(string \<times> string list) list \<Rightarrow> bool" where
  "unshadowed [] = True"
| "unshadowed ((m, qs) # rs) =
     (list_all (\<lambda>(m', ps). if m = m' then \<not> shadows qs ps else True) rs \<and> unshadowed rs)"

definition routePatterns :: "(string \<times> string list) list" where
  "routePatterns = map (\<lambda>(m, pattern, _). (m, segments pattern)) routeTable"

lemma routes_unshadowed: "unshadowed routePatterns"
  by code_simp

lemma methods_plain: "list_all (\<lambda>(m, ps). m = ''GET'' \<or> m = ''POST'') routePatterns"
  by code_simp

lemma literal_word:
  assumes "(m, pattern, ep) \<in> set routeTable" and "p \<in> set (segments pattern)" and "\<not> isParam p"
  shows "p \<in> set routeWords"
  using assms by (auto simp: routeWords_def)

lemma instance_fits: "instanceOf ps ss \<Longrightarrow> fitsPath ps ss"
  unfolding instanceOf_def fitsPath_def by (erule list_all2_mono) (auto split: if_splits)

text \<open>A pattern that fits an instance of another one shadows it.\<close>

lemma fitsPath_shadows:
  assumes "fitsPath qs ss" and "instanceOf ps ss" and "tidy qs" and "tidy ps" and "\<forall>q \<in> set qs. isParam q \<or> q \<in> set routeWords"
  shows "shadows qs ps"
  using assms
proof (induction qs ps arbitrary: ss rule: shadows.induct)
  case (2 q qs p ps)
  then obtain s ss' where s: "ss = s # ss'" by (cases ss) (auto simp: fitsPath_def)
  from 2(2,3) s have p: "if isParam p then isValue s else s = p" and q: "isParam q \<or> toLowerCase q = toLowerCase s"
    by (auto simp: instanceOf_def fitsPath_def)
  have "q = p" if np: "\<not> isParam q"
  proof -
    have lq: "toLowerCase q = q" using 2(4) np by (simp add: tidy_def plain_lower)
    have "\<not> isParam p" using p q np lq 2(6) by (auto simp: isValue_def)
    moreover from this have "toLowerCase p = p" using 2(5) by (simp add: tidy_def plain_lower)
    ultimately show ?thesis using p q np lq by simp
  qed
  then have c: "isParam q \<or> q = p" by blast
  with 2(1) s have "shadows qs ps" using 2 by (auto simp: fitsPath_def instanceOf_def tidy_def)
  with c show ?case by auto
qed (auto simp: fitsPath_def instanceOf_def)

lemma routes_tidy:
  assumes "(m, pattern, ep) \<in> set routeTable"
  shows "tidy (segments pattern)"
proof -
  have "(segments pattern, accessOf ep) \<in> set routeAccess" using assms by (force simp: routeAccess_def)
  with routes_guarded show ?thesis by (fastforce simp: guardedRoutes_def list_all_iff)
qed

lemma findRoute_first:
  assumes "expressOk E" and "unshadowed (map (\<lambda>(m, pattern, _). (m, segments pattern)) rs)"
    and "set rs \<subseteq> set routeTable" and "(m, pattern, ep) \<in> set rs" and "instanceOf (segments pattern) ss"
    and "\<forall>s \<in> set ss. s \<noteq> [] \<and> CHR ''/'' \<notin> set s" and "m \<noteq> ''HEAD''"
  shows "\<exists>params. findRoute E m (slashed ss) rs = Some (ep, params)"
  using assms(2-4)
proof (induction rs)
  case (Cons r rs)
  obtain m' pattern' ep' where r: "r = (m', pattern', ep')" by (cases r) auto
  show ?case
  proof (cases "(m, pattern, ep) = r")
    case True
    with r express_takes [OF assms(1) instance_fits [OF assms(5)] assms(6)] show ?thesis
      by (metis findRoute.simps(2) option.simps(5))
  next
    case False
    with Cons.prems(3) have later: "(m, pattern, ep) \<in> set rs" by auto
    have t: "(m', pattern', ep') \<in> set routeTable" "(m, pattern, ep) \<in> set routeTable" using Cons.prems(2,3) r by auto
    have "ex_route E m' pattern' m (slashed ss) = None"
    proof (rule ccontr)
      assume "ex_route E m' pattern' m (slashed ss) \<noteq> None"
      then obtain ps where "ex_route E m' pattern' m (slashed ss) = Some ps" by blast
      from express_route [OF assms(1) this] assms(6,7) have f: "m' = m" "fitsPath (segments pattern') ss"
        by (auto simp: segments_slashed)
      have "shadows (segments pattern') (segments pattern)"
        by (rule fitsPath_shadows [OF f(2) assms(5) routes_tidy [OF t(1)] routes_tidy [OF t(2)]])
          (use literal_word [OF t(1)] in blast)
      with Cons.prems(1) later r f(1) show False by (fastforce simp: list_all_iff)
    qed
    moreover have "\<exists>params. findRoute E m (slashed ss) rs = Some (ep, params)"
      using Cons later r by (intro Cons.IH) auto
    ultimately show ?thesis using r by simp
  qed
qed simp

text \<open>
  C6: Every route is reached: a request with the method of a route and a path that instantiates its pattern, with
  parameters that are not words of other patterns, is dispatched to the endpoint of that route; no route registered
  before it takes the request away.
\<close>

theorem route_reached:
  assumes "expressOk E" and "(m, pattern, ep) \<in> set routeTable" and "instanceOf (segments pattern) ss"
    and "\<forall>s \<in> set ss. s \<noteq> [] \<and> CHR ''/'' \<notin> set s"
  shows "\<exists>params. findRoute E m (slashed ss) routeTable = Some (ep, params)"
proof (rule findRoute_first [OF assms(1) _ _ assms(2,3,4)])
  show "unshadowed (map (\<lambda>(m, pattern, _). (m, segments pattern)) routeTable)"
    using routes_unshadowed by (simp add: routePatterns_def)
  have "(m, segments pattern) \<in> set routePatterns" using assms(2) by (force simp: routePatterns_def)
  then show "m \<noteq> ''HEAD''" using methods_plain by (auto simp: list_all_iff)
qed simp

theorem route_reached_witness:
  "\<exists>params. findRoute exExpress ''GET'' ''/transfer/t1'' routeTable = Some (EpPayment GetTransfer, params)"
proof -
  have r: "(''GET'', ''/transfer/:id'', EpPayment GetTransfer) \<in> set routeTable"
    by (simp add: routeTable_def mounts_def transferCustomerRouter_def)
  have i: "instanceOf (segments ''/transfer/:id'') [''transfer'', ''t1'']" by code_simp
  have "slashed [''transfer'', ''t1''] = ''/transfer/t1''" by (simp add: slashed_def)
  with route_reached [OF exExpress_ok r i] show ?thesis by simp
qed

end
