(* ===== verification/Spec2Isabelle.thy ===== *)
theory Spec2Isabelle
  imports PaymentFacts KycOps AccountOps BillOps CardOps Disputes SiOps BeneficiaryOps
    SessionStore HandshakeStore ActionTokens Otp Velocity Identity
    AuditTrail AccountFacts Statements MakerChecker PaymentSecurity
    AccountRoutes CardRoutes PayeeRoutes CustomerRoutes AuditRoutes SecurityRoutes MigrateFacts Seeding
    Server ServerBooks ServerAudit Gates Gestures App
begin

text \<open>
  A model of bankserver (\<open>src/src\<close>), a demonstration bank in TypeScript.
\<close>

section \<open>The example bank takes the example request\<close>

lemma exTransfer_valid:
  "validRequest (exWorld exDb) (exTransfer 100000)
     (exAccount ''a1'' ''SBE-0000000001'' ''ua'' Savings 5000000 50000)
     (exAccount ''b1'' ''SBE-0000000002'' ''ub'' Savings 200000 0)"
proof -
  have b: "bankingAccessError exDb ''ua'' = Inr ()"
    by (simp add: bankingAccess_iff exDb_def exKyc_def exAccount_def)
  have "lc_allowed (checkAggregateLimits 19800000 exDb (myAccountIds exDb ''ua'') 100000 TierFull 1735700000000)"
    by (subst checkAggregateLimits_allowed)
      (simp_all add: myAccountIds_def listAccountsByUserId_def exDb_def exAccount_def sentSince_def exPending_def
        dailyLimitForTier_def monthlyLimitForTier_def DEFAULT_DAILY_LIMIT_MINOR_def DEFAULT_MONTHLY_LIMIT_MINOR_def)
  with b show ?thesis
    by (simp add: validRequest_def Let_def PER_TRANSACTION_MAX_MINOR_def beneficiaryAllows_def exTransfer_def
        limitError_def truthy_def exAccount_def availableBalanceMinor_def minBalanceForType_def)
qed

lemma exWorld_fresh: "freshDraws (exWorld exDb)"
  by (simp add: freshDraws_def exWorld_def exDb_def exPending_def findTransferById_def)

section \<open>Payments\<close>

text \<open>
  C7: A transfer, whatever its outcome, keeps the books: the account, key and double-entry invariants,
  the total of all balances, and for every account the gap between its balance and its ledger entries
  and the gap between its hold and its pending transfers.
\<close>

theorem executeTransfer_keeps_books:
  assumes "booksOk (w_db w)"
  shows "wp (executeTransfer (containerPublish sha) inp)
     (\<lambda>_ w'. sameMoney (w_db w) (w_db w')) (\<lambda>_ w'. sameMoney (w_db w) (w_db w')) w"
proof -
  have "accountsOk (w_db w)" using assms by (simp add: booksOk_def)
  from wp_mono [OF container_bus.executeTransfer_wp [OF this]] show ?thesis
    using transferOutcome_money sameMoney_refl [OF assms] by (metis (mono_tags, lifting))
qed

theorem executeTransfer_keeps_books_witness:
  "wp (executeTransfer (containerPublish rev) (exTransfer 100000))
     (\<lambda>_ w'. sameMoney exDb (w_db w')) (\<lambda>_ w'. sameMoney exDb (w_db w')) (exWorld exDb)"
  using executeTransfer_keeps_books [of "exWorld exDb" rev "exTransfer 100000"]
  by (simp add: exDb_books)

text \<open>
  C8: A transfer with a new idempotency key that returns has moved exactly its amount from the source to
  the account with the given number, a different one, has changed no other balance, and has recorded
  itself as posted. One that throws has either changed nothing but notifications and audit rows, or has done all of
  this (a subscriber threw after the commit).
\<close>

theorem executeTransfer_effect:
  assumes "booksOk (w_db w)" and "priorTransfer (w_db w) (ti_idempotencyKey inp) = None"
  shows "wp (executeTransfer (containerPublish sha) inp)
     (\<lambda>t w'. transferEffect (w_db w) (w_db w') inp t)
     (\<lambda>e w'. w_db w' = w_db w \<or> (\<exists>t. transferEffect (w_db w) (w_db w') inp t)) w"
proof -
  have "accountsOk (w_db w)" using assms by (simp add: booksOk_def)
  from wp_mono [OF container_bus.executeTransfer_wp [OF this]] show ?thesis
    using transferOutcome_effect [OF _ assms] by (metis (mono_tags, lifting))
qed

theorem executeTransfer_effect_witness:
  "wp (executeTransfer (containerPublish rev) (exTransfer 100000))
     (\<lambda>t w'. transferEffect exDb (w_db w') (exTransfer 100000) t)
     (\<lambda>e w'. w_db w' = exDb \<or> (\<exists>t. transferEffect exDb (w_db w') (exTransfer 100000) t)) (exWorld exDb)"
  using executeTransfer_effect [of "exWorld exDb" "exTransfer 100000" rev]
  by (simp add: exDb_books)

text \<open>
  C10: A request whose idempotency key was used before moves nothing: the accounts, transfers, ledger and
  every other table but notifications and the audit log are left as they are, and if it returns, it
  returns the transfer recorded under that key.
\<close>

theorem executeTransfer_idempotent:
  assumes "accountsOk (w_db w)" and "priorTransfer (w_db w) (ti_idempotencyKey inp) = Some t0"
  shows "wp (executeTransfer (containerPublish sha) inp)
     (\<lambda>t w'. t = t0 \<and> bankView (w_db w') = bankView (w_db w))
     (\<lambda>e w'. bankView (w_db w') = bankView (w_db w)) w"
  by (rule wp_mono [OF container_bus.executeTransfer_wp [OF assms(1)]])
    (auto dest: transferOutcome_old [OF _ assms(2)])

theorem executeTransfer_idempotent_witness:
  "wp (executeTransfer (containerPublish rev) (exTransfer 700))
     (\<lambda>t w'. t = exPosted \<and> bankView (w_db w') = bankView exDbPosted)
     (\<lambda>e w'. bankView (w_db w') = bankView exDbPosted) (exWorld exDbPosted)"
  using executeTransfer_idempotent [of "exWorld exDbPosted" "exTransfer 700" exPosted rev]
  by (simp add: exDbPosted_accounts)

text \<open>
  C11: After a transfer made for a user and a tier, everything the user's accounts have sent since the
  start of the day and since the start of the month, this transfer included, is within the tier's daily
  and monthly caps.
\<close>

theorem executeTransfer_within_caps:
  assumes "accountsOk (w_db w)" and "priorTransfer (w_db w) (ti_idempotencyKey inp) = None"
    and "ti_ownerUserId inp = Some u" and "u \<noteq> []" and "ti_kycTier inp = Some tier"
  shows "wp (executeTransfer (containerPublish sha) inp)
     (\<lambda>t w'. withinCaps (w_tz w) (w_db w) u tier (w_clock w (w_clockN w)) (w_db w')) (\<lambda>_ _. True) w"
proof (cases "0 < intOf (ti_amount inp)")
  case True
  then show ?thesis
    by (intro wp_mono [OF container_bus.executeTransfer_wp [OF assms(1)]])
      (auto intro: withinCaps_outcome [OF _ assms(1,2) _ assms(3-5)])
next
  case False
  then show ?thesis
    by (cases "ti_amount inp") (auto simp: executeTransfer_def wp_rules)
qed

theorem executeTransfer_within_caps_witness:
  "wp (executeTransfer (containerPublish rev) (exTransfer 100000))
     (\<lambda>t w'. withinCaps 19800000 exDb ''ua'' TierFull 1735700000000 (w_db w')) (\<lambda>_ _. True) (exWorld exDb)"
  using executeTransfer_within_caps [of "exWorld exDb" "exTransfer 100000" "''ua''" TierFull rev]
  by (simp add: exDb_accounts)

text \<open>
  C12: A request that passes the guards, with fresh identifiers and an unused idempotency key, is never
  refused: the transfer is made (and returned, unless a subscriber throws after the commit).
\<close>

theorem executeTransfer_accepts:
  assumes "validRequest w inp from to" and "accountsOk (w_db w)" and "freshDraws w"
    and "\<forall>k. ti_idempotencyKey inp = Some k \<longrightarrow> findTransferByKey (w_db w) k = None"
  shows "wp (executeTransfer (containerPublish sha) inp)
     (\<lambda>t w'. transferOutcome w inp t (w_db w')) (\<lambda>e w'. \<exists>t. transferOutcome w inp t (w_db w')) w"
  using assms by (rule container_bus.executeTransfer_done)

theorem executeTransfer_accepts_witness:
  "wp (executeTransfer (containerPublish rev) (exTransfer 100000))
     (\<lambda>t w'. transferOutcome (exWorld exDb) (exTransfer 100000) t (w_db w'))
     (\<lambda>e w'. \<exists>t. transferOutcome (exWorld exDb) (exTransfer 100000) t (w_db w')) (exWorld exDb)"
  using executeTransfer_accepts [of "exWorld exDb" "exTransfer 100000"
      "exAccount ''a1'' ''SBE-0000000001'' ''ua'' Savings 5000000 50000"
      "exAccount ''b1'' ''SBE-0000000002'' ''ub'' Savings 200000 0" rev]
  by (simp add: exDb_accounts exTransfer_valid exWorld_fresh)

text \<open>
  C14: A faucet deposit that is made adds exactly its amount to the total, leaves every account
  reconciled with its ledger as it was, and keeps the books; one that fails or repeats an idempotency key
  adds nothing.
\<close>

theorem faucetDeposit_effect:
  assumes "booksOk (w_db w)"
  shows "wp (faucetDeposit (containerPublish sha) inp)
     (\<lambda>t w'. booksOk (w_db w') \<and> drift (w_db w') i = drift (w_db w) i
        \<and> totalBalance (w_db w') = totalBalance (w_db w)
            + (if priorTransfer (w_db w) (fi_idempotencyKey inp) = None then intOf (fi_amount inp) else 0))
     (\<lambda>_ w'. booksOk (w_db w') \<and> drift (w_db w') i = drift (w_db w) i) w"
proof -
  have "booksOk d' \<and> drift d' i = drift (w_db w) i \<and> totalBalance d' = totalBalance (w_db w)
            + (if priorTransfer (w_db w) (fi_idempotencyKey inp) = None then intOf (fi_amount inp) else 0)"
    if "faucetOutcome w inp t d'" for t d'
    by (rule faucetOutcome_books [OF that assms])
  then show ?thesis
    by (intro wp_mono [OF container_bus.faucetDeposit_wp]) (auto simp: assms)
qed

theorem faucetDeposit_effect_witness:
  "wp (faucetDeposit (containerPublish rev)
        \<lparr>fi_toAccountId = ''a1'', fi_amount = JNum 5, fi_currency = INR, fi_memo = None, fi_idempotencyKey = None\<rparr>)
     (\<lambda>t w'. booksOk (w_db w') \<and> drift (w_db w') ''a1'' = drift exDb ''a1''
        \<and> totalBalance (w_db w') = totalBalance exDb + 5)
     (\<lambda>_ w'. booksOk (w_db w') \<and> drift (w_db w') ''a1'' = drift exDb ''a1'') (exWorld exDb)"
  using faucetDeposit_effect [of "exWorld exDb" rev
      "\<lparr>fi_toAccountId = ''a1'', fi_amount = JNum 5, fi_currency = INR, fi_memo = None, fi_idempotencyKey = None\<rparr>" "''a1''"]
  by (simp add: exDb_books)

text \<open>
  C15: A transfer over an interbank rail, instant or deferred, keeps the books as an internal one does; a
  deferred one raises the hold of its source by exactly what its pending transfers will take.
\<close>

theorem executeRailTransfer_keeps_books:
  assumes "booksOk (w_db w)"
  shows "wp (executeRailTransfer (containerPublish sha) inp)
     (\<lambda>_ w'. sameMoney (w_db w) (w_db w')) (\<lambda>_ w'. sameMoney (w_db w) (w_db w')) w"
  using assms by (rule container_bus.executeRailTransfer_wp)

theorem executeRailTransfer_keeps_books_witness:
  "wp (executeRailTransfer (containerPublish rev) exRail)
     (\<lambda>_ w'. sameMoney exDb (w_db w')) (\<lambda>_ w'. sameMoney exDb (w_db w')) (exWorld exDb)"
  using executeRailTransfer_keeps_books [of "exWorld exDb" rev exRail] by (simp add: exDb_books)

text \<open>
  The settlement batch, over any number of pending transfers and with failures in between, keeps the
  books, the total of all balances, the reconciliation of every account and the match of holds with
  pending transfers, provided no pending transfer goes from an account to itself.
\<close>

theorem settlePendingTransfers_keeps_books:
  assumes "booksOk (w_db w)" and "noSelfPending (w_db w)"
  shows "wp (settlePendingTransfers (containerPublish sha) rail)
     (\<lambda>_ w'. settleInv (w_db w) (w_db w')) (\<lambda>_ w'. settleInv (w_db w) (w_db w')) w"
  using assms by (rule container_bus.settlePendingTransfers_wp)

theorem settlePendingTransfers_keeps_books_witness:
  "wp (settlePendingTransfers (containerPublish rev) Neft)
     (\<lambda>_ w'. settleInv exDb (w_db w')) (\<lambda>_ w'. settleInv exDb (w_db w')) (exWorld exDb)"
  using settlePendingTransfers_keeps_books [of "exWorld exDb" rev Neft]
  by (simp add: exDb_books exDb_noSelf)

text \<open>
  A pending transfer from an account to itself, which the rails do not refuse, creates money when it
  is settled: the credit is computed from the account as it was before the debit and overwrites it.
\<close>

theorem settleOne_self_mints:
  assumes "findTransferById (w_db w) (t_id t) = Some t" and "t_status t = Pending" and "accountsOk (w_db w)"
    and "t_toAccountId t = t_fromAccountId t"
  shows "wp (settleOne t) (\<lambda>_ w'. totalBalance (w_db w') = totalBalance (w_db w) + t_amount t)
     (\<lambda>_ w'. w_db w' = w_db w) w"
proof -
  have "totalBalance d = totalBalance (w_db w) + t_amount t"
    if s: "settledTransfer (w_db w) d t now from to" for d now "from" to
  proof -
    have "acc_id from = acc_id to" using s assms(4) by (auto simp: settledTransfer_def)
    with settledTransfer_total [OF s assms(3)] show ?thesis by simp
  qed
  then show ?thesis
    by (intro wp_mono [OF settleOne_settles [OF assms(1,2)]]) auto
qed

theorem settleOne_self_mints_witness:
  "wp (settleOne exSelf) (\<lambda>_ w'. totalBalance (w_db w') = 5200000 + 50000) (\<lambda>_ _. False) (exWorld exDbSelf)"
proof -
  have "wp (settleOne exSelf) (\<lambda>_ w'. totalBalance (w_db w') = totalBalance exDbSelf + 50000)
      (\<lambda>_ w'. w_db w' = exDbSelf) (exWorld exDbSelf)"
    using settleOne_self_mints [of "exWorld exDbSelf" exSelf]
    by (simp add: exDbSelf_accounts exDbSelf_find exSelf_def exPending_def)
  from wp_conj [OF this exDbSelf_runs] show ?thesis
    by (rule wp_mono) (simp_all add: exDbSelf_total)
qed

end
